(* ===== verification/Prelude.thy ===== *)
theory Prelude
  imports Main "HOL-Library.AList"
begin

text \<open>
  The shared base of the development: a sum monad for code that may throw, a state monad with
  exceptions for code that mutates its object and may throw, JavaScript's insertion-ordered
  \<open>Map\<close> as an association list, the generic run of a command list, and the two interfaces
  (locales) that several stores of the repository share.
\<close>

named_theorems act_simps "unfolding rules of the two monads"

section \<open>Code that may throw\<close>

text \<open>A thrown value is \<open>Inl\<close>, a returned value is \<open>Inr\<close>.\<close>

definition bindE :: "'e + 'a \<Rightarrow> ('a \<Rightarrow> 'e + 'b) \<Rightarrow> 'e + 'b" where
  "bindE r f = (case r of Inl e \<Rightarrow> Inl e | Inr x \<Rightarrow> f x)"

text \<open>\<open>if (\<not> b) throw e;\<close>\<close>

definition ensure :: "bool \<Rightarrow> 'e \<Rightarrow> 'e + unit" where
  "ensure b e = (if b then Inr () else Inl e)"

abbreviation thenE :: "'e + 'a \<Rightarrow> 'e + 'b \<Rightarrow> 'e + 'b" where
  "thenE r q \<equiv> bindE r (\<lambda>_. q)"

fun mapE :: "('a \<Rightarrow> 'e + 'b) \<Rightarrow> 'a list \<Rightarrow> 'e + 'b list" where
  "mapE f [] = Inr []"
| "mapE f (x # xs) = bindE (f x) (\<lambda>y. bindE (mapE f xs) (\<lambda>ys. Inr (y # ys)))"

definition isOk :: "'e + 'a \<Rightarrow> bool" where
  "isOk r = (case r of Inl _ \<Rightarrow> False | Inr _ \<Rightarrow> True)"

lemma bindE_simps [simp]:
  "bindE (Inl e) f = Inl e"
  "bindE (Inr x) f = f x"
  by (simp_all add: bindE_def)

lemma bindE_eq_Inr: "bindE r f = Inr y \<longleftrightarrow> (\<exists>x. r = Inr x \<and> f x = Inr y)"
  by (cases r) auto

lemma bindE_eq_Inl: "bindE r f = Inl e \<longleftrightarrow> r = Inl e \<or> (\<exists>x. r = Inr x \<and> f x = Inl e)"
  by (cases r) auto

lemma ensure_simps [simp]:
  "ensure True e = Inr ()"
  "ensure False e = Inl e"
  by (simp_all add: ensure_def)

lemma ensure_eq_Inr [simp]: "ensure b e = Inr u \<longleftrightarrow> b"
  by (simp add: ensure_def)

lemma ensure_eq_Inl [simp]: "ensure b e = Inl e' \<longleftrightarrow> \<not> b \<and> e' = e"
  by (auto simp: ensure_def)

lemma isOk_simps [simp]:
  "isOk (Inr x)"
  "\<not> isOk (Inl e)"
  by (simp_all add: isOk_def)

lemma isOk_iff: "isOk r \<longleftrightarrow> (\<exists>x. r = Inr x)"
  by (cases r) auto

lemma isOk_ensure [simp]: "isOk (ensure b e) = b"
  by (simp add: ensure_def)

lemma isOk_bindE: "isOk (bindE r f) \<longleftrightarrow> (\<exists>x. r = Inr x \<and> isOk (f x))"
  by (cases r) auto

lemma projr_ok: "isOk r \<Longrightarrow> r = Inr (projr r)"
  by (cases r) simp_all

lemma mapE_cong [fundef_cong]:
  "xs = ys \<Longrightarrow> (\<And>x. x \<in> set ys \<Longrightarrow> f x = g x) \<Longrightarrow> mapE f xs = mapE g ys"
  by (induction ys arbitrary: xs) auto

lemma mapE_length: "mapE f xs = Inr ys \<Longrightarrow> length ys = length xs"
  by (induction xs arbitrary: ys) (auto simp: bindE_eq_Inr)

lemma mapE_same:
  assumes "\<And>x y. f x = Inr y \<Longrightarrow> y = x"
  shows "mapE f xs = Inr ys \<Longrightarrow> ys = xs"
  using assms by (induction xs arbitrary: ys) (auto simp: bindE_eq_Inr)

lemma mapE_ok: "mapE f xs = Inr ys \<Longrightarrow> x \<in> set xs \<Longrightarrow> \<exists>y. f x = Inr y"
  by (induction xs arbitrary: ys) (auto simp: bindE_eq_Inr)

section \<open>Code that mutates its object and may throw\<close>

text \<open>
  A method of a class is a function from the object's state to what it returned or threw and the
  state it left. A throw keeps the mutations made before it, as in JavaScript.
\<close>

type_synonym ('s, 'e, 'a) act = "'s \<Rightarrow> ('e + 'a) \<times> 's"

definition retA :: "'a \<Rightarrow> ('s, 'e, 'a) act" where
  "retA x = (\<lambda>s. (Inr x, s))"

definition throwA :: "'e \<Rightarrow> ('s, 'e, 'a) act" where
  "throwA e = (\<lambda>s. (Inl e, s))"

definition liftA :: "'e + 'a \<Rightarrow> ('s, 'e, 'a) act" where
  "liftA r = (\<lambda>s. (r, s))"

definition getsA :: "('s \<Rightarrow> 'a) \<Rightarrow> ('s, 'e, 'a) act" where
  "getsA f = (\<lambda>s. (Inr (f s), s))"

definition modifyA :: "('s \<Rightarrow> 's) \<Rightarrow> ('s, 'e, unit) act" where
  "modifyA f = (\<lambda>s. (Inr (), f s))"

definition bindA :: "('s, 'e, 'a) act \<Rightarrow> ('a \<Rightarrow> ('s, 'e, 'b) act) \<Rightarrow> ('s, 'e, 'b) act" where
  "bindA m f = (\<lambda>s. case m s of (Inl e, s') \<Rightarrow> (Inl e, s') | (Inr x, s') \<Rightarrow> f x s')"

abbreviation thenA :: "('s, 'e, 'a) act \<Rightarrow> ('s, 'e, 'b) act \<Rightarrow> ('s, 'e, 'b) act" where
  "thenA m k \<equiv> bindA m (\<lambda>_. k)"

text \<open>\<open>try { m } catch (e) { h e }\<close> and \<open>try { m } finally { f }\<close>.\<close>

definition catchA :: "('s, 'e, 'a) act \<Rightarrow> ('e \<Rightarrow> ('s, 'e, 'a) act) \<Rightarrow> ('s, 'e, 'a) act" where
  "catchA m h = (\<lambda>s. case m s of (Inl e, s') \<Rightarrow> h e s' | (Inr x, s') \<Rightarrow> (Inr x, s'))"

definition finallyA :: "('s, 'e, 'a) act \<Rightarrow> ('s \<Rightarrow> 's) \<Rightarrow> ('s, 'e, 'a) act" where
  "finallyA m f = (\<lambda>s. case m s of (r, s') \<Rightarrow> (r, f s'))"

definition ensureA :: "bool \<Rightarrow> 'e \<Rightarrow> ('s, 'e, unit) act" where
  "ensureA b e = (\<lambda>s. if b then (Inr (), s) else (Inl e, s))"

text \<open>\<open>const x = lookup; if (x === undefined) throw e;\<close>\<close>

definition requireA :: "'a option \<Rightarrow> 'e \<Rightarrow> ('s, 'e, 'a) act" where
  "requireA x e = (\<lambda>s. case x of None \<Rightarrow> (Inl e, s) | Some y \<Rightarrow> (Inr y, s))"

lemma act_apply [simp, act_simps]:
  "retA x s = (Inr x, s)"
  "throwA e s = (Inl e, s)"
  "liftA r s = (r, s)"
  "getsA f s = (Inr (f s), s)"
  "modifyA g s = (Inr (), g s)"
  by (simp_all add: retA_def throwA_def liftA_def getsA_def modifyA_def)

lemma bindA_run [act_simps]:
  "bindA m f s = (case m s of (Inl e, s') \<Rightarrow> (Inl e, s') | (Inr x, s') \<Rightarrow> f x s')"
  by (simp add: bindA_def)

lemma catchA_run [act_simps]:
  "catchA m h s = (case m s of (Inl e, s') \<Rightarrow> h e s' | (Inr x, s') \<Rightarrow> (Inr x, s'))"
  by (simp add: catchA_def)

lemma finallyA_run [act_simps]:
  "finallyA m f s = (case m s of (r, s') \<Rightarrow> (r, f s'))"
  by (simp add: finallyA_def)

lemma ensureA_run [act_simps]:
  "ensureA b e s = (if b then (Inr (), s) else (Inl e, s))"
  by (simp add: ensureA_def)

lemma requireA_run [act_simps]:
  "requireA x e s = (case x of None \<Rightarrow> (Inl e, s) | Some y \<Rightarrow> (Inr y, s))"
  by (simp add: requireA_def)

lemma bindA_ret [simp]: "bindA (retA x) f = f x"
  by (rule ext) (simp add: bindA_def)

lemma bindA_throw [simp]: "bindA (throwA e) f = throwA e"
  by (rule ext) (simp add: bindA_def)

lemma bindA_getsA [simp]: "bindA (getsA g) f s = f (g s) s"
  by (simp add: bindA_def)

lemma bindA_modifyA [simp]: "bindA (modifyA g) f s = f () (g s)"
  by (simp add: bindA_def)

lemma bindA_eq_Inr:
  "bindA m f s = (Inr y, t) \<longleftrightarrow> (\<exists>x u. m s = (Inr x, u) \<and> f x u = (Inr y, t))"
  by (cases "m s"; cases "fst (m s)") (auto simp: bindA_def)

lemma bindA_eq_Inl:
  "bindA m f s = (Inl e, t) \<longleftrightarrow>
     m s = (Inl e, t) \<or> (\<exists>x u. m s = (Inr x, u) \<and> f x u = (Inl e, t))"
  by (cases "m s"; cases "fst (m s)") (auto simp: bindA_def)

lemma ensureA_eq_Inr [simp]: "ensureA b e s = (Inr u, t) \<longleftrightarrow> b \<and> t = s"
  by (auto simp: ensureA_def)

lemma ensureA_eq_Inl [simp]: "ensureA b e s = (Inl e', t) \<longleftrightarrow> \<not> b \<and> e' = e \<and> t = s"
  by (auto simp: ensureA_def)

lemma requireA_eq_Inr [simp]: "requireA x e s = (Inr y, t) \<longleftrightarrow> x = Some y \<and> t = s"
  by (auto simp: requireA_def split: option.splits)

lemma requireA_eq_Inl [simp]: "requireA x e s = (Inl e', t) \<longleftrightarrow> x = None \<and> e' = e \<and> t = s"
  by (auto simp: requireA_def split: option.splits)

text \<open>
  \<open>keepsA P m\<close>: from a state with \<open>P\<close> the action leaves a state with \<open>P\<close>, whether it
  returned or threw. The rules follow the shape of the action.
\<close>

definition keepsA :: "('s \<Rightarrow> bool) \<Rightarrow> ('s, 'e, 'a) act \<Rightarrow> bool" where
  "keepsA P m \<longleftrightarrow> (\<forall>s. P s \<longrightarrow> P (snd (m s)))"

named_theorems keeps "preservation rules for actions"

lemma keepsA_D: "keepsA P m \<Longrightarrow> P s \<Longrightarrow> P (snd (m s))"
  by (simp add: keepsA_def)

lemma keepsA_I: "(\<And>s. P s \<Longrightarrow> P (snd (m s))) \<Longrightarrow> keepsA P m"
  by (simp add: keepsA_def)

lemma keepsA_ret [keeps, intro]: "keepsA P (retA x)" by (simp add: keepsA_def)
lemma keepsA_throw [keeps, intro]: "keepsA P (throwA x)" by (simp add: keepsA_def)
lemma keepsA_lift [keeps, intro]: "keepsA P (liftA x)" by (simp add: keepsA_def)
lemma keepsA_gets [keeps, intro]: "keepsA P (getsA x)" by (simp add: keepsA_def)
lemma keepsA_ensure [keeps, intro]: "keepsA P (ensureA b e)"
  by (simp add: keepsA_def ensureA_def)
lemma keepsA_require [keeps, intro]: "keepsA P (requireA x e)"
  by (simp add: keepsA_def requireA_def split: option.splits)

lemma keepsA_bind [keeps]:
  assumes "keepsA P m" and "\<And>x. keepsA P (f x)"
  shows "keepsA P (bindA m f)"
  using assms by (fastforce simp: keepsA_def bindA_def split: prod.splits sum.splits)

lemma keepsA_catch [keeps]:
  assumes "keepsA P m" and "\<And>e. keepsA P (h e)"
  shows "keepsA P (catchA m h)"
  using assms by (fastforce simp: keepsA_def catchA_def split: prod.splits sum.splits)

text \<open>What an action returned is known to the rest of the body.\<close>

lemma keepsA_bind_learn:
  assumes "\<And>s x t. P s \<Longrightarrow> m s = (Inr x, t) \<Longrightarrow> Q x t" and "\<And>s e t. P s \<Longrightarrow> m s = (Inl e, t) \<Longrightarrow> P t"
    and "\<And>x t. Q x t \<Longrightarrow> P (snd (f x t))"
  shows "keepsA P (bindA m f)"
proof (rule keepsA_I)
  fix s assume "P s"
  then show "P (snd (bindA m f s))"
    using assms by (cases "m s"; cases "fst (m s)") (auto simp: bindA_def)
qed

lemma keepsA_if [keeps]: "keepsA P m \<Longrightarrow> keepsA P n \<Longrightarrow> keepsA P (if b then m else n)"
  by simp

text \<open>The action for its effect only, and rules for the cases a body distinguishes.\<close>

definition voidA :: "('s, 'e, 'a) act \<Rightarrow> ('s, 'e, unit) act" where
  "voidA m = bindA m (\<lambda>_. retA ())"

lemma snd_voidA [simp]: "snd (voidA m s) = snd (m s)"
  by (cases "m s"; cases "fst (m s)") (auto simp: voidA_def bindA_def)

lemma keepsA_voidA: "keepsA P m \<Longrightarrow> keepsA P (voidA m)"
  by (simp add: keepsA_def)

lemma pair_keeps [keeps]: "(\<And>a b. keepsA P (m a b)) \<Longrightarrow> keepsA P (case p of (a, b) \<Rightarrow> m a b)"
  by (cases p) simp

lemma pair_fun_keeps [keeps]: "(\<And>a b. keepsA P (m a b y)) \<Longrightarrow> keepsA P ((case p of (a, b) \<Rightarrow> m a b) y)"
  by (cases p) simp

lemma option_keeps [keeps]:
  "keepsA P m \<Longrightarrow> (\<And>x. keepsA P (n x)) \<Longrightarrow> keepsA P (case v of None \<Rightarrow> m | Some x \<Rightarrow> n x)"
  by (cases v) simp_all

lemma let_keeps [keeps]: "(\<And>x. keepsA P (f x)) \<Longrightarrow> keepsA P (let x = v in f x)"
  by simp

lemma bindA_assoc: "bindA (bindA m f) g = bindA m (\<lambda>x. bindA (f x) g)"
  by (rule ext) (auto simp: bindA_def split: prod.split sum.split)

text \<open>
  The same for one run of the action, one check at a time: after a check that only reads, the rest
  runs from the same state and knows what the check found.
\<close>

named_theorems after "stepping rules: what holds of the state an action leaves"

lemma after_lift [after]:
  "P s \<Longrightarrow> (\<And>x. r = Inr x \<Longrightarrow> P (snd (f x s))) \<Longrightarrow> P (snd (bindA (liftA r) f s))"
  by (cases r) (simp_all add: bindA_def)

lemma after_ensure [after]:
  "P s \<Longrightarrow> (b \<Longrightarrow> P (snd (f () s))) \<Longrightarrow> P (snd (bindA (ensureA b e) f s))"
  by (simp add: bindA_def ensureA_def)

lemma after_gets [after]: "P (snd (f (g s) s)) \<Longrightarrow> P (snd (bindA (getsA g) f s))"
  by simp

lemma after_require [after]:
  "P s \<Longrightarrow> (\<And>x. r = Some x \<Longrightarrow> P (snd (f x s))) \<Longrightarrow> P (snd (bindA (requireA r e) f s))"
  by (cases r) (simp_all add: bindA_def requireA_def)

lemma after_ret [after]: "P (snd (m s)) \<Longrightarrow> P (snd (bindA m (\<lambda>_. retA x) s))"
  by (cases "m s"; cases "fst (m s)") (auto simp: bindA_def)

text \<open>A part that leaves the state alone.\<close>

definition reads :: "('s, 'e, 'a) act \<Rightarrow> bool" where
  "reads m \<longleftrightarrow> (\<forall>s. snd (m s) = s)"

lemma after_reads:
  "reads m \<Longrightarrow> P s \<Longrightarrow> (\<And>x. m s = (Inr x, s) \<Longrightarrow> P (snd (f x s))) \<Longrightarrow> P (snd (bindA m f s))"
  by (cases "m s"; cases "fst (m s)") (auto simp: reads_def bindA_def dest: spec [of _ s])

lemma reads_basic [simp]:
  "reads (retA x)" "reads (throwA e)" "reads (liftA r)" "reads (getsA g)" "reads (ensureA b e)"
  "reads (requireA v e)" "reads (\<lambda>s. (h s, s))"
  by (simp_all add: reads_def ensureA_def requireA_def split: option.split)

lemma reads_bind: "reads m \<Longrightarrow> (\<And>x. reads (f x)) \<Longrightarrow> reads (bindA m f)"
  by (auto simp: reads_def bindA_def split: prod.split sum.split) (metis snd_conv)+

lemma after_then_reads:
  "P (snd (m s)) \<Longrightarrow> (\<And>x. reads (f x)) \<Longrightarrow> P (snd (bindA m f s))"
  by (cases "m s"; cases "fst (m s)") (auto simp: reads_def bindA_def)

lemma reads_state [simp]:
  "reads (\<lambda>s. ensureA (c s) e s)" "reads (\<lambda>s. requireA (v s) e s)"
  by (simp_all add: reads_def ensureA_def requireA_def split: option.split)

lemma reads_if [simp]: "reads m \<Longrightarrow> reads n \<Longrightarrow> reads (if b then m else n)"
  by simp

section \<open>JavaScript's Map\<close>

text \<open>
  A \<open>Map\<close> iterates in insertion order, and \<open>set\<close> on a present key keeps the key's
  place. \<open>AList.update\<close> does exactly that on an association list with distinct keys.
\<close>

type_synonym ('k, 'v) jsmap = "('k \<times> 'v) list"

definition jm_get :: "('k, 'v) jsmap \<Rightarrow> 'k \<Rightarrow> 'v option" where
  "jm_get m k = map_of m k"

definition jm_set :: "('k, 'v) jsmap \<Rightarrow> 'k \<Rightarrow> 'v \<Rightarrow> ('k, 'v) jsmap" where
  "jm_set m k v = AList.update k v m"

definition jm_has :: "('k, 'v) jsmap \<Rightarrow> 'k \<Rightarrow> bool" where
  "jm_has m k = (map_of m k \<noteq> None)"

definition jm_delete :: "('k, 'v) jsmap \<Rightarrow> 'k \<Rightarrow> ('k, 'v) jsmap" where
  "jm_delete m k = AList.delete k m"

definition jm_values :: "('k, 'v) jsmap \<Rightarrow> 'v list" where
  "jm_values m = map snd m"

definition jm_ok :: "('k, 'v) jsmap \<Rightarrow> bool" where
  "jm_ok m = distinct (map fst m)"

lemma jm_get_set [simp]: "jm_get (jm_set m k v) = (jm_get m)(k \<mapsto> v)"
  by (rule ext) (simp add: jm_get_def jm_set_def update_conv)

lemma jm_get_Nil [simp]: "jm_get [] k = None"
  by (simp add: jm_get_def)

lemma jm_get_delete [simp]: "jm_get (jm_delete m k) = (jm_get m)(k := None)"
  by (rule ext) (simp add: jm_get_def jm_delete_def delete_conv)

lemma jm_has_iff [simp]: "jm_has m k \<longleftrightarrow> jm_get m k \<noteq> None"
  by (simp add: jm_has_def jm_get_def)

lemma jm_ok_Nil [simp]: "jm_ok []"
  by (simp add: jm_ok_def)

lemma jm_ok_set [simp]: "jm_ok m \<Longrightarrow> jm_ok (jm_set m k v)"
  by (simp add: jm_ok_def jm_set_def distinct_update)

lemma jm_ok_delete [simp]: "jm_ok m \<Longrightarrow> jm_ok (jm_delete m k)"
  by (simp add: jm_ok_def jm_delete_def distinct_delete)

lemma jm_values_iff: "jm_ok m \<Longrightarrow> v \<in> set (jm_values m) \<longleftrightarrow> (\<exists>k. jm_get m k = Some v)"
  by (force simp: jm_ok_def jm_values_def jm_get_def dest: map_of_SomeD)

lemma jm_get_in_values: "jm_get m k = Some v \<Longrightarrow> v \<in> set (jm_values m)"
  by (force simp: jm_values_def jm_get_def dest: map_of_SomeD)

lemma jm_set_triv: "jm_get m k = Some v \<Longrightarrow> jm_set m k v = m"
  by (simp add: jm_get_def jm_set_def update_triv)

lemma jm_values_set_new: "jm_get m k = None \<Longrightarrow> jm_values (jm_set m k v) = jm_values m @ [v]"
  by (induction m) (auto simp: jm_get_def jm_set_def jm_values_def split: if_splits)

lemma jm_values_set_sub: "set (jm_values (jm_set m k v)) \<subseteq> insert v (set (jm_values m))"
  by (induction m) (auto simp: jm_set_def jm_values_def)

text \<open>The fingerprints of an operation log that keeps results beside them.\<close>

definition op_prints :: "('k, 'f \<times> 'r) jsmap \<Rightarrow> ('k, 'f) jsmap" where
  "op_prints m = map (\<lambda>(k, f, r). (k, f)) m"

lemma op_prints_get [simp]: "jm_get (op_prints m) k = map_option fst (jm_get m k)"
  by (induction m) (auto simp: op_prints_def jm_get_def)

lemma op_prints_set [simp]: "op_prints (jm_set m k (f, r)) = jm_set (op_prints m) k f"
  by (induction m) (auto simp: op_prints_def jm_set_def)

section \<open>Runs of a command list\<close>

text \<open>Commands one after the other; a command that throws leaves its state to the next.\<close>

fun run_all :: "('c \<Rightarrow> ('s, 'e, 'r) act) \<Rightarrow> 'c list \<Rightarrow> 's \<Rightarrow> 's" where
  "run_all step [] s = s"
| "run_all step (c # cs) s = run_all step cs (snd (step c s))"

lemma run_all_append: "run_all step (xs @ ys) s = run_all step ys (run_all step xs s)"
  by (induction xs arbitrary: s) auto

text \<open>The contract of a component with an invariant: every operation keeps it.\<close>

locale guarded_machine =
  fixes step :: "'c \<Rightarrow> ('s, 'e, 'r) act"
    and inv :: "'s \<Rightarrow> bool"
  assumes step_keeps: "inv s \<Longrightarrow> inv (snd (step c s))"
begin

lemma run_keeps: "inv s \<Longrightarrow> inv (run_all step cs s)"
  by (induction cs arbitrary: s) (auto intro: step_keeps)

end

text \<open>The same for a component whose invariant needs commands that are legal.\<close>

locale lawful_machine =
  fixes step :: "'c \<Rightarrow> ('s, 'e, 'r) act"
    and inv :: "'s \<Rightarrow> bool"
    and legal :: "'c \<Rightarrow> bool"
  assumes keeps_inv: "inv s \<Longrightarrow> legal c \<Longrightarrow> inv (snd (step c s))"
begin

lemma lawful_run: "inv s \<Longrightarrow> list_all legal cs \<Longrightarrow> inv (run_all step cs s)"
  by (induction cs arbitrary: s) (simp_all add: keeps_inv)

text \<open>A relation between states that every legal command stays in, as long as the invariant holds.\<close>

lemma lawful_related:
  assumes "\<And>s c. inv s \<Longrightarrow> legal c \<Longrightarrow> R s (snd (step c s))" and "\<And>s. R s s"
    and "\<And>s t u. R s t \<Longrightarrow> R t u \<Longrightarrow> R s u" and "inv s" and "list_all legal cs"
  shows "R s (run_all step cs s)"
  using assms(4,5)
proof (induction cs arbitrary: s)
  case Nil
  then show ?case by (simp add: assms(2))
next
  case (Cons c cs)
  then show ?case using assms(1) [of s c] Cons.IH [of "snd (step c s)"] keeps_inv [of s c] assms(3) by auto
qed

end

text \<open>
  A machine that implements an abstract one: on commands that are legal, and in states that keep the
  invariant, what the machine shows after a command is what the specification makes of what it showed before.
\<close>

locale refinement = lawful_machine step inv legal
  for step :: "'c \<Rightarrow> ('s, 'e, 'r) act" and inv :: "'s \<Rightarrow> bool" and legal :: "'c \<Rightarrow> bool" +
  fixes spec :: "'c \<Rightarrow> 'a \<Rightarrow> 'a"
    and view :: "'s \<Rightarrow> 'a"
  assumes refines: "inv s \<Longrightarrow> legal c \<Longrightarrow> view (snd (step c s)) = spec c (view s)"
begin

lemma run_refines:
  "inv s \<Longrightarrow> list_all legal cs \<Longrightarrow> view (run_all step cs s) = fold spec cs (view s)"
  by (induction cs arbitrary: s) (simp_all add: keeps_inv refines)

end

text \<open>
  The contract of a store with an operation log (the in-memory stores of the organization, the
  directory and the workforce access modules share it): an operation id that is already logged
  never changes the state; with the same fingerprint it is a replay, with another one a conflict;
  a fresh command that succeeds logs its fingerprint, one that fails changes nothing.
\<close>

locale idempotent_store =
  fixes commit :: "'c \<Rightarrow> ('s, 'e, bool) act"
    and op_id :: "'c \<Rightarrow> string"
    and fprint :: "'c \<Rightarrow> string"
    and oplog :: "'s \<Rightarrow> (string, string) jsmap"
    and conflict :: 'e
  assumes replay: "jm_get (oplog s) (op_id c) = Some (fprint c) \<Longrightarrow> commit c s = (Inr True, s)"
    and clash: "jm_get (oplog s) (op_id c) = Some f \<Longrightarrow> f \<noteq> fprint c \<Longrightarrow>
      commit c s = (Inl conflict, s)"
    and fresh_ok: "jm_get (oplog s) (op_id c) = None \<Longrightarrow> commit c s = (Inr b, t) \<Longrightarrow>
      \<not> b \<and> oplog t = jm_set (oplog s) (op_id c) (fprint c)"
    and fail_same: "commit c s = (Inl e, t) \<Longrightarrow> t = s"
begin

lemma commit_logs: "commit c s = (Inr b, t) \<Longrightarrow> jm_get (oplog t) (op_id c) = Some (fprint c)"
proof (cases "jm_get (oplog s) (op_id c)")
  case None
  assume "commit c s = (Inr b, t)"
  with None fresh_ok show ?thesis by simp
next
  case (Some f)
  assume c: "commit c s = (Inr b, t)"
  show ?thesis
  proof (cases "f = fprint c")
    case True
    with Some c replay [of s c] show ?thesis by simp
  next
    case False
    with Some c clash [of s c f] show ?thesis by simp
  qed
qed

lemma commit_twice: "commit c s = (Inr b, t) \<Longrightarrow> commit c t = (Inr True, t)"
  by (rule replay) (rule commit_logs)

lemma commit_log_mono:
  assumes "jm_get (oplog s) k = Some f"
  shows "jm_get (oplog (snd (commit c s))) k = Some f"
proof (cases "commit c s")
  case (Pair r t)
  show ?thesis
  proof (cases r)
    case (Inl e)
    with Pair fail_same assms show ?thesis by fastforce
  next
    case (Inr b)
    show ?thesis
    proof (cases "jm_get (oplog s) (op_id c)")
      case None
      with Pair Inr assms fresh_ok [OF None, of b t] show ?thesis by auto
    next
      case (Some g)
      then show ?thesis
        using Pair Inr assms replay [of s c] clash [of s c g] by (cases "g = fprint c") auto
    qed
  qed
qed

lemma run_log_mono:
  "jm_get (oplog s) k = Some f \<Longrightarrow> jm_get (oplog (run_all commit cs s)) k = Some f"
  by (induction cs arbitrary: s) (auto intro: commit_log_mono)

text \<open>A command that once succeeded is a replay after any later commands, and changes nothing.\<close>

lemma commit_replays_forever:
  assumes "commit c s = (Inr b, t)"
  shows "commit c (run_all commit cs t) = (Inr True, run_all commit cs t)"
  by (rule replay) (rule run_log_mono, rule commit_logs, rule assms)

text \<open>And an operation id that succeeded is never accepted with another fingerprint.\<close>

lemma commit_clash_forever:
  assumes "commit c s = (Inr b, t)" and "op_id d = op_id c" and "fprint d \<noteq> fprint c"
  shows "commit d (run_all commit cs t) = (Inl conflict, run_all commit cs t)"
proof (rule clash)
  show "jm_get (oplog (run_all commit cs t)) (op_id d) = Some (fprint c)"
    using run_log_mono [OF commit_logs [OF assms(1)]] assms(2) by simp
  show "fprint c \<noteq> fprint d" using assms(3) by simp
qed

end

end
