(* ===== verification/JsLib.thy ===== *)
theory JsLib
  imports Prelude Complex_Main
begin

text \<open>
  What the repository uses of JavaScript's standard library: numbers with \<open>NaN\<close> and the
  infinities, the character classes and shapes of its regular expressions, ISO timestamps, and
  stable sorting. A string is a list of characters; the model's characters are the code units
  below 256, so \<open>length\<close> is JavaScript's \<open>length\<close> on them. A finite number is the
  rational it denotes: arithmetic is exact, the rounding of doubles is not modelled (it is the
  identity on the safe integers the code works with).
\<close>

section \<open>Numbers\<close>

datatype jsnum = Fin rat | NaN | PosInf | NegInf

definition max_safe :: int where
  "max_safe = 9007199254740991"

definition max_safe_rat :: rat where
  "max_safe_rat = 9007199254740991"

lemma max_safe_rat: "max_safe_rat = of_int max_safe"
  by (simp add: max_safe_rat_def max_safe_def)

definition isFinite :: "jsnum \<Rightarrow> bool" where
  "isFinite n = (case n of Fin q \<Rightarrow> True | _ \<Rightarrow> False)"

definition isInteger :: "jsnum \<Rightarrow> bool" where
  "isInteger n = (case n of Fin q \<Rightarrow> of_int \<lfloor>q\<rfloor> = q | _ \<Rightarrow> False)"

definition isSafeInteger :: "jsnum \<Rightarrow> bool" where
  "isSafeInteger n = (case n of
     Fin q \<Rightarrow> of_int \<lfloor>q\<rfloor> = q \<and> \<bar>q\<bar> \<le> max_safe_rat
   | _ \<Rightarrow> False)"

text \<open>The integer a number that passed \<open>isInteger\<close> denotes.\<close>

definition num_int :: "jsnum \<Rightarrow> int" where
  "num_int n = (case n of Fin q \<Rightarrow> \<lfloor>q\<rfloor> | _ \<Rightarrow> 0)"

text \<open>\<open>a < b\<close>: false as soon as one side is \<open>NaN\<close>. \<open>a <= b\<close> is not its negation.\<close>

fun num_lt :: "jsnum \<Rightarrow> jsnum \<Rightarrow> bool" where
  "num_lt NaN b = False"
| "num_lt a NaN = False"
| "num_lt (Fin p) (Fin q) = (p < q)"
| "num_lt NegInf NegInf = False"
| "num_lt NegInf b = True"
| "num_lt a PosInf = (a \<noteq> PosInf)"
| "num_lt PosInf b = False"
| "num_lt (Fin p) NegInf = False"

fun num_add :: "jsnum \<Rightarrow> jsnum \<Rightarrow> jsnum" where
  "num_add (Fin p) (Fin q) = Fin (p + q)"
| "num_add NaN b = NaN"
| "num_add a NaN = NaN"
| "num_add PosInf NegInf = NaN"
| "num_add NegInf PosInf = NaN"
| "num_add PosInf b = PosInf"
| "num_add a PosInf = PosInf"
| "num_add NegInf b = NegInf"
| "num_add a NegInf = NegInf"

definition num_neg :: "jsnum \<Rightarrow> jsnum" where
  "num_neg a = (case a of Fin p \<Rightarrow> Fin (- p) | NaN \<Rightarrow> NaN | PosInf \<Rightarrow> NegInf | NegInf \<Rightarrow> PosInf)"

definition num_inf :: "rat \<Rightarrow> jsnum \<Rightarrow> jsnum" where
  "num_inf p i = (if p = 0 then NaN else if 0 < p then i else num_neg i)"

fun num_mul :: "jsnum \<Rightarrow> jsnum \<Rightarrow> jsnum" where
  "num_mul (Fin p) (Fin q) = Fin (p * q)"
| "num_mul NaN b = NaN"
| "num_mul a NaN = NaN"
| "num_mul (Fin p) i = num_inf p i"
| "num_mul i (Fin p) = num_inf p i"
| "num_mul PosInf PosInf = PosInf"
| "num_mul NegInf NegInf = PosInf"
| "num_mul PosInf NegInf = NegInf"
| "num_mul NegInf PosInf = NegInf"

text \<open>\<open>Math.min\<close> and \<open>Math.max\<close> are \<open>NaN\<close> as soon as one argument is.\<close>

definition num_min :: "jsnum \<Rightarrow> jsnum \<Rightarrow> jsnum" where
  "num_min a b = (if a = NaN \<or> b = NaN then NaN else if num_lt b a then b else a)"

definition num_max :: "jsnum \<Rightarrow> jsnum \<Rightarrow> jsnum" where
  "num_max a b = (if a = NaN \<or> b = NaN then NaN else if num_lt a b then b else a)"

text \<open>\<open>Math.round\<close> rounds halves up.\<close>

definition num_round :: "jsnum \<Rightarrow> jsnum" where
  "num_round a = (case a of Fin p \<Rightarrow> Fin (of_int \<lfloor>p + 1 / 2\<rfloor>) | _ \<Rightarrow> a)"

lemma isSafeInteger_Fin: "isSafeInteger n \<Longrightarrow> n = Fin (of_int (num_int n))"
  by (cases n) (auto simp: isSafeInteger_def num_int_def)

lemma isSafeInteger_bounds: "isSafeInteger n \<Longrightarrow> \<bar>num_int n\<bar> \<le> max_safe"
proof (cases n)
  case (Fin q)
  assume "isSafeInteger n"
  with Fin have q: "of_int \<lfloor>q\<rfloor> = q" and le: "\<bar>q\<bar> \<le> of_int max_safe"
    by (simp_all add: isSafeInteger_def max_safe_rat)
  have "of_int \<bar>\<lfloor>q\<rfloor>\<bar> = \<bar>q\<bar>" by (metis of_int_abs q)
  with le have "of_int \<bar>\<lfloor>q\<rfloor>\<bar> \<le> (of_int max_safe :: rat)" by simp
  then have "\<bar>\<lfloor>q\<rfloor>\<bar> \<le> max_safe" by (rule of_int_le_iff [THEN iffD1])
  with Fin show ?thesis by (simp add: num_int_def)
qed (auto simp: isSafeInteger_def)

lemma isSafeInteger_of_int [simp]: "isSafeInteger (Fin (of_int i)) \<longleftrightarrow> \<bar>i\<bar> \<le> max_safe"
proof -
  have "\<bar>of_int i\<bar> \<le> (of_int max_safe :: rat) \<longleftrightarrow> \<bar>i\<bar> \<le> max_safe"
    by (metis of_int_abs of_int_le_iff)
  then show ?thesis by (simp add: isSafeInteger_def max_safe_rat)
qed

lemma num_int_of_int [simp]: "num_int (Fin (of_int i)) = i"
  by (simp add: num_int_def)

lemma num_int_numeral [simp]:
  "num_int (Fin 0) = 0" "num_int (Fin 1) = 1" "num_int (Fin (numeral k)) = numeral k"
  by (simp_all add: num_int_def)

lemma num_lt_Fin [simp]: "num_lt (Fin p) (Fin q) \<longleftrightarrow> p < q"
  by simp

lemma num_lt_1 [simp]: "isSafeInteger n \<Longrightarrow> num_lt n (Fin 1) \<longleftrightarrow> num_int n < 1"
  by (drule isSafeInteger_Fin) (metis num_lt_Fin of_int_less_1_iff num_int_of_int)

lemma num_lt_0 [simp]: "isSafeInteger n \<Longrightarrow> num_lt n (Fin 0) \<longleftrightarrow> num_int n < 0"
  by (drule isSafeInteger_Fin) (metis num_lt_Fin of_int_less_0_iff num_int_of_int)

lemma num_gt_numeral [simp]:
  "isSafeInteger n \<Longrightarrow> num_lt (Fin (numeral k)) n \<longleftrightarrow> numeral k < num_int n"
  by (drule isSafeInteger_Fin) (metis num_lt_Fin of_int_numeral of_int_less_iff num_int_of_int)

lemma num_lt_numeral [simp]:
  "isSafeInteger n \<Longrightarrow> num_lt n (Fin (numeral k)) \<longleftrightarrow> num_int n < numeral k"
  by (drule isSafeInteger_Fin) (metis num_lt_Fin of_int_numeral of_int_less_iff num_int_of_int)

lemma num_lt_safe: "isSafeInteger m \<Longrightarrow> isSafeInteger n \<Longrightarrow> num_lt m n \<longleftrightarrow> num_int m < num_int n"
  by (metis isSafeInteger_Fin num_lt_Fin of_int_less_iff)

section \<open>Characters and string shapes\<close>

text \<open>The classes the repository's regular expressions are built from.\<close>

definition lower :: string where "lower = ''abcdefghijklmnopqrstuvwxyz''"
definition upper :: string where "upper = ''ABCDEFGHIJKLMNOPQRSTUVWXYZ''"
definition digits :: string where "digits = ''0123456789''"

definition is_in :: "string \<Rightarrow> char \<Rightarrow> bool" where
  "is_in cs c = (c \<in> set cs)"

definition all_in :: "string \<Rightarrow> string \<Rightarrow> bool" where
  "all_in cs s = (\<forall>c \<in> set s. c \<in> set cs)"

definition alnum :: string where
  "alnum = upper @ lower @ digits"

definition char_lower :: "char \<Rightarrow> char" where
  "char_lower c = (if c \<in> set upper then char_of ((of_char c :: nat) + 32) else c)"

text \<open>What the text begins with, in letters of any case, and the places where something begins.\<close>

definition begins_any_case :: "string \<Rightarrow> string \<Rightarrow> bool" where
  "begins_any_case w s = (map char_lower (take (length w) s) = w)"

fun occurs :: "(string \<Rightarrow> bool) \<Rightarrow> string \<Rightarrow> bool" where
  "occurs p [] = p []"
| "occurs p (c # cs) = (p (c # cs) \<or> occurs p cs)"

text \<open>\<open>[first][rest]{lo,hi}\<close>, anchored at both ends.\<close>

definition shape :: "string \<Rightarrow> string \<Rightarrow> nat \<Rightarrow> nat \<Rightarrow> string \<Rightarrow> bool" where
  "shape first rest lo hi s = (case s of
     [] \<Rightarrow> False
   | c # cs \<Rightarrow> c \<in> set first \<and> all_in rest cs \<and> lo \<le> length cs \<and> length cs \<le> hi)"

text \<open>
  \<open>[0-9a-f]{8}-[0-9a-f]{4}-[versions][0-9a-f]{3}-[89ab][0-9a-f]{3}-[0-9a-f]{12}\<close>, anchored;
  \<open>hex\<close> has the upper case letters too where the expression has the \<open>i\<close> flag.
\<close>

definition hex_lower :: string where "hex_lower = ''0123456789abcdef''"
definition hex_any :: string where "hex_any = ''0123456789abcdefABCDEF''"

definition uuid_classes :: "string \<Rightarrow> string \<Rightarrow> string \<Rightarrow> string list" where
  "uuid_classes hex versions variants =
     replicate 8 hex @ [''-''] @ replicate 4 hex @ [''-''] @ [versions] @ replicate 3 hex
     @ [''-''] @ [variants] @ replicate 3 hex @ [''-''] @ replicate 12 hex"

fun matches_classes :: "string list \<Rightarrow> string \<Rightarrow> bool" where
  "matches_classes [] [] = True"
| "matches_classes (cl # cls) (c # cs) = (c \<in> set cl \<and> matches_classes cls cs)"
| "matches_classes _ _ = False"

lemma matches_classes_length: "matches_classes cls s \<Longrightarrow> length s = length cls"
  by (induction cls s rule: matches_classes.induct) auto

definition uuid_lower :: "string \<Rightarrow> bool" where
  "uuid_lower s = matches_classes (uuid_classes hex_lower ''12345678'' ''89ab'') s"

definition uuid_any :: "string \<Rightarrow> bool" where
  "uuid_any s = matches_classes (uuid_classes hex_any ''12345678'' ''89abAB'') s"

definition uuid_v5 :: "string \<Rightarrow> bool" where
  "uuid_v5 s = matches_classes (uuid_classes hex_any ''12345'' ''89abAB'') s"

lemma uuid_any_length: "uuid_any s \<Longrightarrow> length s = 36"
  by (drule matches_classes_length [OF uuid_any_def [THEN iffD1]]) (simp add: uuid_classes_def)

lemma uuid_any_nonempty: "uuid_any s \<Longrightarrow> s \<noteq> []"
  by (auto dest: uuid_any_length)

text \<open>\<open>value.split(c)\<close>: the pieces between the occurrences of \<open>c\<close>, at least one piece.\<close>

fun split_on :: "char \<Rightarrow> string \<Rightarrow> string list" where
  "split_on c [] = [[]]"
| "split_on c (x # xs) =
     (if x = c then [] # split_on c xs
      else (case split_on c xs of [] \<Rightarrow> [[x]] | p # ps \<Rightarrow> (x # p) # ps))"

text \<open>\<open>String.prototype.trim\<close>, on the white space below code unit 256.\<close>

definition white :: string where
  "white = [CHR 0x09, CHR 0x0A, CHR 0x0B, CHR 0x0C, CHR 0x0D, CHR 0x20, CHR 0xA0]"

definition trim :: "string \<Rightarrow> string" where
  "trim s = rev (dropWhile (is_in white) (rev (dropWhile (is_in white) s)))"

text \<open>\<open><\<close> on strings compares code units.\<close>

fun str_lt :: "string \<Rightarrow> string \<Rightarrow> bool" where
  "str_lt _ [] = False"
| "str_lt [] (_ # _) = True"
| "str_lt (x # xs) (y # ys) =
     ((of_char x :: nat) < of_char y \<or> x = y \<and> str_lt xs ys)"

lemma str_lt_irrefl [simp]: "\<not> str_lt s s"
  by (induction s) auto

lemma str_lt_trans: "str_lt a b \<Longrightarrow> str_lt b c \<Longrightarrow> str_lt a c"
proof (induction a b arbitrary: c rule: str_lt.induct)
  case (3 x xs y ys)
  then show ?case by (cases c) auto
next
  case (2 y ys)
  then show ?case by (cases c) auto
qed simp

lemma str_lt_linear: "a \<noteq> b \<Longrightarrow> str_lt a b \<or> str_lt b a"
proof (induction a b rule: str_lt.induct)
  case (3 x xs y ys)
  show ?case
  proof (cases "x = y")
    case True
    with 3 show ?thesis by auto
  next
    case False
    then have "(of_char x :: nat) < of_char y \<or> (of_char y :: nat) < of_char x"
      by (metis linorder_neqE_nat of_char_eq_iff)
    then show ?thesis by auto
  qed
qed (auto simp: neq_Nil_conv)

lemma str_lt_asym: "str_lt a b \<Longrightarrow> \<not> str_lt b a"
  using str_lt_trans str_lt_irrefl by blast

text \<open>Decimal notation of a natural number, as \<open>String(n)\<close> writes a non-negative integer.\<close>

definition digit_char :: "nat \<Rightarrow> char" where
  "digit_char d = (if d < 10 then digits ! d else CHR ''?'')"

fun show_nat :: "nat \<Rightarrow> string" where
  "show_nat n = (if n < 10 then [digit_char n] else show_nat (n div 10) @ [digit_char (n mod 10)])"

declare show_nat.simps [simp del]

definition show_int :: "int \<Rightarrow> string" where
  "show_int i = (if i < 0 then ''-'' @ show_nat (nat (- i)) else show_nat (nat i))"

text \<open>The same text computed on integers.\<close>

function show_digits :: "int \<Rightarrow> string" where
  "show_digits i = (if i < 10 then [digit_char (nat i)]
     else show_digits (i div 10) @ [digit_char (nat (i mod 10))])"
  by auto
termination by (relation "measure nat") auto

declare show_digits.simps [simp del]

lemma show_digits_nat: "0 \<le> i \<Longrightarrow> show_digits i = show_nat (nat i)"
proof (induction i rule: show_digits.induct)
  case (1 i)
  have n: "nat i div 10 = nat (i div 10)" "nat i mod 10 = nat (i mod 10)"
    using 1(2) by (simp_all add: nat_div_distrib nat_mod_distrib)
  show ?case
  proof (cases "i < 10")
    case False
    then have "show_digits (i div 10) = show_nat (nat (i div 10))" and "\<not> nat i < 10" using 1 by simp_all
    with False n show ?thesis
      by (subst show_digits.simps, subst show_nat.simps) simp
  next
    case True
    then have "nat i < 10" using 1(2) by simp
    with True show ?thesis by (subst show_digits.simps, subst show_nat.simps) simp
  qed
qed

lemma show_int_code [code]: "show_int i = (if i < 0 then ''-'' @ show_digits (- i) else show_digits i)"
  by (simp add: show_int_def show_digits_nat)

definition digit_val :: "char \<Rightarrow> int" where
  "digit_val c = (of_char c :: int) - 48"

text \<open>\<open>Number(s)\<close> of a string of decimal digits.\<close>

definition read_digits :: "string \<Rightarrow> int" where
  "read_digits s = foldl (\<lambda>n c. 10 * n + digit_val c) 0 s"

section \<open>Dates\<close>

text \<open>
  A \<open>Date\<close> is its milliseconds since the epoch. \<open>toISOString\<close> writes
  \<open>YYYY-MM-DDTHH:mm:ss.sssZ\<close>; the day count is that of the proleptic Gregorian calendar. The
  model writes the years 0 to 9999 (the repository's timestamps all have a four digit year).
\<close>

definition days_from_civil :: "int \<Rightarrow> int \<Rightarrow> int \<Rightarrow> int" where
  "days_from_civil y m d =
     (let y' = (if m \<le> 2 then y - 1 else y);
          era = y' div 400;
          yoe = y' - era * 400;
          doy = (153 * (m + (if 2 < m then -3 else 9)) + 2) div 5 + d - 1;
          doe = yoe * 365 + yoe div 4 - yoe div 100 + doy
      in era * 146097 + doe - 719468)"

definition civil_from_days :: "int \<Rightarrow> int \<times> int \<times> int" where
  "civil_from_days z0 =
     (let z = z0 + 719468;
          era = z div 146097;
          doe = z - era * 146097;
          yoe = (doe - doe div 1460 + doe div 36524 - doe div 146096) div 365;
          y = yoe + era * 400;
          doy = doe - (365 * yoe + yoe div 4 - yoe div 100);
          mp = (5 * doy + 2) div 153;
          d = doy - (153 * mp + 2) div 5 + 1;
          m = mp + (if mp < 10 then 3 else -9)
      in (if m \<le> 2 then y + 1 else y, m, d))"

text \<open>\<open>pad w n\<close>: the \<open>w\<close> low decimal digits of \<open>n\<close>, with leading zeros.\<close>

fun pad :: "nat \<Rightarrow> int \<Rightarrow> string" where
  "pad 0 n = []"
| "pad (Suc w) n = pad w (n div 10) @ [digit_char (nat (n mod 10))]"

definition to_iso :: "int \<Rightarrow> string" where
  "to_iso ms =
     (let (y, m, d) = civil_from_days (ms div 86400000);
          r = ms mod 86400000
      in pad 4 y @ ''-'' @ pad 2 m @ ''-'' @ pad 2 d @ ''T''
         @ pad 2 (r div 3600000) @ '':'' @ pad 2 (r div 60000 mod 60) @ '':''
         @ pad 2 (r div 1000 mod 60) @ ''.'' @ pad 3 (r mod 1000) @ ''Z'')"

definition iso_classes :: "string list" where
  "iso_classes =
     replicate 4 digits @ [''-''] @ replicate 2 digits @ [''-''] @ replicate 2 digits @ [''T'']
     @ replicate 2 digits @ ['':''] @ replicate 2 digits @ ['':''] @ replicate 2 digits
     @ [''.''] @ replicate 3 digits @ [''Z'']"

text \<open>
  \<open>Date.parse\<close>. ECMAScript fixes its value on the ISO form and leaves every other string to
  the engine: \<open>legacy\<close> is the engine's reading of the rest (\<open>None\<close> for \<open>NaN\<close>).
\<close>

definition parse_iso :: "string \<Rightarrow> int option" where
  "parse_iso s =
     (if matches_classes iso_classes s
      then (let f = (\<lambda>i n. read_digits (take n (drop i s)));
                y = f 0 4; m = f 5 2; d = f 8 2; hh = f 11 2; mi = f 14 2; ss = f 17 2;
                ms = f 20 3
            in if 1 \<le> m \<and> m \<le> 12 \<and> 1 \<le> d \<and> d \<le> 31 \<and> hh < 24 \<and> mi < 60 \<and> ss < 60
               then Some (days_from_civil y m d * 86400000 + hh * 3600000 + mi * 60000
                          + ss * 1000 + ms)
               else None)
      else None)"

definition date_parse :: "(string \<Rightarrow> int option) \<Rightarrow> string \<Rightarrow> int option" where
  "date_parse legacy s = (case parse_iso s of Some t \<Rightarrow> Some t | None \<Rightarrow> legacy s)"

text \<open>\<open>new Date(Date.parse(s)).toISOString() === s\<close>: the canonical timestamps.\<close>

definition canonical_time :: "(string \<Rightarrow> int option) \<Rightarrow> string \<Rightarrow> int option" where
  "canonical_time legacy s = (case date_parse legacy s of
     None \<Rightarrow> None
   | Some t \<Rightarrow> if to_iso t = s then Some t else None)"

lemma canonical_time_parse: "canonical_time legacy s = Some t \<Longrightarrow> date_parse legacy s = Some t"
  by (auto simp: canonical_time_def split: option.splits if_splits)

lemma to_iso_nonempty: "to_iso t \<noteq> []"
  by (simp add: to_iso_def Let_def split: prod.split)

lemma canonical_time_nonempty: "canonical_time legacy s = Some t \<Longrightarrow> s \<noteq> []"
  using to_iso_nonempty by (auto simp: canonical_time_def split: option.splits if_splits)

text \<open>
  Years out of that range have a sign and six digits. \<open>any_canonical\<close> are the timestamps
  that \<open>toISOString\<close> writes, of every \<open>Date\<close>.
\<close>

definition any_iso :: "int \<Rightarrow> string" where
  "any_iso ms =
     (let (y, m, d) = civil_from_days (ms div 86400000) in
      if 0 \<le> y \<and> y \<le> 9999 then to_iso ms
      else (if y < 0 then ''-'' else ''+'') @ pad 6 \<bar>y\<bar> @ drop 4 (to_iso ms))"

definition parse_expanded :: "string \<Rightarrow> int option" where
  "parse_expanded s =
     (if matches_classes ([''+-''] @ replicate 6 digits @ drop 4 iso_classes) s \<and> take 7 s \<noteq> ''-000000''
      then (let y = read_digits (take 6 (drop 1 s)); f = (\<lambda>i n. read_digits (take n (drop (i + 3) s)));
                m = f 5 2; d = f 8 2; hh = f 11 2; mi = f 14 2; ss = f 17 2; ms = f 20 3;
                t = days_from_civil (if hd s = CHR ''-'' then - y else y) m d * 86400000 + hh * 3600000
                    + mi * 60000 + ss * 1000 + ms
            in if 1 \<le> m \<and> m \<le> 12 \<and> 1 \<le> d \<and> d \<le> 31 \<and> hh < 24 \<and> mi < 60 \<and> ss < 60
                  \<and> \<bar>t\<bar> \<le> 8640000000000000
               then Some t else None)
      else None)"

definition any_canonical :: "(string \<Rightarrow> int option) \<Rightarrow> string \<Rightarrow> bool" where
  "any_canonical legacy s =
     (case (case parse_expanded s of Some t \<Rightarrow> Some t | None \<Rightarrow> date_parse legacy s) of
        None \<Rightarrow> False
      | Some t \<Rightarrow> any_iso t = s)"

text \<open>\<open><\<close> and \<open><=\<close> on two results of \<open>Date.parse\<close>: false when one is \<open>NaN\<close>.\<close>

definition time_lt :: "int option \<Rightarrow> int option \<Rightarrow> bool" where
  "time_lt a b = (case (a, b) of (Some x, Some y) \<Rightarrow> x < y | _ \<Rightarrow> False)"

definition time_le :: "int option \<Rightarrow> int option \<Rightarrow> bool" where
  "time_le a b = (case (a, b) of (Some x, Some y) \<Rightarrow> x \<le> y | _ \<Rightarrow> False)"

lemma time_cmp_simps [simp]:
  "time_lt (Some x) (Some y) \<longleftrightarrow> x < y" "time_le (Some x) (Some y) \<longleftrightarrow> x \<le> y"
  "\<not> time_lt None b" "\<not> time_lt a None" "\<not> time_le None b" "\<not> time_le a None"
  by (simp_all add: time_lt_def time_le_def split: option.split)

text \<open>A UTC time \<open>dddd-dd-ddTdd:dd:dd(.d{1,9})?Z\<close> whose six numbers name a second of the calendar.\<close>

definition utc_prefix :: "string list" where
  "utc_prefix = replicate 4 digits @ [''-''] @ replicate 2 digits @ [''-''] @ replicate 2 digits
     @ [''T''] @ replicate 2 digits @ ['':''] @ replicate 2 digits @ ['':''] @ replicate 2 digits"

definition utc_suffix_ok :: "string \<Rightarrow> bool" where
  "utc_suffix_ok s \<longleftrightarrow> s = ''Z'' \<or>
     (case s of
        [] \<Rightarrow> False
      | c # cs \<Rightarrow> c = CHR ''.'' \<and> cs \<noteq> [] \<and> last cs = CHR ''Z'' \<and> all_in digits (butlast cs)
          \<and> 1 \<le> length (butlast cs) \<and> length (butlast cs) \<le> 9)"

definition leap_year :: "int \<Rightarrow> bool" where
  "leap_year y \<longleftrightarrow> y mod 4 = 0 \<and> (y mod 100 \<noteq> 0 \<or> y mod 400 = 0)"

definition month_days :: "int \<Rightarrow> int \<Rightarrow> int option" where
  "month_days y m =
     (let days = [31, if leap_year y then 29 else 28, 31, 30, 31, 30, 31, 31, 30, 31, 30, 31] in
      if 1 \<le> m \<and> m \<le> 12 then Some (days ! nat (m - 1)) else None)"

definition utc_time_ok :: "string \<Rightarrow> bool" where
  "utc_time_ok s =
     (let f = (\<lambda>i n. read_digits (take n (drop i s))) in
      matches_classes utc_prefix (take 19 s) \<and> utc_suffix_ok (drop 19 s)
      \<and> (case month_days (f 0 4) (f 5 2) of None \<Rightarrow> False
         | Some days \<Rightarrow> 1 \<le> f 8 2 \<and> f 8 2 \<le> days)
      \<and> f 11 2 \<le> 23 \<and> f 14 2 \<le> 59 \<and> f 17 2 \<le> 59)"

section \<open>JSON\<close>

text \<open>
  \<open>JSON.stringify\<close> of what the repository digests: an absent member is left out by the code that
  builds the object. Characters below 32, the quote and the backslash are escaped.
\<close>

datatype json = J_null | J_bool bool | J_int int | J_str string | J_arr "json list"
  | J_obj "(string \<times> json) list"

definition hex_digit :: "nat \<Rightarrow> char" where
  "hex_digit d = hex_lower ! (d mod 16)"

definition json_escape :: "char \<Rightarrow> string" where
  "json_escape c =
     (if c = CHR 0x22 then [CHR 0x5C, CHR 0x22]
      else if c = CHR 0x5C then [CHR 0x5C, CHR 0x5C]
      else if c = CHR 0x08 then [CHR 0x5C, CHR ''b'']
      else if c = CHR 0x09 then [CHR 0x5C, CHR ''t'']
      else if c = CHR 0x0A then [CHR 0x5C, CHR ''n'']
      else if c = CHR 0x0C then [CHR 0x5C, CHR ''f'']
      else if c = CHR 0x0D then [CHR 0x5C, CHR ''r'']
      else if (of_char c :: nat) < 32
      then CHR 0x5C # ''u00'' @ [hex_digit (of_char c div 16), hex_digit (of_char c)]
      else [c])"

definition json_quote :: "string \<Rightarrow> string" where
  "json_quote s = [CHR 0x22] @ concat (map json_escape s) @ [CHR 0x22]"

fun join :: "string \<Rightarrow> string list \<Rightarrow> string" where
  "join sep [] = []"
| "join sep [x] = x"
| "join sep (x # y # ys) = x @ sep @ join sep (y # ys)"

fun stringify :: "json \<Rightarrow> string" where
  "stringify J_null = ''null''"
| "stringify (J_bool b) = (if b then ''true'' else ''false'')"
| "stringify (J_int i) = show_int i"
| "stringify (J_str s) = json_quote s"
| "stringify (J_arr vs) = ''['' @ join '','' (map stringify vs) @ '']''"
| "stringify (J_obj fs) =
     ''{'' @ join '','' (map (\<lambda>(k, v). json_quote k @ '':'' @ stringify v) fs) @ ''}''"

text \<open>A member that is only there when the value is.\<close>

definition j_opt :: "string \<Rightarrow> string option \<Rightarrow> (string \<times> json) list" where
  "j_opt k v = (case v of None \<Rightarrow> [] | Some s \<Rightarrow> [(k, J_str s)])"

text \<open>\<open>if (value)\<close> of a string or \<open>undefined\<close>: there and not empty.\<close>

definition truthy :: "string option \<Rightarrow> bool" where
  "truthy v = (case v of None \<Rightarrow> False | Some s \<Rightarrow> s \<noteq> [])"

lemma truthy_simps [simp]: "\<not> truthy None" "truthy (Some s) \<longleftrightarrow> s \<noteq> []"
  by (simp_all add: truthy_def)

section \<open>Values of unknown type\<close>

text \<open>An object lists its own members in the order JavaScript enumerates them.\<close>

datatype js_value =
    JUndefined
  | JNull
  | JBool bool
  | JNumber jsnum
  | JString string
  | JArray "js_value list"
  | JObject "(string \<times> js_value) list"

text \<open>\<open>value[key]\<close>: a member that is not there reads \<open>undefined\<close>.\<close>

definition js_field :: "(string \<times> js_value) list \<Rightarrow> string \<Rightarrow> js_value" where
  "js_field fs k = (case map_of fs k of None \<Rightarrow> JUndefined | Some v \<Rightarrow> v)"

text \<open>An object has all the required members and none beside the optional ones.\<close>

definition exactly :: "string list \<Rightarrow> string list \<Rightarrow> (string \<times> js_value) list \<Rightarrow> bool" where
  "exactly required optional fs \<longleftrightarrow> (\<forall>k \<in> set required. k \<in> set (map fst fs))
     \<and> (\<forall>k \<in> set (map fst fs). k \<in> set required \<or> k \<in> set optional)"

text \<open>The text a member has, when it has one of that kind.\<close>

definition text_where :: "(string \<Rightarrow> bool) \<Rightarrow> js_value \<Rightarrow> string option" where
  "text_where ok v = (case v of JString s \<Rightarrow> if ok s then Some s else None | _ \<Rightarrow> None)"

definition int_between :: "int \<Rightarrow> int \<Rightarrow> js_value \<Rightarrow> int option" where
  "int_between least greatest v = (case v of
     JNumber n \<Rightarrow> if isSafeInteger n \<and> least \<le> num_int n \<and> num_int n \<le> greatest then Some (num_int n) else None
   | _ \<Rightarrow> None)"

text \<open>\<open>[A-Za-z0-9_.:@/-]{1,255}\<close>, and 32 hexadecimal digits that are not all zero.\<close>

definition reference_ok :: "string \<Rightarrow> bool" where
  "reference_ok s = (all_in (alnum @ ''_.:@/-'') s \<and> 1 \<le> length s \<and> length s \<le> 255)"

definition trace_ok :: "string \<Rightarrow> bool" where
  "trace_ok s = (length s = 32 \<and> all_in hex_lower s \<and> s \<noteq> replicate 32 CHR ''0'')"

section \<open>Stable sorting\<close>

text \<open>
  \<open>Array.prototype.sort\<close> with a comparator is stable; \<open>before a b\<close> stands for
  \<open>compare(a, b) < 0\<close>. The model inserts from the right, which keeps equal elements in order.
\<close>

fun insert_by :: "('a \<Rightarrow> 'a \<Rightarrow> bool) \<Rightarrow> 'a \<Rightarrow> 'a list \<Rightarrow> 'a list" where
  "insert_by before x [] = [x]"
| "insert_by before x (y # ys) = (if before y x then y # insert_by before x ys else x # y # ys)"

fun sort_by :: "('a \<Rightarrow> 'a \<Rightarrow> bool) \<Rightarrow> 'a list \<Rightarrow> 'a list" where
  "sort_by before [] = []"
| "sort_by before (x # xs) = insert_by before x (sort_by before xs)"

lemma set_insert_by [simp]: "set (insert_by before x xs) = insert x (set xs)"
  by (induction xs) auto

lemma set_sort_by [simp]: "set (sort_by before xs) = set xs"
  by (induction xs) auto

lemma length_insert_by [simp]: "length (insert_by before x xs) = Suc (length xs)"
  by (induction xs) auto

lemma length_sort_by [simp]: "length (sort_by before xs) = length xs"
  by (induction xs) auto

lemma distinct_insert_by [simp]: "distinct (insert_by before x xs) \<longleftrightarrow> x \<notin> set xs \<and> distinct xs"
  by (induction xs) auto

lemma distinct_sort_by [simp]: "distinct (sort_by before xs) = distinct xs"
  by (induction xs) auto

lemma distinct_map_insert_by:
  "distinct (map f (insert_by before x xs)) \<longleftrightarrow> f x \<notin> f ` set xs \<and> distinct (map f xs)"
  by (induction xs) auto

lemma distinct_map_sort_by [simp]: "distinct (map f (sort_by before xs)) = distinct (map f xs)"
  by (induction xs) (auto simp: distinct_map_insert_by)

text \<open>\<open>[...new Set(xs)]\<close>: the first occurrences, in order.\<close>

definition js_dedup :: "'a list \<Rightarrow> 'a list" where
  "js_dedup xs = rev (remdups (rev xs))"

lemma set_js_dedup [simp]: "set (js_dedup xs) = set xs"
  by (simp add: js_dedup_def)

lemma distinct_js_dedup [simp]: "distinct (js_dedup xs)"
  by (simp add: js_dedup_def)

end
