(* ===== verification/Retry.thy ===== *)
theory Retry
  imports JsLib
begin

text \<open>
  The integration runtime's error values and its retry policy
  (\<open>packages/crm-modules/integration-runtime/src/errors.ts\<close> and \<open>retry.ts\<close>): which
  policies are accepted, the delay before a retry, and when an error is retried.
\<close>

section \<open>Errors\<close>

datatype category =
    C_authentication
  | C_cancelled
  | C_circuit_open
  | C_concurrency_limited
  | C_connection
  | C_internal
  | C_invalid_input
  | C_invalid_response
  | C_rate_limited
  | C_rejected
  | C_replay_detected
  | C_signature_invalid
  | C_timeout
  | C_upstream_unavailable

definition INTEGRATION_ERROR_CATEGORIES :: "category list" where
  "INTEGRATION_ERROR_CATEGORIES =
     [C_authentication, C_cancelled, C_circuit_open, C_concurrency_limited, C_connection,
      C_internal, C_invalid_input, C_invalid_response, C_rate_limited, C_rejected,
      C_replay_detected, C_signature_invalid, C_timeout, C_upstream_unavailable]"

text \<open>
  What JavaScript code may throw: an \<open>IntegrationRuntimeError\<close> with its category and its
  \<open>retryable\<close> flag (the \<open>cause\<close> and the message are not modelled), or anything else.
\<close>

datatype thrown = IntegrationRuntimeError category bool | Foreign string

text \<open>\<open>new IntegrationRuntimeError(category)\<close>: \<open>options.retryable ?? false\<close>.\<close>

abbreviation runtime_error :: "category \<Rightarrow> thrown" where
  "runtime_error c \<equiv> IntegrationRuntimeError c False"

abbreviation retryable_error :: "category \<Rightarrow> thrown" where
  "retryable_error c \<equiv> IntegrationRuntimeError c True"

fun category_of :: "thrown \<Rightarrow> category option" where
  "category_of (IntegrationRuntimeError c r) = Some c"
| "category_of (Foreign m) = None"

lemma all_categories: "c \<in> set INTEGRATION_ERROR_CATEGORIES"
  by (cases c) (simp_all add: INTEGRATION_ERROR_CATEGORIES_def)

section \<open>The policy\<close>

record retry_policy =
  backoffMs :: "jsnum list"
  jitterRatio :: jsnum
  maxAttempts :: jsnum
  retryableCategories :: "category list"

definition retry_allowed :: "category list" where
  "retry_allowed = [C_connection, C_rate_limited, C_timeout, C_upstream_unavailable]"

definition validateRetryPolicy :: "retry_policy \<Rightarrow> thrown + unit" where
  "validateRetryPolicy p =
     (if \<not> isSafeInteger (maxAttempts p) \<or> num_lt (maxAttempts p) (Fin 1)
         \<or> num_lt (Fin 10) (maxAttempts p)
      then Inl (runtime_error C_invalid_input)
      else if int (length (backoffMs p)) \<noteq> max 0 (num_int (maxAttempts p) - 1)
      then Inl (runtime_error C_invalid_input)
      else if list_ex (\<lambda>v. \<not> isSafeInteger v \<or> num_lt v (Fin 0) \<or> num_lt (Fin 3600000) v)
                (backoffMs p)
      then Inl (runtime_error C_invalid_input)
      else if \<not> isFinite (jitterRatio p) \<or> num_lt (jitterRatio p) (Fin 0)
         \<or> num_lt (Fin 1) (jitterRatio p)
      then Inl (runtime_error C_invalid_input)
      else if length (js_dedup (retryableCategories p)) \<noteq> length (retryableCategories p)
         \<or> list_ex (\<lambda>c. c \<notin> set retry_allowed) (retryableCategories p)
      then Inl (runtime_error C_invalid_input)
      else Inr ())"

text \<open>
  \<open>policy.backoffMs[attempt - 1] ?? 0\<close>: an index past the end reads \<open>undefined\<close>.
  \<open>random\<close> is the value the random source returned.
\<close>

definition calculateBackoffMs :: "retry_policy \<Rightarrow> jsnum \<Rightarrow> jsnum \<Rightarrow> thrown + jsnum" where
  "calculateBackoffMs p attempt random =
     bindE (validateRetryPolicy p) (\<lambda>_.
       if \<not> isSafeInteger attempt \<or> num_lt attempt (Fin 1) \<or> \<not> num_lt attempt (maxAttempts p)
       then Inl (runtime_error C_invalid_input)
       else
         let i = nat (num_int attempt - 1);
             base = (if i < length (backoffMs p) then backoffMs p ! i else Fin 0);
             boundedRandom = num_min (Fin 1) (num_max (Fin 0) random);
             factor = num_add (num_add (Fin 1) (num_neg (jitterRatio p)))
                        (num_mul (num_mul (Fin 2) (jitterRatio p)) boundedRandom)
         in Inr (num_min (Fin 3600000) (num_round (num_mul base factor))))"

definition shouldRetry :: "retry_policy \<Rightarrow> jsnum \<Rightarrow> thrown \<Rightarrow> thrown + bool" where
  "shouldRetry p attempt error =
     bindE (validateRetryPolicy p) (\<lambda>_.
       Inr (num_lt attempt (maxAttempts p)
            \<and> (case error of
                 IntegrationRuntimeError c r \<Rightarrow> r \<and> c \<in> set (retryableCategories p)
               | Foreign m \<Rightarrow> False)))"

section \<open>What an accepted policy guarantees\<close>

lemma length_js_dedup_iff: "length (js_dedup xs) = length xs \<longleftrightarrow> distinct xs"
  using length_remdups_card_conv [of "rev xs"] card_distinct [of xs] distinct_card [of xs]
  by (auto simp: js_dedup_def)

lemma policy_ok:
  assumes "validateRetryPolicy p = Inr ()"
  shows "isSafeInteger (maxAttempts p)" "1 \<le> num_int (maxAttempts p)"
    "num_int (maxAttempts p) \<le> 10"
    "int (length (backoffMs p)) = num_int (maxAttempts p) - 1"
    "\<And>v. v \<in> set (backoffMs p) \<Longrightarrow>
       isSafeInteger v \<and> 0 \<le> num_int v \<and> num_int v \<le> 3600000"
    "\<exists>j. jitterRatio p = Fin j \<and> 0 \<le> j \<and> j \<le> 1"
    "distinct (retryableCategories p)" "set (retryableCategories p) \<subseteq> set retry_allowed"
proof -
  let ?m = "maxAttempts p"
  from assms have m: "isSafeInteger ?m" "\<not> num_lt ?m (Fin 1)" "\<not> num_lt (Fin 10) ?m"
    and len: "int (length (backoffMs p)) = max 0 (num_int ?m - 1)"
    and b: "\<not> list_ex (\<lambda>v. \<not> isSafeInteger v \<or> num_lt v (Fin 0) \<or> num_lt (Fin 3600000) v)
                (backoffMs p)"
    and j: "isFinite (jitterRatio p)" "\<not> num_lt (jitterRatio p) (Fin 0)"
      "\<not> num_lt (Fin 1) (jitterRatio p)"
    and c: "length (js_dedup (retryableCategories p)) = length (retryableCategories p)"
      "\<not> list_ex (\<lambda>c. c \<notin> set retry_allowed) (retryableCategories p)"
    by (simp_all add: validateRetryPolicy_def split: if_splits)
  show "isSafeInteger ?m" by (rule m)
  show "1 \<le> num_int ?m" "num_int ?m \<le> 10" using m by simp_all
  then show "int (length (backoffMs p)) = num_int ?m - 1" using len by simp
  show "isSafeInteger v \<and> 0 \<le> num_int v \<and> num_int v \<le> 3600000" if "v \<in> set (backoffMs p)" for v
    using b that by (force simp: list_ex_iff)
  show "\<exists>j. jitterRatio p = Fin j \<and> 0 \<le> j \<and> j \<le> 1"
    using j by (cases "jitterRatio p") (auto simp: isFinite_def)
  show "distinct (retryableCategories p)" using c by (simp add: length_js_dedup_iff)
  show "set (retryableCategories p) \<subseteq> set retry_allowed" using c by (auto simp: list_ex_iff)
qed

lemma clamped_random:
  assumes "r \<noteq> NaN"
  shows "\<exists>u. num_min (Fin 1) (num_max (Fin 0) r) = Fin u \<and> 0 \<le> u \<and> u \<le> 1"
  using assms by (cases r) (auto simp: num_min_def num_max_def)

lemma round_between:
  fixes x :: rat
  assumes "of_int a \<le> x" "x \<le> of_int b"
  shows "a \<le> \<lfloor>x + 1 / 2\<rfloor>" "\<lfloor>x + 1 / 2\<rfloor> \<le> b"
  using assms by linarith+

lemma jitter_factor:
  fixes j u b :: rat
  assumes "0 \<le> j" "j \<le> 1" "0 \<le> u" "u \<le> 1" "0 \<le> b"
  shows "b * (1 - j) \<le> b * (1 + - j + 2 * j * u)" "b * (1 + - j + 2 * j * u) \<le> b * (1 + j)"
proof -
  have "0 \<le> j * u" "j * u \<le> j * 1"
    using assms mult_left_mono [of u 1 j] by auto
  then have "1 - j \<le> 1 + - j + 2 * j * u" "1 + - j + 2 * j * u \<le> 1 + j"
    by (simp_all add: algebra_simps)
  then show "b * (1 - j) \<le> b * (1 + - j + 2 * j * u)" "b * (1 + - j + 2 * j * u) \<le> b * (1 + j)"
    using assms by (auto intro: mult_left_mono)
qed

text \<open>The delay as one formula, for any random value that is a number.\<close>

lemma calculateBackoffMs_value:
  assumes ok: "validateRetryPolicy p = Inr ()"
    and n: "isSafeInteger n" "1 \<le> num_int n" "num_int n < num_int (maxAttempts p)"
    and r: "r \<noteq> NaN"
  shows "\<exists>b j u. backoffMs p ! nat (num_int n - 1) = Fin (of_int b) \<and> 0 \<le> b \<and> b \<le> 3600000
      \<and> jitterRatio p = Fin j \<and> 0 \<le> j \<and> j \<le> 1 \<and> 0 \<le> u \<and> u \<le> 1
      \<and> calculateBackoffMs p n r =
          Inr (num_min (Fin 3600000)
                (Fin (of_int \<lfloor>of_int b * (1 + - j + 2 * j * u) + 1 / 2\<rfloor>)))"
proof -
  note P = policy_ok [OF ok]
  let ?i = "nat (num_int n - 1)"
  have i: "?i < length (backoffMs p)" using n P(4) by linarith
  then have v: "isSafeInteger (backoffMs p ! ?i)" "0 \<le> num_int (backoffMs p ! ?i)"
    "num_int (backoffMs p ! ?i) \<le> 3600000"
    using P(5) nth_mem by blast+
  obtain b where b: "backoffMs p ! ?i = Fin (of_int b)" "0 \<le> b" "b \<le> 3600000"
    using isSafeInteger_Fin [OF v(1)] v by metis
  obtain j where j: "jitterRatio p = Fin j" "0 \<le> j" "j \<le> 1" using P(6) by blast
  obtain u where u: "num_min (Fin 1) (num_max (Fin 0) r) = Fin u" "0 \<le> u" "u \<le> 1"
    using clamped_random [OF r] by blast
  have lt: "num_lt n (maxAttempts p)" using num_lt_safe [OF n(1) P(1)] n(3) by simp
  have ge: "\<not> num_lt n (Fin 1)" using n by simp
  have "calculateBackoffMs p n r =
      Inr (num_min (Fin 3600000) (Fin (of_int \<lfloor>of_int b * (1 + - j + 2 * j * u) + 1 / 2\<rfloor>)))"
    unfolding calculateBackoffMs_def
    using ok n(1) lt ge i b(1) j(1) u(1) by (simp add: Let_def num_neg_def num_round_def)
  with b j u show ?thesis by blast
qed

text \<open>
  On a policy that \<open>validateRetryPolicy\<close> accepts, for every attempt below
  \<open>maxAttempts\<close> and every random value that is a number (in range or not), the delay is a
  whole number of milliseconds between 0 and one hour, and lies between the configured delay
  shrunk and grown by the jitter ratio, rounded, both capped at one hour.
\<close>

theorem backoff_within_jitter:
  assumes "validateRetryPolicy p = Inr ()"
    and "isSafeInteger n" "1 \<le> num_int n" "num_int n < num_int (maxAttempts p)"
    and "r \<noteq> NaN"
  shows "\<exists>d b j. calculateBackoffMs p n r = Inr (Fin (of_int d))
      \<and> backoffMs p ! nat (num_int n - 1) = Fin (of_int b) \<and> jitterRatio p = Fin j
      \<and> 0 \<le> d \<and> d \<le> 3600000
      \<and> min 3600000 \<lfloor>of_int b * (1 - j) + 1 / 2\<rfloor> \<le> d
      \<and> d \<le> min 3600000 \<lfloor>of_int b * (1 + j) + 1 / 2\<rfloor>"
proof -
  obtain b j u where b: "backoffMs p ! nat (num_int n - 1) = Fin (of_int b)" "0 \<le> b"
    and j: "jitterRatio p = Fin j" "0 \<le> j" "j \<le> 1" and u: "0 \<le> u" "u \<le> 1"
    and v: "calculateBackoffMs p n r = Inr (num_min (Fin 3600000)
              (Fin (of_int \<lfloor>of_int b * (1 + - j + 2 * j * u) + 1 / 2\<rfloor>)))"
    using calculateBackoffMs_value [OF assms] by blast
  let ?x = "of_int b * (1 + - j + 2 * j * u)"
  have b0: "(0::rat) \<le> of_int b" using b by simp
  note J = jitter_factor [OF j(2,3) u b0]
  have "0 \<le> of_int b * (1 - j)" using b0 j by simp
  then have x0: "0 \<le> ?x" using J by linarith
  let ?d = "min 3600000 \<lfloor>?x + 1 / 2\<rfloor>"
  have "num_min (Fin 3600000) (Fin (of_int \<lfloor>?x + 1 / 2\<rfloor>)) = Fin (of_int ?d)"
  proof (cases "\<lfloor>?x + 1 / 2\<rfloor> < 3600000")
    case True
    then have "of_int \<lfloor>?x + 1 / 2\<rfloor> < (3600000 :: rat)" by linarith
    with True show ?thesis by (simp add: num_min_def)
  next
    case False
    then have "\<not> of_int \<lfloor>?x + 1 / 2\<rfloor> < (3600000 :: rat)" by linarith
    with False show ?thesis by (simp add: num_min_def)
  qed
  moreover have "0 \<le> ?d" using x0 by (simp add: le_floor_iff)
  moreover have "\<lfloor>of_int b * (1 - j) + 1 / 2\<rfloor> \<le> \<lfloor>?x + 1 / 2\<rfloor>"
    "\<lfloor>?x + 1 / 2\<rfloor> \<le> \<lfloor>of_int b * (1 + j) + 1 / 2\<rfloor>"
    using J by (simp_all add: floor_mono)
  ultimately show ?thesis
    using v b(1) j(1) by (intro exI [of _ ?d] exI [of _ b] exI [of _ j]) auto
qed

definition sample_policy :: retry_policy where
  "sample_policy = \<lparr>backoffMs = [Fin 100, Fin 1000], jitterRatio = Fin (1 / 5), maxAttempts = Fin 3,
     retryableCategories = [C_timeout, C_connection]\<rparr>"

lemma sample_policy_ok: "validateRetryPolicy sample_policy = Inr ()"
  by code_simp

theorem backoff_within_jitter_witness:
  "\<exists>d b j. calculateBackoffMs sample_policy (Fin 2) (Fin (1 / 2)) = Inr (Fin (of_int d))
      \<and> backoffMs sample_policy ! nat (num_int (Fin 2) - 1) = Fin (of_int b)
      \<and> jitterRatio sample_policy = Fin j \<and> 0 \<le> d \<and> d \<le> 3600000
      \<and> min 3600000 \<lfloor>of_int b * (1 - j) + 1 / 2\<rfloor> \<le> d
      \<and> d \<le> min 3600000 \<lfloor>of_int b * (1 + j) + 1 / 2\<rfloor>"
proof (rule backoff_within_jitter [OF sample_policy_ok])
  show "isSafeInteger (Fin 2)" by (simp add: isSafeInteger_def max_safe_rat_def)
  show "1 \<le> num_int (Fin 2)" "num_int (Fin 2) < num_int (maxAttempts sample_policy)"
    "Fin (1 / 2) \<noteq> NaN"
    by (simp_all add: sample_policy_def)
qed

end
