(* ===== verification/Circuit.thy ===== *)
theory Circuit
  imports Retry
begin

text \<open>
  The circuit breaker (\<open>packages/crm-modules/integration-runtime/src/circuit-breaker.ts\<close>).
  \<open>execute\<close> awaits the operation, so other calls run between its two halves: the model has the
  half before the \<open>await\<close> (\<open>cb_enter\<close>) and the half after it (\<open>cb_succeed\<close>,
  \<open>cb_fail\<close>), and a step relation that interleaves any number of calls. The clock is the
  value \<open>now()\<close> returned.
\<close>

section \<open>State and operations\<close>

datatype circuit_state = Closed | HalfOpen | Open

record circuit_options =
  failureThreshold :: jsnum
  halfOpenMaxCalls :: jsnum
  openMs :: jsnum

record circuit =
  cb_state :: circuit_state
  cb_failures :: int
  cb_openedAt :: "int option"
  cb_halfOpenActive :: int

definition DEFAULT_FAILURE_CATEGORIES :: "category list" where
  "DEFAULT_FAILURE_CATEGORIES =
     [C_authentication, C_connection, C_invalid_response, C_rate_limited, C_timeout,
      C_upstream_unavailable]"

definition defaultFailureClassifier :: "thrown \<Rightarrow> bool" where
  "defaultFailureClassifier e = (case e of
     IntegrationRuntimeError c r \<Rightarrow> c \<in> set DEFAULT_FAILURE_CATEGORIES
   | Foreign m \<Rightarrow> True)"

definition createCircuitBreaker :: "circuit_options \<Rightarrow> thrown + circuit" where
  "createCircuitBreaker opts =
     (if \<not> isSafeInteger (failureThreshold opts) \<or> num_lt (failureThreshold opts) (Fin 1)
         \<or> \<not> isSafeInteger (halfOpenMaxCalls opts) \<or> num_lt (halfOpenMaxCalls opts) (Fin 1)
         \<or> \<not> isSafeInteger (openMs opts) \<or> num_lt (openMs opts) (Fin 1)
      then Inl (runtime_error C_invalid_input)
      else Inr \<lparr>cb_state = Closed, cb_failures = 0, cb_openedAt = None, cb_halfOpenActive = 0\<rparr>)"

definition cb_refresh :: "circuit_options \<Rightarrow> int \<Rightarrow> circuit \<Rightarrow> circuit" where
  "cb_refresh opts now c =
     (if cb_state c = Open
         \<and> (case cb_openedAt c of None \<Rightarrow> False | Some t \<Rightarrow> t + num_int (openMs opts) \<le> now)
      then c\<lparr>cb_state := HalfOpen, cb_halfOpenActive := 0\<rparr>
      else c)"

definition cb_open :: "int \<Rightarrow> circuit \<Rightarrow> circuit" where
  "cb_open now c = c\<lparr>cb_state := Open, cb_openedAt := Some now, cb_halfOpenActive := 0\<rparr>"

text \<open>\<open>execute\<close> up to \<open>await operation()\<close>: it throws, or goes on with its \<open>probe\<close> flag.\<close>

definition cb_enter :: "circuit_options \<Rightarrow> int \<Rightarrow> (circuit, thrown, bool) act" where
  "cb_enter opts now c0 =
     (let c = cb_refresh opts now c0 in
      if cb_state c = Open
         \<or> cb_state c = HalfOpen \<and> num_int (halfOpenMaxCalls opts) \<le> cb_halfOpenActive c
      then (Inl (retryable_error C_circuit_open), c)
      else if cb_state c = HalfOpen
      then (Inr True, c\<lparr>cb_halfOpenActive := cb_halfOpenActive c + 1\<rparr>)
      else (Inr False, c))"

text \<open>\<open>finally { if (probe && state === "half_open") halfOpenActive -= 1; }\<close>\<close>

definition cb_finally :: "bool \<Rightarrow> circuit \<Rightarrow> circuit" where
  "cb_finally probe c =
     (if probe \<and> cb_state c = HalfOpen
      then c\<lparr>cb_halfOpenActive := cb_halfOpenActive c - 1\<rparr> else c)"

definition cb_succeed :: "bool \<Rightarrow> circuit \<Rightarrow> circuit" where
  "cb_succeed probe c =
     (let c1 = c\<lparr>cb_failures := 0\<rparr>;
          c2 = (if probe
                then c1\<lparr>cb_state := Closed, cb_openedAt := None, cb_halfOpenActive := 0\<rparr>
                else c1)
      in cb_finally probe c2)"

definition cb_fail :: "circuit_options \<Rightarrow> (thrown \<Rightarrow> bool) \<Rightarrow> int \<Rightarrow> bool \<Rightarrow> thrown \<Rightarrow> circuit \<Rightarrow> circuit"
where
  "cb_fail opts countsAsFailure now probe e c =
     (let c1 = (if countsAsFailure e
                then (let c' = c\<lparr>cb_failures := cb_failures c + 1\<rparr> in
                      if probe \<or> num_int (failureThreshold opts) \<le> cb_failures c'
                      then cb_open now c' else c')
                else c)
      in cb_finally probe c1)"

text \<open>\<open>snapshot()\<close> refreshes too.\<close>

definition cb_snapshot :: "circuit_options \<Rightarrow> int \<Rightarrow> circuit \<Rightarrow> circuit" where
  "cb_snapshot opts now c = cb_refresh opts now c"

section \<open>Interleaved calls\<close>

text \<open>
  A call in flight is its probe flag and, for the proofs only, the number of times the circuit had
  opened when it entered. \<open>cs_opened\<close> counts the openings.
\<close>

record circuit_system =
  cs_circuit :: circuit
  cs_flight :: "(bool \<times> nat) list"
  cs_opened :: nat

definition cb_opens :: "circuit_options \<Rightarrow> (thrown \<Rightarrow> bool) \<Rightarrow> bool \<Rightarrow> thrown \<Rightarrow> circuit \<Rightarrow> bool" where
  "cb_opens opts counts probe e c \<longleftrightarrow>
     counts e \<and> (probe \<or> num_int (failureThreshold opts) \<le> cb_failures c + 1)"

inductive cs_step :: "circuit_options \<Rightarrow> (thrown \<Rightarrow> bool) \<Rightarrow> circuit_system \<Rightarrow> circuit_system \<Rightarrow> bool"
  for opts :: circuit_options and counts :: "thrown \<Rightarrow> bool"
where
  enter: "cb_enter opts now (cs_circuit s) = (Inr p, c) \<Longrightarrow>
    cs_step opts counts s
      (s\<lparr>cs_circuit := c, cs_flight := cs_flight s @ [(p, cs_opened s)]\<rparr>)"
| reject: "cb_enter opts now (cs_circuit s) = (Inl e, c) \<Longrightarrow>
    cs_step opts counts s (s\<lparr>cs_circuit := c\<rparr>)"
| succeed: "cs_flight s = xs @ (p, g) # ys \<Longrightarrow>
    cs_step opts counts s
      (s\<lparr>cs_circuit := cb_succeed p (cs_circuit s), cs_flight := xs @ ys\<rparr>)"
| fail: "cs_flight s = xs @ (p, g) # ys \<Longrightarrow>
    cs_step opts counts s
      (s\<lparr>cs_circuit := cb_fail opts counts now p e (cs_circuit s), cs_flight := xs @ ys,
         cs_opened := (if cb_opens opts counts p e (cs_circuit s)
                       then Suc (cs_opened s) else cs_opened s)\<rparr>)"
| snapshot: "cs_step opts counts s (s\<lparr>cs_circuit := cb_snapshot opts now (cs_circuit s)\<rparr>)"

inductive cs_reachable :: "circuit_options \<Rightarrow> (thrown \<Rightarrow> bool) \<Rightarrow> circuit_system \<Rightarrow> bool"
  for opts :: circuit_options and counts :: "thrown \<Rightarrow> bool"
where
  start: "createCircuitBreaker opts = Inr c \<Longrightarrow>
    cs_reachable opts counts \<lparr>cs_circuit = c, cs_flight = [], cs_opened = 0\<rparr>"
| step: "cs_reachable opts counts s \<Longrightarrow> cs_step opts counts s t \<Longrightarrow> cs_reachable opts counts t"

section \<open>The invariant\<close>

definition circuit_inv :: "circuit_options \<Rightarrow> circuit \<Rightarrow> bool" where
  "circuit_inv opts c \<longleftrightarrow>
     0 \<le> cb_failures c
     \<and> (cb_openedAt c = None \<longleftrightarrow> cb_state c = Closed)
     \<and> (cb_state c = Closed \<longrightarrow> cb_failures c < num_int (failureThreshold opts))
     \<and> (cb_state c \<noteq> HalfOpen \<longrightarrow> cb_halfOpenActive c = 0)
     \<and> cb_halfOpenActive c \<le> num_int (halfOpenMaxCalls opts)"

definition options_ok :: "circuit_options \<Rightarrow> bool" where
  "options_ok opts \<longleftrightarrow> 1 \<le> num_int (failureThreshold opts) \<and> 1 \<le> num_int (halfOpenMaxCalls opts)
     \<and> 1 \<le> num_int (openMs opts)"

lemma create_ok: "createCircuitBreaker opts = Inr c \<Longrightarrow> options_ok opts \<and> circuit_inv opts c"
  by (auto simp: createCircuitBreaker_def options_ok_def circuit_inv_def split: if_splits)

lemmas circuit_defs = circuit_inv_def cb_refresh_def cb_open_def cb_finally_def Let_def

lemma refresh_inv: "options_ok opts \<Longrightarrow> circuit_inv opts c \<Longrightarrow> circuit_inv opts (cb_refresh opts now c)"
  by (auto simp: circuit_defs options_ok_def)

lemma enter_inv:
  "options_ok opts \<Longrightarrow> circuit_inv opts c \<Longrightarrow> circuit_inv opts (snd (cb_enter opts now c))"
  using refresh_inv [of opts c now]
  by (cases "cb_state (cb_refresh opts now c)") (auto simp: cb_enter_def Let_def circuit_inv_def)

lemma succeed_inv: "options_ok opts \<Longrightarrow> circuit_inv opts c \<Longrightarrow> circuit_inv opts (cb_succeed p c)"
  by (auto simp: cb_succeed_def circuit_defs options_ok_def)

lemma fail_inv: "options_ok opts \<Longrightarrow> circuit_inv opts c \<Longrightarrow> circuit_inv opts (cb_fail opts k now p e c)"
  by (auto simp: cb_fail_def circuit_defs options_ok_def)

lemma enter_inv':
  "cb_enter opts now c = (r, c') \<Longrightarrow> options_ok opts \<Longrightarrow> circuit_inv opts c \<Longrightarrow> circuit_inv opts c'"
  by (metis enter_inv snd_conv)

lemma cs_step_inv:
  "cs_step opts counts s t \<Longrightarrow> options_ok opts \<Longrightarrow> circuit_inv opts (cs_circuit s) \<Longrightarrow>
   circuit_inv opts (cs_circuit t)"
  by (induction rule: cs_step.induct)
    (auto simp: cb_snapshot_def intro: refresh_inv succeed_inv fail_inv dest: enter_inv')

lemma cs_reachable_inv:
  "cs_reachable opts counts s \<Longrightarrow> options_ok opts \<and> circuit_inv opts (cs_circuit s)"
  by (induction rule: cs_reachable.induct) (auto dest: create_ok intro: cs_step_inv)

section \<open>Properties\<close>

definition sample_options :: circuit_options where
  "sample_options = \<lparr>failureThreshold = Fin 2, halfOpenMaxCalls = Fin 1, openMs = Fin 1000\<rparr>"

definition fresh_circuit :: circuit where
  "fresh_circuit =
     \<lparr>cb_state = Closed, cb_failures = 0, cb_openedAt = None, cb_halfOpenActive = 0\<rparr>"

lemma sample_created: "createCircuitBreaker sample_options = Inr fresh_circuit"
  by code_simp

lemmas sample_reachable = cs_reachable.start [OF sample_created, of defaultFailureClassifier]

text \<open>
  C9: whatever the interleaving of calls, results and clock readings, the failure count of a
  closed circuit is below the threshold, an opening time is recorded exactly while the circuit is
  not closed, and the half-open counter never passes \<open>halfOpenMaxCalls\<close> and is zero outside
  the half-open state.
\<close>

theorem circuit_invariant:
  assumes "cs_reachable opts counts s"
  shows "(cb_state (cs_circuit s) = Closed \<longrightarrow>
           cb_failures (cs_circuit s) < num_int (failureThreshold opts))
    \<and> (cb_openedAt (cs_circuit s) = None \<longleftrightarrow> cb_state (cs_circuit s) = Closed)
    \<and> cb_halfOpenActive (cs_circuit s) \<le> num_int (halfOpenMaxCalls opts)
    \<and> (cb_state (cs_circuit s) \<noteq> HalfOpen \<longrightarrow> cb_halfOpenActive (cs_circuit s) = 0)"
  using cs_reachable_inv [OF assms] by (simp add: circuit_inv_def)

theorem circuit_invariant_witness:
  "cb_failures fresh_circuit < num_int (failureThreshold sample_options)"
  using circuit_invariant [OF sample_reachable] by (simp add: fresh_circuit_def)

text \<open>
  An open circuit answers every call before \<open>openedAt + openMs\<close> with a retryable
  \<open>circuit_open\<close> error and stays as it is, without running the operation; the first call at or
  after that time is admitted as a half-open probe.
\<close>

theorem open_circuit_fails_fast:
  assumes "cs_reachable opts counts s" and "cb_state (cs_circuit s) = Open"
  shows "\<exists>t. cb_openedAt (cs_circuit s) = Some t
    \<and> cb_enter opts now (cs_circuit s) =
        (if now < t + num_int (openMs opts)
         then (Inl (retryable_error C_circuit_open), cs_circuit s)
         else (Inr True, (cs_circuit s)\<lparr>cb_state := HalfOpen, cb_halfOpenActive := 1\<rparr>))"
proof -
  from cs_reachable_inv [OF assms(1)] assms(2) obtain t
    where "cb_openedAt (cs_circuit s) = Some t" and "1 \<le> num_int (halfOpenMaxCalls opts)"
    by (auto simp: circuit_inv_def options_ok_def)
  with assms(2) show ?thesis
    by (auto simp: cb_enter_def cb_refresh_def Let_def)
qed

text \<open>Calls that run one after the other and all fail.\<close>

fun fail_in_turn :: "circuit_options \<Rightarrow> (thrown \<Rightarrow> bool) \<Rightarrow> (int \<times> thrown) list \<Rightarrow> circuit \<Rightarrow> circuit"
where
  "fail_in_turn opts counts [] c = c"
| "fail_in_turn opts counts ((now, e) # xs) c =
     fail_in_turn opts counts xs
       (case cb_enter opts now c of
          (Inl r, c') \<Rightarrow> c'
        | (Inr p, c') \<Rightarrow> cb_fail opts counts now p e c')"

lemma fail_in_turn_append:
  "fail_in_turn opts counts (xs @ ys) c = fail_in_turn opts counts ys (fail_in_turn opts counts xs c)"
  by (induction opts counts xs c rule: fail_in_turn.induct) simp_all

lemma closed_fail:
  assumes "cb_state c = Closed" "counts e"
  shows "(case cb_enter opts now c of (Inl r, c') \<Rightarrow> c' | (Inr p, c') \<Rightarrow> cb_fail opts counts now p e c')
    = (let c' = c\<lparr>cb_failures := cb_failures c + 1\<rparr> in
       if num_int (failureThreshold opts) \<le> cb_failures c' then cb_open now c' else c')"
  using assms by (simp add: cb_enter_def cb_refresh_def cb_fail_def cb_finally_def Let_def)

lemma fail_in_turn_closed:
  assumes "list_all (counts \<circ> snd) xs" and "int (length xs) < num_int (failureThreshold opts)"
  shows "fail_in_turn opts counts xs fresh_circuit = fresh_circuit\<lparr>cb_failures := int (length xs)\<rparr>"
  using assms
proof (induction xs rule: rev_induct)
  case Nil
  then show ?case by (simp add: fresh_circuit_def)
next
  case (snoc x xs)
  obtain now e where x: "x = (now, e)" by (cases x)
  from snoc x show ?case
    using closed_fail [of "fresh_circuit\<lparr>cb_failures := int (length xs)\<rparr>" counts e opts now]
    by (simp add: fail_in_turn_append fresh_circuit_def Let_def)
qed

lemma created_fresh: "createCircuitBreaker opts = Inr c \<Longrightarrow> c = fresh_circuit"
  by (simp add: createCircuitBreaker_def fresh_circuit_def split: if_splits)

text \<open>
  Calls that run one after the other and all fail with counted errors open the circuit at
  failure number \<open>failureThreshold\<close>, and it is still closed after every shorter run of them.
\<close>

theorem opens_at_threshold:
  assumes "createCircuitBreaker opts = Inr c"
    and "list_all (counts \<circ> snd) xs" and "counts e"
    and "int (length xs) + 1 = num_int (failureThreshold opts)"
  shows "cb_state (fail_in_turn opts counts (take k xs) c) = Closed
    \<and> fail_in_turn opts counts (xs @ [(now, e)]) c =
        \<lparr>cb_state = Open, cb_failures = num_int (failureThreshold opts), cb_openedAt = Some now,
         cb_halfOpenActive = 0\<rparr>"
proof -
  note c = created_fresh [OF assms(1)]
  have "list_all (counts \<circ> snd) (take k xs)"
    using assms(2) by (auto simp: list_all_iff dest: in_set_takeD)
  with assms(4) have "fail_in_turn opts counts (take k xs) c =
      fresh_circuit\<lparr>cb_failures := int (length (take k xs))\<rparr>"
    unfolding c by (intro fail_in_turn_closed) auto
  moreover have "fail_in_turn opts counts xs c = fresh_circuit\<lparr>cb_failures := int (length xs)\<rparr>"
    unfolding c using assms(2,4) by (intro fail_in_turn_closed) auto
  ultimately show ?thesis
    using assms(3,4)
      closed_fail [of "fresh_circuit\<lparr>cb_failures := int (length xs)\<rparr>" counts e opts now]
    by (simp add: fail_in_turn_append cb_open_def fresh_circuit_def Let_def)
qed

abbreviation timed_out :: thrown where "timed_out \<equiv> retryable_error C_timeout"

theorem opens_at_threshold_witness:
  "cb_state (fail_in_turn sample_options defaultFailureClassifier (take 1 [(5, timed_out)])
      fresh_circuit) = Closed
   \<and> fail_in_turn sample_options defaultFailureClassifier ([(5, timed_out)] @ [(7, timed_out)])
       fresh_circuit =
     \<lparr>cb_state = Open, cb_failures = num_int (failureThreshold sample_options),
      cb_openedAt = Some 7, cb_halfOpenActive = 0\<rparr>"
  by (rule opens_at_threshold [OF sample_created])
    (simp_all add: defaultFailureClassifier_def DEFAULT_FAILURE_CATEGORIES_def sample_options_def)

section \<open>A stale probe frees a slot it no longer holds\<close>

lemma reach_enter:
  assumes "cs_reachable opts k s" and "isOk (fst (cb_enter opts now (cs_circuit s)))"
    and "t = s\<lparr>cs_circuit := snd (cb_enter opts now (cs_circuit s)),
      cs_flight := cs_flight s @ [(projr (fst (cb_enter opts now (cs_circuit s))), cs_opened s)]\<rparr>"
  shows "cs_reachable opts k t"
proof -
  obtain p where "fst (cb_enter opts now (cs_circuit s)) = Inr p"
    using assms(2) by (auto simp: isOk_iff)
  then have "cb_enter opts now (cs_circuit s) = (Inr p, snd (cb_enter opts now (cs_circuit s)))"
    by (metis prod.collapse)
  from cs_step.enter [OF this] assms(1,3) \<open>fst _ = Inr p\<close> show ?thesis
    by (auto intro: cs_reachable.step)
qed

text \<open>The call that entered first fails.\<close>

lemma reach_fail:
  assumes "cs_reachable opts k s" and "cs_flight s \<noteq> []"
    and "t = s\<lparr>cs_circuit := cb_fail opts k now (fst (hd (cs_flight s))) e (cs_circuit s),
      cs_flight := tl (cs_flight s),
      cs_opened := (if cb_opens opts k (fst (hd (cs_flight s))) e (cs_circuit s)
                    then Suc (cs_opened s) else cs_opened s)\<rparr>"
  shows "cs_reachable opts k t"
proof -
  obtain p g ys where f: "cs_flight s = [] @ (p, g) # ys"
    using assms(2) by (cases "cs_flight s") auto
  from cs_step.fail [OF f, where opts = opts and counts = k and now = now and e = e] assms(1,3) f show ?thesis
    by (auto intro: cs_reachable.step)
qed

lemmas run_defs = cb_enter_def cb_refresh_def cb_fail_def cb_open_def cb_finally_def cb_opens_def
  sample_options_def defaultFailureClassifier_def DEFAULT_FAILURE_CATEGORIES_def fresh_circuit_def
  Let_def

abbreviation cb_sys :: "circuit_state \<Rightarrow> int \<Rightarrow> int option \<Rightarrow> int \<Rightarrow> (bool \<times> nat) list \<Rightarrow> nat \<Rightarrow> circuit_system"
where
  "cb_sys st f opened act fl n \<equiv>
     \<lparr>cs_circuit = \<lparr>cb_state = st, cb_failures = f, cb_openedAt = opened, cb_halfOpenActive = act\<rparr>,
      cs_flight = fl, cs_opened = n\<rparr>"

text \<open>
  Three calls enter the closed circuit; two fail and open it. A probe enters; the third old call
  fails and opens the circuit again, which forgets the probe. A second probe enters; the first one
  ends with an error that does not count, and gives back the second one's slot.
\<close>

lemma stale_probe_run:
  "cs_reachable sample_options defaultFailureClassifier
     (cb_sys HalfOpen 3 (Some 1002) 1 [(True, 2), (True, 2)] 2)"
proof -
  let ?R = "cs_reachable sample_options defaultFailureClassifier"
  have "?R (cb_sys Closed 0 None 0 [] 0)"
    using sample_reachable by (simp add: fresh_circuit_def)
  then have "?R (cb_sys Closed 0 None 0 [(False, 0)] 0)"
    by (rule reach_enter [where now = 0]) (simp_all add: run_defs)
  then have "?R (cb_sys Closed 0 None 0 [(False, 0), (False, 0)] 0)"
    by (rule reach_enter [where now = 0]) (simp_all add: run_defs)
  then have "?R (cb_sys Closed 0 None 0 [(False, 0), (False, 0), (False, 0)] 0)"
    by (rule reach_enter [where now = 0]) (simp_all add: run_defs)
  then have "?R (cb_sys Closed 1 None 0 [(False, 0), (False, 0)] 0)"
    by (rule reach_fail [where now = 1 and e = timed_out]) (simp_all add: run_defs)
  then have "?R (cb_sys Open 2 (Some 1) 0 [(False, 0)] 1)"
    by (rule reach_fail [where now = 1 and e = timed_out]) (simp_all add: run_defs)
  then have "?R (cb_sys HalfOpen 2 (Some 1) 1 [(False, 0), (True, 1)] 1)"
    by (rule reach_enter [where now = 1001]) (simp_all add: run_defs)
  then have "?R (cb_sys Open 3 (Some 1002) 0 [(True, 1)] 2)"
    by (rule reach_fail [where now = 1002 and e = timed_out]) (simp_all add: run_defs)
  then have "?R (cb_sys HalfOpen 3 (Some 1002) 1 [(True, 1), (True, 2)] 2)"
    by (rule reach_enter [where now = 2002]) (simp_all add: run_defs)
  then have "?R (cb_sys HalfOpen 3 (Some 1002) 0 [(True, 2)] 2)"
    by (rule reach_fail [where now = 2003 and e = "runtime_error C_cancelled"])
      (simp_all add: run_defs)
  then show ?thesis
    by (rule reach_enter [where now = 2004]) (simp_all add: run_defs)
qed

text \<open>
  C38: \<open>halfOpenMaxCalls\<close> does not bound the probes of one half-open phase. With a limit of one
  there is a run after which two probes that both entered since the circuit last opened are in
  flight at once: the \<open>finally\<close> of a probe from an earlier phase decrements the counter of the
  present one.
\<close>

theorem half_open_limit_exceeded:
  "\<exists>s. cs_reachable sample_options defaultFailureClassifier s
    \<and> cb_state (cs_circuit s) = HalfOpen
    \<and> num_int (halfOpenMaxCalls sample_options) <
        int (length (filter (\<lambda>(probe, g). probe \<and> g = cs_opened s) (cs_flight s)))"
  by (rule exI, rule conjI, rule stale_probe_run) (simp add: sample_options_def)

lemma opened_run:
  "cs_reachable sample_options defaultFailureClassifier (cb_sys Open 2 (Some 1) 0 [] 1)"
proof -
  let ?R = "cs_reachable sample_options defaultFailureClassifier"
  have "?R (cb_sys Closed 0 None 0 [] 0)"
    using sample_reachable by (simp add: fresh_circuit_def)
  then have "?R (cb_sys Closed 0 None 0 [(False, 0)] 0)"
    by (rule reach_enter [where now = 0]) (simp_all add: run_defs)
  then have "?R (cb_sys Closed 0 None 0 [(False, 0), (False, 0)] 0)"
    by (rule reach_enter [where now = 0]) (simp_all add: run_defs)
  then have "?R (cb_sys Closed 1 None 0 [(False, 0)] 0)"
    by (rule reach_fail [where now = 1 and e = timed_out]) (simp_all add: run_defs)
  then show ?thesis
    by (rule reach_fail [where now = 1 and e = timed_out]) (simp_all add: run_defs)
qed

theorem open_circuit_fails_fast_witness:
  "\<exists>t. cb_openedAt (cs_circuit (cb_sys Open 2 (Some 1) 0 [] 1)) = Some t
    \<and> cb_enter sample_options 900 (cs_circuit (cb_sys Open 2 (Some 1) 0 [] 1)) =
        (if 900 < t + num_int (openMs sample_options)
         then (Inl (retryable_error C_circuit_open), cs_circuit (cb_sys Open 2 (Some 1) 0 [] 1))
         else (Inr True, (cs_circuit (cb_sys Open 2 (Some 1) 0 [] 1))
                 \<lparr>cb_state := HalfOpen, cb_halfOpenActive := 1\<rparr>))"
  by (rule open_circuit_fails_fast [OF opened_run]) simp

end
