(* ===== verification/Limiters.thy ===== *)
theory Limiters
  imports Retry
begin

text \<open>
  The concurrency limiter and the fixed window rate limiter
  (\<open>packages/crm-modules/integration-runtime/src/limits.ts\<close>). A call of the limiter is named by
  a number; \<open>aborted\<close> says which calls' signals are aborted at the moment of the operation.
\<close>

section \<open>The concurrency limiter\<close>

record limiter =
  lm_limit :: int
  lm_maxQueue :: int
  lm_active :: int
  lm_queue :: "nat list"

definition createConcurrencyLimiter :: "jsnum \<Rightarrow> jsnum \<Rightarrow> thrown + limiter" where
  "createConcurrencyLimiter limit maxQueue =
     (if \<not> isSafeInteger limit \<or> num_lt limit (Fin 1)
         \<or> \<not> isSafeInteger maxQueue \<or> num_lt maxQueue (Fin 0)
      then Inl (runtime_error C_invalid_input)
      else Inr \<lparr>lm_limit = num_int limit, lm_maxQueue = num_int maxQueue, lm_active = 0,
                lm_queue = []\<rparr>)"

text \<open>The \<open>while\<close> loop of \<open>release\<close>: skip the aborted calls, wake the first other one.\<close>

fun lm_wake :: "(nat \<Rightarrow> bool) \<Rightarrow> nat list \<Rightarrow> nat option \<times> nat list" where
  "lm_wake aborted [] = (None, [])"
| "lm_wake aborted (w # ws) = (if aborted w then lm_wake aborted ws else (Some w, ws))"

definition lm_release :: "(nat \<Rightarrow> bool) \<Rightarrow> limiter \<Rightarrow> nat option \<times> limiter" where
  "lm_release aborted l =
     (let active = lm_active l - 1; (next, rest) = lm_wake aborted (lm_queue l) in
      (next, l\<lparr>lm_active := (if next = None then active else active + 1), lm_queue := rest\<rparr>))"

datatype acquired = Granted | Queued

definition lm_acquire :: "bool \<Rightarrow> nat \<Rightarrow> (limiter, thrown, acquired) act" where
  "lm_acquire aborted i l =
     (if aborted then (Inl (runtime_error C_cancelled), l)
      else if lm_active l < lm_limit l
      then (Inr Granted, l\<lparr>lm_active := lm_active l + 1\<rparr>)
      else if lm_maxQueue l \<le> int (length (lm_queue l))
      then (Inl (retryable_error C_concurrency_limited), l)
      else (Inr Queued, l\<lparr>lm_queue := lm_queue l @ [i]\<rparr>))"

text \<open>The abort listener of a queued call; its promise is rejected with \<open>cancelled\<close>.\<close>

definition lm_cancel :: "nat \<Rightarrow> limiter \<Rightarrow> limiter" where
  "lm_cancel i l = l\<lparr>lm_queue := remove1 i (lm_queue l)\<rparr>"

definition lm_snapshot :: "limiter \<Rightarrow> int \<times> int \<times> int" where
  "lm_snapshot l = (lm_active l, lm_limit l, int (length (lm_queue l)))"

subsection \<open>Interleaved calls\<close>

text \<open>
  \<open>run\<close> acquires, runs the operation, and releases in its \<open>finally\<close>: a call holds a slot from
  the grant (at once or by a wake-up) to its release.
\<close>

record limiter_system =
  ls_limiter :: limiter
  ls_holders :: "nat list"

inductive ls_step :: "limiter_system \<Rightarrow> limiter_system \<Rightarrow> bool" where
  granted: "i \<notin> set (ls_holders s) \<Longrightarrow> i \<notin> set (lm_queue (ls_limiter s)) \<Longrightarrow>
    lm_acquire a i (ls_limiter s) = (Inr Granted, l) \<Longrightarrow>
    ls_step s (s\<lparr>ls_limiter := l, ls_holders := ls_holders s @ [i]\<rparr>)"
| queued: "i \<notin> set (ls_holders s) \<Longrightarrow> i \<notin> set (lm_queue (ls_limiter s)) \<Longrightarrow>
    lm_acquire a i (ls_limiter s) = (Inr Queued, l) \<Longrightarrow>
    ls_step s (s\<lparr>ls_limiter := l\<rparr>)"
| refused: "lm_acquire a i (ls_limiter s) = (Inl e, l) \<Longrightarrow>
    ls_step s (s\<lparr>ls_limiter := l\<rparr>)"
| release: "i \<in> set (ls_holders s) \<Longrightarrow> lm_release aborted (ls_limiter s) = (w, l) \<Longrightarrow>
    ls_step s (s\<lparr>ls_limiter := l,
      ls_holders := remove1 i (ls_holders s) @ (case w of None \<Rightarrow> [] | Some j \<Rightarrow> [j])\<rparr>)"
| cancel: "ls_step s (s\<lparr>ls_limiter := lm_cancel i (ls_limiter s)\<rparr>)"

inductive ls_reachable :: "jsnum \<Rightarrow> jsnum \<Rightarrow> limiter_system \<Rightarrow> bool"
  for limit :: jsnum and maxQueue :: jsnum
where
  start: "createConcurrencyLimiter limit maxQueue = Inr l \<Longrightarrow>
    ls_reachable limit maxQueue \<lparr>ls_limiter = l, ls_holders = []\<rparr>"
| step: "ls_reachable limit maxQueue s \<Longrightarrow> ls_step s t \<Longrightarrow> ls_reachable limit maxQueue t"

inductive_cases ls_reachableE: "ls_reachable limit maxQueue s"

definition limiter_inv :: "limiter_system \<Rightarrow> bool" where
  "limiter_inv s \<longleftrightarrow>
     (let l = ls_limiter s in
      lm_active l = int (length (ls_holders s))
      \<and> lm_active l \<le> lm_limit l
      \<and> int (length (lm_queue l)) \<le> lm_maxQueue l
      \<and> (lm_queue l \<noteq> [] \<longrightarrow> lm_active l = lm_limit l)
      \<and> distinct (ls_holders s @ lm_queue l))"

lemma lm_wake_split:
  "lm_wake ab q = (w, rest) \<Longrightarrow>
   \<exists>skipped. (\<forall>j \<in> set skipped. ab j)
     \<and> (case w of None \<Rightarrow> q = skipped \<and> rest = [] | Some j \<Rightarrow> q = skipped @ j # rest \<and> \<not> ab j)"
proof (induction ab q rule: lm_wake.induct)
  case (1 ab)
  then show ?case by auto
next
  case (2 ab v ws)
  show ?case
  proof (cases "ab v")
    case True
    with 2 obtain sk where "\<forall>j \<in> set sk. ab j"
      "case w of None \<Rightarrow> ws = sk \<and> rest = [] | Some j \<Rightarrow> ws = sk @ j # rest \<and> \<not> ab j"
      by auto
    with True show ?thesis by (intro exI [of _ "v # sk"]) (auto split: option.splits)
  next
    case False
    with 2 show ?thesis by (intro exI [of _ "[]"]) auto
  qed
qed

lemma release_inv:
  assumes inv: "limiter_inv s" and i: "i \<in> set (ls_holders s)"
    and r: "lm_release ab (ls_limiter s) = (w, l)"
  shows "limiter_inv (s\<lparr>ls_limiter := l,
      ls_holders := remove1 i (ls_holders s) @ (case w of None \<Rightarrow> [] | Some j \<Rightarrow> [j])\<rparr>)"
proof -
  obtain rest where q: "lm_wake ab (lm_queue (ls_limiter s)) = (w, rest)"
    and l: "l = (ls_limiter s)\<lparr>lm_active := (if w = None then lm_active (ls_limiter s) - 1
      else lm_active (ls_limiter s)), lm_queue := rest\<rparr>"
    using r by (auto simp: lm_release_def Let_def split: prod.splits)
  have "0 < length (ls_holders s)" using i by (auto simp: length_pos_if_in_set)
  then have pos: "int (length (ls_holders s) - Suc 0) = int (length (ls_holders s)) - 1" by linarith
  obtain sk where sk: "case w of None \<Rightarrow> lm_queue (ls_limiter s) = sk \<and> rest = []
      | Some j \<Rightarrow> lm_queue (ls_limiter s) = sk @ j # rest"
    using lm_wake_split [OF q] by (auto split: option.splits)
  show ?thesis
  proof (cases w)
    case None
    with sk l inv i pos show ?thesis
      by (auto simp: limiter_inv_def Let_def length_remove1 of_nat_diff)
  next
    case (Some j)
    with sk l inv i pos show ?thesis
      by (auto simp: limiter_inv_def Let_def length_remove1 of_nat_diff)
  qed
qed

lemma ls_step_inv: "ls_step s t \<Longrightarrow> limiter_inv s \<Longrightarrow> limiter_inv t"
proof (induction rule: ls_step.induct)
  case (release i s aborted w l)
  then show ?case by (intro release_inv)
next
  case (cancel s i)
  then show ?case
    by (auto simp: limiter_inv_def lm_cancel_def Let_def length_remove1 dest: notin_set_remove1)
qed (auto simp: limiter_inv_def lm_acquire_def Let_def split: if_splits)

lemma ls_step_limits: "ls_step s t \<Longrightarrow>
    lm_limit (ls_limiter t) = lm_limit (ls_limiter s)
    \<and> lm_maxQueue (ls_limiter t) = lm_maxQueue (ls_limiter s)"
  by (induction rule: ls_step.induct)
    (auto simp: lm_acquire_def lm_release_def lm_cancel_def Let_def split: if_splits prod.splits)

lemma ls_reachable_inv:
  "ls_reachable limit maxQueue s \<Longrightarrow>
   limiter_inv s \<and> lm_limit (ls_limiter s) = num_int limit
     \<and> lm_maxQueue (ls_limiter s) = num_int maxQueue"
proof (induction rule: ls_reachable.induct)
  case (start l)
  then show ?case
    by (auto simp: createConcurrencyLimiter_def limiter_inv_def split: if_splits)
next
  case (step s t)
  then show ?case using ls_step_inv ls_step_limits by auto
qed

text \<open>
  In every interleaving of acquisitions, releases and cancellations, the limiter's counter is
  the number of calls that hold a slot, at most \<open>limit\<close> calls do, at most \<open>maxQueue\<close> wait, and
  calls wait only while every slot is taken: no slot is lost or given out twice.
\<close>

theorem limiter_invariant:
  assumes "ls_reachable limit maxQueue s"
  shows "lm_active (ls_limiter s) = int (length (ls_holders s))
    \<and> int (length (ls_holders s)) \<le> num_int limit
    \<and> int (length (lm_queue (ls_limiter s))) \<le> num_int maxQueue
    \<and> (lm_queue (ls_limiter s) = [] \<or> int (length (ls_holders s)) = num_int limit)
    \<and> distinct (ls_holders s @ lm_queue (ls_limiter s))"
  using ls_reachable_inv [OF assms] by (auto simp: limiter_inv_def Let_def)

theorem limiter_invariant_witness:
  "int (length (ls_holders \<lparr>ls_limiter = \<lparr>lm_limit = 2, lm_maxQueue = 1, lm_active = 1,
      lm_queue = []\<rparr>, ls_holders = [7]\<rparr>)) \<le> num_int (Fin 2)"
proof -
  have s: "createConcurrencyLimiter (Fin 2) (Fin 1) =
      Inr \<lparr>lm_limit = 2, lm_maxQueue = 1, lm_active = 0, lm_queue = []\<rparr>"
    by code_simp
  have "ls_step \<lparr>ls_limiter = \<lparr>lm_limit = 2, lm_maxQueue = 1, lm_active = 0, lm_queue = []\<rparr>,
      ls_holders = []\<rparr> \<lparr>ls_limiter = \<lparr>lm_limit = 2, lm_maxQueue = 1, lm_active = 1,
      lm_queue = []\<rparr>, ls_holders = [7]\<rparr>"
    using ls_step.granted [of 7 "\<lparr>ls_limiter = \<lparr>lm_limit = 2, lm_maxQueue = 1, lm_active = 0,
      lm_queue = []\<rparr>, ls_holders = []\<rparr>" False] by (simp add: lm_acquire_def)
  from limiter_invariant [OF ls_reachable.step [OF ls_reachable.start [OF s] this]]
  show ?thesis by simp
qed

text \<open>
  A release hands its slot to the first waiting call whose signal is not aborted, drops the
  aborted calls before it, and keeps the others in order; with no such call the slot becomes free.
\<close>

theorem release_wakes_in_order:
  "lm_release aborted l =
     (case dropWhile aborted (lm_queue l) of
        [] \<Rightarrow> (None, l\<lparr>lm_active := lm_active l - 1, lm_queue := []\<rparr>)
      | w # rest \<Rightarrow> (Some w, l\<lparr>lm_queue := rest\<rparr>))"
proof -
  have "lm_wake aborted q = (case dropWhile aborted q of [] \<Rightarrow> (None, []) | w # r \<Rightarrow> (Some w, r))" for q
    by (induction q) auto
  then show ?thesis
    by (cases "dropWhile aborted (lm_queue l)")
      (simp_all add: lm_release_def Let_def del: dropWhile_eq_Nil_conv)
qed

section \<open>The fixed window rate limiter\<close>

record rate_limiter =
  rl_limit :: int
  rl_windowMs :: int
  rl_windowStart :: int
  rl_used :: int

record rate_decision =
  rd_allowed :: bool
  rd_remaining :: int
  rd_retryAfterMs :: int

definition createFixedWindowRateLimiter :: "jsnum \<Rightarrow> jsnum \<Rightarrow> int \<Rightarrow> thrown + rate_limiter" where
  "createFixedWindowRateLimiter limit windowMs now =
     (if \<not> isSafeInteger limit \<or> num_lt limit (Fin 1)
         \<or> \<not> isSafeInteger windowMs \<or> num_lt windowMs (Fin 1)
      then Inl (runtime_error C_invalid_input)
      else Inr \<lparr>rl_limit = num_int limit, rl_windowMs = num_int windowMs, rl_windowStart = now,
                rl_used = 0\<rparr>)"

definition rl_check :: "int \<Rightarrow> rate_limiter \<Rightarrow> rate_decision \<times> rate_limiter" where
  "rl_check current r0 =
     (let r = (if rl_windowStart r0 + rl_windowMs r0 \<le> current
               then r0\<lparr>rl_windowStart := current, rl_used := 0\<rparr> else r0)
      in if rl_limit r \<le> rl_used r
         then (\<lparr>rd_allowed = False, rd_remaining = 0,
                rd_retryAfterMs = max 0 (rl_windowStart r + rl_windowMs r - current)\<rparr>, r)
         else (\<lparr>rd_allowed = True, rd_remaining = rl_limit r - (rl_used r + 1),
                rd_retryAfterMs = 0\<rparr>, r\<lparr>rl_used := rl_used r + 1\<rparr>))"

text \<open>A run of checks at the given clock readings: each reading with its decision.\<close>

fun rl_run :: "int list \<Rightarrow> rate_limiter \<Rightarrow> (int \<times> bool) list" where
  "rl_run [] r = []"
| "rl_run (t # ts) r = (t, rd_allowed (fst (rl_check t r))) # rl_run ts (snd (rl_check t r))"

definition allowed_within :: "int \<Rightarrow> int \<Rightarrow> (int \<times> bool) list \<Rightarrow> nat" where
  "allowed_within a b xs = length (filter (\<lambda>(t, ok). ok \<and> a \<le> t \<and> t < b) xs)"

text \<open>
  The counting argument: \<open>c\<close> checks were allowed in \<open>[a, a + W)\<close> so far. While the current
  window began before \<open>a\<close> they are all of that window; when it began inside, at most one more
  window reaches into the interval.
\<close>

definition window_count :: "int \<Rightarrow> int \<Rightarrow> rate_limiter \<Rightarrow> int \<Rightarrow> bool" where
  "window_count a prev r c \<longleftrightarrow>
     0 \<le> c \<and> 0 \<le> rl_used r \<and> rl_used r \<le> rl_limit r \<and> 1 \<le> rl_limit r \<and> 1 \<le> rl_windowMs r
     \<and> rl_windowStart r \<le> prev \<and> (prev < a \<longrightarrow> c = 0)
     \<and> c \<le> (if a + rl_windowMs r \<le> rl_windowStart r then 2 * rl_limit r
            else if a \<le> rl_windowStart r then rl_limit r + rl_used r else rl_used r)"

lemma rl_check_config:
  "rl_limit (snd (rl_check t r)) = rl_limit r" "rl_windowMs (snd (rl_check t r)) = rl_windowMs r"
  by (simp_all add: rl_check_def Let_def)

lemma window_count_le: "window_count a prev r c \<Longrightarrow> c \<le> 2 * rl_limit r"
  by (auto simp: window_count_def split: if_splits)

lemma window_count_step:
  assumes "window_count a prev r c" and "prev \<le> t"
  shows "window_count a t (snd (rl_check t r))
    (c + (if rd_allowed (fst (rl_check t r)) \<and> a \<le> t \<and> t < a + rl_windowMs r then 1 else 0))"
proof (cases "rl_windowStart r + rl_windowMs r \<le> t")
  case True
  with assms window_count_le [OF assms(1)] show ?thesis
    by (auto simp: window_count_def rl_check_def Let_def)
next
  case False
  with assms show ?thesis by (auto simp: window_count_def rl_check_def Let_def)
qed

lemma allowed_within_Cons:
  "allowed_within a b ((t, ok) # xs) =
     (if ok \<and> a \<le> t \<and> t < b then 1 else 0) + allowed_within a b xs"
  by (simp add: allowed_within_def)

lemma window_count_run:
  "window_count a prev r c \<Longrightarrow> sorted (prev # ts) \<Longrightarrow>
   c + int (allowed_within a (a + rl_windowMs r) (rl_run ts r)) \<le> 2 * rl_limit r"
proof (induction ts arbitrary: prev r c)
  case Nil
  then show ?case by (auto simp: window_count_def allowed_within_def split: if_splits)
next
  case (Cons t ts)
  then have "prev \<le> t" "sorted (t # ts)" by auto
  from Cons.IH [OF window_count_step [OF Cons.prems(1) this(1)] this(2)] show ?case
    by (auto simp: rl_check_config allowed_within_Cons split: if_splits)
qed

text \<open>
  C31: for clock readings that never go back, in any interval as long as the window at most twice
  \<open>limit\<close> checks are allowed, wherever the windows happened to start.
\<close>

theorem rate_limit_bound:
  assumes "createFixedWindowRateLimiter limit windowMs t0 = Inr r" and "sorted (t0 # ts)"
  shows "int (allowed_within a (a + num_int windowMs) (rl_run ts r)) \<le> 2 * num_int limit"
proof -
  have r: "rl_limit r = num_int limit" "rl_windowMs r = num_int windowMs"
    and w: "window_count a t0 r 0"
    using assms(1)
    by (auto simp: createFixedWindowRateLimiter_def window_count_def split: if_splits)
  from window_count_run [OF w assms(2)] r show ?thesis by simp
qed

theorem rate_limit_bound_witness:
  "int (allowed_within 95 (95 + num_int (Fin 100)) (rl_run [97, 98, 99, 100, 101, 102]
     \<lparr>rl_limit = 2, rl_windowMs = 100, rl_windowStart = 0, rl_used = 0\<rparr>)) \<le> 2 * num_int (Fin 2)
   \<and> allowed_within 95 195 (rl_run [97, 98, 99, 100, 101, 102]
     \<lparr>rl_limit = 2, rl_windowMs = 100, rl_windowStart = 0, rl_used = 0\<rparr>) = 4"
proof
  have "createFixedWindowRateLimiter (Fin 2) (Fin 100) 0 =
      Inr \<lparr>rl_limit = 2, rl_windowMs = 100, rl_windowStart = 0, rl_used = 0\<rparr>"
    by code_simp
  then show "int (allowed_within 95 (95 + num_int (Fin 100)) (rl_run [97, 98, 99, 100, 101, 102]
     \<lparr>rl_limit = 2, rl_windowMs = 100, rl_windowStart = 0, rl_used = 0\<rparr>)) \<le> 2 * num_int (Fin 2)"
    by (rule rate_limit_bound) simp
qed code_simp

end
