(* ===== verification/Deadline.thy ===== *)
theory Deadline
  imports Retry
begin

text \<open>
  Deadlines (\<open>packages/crm-modules/integration-runtime/src/deadline.ts\<close>): an operation that
  races against a timer and its caller's abort signal, and the budget that bounds a whole
  execution. The asynchronous behaviour is a trace of events: the operation settles, the timer
  fires, the parent signal aborts. What JavaScript's promises do with them is written out: the
  first event settles \<open>Promise.race\<close>, and the code after the \<open>await\<close> sees the flags of
  every event up to the moment it resumes.
\<close>

section \<open>One operation\<close>

definition MAX_DEADLINE_MS :: int where
  "MAX_DEADLINE_MS = 3600000"

definition positiveInteger :: "jsnum \<Rightarrow> thrown + unit" where
  "positiveInteger value =
     (if \<not> isSafeInteger value \<or> num_int value \<le> 0 \<or> MAX_DEADLINE_MS < num_int value
      then Inl (runtime_error C_invalid_input) else Inr ())"

datatype 'a dl_event = OpSettles "thrown + 'a" | TimerFires | ParentAborts

text \<open>
  \<open>dl_race\<close> is what \<open>Promise.race\<close> has settled with, \<open>dl_signal\<close> whether the controller's
  signal, the one the operation was given, is aborted.
\<close>

record 'a dl_state =
  dl_expired :: bool
  dl_parent :: bool
  dl_signal :: bool
  dl_race :: "(thrown + 'a) option"

definition dl_settle :: "thrown + 'a \<Rightarrow> 'a dl_state \<Rightarrow> 'a dl_state" where
  "dl_settle r s = (case dl_race s of None \<Rightarrow> s\<lparr>dl_race := Some r\<rparr> | Some r' \<Rightarrow> s)"

fun dl_step :: "'a dl_event \<Rightarrow> 'a dl_state \<Rightarrow> 'a dl_state" where
  "dl_step (OpSettles r) s = dl_settle r s"
| "dl_step TimerFires s =
     dl_settle (Inl (retryable_error C_timeout)) (s\<lparr>dl_expired := True, dl_signal := True\<rparr>)"
| "dl_step ParentAborts s =
     dl_settle (Inl (runtime_error C_cancelled)) (s\<lparr>dl_parent := True, dl_signal := True\<rparr>)"

definition dl_run :: "'a dl_event list \<Rightarrow> 'a dl_state" where
  "dl_run evs = fold dl_step evs
     \<lparr>dl_expired = False, dl_parent = False, dl_signal = False, dl_race = None\<rparr>"

text \<open>The checks after the \<open>await\<close>, and the \<open>catch\<close> they are inside of.\<close>

definition dl_after_await :: "'a dl_state \<Rightarrow> thrown + 'a \<Rightarrow> thrown + 'a" where
  "dl_after_await s r =
     bindE r (\<lambda>v. if dl_expired s then Inl (retryable_error C_timeout)
                  else if dl_parent s then Inl (runtime_error C_cancelled) else Inr v)"

definition dl_catch :: "'a dl_state \<Rightarrow> thrown + 'a \<Rightarrow> thrown + 'a" where
  "dl_catch s r = (case r of
     Inr v \<Rightarrow> Inr v
   | Inl e \<Rightarrow> if dl_expired s then Inl (retryable_error C_timeout)
             else if dl_parent s then Inl (runtime_error C_cancelled) else Inl e)"

text \<open>
  \<open>parentAborted\<close> is \<open>parentSignal?.aborted\<close> at the call. The result is \<open>None\<close> when the
  trace ends before the race has settled.
\<close>

definition runWithDeadline :: "jsnum \<Rightarrow> bool \<Rightarrow> 'a dl_event list \<Rightarrow> (thrown + 'a) option" where
  "runWithDeadline timeoutMs parentAborted evs = (case positiveInteger timeoutMs of
     Inl e \<Rightarrow> Some (Inl e)
   | Inr _ \<Rightarrow>
       if parentAborted then Some (Inl (runtime_error C_cancelled))
       else let s = dl_run evs in
         map_option (\<lambda>r. dl_catch s (dl_after_await s r)) (dl_race s))"

subsection \<open>What the race gives\<close>

lemma dl_settle_flags [simp]:
  "dl_expired (dl_settle r s) = dl_expired s" "dl_parent (dl_settle r s) = dl_parent s"
  "dl_signal (dl_settle r s) = dl_signal s"
  by (simp_all add: dl_settle_def split: option.splits)

lemma dl_fold_expired: "dl_expired (fold dl_step evs s) \<longleftrightarrow> dl_expired s \<or> TimerFires \<in> set evs"
proof (induction evs arbitrary: s)
  case (Cons e evs)
  then show ?case by (cases e) auto
qed simp

lemma dl_fold_parent: "dl_parent (fold dl_step evs s) \<longleftrightarrow> dl_parent s \<or> ParentAborts \<in> set evs"
proof (induction evs arbitrary: s)
  case (Cons e evs)
  then show ?case by (cases e) auto
qed simp

lemma dl_fold_signal:
  "dl_signal (fold dl_step evs s) \<longleftrightarrow>
     dl_signal s \<or> TimerFires \<in> set evs \<or> ParentAborts \<in> set evs"
proof (induction evs arbitrary: s)
  case (Cons e evs)
  then show ?case by (cases e) auto
qed simp

lemma dl_fold_settled: "dl_race s = Some r \<Longrightarrow> dl_race (fold dl_step evs s) = Some r"
proof (induction evs arbitrary: s)
  case (Cons e evs)
  then show ?case by (cases e) (auto simp: dl_settle_def split: option.splits)
qed simp

definition settlement :: "'a dl_event \<Rightarrow> thrown + 'a" where
  "settlement e = (case e of
     OpSettles r \<Rightarrow> r
   | TimerFires \<Rightarrow> Inl (retryable_error C_timeout)
   | ParentAborts \<Rightarrow> Inl (runtime_error C_cancelled))"

lemma dl_race_run:
  "dl_race (dl_run evs) = (case evs of [] \<Rightarrow> None | e # es \<Rightarrow> Some (settlement e))"
proof (cases evs)
  case (Cons e es)
  then show ?thesis
    by (cases e) (simp_all add: dl_run_def dl_settle_def dl_fold_settled settlement_def)
qed (simp add: dl_run_def)

lemma dl_run_flags:
  "dl_expired (dl_run evs) \<longleftrightarrow> TimerFires \<in> set evs"
  "dl_parent (dl_run evs) \<longleftrightarrow> ParentAborts \<in> set evs"
  "dl_signal (dl_run evs) \<longleftrightarrow> TimerFires \<in> set evs \<or> ParentAborts \<in> set evs"
  by (simp_all add: dl_run_def dl_fold_expired dl_fold_parent dl_fold_signal)

lemma dl_outcome:
  "dl_catch s (dl_after_await s r) =
     (if dl_expired s then Inl (retryable_error C_timeout)
      else if dl_parent s then Inl (runtime_error C_cancelled) else r)"
  by (cases r) (simp_all add: dl_catch_def dl_after_await_def)

lemma runWithDeadline_Cons:
  assumes "positiveInteger t = Inr ()"
  shows "runWithDeadline t False (e # es) = Some
     (if TimerFires \<in> set (e # es) then Inl (retryable_error C_timeout)
      else if ParentAborts \<in> set (e # es) then Inl (runtime_error C_cancelled)
      else settlement e)"
  using assms
  by (simp only: runWithDeadline_def Let_def dl_race_run dl_outcome dl_run_flags) simp

lemma runWithDeadline_value:
  assumes "runWithDeadline t ab evs = Some (Inr v)"
  shows "positiveInteger t = Inr () \<and> \<not> ab
    \<and> (\<exists>es. evs = OpSettles (Inr v) # es \<and> TimerFires \<notin> set es \<and> ParentAborts \<notin> set es)"
proof -
  from assms have t: "positiveInteger t = Inr ()" and ab: "\<not> ab"
    by (auto simp: runWithDeadline_def split: sum.splits if_splits)
  with assms obtain e es where evs: "evs = e # es"
    by (cases evs) (auto simp: runWithDeadline_def Let_def dl_race_run)
  with assms t ab runWithDeadline_Cons [OF t, of e es] show ?thesis
    by (cases e) (auto simp: settlement_def split: if_splits)
qed

lemma runWithDeadline_timer:
  assumes "positiveInteger t = Inr ()" and "TimerFires \<in> set evs"
  shows "runWithDeadline t False evs = Some (Inl (retryable_error C_timeout))"
proof (cases evs)
  case (Cons e es)
  with assms runWithDeadline_Cons [OF assms(1), of e es] show ?thesis by simp
qed (use assms in simp)

lemma runWithDeadline_parent:
  assumes "positiveInteger t = Inr ()" and "ParentAborts \<in> set evs" and "TimerFires \<notin> set evs"
  shows "runWithDeadline t False evs = Some (Inl (runtime_error C_cancelled))"
proof (cases evs)
  case (Cons e es)
  from assms(2,3) show ?thesis unfolding Cons by (simp only: runWithDeadline_Cons [OF assms(1)] if_False if_True)
qed (use assms in simp)

text \<open>
  C33: a deadline bounds also an operation that ignores its abort signal: once the timer has fired,
  in whatever order the other events came and whatever the operation does later, the call has
  settled, and with a retryable \<open>timeout\<close>.
\<close>

theorem deadline_settles:
  assumes "positiveInteger t = Inr ()" and "TimerFires \<in> set evs"
  shows "runWithDeadline t False evs = Some (Inl (retryable_error C_timeout))"
  using assms by (rule runWithDeadline_timer)

theorem deadline_settles_witness:
  "runWithDeadline (Fin 250) False [OpSettles (Inr (7::int)), TimerFires] =
     Some (Inl (retryable_error C_timeout))"
  by (rule deadline_settles) code_simp+

text \<open>
  A value is returned only when the operation produced it first, with an accepted timeout,
  and neither the timer nor the parent signal had fired by the time the call resumed.
\<close>

theorem deadline_value_in_time:
  assumes "runWithDeadline t ab evs = Some (Inr v)"
  shows "\<exists>es. evs = OpSettles (Inr v) # es \<and> TimerFires \<notin> set evs \<and> ParentAborts \<notin> set evs
    \<and> \<not> ab \<and> 1 \<le> num_int t \<and> num_int t \<le> MAX_DEADLINE_MS"
  using runWithDeadline_value [OF assms] by (auto simp: positiveInteger_def split: if_splits)

theorem deadline_value_in_time_witness:
  "\<exists>es. [OpSettles (Inr (7::int))] = OpSettles (Inr 7) # es
    \<and> TimerFires \<notin> set [OpSettles (Inr (7::int))] \<and> ParentAborts \<notin> set [OpSettles (Inr (7::int))]
    \<and> \<not> False \<and> 1 \<le> num_int (Fin 250) \<and> num_int (Fin 250) \<le> MAX_DEADLINE_MS"
  by (rule deadline_value_in_time) code_simp

section \<open>The budget of an execution\<close>

record deadline_limits =
  connectMs :: jsnum
  responseMs :: jsnum
  totalMs :: jsnum

text \<open>
  \<open>bg_outer\<close> is \<open>options.signal?.aborted\<close> of the caller's signal (\<open>bg_hasSignal\<close>: whether there is
  one), \<open>bg_aborted\<close> that of the budget's own controller.
\<close>

record budget =
  bg_limits :: deadline_limits
  bg_deadlineAt :: int
  bg_expired :: bool
  bg_aborted :: bool
  bg_hasSignal :: bool
  bg_outer :: bool

definition createDeadlineBudget :: "deadline_limits \<Rightarrow> int \<Rightarrow> bool option \<Rightarrow> thrown + budget" where
  "createDeadlineBudget limits startedAt signal =
     bindE (positiveInteger (connectMs limits)) (\<lambda>_.
     bindE (positiveInteger (responseMs limits)) (\<lambda>_.
     bindE (positiveInteger (totalMs limits)) (\<lambda>_.
       Inr \<lparr>bg_limits = limits, bg_deadlineAt = startedAt + num_int (totalMs limits),
            bg_expired = False, bg_aborted = (signal = Some True),
            bg_hasSignal = (signal \<noteq> None), bg_outer = (signal = Some True)\<rparr>)))"

text \<open>The total timer fires; the caller aborts its signal.\<close>

definition bg_timer :: "budget \<Rightarrow> budget" where
  "bg_timer b = b\<lparr>bg_expired := True, bg_aborted := True\<rparr>"

definition bg_cancel :: "budget \<Rightarrow> budget" where
  "bg_cancel b = (if bg_hasSignal b then b\<lparr>bg_outer := True, bg_aborted := True\<rparr> else b)"

definition remainingMs :: "int \<Rightarrow> budget \<Rightarrow> int" where
  "remainingMs now b = max 0 (bg_deadlineAt b - now)"

datatype deadline_phase = Connect | Response

text \<open>The events of a phase: the operation settles, the phase's or the total timer fires, the
  caller aborts. The last two reach the phase through the budget's signal.\<close>

datatype 'a bg_event = PhaseOp "thrown + 'a" | PhaseTimer | TotalTimer | OuterAbort

fun bg_effect :: "'a bg_event \<Rightarrow> budget \<Rightarrow> budget" where
  "bg_effect (PhaseOp r) b = b"
| "bg_effect PhaseTimer b = b"
| "bg_effect TotalTimer b = bg_timer b"
| "bg_effect OuterAbort b = bg_cancel b"

fun bg_seen :: "budget \<Rightarrow> 'a bg_event list \<Rightarrow> 'a dl_event list" where
  "bg_seen b [] = []"
| "bg_seen b (PhaseOp r # es) = OpSettles r # bg_seen b es"
| "bg_seen b (PhaseTimer # es) = TimerFires # bg_seen b es"
| "bg_seen b (TotalTimer # es) = ParentAborts # bg_seen b es"
| "bg_seen b (OuterAbort # es) = (if bg_hasSignal b then [ParentAborts] else []) @ bg_seen b es"

text \<open>The \<open>catch\<close> of \<open>runPhase\<close>.\<close>

definition phase_catch :: "budget \<Rightarrow> thrown + 'a \<Rightarrow> thrown + 'a" where
  "phase_catch b r = (case r of
     Inr v \<Rightarrow> Inr v
   | Inl e \<Rightarrow> Inl (if bg_expired b \<and> \<not> bg_outer b then retryable_error C_timeout else e))"

lemma phase_catch_iff:
  "phase_catch b r = Inr v \<longleftrightarrow> r = Inr v"
  "phase_catch b r = Inl e \<longleftrightarrow>
     (\<exists>e'. r = Inl e' \<and> e = (if bg_expired b \<and> \<not> bg_outer b then retryable_error C_timeout else e'))"
  by (cases r; auto simp: phase_catch_def)+

text \<open>\<open>runPhase\<close>, with the budget as the events of the phase leave it.\<close>

definition runPhase ::
  "int \<Rightarrow> deadline_phase \<Rightarrow> 'a bg_event list \<Rightarrow> budget \<Rightarrow> (thrown + 'a) option \<times> budget" where
  "runPhase now phase evs b =
     (let remaining = max 0 (bg_deadlineAt b - now) in
      if remaining = 0 \<or> bg_aborted b
      then (Some (Inl (if bg_outer b then runtime_error C_cancelled
                       else retryable_error C_timeout)), b)
      else
        let limit = num_int (case phase of Connect \<Rightarrow> connectMs (bg_limits b)
                                         | Response \<Rightarrow> responseMs (bg_limits b));
            r = runWithDeadline (Fin (of_int (min limit remaining))) False (bg_seen b evs);
            b' = fold bg_effect evs b
        in (map_option (phase_catch b') r, b'))"

subsection \<open>What a phase gives\<close>

definition budget_ok :: "budget \<Rightarrow> bool" where
  "budget_ok b \<longleftrightarrow>
     positiveInteger (connectMs (bg_limits b)) = Inr ()
     \<and> positiveInteger (responseMs (bg_limits b)) = Inr ()
     \<and> positiveInteger (totalMs (bg_limits b)) = Inr ()
     \<and> (bg_aborted b \<longleftrightarrow> bg_expired b \<or> bg_outer b) \<and> (bg_outer b \<longrightarrow> bg_hasSignal b)"

lemma createDeadlineBudget_ok: "createDeadlineBudget limits t sig = Inr b \<Longrightarrow> budget_ok b"
  by (auto simp: createDeadlineBudget_def budget_ok_def bindE_eq_Inr)

lemma bg_effect_ok: "budget_ok b \<Longrightarrow> budget_ok (bg_effect e b)"
  by (cases e) (auto simp: budget_ok_def bg_timer_def bg_cancel_def)

lemma bg_fold_ok: "budget_ok b \<Longrightarrow> budget_ok (fold bg_effect evs b)"
  by (induction evs arbitrary: b) (auto intro: bg_effect_ok)

lemma bg_effect_config [simp]:
  "bg_limits (bg_effect e b) = bg_limits b" "bg_deadlineAt (bg_effect e b) = bg_deadlineAt b"
  "bg_hasSignal (bg_effect e b) = bg_hasSignal b"
  by (cases e; simp add: bg_timer_def bg_cancel_def)+

lemma bg_fold_config [simp]:
  "bg_limits (fold bg_effect evs b) = bg_limits b"
  "bg_deadlineAt (fold bg_effect evs b) = bg_deadlineAt b"
  "bg_hasSignal (fold bg_effect evs b) = bg_hasSignal b"
  by (induction evs arbitrary: b) simp_all

lemma bg_fold_aborted:
  "bg_aborted (fold bg_effect evs b) \<longleftrightarrow>
     bg_aborted b \<or> TotalTimer \<in> set evs \<or> bg_hasSignal b \<and> OuterAbort \<in> set evs"
proof (induction evs arbitrary: b)
  case (Cons e evs)
  then show ?case by (cases e) (auto simp: bg_timer_def bg_cancel_def)
qed simp

lemma bg_fold_expired:
  "bg_expired (fold bg_effect evs b) \<longleftrightarrow> bg_expired b \<or> TotalTimer \<in> set evs"
proof (induction evs arbitrary: b)
  case (Cons e evs)
  then show ?case by (cases e) (auto simp: bg_timer_def bg_cancel_def)
qed simp

lemma bg_seen_events:
  "TimerFires \<in> set (bg_seen b evs) \<longleftrightarrow> PhaseTimer \<in> set evs"
  "ParentAborts \<in> set (bg_seen b evs) \<longleftrightarrow>
     TotalTimer \<in> set evs \<or> bg_hasSignal b \<and> OuterAbort \<in> set evs"
  "OpSettles r \<in> set (bg_seen b evs) \<longleftrightarrow> PhaseOp r \<in> set evs"
  by (induction b evs rule: bg_seen.induct) auto

lemma phase_limit_ok:
  assumes "budget_ok b" and "0 < remaining"
  shows "positiveInteger (Fin (of_int (min (num_int (case phase of
      Connect \<Rightarrow> connectMs (bg_limits b) | Response \<Rightarrow> responseMs (bg_limits b))) remaining)))
    = Inr ()"
  using assms
  by (cases phase) (auto simp: budget_ok_def positiveInteger_def MAX_DEADLINE_MS_def max_safe_def
      split: if_splits)

lemma bg_effect_outer: "bg_outer b \<Longrightarrow> bg_outer (bg_effect e b)"
  by (cases e) (auto simp: bg_timer_def bg_cancel_def)

lemma bg_fold_outer: "bg_outer b \<Longrightarrow> bg_outer (fold bg_effect evs b)"
  by (induction evs arbitrary: b) (auto intro: bg_effect_outer)

text \<open>
  A phase during which its own timer or the total one fired, the caller not having aborted,
  has settled, and with a retryable \<open>timeout\<close>, never with \<open>cancelled\<close> or the operation's own
  error.
\<close>

theorem phase_timeout_settles:
  assumes "budget_ok b" and "PhaseTimer \<in> set evs \<or> TotalTimer \<in> set evs"
    and "\<not> bg_outer (snd (runPhase now phase evs b))"
  shows "fst (runPhase now phase evs b) = Some (Inl (retryable_error C_timeout))"
proof (cases "max 0 (bg_deadlineAt b - now) = 0 \<or> bg_aborted b")
  case True
  with assms(3) show ?thesis by (auto simp: runPhase_def Let_def)
next
  case False
  let ?b = "fold bg_effect evs b"
  let ?t = "Fin (of_int (min (num_int (case phase of Connect \<Rightarrow> connectMs (bg_limits b)
      | Response \<Rightarrow> responseMs (bg_limits b))) (max 0 (bg_deadlineAt b - now))))"
  from False have run: "runPhase now phase evs b =
      (map_option (phase_catch ?b) (runWithDeadline ?t False (bg_seen b evs)), ?b)"
    by (simp add: runPhase_def Let_def)
  from False have pos: "0 < max 0 (bg_deadlineAt b - now)" by auto
  have t: "positiveInteger ?t = Inr ()" by (rule phase_limit_ok [OF assms(1) pos])
  have outer: "\<not> bg_outer ?b" using assms(3) run by simp
  show ?thesis
  proof (cases "PhaseTimer \<in> set evs")
    case True
    then have "TimerFires \<in> set (bg_seen b evs)" by (simp add: bg_seen_events)
    from runWithDeadline_timer [OF t this] run show ?thesis by (simp add: phase_catch_def)
  next
    case False
    with assms(2) have total: "TotalTimer \<in> set evs" by simp
    then have "ParentAborts \<in> set (bg_seen b evs)" by (simp add: bg_seen_events)
    moreover have "TimerFires \<notin> set (bg_seen b evs)" using False by (simp add: bg_seen_events)
    ultimately have "runWithDeadline ?t False (bg_seen b evs) = Some (Inl (runtime_error C_cancelled))"
      using runWithDeadline_parent [OF t] by blast
    with run outer total show ?thesis by (simp add: phase_catch_def bg_fold_expired)
  qed
qed

text \<open>
  A value of a phase was produced by the operation before the deadline of the phase and of
  the whole budget, with the caller's signal not aborted; the budget is still open.
\<close>

theorem phase_value_in_time:
  assumes "runPhase now phase evs b = (Some (Inr v), b')"
  shows "PhaseOp (Inr v) \<in> set evs \<and> PhaseTimer \<notin> set evs \<and> TotalTimer \<notin> set evs
    \<and> \<not> bg_aborted b' \<and> now < bg_deadlineAt b"
proof -
  let ?t = "Fin (of_int (min (num_int (case phase of Connect \<Rightarrow> connectMs (bg_limits b)
      | Response \<Rightarrow> responseMs (bg_limits b))) (max 0 (bg_deadlineAt b - now))))"
  from assms have now: "now < bg_deadlineAt b" "\<not> bg_aborted b"
    and b': "b' = fold bg_effect evs b"
    and r: "runWithDeadline ?t False (bg_seen b evs) = Some (Inr v)"
    by (auto simp: runPhase_def Let_def phase_catch_iff split: if_splits)
  from runWithDeadline_value [OF r] obtain es where es: "bg_seen b evs = OpSettles (Inr v) # es"
    "TimerFires \<notin> set (bg_seen b evs)" "ParentAborts \<notin> set (bg_seen b evs)" by auto
  then have "PhaseOp (Inr v) \<in> set evs" using bg_seen_events(3) [of "Inr v" b evs] by simp
  with es(2,3) now b' show ?thesis by (simp add: bg_seen_events bg_fold_aborted)
qed

definition sample_budget :: budget where
  "sample_budget = \<lparr>bg_limits = \<lparr>connectMs = Fin 100, responseMs = Fin 200, totalMs = Fin 300\<rparr>,
     bg_deadlineAt = 1300, bg_expired = False, bg_aborted = False, bg_hasSignal = True,
     bg_outer = False\<rparr>"

lemma sample_budget_ok: "budget_ok sample_budget"
  by code_simp

theorem phase_timeout_settles_witness:
  "fst (runPhase 1100 Connect [TotalTimer, PhaseOp (Inl (Foreign ''late''))] sample_budget) =
     (Some (Inl (retryable_error C_timeout)) :: (thrown + int) option)"
  by (rule phase_timeout_settles [OF sample_budget_ok]) code_simp+

theorem phase_value_in_time_witness:
  "PhaseOp (Inr (5::int)) \<in> set [PhaseOp (Inr (5::int))] \<and> PhaseTimer \<notin> set [PhaseOp (Inr (5::int))]
   \<and> TotalTimer \<notin> set [PhaseOp (Inr (5::int))] \<and> \<not> bg_aborted sample_budget
   \<and> 1100 < bg_deadlineAt sample_budget"
  by (rule phase_value_in_time [of _ Response]) code_simp

end
