(* ===== verification/Webhook.thy ===== *)
theory Webhook
  imports Retry
begin

text \<open>
  Webhook acceptance (\<open>packages/crm-modules/integration-runtime/src/webhook.ts\<close>) and the
  in-memory replay store of \<open>testing.ts\<close>. Bytes are characters. SHA-256, the provider's
  signature verifier, the replay store and the engine's reading of non-ISO dates are parameters;
  the verifier is handed the mutable copy of the body, so it returns the body as it leaves it. The
  replay store may answer with any JavaScript value.
\<close>

section \<open>Data\<close>

record webhook_envelope =
  we_eventId :: string
  we_nonce :: string
  we_rawBody :: string
  we_receivedAt :: string
  we_signature :: string
  we_timestamp :: string
  we_version :: string

record verify_input =
  vi_eventId :: string
  vi_nonce :: string
  vi_rawBody :: string
  vi_signature :: string
  vi_timestamp :: string
  vi_version :: string

record accepted_webhook =
  aw_bodyDigest :: string
  aw_eventId :: string
  aw_protocolVersion :: string
  aw_receivedAt :: string
  aw_reservationId :: string
  aw_version :: int

record webhook_limits =
  allowedClockSkewMs :: jsnum
  maxBodyBytes :: jsnum
  replayRetentionMs :: jsnum

definition stableIdentifier :: "string \<Rightarrow> bool" where
  "stableIdentifier s = shape alnum (alnum @ ''._:-'') 0 127 s"

text \<open>\<open>/^v[1-9][0-9]*$/\<close>\<close>

definition webhook_version_ok :: "string \<Rightarrow> bool" where
  "webhook_version_ok s = (case s of
     v # d # ds \<Rightarrow> v = CHR ''v'' \<and> d \<in> set ''123456789'' \<and> all_in digits ds
   | _ \<Rightarrow> False)"

section \<open>Acceptance\<close>

definition webhook_input_ok :: "webhook_limits \<Rightarrow> webhook_envelope \<Rightarrow> bool" where
  "webhook_input_ok opts e \<longleftrightarrow>
     isSafeInteger (allowedClockSkewMs opts) \<and> \<not> num_lt (allowedClockSkewMs opts) (Fin 0)
     \<and> isSafeInteger (replayRetentionMs opts) \<and> \<not> num_lt (replayRetentionMs opts) (Fin 1)
     \<and> \<not> num_lt (replayRetentionMs opts) (num_mul (allowedClockSkewMs opts) (Fin 2))
     \<and> isSafeInteger (maxBodyBytes opts) \<and> \<not> num_lt (maxBodyBytes opts) (Fin 1)
     \<and> int (length (we_rawBody e)) \<le> num_int (maxBodyBytes opts)
     \<and> 1 \<le> length (we_signature e) \<and> length (we_signature e) \<le> 8192
     \<and> length (we_timestamp e) \<le> 64 \<and> length (we_receivedAt e) \<le> 64
     \<and> stableIdentifier (we_eventId e) \<and> stableIdentifier (we_nonce e)
     \<and> webhook_version_ok (we_version e)"

text \<open>
  \<open>now\<close>, \<open>signedAt\<close> and \<open>receivedAt\<close> are times, \<open>None\<close> for an invalid date; the result is
  \<open>replayExpiresAt\<close> with the last one.
\<close>

definition webhook_times ::
  "(string \<Rightarrow> int option) \<Rightarrow> int option \<Rightarrow> webhook_limits \<Rightarrow> webhook_envelope \<Rightarrow> (int \<times> int) option" where
  "webhook_times legacy now opts e =
     (case (now, date_parse legacy (we_timestamp e), date_parse legacy (we_receivedAt e)) of
        (Some n, Some s, Some r) \<Rightarrow>
          (let expires = n + num_int (replayRetentionMs opts) in
           if max_safe < \<bar>expires\<bar> \<or> 8640000000000000 < expires
              \<or> num_int (allowedClockSkewMs opts) < \<bar>n - s\<bar>
           then None else Some (expires, r))
      | _ \<Rightarrow> None)"

definition webhook_fingerprint :: "(string \<Rightarrow> string) \<Rightarrow> string \<Rightarrow> string \<Rightarrow> string \<Rightarrow> string" where
  "webhook_fingerprint sha256 version kind v =
     sha256 (kind @ [CHR 0x00] @ version @ [CHR 0x00] @ v)"

definition webhook_fingerprints :: "(string \<Rightarrow> string) \<Rightarrow> webhook_envelope \<Rightarrow> string list" where
  "webhook_fingerprints sha256 e =
     [webhook_fingerprint sha256 (we_version e) ''event'' (we_eventId e),
      webhook_fingerprint sha256 (we_version e) ''nonce'' (we_nonce e)]"

text \<open>
  The checks on what the store answered. \<open>None\<close> stands for the errors thrown there, which the
  \<open>catch\<close> replaces; \<open>Some None\<close> is a refused reservation, \<open>Some (Some id)\<close> an accepted one.
\<close>

definition read_reservation :: "js_value \<Rightarrow> string option option" where
  "read_reservation v = (case v of
     JObject fs \<Rightarrow>
       (let keys = map fst fs in
        if ''accepted'' \<notin> set keys
           \<or> list_ex (\<lambda>k. k \<noteq> ''accepted'' \<and> k \<noteq> ''reservationId'') keys then None
        else case js_field fs ''accepted'' of
          JBool accepted \<Rightarrow>
            (case js_field fs ''reservationId'' of
               JUndefined \<Rightarrow> if accepted then None else Some None
             | JString i \<Rightarrow> if \<not> stableIdentifier i then None
                          else if accepted then Some (Some i) else None
             | _ \<Rightarrow> None)
        | _ \<Rightarrow> None)
   | _ \<Rightarrow> None)"

definition acceptVerifiedWebhook ::
  "(string \<Rightarrow> string) \<Rightarrow> (string \<Rightarrow> int option) \<Rightarrow> (verify_input \<Rightarrow> (string + bool) \<times> string)
   \<Rightarrow> (string \<Rightarrow> string list \<Rightarrow> ('s, string, js_value) act)
   \<Rightarrow> int option \<Rightarrow> webhook_limits \<Rightarrow> webhook_envelope \<Rightarrow> ('s, thrown, accepted_webhook) act"
where
  "acceptVerifiedWebhook sha256 legacy verify reserve now opts e s =
     (if \<not> webhook_input_ok opts e then (Inl (runtime_error C_invalid_input), s)
      else
        let rawBody = we_rawBody e; bodyDigest = sha256 rawBody in
        case webhook_times legacy now opts e of
          None \<Rightarrow> (Inl (runtime_error C_signature_invalid), s)
        | Some (expires, received) \<Rightarrow>
            (case verify \<lparr>vi_eventId = we_eventId e, vi_nonce = we_nonce e, vi_rawBody = rawBody,
                vi_signature = we_signature e, vi_timestamp = we_timestamp e,
                vi_version = we_version e\<rparr> of
               (Inl _, _) \<Rightarrow> (Inl (runtime_error C_signature_invalid), s)
             | (Inr verified, rawBody') \<Rightarrow>
                 if \<not> verified \<or> sha256 rawBody' \<noteq> bodyDigest
                 then (Inl (runtime_error C_signature_invalid), s)
                 else case reserve (to_iso expires) (webhook_fingerprints sha256 e) s of
                   (Inl _, s') \<Rightarrow> (Inl (retryable_error C_upstream_unavailable), s')
                 | (Inr candidate, s') \<Rightarrow>
                     (case read_reservation candidate of
                        None \<Rightarrow> (Inl (retryable_error C_upstream_unavailable), s')
                      | Some None \<Rightarrow> (Inl (runtime_error C_replay_detected), s')
                      | Some (Some rid) \<Rightarrow>
                          (Inr \<lparr>aw_bodyDigest = bodyDigest, aw_eventId = we_eventId e,
                             aw_protocolVersion = we_version e, aw_receivedAt = to_iso received,
                             aw_reservationId = rid, aw_version = 1\<rparr>, s'))))"

section \<open>The in-memory replay store\<close>

record replay_store =
  rs_fingerprints :: "string list"
  rs_sequence :: nat

definition createInMemoryReplayStore :: replay_store where
  "createInMemoryReplayStore = \<lparr>rs_fingerprints = [], rs_sequence = 0\<rparr>"

definition rs_reserve :: "string \<Rightarrow> string list \<Rightarrow> (replay_store, string, js_value) act" where
  "rs_reserve expiresAt requested s =
     (if list_ex (\<lambda>f. f \<in> set (rs_fingerprints s)) requested
      then (Inr (JObject [(''accepted'', JBool False)]), s)
      else (Inr (JObject [(''accepted'', JBool True),
                          (''reservationId'', JString (''fixture-'' @ show_nat (rs_sequence s + 1)))]),
            s\<lparr>rs_fingerprints := rs_fingerprints s
                 @ filter (\<lambda>f. f \<notin> set (rs_fingerprints s)) (js_dedup requested),
              rs_sequence := rs_sequence s + 1\<rparr>))"

section \<open>What an acceptance guarantees\<close>

text \<open>The message the verifier is handed.\<close>

definition signed_message :: "webhook_envelope \<Rightarrow> verify_input" where
  "signed_message e = \<lparr>vi_eventId = we_eventId e, vi_nonce = we_nonce e, vi_rawBody = we_rawBody e,
     vi_signature = we_signature e, vi_timestamp = we_timestamp e, vi_version = we_version e\<rparr>"

lemma accept_Inr:
  assumes "acceptVerifiedWebhook sha256 legacy verify reserve now opts e s = (Inr a, t)"
  obtains expires received body' candidate rid
  where "webhook_input_ok opts e" "webhook_times legacy now opts e = Some (expires, received)"
    "verify (signed_message e) = (Inr True, body')" "sha256 body' = sha256 (we_rawBody e)"
    "reserve (to_iso expires) (webhook_fingerprints sha256 e) s = (Inr candidate, t)"
    "read_reservation candidate = Some (Some rid)"
    "a = \<lparr>aw_bodyDigest = sha256 (we_rawBody e), aw_eventId = we_eventId e,
       aw_protocolVersion = we_version e, aw_receivedAt = to_iso received,
       aw_reservationId = rid, aw_version = 1\<rparr>"
  using assms
  by (auto simp: acceptVerifiedWebhook_def signed_message_def Let_def
      split: if_splits option.splits prod.splits sum.splits)

lemma webhook_times_Some:
  "webhook_times legacy now opts e = Some (expires, received) \<Longrightarrow>
   \<exists>n signed. now = Some n \<and> date_parse legacy (we_timestamp e) = Some signed
     \<and> expires = n + num_int (replayRetentionMs opts)
     \<and> \<bar>n - signed\<bar> \<le> num_int (allowedClockSkewMs opts)"
  by (auto simp: webhook_times_def Let_def split: option.splits if_splits)

text \<open>
  An accepted webhook was verified by the provider's verifier as that very message, with the
  body unchanged as far as SHA-256 tells; its timestamp is within the allowed skew of the clock and
  the replay store reserved both its fingerprints.
\<close>

theorem webhook_accept_sound:
  assumes "acceptVerifiedWebhook sha256 legacy verify reserve now opts e s = (Inr a, t)"
  shows "\<exists>n signed body' candidate.
    now = Some n \<and> date_parse legacy (we_timestamp e) = Some signed
    \<and> \<bar>n - signed\<bar> \<le> num_int (allowedClockSkewMs opts)
    \<and> verify (signed_message e) = (Inr True, body') \<and> sha256 body' = sha256 (we_rawBody e)
    \<and> reserve (to_iso (n + num_int (replayRetentionMs opts))) (webhook_fingerprints sha256 e) s
      = (Inr candidate, t)
    \<and> read_reservation candidate = Some (Some (aw_reservationId a))
    \<and> aw_eventId a = we_eventId e \<and> aw_bodyDigest a = sha256 (we_rawBody e)"
proof -
  from assms obtain expires received body' candidate rid where
    t: "webhook_times legacy now opts e = Some (expires, received)"
    and v: "verify (signed_message e) = (Inr True, body')" "sha256 body' = sha256 (we_rawBody e)"
    and r: "reserve (to_iso expires) (webhook_fingerprints sha256 e) s = (Inr candidate, t)"
      "read_reservation candidate = Some (Some rid)"
    and a: "a = \<lparr>aw_bodyDigest = sha256 (we_rawBody e), aw_eventId = we_eventId e,
       aw_protocolVersion = we_version e, aw_receivedAt = to_iso received,
       aw_reservationId = rid, aw_version = 1\<rparr>"
    by (rule accept_Inr)
  from webhook_times_Some [OF t] v r a show ?thesis by auto
qed

text \<open>
  The replay record lives long enough: a message that is accepted at one moment and would
  still be accepted by the clock check at another one is not yet expired in the replay store then.
\<close>

theorem webhook_retention_covers_skew:
  assumes "webhook_input_ok opts e"
    and "webhook_times legacy (Some n1) opts e = Some (expires, r1)"
    and "webhook_times legacy (Some n2) opts e = Some (expires2, r2)"
  shows "n2 \<le> expires"
proof -
  let ?skew = "num_int (allowedClockSkewMs opts)" and ?keep = "num_int (replayRetentionMs opts)"
  from assms(1) have safe: "isSafeInteger (allowedClockSkewMs opts)"
    "isSafeInteger (replayRetentionMs opts)"
    and le: "\<not> num_lt (replayRetentionMs opts) (num_mul (allowedClockSkewMs opts) (Fin 2))"
    by (auto simp: webhook_input_ok_def)
  have "?skew * 2 \<le> ?keep"
  proof (rule ccontr)
    assume "\<not> ?skew * 2 \<le> ?keep"
    then have "(of_int ?keep :: rat) < of_int (?skew * 2)" by (simp only: of_int_less_iff)
    with le show False
      using isSafeInteger_Fin [OF safe(1)] isSafeInteger_Fin [OF safe(2)]
      by (metis num_lt_Fin num_mul.simps(1) of_int_mult of_int_numeral)
  qed
  with webhook_times_Some [OF assms(2)] webhook_times_Some [OF assms(3)] show ?thesis by auto
qed

section \<open>Replays against the in-memory store\<close>

record webhook_call =
  wc_verify :: "verify_input \<Rightarrow> (string + bool) \<times> string"
  wc_now :: "int option"
  wc_limits :: webhook_limits
  wc_envelope :: webhook_envelope

definition webhook_accept ::
  "(string \<Rightarrow> string) \<Rightarrow> (string \<Rightarrow> int option) \<Rightarrow> webhook_call
   \<Rightarrow> (replay_store, thrown, accepted_webhook) act" where
  "webhook_accept sha256 legacy c =
     acceptVerifiedWebhook sha256 legacy (wc_verify c) rs_reserve (wc_now c) (wc_limits c)
       (wc_envelope c)"

lemma rs_reserve_mono:
  "f \<in> set (rs_fingerprints s) \<Longrightarrow> f \<in> set (rs_fingerprints (snd (rs_reserve x req s)))"
  by (simp add: rs_reserve_def)

lemma rs_reserve_accepts:
  assumes "rs_reserve x req s = (Inr v, t)" and "read_reservation v = Some (Some rid)"
  shows "set req \<inter> set (rs_fingerprints s) = {} \<and> set req \<subseteq> set (rs_fingerprints t)"
  using assms
  by (auto simp: rs_reserve_def read_reservation_def js_field_def list_ex_iff split: if_splits)

lemma accept_keeps_fingerprints:
  "f \<in> set (rs_fingerprints s) \<Longrightarrow>
   f \<in> set (rs_fingerprints (snd (webhook_accept sha256 legacy c s)))"
  by (auto simp: webhook_accept_def acceptVerifiedWebhook_def Let_def
      split: option.splits prod.splits sum.splits dest: rs_reserve_mono [where s = s])
    (metis rs_reserve_mono snd_conv)+

interpretation replays: guarded_machine
  "webhook_accept sha256 legacy" "\<lambda>s. f \<in> set (rs_fingerprints s)"
  by unfold_locales (rule accept_keeps_fingerprints)

text \<open>
  C30: no replay: after a webhook was accepted, and any other calls after it, no call with the same
  protocol version and the same event id or the same nonce is accepted, whatever its body, its
  signature, its clock and its verifier.
\<close>

theorem webhook_no_replay:
  assumes "webhook_accept sha256 legacy c s = (Inr a, t)"
    and "we_version (wc_envelope d) = we_version (wc_envelope c)"
    and "we_eventId (wc_envelope d) = we_eventId (wc_envelope c)
      \<or> we_nonce (wc_envelope d) = we_nonce (wc_envelope c)"
  shows "\<not> isOk (fst (webhook_accept sha256 legacy d (run_all (webhook_accept sha256 legacy) cs t)))"
proof
  let ?s = "run_all (webhook_accept sha256 legacy) cs t"
  have reserves: "set (webhook_fingerprints sha256 (wc_envelope c)) \<inter> set (rs_fingerprints s) = {}
    \<and> set (webhook_fingerprints sha256 (wc_envelope c)) \<subseteq> set (rs_fingerprints t)"
    if "webhook_accept sha256 legacy c s = (Inr a, t)" for c s a t
    using that rs_reserve_accepts unfolding webhook_accept_def by (blast elim: accept_Inr)
  assume "isOk (fst (webhook_accept sha256 legacy d ?s))"
  then obtain b u where "webhook_accept sha256 legacy d ?s = (Inr b, u)"
    by (cases "webhook_accept sha256 legacy d ?s") (auto simp: isOk_iff)
  from reserves [OF this]
  have "set (webhook_fingerprints sha256 (wc_envelope d)) \<inter> set (rs_fingerprints ?s) = {}" by simp
  moreover have "set (webhook_fingerprints sha256 (wc_envelope c)) \<subseteq> set (rs_fingerprints ?s)"
    using reserves [OF assms(1)] by (auto intro: replays.run_keeps)
  moreover have "set (webhook_fingerprints sha256 (wc_envelope d))
    \<inter> set (webhook_fingerprints sha256 (wc_envelope c)) \<noteq> {}"
    using assms(2,3) by (auto simp: webhook_fingerprints_def)
  ultimately show False by blast
qed

subsection \<open>Sample calls\<close>

definition sample_webhook :: webhook_call where
  "sample_webhook =
     \<lparr>wc_verify = \<lambda>m. (Inr (vi_signature m = ''sig''), vi_rawBody m),
      wc_now = Some 1704067201000,
      wc_limits = \<lparr>allowedClockSkewMs = Fin 5000, maxBodyBytes = Fin 100,
        replayRetentionMs = Fin 10000\<rparr>,
      wc_envelope = \<lparr>we_eventId = ''evt-1'', we_nonce = ''n1'', we_rawBody = ''{}'',
        we_receivedAt = ''2024-01-01T00:00:01.000Z'', we_signature = ''sig'',
        we_timestamp = ''2024-01-01T00:00:00.000Z'', we_version = ''v1''\<rparr>\<rparr>"

definition sample_digest :: "string \<Rightarrow> string" where
  "sample_digest s = rev s"

definition sample_accepted :: accepted_webhook where
  "sample_accepted = \<lparr>aw_bodyDigest = ''}{'', aw_eventId = ''evt-1'', aw_protocolVersion = ''v1'',
     aw_receivedAt = ''2024-01-01T00:00:01.000Z'', aw_reservationId = ''fixture-1'', aw_version = 1\<rparr>"

definition sample_stored :: replay_store where
  "sample_stored = snd (webhook_accept sample_digest (\<lambda>_. None) sample_webhook
     createInMemoryReplayStore)"

lemma sample_webhook_accepted:
  "webhook_accept sample_digest (\<lambda>_. None) sample_webhook createInMemoryReplayStore =
     (Inr sample_accepted, sample_stored)"
proof -
  have "fst (webhook_accept sample_digest (\<lambda>_. None) sample_webhook createInMemoryReplayStore) =
    Inr sample_accepted" by code_simp
  then show ?thesis by (simp add: sample_stored_def prod_eq_iff)
qed

theorem webhook_accept_sound_witness:
  "\<exists>n signed body' candidate.
    wc_now sample_webhook = Some n
    \<and> date_parse (\<lambda>_. None) (we_timestamp (wc_envelope sample_webhook)) = Some signed
    \<and> \<bar>n - signed\<bar> \<le> num_int (allowedClockSkewMs (wc_limits sample_webhook))
    \<and> wc_verify sample_webhook (signed_message (wc_envelope sample_webhook)) = (Inr True, body')
    \<and> sample_digest body' = sample_digest (we_rawBody (wc_envelope sample_webhook))
    \<and> rs_reserve (to_iso (n + num_int (replayRetentionMs (wc_limits sample_webhook))))
        (webhook_fingerprints sample_digest (wc_envelope sample_webhook)) createInMemoryReplayStore
      = (Inr candidate, sample_stored)
    \<and> read_reservation candidate = Some (Some (aw_reservationId sample_accepted))
    \<and> aw_eventId sample_accepted = we_eventId (wc_envelope sample_webhook)
    \<and> aw_bodyDigest sample_accepted = sample_digest (we_rawBody (wc_envelope sample_webhook))"
  by (rule webhook_accept_sound) (rule sample_webhook_accepted [unfolded webhook_accept_def])

theorem webhook_retention_covers_skew_witness: "(1704067204000::int) \<le> 1704067206000"
  by (rule webhook_retention_covers_skew [of "wc_limits sample_webhook" "wc_envelope sample_webhook"
        "\<lambda>_. None" 1704067196000 _ 1704067201000 _ 1704067214000 1704067201000]) code_simp+

theorem webhook_no_replay_witness:
  "\<not> isOk (fst (webhook_accept sample_digest (\<lambda>_. None)
     (sample_webhook\<lparr>wc_now := Some 1704067202000\<rparr>)
     (run_all (webhook_accept sample_digest (\<lambda>_. None)) [sample_webhook] sample_stored)))"
  by (rule webhook_no_replay [OF sample_webhook_accepted]) (simp_all add: sample_webhook_def)

end
