(* ===== verification/Executor.thy ===== *)
theory Executor
  imports Circuit Limiters Deadline
begin

text \<open>
  The integration executor (\<open>packages/crm-modules/integration-runtime/src/executor.ts\<close>): the
  loop of attempts of one execution, through the rate limiter, the concurrency limiter, the circuit
  breaker and the deadline, with the observer's records and the back-off between attempts.

  What happens outside the executor during one attempt is the attempt's script: the clock readings,
  the other calls that use the shared limiters and the circuit while this one waits (any change of
  their state), the events of the waits, and the random number. An execution whose script ends
  before it has settled has the result \<open>None\<close>.
\<close>

section \<open>State\<close>

datatype operation_safety = idempotent_write | non_idempotent_write | read_only

record execution_policy =
  xp_deadlines :: deadline_limits
  xp_operationId :: string
  xp_retry :: retry_policy
  xp_safety :: operation_safety

datatype outcome = Failure | Limited | Success

record exec_event =
  xe_attempt :: int
  xe_category :: "category option option"
  xe_durationMs :: int
  xe_operationId :: string
  xe_outcome :: outcome
  xe_retrying :: bool

text \<open>
  \<open>category\<close> of a record is absent (\<open>None\<close>), \<open>"unclassified"\<close> (\<open>Some None\<close>) or a category.
  The state: the shared objects, the budget of this execution, the records the observer was given
  and the attempts in which the operation was started.
\<close>

record shared =
  sh_limiter :: limiter
  sh_circuit :: circuit
  sh_rate :: rate_limiter

record exec_state =
  xs_shared :: shared
  xs_budget :: budget
  xs_events :: "exec_event list"
  xs_started :: "int list"

text \<open>How a wait in the concurrency limiter's queue ended: a slot was handed over, or not.\<close>

record 'a attempt_script =
  as_startedAt :: int
  as_rateNow :: int
  as_waitEvents :: "'a bg_event list"
  as_woken :: bool
  as_waitOthers :: "shared \<Rightarrow> shared"
  as_enterNow :: int
  as_remainingNow :: int
  as_opEvents :: "'a bg_event list"
  as_opOthers :: "shared \<Rightarrow> shared"
  as_exitNow :: int
  as_releaseAborted :: "nat \<Rightarrow> bool"
  as_recordNow :: int
  as_random :: jsnum
  as_sleepEvents :: "'a bg_event list"
  as_sleepOthers :: "shared \<Rightarrow> shared"

text \<open>The configuration of the executor that does not change.\<close>

record executor =
  xc_circuit :: circuit_options
  xc_counts :: "thrown \<Rightarrow> bool"

section \<open>One attempt\<close>

definition classifyBudgetExpiry :: "budget \<Rightarrow> thrown \<Rightarrow> thrown" where
  "classifyBudgetExpiry b e =
     (if bg_aborted b \<and> \<not> bg_outer b then retryable_error C_timeout else e)"

text \<open>The operation under the deadline, inside \<open>circuitBreaker.execute\<close>.\<close>

definition exec_operation ::
  "'a attempt_script \<Rightarrow> int \<Rightarrow> exec_state \<Rightarrow> (thrown + 'a) option \<times> exec_state" where
  "exec_operation sc attempt s =
     (let b = xs_budget s; remaining = remainingMs (as_remainingNow sc) b in
      if remaining < 1
      then (Some (Inl (classifyBudgetExpiry b (retryable_error C_timeout))), s)
      else
        let r = runWithDeadline (Fin (of_int remaining)) (bg_aborted b)
                  (bg_seen b (as_opEvents sc));
            called = (if positiveInteger (Fin (of_int remaining)) = Inr () \<and> \<not> bg_aborted b
                      then [attempt] else []);
            b' = (if called = [] then b else fold bg_effect (as_opEvents sc) b);
            s' = s\<lparr>xs_budget := b', xs_started := xs_started s @ called,
                   xs_shared := as_opOthers sc (xs_shared s)\<rparr>
        in (map_option (\<lambda>r. case r of
              Inl e \<Rightarrow> Inl (classifyBudgetExpiry b' e)
            | Inr v \<Rightarrow>
                if bg_aborted b' \<and> \<not> bg_outer b'
                then Inl (classifyBudgetExpiry b' (retryable_error C_timeout)) else Inr v) r, s'))"

text \<open>\<open>circuitBreaker.execute\<close> around it.\<close>

definition exec_circuit ::
  "executor \<Rightarrow> 'a attempt_script \<Rightarrow> int \<Rightarrow> exec_state \<Rightarrow> (thrown + 'a) option \<times> exec_state" where
  "exec_circuit x sc attempt s =
     (case cb_enter (xc_circuit x) (as_enterNow sc) (sh_circuit (xs_shared s)) of
        (Inl e, c) \<Rightarrow> (Some (Inl e), s\<lparr>xs_shared := (xs_shared s)\<lparr>sh_circuit := c\<rparr>\<rparr>)
      | (Inr probe, c) \<Rightarrow>
          (case exec_operation sc attempt (s\<lparr>xs_shared := (xs_shared s)\<lparr>sh_circuit := c\<rparr>\<rparr>) of
             (None, s') \<Rightarrow> (None, s')
           | (Some (Inr v), s') \<Rightarrow> (Some (Inr v),
               s'\<lparr>xs_shared := (xs_shared s')
                   \<lparr>sh_circuit := cb_succeed probe (sh_circuit (xs_shared s'))\<rparr>\<rparr>)
           | (Some (Inl e), s') \<Rightarrow> (Some (Inl e),
               s'\<lparr>xs_shared := (xs_shared s')
                   \<lparr>sh_circuit := cb_fail (xc_circuit x) (xc_counts x) (as_exitNow sc) probe e
                                   (sh_circuit (xs_shared s'))\<rparr>\<rparr>)))"

definition exec_release :: "'a attempt_script \<Rightarrow> exec_state \<Rightarrow> exec_state" where
  "exec_release sc s =
     s\<lparr>xs_shared := (xs_shared s)
         \<lparr>sh_limiter := snd (lm_release (as_releaseAborted sc) (sh_limiter (xs_shared s)))\<rparr>\<rparr>"

text \<open>\<open>concurrencyLimiter.run\<close> once it holds a slot, \<open>release\<close> in its \<open>finally\<close> included.\<close>

definition exec_holding ::
  "executor \<Rightarrow> 'a attempt_script \<Rightarrow> int \<Rightarrow> exec_state \<Rightarrow> (thrown + 'a) option \<times> exec_state" where
  "exec_holding x sc attempt s =
     (if bg_aborted (xs_budget s) then (Some (Inl (runtime_error C_cancelled)), exec_release sc s)
      else case exec_circuit x sc attempt s of
        (None, s') \<Rightarrow> (None, s')
      | (Some r, s') \<Rightarrow> (Some r, exec_release sc s'))"

text \<open>\<open>concurrencyLimiter.run(operation, budget.signal)\<close>; \<open>me\<close> names this call in the queue.\<close>

definition exec_limited ::
  "executor \<Rightarrow> nat \<Rightarrow> 'a attempt_script \<Rightarrow> int \<Rightarrow> exec_state \<Rightarrow> (thrown + 'a) option \<times> exec_state"
where
  "exec_limited x me sc attempt s =
     (case lm_acquire (bg_aborted (xs_budget s)) me (sh_limiter (xs_shared s)) of
        (Inl e, l) \<Rightarrow> (Some (Inl e), s\<lparr>xs_shared := (xs_shared s)\<lparr>sh_limiter := l\<rparr>\<rparr>)
      | (Inr Granted, l) \<Rightarrow>
          exec_holding x sc attempt (s\<lparr>xs_shared := (xs_shared s)\<lparr>sh_limiter := l\<rparr>\<rparr>)
      | (Inr Queued, l) \<Rightarrow>
          let s' = s\<lparr>xs_shared := as_waitOthers sc ((xs_shared s)\<lparr>sh_limiter := l\<rparr>),
                     xs_budget := fold bg_effect (as_waitEvents sc) (xs_budget s)\<rparr>
          in if as_woken sc then exec_holding x sc attempt s'
             else if bg_aborted (xs_budget s')
             then (Some (Inl (runtime_error C_cancelled)),
                   s'\<lparr>xs_shared := (xs_shared s')
                       \<lparr>sh_limiter := lm_cancel me (sh_limiter (xs_shared s'))\<rparr>\<rparr>)
             else (None, s'))"

definition exec_record ::
  "execution_policy \<Rightarrow> 'a attempt_script \<Rightarrow> int \<Rightarrow> category option option \<Rightarrow> outcome \<Rightarrow> bool
   \<Rightarrow> exec_state \<Rightarrow> exec_state" where
  "exec_record p sc attempt cat out retrying s =
     s\<lparr>xs_events := xs_events s @ [\<lparr>xe_attempt = attempt, xe_category = cat,
         xe_durationMs = max 0 (as_recordNow sc - as_startedAt sc),
         xe_operationId = xp_operationId p, xe_outcome = out, xe_retrying = retrying\<rparr>]\<rparr>"

text \<open>The default \<open>sleep\<close>: the timer ends it unless the budget's signal aborts first.\<close>

definition exec_sleep :: "'a attempt_script \<Rightarrow> exec_state \<Rightarrow> (thrown + unit) \<times> exec_state" where
  "exec_sleep sc s =
     (if bg_aborted (xs_budget s) then (Inl (runtime_error C_cancelled), s)
      else let s' = s\<lparr>xs_budget := fold bg_effect (as_sleepEvents sc) (xs_budget s),
                      xs_shared := as_sleepOthers sc (xs_shared s)\<rparr>
           in if bg_aborted (xs_budget s') then (Inl (runtime_error C_cancelled), s')
              else (Inr (), s'))"

section \<open>The execution\<close>

definition exec_validate :: "execution_policy \<Rightarrow> thrown + unit" where
  "exec_validate p =
     bindE (ensure (shape lower (lower @ digits @ ''_.-'') 2 79 (xp_operationId p))
              (runtime_error C_invalid_input)) (\<lambda>_.
     bindE (validateRetryPolicy (xp_retry p)) (\<lambda>_.
     bindE (ensure (list_all (\<lambda>v. isSafeInteger v \<and> \<not> num_lt v (Fin 1))
                      [connectMs (xp_deadlines p), responseMs (xp_deadlines p),
                       totalMs (xp_deadlines p)])
              (runtime_error C_invalid_input)) (\<lambda>_.
     ensure (\<not> (xp_safety p = non_idempotent_write \<and> num_int (maxAttempts (xp_retry p)) \<noteq> 1))
       (runtime_error C_invalid_input))))"

text \<open>
  The body of the \<open>for\<close> loop. \<open>Again\<close>: the loop goes on with the next attempt;
  \<open>Stop r\<close>: the execution returned or threw.
\<close>

datatype 'a turn = Again | Stop "(thrown + 'a) option"

definition exec_backoff ::
  "execution_policy \<Rightarrow> 'a attempt_script \<Rightarrow> int \<Rightarrow> exec_state \<Rightarrow> 'a turn \<times> exec_state" where
  "exec_backoff p sc attempt s =
     (case calculateBackoffMs (xp_retry p) (Fin (of_int attempt)) (as_random sc) of
        Inl e \<Rightarrow> (Stop (Some (Inl (classifyBudgetExpiry (xs_budget s) e))), s)
      | Inr _ \<Rightarrow>
          (case exec_sleep sc s of
             (Inl e, s') \<Rightarrow> (Stop (Some (Inl (classifyBudgetExpiry (xs_budget s') e))), s')
           | (Inr _, s') \<Rightarrow> (Again, s')))"

definition exec_failed ::
  "execution_policy \<Rightarrow> 'a attempt_script \<Rightarrow> int \<Rightarrow> thrown \<Rightarrow> exec_state \<Rightarrow> 'a turn \<times> exec_state" where
  "exec_failed p sc attempt caught s =
     (let e = classifyBudgetExpiry (xs_budget s) caught in
      case shouldRetry (xp_retry p) (Fin (of_int attempt)) e of
        Inl e' \<Rightarrow> (Stop (Some (Inl e')), s)
      | Inr again \<Rightarrow>
          let retrying = (again \<and> \<not> bg_aborted (xs_budget s));
              s1 = exec_record p sc attempt (Some (category_of e)) Failure retrying s
          in if \<not> retrying then (Stop (Some (Inl e)), s1) else exec_backoff p sc attempt s1)"

definition exec_turn ::
  "executor \<Rightarrow> nat \<Rightarrow> execution_policy \<Rightarrow> 'a attempt_script \<Rightarrow> int \<Rightarrow> exec_state
   \<Rightarrow> 'a turn \<times> exec_state" where
  "exec_turn x me p sc attempt s =
     (if bg_aborted (xs_budget s)
      then (Stop (Some (Inl (classifyBudgetExpiry (xs_budget s) (runtime_error C_cancelled)))), s)
      else
        let (rate, l) = rl_check (as_rateNow sc) (sh_rate (xs_shared s));
            s1 = s\<lparr>xs_shared := (xs_shared s)\<lparr>sh_rate := l\<rparr>\<rparr>
        in if \<not> rd_allowed rate
           then (Stop (Some (Inl (retryable_error C_rate_limited))),
                 exec_record p sc attempt (Some (Some C_rate_limited)) Limited False s1)
           else case exec_limited x me sc attempt s1 of
             (None, s2) \<Rightarrow> (Stop None, s2)
           | (Some (Inr v), s2) \<Rightarrow>
               (Stop (Some (Inr v)), exec_record p sc attempt None Success False s2)
           | (Some (Inl caught), s2) \<Rightarrow> exec_failed p sc attempt caught s2)"

text \<open>The loop; the script has one entry per attempt.\<close>

fun exec_loop ::
  "executor \<Rightarrow> nat \<Rightarrow> execution_policy \<Rightarrow> 'a attempt_script list \<Rightarrow> int \<Rightarrow> exec_state
   \<Rightarrow> (thrown + 'a) option \<times> exec_state" where
  "exec_loop x me p scs attempt s =
     (if num_int (maxAttempts (xp_retry p)) < attempt
      then (Some (Inl (runtime_error C_internal)), s)
      else case scs of
        [] \<Rightarrow> (None, s)
      | sc # rest \<Rightarrow>
          (case exec_turn x me p sc attempt s of
             (Stop r, s') \<Rightarrow> (r, s')
           | (Again, s') \<Rightarrow> exec_loop x me p rest (attempt + 1) s'))"

declare exec_loop.simps [simp del]

text \<open>\<open>execute\<close>. \<open>t0\<close> is the clock at the creation of the budget.\<close>

definition exec_execute ::
  "executor \<Rightarrow> nat \<Rightarrow> execution_policy \<Rightarrow> bool option \<Rightarrow> int \<Rightarrow> 'a attempt_script list \<Rightarrow> shared
   \<Rightarrow> (thrown + 'a) option \<times> exec_event list \<times> int list \<times> shared" where
  "exec_execute x me p signal t0 scs sh =
     (case exec_validate p of
        Inl e \<Rightarrow> (Some (Inl e), [], [], sh)
      | Inr _ \<Rightarrow>
          (case createDeadlineBudget (xp_deadlines p) t0 signal of
             Inl e \<Rightarrow> (Some (Inl e), [], [], sh)
           | Inr b \<Rightarrow>
               let (r, s) = exec_loop x me p scs 1
                     \<lparr>xs_shared = sh, xs_budget = b, xs_events = [], xs_started = []\<rparr>
               in (r, xs_events s, xs_started s, xs_shared s)))"

section \<open>The observer's records and the started operations\<close>

text \<open>What the waits of one attempt may do to the log: start the operation at most once.\<close>

definition exec_frame :: "int \<Rightarrow> exec_state \<Rightarrow> exec_state \<Rightarrow> bool" where
  "exec_frame k s s' \<longleftrightarrow>
     xs_events s' = xs_events s \<and> (xs_started s' = xs_started s \<or> xs_started s' = xs_started s @ [k])"

named_theorems exec_frames "every part of an attempt keeps the frame"

lemma exec_frame_update [simp]: "exec_frame k (s\<lparr>xs_shared := sh\<rparr>) s' = exec_frame k s s'"
  "exec_frame k (s\<lparr>xs_budget := b\<rparr>) s' = exec_frame k s s'"
  "exec_frame k s (s'\<lparr>xs_shared := sh\<rparr>) = exec_frame k s s'"
  "exec_frame k s (s'\<lparr>xs_budget := b\<rparr>) = exec_frame k s s'"
  "exec_frame k s s" "exec_frame k s (exec_release sc s') = exec_frame k s s'"
  by (simp_all add: exec_frame_def exec_release_def)

lemma exec_operation_frame [exec_frames]: "exec_frame k s (snd (exec_operation sc k s))"
  by (simp add: exec_operation_def Let_def) (simp add: exec_frame_def)

lemma exec_circuit_frame [exec_frames]: "exec_frame k s (snd (exec_circuit x sc k s))"
proof (cases "cb_enter (xc_circuit x) (as_enterNow sc) (sh_circuit (xs_shared s))")
  case (Pair r c)
  show ?thesis
    using exec_operation_frame [of k "s\<lparr>xs_shared := (xs_shared s)\<lparr>sh_circuit := c\<rparr>\<rparr>" sc]
    by (auto simp: exec_circuit_def Pair split: sum.splits prod.splits option.splits)
qed

lemma exec_holding_frame [exec_frames]: "exec_frame k s (snd (exec_holding x sc k s))"
  using exec_circuit_frame [of k s x sc]
  by (auto simp: exec_holding_def split: prod.splits option.splits)

lemma exec_limited_frame [exec_frames]: "exec_frame k s (snd (exec_limited x me sc k s))"
proof (cases "lm_acquire (bg_aborted (xs_budget s)) me (sh_limiter (xs_shared s))")
  case (Pair r l)
  note h = exec_holding_frame [of k "s\<lparr>xs_shared := sh\<rparr>" for sh, simplified]
    exec_holding_frame [of k "s\<lparr>xs_shared := sh, xs_budget := b\<rparr>" for sh b, simplified]
  show ?thesis
    by (auto simp: exec_limited_def Pair Let_def h split: sum.splits acquired.splits)
qed

text \<open>
  \<open>j\<close> attempts are recorded, attempts up to \<open>k\<close> may have started the operation; every record
  that announces a retry is justified by the policy.
\<close>

definition retry_justified :: "execution_policy \<Rightarrow> exec_event \<Rightarrow> bool" where
  "retry_justified p e \<longleftrightarrow> (xe_retrying e \<longrightarrow>
     xe_outcome e = Failure \<and> xe_attempt e < num_int (maxAttempts (xp_retry p))
     \<and> (\<exists>c \<in> set (retryableCategories (xp_retry p)). xe_category e = Some (Some c)))"

definition exec_log :: "execution_policy \<Rightarrow> int \<Rightarrow> int \<Rightarrow> exec_state \<Rightarrow> bool" where
  "exec_log p j k s \<longleftrightarrow>
     map xe_attempt (xs_events s) = [1..j]
     \<and> list_all (retry_justified p) (xs_events s)
     \<and> list_all xe_retrying (butlast (xs_events s))
     \<and> sorted_wrt (<) (xs_started s) \<and> set (xs_started s) \<subseteq> {1..k}"

definition exec_log_open :: "execution_policy \<Rightarrow> int \<Rightarrow> exec_state \<Rightarrow> bool" where
  "exec_log_open p k s \<longleftrightarrow> exec_log p (k - 1) (k - 1) s \<and> list_all xe_retrying (xs_events s)"

lemma exec_log_frame:
  "exec_log p (k - 1) (k - 1) s \<Longrightarrow> 1 \<le> k \<Longrightarrow> exec_frame k s s' \<Longrightarrow> exec_log p (k - 1) k s'"
  by (fastforce simp: exec_log_def exec_frame_def sorted_wrt_append)

lemma exec_log_record:
  assumes "exec_log p (k - 1) k s" and "list_all xe_retrying (xs_events s)" and "1 \<le> k"
    and "retry_justified p \<lparr>xe_attempt = k, xe_category = c, xe_durationMs = d,
      xe_operationId = i, xe_outcome = out, xe_retrying = r\<rparr>"
    and "d = max 0 (as_recordNow sc - as_startedAt sc)" and "i = xp_operationId p"
  shows "exec_log p k k (exec_record p sc k c out r s)"
  using assms by (auto simp: exec_log_def exec_record_def butlast_append upto_rec2)

lemma exec_frame_events: "exec_frame k s s' \<Longrightarrow> xs_events s' = xs_events s"
  by (simp add: exec_frame_def)

lemma shouldRetry_justified:
  assumes "shouldRetry (xp_retry p) (Fin (of_int k)) e = Inr True"
  shows "k < num_int (maxAttempts (xp_retry p))
    \<and> (\<exists>c \<in> set (retryableCategories (xp_retry p)). category_of e = Some c)"
proof -
  from assms have v: "validateRetryPolicy (xp_retry p) = Inr ()"
    and lt: "num_lt (Fin (of_int k)) (maxAttempts (xp_retry p))"
    by (auto simp: shouldRetry_def bindE_eq_Inr)
  have "num_lt (Fin (of_int k)) (Fin (of_int (num_int (maxAttempts (xp_retry p)))))"
    using lt isSafeInteger_Fin [OF policy_ok(1) [OF v]] by simp
  moreover have "\<exists>c \<in> set (retryableCategories (xp_retry p)). category_of e = Some c"
    using assms v by (cases e) (auto simp: shouldRetry_def)
  ultimately show ?thesis by simp
qed

lemma exec_sleep_frame: "exec_frame k s (snd (exec_sleep sc s))"
  by (simp add: exec_sleep_def Let_def)

lemma exec_log_same: "xs_events s' = xs_events s \<Longrightarrow> xs_started s' = xs_started s \<Longrightarrow>
    exec_log p j k s' = exec_log p j k s"
  by (simp add: exec_log_def)

lemma exec_sleep_log [simp]:
  "xs_events (snd (exec_sleep sc s)) = xs_events s"
  "xs_started (snd (exec_sleep sc s)) = xs_started s"
  by (simp_all add: exec_sleep_def Let_def)

lemma exec_backoff_log [simp]:
  "xs_events (snd (exec_backoff p sc k s)) = xs_events s"
  "xs_started (snd (exec_backoff p sc k s)) = xs_started s"
  by (simp_all add: exec_backoff_def exec_sleep_def Let_def split: sum.split)

lemma exec_failed_log:
  assumes "exec_log p (k - 1) k s" and "list_all xe_retrying (xs_events s)" and "1 \<le> k"
    and "exec_failed p sc k caught s = (t, s')"
  shows "(\<exists>j \<in> {k - 1, k}. exec_log p j k s') \<and> (t = Again \<longrightarrow> exec_log_open p (k + 1) s')"
proof -
  define e where "e = classifyBudgetExpiry (xs_budget s) caught"
  show ?thesis
  proof (cases "shouldRetry (xp_retry p) (Fin (of_int k)) e")
    case (Inl e')
    with assms show ?thesis by (auto simp: exec_failed_def e_def)
  next
    case (Inr again)
    define r where "r = (again \<and> \<not> bg_aborted (xs_budget s))"
    define s1 where "s1 = exec_record p sc k (Some (category_of e)) Failure r s"
    have log: "exec_log p k k s1" unfolding s1_def
      using shouldRetry_justified [of p k e] Inr
      by (intro exec_log_record [OF assms(1-3)]) (auto simp: retry_justified_def r_def)
    have "r \<Longrightarrow> list_all xe_retrying (xs_events s1)"
      using assms(2) by (simp add: s1_def exec_record_def)
    moreover have "(t, s') = (if \<not> r then (Stop (Some (Inl e)), s1) else exec_backoff p sc k s1)"
      unfolding assms(4) [symmetric] exec_failed_def Let_def e_def [symmetric] Inr s1_def
      by (simp add: r_def)
    ultimately show ?thesis
      using log exec_backoff_log [of p sc k s1] exec_log_same [of s' s1]
      by (cases r) (auto simp: exec_log_open_def dest: arg_cong [of _ _ snd])
  qed
qed

lemma exec_turn_log:
  assumes "exec_log_open p k s" and "1 \<le> k" and "exec_turn x me p sc k s = (t, s')"
  shows "(\<exists>j \<in> {k - 1, k}. exec_log p j k s') \<and> (t = Again \<longrightarrow> exec_log_open p (k + 1) s')"
proof (cases "bg_aborted (xs_budget s)")
  case True
  with assms exec_log_frame [of p k s s] show ?thesis
    by (auto simp: exec_turn_def exec_log_open_def)
next
  case False
  obtain rate l where rl: "rl_check (as_rateNow sc) (sh_rate (xs_shared s)) = (rate, l)" by force
  define s1 where "s1 = s\<lparr>xs_shared := (xs_shared s)\<lparr>sh_rate := l\<rparr>\<rparr>"
  from assms(1) have start: "exec_log p (k - 1) (k - 1) s" "list_all xe_retrying (xs_events s)"
    by (simp_all add: exec_log_open_def)
  have log1: "exec_log p (k - 1) k s1" and open1: "list_all xe_retrying (xs_events s1)"
    using exec_log_frame [OF start(1) assms(2), of s1] start(2) by (simp_all add: s1_def)
  obtain r s2 where lim: "exec_limited x me sc k s1 = (r, s2)" by force
  have "exec_frame k s s2"
    using exec_limited_frame [of k s1 x me sc] lim by (simp add: s1_def)
  from exec_log_frame [OF start(1) assms(2) this] start(2) exec_frame_events [OF this]
  have log2: "exec_log p (k - 1) k s2" and open2: "list_all xe_retrying (xs_events s2)" by simp_all
  have t: "(t, s') =
      (if \<not> rd_allowed rate
       then (Stop (Some (Inl (retryable_error C_rate_limited))),
             exec_record p sc k (Some (Some C_rate_limited)) Limited False s1)
       else case r of
         None \<Rightarrow> (Stop None, s2)
       | Some (Inr v) \<Rightarrow> (Stop (Some (Inr v)), exec_record p sc k None Success False s2)
       | Some (Inl c) \<Rightarrow> exec_failed p sc k c s2)"
    unfolding assms(3) [symmetric] using False lim
    by (auto simp: exec_turn_def rl Let_def s1_def split: option.splits sum.splits)
  have final: "exec_log p k k (exec_record p sc k c out False s')"
    if "exec_log p (k - 1) k s'" "list_all xe_retrying (xs_events s')" for c out s'
    by (rule exec_log_record [OF that assms(2)]) (simp_all add: retry_justified_def)
  show ?thesis
    using t log2 exec_failed_log [OF log2 open2 assms(2), of sc _ t s'] final [OF log1 open1]
      final [OF log2 open2]
    by (auto split: if_splits option.splits sum.splits)
qed

lemma exec_loop_log:
  assumes "exec_log_open p k s" and "1 \<le> k" and "exec_loop x me p scs k s = (r, s')"
    and "k \<le> num_int (maxAttempts (xp_retry p)) + 1"
  shows "\<exists>j \<le> num_int (maxAttempts (xp_retry p)).
    exec_log p j (num_int (maxAttempts (xp_retry p))) s'"
  using assms
proof (induction scs arbitrary: k s)
  case Nil
  then show ?case
    by (auto simp: exec_loop.simps exec_log_open_def exec_log_def split: if_splits
        intro!: exI [of _ "k - 1"])
next
  case (Cons sc scs)
  let ?max = "num_int (maxAttempts (xp_retry p))"
  have weaken: "exec_log p j ?max u" if "exec_log p j m u" "m \<le> ?max" for j m u
    using that by (auto simp: exec_log_def)
  show ?case
  proof (cases "?max < k")
    case True
    with Cons.prems weaken [of "k - 1" "k - 1" s] show ?thesis
      by (auto simp: exec_loop.simps exec_log_open_def intro!: exI [of _ "k - 1"])
  next
    case False
    obtain t u where tu: "exec_turn x me p sc k s = (t, u)" by force
    note log = exec_turn_log [OF Cons.prems(1,2) tu]
    show ?thesis
    proof (cases t)
      case Again
      with False tu Cons.prems(3) have "exec_loop x me p scs (k + 1) u = (r, s')"
        by (simp add: exec_loop.simps [of _ _ _ "sc # scs"])
      from Cons.IH [OF _ _ this] log Again Cons.prems False show ?thesis by simp
    next
      case (Stop q)
      with False tu Cons.prems(3) have "u = s'"
        by (simp add: exec_loop.simps [of _ _ _ "sc # scs"])
      with log obtain j where "j \<in> {k - 1, k}" "exec_log p j k s'" by auto
      with weaken [of j k s'] False show ?thesis by (auto intro: exI [of _ j])
    qed
  qed
qed

lemma exec_execute_loop:
  assumes "exec_execute x me p sig t0 scs sh = (r, evs, started, sh')"
  obtains
    (refused) e where "r = Some (Inl e)" "evs = []" "started = []" "sh' = sh"
      "exec_validate p = Inl e \<or> createDeadlineBudget (xp_deadlines p) t0 sig = Inl e"
  | (run) b s where "exec_validate p = Inr ()" "createDeadlineBudget (xp_deadlines p) t0 sig = Inr b"
      "exec_loop x me p scs 1
         \<lparr>xs_shared = sh, xs_budget = b, xs_events = [], xs_started = []\<rparr> = (r, s)"
      "evs = xs_events s" "started = xs_started s" "sh' = xs_shared s"
  using assms by (auto simp: exec_execute_def Let_def split: sum.splits prod.splits)

lemma exec_validate_Inr:
  assumes "exec_validate p = Inr ()"
  shows "validateRetryPolicy (xp_retry p) = Inr ()"
    "xp_safety p = non_idempotent_write \<Longrightarrow> num_int (maxAttempts (xp_retry p)) = 1"
  using assms by (auto simp: exec_validate_def bindE_eq_Inr)

lemma exec_execute_log:
  assumes "exec_execute x me p sig t0 scs sh = (r, evs, started, sh')" and "evs \<noteq> [] \<or> started \<noteq> []"
  shows "validateRetryPolicy (xp_retry p) = Inr ()
    \<and> (xp_safety p = non_idempotent_write \<longrightarrow> num_int (maxAttempts (xp_retry p)) = 1)
    \<and> (\<exists>s j. evs = xs_events s \<and> started = xs_started s \<and> j \<le> num_int (maxAttempts (xp_retry p))
       \<and> exec_log p j (num_int (maxAttempts (xp_retry p))) s)"
  using assms(1)
proof (cases rule: exec_execute_loop)
  case (run b s)
  note v = exec_validate_Inr [OF run(1)]
  have "exec_log_open p 1 \<lparr>xs_shared = sh, xs_budget = b, xs_events = [], xs_started = []\<rparr>"
    by (simp add: exec_log_open_def exec_log_def)
  from exec_loop_log [OF this _ run(3)] run(4,5) policy_ok(2) [OF v(1)] v
  show ?thesis by auto
qed (use assms(2) in simp)

lemma sorted_below_one: "sorted_wrt (<) xs \<Longrightarrow> set xs \<subseteq> {1..1::int} \<Longrightarrow> length xs \<le> 1"
  by (cases xs; cases "tl xs") auto

text \<open>
  The operation is started at most once per attempt and in at most \<open>maxAttempts\<close> attempts,
  which is at most ten, whatever the shared objects, the clocks and the operation do.
\<close>

theorem exec_starts_bounded:
  assumes "exec_execute x me p sig t0 scs sh = (r, evs, started, sh')"
  shows "sorted_wrt (<) started \<and> set started \<subseteq> {1..min 10 (num_int (maxAttempts (xp_retry p)))}"
proof (cases "started = []")
  case False
  with exec_execute_log [OF assms] obtain s j where "started = xs_started s"
    and v: "validateRetryPolicy (xp_retry p) = Inr ()"
    and "exec_log p j (num_int (maxAttempts (xp_retry p))) s" by auto
  with policy_ok(3) [OF v] show ?thesis by (auto simp: exec_log_def)
qed simp

text \<open>C5: a write that is not idempotent is started at most once.\<close>

theorem exec_write_once:
  assumes "xp_safety p = non_idempotent_write"
    and "exec_execute x me p sig t0 scs sh = (r, evs, started, sh')"
  shows "length started \<le> 1"
proof (cases "started = []")
  case False
  with exec_execute_log [OF assms(2)] assms(1) obtain s j where "started = xs_started s"
    and "exec_log p j 1 s" by auto
  then show ?thesis using sorted_below_one by (simp add: exec_log_def)
qed simp

text \<open>
  The observer is given one record per attempt, in order; every record but the last announces
  a retry, and an announced retry is for an error of a category the policy lists, which is one of
  the transient categories.
\<close>

theorem exec_records:
  assumes "exec_execute x me p sig t0 scs sh = (r, evs, started, sh')"
  shows "map xe_attempt evs = [1..int (length evs)]
    \<and> list_all xe_retrying (butlast evs)
    \<and> list_all (\<lambda>e. \<not> xe_retrying e \<or> xe_outcome e = Failure
        \<and> (\<exists>c \<in> set (retryableCategories (xp_retry p)) \<inter> set retry_allowed.
             xe_category e = Some (Some c))) evs"
proof (cases "evs = []")
  case False
  with exec_execute_log [OF assms] obtain s j where s: "evs = xs_events s"
    and v: "validateRetryPolicy (xp_retry p) = Inr ()"
    and log: "exec_log p j (num_int (maxAttempts (xp_retry p))) s" by auto
  then have m: "map xe_attempt evs = [1..j]" by (simp add: exec_log_def)
  then have "length evs = length [1..j]" by (metis length_map)
  with False have "j = int (length evs)" by (cases "1 \<le> j") auto
  with m log s have "map xe_attempt evs = [1..int (length evs)]"
    and "list_all xe_retrying (butlast evs)" and "list_all (retry_justified p) evs"
    by (simp_all add: exec_log_def)
  moreover from this(3) have "list_all (\<lambda>e. \<not> xe_retrying e \<or> xe_outcome e = Failure
        \<and> (\<exists>c \<in> set (retryableCategories (xp_retry p)) \<inter> set retry_allowed.
             xe_category e = Some (Some c))) evs"
    using policy_ok(8) [OF v] unfolding retry_justified_def list_all_iff by blast
  ultimately show ?thesis by simp
qed simp

section \<open>The execution returns\<close>

text \<open>
  A script in which nothing waits for ever: the wait for a slot ends with a slot or with the total
  timer, and the race under the deadline has an event.
\<close>

definition script_settles :: "'a attempt_script \<Rightarrow> bool" where
  "script_settles sc \<longleftrightarrow>
     (as_woken sc \<or> TotalTimer \<in> set (as_waitEvents sc))
     \<and> (\<exists>e \<in> set (as_opEvents sc). e \<noteq> OuterAbort)"

lemma bg_seen_nonempty: "(\<exists>e \<in> set es. e \<noteq> OuterAbort) \<Longrightarrow> bg_seen b es \<noteq> []"
proof (induction es)
  case (Cons e es)
  then show ?case by (cases e) auto
qed simp

lemma exec_operation_settles:
  assumes "script_settles sc"
  shows "fst (exec_operation sc k s) \<noteq> None"
proof -
  have "bg_seen b (as_opEvents sc) \<noteq> []" for b
    using assms by (auto simp: script_settles_def intro!: bg_seen_nonempty)
  then have "runWithDeadline t ab (bg_seen b (as_opEvents sc)) \<noteq> None" for t ab b
    by (cases "bg_seen b (as_opEvents sc)")
      (auto simp: runWithDeadline_def Let_def dl_race_run split: sum.splits)
  then show ?thesis by (simp add: exec_operation_def Let_def)
qed

lemma exec_circuit_settles:
  assumes "script_settles sc"
  shows "fst (exec_circuit x sc k s) \<noteq> None"
proof -
  have "exec_operation sc k u \<noteq> (None, v)" for u v
    using exec_operation_settles [OF assms, of k u] by auto
  then show ?thesis
    by (auto simp: exec_circuit_def split: sum.split prod.split option.split)
qed

lemma exec_holding_settles: "script_settles sc \<Longrightarrow> fst (exec_holding x sc k s) \<noteq> None"
  using exec_circuit_settles [of sc x k s]
  by (auto simp: exec_holding_def split: prod.splits option.splits)

lemma exec_limited_settles: "script_settles sc \<Longrightarrow> fst (exec_limited x me sc k s) \<noteq> None"
  using exec_holding_settles [of sc x k]
  by (auto simp: exec_limited_def Let_def script_settles_def bg_fold_aborted
      split: sum.splits prod.splits acquired.splits)

lemma exec_turn_settles:
  assumes "script_settles sc"
  shows "fst (exec_turn x me p sc k s) \<noteq> Stop None"
proof -
  have f: "fst (exec_failed p sc k c u) \<noteq> Stop None" for c u
    by (simp add: exec_failed_def exec_backoff_def Let_def split: sum.split prod.split)
  obtain rate l where rl: "rl_check (as_rateNow sc) (sh_rate (xs_shared s)) = (rate, l)" by force
  obtain r u where lim: "exec_limited x me sc k (s\<lparr>xs_shared := (xs_shared s)\<lparr>sh_rate := l\<rparr>\<rparr>) = (r, u)"
    by force
  with exec_limited_settles [OF assms, of x me k] have "r \<noteq> None" by (metis fst_conv)
  then show ?thesis
    using f by (auto simp: exec_turn_def rl lim Let_def split: option.split sum.split)
qed

lemma exec_loop_settles:
  assumes "list_all script_settles scs" and "num_int (maxAttempts (xp_retry p)) < k + int (length scs)"
  shows "fst (exec_loop x me p scs k s) \<noteq> None"
  using assms
proof (induction scs arbitrary: k s)
  case Nil
  then show ?case by (simp add: exec_loop.simps)
next
  case (Cons sc scs)
  then have "fst (exec_loop x me p scs (k + 1) u) \<noteq> None" for u by simp
  with exec_turn_settles [of sc x me p k s] Cons.prems show ?case
    by (auto simp: exec_loop.simps [of _ _ _ "sc # scs"] split: prod.splits turn.splits)
qed

text \<open>
  C32: when in no attempt something waits for ever, the execution returns or throws after at most
  \<open>maxAttempts\<close> attempts.
\<close>

theorem exec_returns:
  assumes "list_all script_settles scs" and "num_int (maxAttempts (xp_retry p)) \<le> int (length scs)"
  shows "\<exists>r. fst (exec_execute x me p sig t0 scs sh) = Some r"
proof -
  obtain r evs started sh' where e: "exec_execute x me p sig t0 scs sh = (r, evs, started, sh')"
    by (metis prod.collapse)
  then show ?thesis
  proof (cases rule: exec_execute_loop)
    case (run b s)
    from assms(2) have "num_int (maxAttempts (xp_retry p)) < 1 + int (length scs)" by simp
    from exec_loop_settles [OF assms(1) this, of x me] run(3) e show ?thesis by (metis fst_conv option.exhaust)
  qed (use e in simp)
qed

section \<open>Total timeouts\<close>

abbreviation budget_over :: "exec_state \<Rightarrow> bool" where
  "budget_over s \<equiv> bg_aborted (xs_budget s) \<and> \<not> bg_outer (xs_budget s)"

abbreviation timed_out :: "thrown + 'a" where
  "timed_out \<equiv> Inl (retryable_error C_timeout)"

lemma classify_over: "budget_over s \<Longrightarrow> classifyBudgetExpiry (xs_budget s) e = retryable_error C_timeout"
  by (simp add: classifyBudgetExpiry_def)

lemma exec_operation_over:
  "exec_operation sc k s = (Some r, s') \<Longrightarrow> budget_over s' \<Longrightarrow> r = timed_out"
  by (cases r) (auto simp: exec_operation_def Let_def classifyBudgetExpiry_def
      split: if_splits sum.splits)

lemma exec_circuit_value:
  "exec_circuit x sc k s = (Some (Inr v), s') \<Longrightarrow> \<not> budget_over s'"
  by (auto simp: exec_circuit_def split: sum.splits prod.splits option.splits
      dest!: exec_operation_over)

lemma exec_release_budget [simp]: "xs_budget (exec_release sc s) = xs_budget s"
  by (simp add: exec_release_def)

lemma exec_holding_value:
  "exec_holding x sc k s = (Some (Inr v), s') \<Longrightarrow> \<not> budget_over s'"
  by (auto simp: exec_holding_def split: if_splits prod.splits option.splits
      dest!: exec_circuit_value)

lemma exec_limited_value:
  "exec_limited x me sc k s = (Some (Inr v), s') \<Longrightarrow> \<not> budget_over s'"
  by (auto simp: exec_limited_def Let_def split: if_splits sum.splits prod.splits acquired.splits
      dest!: exec_holding_value)

lemma exec_record_budget [simp]: "xs_budget (exec_record p sc k c out r s) = xs_budget s"
  by (simp add: exec_record_def)

lemma exec_sleep_ok: "exec_sleep sc s = (Inr u, s') \<Longrightarrow> \<not> bg_aborted (xs_budget s')"
  by (auto simp: exec_sleep_def Let_def split: if_splits)

lemma exec_backoff_over:
  assumes "exec_backoff p sc k s = (t, s')" and "budget_over s'"
  shows "t = Stop (Some timed_out)"
  using assms
  by (auto simp: exec_backoff_def classify_over split: sum.splits prod.splits dest: exec_sleep_ok)

lemma exec_failed_cases:
  assumes "validateRetryPolicy (xp_retry p) = Inr ()" and "exec_failed p sc k c s = (t, s')"
  obtains (stop) "t = Stop (Some (Inl (classifyBudgetExpiry (xs_budget s) c)))"
      "xs_budget s' = xs_budget s" "xs_shared s' = xs_shared s"
  | (backoff) u where "exec_backoff p sc k u = (t, s')" "xs_budget u = xs_budget s"
      "xs_shared u = xs_shared s"
proof -
  let ?e = "classifyBudgetExpiry (xs_budget s) c"
  obtain again where "shouldRetry (xp_retry p) (Fin (of_int k)) ?e = Inr again"
    using assms(1) by (simp add: shouldRetry_def)
  then have "(t, s') = (let r = again \<and> \<not> bg_aborted (xs_budget s);
      u = exec_record p sc k (Some (category_of ?e)) Failure r s
    in if \<not> r then (Stop (Some (Inl ?e)), u) else exec_backoff p sc k u)"
    unfolding assms(2) [symmetric] by (simp add: exec_failed_def Let_def)
  then show ?thesis
    by (cases "again \<and> \<not> bg_aborted (xs_budget s)")
      (auto simp: Let_def exec_record_def intro: stop backoff [OF sym])
qed

lemma exec_failed_over:
  assumes "validateRetryPolicy (xp_retry p) = Inr ()"
    and "exec_failed p sc k c s = (t, s')" and "budget_over s'"
  shows "t = Stop (Some timed_out)"
  using assms(1,2)
proof (cases rule: exec_failed_cases)
  case stop
  with assms(3) classify_over [of s c] show ?thesis by simp
next
  case (backoff u)
  from backoff(1) assms(3) show ?thesis by (rule exec_backoff_over)
qed

lemma exec_turn_over:
  assumes "validateRetryPolicy (xp_retry p) = Inr ()"
    and "exec_turn x me p sc k s = (t, s')" and "budget_over s'"
  shows "t = Stop None \<or> t = Stop (Some timed_out)"
  using assms(2,3)
  by (auto simp: exec_turn_def Let_def classify_over
      split: if_splits prod.splits option.splits sum.splits
      dest: exec_limited_value exec_failed_over [OF assms(1)])

lemma exec_failed_again:
  "exec_failed p sc k c s = (Again, s') \<Longrightarrow> k < num_int (maxAttempts (xp_retry p))"
  using shouldRetry_justified [of p k "classifyBudgetExpiry (xs_budget s) c"]
  by (auto simp: exec_failed_def Let_def split: sum.splits if_splits)

lemma exec_turn_again:
  "exec_turn x me p sc k s = (Again, s') \<Longrightarrow> k < num_int (maxAttempts (xp_retry p))"
  by (auto simp: exec_turn_def Let_def split: if_splits prod.splits option.splits sum.splits
      dest: exec_failed_again)

lemma exec_loop_over:
  assumes "validateRetryPolicy (xp_retry p) = Inr ()"
    and "exec_loop x me p scs k s = (Some r, s')" and "budget_over s'"
    and "k \<le> num_int (maxAttempts (xp_retry p))"
  shows "r = timed_out"
  using assms(2-4)
proof (induction scs arbitrary: k s)
  case Nil
  then show ?case by (simp add: exec_loop.simps)
next
  case (Cons sc scs)
  obtain t u where tu: "exec_turn x me p sc k s = (t, u)" by force
  show ?case
  proof (cases t)
    case Again
    with tu Cons.prems have "exec_loop x me p scs (k + 1) u = (Some r, s')"
      by (simp add: exec_loop.simps [of _ _ _ "sc # scs"])
    with Cons.IH Cons.prems(2) exec_turn_again tu Again show ?thesis by fastforce
  next
    case (Stop q)
    with tu Cons.prems exec_turn_over [OF assms(1) tu] show ?thesis
      by (auto simp: exec_loop.simps [of _ _ _ "sc # scs"])
  qed
qed

text \<open>
  When the execution settles after its total time is up and the caller did not abort, it
  throws a retryable \<open>timeout\<close>: not a value, not \<open>cancelled\<close>, not the last attempt's error and
  not the \<open>internal\<close> error after the loop.
\<close>

theorem exec_total_timeout:
  assumes "validateRetryPolicy (xp_retry p) = Inr ()"
    and "exec_loop x me p scs 1 s = (Some r, s')"
    and "bg_aborted (xs_budget s')" and "\<not> bg_outer (xs_budget s')"
  shows "r = Inl (retryable_error C_timeout)"
  by (rule exec_loop_over [OF assms(1,2)]) (use assms policy_ok(2) [OF assms(1)] in simp_all)

section \<open>Slots\<close>

definition script_alone :: "'a attempt_script \<Rightarrow> bool" where
  "script_alone sc \<longleftrightarrow>
     (\<forall>sh. sh_limiter (as_opOthers sc sh) = sh_limiter sh
         \<and> sh_limiter (as_sleepOthers sc sh) = sh_limiter sh)"

definition slot_free :: "limiter \<Rightarrow> bool" where
  "slot_free l \<longleftrightarrow> lm_active l < lm_limit l \<and> lm_queue l = []"

lemma exec_operation_limiter:
  "script_alone sc \<Longrightarrow>
   sh_limiter (xs_shared (snd (exec_operation sc k s))) = sh_limiter (xs_shared s)"
  by (simp add: exec_operation_def Let_def script_alone_def)

lemma exec_circuit_limiter:
  assumes "script_alone sc"
  shows "sh_limiter (xs_shared (snd (exec_circuit x sc k s))) = sh_limiter (xs_shared s)"
proof (cases "cb_enter (xc_circuit x) (as_enterNow sc) (sh_circuit (xs_shared s))")
  case (Pair e c)
  obtain q v where op: "exec_operation sc k (s\<lparr>xs_shared := (xs_shared s)\<lparr>sh_circuit := c\<rparr>\<rparr>) = (q, v)"
    by force
  then have "sh_limiter (xs_shared v) = sh_limiter (xs_shared s)"
    using exec_operation_limiter [OF assms, of k "s\<lparr>xs_shared := (xs_shared s)\<lparr>sh_circuit := c\<rparr>\<rparr>"]
    by simp
  then show ?thesis
    by (cases e) (simp_all add: exec_circuit_def Pair op split: option.split sum.split)
qed

abbreviation limiter_of :: "exec_state \<Rightarrow> limiter" where
  "limiter_of s \<equiv> sh_limiter (xs_shared s)"

lemma exec_release_limiter:
  "lm_queue (limiter_of s) = [] \<Longrightarrow>
   limiter_of (exec_release sc s) = (limiter_of s)\<lparr>lm_active := lm_active (limiter_of s) - 1\<rparr>"
  by (simp add: exec_release_def lm_release_def Let_def)

lemma exec_holding_limiter:
  assumes "script_alone sc" and "lm_queue (limiter_of s) = []" and "exec_holding x sc k s = (Some r, s')"
  shows "limiter_of s' = (limiter_of s)\<lparr>lm_active := lm_active (limiter_of s) - 1\<rparr>"
proof -
  obtain q v where c: "exec_circuit x sc k s = (q, v)" by force
  with exec_circuit_limiter [OF assms(1), of x k s] have "limiter_of v = limiter_of s" by simp
  with assms(2,3) c exec_release_limiter [of s sc] exec_release_limiter [of v sc] show ?thesis
    by (auto simp: exec_holding_def split: if_splits option.splits)
qed

lemma exec_limited_limiter:
  assumes "script_alone sc" and "slot_free (limiter_of s)" and "exec_limited x me sc k s = (Some r, s')"
  shows "limiter_of s' = limiter_of s"
proof (cases "bg_aborted (xs_budget s)")
  case True
  with assms(3) show ?thesis by (auto simp: exec_limited_def lm_acquire_def)
next
  case False
  let ?l = "(limiter_of s)\<lparr>lm_active := lm_active (limiter_of s) + 1\<rparr>"
  from False assms(2,3)
  have "exec_holding x sc k (s\<lparr>xs_shared := (xs_shared s)\<lparr>sh_limiter := ?l\<rparr>\<rparr>) = (Some r, s')"
    by (simp add: exec_limited_def lm_acquire_def slot_free_def)
  from exec_holding_limiter [OF assms(1) _ this] assms(2) show ?thesis
    by (simp add: slot_free_def)
qed

lemma exec_record_limiter [simp]: "limiter_of (exec_record p sc k c out r s) = limiter_of s"
  by (simp add: exec_record_def)

lemma exec_backoff_limiter:
  "script_alone sc \<Longrightarrow> limiter_of (snd (exec_backoff p sc k s)) = limiter_of s"
  by (simp add: exec_backoff_def exec_sleep_def Let_def script_alone_def split: sum.split)

lemma exec_failed_limiter:
  assumes "validateRetryPolicy (xp_retry p) = Inr ()" and "script_alone sc"
    and "exec_failed p sc k c s = (t, s')"
  shows "limiter_of s' = limiter_of s"
  using assms(1,3)
proof (cases rule: exec_failed_cases)
  case (backoff u)
  with exec_backoff_limiter [OF assms(2), of p k u] show ?thesis by simp
qed simp

lemma exec_turn_limiter:
  assumes "validateRetryPolicy (xp_retry p) = Inr ()" and "script_alone sc"
    and "slot_free (limiter_of s)" and "exec_turn x me p sc k s = (t, s')" and "t \<noteq> Stop None"
  shows "limiter_of s' = limiter_of s"
proof -
  obtain rate l where rl: "rl_check (as_rateNow sc) (sh_rate (xs_shared s)) = (rate, l)" by force
  define s1 where "s1 = s\<lparr>xs_shared := (xs_shared s)\<lparr>sh_rate := l\<rparr>\<rparr>"
  have s1: "limiter_of s1 = limiter_of s" by (simp add: s1_def)
  obtain r s2 where lim: "exec_limited x me sc k s1 = (r, s2)" by force
  then have s2: "limiter_of s2 = limiter_of s" if "r \<noteq> None"
    using that exec_limited_limiter [OF assms(2), of s1 x me k _ s2] s1 assms(3) by auto
  show ?thesis
    using assms(4,5) lim s1 s2 exec_failed_limiter [OF assms(1,2), of k _ s2 t s']
    by (auto simp: exec_turn_def rl Let_def s1_def [symmetric]
        split: if_splits option.splits sum.splits)
qed

lemma exec_loop_limiter:
  assumes "validateRetryPolicy (xp_retry p) = Inr ()" and "list_all script_alone scs"
    and "slot_free (limiter_of s)" and "exec_loop x me p scs k s = (Some r, s')"
  shows "limiter_of s' = limiter_of s"
  using assms(2-4)
proof (induction scs arbitrary: k s)
  case Nil
  then show ?case by (auto simp: exec_loop.simps split: if_splits)
next
  case (Cons sc scs)
  show ?case
  proof (cases "num_int (maxAttempts (xp_retry p)) < k")
    case True
    with Cons.prems show ?thesis by (simp add: exec_loop.simps [of _ _ _ "sc # scs"])
  next
    case False
    obtain t u where tu: "exec_turn x me p sc k s = (t, u)" by force
    with Cons.prems False
    have r: "t = Stop (Some r) \<and> u = s' \<or> t = Again \<and> exec_loop x me p scs (k + 1) u = (Some r, s')"
      by (cases t) (simp_all add: exec_loop.simps [of _ _ _ "sc # scs"])
    then have "limiter_of u = limiter_of s"
      using exec_turn_limiter [OF assms(1) _ Cons.prems(2) tu] Cons.prems(1) by auto
    with r Cons.IH [of u "k + 1"] Cons.prems show ?thesis by auto
  qed
qed

text \<open>
  No slot leaks: an execution that found a free slot and nobody waiting leaves the concurrency
  limiter exactly as it found it, on every path on which it returns or throws, when the other calls
  leave the limiter alone meanwhile.
\<close>

theorem exec_no_slot_leak:
  assumes "list_all script_alone scs" and "slot_free (sh_limiter sh)"
    and "exec_execute x me p sig t0 scs sh = (Some r, evs, started, sh')"
  shows "sh_limiter sh' = sh_limiter sh"
  using assms(3)
proof (cases rule: exec_execute_loop)
  case (run b s)
  from exec_loop_limiter [OF exec_validate_Inr(1) [OF run(1)] assms(1) _ run(3)] assms(2) run(6)
  show ?thesis by simp
qed simp

subsection \<open>A sample execution\<close>

definition sample_script :: "int bg_event list \<Rightarrow> int attempt_script" where
  "sample_script evs = \<lparr>as_startedAt = 1000, as_rateNow = 1000, as_waitEvents = [], as_woken = True,
     as_waitOthers = id, as_enterNow = 1000, as_remainingNow = 1000, as_opEvents = evs,
     as_opOthers = id, as_exitNow = 1010, as_releaseAborted = (\<lambda>_. False), as_recordNow = 1010,
     as_random = Fin 0, as_sleepEvents = [], as_sleepOthers = id\<rparr>"

definition sample_execution :: "operation_safety \<Rightarrow> nat \<Rightarrow> execution_policy" where
  "sample_execution safety n =
     \<lparr>xp_deadlines = \<lparr>connectMs = Fin 100, responseMs = Fin 200, totalMs = Fin 300\<rparr>,
      xp_operationId = ''crm.lookup'',
      xp_retry = \<lparr>backoffMs = replicate (n - 1) (Fin 10), jitterRatio = Fin 0,
        maxAttempts = Fin (of_nat n), retryableCategories = [C_connection]\<rparr>,
      xp_safety = safety\<rparr>"

definition sample_shared :: shared where
  "sample_shared = \<lparr>sh_limiter = \<lparr>lm_limit = 1, lm_maxQueue = 0, lm_active = 0, lm_queue = []\<rparr>,
     sh_circuit = \<lparr>cb_state = Closed, cb_failures = 0, cb_openedAt = None, cb_halfOpenActive = 0\<rparr>,
     sh_rate = \<lparr>rl_limit = 5, rl_windowMs = 1000, rl_windowStart = 0, rl_used = 0\<rparr>\<rparr>"

definition sample_executor :: executor where
  "sample_executor = \<lparr>xc_circuit = \<lparr>failureThreshold = Fin 3, halfOpenMaxCalls = Fin 1,
     openMs = Fin 1000\<rparr>, xc_counts = defaultFailureClassifier\<rparr>"

abbreviation sample_run :: "(thrown + int) option \<times> exec_event list \<times> int list \<times> shared" where
  "sample_run \<equiv> exec_execute sample_executor 7 (sample_execution read_only 2) None 1000
     [sample_script [PhaseOp (Inl (retryable_error C_connection))], sample_script [PhaseOp (Inr 5)]]
     sample_shared"

lemma sample_run_value:
  "fst sample_run = Some (Inr 5) \<and> map xe_retrying (fst (snd sample_run)) = [True, False]
   \<and> fst (snd (snd sample_run)) = [1, 2]"
  by code_simp

definition sample_events :: "exec_event list" where "sample_events = fst (snd sample_run)"
definition sample_after :: shared where "sample_after = snd (snd (snd sample_run))"

lemma sample_run_split: "sample_run = (Some (Inr 5), sample_events, [1, 2], sample_after)"
  using sample_run_value by (simp add: sample_events_def sample_after_def prod_eq_iff)

theorem exec_starts_bounded_witness:
  "sorted_wrt (<) [1, 2 :: int]
   \<and> set [1, 2] \<subseteq> {1..min 10 (num_int (maxAttempts (xp_retry (sample_execution read_only 2))))}"
  by (rule exec_starts_bounded [OF sample_run_split])

theorem exec_records_witness:
  "map xe_attempt sample_events = [1..int (length sample_events)]
    \<and> list_all xe_retrying (butlast sample_events)
    \<and> list_all (\<lambda>e. \<not> xe_retrying e \<or> xe_outcome e = Failure
        \<and> (\<exists>c \<in> set (retryableCategories (xp_retry (sample_execution read_only 2)))
                \<inter> set retry_allowed. xe_category e = Some (Some c))) sample_events"
  by (rule exec_records [OF sample_run_split])

abbreviation sample_write ::
  "(thrown + int) option \<times> exec_event list \<times> int list \<times> shared" where
  "sample_write \<equiv> exec_execute sample_executor 7 (sample_execution non_idempotent_write 1) None 1000
     [sample_script [PhaseOp (Inl (retryable_error C_connection))], sample_script [PhaseOp (Inr 5)]]
     sample_shared"

theorem exec_write_once_witness: "length (fst (snd (snd sample_write))) \<le> 1"
  by (rule exec_write_once [of "sample_execution non_idempotent_write 1" sample_executor 7 None 1000
        "[sample_script [PhaseOp (Inl (retryable_error C_connection))], sample_script [PhaseOp (Inr 5)]]"
        sample_shared "fst sample_write" "fst (snd sample_write)" _ "snd (snd (snd sample_write))"])
    (simp_all add: sample_execution_def)

theorem exec_returns_witness: "\<exists>r. fst sample_run = Some r"
  by (rule exec_returns)
    (simp_all add: script_settles_def sample_script_def sample_execution_def)

theorem exec_no_slot_leak_witness: "sh_limiter sample_after = sh_limiter sample_shared"
  by (rule exec_no_slot_leak [OF _ _ sample_run_split])
    (simp_all add: script_alone_def sample_script_def slot_free_def sample_shared_def)

definition sample_late :: exec_state where
  "sample_late = \<lparr>xs_shared = sample_shared, xs_budget = sample_budget, xs_events = [],
     xs_started = []\<rparr>"

abbreviation sample_late_run :: "(thrown + int) option \<times> exec_state" where
  "sample_late_run \<equiv> exec_loop sample_executor 7 (sample_execution read_only 2)
     [sample_script [PhaseOp (Inl (Foreign ''down'')), TotalTimer]] 1 sample_late"

theorem exec_total_timeout_witness:
  "(Inl (retryable_error C_timeout) :: thrown + int) = Inl (retryable_error C_timeout)
   \<and> fst sample_late_run = Some (Inl (retryable_error C_timeout))"
proof
  have r: "fst sample_late_run = Some (Inl (retryable_error C_timeout))"
    and o: "bg_aborted (xs_budget (snd sample_late_run))" "\<not> bg_outer (xs_budget (snd sample_late_run))"
    by code_simp+
  have v: "validateRetryPolicy (xp_retry (sample_execution read_only 2)) = Inr ()" by code_simp
  show "(Inl (retryable_error C_timeout) :: thrown + int) = Inl (retryable_error C_timeout)"
    by (rule exec_total_timeout [OF v _ o]) (use r in \<open>simp add: prod_eq_iff\<close>)
  show "fst sample_late_run = Some (Inl (retryable_error C_timeout))" by (rule r)
qed

end
