(* ===== verification/Organization.thy ===== *)
theory Organization
  imports JsLib
begin

text \<open>
  The organization module's data, validation and in-memory store
  (\<open>packages/crm-modules/organization/src/\<close>: \<open>types.ts\<close>, \<open>errors.ts\<close>,
  \<open>validation.ts\<close>, \<open>store.ts\<close>, \<open>memory-store.ts\<close>). Facts carry an effective interval of
  two timestamps; \<open>lg\<close> is the engine's reading of non-ISO dates (see \<open>date_parse\<close>).
\<close>

section \<open>Data\<close>

datatype org_code =
    assignment_not_active
  | effective_interval_invalid
  | employment_not_active
  | entity_conflict
  | entity_not_found
  | idempotency_conflict
  | organization_hierarchy_cycle
  | organization_path_invalid

text \<open>What the module's code throws, and what a port (the authorizer) throws through it.\<close>

datatype org_failure = OrganizationError org_code | OrgPortError string

record effective_interval =
  iv_from :: string
  iv_to :: "string option"

datatype actor_type = authenticated_subject | system_actor

record actor_reference =
  ac_id :: string
  ac_type :: actor_type

record command_metadata =
  cm_actor :: actor_reference
  cm_operationId :: string
  cm_reason :: string
  cm_traceId :: string

record workforce_person =
  wp_id :: string
  wp_recordedAt :: string

record employment = effective_interval +
  em_id :: string
  em_person :: string

record organization_unit = effective_interval +
  ou_id :: string

record unit_placement = effective_interval +
  pl_unit :: string
  pl_parent :: "string option"
  pl_id :: string

record org_position = effective_interval +
  ps_unit :: string
  ps_id :: string

record org_assignment = effective_interval +
  as_id :: string
  as_employment :: string
  as_unit :: string
  as_position :: string
  as_person :: string

section \<open>Validation\<close>

type_synonym engine_dates = "string \<Rightarrow> int option"

definition requireId :: "string \<Rightarrow> org_failure + unit" where
  "requireId v = ensure (uuid_any v) (OrganizationError entity_conflict)"

definition requireText :: "nat \<Rightarrow> string \<Rightarrow> org_failure + unit" where
  "requireText maximum v =
     ensure (\<not> (length (trim v) = 0 \<or> maximum < length v)) (OrganizationError entity_conflict)"

definition requireTimestamp :: "engine_dates \<Rightarrow> string \<Rightarrow> org_failure + int" where
  "requireTimestamp lg v = (case date_parse lg v of
     None \<Rightarrow> Inl (OrganizationError effective_interval_invalid)
   | Some t \<Rightarrow> if to_iso t \<noteq> v then Inl (OrganizationError effective_interval_invalid) else Inr t)"

definition requireInterval :: "engine_dates \<Rightarrow> 'a effective_interval_scheme \<Rightarrow> org_failure + unit" where
  "requireInterval lg iv =
     bindE (requireTimestamp lg (iv_from iv)) (\<lambda>from.
       case iv_to iv of
         None \<Rightarrow> Inr ()
       | Some e \<Rightarrow> bindE (requireTimestamp lg e) (\<lambda>to.
           ensure (\<not> to \<le> from) (OrganizationError effective_interval_invalid)))"

definition isActive :: "engine_dates \<Rightarrow> 'a effective_interval_scheme \<Rightarrow> string \<Rightarrow> bool" where
  "isActive lg iv instant \<longleftrightarrow>
     time_le (date_parse lg (iv_from iv)) (date_parse lg instant)
     \<and> (case iv_to iv of None \<Rightarrow> True
        | Some e \<Rightarrow> time_lt (date_parse lg instant) (date_parse lg e))"

definition before_end :: "engine_dates \<Rightarrow> int option \<Rightarrow> string option \<Rightarrow> bool" where
  "before_end lg t e = (if truthy e then time_lt t (date_parse lg (the e)) else t \<noteq> None)"

definition intervalsOverlap ::
  "engine_dates \<Rightarrow> 'a effective_interval_scheme \<Rightarrow> 'b effective_interval_scheme \<Rightarrow> bool" where
  "intervalsOverlap lg l r \<longleftrightarrow>
     before_end lg (date_parse lg (iv_from l)) (iv_to r)
     \<and> before_end lg (date_parse lg (iv_from r)) (iv_to l)"

definition intervalContains ::
  "engine_dates \<Rightarrow> 'a effective_interval_scheme \<Rightarrow> 'b effective_interval_scheme \<Rightarrow> bool" where
  "intervalContains lg outer inner =
     (if time_lt (date_parse lg (iv_from inner)) (date_parse lg (iv_from outer)) then False
      else case iv_to outer of
        None \<Rightarrow> True
      | Some e \<Rightarrow> (case iv_to inner of
          None \<Rightarrow> False
        | Some e' \<Rightarrow> time_le (date_parse lg e') (date_parse lg e)))"

subsection \<open>Intervals as sets of instants\<close>

text \<open>The specification of an accepted interval: its half-open set of instants.\<close>

definition instants :: "engine_dates \<Rightarrow> 'a effective_interval_scheme \<Rightarrow> int set" where
  "instants lg iv = {t. time_le (date_parse lg (iv_from iv)) (Some t)
     \<and> (case iv_to iv of None \<Rightarrow> True | Some e \<Rightarrow> time_lt (Some t) (date_parse lg e))}"

lemma isActive_instants:
  "isActive lg iv instant \<longleftrightarrow> (\<exists>t \<in> instants lg iv. date_parse lg instant = Some t)"
  by (cases "date_parse lg instant") (auto simp: isActive_def instants_def split: option.splits)

lemma requireTimestamp_Inr:
  "requireTimestamp lg v = Inr t \<longleftrightarrow> canonical_time lg v = Some t"
  by (auto simp: requireTimestamp_def canonical_time_def split: option.splits if_splits)

lemma requireInterval_Inr:
  "requireInterval lg iv = Inr () \<longleftrightarrow>
     (\<exists>f. canonical_time lg (iv_from iv) = Some f
       \<and> (case iv_to iv of None \<Rightarrow> True
          | Some e \<Rightarrow> \<exists>t. canonical_time lg e = Some t \<and> f < t))"
  by (cases "canonical_time lg (iv_from iv)"; cases "iv_to iv")
    (auto simp: requireInterval_def bindE_eq_Inr requireTimestamp_Inr not_le)

lemma interval_cases:
  assumes "requireInterval lg iv = Inr ()"
  obtains (unbounded) f where "date_parse lg (iv_from iv) = Some f" "iv_to iv = None"
      "instants lg iv = {f..}"
  | (bounded) f e t where "date_parse lg (iv_from iv) = Some f" "iv_to iv = Some e" "e \<noteq> []"
      "date_parse lg e = Some t" "f < t" "instants lg iv = {f..<t}"
proof (cases "iv_to iv")
  case None
  with assms obtain f where "date_parse lg (iv_from iv) = Some f"
    by (auto simp: requireInterval_Inr dest: canonical_time_parse)
  with None show ?thesis by (intro unbounded) (auto simp: instants_def)
next
  case (Some e)
  with assms obtain f t where "date_parse lg (iv_from iv) = Some f" "date_parse lg e = Some t" "f < t"
    "e \<noteq> []"
    by (auto simp: requireInterval_Inr dest: canonical_time_parse canonical_time_nonempty)
  with Some show ?thesis by (intro bounded) (auto simp: instants_def)
qed

text \<open>Inclusion and intersection of half-open intervals of integers.\<close>

lemma half_open_simps:
  fixes f g :: int
  shows "g < t \<Longrightarrow> {g..<t} \<subseteq> {f..} \<longleftrightarrow> f \<le> g" "{g..} \<subseteq> {f..} \<longleftrightarrow> f \<le> g"
    "\<not> {g..} \<subseteq> {f..<e}" "g < t \<Longrightarrow> {g..<t} \<subseteq> {f..<e} \<longleftrightarrow> f \<le> g \<and> t \<le> e"
    "{f..} \<inter> {g..} \<noteq> {}" "g < t \<Longrightarrow> {f..} \<inter> {g..<t} \<noteq> {} \<longleftrightarrow> f < t"
    "f < e \<Longrightarrow> {f..<e} \<inter> {g..} \<noteq> {} \<longleftrightarrow> g < e"
    "f < e \<Longrightarrow> g < t \<Longrightarrow> {f..<e} \<inter> {g..<t} \<noteq> {} \<longleftrightarrow> f < t \<and> g < e"
proof -
  show "g < t \<Longrightarrow> {g..<t} \<subseteq> {f..} \<longleftrightarrow> f \<le> g" by fastforce
  show "\<not> {g..} \<subseteq> {f..<e}"
  proof
    assume "{g..} \<subseteq> {f..<e}"
    moreover have "max g e \<in> {g..}" by simp
    ultimately have "max g e \<in> {f..<e}" by blast
    then show False by simp
  qed
  have "max f g \<in> {f..} \<inter> {g..}" by simp
  then show "{f..} \<inter> {g..} \<noteq> {}" by blast
  have *: "max f g \<in> {f..} \<inter> {g..<t} \<longleftrightarrow> f < t" if "g < t" for f g t :: int using that by auto
  show "{f..} \<inter> {g..<t} \<noteq> {} \<longleftrightarrow> f < t" if "g < t"
    using * [OF that, of f] that by fastforce
  show "{f..<e} \<inter> {g..} \<noteq> {} \<longleftrightarrow> g < e" if "f < e"
    using * [OF that, of g] that by fastforce
  have "max f g \<in> {f..<e} \<inter> {g..<t} \<longleftrightarrow> f < t \<and> g < e" if "f < e" "g < t" using that by auto
  then show "{f..<e} \<inter> {g..<t} \<noteq> {} \<longleftrightarrow> f < t \<and> g < e" if "f < e" "g < t"
    using that by fastforce
qed auto

text \<open>
  On accepted intervals \<open>intervalContains\<close> decides inclusion of the instants:
  the contained fact is effective only when the container is.
\<close>

theorem intervalContains_correct:
  assumes "requireInterval lg a = Inr ()" and "requireInterval lg b = Inr ()"
  shows "intervalContains lg a b \<longleftrightarrow> instants lg b \<subseteq> instants lg a"
  using assms(1)
proof (cases rule: interval_cases)
  case (unbounded f)
  note a = this
  from assms(2) show ?thesis
    by (cases rule: interval_cases) (use a in \<open>auto simp: intervalContains_def half_open_simps\<close>)
next
  case (bounded f e t)
  note a = this
  from assms(2) show ?thesis
    by (cases rule: interval_cases) (use a in \<open>auto simp: intervalContains_def half_open_simps\<close>)
qed

text \<open>And \<open>intervalsOverlap\<close> decides whether there is a common instant.\<close>

theorem intervalsOverlap_correct:
  assumes "requireInterval lg a = Inr ()" and "requireInterval lg b = Inr ()"
  shows "intervalsOverlap lg a b \<longleftrightarrow> instants lg a \<inter> instants lg b \<noteq> {}"
  using assms(1)
proof (cases rule: interval_cases)
  case (unbounded f)
  note a = this
  from assms(2) show ?thesis
    by (cases rule: interval_cases)
      (use a in \<open>simp_all add: intervalsOverlap_def before_end_def half_open_simps\<close>)
next
  case (bounded f e t)
  note a = this
  from assms(2) show ?thesis
    by (cases rule: interval_cases)
      (use a in \<open>auto simp: intervalsOverlap_def before_end_def half_open_simps\<close>)
qed

definition sample_year :: effective_interval where
  "sample_year = \<lparr>iv_from = ''2024-01-01T00:00:00.000Z'',
     iv_to = Some ''2025-01-01T00:00:00.000Z''\<rparr>"

definition sample_open :: effective_interval where
  "sample_open = \<lparr>iv_from = ''2024-06-01T00:00:00.000Z'', iv_to = None\<rparr>"

lemma sample_intervals:
  "requireInterval (\<lambda>_. None) sample_year = Inr ()" "requireInterval (\<lambda>_. None) sample_open = Inr ()"
  by code_simp+

theorem intervalContains_correct_witness:
  "intervalContains (\<lambda>_. None) sample_year sample_open \<longleftrightarrow>
     instants (\<lambda>_. None) sample_open \<subseteq> instants (\<lambda>_. None) sample_year"
  by (rule intervalContains_correct [OF sample_intervals])

theorem intervalsOverlap_correct_witness:
  "intervalsOverlap (\<lambda>_. None) sample_year sample_open \<longleftrightarrow>
     instants (\<lambda>_. None) sample_year \<inter> instants (\<lambda>_. None) sample_open \<noteq> {}"
  by (rule intervalsOverlap_correct [OF sample_intervals])

section \<open>The in-memory store\<close>

datatype close_kind = close_assignment | close_employment | close_organization_unit_placement

datatype org_write =
    CreatePerson workforce_person
  | CreateEmployment employment
  | CreateUnit unit_placement organization_unit
  | CreatePlacement unit_placement
  | CreatePosition org_position
  | CreateAssignment org_assignment
  | CloseFact close_kind string string "string option"

text \<open>\<open>CloseFact kind factId effectiveTo workforcePersonId\<close>\<close>

record org_commit =
  oc_actor :: actor_reference
  oc_auditAction :: string
  oc_eventType :: string
  oc_fingerprint :: string
  oc_operationId :: string
  oc_reason :: string
  oc_traceId :: string
  oc_write :: org_write

record write_target =
  wt_effectiveAt :: string
  wt_entityId :: string
  wt_entityType :: string
  wt_person :: "string option"

definition close_entity :: "close_kind \<Rightarrow> string" where
  "close_entity k = (case k of close_employment \<Rightarrow> ''employment'' | close_assignment \<Rightarrow> ''assignment''
     | close_organization_unit_placement \<Rightarrow> ''organization_unit_placement'')"

fun describeOrganizationWrite :: "org_write \<Rightarrow> write_target" where
  "describeOrganizationWrite (CreatePerson p) = \<lparr>wt_effectiveAt = wp_recordedAt p,
     wt_entityId = wp_id p, wt_entityType = ''workforce_person'', wt_person = Some (wp_id p)\<rparr>"
| "describeOrganizationWrite (CreateEmployment e) = \<lparr>wt_effectiveAt = iv_from e,
     wt_entityId = em_id e, wt_entityType = ''employment'', wt_person = Some (em_person e)\<rparr>"
| "describeOrganizationWrite (CreateUnit pl u) = \<lparr>wt_effectiveAt = iv_from u,
     wt_entityId = ou_id u, wt_entityType = ''organization_unit'', wt_person = None\<rparr>"
| "describeOrganizationWrite (CreatePlacement pl) = \<lparr>wt_effectiveAt = iv_from pl,
     wt_entityId = pl_id pl, wt_entityType = ''organization_unit_placement'', wt_person = None\<rparr>"
| "describeOrganizationWrite (CreatePosition ps) = \<lparr>wt_effectiveAt = iv_from ps,
     wt_entityId = ps_id ps, wt_entityType = ''position'', wt_person = None\<rparr>"
| "describeOrganizationWrite (CreateAssignment a) = \<lparr>wt_effectiveAt = iv_from a,
     wt_entityId = as_id a, wt_entityType = ''assignment'', wt_person = Some (as_person a)\<rparr>"
| "describeOrganizationWrite (CloseFact k i e w) = \<lparr>wt_effectiveAt = e, wt_entityId = i,
     wt_entityType = close_entity k, wt_person = (if truthy w then w else None)\<rparr>"

record org_store =
  os_assignments :: "(string, org_assignment) jsmap"
  os_employments :: "(string, employment) jsmap"
  os_operations :: "(string, string) jsmap"
  os_placements :: "(string, unit_placement) jsmap"
  os_positions :: "(string, org_position) jsmap"
  os_units :: "(string, organization_unit) jsmap"
  os_people :: "(string, workforce_person) jsmap"

definition createMemoryOrganizationStore :: org_store where
  "createMemoryOrganizationStore = \<lparr>os_assignments = [], os_employments = [], os_operations = [],
     os_placements = [], os_positions = [], os_units = [], os_people = []\<rparr>"

definition org_assertAbsent :: "(string, 'v) jsmap \<Rightarrow> string \<Rightarrow> org_failure + unit" where
  "org_assertAbsent m i = ensure (\<not> jm_has m i) (OrganizationError entity_conflict)"

definition org_insert :: "(string, 'v) jsmap \<Rightarrow> string \<Rightarrow> 'v \<Rightarrow> org_failure + (string, 'v) jsmap" where
  "org_insert m i v = bindE (org_assertAbsent m i) (\<lambda>_. Inr (jm_set m i v))"

definition org_close ::
  "engine_dates \<Rightarrow> (string, 'a effective_interval_scheme) jsmap \<Rightarrow> string \<Rightarrow> string
   \<Rightarrow> org_failure + (string, 'a effective_interval_scheme) jsmap" where
  "org_close lg m i e = (case jm_get m i of
     None \<Rightarrow> Inl (OrganizationError entity_not_found)
   | Some current \<Rightarrow>
       if time_le (date_parse lg e) (date_parse lg (iv_from current))
          \<or> truthy (iv_to current) \<and> iv_to current \<noteq> Some e
       then Inl (OrganizationError effective_interval_invalid)
       else Inr (jm_set m i (current\<lparr>iv_to := Some e\<rparr>)))"

fun org_apply :: "engine_dates \<Rightarrow> org_write \<Rightarrow> org_store \<Rightarrow> org_failure + org_store" where
  "org_apply lg (CreatePerson p) s =
     bindE (org_insert (os_people s) (wp_id p) p) (\<lambda>m. Inr (s\<lparr>os_people := m\<rparr>))"
| "org_apply lg (CreateEmployment e) s =
     bindE (org_insert (os_employments s) (em_id e) e) (\<lambda>m. Inr (s\<lparr>os_employments := m\<rparr>))"
| "org_apply lg (CreateUnit pl u) s =
     bindE (org_assertAbsent (os_units s) (ou_id u)) (\<lambda>_.
     bindE (org_assertAbsent (os_placements s) (pl_id pl)) (\<lambda>_.
     bindE (org_insert (os_units s) (ou_id u) u) (\<lambda>us.
     bindE (org_insert (os_placements s) (pl_id pl) pl) (\<lambda>ps.
       Inr (s\<lparr>os_units := us, os_placements := ps\<rparr>)))))"
| "org_apply lg (CreatePlacement pl) s =
     bindE (org_insert (os_placements s) (pl_id pl) pl) (\<lambda>m. Inr (s\<lparr>os_placements := m\<rparr>))"
| "org_apply lg (CreatePosition ps) s =
     bindE (org_insert (os_positions s) (ps_id ps) ps) (\<lambda>m. Inr (s\<lparr>os_positions := m\<rparr>))"
| "org_apply lg (CreateAssignment a) s =
     bindE (org_insert (os_assignments s) (as_id a) a) (\<lambda>m. Inr (s\<lparr>os_assignments := m\<rparr>))"
| "org_apply lg (CloseFact close_assignment i e w) s =
     bindE (org_close lg (os_assignments s) i e) (\<lambda>m. Inr (s\<lparr>os_assignments := m\<rparr>))"
| "org_apply lg (CloseFact close_employment i e w) s =
     bindE (org_close lg (os_employments s) i e) (\<lambda>m. Inr (s\<lparr>os_employments := m\<rparr>))"
| "org_apply lg (CloseFact close_organization_unit_placement i e w) s =
     bindE (org_close lg (os_placements s) i e) (\<lambda>m. Inr (s\<lparr>os_placements := m\<rparr>))"

text \<open>\<open>commit\<close>; the result is \<open>replayed\<close>.\<close>

definition org_store_commit :: "engine_dates \<Rightarrow> org_commit \<Rightarrow> (org_store, org_failure, bool) act" where
  "org_store_commit lg c s = (case jm_get (os_operations s) (oc_operationId c) of
     Some prior \<Rightarrow>
       if prior \<noteq> oc_fingerprint c then (Inl (OrganizationError idempotency_conflict), s)
       else (Inr True, s)
   | None \<Rightarrow>
       (case org_apply lg (oc_write c) s of
          Inl e \<Rightarrow> (Inl e, s)
        | Inr s' \<Rightarrow> (Inr False,
            s'\<lparr>os_operations := jm_set (os_operations s') (oc_operationId c) (oc_fingerprint c)\<rparr>)))"

definition listActiveAssignments :: "engine_dates \<Rightarrow> org_store \<Rightarrow> string \<Rightarrow> string \<Rightarrow> org_assignment list" where
  "listActiveAssignments lg s i instant =
     filter (\<lambda>a. as_person a = i \<and> isActive lg a instant) (jm_values (os_assignments s))"

definition listActiveEmployments :: "engine_dates \<Rightarrow> org_store \<Rightarrow> string \<Rightarrow> string \<Rightarrow> employment list" where
  "listActiveEmployments lg s i instant =
     filter (\<lambda>e. em_person e = i \<and> isActive lg e instant) (jm_values (os_employments s))"

definition listActivePlacements ::
  "engine_dates \<Rightarrow> org_store \<Rightarrow> string \<Rightarrow> string \<Rightarrow> unit_placement list" where
  "listActivePlacements lg s i instant =
     filter (\<lambda>p. pl_unit p = i \<and> isActive lg p instant) (jm_values (os_placements s))"

definition listPlacementChangeTimes ::
  "engine_dates \<Rightarrow> org_store \<Rightarrow> string \<Rightarrow> string option \<Rightarrow> string list" where
  "listPlacementChangeTimes lg s from to =
     sort_by str_lt (js_dedup
       (filter (\<lambda>v. time_lt (date_parse lg from) (date_parse lg v)
                   \<and> before_end lg (date_parse lg v) to)
          (map iv_from (jm_values (os_placements s)))))"

lemma org_apply_operations [simp]: "org_apply lg w s = Inr t \<Longrightarrow> os_operations t = os_operations s"
  by (induction lg w s rule: org_apply.induct) (auto simp: bindE_eq_Inr)

interpretation org_store: idempotent_store
  "org_store_commit lg" oc_operationId oc_fingerprint os_operations
  "OrganizationError idempotency_conflict"
  by unfold_locales
    (auto simp: org_store_commit_def split: option.splits sum.splits if_splits)

text \<open>
  A commit that succeeded is answered as a replay for ever after, whatever is committed in
  between, and a replay changes nothing.
\<close>

theorem org_commit_replays:
  assumes "org_store_commit lg c s = (Inr b, t)"
  shows "org_store_commit lg c (run_all (org_store_commit lg) cs t) =
    (Inr True, run_all (org_store_commit lg) cs t)"
  using assms by (rule org_store.commit_replays_forever)

text \<open>
  And its operation id is never accepted for a command with another fingerprint.
\<close>

theorem org_commit_conflicts:
  assumes "org_store_commit lg c s = (Inr b, t)" and "oc_operationId d = oc_operationId c"
    and "oc_fingerprint d \<noteq> oc_fingerprint c"
  shows "org_store_commit lg d (run_all (org_store_commit lg) cs t) =
    (Inl (OrganizationError idempotency_conflict), run_all (org_store_commit lg) cs t)"
  using assms by (rule org_store.commit_clash_forever)

section \<open>History\<close>

text \<open>A fact as a later state has it: the same but for its end, which is set at most once.\<close>

definition later_fact :: "'a effective_interval_scheme \<Rightarrow> 'a effective_interval_scheme \<Rightarrow> bool" where
  "later_fact f f' \<longleftrightarrow> f' = f \<or> \<not> truthy (iv_to f) \<and> (\<exists>e. f' = f\<lparr>iv_to := Some e\<rparr>)"

definition facts_kept ::
  "('v \<Rightarrow> 'v \<Rightarrow> bool) \<Rightarrow> (string, 'v) jsmap \<Rightarrow> (string, 'v) jsmap \<Rightarrow> bool" where
  "facts_kept R m m' \<longleftrightarrow>
     (\<forall>k. case jm_get m k of None \<Rightarrow> True
        | Some f \<Rightarrow> (case jm_get m' k of None \<Rightarrow> False | Some f' \<Rightarrow> R f f'))"

definition history_kept :: "org_store \<Rightarrow> org_store \<Rightarrow> bool" where
  "history_kept s t \<longleftrightarrow>
     facts_kept later_fact (os_assignments s) (os_assignments t)
     \<and> facts_kept later_fact (os_employments s) (os_employments t)
     \<and> facts_kept later_fact (os_placements s) (os_placements t)
     \<and> facts_kept (=) (os_positions s) (os_positions t)
     \<and> facts_kept (=) (os_units s) (os_units t)
     \<and> facts_kept (=) (os_people s) (os_people t)"

lemma later_fact_refl [simp]: "later_fact f f"
  by (simp add: later_fact_def)

lemma later_fact_trans: "later_fact f g \<Longrightarrow> later_fact g h \<Longrightarrow> later_fact f h"
  by (auto simp: later_fact_def)

lemma facts_kept_refl: "(\<And>f. R f f) \<Longrightarrow> facts_kept R m m"
  by (simp add: facts_kept_def split: option.split)

lemma facts_kept_trans:
  assumes "facts_kept R a b" and "facts_kept R b c" and "\<And>f g h. R f g \<Longrightarrow> R g h \<Longrightarrow> R f h"
  shows "facts_kept R a c"
  unfolding facts_kept_def
proof
  fix k
  have "case jm_get a k of None \<Rightarrow> True
        | Some f \<Rightarrow> (case jm_get b k of None \<Rightarrow> False | Some f' \<Rightarrow> R f f')"
    and "case jm_get b k of None \<Rightarrow> True
        | Some f \<Rightarrow> (case jm_get c k of None \<Rightarrow> False | Some f' \<Rightarrow> R f f')"
    using assms(1,2) by (simp_all only: facts_kept_def)
  then show "case jm_get a k of None \<Rightarrow> True
        | Some f \<Rightarrow> (case jm_get c k of None \<Rightarrow> False | Some f' \<Rightarrow> R f f')"
    using assms(3) by (auto split: option.splits)
qed

lemma history_refl: "history_kept s s"
  by (simp add: history_kept_def facts_kept_refl)

lemma history_trans:
  assumes "history_kept s t" and "history_kept t u"
  shows "history_kept s u"
  using assms unfolding history_kept_def
  by (elim conjE, intro conjI) (erule (1) facts_kept_trans, blast intro: later_fact_trans)+

lemma org_insert_kept: "org_insert m i v = Inr m' \<Longrightarrow> (\<And>f. R f f) \<Longrightarrow> facts_kept R m m'"
  by (auto simp: org_insert_def org_assertAbsent_def bindE_eq_Inr facts_kept_def
      split: option.splits if_splits)

lemma org_close_kept: "org_close lg m i e = Inr m' \<Longrightarrow> facts_kept later_fact m m'"
  by (auto simp: org_close_def facts_kept_def later_fact_def truthy_def
      split: option.splits if_splits)

lemma org_apply_history: "org_apply lg w s = Inr t \<Longrightarrow> history_kept s t"
proof (induction lg w s rule: org_apply.induct)
  case (3 lg pl u s)
  then show ?case
    by (auto simp: bindE_eq_Inr history_kept_def facts_kept_refl intro: org_insert_kept)
qed (auto simp: bindE_eq_Inr history_kept_def facts_kept_refl
    intro: org_insert_kept org_close_kept)

lemma org_commit_history: "history_kept s (snd (org_store_commit lg c s))"
  by (auto simp: org_store_commit_def history_refl split: option.split sum.split
      dest!: org_apply_history) (simp add: history_kept_def)

text \<open>
  History is append-only: whatever is committed, a stored fact stays under its id, unchanged
  but for the end of an assignment, an employment or a placement, and an end once set stays.
\<close>

theorem org_history_kept: "history_kept s (run_all (org_store_commit lg) cs s)"
  by (induction cs arbitrary: s) (auto intro: history_refl history_trans org_commit_history)

subsection \<open>Sample commits\<close>

definition sample_commit :: "string \<Rightarrow> string \<Rightarrow> org_commit" where
  "sample_commit op f = \<lparr>oc_actor = \<lparr>ac_id = ''a'', ac_type = system_actor\<rparr>,
     oc_auditAction = ''workforce_person_created'', oc_eventType = ''e'', oc_fingerprint = f,
     oc_operationId = op, oc_reason = ''r'', oc_traceId = ''t'',
     oc_write = CreatePerson \<lparr>wp_id = ''p'', wp_recordedAt = ''2024-01-01T00:00:00.000Z''\<rparr>\<rparr>"

definition sample_org :: org_store where
  "sample_org = snd (org_store_commit (\<lambda>_. None) (sample_commit ''op'' ''f1'')
     createMemoryOrganizationStore)"

lemma sample_committed:
  "org_store_commit (\<lambda>_. None) (sample_commit ''op'' ''f1'') createMemoryOrganizationStore =
     (Inr False, sample_org)"
  unfolding sample_org_def by code_simp

theorem org_commit_replays_witness:
  "org_store_commit (\<lambda>_. None) (sample_commit ''op'' ''f1'')
     (run_all (org_store_commit (\<lambda>_. None)) [sample_commit ''op2'' ''f2''] sample_org) =
   (Inr True, run_all (org_store_commit (\<lambda>_. None)) [sample_commit ''op2'' ''f2''] sample_org)"
  by (rule org_commit_replays [OF sample_committed])

theorem org_commit_conflicts_witness:
  "org_store_commit (\<lambda>_. None) (sample_commit ''op'' ''f2'')
     (run_all (org_store_commit (\<lambda>_. None)) [] sample_org) =
   (Inl (OrganizationError idempotency_conflict), run_all (org_store_commit (\<lambda>_. None)) [] sample_org)"
  by (rule org_commit_conflicts [OF sample_committed]) (simp_all add: sample_commit_def)

end
