(* ===== verification/OrgService.thy ===== *)
theory OrgService
  imports Organization
begin

text \<open>
  The organization service over the in-memory store
  (\<open>packages/crm-modules/organization/src/service.ts\<close>, composed as in \<open>factory.ts\<close>). Each
  operation is an action on the store, its checks in the order of the code; operations run one after
  the other. SHA-256, the authorizer and the engine's reading of non-ISO dates are parameters; what
  is digested, the JSON text of the request, is modelled.
\<close>

section \<open>The parts every command shares\<close>

record auth_request =
  ar_action :: string
  ar_actor :: actor_reference
  ar_entityId :: string
  ar_entityType :: string
  ar_operationId :: string

text \<open>\<open>oe_authorize\<close> gives the error the authorizer throws, if it throws.\<close>

record org_env =
  oe_dates :: engine_dates
  oe_sha256 :: "string \<Rightarrow> string"
  oe_authorize :: "auth_request \<Rightarrow> string option"

type_synonym 'a org_act = "(org_store, org_failure, 'a) act"

abbreviation org_error :: "org_code \<Rightarrow> org_failure" where
  "org_error \<equiv> OrganizationError"

definition org_metadata :: "command_metadata \<Rightarrow> org_failure + unit" where
  "org_metadata m =
     bindE (requireId (cm_operationId m)) (\<lambda>_.
     bindE (requireText 255 (ac_id (cm_actor m))) (\<lambda>_.
     bindE (requireText 500 (cm_reason m)) (\<lambda>_.
     requireText 128 (cm_traceId m))))"

definition org_intervalEntity ::
  "engine_dates \<Rightarrow> string \<Rightarrow> 'a effective_interval_scheme \<Rightarrow> org_failure + unit" where
  "org_intervalEntity lg i iv = bindE (requireId i) (\<lambda>_. requireInterval lg iv)"

definition org_authorize ::
  "org_env \<Rightarrow> command_metadata \<Rightarrow> string \<Rightarrow> string \<Rightarrow> string \<Rightarrow> org_failure + unit" where
  "org_authorize env m action entityType entityId =
     (case oe_authorize env \<lparr>ar_action = action, ar_actor = cm_actor m, ar_entityId = entityId,
        ar_entityType = entityType, ar_operationId = cm_operationId m\<rparr> of
        None \<Rightarrow> Inr ()
      | Some e \<Rightarrow> Inl (OrgPortError e))"

subsection \<open>The fingerprint\<close>

definition j_interval :: "'a effective_interval_scheme \<Rightarrow> (string \<times> json) list" where
  "j_interval iv = [(''effectiveFrom'', J_str (iv_from iv))] @ j_opt ''effectiveTo'' (iv_to iv)"

definition j_placement :: "unit_placement \<Rightarrow> json" where
  "j_placement p = J_obj (j_interval p @ [(''organizationUnitId'', J_str (pl_unit p))]
     @ j_opt ''parentOrganizationUnitId'' (pl_parent p) @ [(''placementId'', J_str (pl_id p))])"

definition close_name :: "close_kind \<Rightarrow> string" where
  "close_name k = (case k of close_assignment \<Rightarrow> ''close_assignment''
     | close_employment \<Rightarrow> ''close_employment''
     | close_organization_unit_placement \<Rightarrow> ''close_organization_unit_placement'')"

fun j_write :: "org_write \<Rightarrow> json" where
  "j_write (CreatePerson p) = J_obj [(''kind'', J_str ''create_person''), (''person'',
     J_obj [(''recordedAt'', J_str (wp_recordedAt p)), (''workforcePersonId'', J_str (wp_id p))])]"
| "j_write (CreateEmployment e) = J_obj [(''employment'', J_obj (j_interval e
     @ [(''employmentId'', J_str (em_id e)), (''workforcePersonId'', J_str (em_person e))])),
     (''kind'', J_str ''create_employment'')]"
| "j_write (CreateUnit p u) = J_obj [(''kind'', J_str ''create_organization_unit''),
     (''placement'', j_placement p),
     (''unit'', J_obj (j_interval u @ [(''organizationUnitId'', J_str (ou_id u))]))]"
| "j_write (CreatePlacement p) = J_obj [(''kind'', J_str ''create_organization_unit_placement''),
     (''placement'', j_placement p)]"
| "j_write (CreatePosition p) = J_obj [(''kind'', J_str ''create_position''), (''position'',
     J_obj (j_interval p @ [(''organizationUnitId'', J_str (ps_unit p)),
       (''positionId'', J_str (ps_id p))]))]"
| "j_write (CreateAssignment a) = J_obj [(''assignment'', J_obj (j_interval a
     @ [(''assignmentId'', J_str (as_id a)), (''employmentId'', J_str (as_employment a)),
        (''organizationUnitId'', J_str (as_unit a)), (''positionId'', J_str (as_position a)),
        (''workforcePersonId'', J_str (as_person a))])), (''kind'', J_str ''create_assignment'')]"
| "j_write (CloseFact k i e w) = J_obj ([(''effectiveTo'', J_str e), (''factId'', J_str i),
     (''kind'', J_str (close_name k))] @ j_opt ''workforcePersonId'' w)"

definition j_actor :: "actor_reference \<Rightarrow> json" where
  "j_actor a = J_obj [(''actorId'', J_str (ac_id a)), (''actorType'',
     J_str (case ac_type a of authenticated_subject \<Rightarrow> ''authenticated_subject''
       | system_actor \<Rightarrow> ''system''))]"

definition org_commit_of ::
  "org_env \<Rightarrow> command_metadata \<Rightarrow> string \<Rightarrow> string \<Rightarrow> org_write \<Rightarrow> org_commit" where
  "org_commit_of env m auditAction eventType w =
     \<lparr>oc_actor = cm_actor m, oc_auditAction = auditAction, oc_eventType = eventType,
      oc_fingerprint = oe_sha256 env (stringify (J_obj [(''actor'', j_actor (cm_actor m)),
        (''auditAction'', J_str auditAction), (''reason'', J_str (cm_reason m)),
        (''write'', j_write w)])),
      oc_operationId = cm_operationId m, oc_reason = cm_reason m, oc_traceId = cm_traceId m,
      oc_write = w\<rparr>"

definition org_commit_write ::
  "org_env \<Rightarrow> command_metadata \<Rightarrow> string \<Rightarrow> string \<Rightarrow> org_write \<Rightarrow> unit org_act" where
  "org_commit_write env m auditAction eventType w =
     thenA (org_store_commit (oe_dates env) (org_commit_of env m auditAction eventType w)) (retA ())"

subsection \<open>The walk up the hierarchy\<close>

text \<open>
  The \<open>while (current)\<close> loop of \<open>assertNoHierarchyCycleAt\<close> and \<open>assertValidOrganizationPath\<close>:
  it ends, because every turn adds a stored unit to \<open>visited\<close>.
\<close>

definition the_placement ::
  "engine_dates \<Rightarrow> org_store \<Rightarrow> string \<Rightarrow> string \<Rightarrow> org_failure + unit_placement" where
  "the_placement lg s current instant =
     (case jm_get (os_units s) current of
        None \<Rightarrow> Inl (org_error organization_path_invalid)
      | Some u \<Rightarrow>
          if \<not> isActive lg u instant then Inl (org_error organization_path_invalid)
          else (case listActivePlacements lg s current instant of
                  [p] \<Rightarrow> Inr p
                | _ \<Rightarrow> Inl (org_error organization_path_invalid)))"

lemma the_placement_unit:
  "the_placement lg s i instant = Inr p \<Longrightarrow> i \<in> set (map fst (os_units s))"
  by (force simp: the_placement_def jm_get_def split: option.splits dest: map_of_SomeD)

function org_climb ::
  "engine_dates \<Rightarrow> org_store \<Rightarrow> string \<Rightarrow> string list \<Rightarrow> string option \<Rightarrow> org_failure + unit" where
  "org_climb lg s instant visited current =
     (if \<not> truthy current then Inr ()
      else if the current \<in> set visited then Inl (org_error organization_hierarchy_cycle)
      else case the_placement lg s (the current) instant of
        Inl e \<Rightarrow> Inl e
      | Inr p \<Rightarrow> org_climb lg s instant (the current # visited) (pl_parent p))"
  by pat_completeness auto

termination
proof (relation "measure (\<lambda>(lg, s, instant, visited, current).
    card (set (map fst (os_units s)) - set visited))")
  fix lg s instant visited and current :: "string option" and p
  assume "\<not> \<not> truthy current" and new: "the current \<notin> set visited"
    and p: "the_placement lg s (the current) instant = Inr p"
  from the_placement_unit [OF p] new
  have "card (set (map fst (os_units s)) - set (the current # visited))
    < card (set (map fst (os_units s)) - set visited)"
    by (intro psubset_card_mono) auto
  then show "((lg, s, instant, the current # visited, pl_parent p), lg, s, instant, visited, current)
    \<in> measure (\<lambda>(lg, s, instant, visited, current).
        card (set (map fst (os_units s)) - set visited))" by simp
qed simp

declare org_climb.simps [simp del]

definition assertNoHierarchyCycleAt ::
  "engine_dates \<Rightarrow> org_store \<Rightarrow> string \<Rightarrow> string \<Rightarrow> string \<Rightarrow> org_failure + unit" where
  "assertNoHierarchyCycleAt lg s unitId parentId instant =
     org_climb lg s instant [unitId] (Some parentId)"

definition assertValidOrganizationPath ::
  "engine_dates \<Rightarrow> org_store \<Rightarrow> string \<Rightarrow> string \<Rightarrow> org_failure + unit" where
  "assertValidOrganizationPath lg s unitId instant = org_climb lg s instant [] (Some unitId)"

definition assertNoHierarchyCycle ::
  "engine_dates \<Rightarrow> org_store \<Rightarrow> string \<Rightarrow> string \<Rightarrow> 'a effective_interval_scheme
   \<Rightarrow> org_failure + unit" where
  "assertNoHierarchyCycle lg s unitId parentId iv =
     thenE (mapE (assertNoHierarchyCycleAt lg s unitId parentId)
              (iv_from iv # listPlacementChangeTimes lg s (iv_from iv) (iv_to iv)))
       (Inr ())"

section \<open>The operations\<close>

text \<open>
  A command is its metadata with the fact it carries (\<open>#withoutMetadata\<close> drops the metadata).
\<close>

definition createWorkforcePerson ::
  "org_env \<Rightarrow> command_metadata \<Rightarrow> workforce_person \<Rightarrow> unit org_act" where
  "createWorkforcePerson env m p =
     thenA (liftA (org_metadata m))
     (thenA (liftA (requireId (wp_id p)))
     (thenA (liftA (requireTimestamp (oe_dates env) (wp_recordedAt p)))
     (thenA (liftA (org_authorize env m ''workforce_person_created'' ''workforce_person'' (wp_id p)))
     (org_commit_write env m ''workforce_person_created'' ''organization.workforce_person.created.v1''
       (CreatePerson p)))))"

definition createEmployment :: "org_env \<Rightarrow> command_metadata \<Rightarrow> employment \<Rightarrow> unit org_act" where
  "createEmployment env m e =
     thenA (liftA (org_metadata m))
     (thenA (liftA (org_intervalEntity (oe_dates env) (em_id e) e))
     (thenA (liftA (requireId (em_person e)))
     (thenA (liftA (org_authorize env m ''employment_created'' ''employment'' (em_id e)))
     (bindA (getsA (\<lambda>s. jm_get (os_people s) (em_person e))) (\<lambda>person.
      thenA (ensureA (person \<noteq> None) (org_error entity_not_found))
     (org_commit_write env m ''employment_created'' ''organization.employment.created.v1''
       (CreateEmployment e)))))))"

text \<open>The parent of a new placement: it exists, covers the interval, and closes no cycle.\<close>

definition org_check_parent :: "org_env \<Rightarrow> unit_placement \<Rightarrow> unit org_act" where
  "org_check_parent env pl =
     (if \<not> truthy (pl_parent pl) then retA ()
      else
        thenA (liftA (requireId (the (pl_parent pl))))
        (bindA (getsA (\<lambda>s. jm_get (os_units s) (the (pl_parent pl)))) (\<lambda>parent.
         bindA (requireA parent (org_error entity_not_found)) (\<lambda>parent.
         thenA (ensureA (intervalContains (oe_dates env) parent pl)
                 (org_error effective_interval_invalid))
         (\<lambda>s. (assertNoHierarchyCycle (oe_dates env) s (pl_unit pl) (the (pl_parent pl)) pl, s))))))"

definition createOrganizationUnit ::
  "org_env \<Rightarrow> command_metadata \<Rightarrow> unit_placement \<Rightarrow> unit org_act" where
  "createOrganizationUnit env m pl =
     thenA (liftA (org_metadata m))
     (thenA (liftA (org_intervalEntity (oe_dates env) (pl_unit pl) pl))
     (thenA (liftA (requireId (pl_id pl)))
     (thenA (liftA (org_authorize env m ''organization_unit_created'' ''organization_unit''
               (pl_unit pl)))
     (thenA (org_check_parent env pl)
     (org_commit_write env m ''organization_unit_created'' ''organization.unit.created.v1''
       (CreateUnit pl \<lparr>iv_from = iv_from pl,
          iv_to = (if truthy (iv_to pl) then iv_to pl else None), ou_id = pl_unit pl\<rparr>))))))"

definition createPosition :: "org_env \<Rightarrow> command_metadata \<Rightarrow> org_position \<Rightarrow> unit org_act" where
  "createPosition env m p =
     thenA (liftA (org_metadata m))
     (thenA (liftA (org_intervalEntity (oe_dates env) (ps_id p) p))
     (thenA (liftA (requireId (ps_unit p)))
     (thenA (liftA (org_authorize env m ''position_created'' ''position'' (ps_id p)))
     (bindA (getsA (\<lambda>s. jm_get (os_units s) (ps_unit p))) (\<lambda>u.
      bindA (requireA u (org_error entity_not_found)) (\<lambda>u.
      thenA (ensureA (intervalContains (oe_dates env) u p) (org_error effective_interval_invalid))
     (org_commit_write env m ''position_created'' ''organization.position.created.v1''
       (CreatePosition p))))))))"

definition createOrganizationUnitPlacement ::
  "org_env \<Rightarrow> command_metadata \<Rightarrow> unit_placement \<Rightarrow> unit org_act" where
  "createOrganizationUnitPlacement env m pl =
     thenA (liftA (org_metadata m))
     (thenA (liftA (org_intervalEntity (oe_dates env) (pl_id pl) pl))
     (thenA (liftA (requireId (pl_unit pl)))
     (thenA (liftA (org_authorize env m ''organization_unit_placement_created''
               ''organization_unit_placement'' (pl_id pl)))
     (bindA (getsA (\<lambda>s. jm_get (os_units s) (pl_unit pl))) (\<lambda>u.
      bindA (requireA u (org_error entity_not_found)) (\<lambda>u.
      thenA (ensureA (intervalContains (oe_dates env) u pl) (org_error effective_interval_invalid))
      (thenA (org_check_parent env pl)
     (org_commit_write env m ''organization_unit_placement_created''
       ''organization.unit_placement.created.v1'' (CreatePlacement pl)))))))))"

definition createAssignment :: "org_env \<Rightarrow> command_metadata \<Rightarrow> org_assignment \<Rightarrow> unit org_act" where
  "createAssignment env m a =
     thenA (liftA (org_metadata m))
     (thenA (liftA (org_intervalEntity (oe_dates env) (as_id a) a))
     (thenA (liftA (mapE requireId [as_person a, as_employment a, as_unit a, as_position a]))
     (thenA (liftA (org_authorize env m ''assignment_created'' ''assignment'' (as_id a)))
     (bindA (getsA (\<lambda>s. (jm_get (os_employments s) (as_employment a),
                       jm_get (os_units s) (as_unit a), jm_get (os_positions s) (as_position a))))
       (\<lambda>(e, u, p).
      thenA (ensureA (\<not> (e = None \<or> em_person (the e) \<noteq> as_person a \<or> u = None \<or> p = None
                         \<or> ps_unit (the p) \<noteq> as_unit a)) (org_error entity_not_found))
      (thenA (ensureA (intervalContains (oe_dates env) (the e) a
                      \<and> intervalContains (oe_dates env) (the u) a
                      \<and> intervalContains (oe_dates env) (the p) a)
                (org_error effective_interval_invalid))
     (org_commit_write env m ''assignment_created'' ''organization.assignment.created.v1''
       (CreateAssignment a))))))))"

text \<open>
  The fact to close, as the store has it: its interval and its \<open>workforcePersonId\<close>, which a
  placement does not have.
\<close>

definition org_find_fact ::
  "close_kind \<Rightarrow> string \<Rightarrow> org_store \<Rightarrow> (effective_interval \<times> string option) option" where
  "org_find_fact k i s =
     (case k of
        close_assignment \<Rightarrow> map_option (\<lambda>a. (effective_interval.truncate a, Some (as_person a)))
          (jm_get (os_assignments s) i)
      | close_employment \<Rightarrow> map_option (\<lambda>e. (effective_interval.truncate e, Some (em_person e)))
          (jm_get (os_employments s) i)
      | close_organization_unit_placement \<Rightarrow>
          map_option (\<lambda>p. (effective_interval.truncate p, None)) (jm_get (os_placements s) i))"

definition org_close_fact ::
  "org_env \<Rightarrow> close_kind \<Rightarrow> string \<Rightarrow> string \<Rightarrow> command_metadata \<Rightarrow> string \<Rightarrow> string \<Rightarrow> unit org_act"
where
  "org_close_fact env k auditAction eventType m factId effectiveTo =
     thenA (liftA (org_metadata m))
     (thenA (liftA (requireId factId))
     (thenA (liftA (requireTimestamp (oe_dates env) effectiveTo))
     (thenA (liftA (org_authorize env m auditAction (close_entity k) factId))
     (bindA (getsA (org_find_fact k factId)) (\<lambda>fact.
      bindA (requireA fact (org_error entity_not_found)) (\<lambda>(iv, person).
      thenA (ensureA (\<not> (time_le (date_parse (oe_dates env) effectiveTo)
                                (date_parse (oe_dates env) (iv_from iv))
                         \<or> iv_to iv \<noteq> None \<and> iv_to iv \<noteq> Some effectiveTo))
               (org_error effective_interval_invalid))
     (org_commit_write env m auditAction eventType
       (CloseFact k factId effectiveTo (if truthy person then person else None)))))))))"

definition closeAssignment :: "org_env \<Rightarrow> command_metadata \<Rightarrow> string \<Rightarrow> string \<Rightarrow> unit org_act" where
  "closeAssignment env =
     org_close_fact env close_assignment ''assignment_closed'' ''organization.assignment.closed.v1''"

definition closeEmployment :: "org_env \<Rightarrow> command_metadata \<Rightarrow> string \<Rightarrow> string \<Rightarrow> unit org_act" where
  "closeEmployment env =
     org_close_fact env close_employment ''employment_closed'' ''organization.employment.closed.v1''"

definition closeOrganizationUnitPlacement ::
  "org_env \<Rightarrow> command_metadata \<Rightarrow> string \<Rightarrow> string \<Rightarrow> unit org_act" where
  "closeOrganizationUnitPlacement env =
     org_close_fact env close_organization_unit_placement ''organization_unit_placement_closed''
       ''organization.unit_placement.closed.v1''"

subsection \<open>Resolving a person's context\<close>

record assignment_reference =
  rf_assignment :: string
  rf_employment :: string
  rf_unit :: string
  rf_position :: string

record person_context =
  pc_assignments :: "assignment_reference list"
  pc_employmentIds :: "string list"
  pc_resolvedAt :: string
  pc_person :: string

definition assignmentReference :: "org_assignment \<Rightarrow> assignment_reference" where
  "assignmentReference a = \<lparr>rf_assignment = as_id a, rf_employment = as_employment a,
     rf_unit = as_unit a, rf_position = as_position a\<rparr>"

definition org_check_assignment ::
  "engine_dates \<Rightarrow> org_store \<Rightarrow> string \<Rightarrow> org_assignment \<Rightarrow> org_failure + unit" where
  "org_check_assignment lg s instant a =
     (case (jm_get (os_units s) (as_unit a), jm_get (os_positions s) (as_position a)) of
        (Some u, Some p) \<Rightarrow>
          if ps_unit p \<noteq> as_unit a \<or> \<not> isActive lg u instant \<or> \<not> isActive lg p instant
          then Inl (org_error organization_path_invalid)
          else assertValidOrganizationPath lg s (as_unit a) instant
      | _ \<Rightarrow> Inl (org_error organization_path_invalid))"

text \<open>The \<open>if (assignmentId)\<close> block.\<close>

definition org_choose ::
  "string option \<Rightarrow> org_assignment list \<Rightarrow> org_failure + org_assignment list" where
  "org_choose assignmentId as =
     (if truthy assignmentId
      then bindE (requireId (the assignmentId)) (\<lambda>_.
        let as' = filter (\<lambda>a. as_id a = the assignmentId) as in
        if length as' \<noteq> 1 then Inl (org_error assignment_not_active) else Inr as')
      else Inr as)"

definition resolveWorkforcePersonContext ::
  "org_env \<Rightarrow> string \<Rightarrow> string \<Rightarrow> string option \<Rightarrow> org_store \<Rightarrow> org_failure + person_context" where
  "resolveWorkforcePersonContext env person instant assignmentId s =
     (let lg = oe_dates env; es = listActiveEmployments lg s person instant in
      bindE (requireId person) (\<lambda>_.
      bindE (requireTimestamp lg instant) (\<lambda>_.
      bindE (ensure (es \<noteq> []) (org_error employment_not_active)) (\<lambda>_.
        let ids = js_dedup (map em_id es);
            as = filter (\<lambda>a. as_employment a \<in> set ids) (listActiveAssignments lg s person instant)
        in bindE (org_choose assignmentId as) (\<lambda>as.
           bindE (mapE (org_check_assignment lg s instant) as) (\<lambda>_.
           Inr \<lparr>pc_assignments = map assignmentReference as, pc_employmentIds = sort_by str_lt ids,
                pc_resolvedAt = instant, pc_person = person\<rparr>))))))"

section \<open>The service as a machine\<close>

datatype org_command =
    Do_createWorkforcePerson command_metadata workforce_person
  | Do_createEmployment command_metadata employment
  | Do_createOrganizationUnit command_metadata unit_placement
  | Do_createPosition command_metadata org_position
  | Do_createOrganizationUnitPlacement command_metadata unit_placement
  | Do_createAssignment command_metadata org_assignment
  | Do_closeAssignment command_metadata string string
  | Do_closeEmployment command_metadata string string
  | Do_closeOrganizationUnitPlacement command_metadata string string

fun org_exec :: "org_env \<Rightarrow> org_command \<Rightarrow> unit org_act" where
  "org_exec env (Do_createWorkforcePerson m p) = createWorkforcePerson env m p"
| "org_exec env (Do_createEmployment m e) = createEmployment env m e"
| "org_exec env (Do_createOrganizationUnit m p) = createOrganizationUnit env m p"
| "org_exec env (Do_createPosition m p) = createPosition env m p"
| "org_exec env (Do_createOrganizationUnitPlacement m p) = createOrganizationUnitPlacement env m p"
| "org_exec env (Do_createAssignment m a) = createAssignment env m a"
| "org_exec env (Do_closeAssignment m i e) = closeAssignment env m i e"
| "org_exec env (Do_closeEmployment m i e) = closeEmployment env m i e"
| "org_exec env (Do_closeOrganizationUnitPlacement m i e) = closeOrganizationUnitPlacement env m i e"

end
