(* ===== verification/OrgHierarchy.thy ===== *)
theory OrgHierarchy
  imports OrgService
begin

text \<open>
  Correctness of the organization service: at every instant the placements of the units form a
  hierarchy without cycles, whatever commands are given; and what a resolved person context
  guarantees. The service checks the hierarchy only at the start of the new placement and at the
  starts of other placements inside its interval: between those instants placements only end.
\<close>

section \<open>The hierarchy\<close>

definition org_edges :: "engine_dates \<Rightarrow> org_store \<Rightarrow> int \<Rightarrow> (string \<times> string) set" where
  "org_edges lg s t = {(u, v). \<exists>p \<in> set (jm_values (os_placements s)).
     pl_unit p = u \<and> pl_parent p = Some v \<and> v \<noteq> [] \<and> t \<in> instants lg p}"

definition org_inv :: "engine_dates \<Rightarrow> org_store \<Rightarrow> bool" where
  "org_inv lg s \<longleftrightarrow>
     jm_ok (os_placements s)
     \<and> (\<forall>p \<in> set (jm_values (os_placements s)). requireInterval lg p = Inr ())
     \<and> (\<forall>t. acyclic (org_edges lg s t))"

lemma the_placement_unique:
  assumes "the_placement lg s c instant = Inr p" and "date_parse lg instant = Some t"
    and "(c, d) \<in> org_edges lg s t"
  shows "pl_parent p = Some d \<and> d \<noteq> []"
proof -
  from assms(1) have l: "listActivePlacements lg s c instant = [p]"
    by (auto simp: the_placement_def split: option.splits if_splits list.splits)
  from assms(3) obtain q where q: "q \<in> set (jm_values (os_placements s))" "pl_unit q = c"
    "pl_parent q = Some d" "d \<noteq> []" "t \<in> instants lg q"
    by (auto simp: org_edges_def)
  with assms(2) have "q \<in> set (listActivePlacements lg s c instant)"
    by (auto simp: listActivePlacements_def isActive_instants)
  with l q show ?thesis by simp
qed

text \<open>A walk that reached the top met none of the visited units, and is the only way up.\<close>

lemma org_climb_ok:
  assumes "org_climb lg s instant visited current = Inr ()" and "date_parse lg instant = Some t"
    and "current = Some c" and "c \<noteq> []" and "(c, w) \<in> (org_edges lg s t)\<^sup>*"
  shows "w \<notin> set visited"
  using assms
proof (induction lg s instant visited current arbitrary: c rule: org_climb.induct)
  case (1 lg s instant visited current)
  then have step: "org_climb lg s instant visited (Some c) = Inr ()" by simp
  then have new: "c \<notin> set visited"
    and ok: "\<exists>p. the_placement lg s c instant = Inr p
      \<and> org_climb lg s instant (c # visited) (pl_parent p) = Inr ()"
    using \<open>c \<noteq> []\<close> by (auto simp: org_climb.simps [of _ _ _ _ "Some c"] split: if_splits sum.splits)
  from ok obtain p where p: "the_placement lg s c instant = Inr p"
    "org_climb lg s instant (c # visited) (pl_parent p) = Inr ()" by blast
  from 1(6) show ?case
  proof (cases rule: converse_rtranclE)
    case base
    with new show ?thesis by simp
  next
    case (step d)
    from the_placement_unique [OF p(1) 1(3) step(1)] have d: "pl_parent p = Some d" "d \<noteq> []"
      by simp_all
    have "w \<notin> set (c # visited)"
      using 1(1) [of p d] 1(3-5) new p d step(2) by simp
    then show ?thesis by simp
  qed
qed

text \<open>
  Every instant of an interval is represented by a checked one: the last start of a placement
  before it, or the start of the interval.
\<close>

lemma change_time_covers:
  assumes inv: "\<forall>p \<in> set (jm_values (os_placements s)). requireInterval lg p = Inr ()"
    and pl: "requireInterval lg pl = Inr ()" and t: "t \<in> instants lg pl"
  obtains instant c where
    "instant \<in> set (iv_from pl # listPlacementChangeTimes lg s (iv_from pl) (iv_to pl))"
    "date_parse lg instant = Some c" "org_edges lg s t \<subseteq> org_edges lg s c"
proof -
  let ?ps = "set (jm_values (os_placements s))"
  from pl obtain f where f: "date_parse lg (iv_from pl) = Some f" and ft: "f \<le> t"
    and to: "\<And>x. x \<le> t \<Longrightarrow> before_end lg (Some x) (iv_to pl)"
    using t by (cases rule: interval_cases) (fastforce simp: before_end_def)+
  define S where "S = insert f {x. f < x \<and> x \<le> t \<and> (\<exists>p \<in> ?ps. date_parse lg (iv_from p) = Some x)}"
  have "finite S" unfolding S_def
    by (rule finite.insertI) (rule finite_subset [of _ "{f..t}"], auto)
  moreover have "S \<noteq> {}" by (simp add: S_def)
  ultimately have c: "Max S \<in> S" and max: "\<And>x. x \<in> S \<Longrightarrow> x \<le> Max S" by simp_all
  have ct: "Max S \<le> t" using c ft by (auto simp: S_def)
  have "org_edges lg s t \<subseteq> org_edges lg s (Max S)"
  proof -
    have "Max S \<in> instants lg p" if p: "p \<in> ?ps" "t \<in> instants lg p" for p
    proof -
      from inv p(1) have "requireInterval lg p = Inr ()" by blast
      then show ?thesis
      proof (cases rule: interval_cases)
        case (unbounded x)
        with p max [of x] max [of f] show ?thesis by (cases "x \<le> f") (auto simp: S_def)
      next
        case (bounded x e y)
        with p max [of x] max [of f] ct show ?thesis
          by (cases "x \<le> f") (auto simp: S_def)
      qed
    qed
    then show ?thesis by (auto simp: org_edges_def)
  qed
  moreover from c obtain instant where
    "instant \<in> set (iv_from pl # listPlacementChangeTimes lg s (iv_from pl) (iv_to pl))"
    "date_parse lg instant = Some (Max S)"
  proof (cases "Max S = f")
    case False
    with c obtain p where "p \<in> ?ps" "date_parse lg (iv_from p) = Some (Max S)" "f < Max S"
      by (auto simp: S_def)
    with f to [OF ct] that [of "iv_from p"] show ?thesis
      by (auto simp: listPlacementChangeTimes_def)
  qed (use f that [of "iv_from pl"] in auto)
  ultimately show ?thesis using that by blast
qed

lemma checked_edge_acyclic:
  assumes inv: "org_inv lg s" and pl: "requireInterval lg pl = Inr ()"
    and v: "v \<noteq> []" and t: "t \<in> instants lg pl"
    and check: "assertNoHierarchyCycle lg s u v pl = Inr ()"
  shows "acyclic (insert (u, v) (org_edges lg s t))"
proof -
  from inv have "\<forall>p \<in> set (jm_values (os_placements s)). requireInterval lg p = Inr ()"
    by (simp add: org_inv_def)
  from change_time_covers [OF this pl t] obtain instant c where
    i: "instant \<in> set (iv_from pl # listPlacementChangeTimes lg s (iv_from pl) (iv_to pl))"
    and c: "date_parse lg instant = Some c" and sub: "org_edges lg s t \<subseteq> org_edges lg s c" .
  from check obtain us where
    "mapE (assertNoHierarchyCycleAt lg s u v)
       (iv_from pl # listPlacementChangeTimes lg s (iv_from pl) (iv_to pl)) = Inr us"
    by (auto simp: assertNoHierarchyCycle_def bindE_eq_Inr)
  from mapE_ok [OF this i] have "org_climb lg s instant [u] (Some v) = Inr ()"
    by (simp add: assertNoHierarchyCycleAt_def)
  from org_climb_ok [OF this c refl v] have "(v, u) \<notin> (org_edges lg s c)\<^sup>*" by auto
  with rtrancl_mono [OF sub] have "(v, u) \<notin> (org_edges lg s t)\<^sup>*" by blast
  with inv show ?thesis by (simp add: acyclic_insert org_inv_def)
qed

section \<open>Every operation keeps the invariant\<close>

lemmas org_after =
  after_lift [where P = "org_inv lg" for lg] after_ensure [where P = "org_inv lg" for lg]
  after_gets [where P = "org_inv lg" for lg] after_require [where P = "org_inv lg" for lg]

lemma org_inv_same: "os_placements t = os_placements s \<Longrightarrow> org_inv lg t = org_inv lg s"
  by (simp add: org_inv_def org_edges_def)

text \<open>A commit is a replay, a failure, or its write with a log entry.\<close>

lemma after_commit:
  assumes "P s" and "\<And>s' m. org_apply (oe_dates env) w s = Inr s' \<Longrightarrow> P (s'\<lparr>os_operations := m\<rparr>)"
  shows "P (snd (org_commit_write env m a e w s))"
  unfolding org_commit_write_def
  by (rule after_ret) (use assms in \<open>auto simp: org_store_commit_def org_commit_of_def
      split: option.split sum.split\<close>)

lemma other_write_keeps:
  assumes "org_inv (oe_dates env) s" and "\<And>s'. org_apply (oe_dates env) w s = Inr s' \<Longrightarrow>
    os_placements s' = os_placements s"
  shows "org_inv (oe_dates env) (snd (org_commit_write env m a e w s))"
proof (rule after_commit)
  fix s' l
  assume "org_apply (oe_dates env) w s = Inr s'"
  with assms show "org_inv (oe_dates env) (s'\<lparr>os_operations := l\<rparr>)"
    using org_inv_same [of "s'\<lparr>os_operations := l\<rparr>" s] by simp
qed (rule assms(1))

lemma new_edges:
  assumes "jm_values (os_placements s') = jm_values (os_placements s) @ [pl]"
  shows "org_edges lg s' t =
    (if truthy (pl_parent pl) \<and> t \<in> instants lg pl
     then insert (pl_unit pl, the (pl_parent pl)) (org_edges lg s t) else org_edges lg s t)"
  using assms by (cases "pl_parent pl") (auto simp: org_edges_def)

lemma new_placement_inv:
  assumes inv: "org_inv lg s" and pl: "requireInterval lg pl = Inr ()"
    and new: "jm_get (os_placements s) (pl_id pl) = None"
    and s': "os_placements s' = jm_set (os_placements s) (pl_id pl) pl"
    and check: "truthy (pl_parent pl) \<Longrightarrow>
      assertNoHierarchyCycle lg s (pl_unit pl) (the (pl_parent pl)) pl = Inr ()"
  shows "org_inv lg s'"
proof -
  have vals: "jm_values (os_placements s') = jm_values (os_placements s) @ [pl]"
    using jm_values_set_new [OF new] s' by simp
  have "acyclic (org_edges lg s' t)" for t
  proof (cases "truthy (pl_parent pl) \<and> t \<in> instants lg pl")
    case True
    then have "the (pl_parent pl) \<noteq> []" by (cases "pl_parent pl") auto
    from checked_edge_acyclic [OF inv pl this] True check show ?thesis
      by (simp add: new_edges [OF vals])
  qed (use inv in \<open>auto simp: new_edges [OF vals] org_inv_def\<close>)
  with inv pl vals s' show ?thesis by (auto simp: org_inv_def)
qed

lemma closed_interval:
  assumes p: "requireInterval lg p = Inr ()" and e: "canonical_time lg e = Some t"
    and lt: "\<not> time_le (date_parse lg e) (date_parse lg (iv_from p))"
    and to: "truthy (iv_to p) \<longrightarrow> iv_to p = Some e"
  shows "requireInterval lg (p\<lparr>iv_to := Some e\<rparr>) = Inr ()
    \<and> instants lg (p\<lparr>iv_to := Some e\<rparr>) \<subseteq> instants lg p"
  using p
proof (cases rule: interval_cases)
  case (unbounded f)
  from p obtain c where c: "canonical_time lg (iv_from p) = Some c"
    by (auto simp: requireInterval_Inr)
  with canonical_time_parse [OF c] unbounded have "canonical_time lg (iv_from p) = Some f" by simp
  with unbounded e lt canonical_time_parse [OF e] show ?thesis
    by (auto simp: requireInterval_Inr instants_def)
next
  case (bounded f e' t')
  with to have "iv_to p = Some e" by simp
  then have "p\<lparr>iv_to := Some e\<rparr> = p" by (cases p) simp
  with p show ?thesis by simp
qed

lemma close_placement_inv:
  assumes inv: "org_inv lg s" and e: "requireTimestamp lg e = Inr t"
    and ok: "org_close lg (os_placements s) i e = Inr m"
  shows "org_inv lg (s\<lparr>os_placements := m\<rparr>)"
proof -
  from ok obtain p where p: "jm_get (os_placements s) i = Some p"
    and lt: "\<not> time_le (date_parse lg e) (date_parse lg (iv_from p))"
    and to: "truthy (iv_to p) \<longrightarrow> iv_to p = Some e"
    and m: "m = jm_set (os_placements s) i (p\<lparr>iv_to := Some e\<rparr>)"
    by (auto simp: org_close_def split: option.splits if_splits)
  let ?q = "p\<lparr>iv_to := Some e\<rparr>"
  from p inv have "requireInterval lg p = Inr ()"
    by (auto simp: org_inv_def dest: jm_get_in_values)
  from closed_interval [OF this e [unfolded requireTimestamp_Inr] lt to]
  have q: "requireInterval lg ?q = Inr ()" and sub: "instants lg ?q \<subseteq> instants lg p" by simp_all
  have vals: "set (jm_values m) \<subseteq> insert ?q (set (jm_values (os_placements s)))"
    unfolding m by (rule jm_values_set_sub)
  have "org_edges lg (s\<lparr>os_placements := m\<rparr>) x \<subseteq> org_edges lg s x" for x
    using vals sub jm_get_in_values [OF p] by (fastforce simp: org_edges_def)
  then have "acyclic (org_edges lg (s\<lparr>os_placements := m\<rparr>) x)" for x
    using inv by (meson org_inv_def acyclic_subset)
  with vals q inv m show ?thesis by (auto simp: org_inv_def)
qed

lemma reads_check_parent [simp]: "reads (org_check_parent env pl)"
  by (auto simp: org_check_parent_def intro!: reads_bind)

lemma check_parent_ok:
  "org_check_parent env pl s = (Inr u, s) \<Longrightarrow> truthy (pl_parent pl) \<Longrightarrow>
   assertNoHierarchyCycle (oe_dates env) s (pl_unit pl) (the (pl_parent pl)) pl = Inr ()"
  by (auto simp: org_check_parent_def bindA_eq_Inr)

lemma org_close_keeps:
  assumes "org_inv (oe_dates env) s"
  shows "org_inv (oe_dates env) (snd (org_close_fact env k a e m i to s))"
  unfolding org_close_fact_def
proof (intro org_after assms, clarify)
  fix u t v iv person and fact
  assume t: "requireTimestamp (oe_dates env) to = Inr t"
  show "org_inv (oe_dates env) (snd (thenA (ensureA (\<not> (time_le (date_parse (oe_dates env) to)
      (date_parse (oe_dates env) (iv_from iv)) \<or> iv_to iv \<noteq> None \<and> iv_to iv \<noteq> Some to))
      (org_error effective_interval_invalid))
      (org_commit_write env m a e (CloseFact k i to (if truthy person then person else None))) s))"
  proof (intro org_after assms after_commit [where P = "org_inv lg" for lg])
    fix s' l
    assume "org_apply (oe_dates env) (CloseFact k i to (if truthy person then person else None)) s = Inr s'"
    then show "org_inv (oe_dates env) (s'\<lparr>os_operations := l\<rparr>)"
      using assms close_placement_inv [OF assms t, of i]
        org_inv_same [of "s'\<lparr>os_operations := l\<rparr>" s'] org_inv_same [of s' s]
      by (cases k) (auto simp: bindE_eq_Inr)
  qed
qed

lemmas org_after_reads = after_reads [OF reads_check_parent, where P = "org_inv lg" for lg]
lemmas org_after_commit = after_commit [where P = "org_inv lg" for lg]

lemma intervalEntity_interval: "org_intervalEntity lg i iv = Inr u \<Longrightarrow> requireInterval lg iv = Inr ()"
  by (simp add: org_intervalEntity_def bindE_eq_Inr)

lemma createOrganizationUnit_keeps:
  assumes inv: "org_inv (oe_dates env) s"
  shows "org_inv (oe_dates env) (snd (createOrganizationUnit env m pl s))"
  unfolding createOrganizationUnit_def
proof (intro org_after org_after_reads org_after_commit inv)
  fix u1 u2 s' and l u and x :: unit
  assume i: "org_intervalEntity (oe_dates env) (pl_unit pl) pl = Inr u1"
    and c: "org_check_parent env pl s = (Inr x, s)"
    and a: "org_apply (oe_dates env) (CreateUnit pl u) s = Inr s'"
  from a have "jm_get (os_placements s) (pl_id pl) = None"
    and "os_placements s' = jm_set (os_placements s) (pl_id pl) pl"
    by (auto simp: bindE_eq_Inr org_assertAbsent_def org_insert_def)
  from new_placement_inv [OF inv intervalEntity_interval [OF i] this] check_parent_ok [OF c]
  have "org_inv (oe_dates env) s'" by blast
  then show "org_inv (oe_dates env) (s'\<lparr>os_operations := l\<rparr>)"
    using org_inv_same [of "s'\<lparr>os_operations := l\<rparr>" s'] by simp
qed

lemma createPlacement_keeps:
  assumes inv: "org_inv (oe_dates env) s"
  shows "org_inv (oe_dates env) (snd (createOrganizationUnitPlacement env m pl s))"
  unfolding createOrganizationUnitPlacement_def
proof (intro org_after org_after_reads org_after_commit inv)
  fix u1 s' and l and x :: unit
  assume i: "org_intervalEntity (oe_dates env) (pl_id pl) pl = Inr u1"
    and c: "org_check_parent env pl s = (Inr x, s)"
    and a: "org_apply (oe_dates env) (CreatePlacement pl) s = Inr s'"
  from a have "jm_get (os_placements s) (pl_id pl) = None"
    and "os_placements s' = jm_set (os_placements s) (pl_id pl) pl"
    by (auto simp: bindE_eq_Inr org_assertAbsent_def org_insert_def)
  from new_placement_inv [OF inv intervalEntity_interval [OF i] this] check_parent_ok [OF c]
  have "org_inv (oe_dates env) s'" by blast
  then show "org_inv (oe_dates env) (s'\<lparr>os_operations := l\<rparr>)"
    using org_inv_same [of "s'\<lparr>os_operations := l\<rparr>" s'] by simp
qed

lemma createAssignment_keeps:
  assumes inv: "org_inv (oe_dates env) s"
  shows "org_inv (oe_dates env) (snd (createAssignment env m a s))"
  unfolding createAssignment_def
  by (intro org_after inv, simp only: prod.case split: prod.split)
    (intro allI impI org_after other_write_keeps inv, auto simp: bindE_eq_Inr)

lemma org_exec_keeps:
  assumes inv: "org_inv (oe_dates env) s"
  shows "org_inv (oe_dates env) (snd (org_exec env c s))"
proof (cases c)
  case (Do_createWorkforcePerson m p)
  then show ?thesis unfolding Do_createWorkforcePerson org_exec.simps createWorkforcePerson_def
    by (intro org_after other_write_keeps inv) (auto simp: bindE_eq_Inr)
next
  case (Do_createEmployment m e)
  then show ?thesis unfolding Do_createEmployment org_exec.simps createEmployment_def
    by (intro org_after other_write_keeps inv) (auto simp: bindE_eq_Inr)
next
  case (Do_createPosition m p)
  then show ?thesis unfolding Do_createPosition org_exec.simps createPosition_def
    by (intro org_after other_write_keeps inv) (auto simp: bindE_eq_Inr)
qed (simp_all add: inv createOrganizationUnit_keeps createPlacement_keeps createAssignment_keeps
    org_close_keeps closeAssignment_def closeEmployment_def closeOrganizationUnitPlacement_def)

interpretation org_service: guarded_machine "org_exec env" "org_inv (oe_dates env)"
  by unfold_locales (rule org_exec_keeps)

lemma org_inv_start: "org_inv lg createMemoryOrganizationStore"
  by (simp add: org_inv_def org_edges_def createMemoryOrganizationStore_def jm_values_def acyclic_def)


section \<open>Resolved contexts\<close>

lemma org_check_assignment_Inr:
  "org_check_assignment lg s instant a = Inr () \<longleftrightarrow>
     (\<exists>u p. jm_get (os_units s) (as_unit a) = Some u \<and> jm_get (os_positions s) (as_position a) = Some p
       \<and> ps_unit p = as_unit a \<and> isActive lg u instant \<and> isActive lg p instant
       \<and> assertValidOrganizationPath lg s (as_unit a) instant = Inr ())"
  by (auto simp: org_check_assignment_def split: option.splits)

lemma org_choose_sub: "org_choose i as = Inr as' \<Longrightarrow> set as' \<subseteq> set as"
  by (auto simp: org_choose_def bindE_eq_Inr Let_def split: if_splits)

text \<open>
  Every assignment of a resolved context is a stored assignment of that person, effective at
  the instant, under an employment of that person that is effective too, in a unit and a position
  of that unit that are both effective, with a valid path to the top; and the context lists exactly
  the person's effective employments.
\<close>

theorem resolved_context_sound:
  assumes "resolveWorkforcePersonContext env person instant aid s = Inr ctx"
  shows "set (pc_employmentIds ctx) =
      em_id ` {e \<in> set (jm_values (os_employments s)). em_person e = person
        \<and> isActive (oe_dates env) e instant}
    \<and> (\<forall>r \<in> set (pc_assignments ctx). \<exists>a \<in> set (jm_values (os_assignments s)).
        r = assignmentReference a \<and> as_person a = person \<and> isActive (oe_dates env) a instant
        \<and> rf_employment r \<in> set (pc_employmentIds ctx)
        \<and> org_check_assignment (oe_dates env) s instant a = Inr ())"
proof -
  let ?lg = "oe_dates env"
  let ?es = "listActiveEmployments ?lg s person instant"
  let ?as = "filter (\<lambda>a. as_employment a \<in> set (js_dedup (map em_id ?es)))
    (listActiveAssignments ?lg s person instant)"
  from assms obtain as us where as: "org_choose aid ?as = Inr as"
    and us: "mapE (org_check_assignment ?lg s instant) as = Inr us"
    and ctx: "ctx = \<lparr>pc_assignments = map assignmentReference as,
      pc_employmentIds = sort_by str_lt (js_dedup (map em_id ?es)), pc_resolvedAt = instant,
      pc_person = person\<rparr>"
    unfolding resolveWorkforcePersonContext_def Let_def bindE_eq_Inr by blast
  have "org_check_assignment ?lg s instant a = Inr ()" if "a \<in> set as" for a
    using mapE_ok [OF us that] by simp
  with org_choose_sub [OF as] ctx show ?thesis
    by (fastforce simp: listActiveAssignments_def listActiveEmployments_def assignmentReference_def)
qed

subsection \<open>A sample organization\<close>

definition sample_env :: org_env where
  "sample_env = \<lparr>oe_dates = \<lambda>_. None, oe_sha256 = id, oe_authorize = \<lambda>_. None\<rparr>"

definition sample_uuid :: "char \<Rightarrow> string" where
  "sample_uuid c = ''00000000-0000-4000-8000-00000000000'' @ [c]"

definition sample_meta :: "char \<Rightarrow> command_metadata" where
  "sample_meta c = \<lparr>cm_actor = \<lparr>ac_id = ''admin'', ac_type = authenticated_subject\<rparr>,
     cm_operationId = ''00000000-0000-4000-9000-00000000000'' @ [c], cm_reason = ''setup'',
     cm_traceId = ''trace''\<rparr>"

abbreviation jan :: string where "jan \<equiv> ''2024-01-01T00:00:00.000Z''"

definition sample_setup :: "org_command list" where
  "sample_setup =
     [Do_createWorkforcePerson (sample_meta (CHR ''1'')) \<lparr>wp_id = sample_uuid (CHR ''1''), wp_recordedAt = jan\<rparr>,
      Do_createEmployment (sample_meta (CHR ''2''))
        \<lparr>iv_from = jan, iv_to = None, em_id = sample_uuid (CHR ''2''), em_person = sample_uuid (CHR ''1'')\<rparr>,
      Do_createOrganizationUnit (sample_meta (CHR ''3''))
        \<lparr>iv_from = jan, iv_to = None, pl_unit = sample_uuid (CHR ''3''), pl_parent = None,
         pl_id = sample_uuid (CHR ''4'')\<rparr>,
      Do_createOrganizationUnit (sample_meta (CHR ''4''))
        \<lparr>iv_from = jan, iv_to = None, pl_unit = sample_uuid (CHR ''5''),
         pl_parent = Some (sample_uuid (CHR ''3'')), pl_id = sample_uuid (CHR ''6'')\<rparr>,
      Do_createPosition (sample_meta (CHR ''5''))
        \<lparr>iv_from = jan, iv_to = None, ps_unit = sample_uuid (CHR ''5''), ps_id = sample_uuid (CHR ''7'')\<rparr>,
      Do_createAssignment (sample_meta (CHR ''6''))
        \<lparr>iv_from = jan, iv_to = None, as_id = sample_uuid (CHR ''8''), as_employment = sample_uuid (CHR ''2''),
         as_unit = sample_uuid (CHR ''5''), as_position = sample_uuid (CHR ''7''),
         as_person = sample_uuid (CHR ''1'')\<rparr>]"

definition sample_organization :: org_store where
  "sample_organization = run_all (org_exec sample_env) sample_setup createMemoryOrganizationStore"

definition sample_context :: person_context where
  "sample_context = \<lparr>pc_assignments = [\<lparr>rf_assignment = sample_uuid (CHR ''8''),
       rf_employment = sample_uuid (CHR ''2''), rf_unit = sample_uuid (CHR ''5''),
       rf_position = sample_uuid (CHR ''7'')\<rparr>],
     pc_employmentIds = [sample_uuid (CHR ''2'')], pc_resolvedAt = ''2024-06-01T00:00:00.000Z'',
     pc_person = sample_uuid (CHR ''1'')\<rparr>"

lemma sample_resolved:
  "resolveWorkforcePersonContext sample_env (sample_uuid (CHR ''1'')) ''2024-06-01T00:00:00.000Z'' None
     sample_organization = Inr sample_context"
  by code_simp

theorem resolved_context_sound_witness:
  "set (pc_employmentIds sample_context) =
      em_id ` {e \<in> set (jm_values (os_employments sample_organization)). em_person e = sample_uuid (CHR ''1'')
        \<and> isActive (oe_dates sample_env) e ''2024-06-01T00:00:00.000Z''}"
  by (rule resolved_context_sound [OF sample_resolved, THEN conjunct1])

end
