(* ===== verification/Directory.thy ===== *)
theory Directory
  imports OrgService
begin

text \<open>
  The organization directory: departments, positions and person profiles with their names
  (\<open>packages/crm-modules/organization/src/\<close>: \<open>directory-types.ts\<close>, \<open>directory-store.ts\<close>,
  \<open>directory-memory-store.ts\<close>, \<open>directory-service.ts\<close>). The locale functions
  \<open>toLocaleLowerCase\<close> and \<open>localeCompare\<close> are parameters, as SHA-256 and the authorizer are.
\<close>

section \<open>Data\<close>

record person_profile =
  pf_id :: string
  pf_realName :: string
  pf_revision :: int
  pf_updatedAt :: string

record department =
  dp_id :: string
  dp_name :: string
  dp_normalizedName :: string
  dp_parent :: "string option"
  dp_active :: bool
  dp_rootLocked :: bool
  dp_revision :: int
  dp_updatedAt :: string

record dir_position =
  dq_id :: string
  dq_unit :: string
  dq_name :: string
  dq_normalizedName :: string
  dq_active :: bool
  dq_revision :: int
  dq_updatedAt :: string

datatype department_node = DepartmentNode department "department_node list"

text \<open>
  \<open>UpdateDepartment id expectedRevision name normalizedName parent updatedAt\<close>: the parent is
  absent, \<open>null\<close> or a string.
\<close>

datatype dir_mutation =
    UpsertProfile person_profile "int option"
  | CreateDepartment department
  | UpdateDepartment string int "string option" "string option" "string option option" string
  | SetDepartmentActive string int bool string
  | CreateDirPosition dir_position
  | UpdateDirPosition string int string string string
  | SetPositionActive string int bool string

record dir_commit =
  dc_fingerprint :: string
  dc_operationId :: string
  dc_mutation :: dir_mutation

section \<open>The in-memory store\<close>

record dir_store =
  ds_departments :: "(string, department) jsmap"
  ds_positions :: "(string, dir_position) jsmap"
  ds_profiles :: "(string, person_profile) jsmap"
  ds_operations :: "(string, string) jsmap"
  ds_references :: "string list"

definition emptyDirectoryStore :: dir_store where
  "emptyDirectoryStore = \<lparr>ds_departments = [], ds_positions = [], ds_profiles = [],
     ds_operations = [], ds_references = []\<rparr>"

definition markActiveAssignmentReference :: "string \<Rightarrow> string \<Rightarrow> dir_store \<Rightarrow> dir_store" where
  "markActiveAssignmentReference unitId positionId s =
     s\<lparr>ds_references := js_dedup (ds_references s @ [''d:'' @ unitId, ''p:'' @ positionId])\<rparr>"

definition hasActiveAssignmentReferences ::
  "string option \<Rightarrow> string option \<Rightarrow> dir_store \<Rightarrow> bool" where
  "hasActiveAssignmentReferences unitId positionId s \<longleftrightarrow>
     truthy unitId \<and> ''d:'' @ the unitId \<in> set (ds_references s)
     \<or> truthy positionId \<and> ''p:'' @ the positionId \<in> set (ds_references s)"

definition dir_listPositions :: "string \<Rightarrow> dir_store \<Rightarrow> dir_position list" where
  "dir_listPositions i s = filter (\<lambda>p. dq_unit p = i) (jm_values (ds_positions s))"

definition dir_departmentName ::
  "(string, department) jsmap \<Rightarrow> department \<Rightarrow> org_failure + unit" where
  "dir_departmentName m d =
     ensure (\<not> list_ex (\<lambda>item. dp_id item \<noteq> dp_id d \<and> dp_active item \<and> dp_active d
               \<and> dp_parent item = dp_parent d \<and> dp_normalizedName item = dp_normalizedName d)
             (jm_values m)) (OrganizationError entity_conflict)"

definition dir_positionName ::
  "(string, dir_position) jsmap \<Rightarrow> dir_position \<Rightarrow> org_failure + unit" where
  "dir_positionName m p =
     ensure (\<not> list_ex (\<lambda>item. dq_id item \<noteq> dq_id p \<and> dq_active item \<and> dq_active p
               \<and> dq_unit item = dq_unit p \<and> dq_normalizedName item = dq_normalizedName p)
             (jm_values m)) (OrganizationError entity_conflict)"

definition dir_saveDepartment ::
  "dir_store \<Rightarrow> string \<Rightarrow> int \<Rightarrow> (department \<Rightarrow> department) \<Rightarrow> org_failure + dir_store" where
  "dir_saveDepartment s i expected change =
     (case jm_get (ds_departments s) i of
        None \<Rightarrow> Inl (OrganizationError entity_not_found)
      | Some old \<Rightarrow>
          if dp_revision old \<noteq> expected then Inl (OrganizationError entity_conflict)
          else let d = change old in
            bindE (dir_departmentName (ds_departments s) d) (\<lambda>_.
            Inr (s\<lparr>ds_departments := jm_set (ds_departments s) (dp_id old) d\<rparr>)))"

definition dir_savePosition ::
  "dir_store \<Rightarrow> string \<Rightarrow> int \<Rightarrow> (dir_position \<Rightarrow> dir_position) \<Rightarrow> org_failure + dir_store" where
  "dir_savePosition s i expected change =
     (case jm_get (ds_positions s) i of
        None \<Rightarrow> Inl (OrganizationError entity_not_found)
      | Some old \<Rightarrow>
          if dq_revision old \<noteq> expected then Inl (OrganizationError entity_conflict)
          else let p = change old in
            bindE (dir_positionName (ds_positions s) p) (\<lambda>_.
            Inr (s\<lparr>ds_positions := jm_set (ds_positions s) (dq_id old) p\<rparr>)))"

definition dir_updated ::
  "string option \<Rightarrow> string option \<Rightarrow> string option option \<Rightarrow> string \<Rightarrow> department \<Rightarrow> department" where
  "dir_updated name normalizedName parent updatedAt old =
     (let d1 = (if truthy name
                then old\<lparr>dp_name := the name, dp_normalizedName :=
                       (case normalizedName of Some n \<Rightarrow> n | None \<Rightarrow> dp_normalizedName old)\<rparr>
                else old);
          d2 = (case parent of None \<Rightarrow> d1 | Some p \<Rightarrow> d1\<lparr>dp_parent := p\<rparr>)
      in d2\<lparr>dp_revision := dp_revision old + 1, dp_updatedAt := updatedAt\<rparr>)"

fun dir_apply :: "dir_mutation \<Rightarrow> dir_store \<Rightarrow> org_failure + dir_store" where
  "dir_apply (UpsertProfile p expected) s =
     (if map_option pf_revision (jm_get (ds_profiles s) (pf_id p)) \<noteq> expected
      then Inl (OrganizationError entity_conflict)
      else Inr (s\<lparr>ds_profiles := jm_set (ds_profiles s) (pf_id p) p\<rparr>))"
| "dir_apply (CreateDepartment d) s =
     (if jm_has (ds_departments s) (dp_id d) then Inl (OrganizationError entity_conflict)
      else bindE (dir_departmentName (ds_departments s) d) (\<lambda>_.
        Inr (s\<lparr>ds_departments := jm_set (ds_departments s) (dp_id d) d\<rparr>)))"
| "dir_apply (CreateDirPosition p) s =
     (if jm_has (ds_positions s) (dq_id p) then Inl (OrganizationError entity_conflict)
      else bindE (dir_positionName (ds_positions s) p) (\<lambda>_.
        Inr (s\<lparr>ds_positions := jm_set (ds_positions s) (dq_id p) p\<rparr>)))"
| "dir_apply (UpdateDepartment i expected name normalizedName parent updatedAt) s =
     dir_saveDepartment s i expected (dir_updated name normalizedName parent updatedAt)"
| "dir_apply (SetDepartmentActive i expected active updatedAt) s =
     dir_saveDepartment s i expected (\<lambda>old. old\<lparr>dp_active := active,
       dp_revision := dp_revision old + 1, dp_updatedAt := updatedAt\<rparr>)"
| "dir_apply (UpdateDirPosition i expected name normalizedName updatedAt) s =
     dir_savePosition s i expected (\<lambda>old. old\<lparr>dq_name := name,
       dq_normalizedName := normalizedName, dq_revision := dq_revision old + 1,
       dq_updatedAt := updatedAt\<rparr>)"
| "dir_apply (SetPositionActive i expected active updatedAt) s =
     dir_savePosition s i expected (\<lambda>old. old\<lparr>dq_active := active,
       dq_revision := dq_revision old + 1, dq_updatedAt := updatedAt\<rparr>)"

definition dir_store_commit :: "dir_commit \<Rightarrow> (dir_store, org_failure, bool) act" where
  "dir_store_commit c s = (case jm_get (ds_operations s) (dc_operationId c) of
     Some prior \<Rightarrow>
       if prior \<noteq> dc_fingerprint c then (Inl (OrganizationError idempotency_conflict), s)
       else (Inr True, s)
   | None \<Rightarrow>
       (case dir_apply (dc_mutation c) s of
          Inl e \<Rightarrow> (Inl e, s)
        | Inr s' \<Rightarrow> (Inr False,
            s'\<lparr>ds_operations := jm_set (ds_operations s') (dc_operationId c) (dc_fingerprint c)\<rparr>)))"

lemma dir_apply_operations [simp]: "dir_apply w s = Inr t \<Longrightarrow> ds_operations t = ds_operations s"
  by (induction w s rule: dir_apply.induct)
    (auto simp: bindE_eq_Inr dir_saveDepartment_def dir_savePosition_def Let_def
      split: option.splits if_splits)

interpretation dir_store: idempotent_store
  dir_store_commit dc_operationId dc_fingerprint ds_operations
  "OrganizationError idempotency_conflict"
  by unfold_locales
    (auto simp: dir_store_commit_def split: option.splits sum.splits if_splits)

section \<open>The service\<close>

record dir_env =
  de_dates :: engine_dates
  de_sha256 :: "string \<Rightarrow> string"
  de_authorize :: "auth_request \<Rightarrow> string option"
  de_lower :: "string \<Rightarrow> string"
  de_before :: "string \<Rightarrow> string \<Rightarrow> bool"

type_synonym 'a dir_act = "(dir_store, org_failure, 'a) act"

definition normalizeName :: "dir_env \<Rightarrow> string \<Rightarrow> org_failure + string" where
  "normalizeName env v = bindE (requireText 100 v) (\<lambda>_. Inr (de_lower env (trim v)))"

definition dir_authorize ::
  "dir_env \<Rightarrow> command_metadata \<Rightarrow> string \<Rightarrow> string \<Rightarrow> string \<Rightarrow> org_failure + unit" where
  "dir_authorize env m action entityType entityId =
     (case de_authorize env \<lparr>ar_action = action, ar_actor = cm_actor m, ar_entityId = entityId,
        ar_entityType = entityType, ar_operationId = cm_operationId m\<rparr> of
        None \<Rightarrow> Inr ()
      | Some e \<Rightarrow> Inl (OrgPortError e))"

text \<open>
  \<open>#commit\<close> digests the command without its \<open>operationId\<close> and \<open>traceId\<close>; \<open>members\<close> are
  the command's own members.
\<close>

definition dir_request :: "command_metadata \<Rightarrow> (string \<times> json) list \<Rightarrow> json" where
  "dir_request m members =
     J_obj ([(''actor'', j_actor (cm_actor m)), (''reason'', J_str (cm_reason m))] @ members)"

definition dir_commit_write ::
  "dir_env \<Rightarrow> command_metadata \<Rightarrow> (string \<times> json) list \<Rightarrow> dir_mutation \<Rightarrow> bool dir_act" where
  "dir_commit_write env m members w =
     dir_store_commit \<lparr>dc_fingerprint = de_sha256 env (stringify (dir_request m members)),
       dc_operationId = cm_operationId m, dc_mutation = w\<rparr>"

definition findDepartmentOr :: "string \<Rightarrow> department dir_act" where
  "findDepartmentOr i = (\<lambda>s. requireA (jm_get (ds_departments s) i) (OrganizationError entity_not_found) s)"

definition findPositionOr :: "string \<Rightarrow> dir_position dir_act" where
  "findPositionOr i = (\<lambda>s. requireA (jm_get (ds_positions s) i) (OrganizationError entity_not_found) s)"

text \<open>\<open>#noCycle\<close>; it ends for the reason \<open>org_climb\<close> does.\<close>

function dir_climb :: "dir_store \<Rightarrow> string list \<Rightarrow> string option \<Rightarrow> org_failure + unit" where
  "dir_climb s visited current =
     (if \<not> truthy current then Inr ()
      else if the current \<in> set visited then Inl (OrganizationError organization_hierarchy_cycle)
      else case jm_get (ds_departments s) (the current) of
        None \<Rightarrow> Inl (OrganizationError entity_not_found)
      | Some d \<Rightarrow> dir_climb s (the current # visited) (dp_parent d))"
  by pat_completeness auto

termination
proof (relation "measure (\<lambda>(s, visited, current).
    card (set (map fst (ds_departments s)) - set visited))")
  fix s visited and current :: "string option" and d
  assume "the current \<notin> set visited" and d: "jm_get (ds_departments s) (the current) = Some d"
  moreover from d have "the current \<in> set (map fst (ds_departments s))"
    by (force simp: jm_get_def dest: map_of_SomeD)
  ultimately have "card (set (map fst (ds_departments s)) - set (the current # visited))
    < card (set (map fst (ds_departments s)) - set visited)"
    by (intro psubset_card_mono) auto
  then show "((s, the current # visited, dp_parent d), s, visited, current)
    \<in> measure (\<lambda>(s, visited, current). card (set (map fst (ds_departments s)) - set visited))"
    by simp
qed simp

declare dir_climb.simps [simp del]

definition dir_noCycle :: "string \<Rightarrow> string \<Rightarrow> unit dir_act" where
  "dir_noCycle i parentId = (\<lambda>s. (dir_climb s [i] (Some parentId), s))"

subsection \<open>Operations\<close>

text \<open>\<open>(await this.store.find...(id))!\<close> at the end of an upsert: the stored profile.\<close>

definition upsertPersonProfile ::
  "dir_env \<Rightarrow> command_metadata \<Rightarrow> string \<Rightarrow> string \<Rightarrow> int option \<Rightarrow> string \<Rightarrow> person_profile option dir_act"
where
  "upsertPersonProfile env m i realName0 expected updatedAt =
     thenA (liftA (org_metadata m))
     (thenA (liftA (requireId i))
     (thenA (liftA (requireTimestamp (de_dates env) updatedAt))
     (let realName = trim realName0 in
      thenA (liftA (requireText 100 realName))
     (bindA (getsA (\<lambda>s. jm_get (ds_profiles s) i)) (\<lambda>current.
      thenA (ensureA (map_option pf_revision current = expected) (OrganizationError entity_conflict))
     (thenA (liftA (dir_authorize env m ''workforce_person_profile_updated''
               ''workforce_person_profile'' i))
     (thenA (dir_commit_write env m ([(''realName'', J_str realName0), (''updatedAt'', J_str updatedAt),
               (''workforcePersonId'', J_str i)]
               @ (case expected of None \<Rightarrow> [] | Some r \<Rightarrow> [(''expectedRevision'', J_int r)]))
         (UpsertProfile \<lparr>pf_id = i, pf_realName = realName,
            pf_revision = (case current of None \<Rightarrow> -1 | Some c \<Rightarrow> pf_revision c) + 1,
            pf_updatedAt = updatedAt\<rparr> expected))
     (getsA (\<lambda>s. jm_get (ds_profiles s) i)))))))))"

definition dir_check_parent :: "string option \<Rightarrow> unit dir_act" where
  "dir_check_parent parent =
     (if \<not> truthy parent then retA ()
      else thenA (liftA (requireId (the parent)))
        (bindA (findDepartmentOr (the parent)) (\<lambda>d.
         ensureA (dp_active d) (OrganizationError organization_path_invalid))))"

definition createDepartment ::
  "dir_env \<Rightarrow> command_metadata \<Rightarrow> string \<Rightarrow> string \<Rightarrow> string option \<Rightarrow> bool option \<Rightarrow> string
   \<Rightarrow> department dir_act" where
  "createDepartment env m i name parent rootLocked updatedAt =
     thenA (liftA (org_metadata m))
     (thenA (liftA (requireId i))
     (thenA (liftA (requireTimestamp (de_dates env) updatedAt))
     (bindA (liftA (normalizeName env name)) (\<lambda>normalizedName.
      thenA (dir_check_parent parent)
     (thenA (liftA (dir_authorize env m ''department_created'' ''department'' i))
     (thenA (dir_commit_write env m ([(''organizationUnitId'', J_str i), (''name'', J_str name)]
               @ j_opt ''parentOrganizationUnitId'' parent
               @ (case rootLocked of None \<Rightarrow> [] | Some b \<Rightarrow> [(''rootLocked'', J_bool b)])
               @ [(''updatedAt'', J_str updatedAt)])
         (CreateDepartment \<lparr>dp_id = i, dp_name = trim name, dp_normalizedName = normalizedName,
            dp_parent = (if truthy parent then parent else None), dp_active = True,
            dp_rootLocked = (rootLocked = Some True), dp_revision = 0, dp_updatedAt = updatedAt\<rparr>))
     (findDepartmentOr i)))))))"

definition updateDepartment ::
  "dir_env \<Rightarrow> command_metadata \<Rightarrow> string \<Rightarrow> int \<Rightarrow> string option \<Rightarrow> string option option \<Rightarrow> string
   \<Rightarrow> department dir_act" where
  "updateDepartment env m i expected name parent updatedAt =
     (let newParent = (case parent of Some (Some p) \<Rightarrow> Some p | _ \<Rightarrow> None) in
      thenA (liftA (org_metadata m))
     (thenA (liftA (requireId i))
     (thenA (liftA (requireTimestamp (de_dates env) updatedAt))
     (bindA (findDepartmentOr i) (\<lambda>current.
      thenA (ensureA (\<not> (name = None \<and> parent = None)) (OrganizationError entity_conflict))
     (thenA (ensureA (\<not> (dp_rootLocked current \<and> parent \<noteq> None)) (OrganizationError entity_conflict))
     (bindA (liftA (case name of None \<Rightarrow> Inr None
               | Some n \<Rightarrow> bindE (normalizeName env n) (\<lambda>x. Inr (Some x)))) (\<lambda>normalizedName.
      thenA (dir_check_parent newParent)
     (thenA (if truthy newParent then dir_noCycle i (the newParent) else retA ())
     (thenA (liftA (dir_authorize env m ''department_updated'' ''department'' i))
     (thenA (dir_commit_write env m ([(''organizationUnitId'', J_str i),
               (''expectedRevision'', J_int expected)] @ j_opt ''name'' name
               @ (case parent of None \<Rightarrow> [] | Some None \<Rightarrow> [(''parentOrganizationUnitId'', J_null)]
                  | Some (Some p) \<Rightarrow> [(''parentOrganizationUnitId'', J_str p)])
               @ [(''updatedAt'', J_str updatedAt)])
         (UpdateDepartment i expected (map_option trim name) normalizedName parent updatedAt))
     (findDepartmentOr i))))))))))))"

text \<open>The conditions of \<open>setDepartmentActive\<close> before it authorizes.\<close>

definition dir_check_active :: "string \<Rightarrow> bool \<Rightarrow> department \<Rightarrow> unit dir_act" where
  "dir_check_active i active current =
     (if \<not> active then
        thenA (ensureA (\<not> dp_rootLocked current) (OrganizationError entity_conflict))
        (\<lambda>s. ensureA (\<not> (list_ex (\<lambda>item. dp_active item \<and> dp_parent item = Some i)
                          (jm_values (ds_departments s))
                       \<or> list_ex dq_active (dir_listPositions i s)
                       \<or> hasActiveAssignmentReferences (Some i) None s))
               (OrganizationError entity_conflict) s)
      else if truthy (dp_parent current)
      then bindA (findDepartmentOr (the (dp_parent current))) (\<lambda>d.
             ensureA (dp_active d) (OrganizationError organization_path_invalid))
      else retA ())"

definition setDepartmentActive ::
  "dir_env \<Rightarrow> command_metadata \<Rightarrow> string \<Rightarrow> int \<Rightarrow> bool \<Rightarrow> string \<Rightarrow> department dir_act" where
  "setDepartmentActive env m i expected active updatedAt =
     thenA (liftA (org_metadata m))
     (thenA (liftA (requireId i))
     (thenA (liftA (requireTimestamp (de_dates env) updatedAt))
     (bindA (findDepartmentOr i) (\<lambda>current.
      thenA (dir_check_active i active current)
     (thenA (liftA (dir_authorize env m
               (if active then ''department_restored'' else ''department_disabled'') ''department'' i))
     (thenA (dir_commit_write env m [(''organizationUnitId'', J_str i),
               (''expectedRevision'', J_int expected), (''active'', J_bool active),
               (''updatedAt'', J_str updatedAt)]
         (SetDepartmentActive i expected active updatedAt))
     (findDepartmentOr i)))))))"

definition createDirectoryPosition ::
  "dir_env \<Rightarrow> command_metadata \<Rightarrow> string \<Rightarrow> string \<Rightarrow> string \<Rightarrow> string \<Rightarrow> dir_position dir_act" where
  "createDirectoryPosition env m i unitId name updatedAt =
     thenA (liftA (org_metadata m))
     (thenA (liftA (requireId i))
     (thenA (liftA (requireId unitId))
     (thenA (liftA (requireTimestamp (de_dates env) updatedAt))
     (bindA (findDepartmentOr unitId) (\<lambda>department.
      thenA (ensureA (dp_active department) (OrganizationError organization_path_invalid))
     (bindA (liftA (normalizeName env name)) (\<lambda>normalizedName.
      thenA (liftA (dir_authorize env m ''position_directory_created'' ''position'' i))
     (thenA (dir_commit_write env m [(''positionId'', J_str i), (''organizationUnitId'', J_str unitId),
               (''name'', J_str name), (''updatedAt'', J_str updatedAt)]
         (CreateDirPosition \<lparr>dq_id = i, dq_unit = unitId, dq_name = trim name,
            dq_normalizedName = normalizedName, dq_active = True, dq_revision = 0,
            dq_updatedAt = updatedAt\<rparr>))
     (findPositionOr i)))))))))"

definition updateDirectoryPosition ::
  "dir_env \<Rightarrow> command_metadata \<Rightarrow> string \<Rightarrow> int \<Rightarrow> string \<Rightarrow> string \<Rightarrow> dir_position dir_act" where
  "updateDirectoryPosition env m i expected name updatedAt =
     thenA (liftA (org_metadata m))
     (thenA (liftA (requireId i))
     (thenA (liftA (requireTimestamp (de_dates env) updatedAt))
     (thenA (findPositionOr i)
     (bindA (liftA (normalizeName env name)) (\<lambda>normalizedName.
      thenA (liftA (dir_authorize env m ''position_directory_updated'' ''position'' i))
     (thenA (dir_commit_write env m [(''positionId'', J_str i), (''expectedRevision'', J_int expected),
               (''name'', J_str name), (''updatedAt'', J_str updatedAt)]
         (UpdateDirPosition i expected (trim name) normalizedName updatedAt))
     (findPositionOr i)))))))"

definition setPositionActive ::
  "dir_env \<Rightarrow> command_metadata \<Rightarrow> string \<Rightarrow> int \<Rightarrow> bool \<Rightarrow> string \<Rightarrow> dir_position dir_act" where
  "setPositionActive env m i expected active updatedAt =
     thenA (liftA (org_metadata m))
     (thenA (liftA (requireId i))
     (thenA (liftA (requireTimestamp (de_dates env) updatedAt))
     (bindA (findPositionOr i) (\<lambda>current.
      thenA (\<lambda>s. ensureA (\<not> (\<not> active \<and> hasActiveAssignmentReferences None (Some i) s))
               (OrganizationError entity_conflict) s)
     (thenA (if active then bindA (findDepartmentOr (dq_unit current)) (\<lambda>d.
               ensureA (dp_active d) (OrganizationError organization_path_invalid)) else retA ())
     (thenA (liftA (dir_authorize env m
               (if active then ''position_restored'' else ''position_disabled'') ''position'' i))
     (thenA (dir_commit_write env m [(''positionId'', J_str i), (''expectedRevision'', J_int expected),
               (''active'', J_bool active), (''updatedAt'', J_str updatedAt)]
         (SetPositionActive i expected active updatedAt))
     (findPositionOr i))))))))"

definition getPersonProfile :: "string \<Rightarrow> person_profile dir_act" where
  "getPersonProfile i =
     thenA (liftA (requireId i))
       (\<lambda>s. requireA (jm_get (ds_profiles s) i) (OrganizationError entity_not_found) s)"

definition listPositions :: "dir_env \<Rightarrow> string \<Rightarrow> bool \<Rightarrow> dir_store \<Rightarrow> org_failure + dir_position list" where
  "listPositions env i includeInactive s =
     bindE (requireId i) (\<lambda>_.
       Inr (sort_by (\<lambda>a b. de_before env (dq_name a) (dq_name b))
         (filter (\<lambda>p. includeInactive \<or> dq_active p) (dir_listPositions i s))))"

text \<open>
  \<open>build\<close> calls itself on every child; \<open>fuel\<close> bounds its depth, \<open>None\<close> when it is used up.
\<close>

fun dir_build :: "nat \<Rightarrow> dir_env \<Rightarrow> department list \<Rightarrow> string option \<Rightarrow> department_node list option" where
  "dir_build 0 env rows parent = None"
| "dir_build (Suc fuel) env rows parent =
     those (map (\<lambda>d. map_option (DepartmentNode d) (dir_build fuel env rows (Some (dp_id d))))
       (sort_by (\<lambda>a b. de_before env (dp_name a) (dp_name b))
          (filter (\<lambda>d. dp_parent d = parent) rows)))"

definition listDepartmentTree :: "dir_env \<Rightarrow> bool \<Rightarrow> dir_store \<Rightarrow> department_node list option" where
  "listDepartmentTree env includeInactive s =
     (let rows = filter (\<lambda>d. includeInactive \<or> dp_active d) (jm_values (ds_departments s))
      in dir_build (Suc (length rows)) env rows None)"

section \<open>The service as a machine\<close>

datatype dir_command =
    Dir_upsertPersonProfile command_metadata string string "int option" string
  | Dir_createDepartment command_metadata string string "string option" "bool option" string
  | Dir_updateDepartment command_metadata string int "string option" "string option option" string
  | Dir_setDepartmentActive command_metadata string int bool string
  | Dir_createPosition command_metadata string string string string
  | Dir_updatePosition command_metadata string int string string
  | Dir_setPositionActive command_metadata string int bool string
  | Dir_markReference string string

definition discardA :: "('s, 'e, 'a) act \<Rightarrow> ('s, 'e, unit) act" where
  "discardA m = bindA m (\<lambda>_. retA ())"

fun dir_exec :: "dir_env \<Rightarrow> dir_command \<Rightarrow> unit dir_act" where
  "dir_exec env (Dir_upsertPersonProfile m i n r u) = discardA (upsertPersonProfile env m i n r u)"
| "dir_exec env (Dir_createDepartment m i n p l u) = discardA (createDepartment env m i n p l u)"
| "dir_exec env (Dir_updateDepartment m i r n p u) = discardA (updateDepartment env m i r n p u)"
| "dir_exec env (Dir_setDepartmentActive m i r a u) = discardA (setDepartmentActive env m i r a u)"
| "dir_exec env (Dir_createPosition m i d n u) = discardA (createDirectoryPosition env m i d n u)"
| "dir_exec env (Dir_updatePosition m i r n u) = discardA (updateDirectoryPosition env m i r n u)"
| "dir_exec env (Dir_setPositionActive m i r a u) = discardA (setPositionActive env m i r a u)"
| "dir_exec env (Dir_markReference d p) = modifyA (markActiveAssignmentReference d p)"

end
