(* ===== verification/DirectoryInv.thy ===== *)
theory DirectoryInv
  imports Directory
begin

text \<open>
  The invariant of the organization directory: departments form a tree-like hierarchy without
  cycles whose parents exist, what is active hangs only below what is active, and active siblings
  have different names. Every operation of the service keeps it.
\<close>

section \<open>Departments\<close>

definition dir_edges :: "(string, department) jsmap \<Rightarrow> (string \<times> string) set" where
  "dir_edges m = {(u, v). \<exists>d. jm_get m u = Some d \<and> dp_parent d = Some v \<and> v \<noteq> []}"

definition dep_names :: "(string, department) jsmap \<Rightarrow> bool" where
  "dep_names m \<longleftrightarrow>
     (\<forall>i j d e. jm_get m i = Some d \<and> jm_get m j = Some e \<and> dp_active d \<and> dp_active e
        \<and> dp_parent d = dp_parent e \<and> dp_normalizedName d = dp_normalizedName e \<longrightarrow> i = j)"

definition dep_parents :: "(string, department) jsmap \<Rightarrow> bool" where
  "dep_parents m \<longleftrightarrow>
     (\<forall>i d p. jm_get m i = Some d \<and> dp_parent d = Some p \<and> p \<noteq> [] \<longrightarrow>
        (\<exists>q. jm_get m p = Some q \<and> (dp_active d \<longrightarrow> dp_active q)))"

definition dep_inv :: "(string, department) jsmap \<Rightarrow> bool" where
  "dep_inv m \<longleftrightarrow>
     jm_ok m \<and> (\<forall>i d. jm_get m i = Some d \<longrightarrow> dp_id d = i)
     \<and> dep_parents m \<and> acyclic (dir_edges m) \<and> dep_names m"

lemma dir_edges_set:
  "dir_edges (jm_set m i d) =
     {(u, v) \<in> dir_edges m. u \<noteq> i} \<union> {(u, v). u = i \<and> dp_parent d = Some v \<and> v \<noteq> []}"
  by (auto simp: dir_edges_def split: if_splits)

text \<open>What has to hold of a department that is saved under \<open>i\<close>.\<close>

definition dep_fits :: "(string, department) jsmap \<Rightarrow> string \<Rightarrow> department \<Rightarrow> bool" where
  "dep_fits m i d \<longleftrightarrow>
     (\<forall>p. dp_parent d = Some p \<and> p \<noteq> [] \<longrightarrow>
        ((i, p) \<in> dir_edges m \<or> (p, i) \<notin> (dir_edges m)\<^sup>*)
        \<and> (\<exists>q. jm_get m p = Some q \<and> (dp_active d \<longrightarrow> dp_active q)))
     \<and> (dp_active d \<or> (\<forall>j e. jm_get m j = Some e \<and> dp_parent e = Some i \<longrightarrow> \<not> dp_active e))"

lemma dep_fits_acyclic:
  assumes "dep_inv m" and "dep_fits m i d"
  shows "acyclic (dir_edges (jm_set m i d))" and "dp_parent d = Some p \<Longrightarrow> p \<noteq> [] \<Longrightarrow> p \<noteq> i"
proof -
  have acyc: "acyclic (dir_edges m)" using assms(1) by (simp add: dep_inv_def)
  have "acyclic (insert (i, p) (dir_edges m))" if "dp_parent d = Some p" "p \<noteq> []" for p
  proof (cases "(i, p) \<in> dir_edges m")
    case True
    with acyc show ?thesis by (simp add: insert_absorb)
  next
    case False
    with that assms(2) have "(p, i) \<notin> (dir_edges m)\<^sup>*" by (auto simp: dep_fits_def)
    with acyc show ?thesis by (simp add: acyclic_insert)
  qed
  note ins = this
  show "p \<noteq> i" if "dp_parent d = Some p" "p \<noteq> []" for p
    using ins [OF that] by (auto simp: acyclic_def)
  show "acyclic (dir_edges (jm_set m i d))"
  proof (cases "\<exists>p. dp_parent d = Some p \<and> p \<noteq> []")
    case True
    then obtain p where p: "dp_parent d = Some p" "p \<noteq> []" by blast
    have "dir_edges (jm_set m i d) \<subseteq> insert (i, p) (dir_edges m)"
      using p by (auto simp: dir_edges_set)
    with ins [OF p] show ?thesis by (rule acyclic_subset)
  next
    case False
    then have "dir_edges (jm_set m i d) \<subseteq> dir_edges m" by (auto simp: dir_edges_set)
    with acyc show ?thesis by (rule acyclic_subset)
  qed
qed

lemma dir_departmentName_ok:
  assumes "jm_ok m" and "dir_departmentName m d = Inr ()" and "jm_get m j = Some e"
    and "dp_id e \<noteq> dp_id d" and "dp_active e" and "dp_active d" and "dp_parent e = dp_parent d"
  shows "dp_normalizedName e \<noteq> dp_normalizedName d"
  using assms jm_get_in_values [OF assms(3)] by (auto simp: dir_departmentName_def list_ex_iff)

lemma dep_set_inv:
  assumes inv: "dep_inv m" and fits: "dep_fits m i d" and i: "dp_id d = i"
    and name: "dir_departmentName m d = Inr ()"
  shows "dep_inv (jm_set m i d)"
proof -
  have ok: "jm_ok m" and ids: "\<And>j e. jm_get m j = Some e \<Longrightarrow> dp_id e = j"
    and names: "dep_names m" and parents: "dep_parents m"
    using inv by (simp_all add: dep_inv_def)
  note ne = dep_fits_acyclic(2) [OF inv fits]
  have "dep_parents (jm_set m i d)"
    unfolding dep_parents_def
  proof (intro allI impI, elim conjE)
    fix j e p
    assume e: "jm_get (jm_set m i d) j = Some e" and p: "dp_parent e = Some p" "p \<noteq> []"
    show "\<exists>q. jm_get (jm_set m i d) p = Some q \<and> (dp_active e \<longrightarrow> dp_active q)"
    proof (cases "j = i")
      case True
      with e p ne [of p] fits show ?thesis by (auto simp: dep_fits_def)
    next
      case False
      with e have "jm_get m j = Some e" by simp
      with p parents obtain q where "jm_get m p = Some q" "dp_active e \<longrightarrow> dp_active q"
        unfolding dep_parents_def by blast
      with False e p fits show ?thesis by (auto simp: dep_fits_def)
    qed
  qed
  moreover have "dep_names (jm_set m i d)"
    using names dir_departmentName_ok [OF ok name] ids i unfolding dep_names_def
    by (simp add: fun_upd_def) (metis option.inject)
  ultimately show ?thesis
    using dep_fits_acyclic(1) [OF inv fits] ok ids i by (auto simp: dep_inv_def)
qed

lemma dir_climb_ok:
  assumes "dir_climb s visited current = Inr ()" and "current = Some c" and "c \<noteq> []"
    and "(c, w) \<in> (dir_edges (ds_departments s))\<^sup>*"
  shows "w \<notin> set visited"
  using assms
proof (induction s visited current arbitrary: c rule: dir_climb.induct)
  case (1 s visited current)
  then have step: "dir_climb s visited (Some c) = Inr ()" by simp
  then obtain d where new: "c \<notin> set visited" and d: "jm_get (ds_departments s) c = Some d"
    "dir_climb s (c # visited) (dp_parent d) = Inr ()"
    using \<open>c \<noteq> []\<close> by (auto simp: dir_climb.simps [of _ _ "Some c"] split: if_splits option.splits)
  from 1(5) show ?case
  proof (cases rule: converse_rtranclE)
    case base
    with new show ?thesis by simp
  next
    case (step p)
    then have p: "dp_parent d = Some p" "p \<noteq> []" using d(1) by (auto simp: dir_edges_def)
    have "w \<notin> set (c # visited)" using 1(1) [of d p] 1(3,4) new d p step(2) by simp
    then show ?thesis by simp
  qed
qed

section \<open>Positions\<close>

definition pos_names :: "(string, dir_position) jsmap \<Rightarrow> bool" where
  "pos_names m \<longleftrightarrow>
     (\<forall>i j q r. jm_get m i = Some q \<and> jm_get m j = Some r \<and> dq_active q \<and> dq_active r
        \<and> dq_unit q = dq_unit r \<and> dq_normalizedName q = dq_normalizedName r \<longrightarrow> i = j)"

definition pos_inv :: "(string, dir_position) jsmap \<Rightarrow> bool" where
  "pos_inv m \<longleftrightarrow> jm_ok m \<and> (\<forall>i q. jm_get m i = Some q \<longrightarrow> dq_id q = i) \<and> pos_names m"

lemma dir_positionName_ok:
  assumes "dir_positionName m p = Inr ()" and "jm_get m j = Some e"
    and "dq_id e \<noteq> dq_id p" and "dq_active e" and "dq_active p" and "dq_unit e = dq_unit p"
  shows "dq_normalizedName e \<noteq> dq_normalizedName p"
  using assms jm_get_in_values [OF assms(2)] by (auto simp: dir_positionName_def list_ex_iff)

lemma pos_set_inv:
  assumes inv: "pos_inv m" and i: "dq_id p = i" and name: "dir_positionName m p = Inr ()"
  shows "pos_inv (jm_set m i p)"
proof -
  have ids: "\<And>j e. jm_get m j = Some e \<Longrightarrow> dq_id e = j" using inv by (simp add: pos_inv_def)
  have other: "j = i" if "jm_get m j = Some e" "dq_active e" "dq_active p" "dq_unit e = dq_unit p"
    "dq_normalizedName e = dq_normalizedName p" for j e
    using dir_positionName_ok [OF name that(1)] that ids [OF that(1)] i by auto
  have "pos_names (jm_set m i p)"
    unfolding pos_names_def
  proof (intro allI impI, elim conjE)
    fix j k q r
    assume *: "jm_get (jm_set m i p) j = Some q" "jm_get (jm_set m i p) k = Some r"
      "dq_active q" "dq_active r" "dq_unit q = dq_unit r" "dq_normalizedName q = dq_normalizedName r"
    show "j = k"
    proof (cases "j = i")
      case True
      with * other [of k r] show ?thesis by (cases "k = i") auto
    next
      case False
      with * have q: "jm_get m j = Some q" by simp
      show ?thesis
      proof (cases "k = i")
        case True
        with * have "p = r" by simp
        with other [OF q] * True show ?thesis by simp
      next
        case False
        with * have r: "jm_get m k = Some r" by simp
        have "pos_names m" using inv by (simp add: pos_inv_def)
        with q r *(3-) show ?thesis unfolding pos_names_def by blast
      qed
    qed
  qed
  with inv i show ?thesis by (auto simp: pos_inv_def)
qed

section \<open>The invariant\<close>

definition pos_homes :: "dir_store \<Rightarrow> bool" where
  "pos_homes s \<longleftrightarrow> (\<forall>i q. jm_get (ds_positions s) i = Some q \<and> dq_active q \<longrightarrow>
     (\<exists>d. jm_get (ds_departments s) (dq_unit q) = Some d \<and> dp_active d))"

definition dir_inv :: "dir_store \<Rightarrow> bool" where
  "dir_inv s \<longleftrightarrow> dep_inv (ds_departments s) \<and> pos_inv (ds_positions s) \<and> pos_homes s"

lemma dir_inv_same:
  "ds_departments t = ds_departments s \<Longrightarrow> ds_positions t = ds_positions s \<Longrightarrow> dir_inv t = dir_inv s"
  by (simp add: dir_inv_def pos_homes_def)

lemma dep_save_inv:
  assumes "dir_inv s" and "dep_fits (ds_departments s) i d" and "dp_id d = i"
    and "dir_departmentName (ds_departments s) d = Inr ()"
    and "dp_active d \<or> (\<forall>j q. jm_get (ds_positions s) j = Some q \<and> dq_unit q = i \<longrightarrow> \<not> dq_active q)"
  shows "dir_inv (s\<lparr>ds_departments := jm_set (ds_departments s) i d\<rparr>)"
  using assms dep_set_inv [OF _ assms(2-4)] by (auto simp: dir_inv_def pos_homes_def)

lemma pos_save_inv:
  assumes "dir_inv s" and "dq_id p = i" and "dir_positionName (ds_positions s) p = Inr ()"
    and "dq_active p \<Longrightarrow> \<exists>d. jm_get (ds_departments s) (dq_unit p) = Some d \<and> dp_active d"
  shows "dir_inv (s\<lparr>ds_positions := jm_set (ds_positions s) i p\<rparr>)"
  using assms pos_set_inv [OF _ assms(2,3)] by (auto simp: dir_inv_def pos_homes_def)

lemma after_dir_commit:
  assumes "dir_inv s" and "\<And>s'. dir_apply w s = Inr s' \<Longrightarrow> dir_inv s'"
  shows "dir_inv (snd (dir_commit_write env m fs w s))"
proof -
  have "dir_inv (s'\<lparr>ds_operations := l\<rparr>) = dir_inv s'" for s' l
    by (rule dir_inv_same) simp_all
  with assms show ?thesis
    by (auto simp: dir_commit_write_def dir_store_commit_def split: option.split sum.split)
qed

lemma reads_lookup [simp]: "reads (findDepartmentOr i)" "reads (findPositionOr i)"
  by (simp_all add: findDepartmentOr_def findPositionOr_def reads_def requireA_def split: option.split)

lemma reads_dir_checks [simp]:
  "reads (dir_check_parent p)" "reads (dir_check_active i a d)" "reads (dir_noCycle i j)"
  by (auto simp: dir_check_parent_def dir_check_active_def dir_noCycle_def intro!: reads_bind)

lemma reads_no_cycle_if [simp]: "reads (if b then dir_noCycle i j else retA ())"
  by simp

text \<open>The stepping rules, one for each kind of part, so that the steps of an operation are forced.\<close>

lemmas dir_after =
  after_lift [where P = dir_inv] after_ensure [where P = dir_inv] after_gets [where P = dir_inv]
  after_reads [OF reads_lookup(1), where P = dir_inv]
  after_reads [OF reads_lookup(2), where P = dir_inv]
  after_reads [OF reads_dir_checks(1), where P = dir_inv]
  after_reads [OF reads_dir_checks(2), where P = dir_inv]
  after_reads [OF reads_no_cycle_if, where P = dir_inv]
  after_then_reads [where P = dir_inv and m = "dir_commit_write env m fs w" for env m fs w]

lemma reads_position_parts [simp]:
  "reads (\<lambda>s. ensureA (\<not> (\<not> a \<and> hasActiveAssignmentReferences None i s)) e s)"
  "reads (if b then bindA (findDepartmentOr j) (\<lambda>d. ensureA (dp_active d) e) else retA ())"
  by (auto intro!: reads_bind)

lemmas dir_after_free = after_reads [OF reads_position_parts(1), where P = dir_inv]
lemmas dir_after_home = after_reads [OF reads_position_parts(2), where P = dir_inv]

lemma dep_parentsD:
  "dir_inv s \<Longrightarrow> jm_get (ds_departments s) i = Some d \<Longrightarrow> dp_parent d = Some p \<Longrightarrow> p \<noteq> [] \<Longrightarrow>
   \<exists>q. jm_get (ds_departments s) p = Some q \<and> (dp_active d \<longrightarrow> dp_active q)"
  unfolding dir_inv_def dep_inv_def dep_parents_def by blast

lemma pos_homesD:
  "dir_inv s \<Longrightarrow> jm_get (ds_positions s) i = Some q \<Longrightarrow> dq_active q \<Longrightarrow>
   \<exists>d. jm_get (ds_departments s) (dq_unit q) = Some d \<and> dp_active d"
  unfolding dir_inv_def pos_homes_def by blast

lemma lookup_ok:
  "findDepartmentOr i s = (Inr d, t) \<longleftrightarrow> jm_get (ds_departments s) i = Some d \<and> t = s"
  "findPositionOr i s = (Inr q, t) \<longleftrightarrow> jm_get (ds_positions s) i = Some q \<and> t = s"
  by (simp_all add: findDepartmentOr_def findPositionOr_def)

lemma check_parent_active:
  "dir_check_parent p s = (Inr u, t) \<Longrightarrow> truthy p \<Longrightarrow>
   \<exists>d. jm_get (ds_departments s) (the p) = Some d \<and> dp_active d"
  by (auto simp: dir_check_parent_def bindA_eq_Inr lookup_ok)

lemma dir_saveDepartment_Inr:
  "dir_saveDepartment s i r f = Inr t \<longleftrightarrow>
     (\<exists>old. jm_get (ds_departments s) i = Some old \<and> dp_revision old = r
       \<and> dir_departmentName (ds_departments s) (f old) = Inr ()
       \<and> t = s\<lparr>ds_departments := jm_set (ds_departments s) (dp_id old) (f old)\<rparr>)"
  by (auto simp: dir_saveDepartment_def Let_def bindE_eq_Inr split: option.split)

lemma dir_savePosition_Inr:
  "dir_savePosition s i r f = Inr t \<longleftrightarrow>
     (\<exists>old. jm_get (ds_positions s) i = Some old \<and> dq_revision old = r
       \<and> dir_positionName (ds_positions s) (f old) = Inr ()
       \<and> t = s\<lparr>ds_positions := jm_set (ds_positions s) (dq_id old) (f old)\<rparr>)"
  by (auto simp: dir_savePosition_def Let_def bindE_eq_Inr split: option.split)

lemma dir_inv_ids:
  "dir_inv s \<Longrightarrow> jm_get (ds_departments s) i = Some d \<Longrightarrow> dp_id d = i"
  "dir_inv s \<Longrightarrow> jm_get (ds_positions s) j = Some q \<Longrightarrow> dq_id q = j"
  by (simp_all add: dir_inv_def dep_inv_def pos_inv_def)

lemma parent_in_edges:
  "jm_get m i = Some d \<Longrightarrow> dp_parent d = Some p \<Longrightarrow> p \<noteq> [] \<Longrightarrow> (i, p) \<in> dir_edges m"
  by (auto simp: dir_edges_def)

section \<open>Every operation keeps the invariant\<close>

lemma upsert_keeps:
  assumes inv: "dir_inv s"
  shows "dir_inv (snd (upsertPersonProfile env m i n r u s))"
  unfolding upsertPersonProfile_def Let_def
proof (intro dir_after after_dir_commit inv reads_basic)
  fix s' and p e
  assume "dir_apply (UpsertProfile p e) s = Inr s'"
  then have "ds_departments s' = ds_departments s" "ds_positions s' = ds_positions s"
    by (auto split: if_splits)
  with inv dir_inv_same [of s' s] show "dir_inv s'" by simp
qed

lemma createDepartment_keeps:
  assumes inv: "dir_inv s"
  shows "dir_inv (snd (createDepartment env m i n p l u s))"
  unfolding createDepartment_def
proof (intro dir_after after_dir_commit inv reads_lookup)
  fix u1 and u2 :: unit and nn s'
  assume i: "requireId i = Inr u1" and c: "dir_check_parent p s = (Inr u2, s)"
    and a: "dir_apply (CreateDepartment \<lparr>dp_id = i, dp_name = trim n, dp_normalizedName = nn,
      dp_parent = if truthy p then p else None, dp_active = True, dp_rootLocked = (l = Some True),
      dp_revision = 0, dp_updatedAt = u\<rparr>) s = Inr s'" (is "dir_apply (CreateDepartment ?d) s = _")
  let ?m = "ds_departments s"
  from a have new: "jm_get ?m i = None" and name: "dir_departmentName ?m ?d = Inr ()"
    and s': "s' = s\<lparr>ds_departments := jm_set ?m i ?d\<rparr>"
    by (auto simp: bindE_eq_Inr split: if_splits)
  have "(x, i) \<notin> dir_edges ?m" for x
  proof
    assume "(x, i) \<in> dir_edges ?m"
    then show False using dep_parentsD [OF inv] new by (fastforce simp: dir_edges_def)
  qed
  then have "(x, i) \<notin> (dir_edges ?m)\<^sup>*" if "x \<noteq> i" for x
    using that by (auto elim: rtranclE)
  moreover have "\<exists>e. jm_get ?m q = Some e \<and> dp_active e \<and> q \<noteq> i" if "p = Some q" "q \<noteq> []" for q
    using that check_parent_active [OF c] new by (cases "q = i") auto
  ultimately have "dep_fits ?m i ?d" by (auto simp: dep_fits_def split: if_splits)
  from dep_save_inv [OF inv this _ name] s' show "dir_inv s'" by simp
qed

lemma updateDepartment_keeps:
  assumes inv: "dir_inv s"
  shows "dir_inv (snd (updateDepartment env m i r n p u s))"
  unfolding updateDepartment_def Let_def
proof (intro dir_after after_dir_commit inv reads_lookup)
  fix d nn s' and u0 u1 u2 :: unit
  let ?m = "ds_departments s" and ?q = "case p of Some (Some q) \<Rightarrow> Some q | _ \<Rightarrow> None"
  assume "requireId i = Inr u0"
  then have i: "i \<noteq> []" by (auto simp: requireId_def dest: uuid_any_nonempty)
  assume d: "findDepartmentOr i s = (Inr d, s)" and c: "dir_check_parent ?q s = (Inr u1, s)"
    and climb: "(if truthy ?q then dir_noCycle i (the ?q) else retA ()) s = (Inr u2, s)"
    and a: "dir_apply (UpdateDepartment i r (map_option trim n) nn p u) s = Inr s'"
  let ?d = "dir_updated (map_option trim n) nn p u d"
  from d have old: "jm_get ?m i = Some d" by (simp add: lookup_ok)
  with inv have id: "dp_id d = i" by (rule dir_inv_ids)
  have new: "dp_id ?d = i" "dp_active ?d = dp_active d"
    "dp_parent ?d = (case p of None \<Rightarrow> dp_parent d | Some q \<Rightarrow> q)"
    using id by (simp_all add: dir_updated_def Let_def split: option.split)
  from a old id have name: "dir_departmentName ?m ?d = Inr ()"
    and s': "s' = s\<lparr>ds_departments := jm_set ?m i ?d\<rparr>"
    by (auto simp: dir_saveDepartment_Inr)
  have "dep_fits ?m i ?d"
    unfolding dep_fits_def
  proof (rule conjI, intro allI impI, elim conjE)
    fix q
    assume q: "dp_parent ?d = Some q" "q \<noteq> []"
    show "((i, q) \<in> dir_edges ?m \<or> (q, i) \<notin> (dir_edges ?m)\<^sup>*)
      \<and> (\<exists>e. jm_get ?m q = Some e \<and> (dp_active ?d \<longrightarrow> dp_active e))"
    proof (cases p)
      case None
      with q new old parent_in_edges [of ?m i d q] dep_parentsD [OF inv old, of q] show ?thesis
        by auto
    next
      case (Some q')
      with q new have "p = Some (Some q)" by simp
      with q climb check_parent_active [OF c] dir_climb_ok [of s "[i]" "Some q" q i] show ?thesis
        by (auto simp: dir_noCycle_def)
    qed
  next
    show "dp_active ?d \<or> (\<forall>j e. jm_get ?m j = Some e \<and> dp_parent e = Some i \<longrightarrow> \<not> dp_active e)"
      using dep_parentsD [OF inv] old new(2) i by fastforce
  qed
  moreover have "dp_active ?d
      \<or> (\<forall>j q. jm_get (ds_positions s) j = Some q \<and> dq_unit q = i \<longrightarrow> \<not> dq_active q)"
    using pos_homesD [OF inv] old new(2) by fastforce
  ultimately show "dir_inv s'" unfolding s' by (intro dep_save_inv inv new(1) name)
qed

lemma setDepartmentActive_keeps:
  assumes inv: "dir_inv s"
  shows "dir_inv (snd (setDepartmentActive env m i r a u s))"
  unfolding setDepartmentActive_def
proof (intro dir_after after_dir_commit inv reads_lookup)
  fix d s' and u1 :: unit
  let ?m = "ds_departments s"
  assume d: "findDepartmentOr i s = (Inr d, s)" and c: "dir_check_active i a d s = (Inr u1, s)"
    and ap: "dir_apply (SetDepartmentActive i r a u) s = Inr s'"
  let ?d = "d\<lparr>dp_active := a, dp_revision := dp_revision d + 1, dp_updatedAt := u\<rparr>"
  from d have old: "jm_get ?m i = Some d" by (simp add: lookup_ok)
  with inv have id: "dp_id d = i" by (rule dir_inv_ids)
  from ap old id have name: "dir_departmentName ?m ?d = Inr ()"
    and s': "s' = s\<lparr>ds_departments := jm_set ?m i ?d\<rparr>"
    by (auto simp: dir_saveDepartment_Inr)
  have "\<not> a \<Longrightarrow> jm_get ?m j = Some e \<Longrightarrow> dp_parent e = Some i \<Longrightarrow> \<not> dp_active e" for j e
    using c jm_get_in_values [of ?m j e]
    by (auto simp: dir_check_active_def bindA_eq_Inr list_ex_iff)
  moreover have "\<not> a \<Longrightarrow> jm_get (ds_positions s) j = Some q \<Longrightarrow> dq_unit q = i \<Longrightarrow> \<not> dq_active q" for j q
    using c jm_get_in_values [of "ds_positions s" j q]
    by (auto simp: dir_check_active_def bindA_eq_Inr list_ex_iff dir_listPositions_def)
  moreover have "a \<Longrightarrow> dp_parent d = Some p \<Longrightarrow> p \<noteq> [] \<Longrightarrow>
      \<exists>q. jm_get ?m p = Some q \<and> dp_active q" for p
    using c by (auto simp: dir_check_active_def bindA_eq_Inr lookup_ok)
  ultimately have "dep_fits ?m i ?d"
    and "a \<or> (\<forall>j q. jm_get (ds_positions s) j = Some q \<and> dq_unit q = i \<longrightarrow> \<not> dq_active q)"
    using parent_in_edges [OF old] dep_parentsD [OF inv old] by (auto simp: dep_fits_def)
  from dep_save_inv [OF inv this(1) _ name] this(2) id s' show "dir_inv s'" by simp
qed

lemma createPosition_keeps:
  assumes inv: "dir_inv s"
  shows "dir_inv (snd (createDirectoryPosition env m i d n u s))"
  unfolding createDirectoryPosition_def
proof (intro dir_after after_dir_commit inv reads_lookup)
  fix e nn s'
  let ?p = "\<lparr>dq_id = i, dq_unit = d, dq_name = trim n, dq_normalizedName = nn, dq_active = True,
    dq_revision = 0, dq_updatedAt = u\<rparr>"
  assume "findDepartmentOr d s = (Inr e, s)" and "dp_active e"
    and "dir_apply (CreateDirPosition ?p) s = Inr s'"
  then show "dir_inv s'"
    using pos_save_inv [OF inv, of ?p i] by (auto simp: lookup_ok bindE_eq_Inr split: if_splits)
qed

lemma updatePosition_keeps:
  assumes inv: "dir_inv s"
  shows "dir_inv (snd (updateDirectoryPosition env m i r n u s))"
  unfolding updateDirectoryPosition_def
proof (intro dir_after after_dir_commit inv reads_lookup)
  fix nn s'
  assume "dir_apply (UpdateDirPosition i r (trim n) nn u) s = Inr s'"
  then obtain q where q: "jm_get (ds_positions s) i = Some q"
    and name: "dir_positionName (ds_positions s) (q\<lparr>dq_name := trim n, dq_normalizedName := nn,
      dq_revision := dq_revision q + 1, dq_updatedAt := u\<rparr>) = Inr ()"
    and s': "s' = s\<lparr>ds_positions := jm_set (ds_positions s) (dq_id q) (q\<lparr>dq_name := trim n,
      dq_normalizedName := nn, dq_revision := dq_revision q + 1, dq_updatedAt := u\<rparr>)\<rparr>"
    by (auto simp: dir_savePosition_Inr)
  from pos_homesD [OF inv q] dir_inv_ids(2) [OF inv q] show "dir_inv s'"
    unfolding s' by (intro pos_save_inv inv name) simp_all
qed

lemma setPositionActive_keeps:
  assumes inv: "dir_inv s"
  shows "dir_inv (snd (setPositionActive env m i r a u s))"
  unfolding setPositionActive_def
proof (intro dir_after dir_after_free dir_after_home after_dir_commit inv reads_lookup)
  fix q s' and u1 :: unit
  assume q: "findPositionOr i s = (Inr q, s)"
    and home: "(if a then bindA (findDepartmentOr (dq_unit q)) (\<lambda>d.
      ensureA (dp_active d) (OrganizationError organization_path_invalid)) else retA ()) s = (Inr u1, s)"
    and "dir_apply (SetPositionActive i r a u) s = Inr s'"
  then have old: "jm_get (ds_positions s) i = Some q"
    and name: "dir_positionName (ds_positions s) (q\<lparr>dq_active := a,
      dq_revision := dq_revision q + 1, dq_updatedAt := u\<rparr>) = Inr ()"
    and s': "s' = s\<lparr>ds_positions := jm_set (ds_positions s) (dq_id q) (q\<lparr>dq_active := a,
      dq_revision := dq_revision q + 1, dq_updatedAt := u\<rparr>)\<rparr>"
    by (auto simp: dir_savePosition_Inr lookup_ok)
  from home have "a \<Longrightarrow> \<exists>d. jm_get (ds_departments s) (dq_unit q) = Some d \<and> dp_active d"
    by (auto simp: bindA_eq_Inr lookup_ok)
  with dir_inv_ids(2) [OF inv old] show "dir_inv s'"
    unfolding s' by (intro pos_save_inv inv name) simp_all
qed

lemma dir_exec_keeps: "dir_inv s \<Longrightarrow> dir_inv (snd (dir_exec env c s))"
proof (cases c)
  case (Dir_markReference d p)
  assume "dir_inv s"
  moreover have "dir_inv (markActiveAssignmentReference d p s) = dir_inv s"
    by (rule dir_inv_same) (simp_all add: markActiveAssignmentReference_def)
  ultimately show ?thesis by (simp add: Dir_markReference)
qed (auto simp: discardA_def intro!: after_ret [where P = dir_inv] upsert_keeps createDepartment_keeps
    updateDepartment_keeps setDepartmentActive_keeps createPosition_keeps updatePosition_keeps
    setPositionActive_keeps)

lemma dir_inv_start: "dir_inv emptyDirectoryStore"
  by (simp add: dir_inv_def dep_inv_def dep_parents_def dir_edges_def dep_names_def acyclic_def
      pos_inv_def pos_names_def pos_homes_def emptyDirectoryStore_def)

interpretation directory: guarded_machine "dir_exec env" dir_inv
  by unfold_locales (rule dir_exec_keeps)

abbreviation dir_reached :: "dir_env \<Rightarrow> dir_command list \<Rightarrow> dir_store" where
  "dir_reached env cs \<equiv> run_all (dir_exec env) cs emptyDirectoryStore"

text \<open>Whatever commands are given, no department is its own ancestor.\<close>

theorem directory_acyclic: "acyclic (dir_edges (ds_departments (dir_reached env cs)))"
  using directory.run_keeps [OF dir_inv_start, of env cs] by (simp add: dir_inv_def dep_inv_def)

text \<open>
  What is active hangs below what is active: the parent of an active department exists and is
  active, and so is the department of an active position.
\<close>

theorem directory_active_path:
  "dep_parents (ds_departments (dir_reached env cs)) \<and> pos_homes (dir_reached env cs)"
  using directory.run_keeps [OF dir_inv_start, of env cs] by (simp add: dir_inv_def dep_inv_def)

text \<open>
  Active departments with the same parent have different normalized names, and so have the
  active positions of one department.
\<close>

theorem directory_unique_names:
  "dep_names (ds_departments (dir_reached env cs)) \<and> pos_names (ds_positions (dir_reached env cs))"
  using directory.run_keeps [OF dir_inv_start, of env cs]
  by (simp add: dir_inv_def dep_inv_def pos_inv_def)

end
