(* ===== verification/EventValidation.thy ===== *)
theory EventValidation
  imports JsLib
begin

text \<open>
  The envelopes of the eventing module
  (\<open>packages/crm-modules/eventing-outbox/src/\<close>: \<open>errors.ts\<close>, \<open>validation.ts\<close> and the
  message types of \<open>types.ts\<close>): what is accepted as an event or a job, and the canonical text that
  is stored and digested. SHA-256, \<open>localeCompare\<close> and the text of a number in JSON are
  parameters. Every check throws the same error, so their order is not observable.
\<close>

section \<open>Errors\<close>

datatype ev_code =
    eventing_conflict
  | eventing_invalid_input
  | eventing_handler_timeout
  | eventing_not_found
  | eventing_operation_denied
  | eventing_storage_unavailable

text \<open>An \<open>EventingError\<close> with its \<open>retryable\<close> flag, or what a port or a handler throws.\<close>

datatype ev_failure = EventingError ev_code bool | EvPortError string

abbreviation ev_error :: "ev_code \<Rightarrow> ev_failure" where
  "ev_error c \<equiv> EventingError c False"

abbreviation ev_invalid :: "ev_failure + 'a" where
  "ev_invalid \<equiv> Inl (ev_error eventing_invalid_input)"

section \<open>Patterns\<close>

text \<open>\<open>[a-z][a-z0-9-]*\<close>\<close>

definition ev_segment :: "string \<Rightarrow> bool" where
  "ev_segment s = (case s of [] \<Rightarrow> False | c # cs \<Rightarrow> c \<in> set lower \<and> all_in (lower @ digits @ ''-'') cs)"

text \<open>\<open>v[1-9][0-9]*\<close>\<close>

definition version_tag :: "string \<Rightarrow> bool" where
  "version_tag s = (case s of
     v # d # ds \<Rightarrow> v = CHR ''v'' \<and> d \<in> set ''123456789'' \<and> all_in digits ds
   | _ \<Rightarrow> False)"

definition ev_type_ok :: "string \<Rightarrow> bool" where
  "ev_type_ok s = (let ps = split_on (CHR ''.'') s in
     3 \<le> length ps \<and> list_all ev_segment (butlast ps) \<and> version_tag (last ps))"

text \<open>\<open>Number(match[2])\<close>\<close>

definition ev_type_version :: "string \<Rightarrow> int" where
  "ev_type_version s = read_digits (tl (last (split_on (CHR ''.'') s)))"

definition ev_identifier_ok :: "string \<Rightarrow> bool" where
  "ev_identifier_ok s = (let ps = split_on (CHR ''.'') s in 2 \<le> length ps \<and> list_all ev_segment ps)"

text \<open>The rest of a string after a fixed prefix.\<close>

definition after_prefix :: "string \<Rightarrow> string \<Rightarrow> string option" where
  "after_prefix p s = (if take (length p) s = p then Some (drop (length p) s) else None)"

definition ev_source_ok :: "string \<Rightarrow> bool" where
  "ev_source_ok s = (case after_prefix ''urn:ai-crm:'' s of
     Some (c # cs) \<Rightarrow> c \<in> set lower \<and> all_in (lower @ digits @ ''.-'') cs
   | _ \<Rightarrow> False)"

definition traceparent_ok :: "string \<Rightarrow> bool" where
  "traceparent_ok s = matches_classes
     ([''0'', ''0'', ''-''] @ replicate 32 hex_lower @ [''-''] @ replicate 16 hex_lower @ [''-'']
      @ replicate 2 hex_lower) s"

definition printable :: "char \<Rightarrow> bool" where
  "printable c \<longleftrightarrow> (32::int) \<le> of_char c \<and> (of_char c :: int) \<le> 126"

definition tracestate_ok :: "string \<Rightarrow> bool" where
  "tracestate_ok s \<longleftrightarrow> s \<noteq> [] \<and> list_all printable s"

text \<open>\<open>[a-z0-9:-]+:v[1-9][0-9]*\<close> after either prefix\<close>

definition dataschema_ok :: "string \<Rightarrow> bool" where
  "dataschema_ok s =
     list_ex (\<lambda>p. case after_prefix p s of
         None \<Rightarrow> False
       | Some r \<Rightarrow> (let ps = split_on (CHR '':'') r; x = join '':'' (butlast ps) in
           x \<noteq> [] \<and> all_in (lower @ digits @ '':-'') x \<and> version_tag (last ps)))
       [''urn:ai-crm:events:'', ''urn:ai-crm:models:'']"

definition subject_ok :: "string \<Rightarrow> bool" where
  "subject_ok s = shape alnum (alnum @ ''._:@/-'') 0 254 s"

definition idempotencyKey_ok :: "string \<Rightarrow> bool" where
  "idempotencyKey_ok s = shape alnum (alnum @ ''._:@/-'') 7 127 s"

definition ev_reason_ok :: "string \<Rightarrow> bool" where
  "ev_reason_ok s = shape alnum (alnum @ '' ._:@/()-'') 7 511 s"

section \<open>Readers of unknown values\<close>

definition ev_record :: "js_value \<Rightarrow> ev_failure + (string \<times> js_value) list" where
  "ev_record v = (case v of JObject fs \<Rightarrow> Inr fs | _ \<Rightarrow> ev_invalid)"

definition ev_text :: "js_value \<Rightarrow> (string \<Rightarrow> bool) \<Rightarrow> int \<Rightarrow> ev_failure + string" where
  "ev_text v pattern maximum = (case v of
     JString s \<Rightarrow> if int (length s) \<le> maximum \<and> pattern s then Inr s else ev_invalid
   | _ \<Rightarrow> ev_invalid)"

definition ev_optional :: "js_value \<Rightarrow> (string \<Rightarrow> bool) \<Rightarrow> int \<Rightarrow> ev_failure + string option" where
  "ev_optional v pattern maximum =
     (if v = JUndefined then Inr None else bindE (ev_text v pattern maximum) (\<lambda>s. Inr (Some s)))"

definition ev_exact ::
  "(string \<times> js_value) list \<Rightarrow> string list \<Rightarrow> string list \<Rightarrow> ev_failure + unit" where
  "ev_exact fs required optionalKeys =
     (let keys = map fst fs in
      if list_ex (\<lambda>k. k \<notin> set keys) required
         \<or> list_ex (\<lambda>k. k \<notin> set required \<and> k \<notin> set optionalKeys) keys
      then ev_invalid else Inr ())"

text \<open>
  A string of the ISO shape that \<open>toISOString\<close> gives back: engines may read a malformed date of
  that shape in their own way, but never give it back.
\<close>

definition ev_time :: "js_value \<Rightarrow> ev_failure + string \<times> int" where
  "ev_time v =
     bindE (ev_text v (matches_classes iso_classes) 24) (\<lambda>raw.
       case canonical_time (\<lambda>_. None) raw of
         None \<Rightarrow> ev_invalid
       | Some t \<Rightarrow> Inr (raw, t))"

definition ev_trace ::
  "(string \<times> js_value) list \<Rightarrow> ev_failure + string option \<times> string option" where
  "ev_trace fs =
     bindE (ev_optional (js_field fs ''traceparent'') traceparent_ok 55) (\<lambda>tp.
     bindE (ev_optional (js_field fs ''tracestate'') tracestate_ok 512) (\<lambda>ts. Inr (tp, ts)))"

section \<open>Canonical data\<close>

record ev_lib =
  el_sha256 :: "string \<Rightarrow> string"
  el_showNum :: "jsnum \<Rightarrow> string"
  el_before :: "string \<Rightarrow> string \<Rightarrow> bool"

text \<open>
  An object that is built from entries enumerates its integer keys first, in ascending order, then
  the other keys in the order they were added.
\<close>

definition index_key :: "string \<Rightarrow> bool" where
  "index_key k \<longleftrightarrow> k \<noteq> [] \<and> all_in digits k \<and> (hd k \<noteq> CHR ''0'' \<or> k = ''0'')
     \<and> read_digits k \<le> 4294967294"

definition js_object :: "(string \<times> js_value) list \<Rightarrow> js_value" where
  "js_object es = JObject
     (sort_by (\<lambda>a b. read_digits (fst a) < read_digits (fst b)) (filter (\<lambda>e. index_key (fst e)) es)
      @ filter (\<lambda>e. \<not> index_key (fst e)) es)"

fun ev_json :: "ev_lib \<Rightarrow> nat \<Rightarrow> js_value \<Rightarrow> ev_failure + js_value" where
  "ev_json lib depth JUndefined = ev_invalid"
| "ev_json lib depth JNull = (if 16 < depth then ev_invalid else Inr JNull)"
| "ev_json lib depth (JBool b) = (if 16 < depth then ev_invalid else Inr (JBool b))"
| "ev_json lib depth (JString s) = (if 16 < depth then ev_invalid else Inr (JString s))"
| "ev_json lib depth (JNumber n) =
     (if 16 < depth \<or> \<not> isFinite n then ev_invalid else Inr (JNumber n))"
| "ev_json lib depth (JArray vs) =
     (if 16 < depth then ev_invalid
      else bindE (mapE (ev_json lib (depth + 1)) vs) (\<lambda>ws. Inr (JArray ws)))"
| "ev_json lib depth (JObject fs) =
     (if 16 < depth \<or> 256 < length fs then ev_invalid
      else bindE (mapE (\<lambda>e. if length (fst e) < 1 \<or> 128 < length (fst e) then ev_invalid
                           else bindE (ev_json lib (depth + 1) (snd e)) (\<lambda>w. Inr (fst e, w)))
                   (sort_by (\<lambda>a b. el_before lib (fst a) (fst b)) fs))
             (\<lambda>es. Inr (js_object es)))"

text \<open>\<open>JSON.stringify\<close> of a value without \<open>undefined\<close>.\<close>

fun js_stringify :: "(jsnum \<Rightarrow> string) \<Rightarrow> js_value \<Rightarrow> string" where
  "js_stringify num JUndefined = ''undefined''"
| "js_stringify num JNull = ''null''"
| "js_stringify num (JBool b) = (if b then ''true'' else ''false'')"
| "js_stringify num (JNumber n) = num n"
| "js_stringify num (JString s) = json_quote s"
| "js_stringify num (JArray vs) = ''['' @ join '','' (map (js_stringify num) vs) @ '']''"
| "js_stringify num (JObject fs) =
     ''{'' @ join '','' (map (\<lambda>e. json_quote (fst e) @ '':'' @ js_stringify num (snd e)) fs) @ ''}''"

definition utf8_length :: "string \<Rightarrow> int" where
  "utf8_length s = int (length s) + int (length (filter (\<lambda>c. (128::int) \<le> of_char c) s))"

section \<open>Messages\<close>

datatype message_kind = Event | Job

text \<open>The policy of a job envelope; an event has none.\<close>

record job_policy =
  jp_maxAttempts :: int
  jp_backoffSeconds :: "int list"
  jp_timeoutMs :: int

record validated_message =
  vm_envelope :: js_value
  vm_policy :: "job_policy option"
  vm_idempotencyKey :: "string option"
  vm_messageId :: string
  vm_messageKind :: message_kind
  vm_messageType :: string
  vm_messageVersion :: int
  vm_producer :: string
  vm_occurredAt :: int
  vm_availableAt :: int
  vm_correlationId :: string
  vm_causationId :: "string option"
  vm_traceparent :: "string option"
  vm_tracestate :: "string option"
  vm_serialized :: string
  vm_payloadSha256 :: string

definition js_opt :: "string \<Rightarrow> string option \<Rightarrow> (string \<times> js_value) list" where
  "js_opt k v = (case v of None \<Rightarrow> [] | Some s \<Rightarrow> [(k, JString s)])"

definition ev_finish :: "ev_lib \<Rightarrow> validated_message \<Rightarrow> ev_failure + validated_message" where
  "ev_finish lib m =
     (let serialized = js_stringify (el_showNum lib) (vm_envelope m) in
      if 262144 < utf8_length serialized then ev_invalid
      else Inr (m\<lparr>vm_serialized := serialized, vm_payloadSha256 := el_sha256 lib serialized\<rparr>))"

definition validateEventEnvelope :: "ev_lib \<Rightarrow> js_value \<Rightarrow> ev_failure + validated_message" where
  "validateEventEnvelope lib input =
     bindE (ev_record input) (\<lambda>v. let f = js_field v in
     bindE (ev_exact v [''specversion'', ''id'', ''source'', ''type'', ''time'', ''datacontenttype'',
              ''dataschema'', ''correlationid'', ''data'']
              [''subject'', ''causationid'', ''traceparent'', ''tracestate'']) (\<lambda>_.
     bindE (ensure (f ''specversion'' = JString ''1.0'' \<and> f ''datacontenttype'' = JString ''application/json'')
              (ev_error eventing_invalid_input)) (\<lambda>_.
     bindE (ev_text (f ''id'') uuid_lower 36) (\<lambda>messageId.
     bindE (ev_text (f ''type'') ev_type_ok 160) (\<lambda>typed.
     bindE (ev_time (f ''time'')) (\<lambda>(timeText, occurred).
     bindE (ev_text (f ''correlationid'') uuid_lower 36) (\<lambda>correlationId.
     bindE (ev_optional (f ''causationid'') uuid_lower 36) (\<lambda>causationId.
     bindE (ev_trace v) (\<lambda>(traceparent, tracestate).
     bindE (ev_text (f ''source'') ev_source_ok 256) (\<lambda>source.
     bindE (ev_text (f ''dataschema'') dataschema_ok 512) (\<lambda>dataschema.
     bindE (ev_json lib 0 (f ''data'')) (\<lambda>data.
     bindE (ev_optional (f ''subject'') subject_ok 255) (\<lambda>subject.
     ev_finish lib \<lparr>vm_envelope = JObject ([(''specversion'', JString ''1.0''), (''id'', JString messageId),
         (''source'', JString source), (''type'', JString typed), (''time'', JString timeText),
         (''datacontenttype'', JString ''application/json''), (''dataschema'', JString dataschema),
         (''correlationid'', JString correlationId), (''data'', data)] @ js_opt ''subject'' subject
         @ js_opt ''causationid'' causationId @ js_opt ''traceparent'' traceparent
         @ js_opt ''tracestate'' tracestate),
       vm_policy = None, vm_idempotencyKey = None, vm_messageId = messageId, vm_messageKind = Event,
       vm_messageType = typed, vm_messageVersion = ev_type_version typed, vm_producer = source,
       vm_occurredAt = occurred, vm_availableAt = occurred, vm_correlationId = correlationId,
       vm_causationId = causationId, vm_traceparent = traceparent, vm_tracestate = tracestate,
       vm_serialized = [], vm_payloadSha256 = []\<rparr>)))))))))))))"

text \<open>\<open>Number.isInteger(value)\<close> and between two bounds.\<close>

definition ev_bounded :: "js_value \<Rightarrow> int \<Rightarrow> int \<Rightarrow> ev_failure + int" where
  "ev_bounded v lo hi = (case v of
     JNumber n \<Rightarrow>
       if isInteger n \<and> lo \<le> num_int n \<and> num_int n \<le> hi then Inr (num_int n) else ev_invalid
   | _ \<Rightarrow> ev_invalid)"

text \<open>\<open>backoffSeconds\<close>: one delay per attempt but the first.\<close>

definition ev_backoff :: "js_value \<Rightarrow> int \<Rightarrow> ev_failure + int list" where
  "ev_backoff v maxAttempts = (case v of
     JArray vs \<Rightarrow> if int (length vs) \<noteq> maxAttempts - 1 then ev_invalid
                  else mapE (\<lambda>x. ev_bounded x 1 86400) vs
   | _ \<Rightarrow> ev_invalid)"

definition ev_policy :: "js_value \<Rightarrow> ev_failure + job_policy" where
  "ev_policy v =
     bindE (ev_record v) (\<lambda>p.
     bindE (ev_exact p [''maxAttempts'', ''backoffSeconds'', ''timeoutMs'', ''failureDisposition''] []) (\<lambda>_.
     bindE (ev_bounded (js_field p ''maxAttempts'') 1 16) (\<lambda>maxAttempts.
     bindE (ev_backoff (js_field p ''backoffSeconds'') maxAttempts) (\<lambda>backoff.
     bindE (ev_bounded (js_field p ''timeoutMs'') 100 900000) (\<lambda>timeout.
     bindE (ensure (js_field p ''failureDisposition'' = JString ''isolate'')
              (ev_error eventing_invalid_input)) (\<lambda>_.
     Inr \<lparr>jp_maxAttempts = maxAttempts, jp_backoffSeconds = backoff, jp_timeoutMs = timeout\<rparr>))))))"

definition js_int :: "int \<Rightarrow> js_value" where
  "js_int i = JNumber (Fin (of_int i))"

definition validateJobEnvelope :: "ev_lib \<Rightarrow> js_value \<Rightarrow> ev_failure + validated_message" where
  "validateJobEnvelope lib input =
     bindE (ev_record input) (\<lambda>v. let f = js_field v in
     bindE (ev_exact v [''jobId'', ''jobType'', ''jobVersion'', ''source'', ''idempotencyKey'',
              ''requestedAt'', ''correlationId'', ''policy'', ''payload'']
              [''notBefore'', ''causationId'', ''traceparent'', ''tracestate'']) (\<lambda>_.
     bindE (ev_time (f ''requestedAt'')) (\<lambda>(requestedText, requested).
     bindE (if f ''notBefore'' = JUndefined then Inr (requestedText, requested)
            else ev_time (f ''notBefore'')) (\<lambda>(availableText, available).
     bindE (ensure (\<not> available < requested) (ev_error eventing_invalid_input)) (\<lambda>_.
     bindE (ev_bounded (f ''jobVersion'') 1 1000) (\<lambda>version.
     bindE (ev_policy (f ''policy'')) (\<lambda>policy.
     bindE (ev_text (f ''jobId'') uuid_lower 36) (\<lambda>messageId.
     bindE (ev_text (f ''correlationId'') uuid_lower 36) (\<lambda>correlationId.
     bindE (ev_optional (f ''causationId'') uuid_lower 36) (\<lambda>causationId.
     bindE (ev_trace v) (\<lambda>(traceparent, tracestate).
     bindE (ev_text (f ''jobType'') ev_identifier_ok 128) (\<lambda>jobType.
     bindE (ev_text (f ''source'') ev_source_ok 256) (\<lambda>source.
     bindE (ev_text (f ''idempotencyKey'') idempotencyKey_ok 128) (\<lambda>idempotencyKey.
     bindE (ev_json lib 0 (f ''payload'')) (\<lambda>payload.
     ev_finish lib \<lparr>vm_envelope = JObject ([(''jobId'', JString messageId), (''jobType'', JString jobType),
         (''jobVersion'', js_int version), (''source'', JString source),
         (''idempotencyKey'', JString idempotencyKey), (''requestedAt'', JString requestedText)]
         @ (if f ''notBefore'' = JUndefined then [] else [(''notBefore'', JString availableText)])
         @ [(''correlationId'', JString correlationId)] @ js_opt ''causationId'' causationId
         @ js_opt ''traceparent'' traceparent @ js_opt ''tracestate'' tracestate
         @ [(''policy'', JObject [(''maxAttempts'', js_int (jp_maxAttempts policy)),
               (''backoffSeconds'', JArray (map js_int (jp_backoffSeconds policy))),
               (''timeoutMs'', js_int (jp_timeoutMs policy)),
               (''failureDisposition'', JString ''isolate'')]), (''payload'', payload)]),
       vm_policy = Some policy, vm_idempotencyKey = Some idempotencyKey, vm_messageId = messageId,
       vm_messageKind = Job, vm_messageType = jobType, vm_messageVersion = version,
       vm_producer = source, vm_occurredAt = requested, vm_availableAt = available,
       vm_correlationId = correlationId, vm_causationId = causationId,
       vm_traceparent = traceparent, vm_tracestate = tracestate,
       vm_serialized = [], vm_payloadSha256 = []\<rparr>)))))))))))))))"

text \<open>\<open>"specversion" in input\<close>\<close>

definition validateMessageEnvelope :: "ev_lib \<Rightarrow> js_value \<Rightarrow> ev_failure + validated_message" where
  "validateMessageEnvelope lib input =
     (if (case input of JObject fs \<Rightarrow> ''specversion'' \<in> set (map fst fs) | _ \<Rightarrow> False)
      then validateEventEnvelope lib input else validateJobEnvelope lib input)"

definition validateConsumerName :: "js_value \<Rightarrow> ev_failure + string" where
  "validateConsumerName v = ev_text v ev_identifier_ok 128"

definition validateReason :: "js_value \<Rightarrow> ev_failure + string" where
  "validateReason v = ev_text v ev_reason_ok 512"

definition validateUuid :: "js_value \<Rightarrow> ev_failure + string" where
  "validateUuid v = ev_text v uuid_lower 36"

section \<open>What an accepted message guarantees\<close>

definition job_policy_ok :: "job_policy \<Rightarrow> bool" where
  "job_policy_ok p \<longleftrightarrow>
     1 \<le> jp_maxAttempts p \<and> jp_maxAttempts p \<le> 16
     \<and> int (length (jp_backoffSeconds p)) = jp_maxAttempts p - 1
     \<and> list_all (\<lambda>b. 1 \<le> b \<and> b \<le> 86400) (jp_backoffSeconds p)
     \<and> 100 \<le> jp_timeoutMs p \<and> jp_timeoutMs p \<le> 900000"

definition message_ok :: "ev_lib \<Rightarrow> validated_message \<Rightarrow> bool" where
  "message_ok lib m \<longleftrightarrow>
     uuid_lower (vm_messageId m) \<and> uuid_lower (vm_correlationId m) \<and> ev_source_ok (vm_producer m)
     \<and> vm_occurredAt m \<le> vm_availableAt m \<and> utf8_length (vm_serialized m) \<le> 262144
     \<and> vm_serialized m = js_stringify (el_showNum lib) (vm_envelope m)
     \<and> vm_payloadSha256 m = el_sha256 lib (vm_serialized m)
     \<and> (case vm_messageKind m of
          Event \<Rightarrow> vm_policy m = None \<and> ev_type_ok (vm_messageType m)
        | Job \<Rightarrow> (\<exists>p. vm_policy m = Some p \<and> job_policy_ok p) \<and> vm_idempotencyKey m \<noteq> None)"

lemma ev_text_Inr: "ev_text v pat n = Inr s \<longleftrightarrow> v = JString s \<and> int (length s) \<le> n \<and> pat s"
  by (auto simp: ev_text_def split: js_value.splits)

lemma ev_bounded_Inr: "ev_bounded v lo hi = Inr i \<Longrightarrow> lo \<le> i \<and> i \<le> hi"
  by (auto simp: ev_bounded_def split: js_value.splits if_splits)

lemma mapE_bounded: "mapE (\<lambda>x. ev_bounded x lo hi) vs = Inr is \<Longrightarrow> list_all (\<lambda>i. lo \<le> i \<and> i \<le> hi) is"
  by (induction vs arbitrary: "is") (auto simp: bindE_eq_Inr dest: ev_bounded_Inr)

lemma ev_backoff_ok:
  "ev_backoff v n = Inr is \<Longrightarrow> int (length is) = n - 1 \<and> list_all (\<lambda>b. 1 \<le> b \<and> b \<le> 86400) is"
  by (auto simp: ev_backoff_def split: js_value.splits if_splits dest: mapE_bounded mapE_length)

lemma ev_policy_ok: "ev_policy v = Inr p \<Longrightarrow> job_policy_ok p"
  by (auto simp: ev_policy_def bindE_eq_Inr job_policy_ok_def dest!: ev_bounded_Inr ev_backoff_ok)

lemma ev_finish_Inr:
  "ev_finish lib m = Inr m' \<longleftrightarrow>
     utf8_length (js_stringify (el_showNum lib) (vm_envelope m)) \<le> 262144
     \<and> m' = m\<lparr>vm_serialized := js_stringify (el_showNum lib) (vm_envelope m),
         vm_payloadSha256 := el_sha256 lib (js_stringify (el_showNum lib) (vm_envelope m))\<rparr>"
  by (auto simp: ev_finish_def Let_def)

lemma event_message_ok: "validateEventEnvelope lib v = Inr m \<Longrightarrow> message_ok lib m"
  unfolding validateEventEnvelope_def
  by (auto simp: Let_def bindE_eq_Inr ev_text_Inr ev_finish_Inr message_ok_def)

lemma job_message_ok: "validateJobEnvelope lib v = Inr m \<Longrightarrow> message_ok lib m"
  unfolding validateJobEnvelope_def
  by (auto simp: Let_def bindE_eq_Inr ev_text_Inr ev_finish_Inr message_ok_def dest: ev_policy_ok)

text \<open>
  Every accepted message has well formed identifiers, a canonical text of bounded size that is
  what is digested, is not available before it occurred, and when it is a job carries a retry policy
  within the bounds the rest of the code relies on (one delay per retry, at most 16 attempts).
\<close>

theorem validated_message_ok:
  assumes "validateMessageEnvelope lib input = Inr m"
  shows "message_ok lib m"
  using assms by (auto simp: validateMessageEnvelope_def split: if_splits
      intro: event_message_ok job_message_ok)

subsection \<open>Sample messages\<close>

definition sample_lib :: ev_lib where
  "sample_lib = \<lparr>el_sha256 = (\<lambda>s. ''sha:'' @ s),
     el_showNum = (\<lambda>n. show_int (num_int n)), el_before = str_lt\<rparr>"

definition sample_event_input :: "string \<Rightarrow> js_value" where
  "sample_event_input d = JObject
     [(''specversion'', JString ''1.0''), (''id'', JString ''00000000-0000-4000-8000-000000000001''),
      (''source'', JString ''urn:ai-crm:crm''), (''type'', JString ''crm.customer.created.v1''),
      (''time'', JString ''2024-01-01T00:00:00.000Z''),
      (''datacontenttype'', JString ''application/json''),
      (''dataschema'', JString ''urn:ai-crm:events:customer:v1''),
      (''correlationid'', JString ''00000000-0000-4000-8000-000000000002''),
      (''data'', JObject [(''b'', JString d), (''a'', JNumber (Fin 3))])]"

definition sample_job_input :: js_value where
  "sample_job_input = JObject
     [(''jobId'', JString ''00000000-0000-4000-8000-000000000003''), (''jobType'', JString ''crm.sync''),
      (''jobVersion'', JNumber (Fin 1)), (''source'', JString ''urn:ai-crm:crm''),
      (''idempotencyKey'', JString ''sync-key-1''), (''requestedAt'', JString ''2024-01-01T00:00:00.000Z''),
      (''correlationId'', JString ''00000000-0000-4000-8000-000000000002''),
      (''policy'', JObject [(''maxAttempts'', JNumber (Fin 2)), (''backoffSeconds'', JArray [JNumber (Fin 5)]),
         (''timeoutMs'', JNumber (Fin 1000)), (''failureDisposition'', JString ''isolate'')]),
      (''payload'', JNull)]"

definition sample_event :: validated_message where
  "sample_event = projr (validateMessageEnvelope sample_lib (sample_event_input ''x''))"

definition sample_job :: validated_message where
  "sample_job = projr (validateMessageEnvelope sample_lib sample_job_input)"

lemma sample_event_valid: "validateMessageEnvelope sample_lib (sample_event_input ''x'') = Inr sample_event"
  unfolding sample_event_def by (rule projr_ok) code_simp

lemma sample_job_valid: "validateMessageEnvelope sample_lib sample_job_input = Inr sample_job"
  unfolding sample_job_def by (rule projr_ok) code_simp

theorem validated_message_ok_witness: "message_ok sample_lib sample_job"
  by (rule validated_message_ok [OF sample_job_valid])

end
