(* ===== verification/EventStore.thy ===== *)
theory EventStore
  imports EventValidation
begin

text \<open>
  The eventing module's records, its in-memory store, the outbox publisher and the operational
  commands (\<open>packages/crm-modules/eventing-outbox/src/\<close>: \<open>store.ts\<close>, \<open>memory-store.ts\<close>,
  \<open>publisher.ts\<close>, \<open>operations.ts\<close>). Times are milliseconds.
\<close>

section \<open>Records\<close>

datatype outbox_status = Pending | Publishing | Published | Isolated

record outbox_record =
  ob_messageId :: string
  ob_messageKind :: message_kind
  ob_messageType :: string
  ob_messageVersion :: int
  ob_producer :: string
  ob_occurredAt :: int
  ob_availableAt :: int
  ob_correlationId :: string
  ob_payload :: string
  ob_payloadSha256 :: string
  ob_attemptCount :: int
  ob_status :: outbox_status
  ob_causationId :: "string option"
  ob_traceparent :: "string option"
  ob_tracestate :: "string option"
  ob_claimToken :: "string option"
  ob_claimedAt :: "int option"
  ob_publishedAt :: "int option"
  ob_isolatedAt :: "int option"
  ob_lastErrorCode :: "string option"

record inbox_receipt =
  ir_messageId :: string
  ir_consumer :: string
  ir_payloadSha256 :: string
  ir_completedAt :: int

datatype job_status = Queued | Processing | Cancelled | Completed | JobIsolated

record job_record =
  jr_jobId :: string
  jr_idempotencyKey :: string
  jr_fingerprint :: string
  jr_status :: job_status
  jr_envelope :: js_value
  jr_cancelReason :: "string option"

datatype isolation_reason = Payload_conflict | Unsupported_message | Authoritative_state_rejected

record isolation_record =
  is_isolationId :: string
  is_messageId :: string
  is_consumer :: string
  is_payloadSha256 :: string
  is_reason :: isolation_reason
  is_attempt :: int
  is_isolatedAt :: int

definition outboxRecord :: "validated_message \<Rightarrow> outbox_record" where
  "outboxRecord m = \<lparr>ob_messageId = vm_messageId m, ob_messageKind = vm_messageKind m,
     ob_messageType = vm_messageType m, ob_messageVersion = vm_messageVersion m,
     ob_producer = vm_producer m, ob_occurredAt = vm_occurredAt m, ob_availableAt = vm_availableAt m,
     ob_correlationId = vm_correlationId m, ob_payload = vm_serialized m,
     ob_payloadSha256 = vm_payloadSha256 m, ob_attemptCount = 0, ob_status = Pending,
     ob_causationId = vm_causationId m, ob_traceparent = vm_traceparent m,
     ob_tracestate = vm_tracestate m, ob_claimToken = None, ob_claimedAt = None,
     ob_publishedAt = None, ob_isolatedAt = None, ob_lastErrorCode = None\<rparr>"

section \<open>The in-memory store\<close>

record ev_store =
  es_outbox :: "(string, outbox_record) jsmap"
  es_inbox :: "(string, inbox_receipt) jsmap"
  es_jobs :: "(string, job_record) jsmap"
  es_isolations :: "(string, isolation_record) jsmap"
  es_failPublished :: bool

definition emptyEventingStore :: ev_store where
  "emptyEventingStore = \<lparr>es_outbox = [], es_inbox = [], es_jobs = [], es_isolations = [],
     es_failPublished = False\<rparr>"

type_synonym ('s, 'a) ev_act = "('s, ev_failure, 'a) act"

definition inboxKey :: "string \<Rightarrow> string \<Rightarrow> string" where
  "inboxKey messageId consumer = messageId @ [CHR 0x00] @ consumer"

definition appendOutbox :: "outbox_record \<Rightarrow> (ev_store, unit) ev_act" where
  "appendOutbox r s =
     (if jm_has (es_outbox s) (ob_messageId r) then (Inl (ev_error eventing_conflict), s)
      else (Inr (), s\<lparr>es_outbox := jm_set (es_outbox s) (ob_messageId r) r\<rparr>))"

text \<open>The rows a claim takes: due pending rows and rows whose claim is stale, oldest first.\<close>

definition claimable :: "int \<Rightarrow> int \<Rightarrow> outbox_record \<Rightarrow> bool" where
  "claimable now staleBefore r \<longleftrightarrow>
     ob_status r = Pending \<and> ob_availableAt r \<le> now
     \<or> ob_status r = Publishing \<and> (case ob_claimedAt r of None \<Rightarrow> False | Some t \<Rightarrow> t \<le> staleBefore)"

definition claim_rows :: "int \<Rightarrow> int \<Rightarrow> nat \<Rightarrow> ev_store \<Rightarrow> outbox_record list" where
  "claim_rows now staleBefore limit s =
     take limit (sort_by (\<lambda>a b. ob_availableAt a < ob_availableAt b)
       (filter (claimable now staleBefore) (jm_values (es_outbox s))))"

text \<open>\<open>token i\<close> is what the \<open>i\<close>th call of the token source returned.\<close>

fun claim_each ::
  "int \<Rightarrow> (nat \<Rightarrow> string) \<Rightarrow> nat \<Rightarrow> outbox_record list \<Rightarrow> ev_store \<Rightarrow> outbox_record list \<times> ev_store" where
  "claim_each now token i [] s = ([], s)"
| "claim_each now token i (r # rs) s =
     (let r' = r\<lparr>ob_status := Publishing, ob_attemptCount := ob_attemptCount r + 1,
                 ob_claimToken := Some (token i), ob_claimedAt := Some now\<rparr>;
          (rs', s') = claim_each now token (i + 1) rs
             (s\<lparr>es_outbox := jm_set (es_outbox s) (ob_messageId r) r'\<rparr>)
      in (r' # rs', s'))"

definition claimOutbox ::
  "int \<Rightarrow> int \<Rightarrow> nat \<Rightarrow> (nat \<Rightarrow> string) \<Rightarrow> ev_store \<Rightarrow> outbox_record list \<times> ev_store" where
  "claimOutbox now staleBefore limit token s =
     claim_each now token 0 (claim_rows now staleBefore limit s) s"

definition held_by :: "string \<Rightarrow> outbox_record option \<Rightarrow> bool" where
  "held_by token r = (case r of None \<Rightarrow> False
     | Some r \<Rightarrow> ob_status r = Publishing \<and> ob_claimToken r = Some token)"

definition markOutboxPublished :: "string \<Rightarrow> string \<Rightarrow> int \<Rightarrow> (ev_store, bool) ev_act" where
  "markOutboxPublished i token now s =
     (if es_failPublished s then (Inl (EventingError eventing_storage_unavailable True), s)
      else let r = jm_get (es_outbox s) i in
        if \<not> held_by token r then (Inr False, s)
        else (Inr True, s\<lparr>es_outbox := jm_set (es_outbox s) i ((the r)\<lparr>ob_status := Published,
                ob_publishedAt := Some now, ob_claimToken := None, ob_claimedAt := None\<rparr>)\<rparr>))"

definition markOutboxFailure ::
  "string \<Rightarrow> string \<Rightarrow> int \<Rightarrow> int \<Rightarrow> string \<Rightarrow> bool \<Rightarrow> (ev_store, bool) ev_act" where
  "markOutboxFailure i token now availableAt errorCode isolate s =
     (let r = jm_get (es_outbox s) i in
      if \<not> held_by token r then (Inr False, s)
      else (Inr True, s\<lparr>es_outbox := jm_set (es_outbox s) i ((the r)
              \<lparr>ob_status := (if isolate then Isolated else Pending), ob_availableAt := availableAt,
               ob_lastErrorCode := Some errorCode,
               ob_isolatedAt := (if isolate then Some now else None),
               ob_claimToken := None, ob_claimedAt := None\<rparr>)\<rparr>))"

definition store_replayOutbox :: "string \<Rightarrow> int \<Rightarrow> (ev_store, bool) ev_act" where
  "store_replayOutbox i now s =
     (case jm_get (es_outbox s) i of
        None \<Rightarrow> (Inr False, s)
      | Some r \<Rightarrow>
          if ob_status r \<noteq> Isolated then (Inr False, s)
          else (Inr True, s\<lparr>es_outbox := jm_set (es_outbox s) i (r\<lparr>ob_status := Pending,
                  ob_attemptCount := 0, ob_availableAt := now, ob_isolatedAt := None,
                  ob_lastErrorCode := None\<rparr>)\<rparr>))"

definition findInboxReceipt :: "string \<Rightarrow> string \<Rightarrow> ev_store \<Rightarrow> inbox_receipt option" where
  "findInboxReceipt i c s = jm_get (es_inbox s) (inboxKey i c)"

definition createInboxReceipt :: "inbox_receipt \<Rightarrow> (ev_store, unit) ev_act" where
  "createInboxReceipt r s =
     (let k = inboxKey (ir_messageId r) (ir_consumer r) in
      if jm_has (es_inbox s) k then (Inl (ev_error eventing_conflict), s)
      else (Inr (), s\<lparr>es_inbox := jm_set (es_inbox s) k r\<rparr>))"

definition createIsolation :: "isolation_record \<Rightarrow> (ev_store, unit) ev_act" where
  "createIsolation r s =
     (if list_ex (\<lambda>x. is_messageId x = is_messageId r \<and> is_consumer x = is_consumer r
           \<and> is_payloadSha256 x = is_payloadSha256 r \<and> is_reason x = is_reason r)
          (jm_values (es_isolations s))
      then (Inr (), s)
      else (Inr (), s\<lparr>es_isolations := jm_set (es_isolations s) (is_isolationId r) r\<rparr>))"

definition findJobByIdempotencyKey :: "string \<Rightarrow> ev_store \<Rightarrow> job_record option" where
  "findJobByIdempotencyKey k s = find (\<lambda>j. jr_idempotencyKey j = k) (jm_values (es_jobs s))"

definition createJob :: "job_record \<Rightarrow> (ev_store, unit) ev_act" where
  "createJob j s =
     (if jm_has (es_jobs s) (jr_jobId j)
         \<or> list_ex (\<lambda>x. jr_idempotencyKey x = jr_idempotencyKey j) (jm_values (es_jobs s))
      then (Inl (ev_error eventing_conflict), s)
      else (Inr (), s\<lparr>es_jobs := jm_set (es_jobs s) (jr_jobId j) j\<rparr>))"

definition claimJob :: "string \<Rightarrow> (ev_store, job_record option) ev_act" where
  "claimJob i s =
     (case jm_get (es_jobs s) i of
        None \<Rightarrow> (Inr None, s)
      | Some j \<Rightarrow>
          if jr_status j \<noteq> Queued then (Inr None, s)
          else (let j' = j\<lparr>jr_status := Processing\<rparr> in
            (Inr (Some j'), s\<lparr>es_jobs := jm_set (es_jobs s) i j'\<rparr>)))"

definition store_cancelJob :: "string \<Rightarrow> string \<Rightarrow> (ev_store, job_record option) ev_act" where
  "store_cancelJob i reason s =
     (case jm_get (es_jobs s) i of
        None \<Rightarrow> (Inr None, s)
      | Some j \<Rightarrow>
          if jr_status j \<noteq> Queued then (Inr (Some j), s)
          else (let j' = j\<lparr>jr_status := Cancelled, jr_cancelReason := Some reason\<rparr> in
            (Inr (Some j'), s\<lparr>es_jobs := jm_set (es_jobs s) i j'\<rparr>)))"

definition completeJob :: "string \<Rightarrow> (ev_store, bool) ev_act" where
  "completeJob i s =
     (case jm_get (es_jobs s) i of
        None \<Rightarrow> (Inr False, s)
      | Some j \<Rightarrow>
          if jr_status j \<noteq> Processing then (Inr False, s)
          else (Inr True, s\<lparr>es_jobs := jm_set (es_jobs s) i (j\<lparr>jr_status := Completed\<rparr>)\<rparr>))"

definition isolateJob :: "string \<Rightarrow> (ev_store, bool) ev_act" where
  "isolateJob i s =
     (case jm_get (es_jobs s) i of
        None \<Rightarrow> (Inr False, s)
      | Some j \<Rightarrow>
          if jr_status j \<noteq> Processing \<and> jr_status j \<noteq> Queued then (Inr False, s)
          else (Inr True, s\<lparr>es_jobs := jm_set (es_jobs s) i (j\<lparr>jr_status := JobIsolated\<rparr>)\<rparr>))"

text \<open>\<open>transaction\<close>: a throw puts the four maps back.\<close>

definition store_transaction :: "(ev_store, 'a) ev_act \<Rightarrow> (ev_store, 'a) ev_act" where
  "store_transaction work s = (case work s of
     (Inr x, s') \<Rightarrow> (Inr x, s')
   | (Inl e, s') \<Rightarrow> (Inl e, s'\<lparr>es_outbox := es_outbox s, es_inbox := es_inbox s,
                        es_jobs := es_jobs s, es_isolations := es_isolations s\<rparr>))"

record ev_backlog =
  bl_pending :: nat
  bl_publishing :: nat
  bl_isolated :: nat
  bl_receipts :: nat
  bl_queuedJobs :: nat
  bl_oldestPendingAt :: "string option"

definition count_status :: "outbox_status \<Rightarrow> ev_store \<Rightarrow> nat" where
  "count_status st s = length (filter (\<lambda>r. ob_status r = st) (jm_values (es_outbox s)))"

definition backlog :: "ev_store \<Rightarrow> ev_backlog" where
  "backlog s =
     \<lparr>bl_pending = count_status Pending s, bl_publishing = count_status Publishing s,
      bl_isolated = length (es_isolations s) + count_status Isolated s,
      bl_receipts = length (es_inbox s),
      bl_queuedJobs = length (filter (\<lambda>j. jr_status j = Queued) (jm_values (es_jobs s))),
      bl_oldestPendingAt =
        (case sort_by (\<lambda>a b. ob_availableAt a < ob_availableAt b)
                (filter (\<lambda>r. ob_status r = Pending) (jm_values (es_outbox s))) of
           [] \<Rightarrow> None | r # rs \<Rightarrow> Some (to_iso (ob_availableAt r)))\<rparr>"

record ev_report =
  rp_missingInbox :: "(string \<times> string) list"
  rp_missingOutbox :: "string list"
  rp_isolatedOutbox :: "string list"

definition store_reconcile :: "string list \<Rightarrow> (string \<times> string) list \<Rightarrow> ev_store \<Rightarrow> ev_report" where
  "store_reconcile outboxIds inboxKeys s =
     \<lparr>rp_missingInbox = filter (\<lambda>(i, c). \<not> jm_has (es_inbox s) (inboxKey i c)) inboxKeys,
      rp_missingOutbox = filter (\<lambda>i. \<not> jm_has (es_outbox s) i) outboxIds,
      rp_isolatedOutbox = filter (\<lambda>i. case jm_get (es_outbox s) i of
          None \<Rightarrow> False | Some r \<Rightarrow> ob_status r = Isolated) outboxIds\<rparr>"

end
