(* ===== verification/EventPublisher.thy ===== *)
theory EventPublisher
  imports EventStore
begin

text \<open>
  The outbox publisher and the operational commands
  (\<open>packages/crm-modules/eventing-outbox/src/publisher.ts\<close>, \<open>operations.ts\<close>) over the
  in-memory store. The broker's answer for a row, the token source, and what other callers do to
  the store while a publication is awaited are parameters.
\<close>

section \<open>The publisher\<close>

record publisher =
  pb_batchSize :: int
  pb_claimLeaseSeconds :: int
  pb_maxAttempts :: int
  pb_backoffSeconds :: "int list"

definition createOutboxPublisher ::
  "jsnum \<Rightarrow> jsnum \<Rightarrow> jsnum \<Rightarrow> jsnum list \<Rightarrow> ev_failure + publisher" where
  "createOutboxPublisher batchSize lease maxAttempts backoff =
     (if \<not> isInteger batchSize \<or> num_int batchSize < 1 \<or> 1000 < num_int batchSize
         \<or> \<not> isInteger lease \<or> num_int lease < 1
         \<or> \<not> isInteger maxAttempts \<or> num_int maxAttempts < 1 \<or> 16 < num_int maxAttempts
         \<or> int (length backoff) \<noteq> num_int maxAttempts - 1
         \<or> list_ex (\<lambda>v. \<not> isInteger v \<or> num_int v < 1 \<or> 86400 < num_int v) backoff
      then ev_invalid
      else Inr \<lparr>pb_batchSize = num_int batchSize, pb_claimLeaseSeconds = num_int lease,
                pb_maxAttempts = num_int maxAttempts, pb_backoffSeconds = map num_int backoff\<rparr>)"

text \<open>\<open>pe_publish r\<close> is the error \<open>transport.publish\<close> threw for \<open>r\<close>, if it threw.\<close>

record publish_env =
  pe_now :: int
  pe_token :: "nat \<Rightarrow> string"
  pe_publish :: "outbox_record \<Rightarrow> ev_failure option"
  pe_others :: "outbox_record \<Rightarrow> ev_store \<Rightarrow> ev_store"

datatype row_outcome = Row_published | Row_retained | Row_isolated

definition ev_code_name :: "ev_code \<Rightarrow> string" where
  "ev_code_name c = (case c of
     eventing_conflict \<Rightarrow> ''eventing_conflict''
   | eventing_invalid_input \<Rightarrow> ''eventing_invalid_input''
   | eventing_handler_timeout \<Rightarrow> ''eventing_handler_timeout''
   | eventing_not_found \<Rightarrow> ''eventing_not_found''
   | eventing_operation_denied \<Rightarrow> ''eventing_operation_denied''
   | eventing_storage_unavailable \<Rightarrow> ''eventing_storage_unavailable'')"

definition publish_error_code :: "ev_failure \<Rightarrow> string" where
  "publish_error_code e = (case e of
     EventingError c r \<Rightarrow> ev_code_name c | EvPortError m \<Rightarrow> ''publish_failed'')"

abbreviation storage_unavailable :: ev_failure where
  "storage_unavailable \<equiv> EventingError eventing_storage_unavailable True"

definition publish_delay :: "publisher \<Rightarrow> outbox_record \<Rightarrow> int" where
  "publish_delay p r =
     (let i = nat (ob_attemptCount r - 1) in
      if i < length (pb_backoffSeconds p) then pb_backoffSeconds p ! i else 0)"

text \<open>The body of the loop for one claimed row.\<close>

definition publish_row ::
  "publisher \<Rightarrow> publish_env \<Rightarrow> outbox_record \<Rightarrow> (ev_store, row_outcome) ev_act" where
  "publish_row p env r s0 =
     (let s = pe_others env r s0; i = ob_messageId r; token = the (ob_claimToken r) in
      case pe_publish env r of
        None \<Rightarrow>
          (case markOutboxPublished i token (pe_now env) s of
             (Inr True, s') \<Rightarrow> (Inr Row_published, s')
           | (Inr False, s') \<Rightarrow> (Inl storage_unavailable, s')
           | (Inl (EventingError c b), s') \<Rightarrow> (Inl (EventingError c b), s')
           | (Inl (EvPortError m), s') \<Rightarrow> (Inl storage_unavailable, s'))
      | Some e \<Rightarrow>
          let exhaust = (pb_maxAttempts p \<le> ob_attemptCount r) in
          (case markOutboxFailure i token (pe_now env) (pe_now env + publish_delay p r * 1000)
                  (publish_error_code e) exhaust s of
             (Inr True, s') \<Rightarrow> (Inr (if exhaust then Row_isolated else Row_retained), s')
           | (_, s') \<Rightarrow> (Inl storage_unavailable, s')))"

record batch_result =
  br_claimed :: nat
  br_published :: nat
  br_retained :: nat
  br_isolated :: nat

fun publish_rows ::
  "publisher \<Rightarrow> publish_env \<Rightarrow> outbox_record list \<Rightarrow> batch_result \<Rightarrow> (ev_store, batch_result) ev_act" where
  "publish_rows p env [] n s = (Inr n, s)"
| "publish_rows p env (r # rs) n s =
     (case publish_row p env r s of
        (Inl e, s') \<Rightarrow> (Inl e, s')
      | (Inr Row_published, s') \<Rightarrow> publish_rows p env rs (n\<lparr>br_published := br_published n + 1\<rparr>) s'
      | (Inr Row_retained, s') \<Rightarrow> publish_rows p env rs (n\<lparr>br_retained := br_retained n + 1\<rparr>) s'
      | (Inr Row_isolated, s') \<Rightarrow> publish_rows p env rs (n\<lparr>br_isolated := br_isolated n + 1\<rparr>) s')"

definition publishBatch :: "publisher \<Rightarrow> publish_env \<Rightarrow> (ev_store, batch_result) ev_act" where
  "publishBatch p env s =
     (let (rs, s') = claimOutbox (pe_now env) (pe_now env - pb_claimLeaseSeconds p * 1000)
                       (nat (pb_batchSize p)) (pe_token env) s
      in publish_rows p env rs
           \<lparr>br_claimed = length rs, br_published = 0, br_retained = 0, br_isolated = 0\<rparr> s')"

section \<open>Operational commands\<close>

text \<open>\<open>allowed\<close> is the control's decision or what it throws; \<open>recorded\<close> what recording throws.\<close>

definition replayOutbox ::
  "ev_failure + bool \<Rightarrow> ev_failure + unit \<Rightarrow> int \<Rightarrow> js_value \<Rightarrow> js_value \<Rightarrow> (ev_store, unit) ev_act" where
  "replayOutbox allowed recorded now idInput reasonInput =
     bindA (liftA (validateUuid idInput)) (\<lambda>i.
     thenA (liftA (validateReason reasonInput))
     (bindA (liftA allowed) (\<lambda>ok.
     thenA (ensureA ok (ev_error eventing_operation_denied))
     (thenA (liftA recorded)
     (bindA (store_replayOutbox i now) (\<lambda>found.
      ensureA found (ev_error eventing_not_found)))))))"

definition reconcile ::
  "js_value list \<Rightarrow> (js_value \<times> js_value) list \<Rightarrow> ev_store \<Rightarrow> ev_failure + ev_report" where
  "reconcile outboxIds inboxKeys s =
     (if 1000 < length outboxIds \<or> 1000 < length inboxKeys then ev_invalid
      else bindE (mapE validateUuid outboxIds) (\<lambda>ids.
        bindE (mapE (\<lambda>(i, c). bindE (validateUuid i) (\<lambda>i'.
                 bindE (validateConsumerName c) (\<lambda>c'. Inr (i', c')))) inboxKeys) (\<lambda>keys.
        Inr (store_reconcile (js_dedup ids) keys s))))"

section \<open>Claims\<close>

definition outbox_ok :: "ev_store \<Rightarrow> bool" where
  "outbox_ok s \<longleftrightarrow> jm_ok (es_outbox s)
     \<and> (\<forall>i r. jm_get (es_outbox s) i = Some r \<longrightarrow> ob_messageId r = i)"

definition claimed_as :: "int \<Rightarrow> outbox_record \<Rightarrow> outbox_record \<Rightarrow> bool" where
  "claimed_as now r r' \<longleftrightarrow> (\<exists>t. r' = r\<lparr>ob_status := Publishing,
     ob_attemptCount := ob_attemptCount r + 1, ob_claimToken := Some t, ob_claimedAt := Some now\<rparr>)"

lemma claimed_as_ids: "list_all2 (claimed_as now) rs qs \<Longrightarrow> map ob_messageId qs = map ob_messageId rs"
  by (induction rule: list_all2_induct) (auto simp: claimed_as_def)

lemma claim_each_all:
  assumes "claim_each now token i rs s = (qs, t)"
  shows "list_all2 (claimed_as now) rs qs
    \<and> (\<forall>k. k \<notin> ob_messageId ` set rs \<longrightarrow> jm_get (es_outbox t) k = jm_get (es_outbox s) k)
    \<and> (distinct (map ob_messageId rs) \<longrightarrow>
        (\<forall>q \<in> set qs. jm_get (es_outbox t) (ob_messageId q) = Some q))
    \<and> (jm_ok (es_outbox s) \<longrightarrow> jm_ok (es_outbox t)) \<and> es_failPublished t = es_failPublished s"
  using assms
proof (induction rs arbitrary: i s qs t)
  case (Cons r rs)
  let ?r = "r\<lparr>ob_status := Publishing, ob_attemptCount := ob_attemptCount r + 1,
    ob_claimToken := Some (token i), ob_claimedAt := Some now\<rparr>"
  let ?s = "s\<lparr>es_outbox := jm_set (es_outbox s) (ob_messageId r) ?r\<rparr>"
  obtain qs' where q: "claim_each now token (i + 1) rs ?s = (qs', t)" and qs: "qs = ?r # qs'"
    using Cons.prems by (auto simp: Let_def split: prod.splits)
  from Cons.IH [OF q] qs show ?case by (auto simp: claimed_as_def)
qed auto

lemma claim_each_spec:
  assumes "claim_each now token i rs s = (qs, t)"
  shows "list_all2 (claimed_as now) rs qs"
    "k \<notin> ob_messageId ` set rs \<Longrightarrow> jm_get (es_outbox t) k = jm_get (es_outbox s) k"
    "distinct (map ob_messageId rs) \<Longrightarrow> q \<in> set qs \<Longrightarrow> jm_get (es_outbox t) (ob_messageId q) = Some q"
    "jm_ok (es_outbox s) \<Longrightarrow> jm_ok (es_outbox t)"
    "es_failPublished t = es_failPublished s"
  using claim_each_all [OF assms] by simp_all

lemma claim_rows_ok:
  assumes "outbox_ok s"
  shows "distinct (map ob_messageId (claim_rows now sb n s))"
    "r \<in> set (claim_rows now sb n s) \<Longrightarrow> jm_get (es_outbox s) (ob_messageId r) = Some r \<and> claimable now sb r"
proof -
  have ok: "jm_ok (es_outbox s)" and id: "\<And>i r. jm_get (es_outbox s) i = Some r \<Longrightarrow> ob_messageId r = i"
    using assms by (simp_all add: outbox_ok_def)
  have "map ob_messageId (jm_values (es_outbox s)) = map fst (es_outbox s)"
    using ok id by (auto simp: jm_values_def jm_ok_def jm_get_def)
  then have d: "distinct (map ob_messageId (jm_values (es_outbox s)))"
    using ok by (simp add: jm_ok_def)
  then show "distinct (map ob_messageId (claim_rows now sb n s))"
    unfolding claim_rows_def
    by (auto simp: take_map [symmetric] simp del: map_map intro!: distinct_take distinct_map_filter)
  show "jm_get (es_outbox s) (ob_messageId r) = Some r \<and> claimable now sb r"
    if "r \<in> set (claim_rows now sb n s)"
    using that jm_values_iff [OF ok, of r] id by (auto simp: claim_rows_def dest!: in_set_takeD)
qed

lemma claimOutbox_rows:
  assumes "outbox_ok s" and "claimOutbox now sb n tok s = (qs, t)"
  shows "outbox_ok t" "q \<in> set qs \<Longrightarrow> jm_get (es_outbox t) (ob_messageId q) = Some q"
    "q \<in> set qs \<Longrightarrow> ob_status q = Publishing \<and> ob_claimedAt q = Some now \<and> ob_claimToken q \<noteq> None"
    "distinct (map ob_messageId qs)" "length qs \<le> n" "es_failPublished t = es_failPublished s"
proof -
  let ?rs = "claim_rows now sb n s"
  from assms(2) have c: "claim_each now tok 0 ?rs s = (qs, t)" by (simp add: claimOutbox_def)
  note spec = claim_each_spec [OF c] and rows = claim_rows_ok [OF assms(1)]
  note ids = claimed_as_ids [OF spec(1)]
  show d: "distinct (map ob_messageId qs)" using ids rows(1) by simp
  show got: "jm_get (es_outbox t) (ob_messageId q) = Some q" if "q \<in> set qs" for q
    using spec(3) [OF rows(1) that] .
  show "ob_status q = Publishing \<and> ob_claimedAt q = Some now \<and> ob_claimToken q \<noteq> None" if "q \<in> set qs"
    using spec(1) that by (auto simp: list_all2_conv_all_nth in_set_conv_nth claimed_as_def)
  show "length qs \<le> n" using list_all2_lengthD [OF spec(1)] by (simp add: claim_rows_def)
  show "es_failPublished t = es_failPublished s" by (rule spec(5))
  have "ob_messageId r = k" if "jm_get (es_outbox t) k = Some r" for k r
  proof (cases "k \<in> ob_messageId ` set ?rs")
    case True
    then have "k \<in> ob_messageId ` set qs" using ids by (metis set_map)
    with got that show ?thesis by fastforce
  next
    case False
    with spec(2) that assms(1) show ?thesis by (simp add: outbox_ok_def)
  qed
  then show "outbox_ok t" using spec(4) assms(1) by (simp add: outbox_ok_def)
qed

text \<open>
  C7: a row claimed by one publisher is not claimed by another while its lease is not stale: a
  later claim, whatever its clock and its limit, whose stale mark lies before the first claim,
  takes none of its rows.
\<close>

theorem claims_exclusive:
  assumes "outbox_ok s" and "claimOutbox now sb n tok s = (qs, t)" and "sb' < now"
  shows "ob_messageId ` set (fst (claimOutbox now' sb' n' tok' t)) \<inter> ob_messageId ` set qs = {}"
proof -
  note rows = claimOutbox_rows [OF assms(1,2)]
  obtain qs' t' where c: "claim_each now' tok' 0 (claim_rows now' sb' n' t) t = (qs', t')" by force
  have ids: "ob_messageId ` set qs' = ob_messageId ` set (claim_rows now' sb' n' t)"
    using claimed_as_ids [OF claim_each_spec(1) [OF c]] by (metis set_map)
  have "ob_messageId r \<notin> ob_messageId ` set qs" if r: "r \<in> set (claim_rows now' sb' n' t)" for r
  proof
    assume "ob_messageId r \<in> ob_messageId ` set qs"
    then obtain q where q: "q \<in> set qs" "ob_messageId q = ob_messageId r" by auto
    have "jm_get (es_outbox t) (ob_messageId r) = Some q" using rows(2) [OF q(1)] q(2) by simp
    with claim_rows_ok(2) [OF rows(1) r] have "q = r" "claimable now' sb' r" by simp_all
    with rows(3) [OF q(1)] assms(3) show False by (simp add: claimable_def)
  qed
  moreover have "fst (claimOutbox now' sb' n' tok' t) = qs'" by (simp add: claimOutbox_def c)
  ultimately show ?thesis using ids by (auto simp: disjoint_iff)
qed

section \<open>Batches\<close>

lemma publish_rows_count:
  "publish_rows p env rs n s = (Inr n', s') \<Longrightarrow>
   br_claimed n' = br_claimed n
   \<and> br_published n' + br_retained n' + br_isolated n'
     = br_published n + br_retained n + br_isolated n + length rs"
proof (induction rs arbitrary: n s)
  case (Cons r rs)
  obtain x u where "publish_row p env r s = (x, u)" by force
  with Cons.prems Cons.IH show ?case
    by (cases x) (fastforce split: row_outcome.splits)+
qed simp

text \<open>
  The report of a batch is complete: every claimed row is counted once, as published, retained
  or isolated, whatever the broker and the other callers of the store do meanwhile.
\<close>

theorem batch_accounts:
  assumes "publishBatch p env s = (Inr n, s')"
  shows "br_claimed n = br_published n + br_retained n + br_isolated n"
  using assms publish_rows_count by (fastforce simp: publishBatch_def Let_def split: prod.splits)

text \<open>How a claimed row \<open>r\<close> has to stand after the batch, as the row \<open>r'\<close>.\<close>

definition row_settled :: "publisher \<Rightarrow> publish_env \<Rightarrow> outbox_record \<Rightarrow> outbox_record \<Rightarrow> bool" where
  "row_settled p env r r' \<longleftrightarrow> ob_claimToken r' = None
     \<and> (case pe_publish env r of
          None \<Rightarrow> ob_status r' = Published
        | Some e \<Rightarrow>
            if pb_maxAttempts p \<le> ob_attemptCount r then ob_status r' = Isolated
            else ob_status r' = Pending \<and> ob_availableAt r' = pe_now env + publish_delay p r * 1000)"

lemma publish_row_settles:
  assumes "jm_get (es_outbox s) (ob_messageId r) = Some r" and "ob_status r = Publishing"
    and "ob_claimToken r \<noteq> None" and "\<not> es_failPublished s" and "pe_others env r s = s"
  obtains out r' where "publish_row p env r s =
      (Inr out, s\<lparr>es_outbox := jm_set (es_outbox s) (ob_messageId r) r'\<rparr>)" "row_settled p env r r'"
proof -
  have "held_by (the (ob_claimToken r)) (jm_get (es_outbox s) (ob_messageId r))"
    using assms by (auto simp: held_by_def)
  with assms that show ?thesis
    by (cases "pe_publish env r")
      (auto simp: publish_row_def Let_def markOutboxPublished_def markOutboxFailure_def row_settled_def)
qed

lemma publish_rows_settle:
  assumes "\<And>r s. pe_others env r s = s"
    and "\<And>r. r \<in> set rs \<Longrightarrow> jm_get (es_outbox s) (ob_messageId r) = Some r
      \<and> ob_status r = Publishing \<and> ob_claimToken r \<noteq> None"
    and "distinct (map ob_messageId rs)" and "\<not> es_failPublished s"
  shows "\<exists>n' t. publish_rows p env rs n s = (Inr n', t)
    \<and> (\<forall>k. k \<notin> ob_messageId ` set rs \<longrightarrow> jm_get (es_outbox t) k = jm_get (es_outbox s) k)
    \<and> (\<forall>r \<in> set rs. \<exists>r'. jm_get (es_outbox t) (ob_messageId r) = Some r' \<and> row_settled p env r r')"
  using assms(2-4)
proof (induction rs arbitrary: n s)
  case (Cons r rs)
  have "jm_get (es_outbox s) (ob_messageId r) = Some r" "ob_status r = Publishing"
    "ob_claimToken r \<noteq> None" using Cons.prems(1) [of r] by simp_all
  from publish_row_settles [OF this Cons.prems(3) assms(1)] obtain out r' where
    row: "publish_row p env r s =
      (Inr out, s\<lparr>es_outbox := jm_set (es_outbox s) (ob_messageId r) r'\<rparr>)"
    and ok: "row_settled p env r r'" .
  let ?u = "s\<lparr>es_outbox := jm_set (es_outbox s) (ob_messageId r) r'\<rparr>"
  have rest: "jm_get (es_outbox ?u) (ob_messageId q) = Some q \<and> ob_status q = Publishing
      \<and> ob_claimToken q \<noteq> None" if "q \<in> set rs" for q
  proof -
    have "ob_messageId r \<notin> ob_messageId ` set rs" using Cons.prems(2) by simp
    then have "ob_messageId q \<noteq> ob_messageId r" using that by (metis image_eqI)
    with Cons.prems(1) [of q] that show ?thesis by simp
  qed
  obtain n1 where n1: "publish_rows p env (r # rs) n s = publish_rows p env rs n1 ?u"
    using row by (cases out) simp_all
  from Cons.IH [OF rest, of n1] Cons.prems(2,3) obtain n' t where
    t: "publish_rows p env rs n1 ?u = (Inr n', t)"
    "\<forall>k. k \<notin> ob_messageId ` set rs \<longrightarrow> jm_get (es_outbox t) k = jm_get (es_outbox ?u) k"
    "\<forall>q \<in> set rs. \<exists>q'. jm_get (es_outbox t) (ob_messageId q) = Some q' \<and> row_settled p env q q'"
    by auto
  with n1 ok Cons.prems(2) show ?case by auto
qed simp

text \<open>
  C39: when nobody else touches the store and it works, a batch never throws, and every claimed row
  ends as the broker's answer demands: published when it was confirmed, otherwise isolated when its
  attempts are used up, otherwise pending again after its back-off; no row stays claimed.
\<close>

theorem batch_settles_rows:
  assumes "outbox_ok s" and "\<not> es_failPublished s" and "\<And>r s. pe_others env r s = s"
    and "claimOutbox (pe_now env) (pe_now env - pb_claimLeaseSeconds p * 1000)
           (nat (pb_batchSize p)) (pe_token env) s = (rs, s1)"
  shows "\<exists>n t. publishBatch p env s = (Inr n, t) \<and> br_claimed n = length rs
    \<and> (\<forall>r \<in> set rs. \<exists>r'. jm_get (es_outbox t) (ob_messageId r) = Some r' \<and> row_settled p env r r')"
proof -
  note rows = claimOutbox_rows [OF assms(1,4)]
  let ?n = "\<lparr>br_claimed = length rs, br_published = 0, br_retained = 0, br_isolated = 0\<rparr>"
  have "\<exists>n t. publish_rows p env rs ?n s1 = (Inr n, t)
    \<and> (\<forall>k. k \<notin> ob_messageId ` set rs \<longrightarrow> jm_get (es_outbox t) k = jm_get (es_outbox s1) k)
    \<and> (\<forall>r \<in> set rs. \<exists>r'. jm_get (es_outbox t) (ob_messageId r) = Some r' \<and> row_settled p env r r')"
    using rows(2,3,4,6) assms(2) by (intro publish_rows_settle assms(3)) auto
  then obtain n t where "publish_rows p env rs ?n s1 = (Inr n, t)"
    "\<forall>r \<in> set rs. \<exists>r'. jm_get (es_outbox t) (ob_messageId r) = Some r' \<and> row_settled p env r r'"
    by auto
  with publish_rows_count [OF this(1)] assms(4) show ?thesis by (simp add: publishBatch_def)
qed

subsection \<open>A sample outbox\<close>

definition sample_row :: outbox_record where
  "sample_row = \<lparr>ob_messageId = ''m1'', ob_messageKind = Event, ob_messageType = ''crm.a.b.v1'',
     ob_messageVersion = 1, ob_producer = ''urn:ai-crm:crm'', ob_occurredAt = 100,
     ob_availableAt = 100, ob_correlationId = ''c'', ob_payload = ''{}'', ob_payloadSha256 = ''sha'',
     ob_attemptCount = 0, ob_status = Pending, ob_causationId = None, ob_traceparent = None,
     ob_tracestate = None, ob_claimToken = None, ob_claimedAt = None, ob_publishedAt = None,
     ob_isolatedAt = None, ob_lastErrorCode = None\<rparr>"

definition sample_outbox :: ev_store where
  "sample_outbox = snd (appendOutbox sample_row emptyEventingStore)"

definition sample_publisher :: publisher where
  "sample_publisher = \<lparr>pb_batchSize = 10, pb_claimLeaseSeconds = 30, pb_maxAttempts = 2,
     pb_backoffSeconds = [5]\<rparr>"

definition sample_broker :: publish_env where
  "sample_broker = \<lparr>pe_now = 60000, pe_token = (\<lambda>i. ''token''),
     pe_publish = (\<lambda>r. Some (EvPortError ''down'')), pe_others = (\<lambda>r s. s)\<rparr>"

abbreviation sample_claim :: "outbox_record list \<times> ev_store" where
  "sample_claim \<equiv> claimOutbox 60000 30000 10 (\<lambda>i. ''token'') sample_outbox"

lemma sample_outbox_ok: "outbox_ok sample_outbox"
  by (auto simp: outbox_ok_def sample_outbox_def appendOutbox_def emptyEventingStore_def
      split: if_splits)

theorem claims_exclusive_witness:
  "ob_messageId ` set (fst (claimOutbox 61000 31000 10 (\<lambda>i. ''other'') (snd sample_claim)))
     \<inter> ob_messageId ` set (fst sample_claim) = {} \<and> length (fst sample_claim) = 1"
proof
  show "ob_messageId ` set (fst (claimOutbox 61000 31000 10 (\<lambda>i. ''other'') (snd sample_claim)))
     \<inter> ob_messageId ` set (fst sample_claim) = {}"
    by (rule claims_exclusive [OF sample_outbox_ok prod.collapse [symmetric]]) simp
qed code_simp

lemma sample_batch:
  "fst (publishBatch sample_publisher sample_broker sample_outbox) =
     Inr \<lparr>br_claimed = 1, br_published = 0, br_retained = 1, br_isolated = 0\<rparr>"
  by code_simp

theorem batch_accounts_witness:
  "br_claimed \<lparr>br_claimed = 1, br_published = 0, br_retained = 1, br_isolated = 0\<rparr> = 0 + 1 + 0"
  using batch_accounts [of sample_publisher sample_broker sample_outbox
      "\<lparr>br_claimed = 1, br_published = 0, br_retained = 1, br_isolated = 0\<rparr>"
      "snd (publishBatch sample_publisher sample_broker sample_outbox)"] sample_batch
  by (simp add: prod_eq_iff)

theorem batch_settles_rows_witness:
  "\<exists>n t. publishBatch sample_publisher sample_broker sample_outbox = (Inr n, t)
    \<and> br_claimed n = length (fst sample_claim)
    \<and> (\<forall>r \<in> set (fst sample_claim). \<exists>r'. jm_get (es_outbox t) (ob_messageId r) = Some r'
          \<and> row_settled sample_publisher sample_broker r r')"
proof (rule batch_settles_rows [OF sample_outbox_ok, where ?s1.0 = "snd sample_claim"])
  show "\<not> es_failPublished sample_outbox" by code_simp
  show "pe_others sample_broker r s = s" for r s by (simp add: sample_broker_def)
  show "claimOutbox (pe_now sample_broker)
      (pe_now sample_broker - pb_claimLeaseSeconds sample_publisher * 1000)
      (nat (pb_batchSize sample_publisher)) (pe_token sample_broker) sample_outbox
    = (fst sample_claim, snd sample_claim)"
    by (simp add: sample_broker_def sample_publisher_def)
qed

end
