(* ===== verification/EventCore.thy ===== *)
theory EventCore
  imports EventPublisher
begin

text \<open>
  The eventing core (\<open>packages/crm-modules/eventing-outbox/src/service.ts\<close>): appending events,
  submitting, cancelling and isolating jobs, and consuming a message under the inbox. The store is
  the in-memory one. What a message handler answers is a parameter; its calls are logged outside
  the store, since a rollback cannot undo them. Where the code waits, what others did to the store
  meanwhile is a list of store operations.
\<close>

section \<open>The store's operations as commands\<close>

datatype store_op =
    SAppend outbox_record
  | SClaim int int nat "nat \<Rightarrow> string"
  | SPublished string string int
  | SFailed string string int int string bool
  | SReplay string int
  | SReceipt inbox_receipt
  | SIsolation isolation_record
  | SCreateJob job_record
  | SClaimJob string
  | SCancelJob string string
  | SCompleteJob string
  | SIsolateJob string

fun store_exec :: "store_op \<Rightarrow> (ev_store, unit) ev_act" where
  "store_exec (SAppend r) = appendOutbox r"
| "store_exec (SClaim now stale limit token) = (\<lambda>s. (Inr (), snd (claimOutbox now stale limit token s)))"
| "store_exec (SPublished i token now) = voidA (markOutboxPublished i token now)"
| "store_exec (SFailed i token now available code isolate) =
     voidA (markOutboxFailure i token now available code isolate)"
| "store_exec (SReplay i now) = voidA (store_replayOutbox i now)"
| "store_exec (SReceipt r) = createInboxReceipt r"
| "store_exec (SIsolation r) = createIsolation r"
| "store_exec (SCreateJob j) = createJob j"
| "store_exec (SClaimJob i) = voidA (claimJob i)"
| "store_exec (SCancelJob i reason) = voidA (store_cancelJob i reason)"
| "store_exec (SCompleteJob i) = voidA (completeJob i)"
| "store_exec (SIsolateJob i) = voidA (isolateJob i)"

section \<open>The core's state\<close>

datatype core_operation = Append_event | Submit_job | Cancel_job | Consume

datatype core_outcome = Obs_completed | Obs_duplicate | Obs_failed | Obs_isolated | Obs_skipped

datatype isolation_category = Terminal_failure | Attempts_exhausted | Delivery_budget_exceeded

text \<open>\<open>ew_handled\<close> logs each call of a handler, \<open>ew_observed\<close> each observation.\<close>

record ev_world =
  ew_store :: ev_store
  ew_handled :: "(string \<times> string) list"
  ew_observed :: "(core_operation \<times> core_outcome) list"
  ew_callbacks :: "(string \<times> int \<times> isolation_category) list"

type_synonym 'a core_act = "(ev_world, ev_failure, 'a) act"

record core_env =
  ce_lib :: ev_lib
  ce_clock :: int
  ce_isolationId :: js_value

definition on_store :: "(ev_store, 'a) ev_act \<Rightarrow> 'a core_act" where
  "on_store m w = (case m (ew_store w) of (r, s) \<Rightarrow> (r, w\<lparr>ew_store := s\<rparr>))"

definition others_do :: "store_op list \<Rightarrow> unit core_act" where
  "others_do ops = modifyA (\<lambda>w. w\<lparr>ew_store := run_all store_exec ops (ew_store w)\<rparr>)"

definition observe :: "core_operation \<Rightarrow> core_outcome \<Rightarrow> unit core_act" where
  "observe op out = modifyA (\<lambda>w. w\<lparr>ew_observed := ew_observed w @ [(op, out)]\<rparr>)"

text \<open>\<open>store.transaction(work)\<close>: a throw puts the store back, not what happened outside it.\<close>

definition in_transaction :: "'a core_act \<Rightarrow> 'a core_act" where
  "in_transaction work w = (case work w of
     (Inr x, w') \<Rightarrow> (Inr x, w')
   | (Inl e, w') \<Rightarrow> (Inl e, w'\<lparr>ew_store := (ew_store w')\<lparr>es_outbox := es_outbox (ew_store w),
        es_inbox := es_inbox (ew_store w), es_jobs := es_jobs (ew_store w),
        es_isolations := es_isolations (ew_store w)\<rparr>\<rparr>))"

section \<open>Events and jobs\<close>

definition is_conflict :: "ev_failure \<Rightarrow> bool" where
  "is_conflict e = (case e of EventingError c b \<Rightarrow> c = eventing_conflict | EvPortError m \<Rightarrow> False)"

definition appendEvent :: "core_env \<Rightarrow> js_value \<Rightarrow> string core_act" where
  "appendEvent env input =
     bindA (liftA (validateEventEnvelope (ce_lib env) input)) (\<lambda>m.
     catchA
       (thenA (on_store (appendOutbox (outboxRecord m)))
          (thenA (observe Append_event Obs_completed) (retA (vm_messageId m))))
       (\<lambda>error w.
          if is_conflict error
             \<and> map_option ob_payloadSha256 (jm_get (es_outbox (ew_store w)) (vm_messageId m))
               = Some (vm_payloadSha256 m)
          then thenA (observe Append_event Obs_duplicate) (retA (vm_messageId m)) w
          else thenA (observe Append_event Obs_failed) (throwA error) w))"

text \<open>\<open>raced\<close> is what others did to the store before the transaction opened.\<close>

definition submitJob :: "core_env \<Rightarrow> store_op list \<Rightarrow> js_value \<Rightarrow> (string \<times> job_status) core_act" where
  "submitJob env raced input =
     bindA (liftA (validateJobEnvelope (ce_lib env) input)) (\<lambda>m.
     let key = the (vm_idempotencyKey m);
         job = \<lparr>jr_jobId = vm_messageId m, jr_idempotencyKey = key,
                jr_fingerprint = vm_payloadSha256 m, jr_status = Queued,
                jr_envelope = vm_envelope m, jr_cancelReason = None\<rparr> in
     bindA (getsA (\<lambda>w. findJobByIdempotencyKey key (ew_store w))) (\<lambda>prior.
     case prior of
       Some p \<Rightarrow>
         thenA (ensureA (jr_fingerprint p = vm_payloadSha256 m) (ev_error eventing_conflict))
           (thenA (observe Submit_job Obs_duplicate) (retA (jr_jobId p, jr_status p)))
     | None \<Rightarrow>
         thenA (others_do raced)
         (catchA
            (thenA (in_transaction (thenA (on_store (createJob job))
                                          (on_store (appendOutbox (outboxRecord m)))))
               (thenA (observe Submit_job Obs_completed) (retA (jr_jobId job, jr_status job))))
            (\<lambda>error w.
               case findJobByIdempotencyKey key (ew_store w) of
                 None \<Rightarrow> (Inl error, w)
               | Some p \<Rightarrow>
                   if is_conflict error
                      \<and> jr_fingerprint p = vm_payloadSha256 m
                   then (Inr (jr_jobId p, jr_status p), w) else (Inl error, w)))))"

definition cancelJob :: "js_value \<Rightarrow> js_value \<Rightarrow> (string \<times> job_status) core_act" where
  "cancelJob jobIdInput reasonInput =
     bindA (liftA (validateUuid jobIdInput)) (\<lambda>jobId.
     bindA (liftA (validateReason reasonInput)) (\<lambda>reason.
     bindA (on_store (store_cancelJob jobId reason)) (\<lambda>row.
     bindA (requireA row (ev_error eventing_not_found)) (\<lambda>job.
     thenA (observe Cancel_job Obs_completed) (retA (jobId, jr_status job))))))"

text \<open>\<open>callback\<close> is what the durable callback threw, \<open>None\<close> if it returned or is absent.\<close>

definition isolateJobForDeliveryFailure ::
  "js_value \<Rightarrow> js_value \<Rightarrow> isolation_category \<Rightarrow> ev_failure option \<Rightarrow> (string \<times> job_status) core_act" where
  "isolateJobForDeliveryFailure jobIdInput attemptInput category callback =
     bindA (liftA (validateUuid jobIdInput)) (\<lambda>jobId.
     bindA (liftA (ev_bounded attemptInput 1 1000)) (\<lambda>attempt.
     in_transaction
       (bindA (getsA (\<lambda>w. jm_get (es_jobs (ew_store w)) jobId)) (\<lambda>current.
        bindA (requireA current (EventingError eventing_not_found True)) (\<lambda>job.
        if jr_status job = Queued \<or> jr_status job = Processing then
          bindA (on_store (isolateJob jobId)) (\<lambda>done.
          thenA (ensureA done (EventingError eventing_conflict True))
          (thenA (modifyA (\<lambda>w. w\<lparr>ew_callbacks := ew_callbacks w @ [(jobId, attempt, category)]\<rparr>))
          (thenA (liftA (case callback of None \<Rightarrow> Inr () | Some e \<Rightarrow> Inl e))
          (retA (jobId, JobIsolated)))))
        else retA (jobId, jr_status job))))))"

section \<open>Consumption\<close>

text \<open>
  What a handler is for and what it answers: \<open>hd_recheck\<close> what the recheck returned or threw
  (\<open>None\<close> when the handler has none), \<open>hd_handle\<close> what \<open>handle\<close> threw, \<open>hd_expired\<close>
  whether the timer fired before it settled, \<open>hd_during\<close> what happened to the store while it ran.
\<close>

record handler =
  hd_kind :: message_kind
  hd_messageType :: string
  hd_messageVersion :: int
  hd_recheck :: "(ev_failure + bool) option"
  hd_handle :: "ev_failure option"
  hd_expired :: bool
  hd_during :: "store_op list"

record consume_request =
  cq_attempt :: js_value
  cq_consumer :: js_value
  cq_envelope :: js_value
  cq_timeoutMs :: js_value
  cq_raced :: "store_op list"

datatype consumption = Done | Duplicate | Skipped_cancelled | Skipped_rejected | Isolated_as isolation_reason

definition matches :: "handler \<Rightarrow> validated_message \<Rightarrow> bool" where
  "matches h m \<longleftrightarrow> hd_kind h = vm_messageKind m \<and> hd_messageType h = vm_messageType m
     \<and> hd_messageVersion h = vm_messageVersion m"

definition withTimeout :: "bool \<Rightarrow> 'a core_act \<Rightarrow> 'a core_act" where
  "withTimeout expired work w = (case work w of (r, w') \<Rightarrow>
     if expired then (Inl (EventingError eventing_handler_timeout True), w') else (r, w'))"

definition ev_isolate ::
  "core_env \<Rightarrow> validated_message \<Rightarrow> string \<Rightarrow> int \<Rightarrow> isolation_reason \<Rightarrow> consumption core_act" where
  "ev_isolate env m consumer attempt reason =
     bindA (liftA (validateUuid (ce_isolationId env))) (\<lambda>i.
     thenA (on_store (createIsolation \<lparr>is_isolationId = i, is_messageId = vm_messageId m,
              is_consumer = consumer, is_payloadSha256 = vm_payloadSha256 m, is_reason = reason,
              is_attempt = attempt, is_isolatedAt = ce_clock env\<rparr>))
       (retA (if reason = Authoritative_state_rejected then Skipped_rejected else Isolated_as reason)))"

definition ev_receipt :: "core_env \<Rightarrow> validated_message \<Rightarrow> string \<Rightarrow> unit core_act" where
  "ev_receipt env m consumer = on_store (createInboxReceipt \<lparr>ir_messageId = vm_messageId m,
     ir_consumer = consumer, ir_payloadSha256 = vm_payloadSha256 m, ir_completedAt = ce_clock env\<rparr>)"

definition run_handler :: "handler \<Rightarrow> validated_message \<Rightarrow> string \<Rightarrow> unit core_act" where
  "run_handler h m consumer =
     thenA (modifyA (\<lambda>w. w\<lparr>ew_handled := ew_handled w @ [(vm_messageId m, consumer)]\<rparr>))
       (thenA (others_do (hd_during h))
         (liftA (case hd_handle h of None \<Rightarrow> Inr () | Some e \<Rightarrow> Inl e)))"

text \<open>\<open>recheck !== undefined && await recheck(...)\<close>, then \<open>handle\<close> when it allowed it.\<close>

definition run_job_handler :: "handler \<Rightarrow> validated_message \<Rightarrow> string \<Rightarrow> bool core_act" where
  "run_job_handler h m consumer =
     bindA (liftA (case hd_recheck h of None \<Rightarrow> Inr False | Some r \<Rightarrow> r)) (\<lambda>allowed.
     if allowed then thenA (run_handler h m consumer) (retA True) else retA False)"

text \<open>A job that could not be claimed.\<close>

definition consume_unclaimed ::
  "core_env \<Rightarrow> validated_message \<Rightarrow> string \<Rightarrow> consumption core_act" where
  "consume_unclaimed env m consumer =
     bindA (getsA (\<lambda>w. jm_get (es_jobs (ew_store w)) (vm_messageId m))) (\<lambda>current.
     case map_option jr_status current of
       Some Cancelled \<Rightarrow> thenA (ev_receipt env m consumer) (retA Skipped_cancelled)
     | Some Completed \<Rightarrow> thenA (ev_receipt env m consumer) (retA Skipped_cancelled)
     | Some JobIsolated \<Rightarrow> thenA (ev_receipt env m consumer) (retA Skipped_rejected)
     | _ \<Rightarrow> throwA (EventingError eventing_conflict True))"

definition consume_job ::
  "core_env \<Rightarrow> validated_message \<Rightarrow> string \<Rightarrow> int \<Rightarrow> handler \<Rightarrow> consumption core_act" where
  "consume_job env m consumer attempt h =
     bindA (getsA (\<lambda>w. jm_get (es_jobs (ew_store w)) (vm_messageId m))) (\<lambda>existing.
     if map_option jr_fingerprint existing \<noteq> Some (vm_payloadSha256 m)
     then ev_isolate env m consumer attempt Payload_conflict
     else bindA (on_store (claimJob (vm_messageId m))) (\<lambda>claimed.
       case claimed of
         None \<Rightarrow> consume_unclaimed env m consumer
       | Some job \<Rightarrow>
           bindA (withTimeout (hd_expired h) (run_job_handler h m consumer)) (\<lambda>authoritative.
           if \<not> authoritative then
             bindA (on_store (isolateJob (jr_jobId job))) (\<lambda>isolatedJob.
             thenA (ensureA isolatedJob (EventingError eventing_conflict True))
             (bindA (ev_isolate env m consumer attempt Authoritative_state_rejected) (\<lambda>isolated.
              thenA (ev_receipt env m consumer) (retA isolated))))
           else
             bindA (on_store (completeJob (vm_messageId m))) (\<lambda>completed.
             thenA (ensureA completed (EventingError eventing_conflict True))
             (thenA (ev_receipt env m consumer) (retA Done))))))"

text \<open>The body of the inbox transaction.\<close>

definition consume_locked ::
  "core_env \<Rightarrow> validated_message \<Rightarrow> string \<Rightarrow> int \<Rightarrow> handler \<Rightarrow> consumption core_act" where
  "consume_locked env m consumer attempt h =
     bindA (getsA (\<lambda>w. findInboxReceipt (vm_messageId m) consumer (ew_store w))) (\<lambda>raced.
     case raced of
       Some r \<Rightarrow>
         if ir_payloadSha256 r = vm_payloadSha256 m then retA Duplicate
         else ev_isolate env m consumer attempt Payload_conflict
     | None \<Rightarrow>
         if hd_kind h = Job then consume_job env m consumer attempt h
         else thenA (withTimeout (hd_expired h) (run_handler h m consumer))
                (thenA (ev_receipt env m consumer) (retA Done)))"

definition outcome_of :: "consumption \<Rightarrow> core_outcome" where
  "outcome_of r = (case r of
     Done \<Rightarrow> Obs_completed
   | Duplicate \<Rightarrow> Obs_duplicate
   | Skipped_cancelled \<Rightarrow> Obs_skipped
   | Skipped_rejected \<Rightarrow> Obs_skipped
   | Isolated_as x \<Rightarrow> Obs_isolated)"

definition consume_timeout :: "consume_request \<Rightarrow> validated_message \<Rightarrow> ev_failure + int" where
  "consume_timeout q m = (case vm_policy m of
     Some p \<Rightarrow> if jp_timeoutMs p < 100 \<or> 900000 < jp_timeoutMs p then ev_invalid
               else Inr (jp_timeoutMs p)
   | None \<Rightarrow> ev_bounded (cq_timeoutMs q) 100 900000)"

text \<open>What \<open>consume\<close> does with a valid request.\<close>

definition consume_message ::
  "core_env \<Rightarrow> store_op list \<Rightarrow> validated_message \<Rightarrow> string \<Rightarrow> int \<Rightarrow> handler \<Rightarrow> consumption core_act" where
  "consume_message env others m consumer attempt h =
     (if \<not> matches h m then
        bindA (ev_isolate env m consumer attempt Unsupported_message) (\<lambda>r.
        thenA (observe Consume Obs_isolated) (retA r))
      else
        bindA (getsA (\<lambda>w. findInboxReceipt (vm_messageId m) consumer (ew_store w))) (\<lambda>receipt.
        case receipt of
          Some r \<Rightarrow>
            if ir_payloadSha256 r = vm_payloadSha256 m
            then thenA (observe Consume Obs_duplicate) (retA Duplicate)
            else bindA (ev_isolate env m consumer attempt Payload_conflict) (\<lambda>r.
              thenA (observe Consume Obs_isolated) (retA r))
        | None \<Rightarrow>
            catchA
              (thenA (others_do others)
                (bindA (in_transaction (consume_locked env m consumer attempt h)) (\<lambda>r.
                 thenA (observe Consume (outcome_of r)) (retA r))))
              (\<lambda>error. thenA (observe Consume Obs_failed) (throwA error))))"

definition consume :: "core_env \<Rightarrow> consume_request \<Rightarrow> handler \<Rightarrow> consumption core_act" where
  "consume env q h =
     bindA (liftA (validateConsumerName (cq_consumer q))) (\<lambda>consumer.
     bindA (liftA (ev_bounded (cq_attempt q) 1 1000)) (\<lambda>attempt.
     bindA (liftA (validateMessageEnvelope (ce_lib env) (cq_envelope q))) (\<lambda>m.
     thenA (liftA (consume_timeout q m)) (consume_message env (cq_raced q) m consumer attempt h))))"

section \<open>Runs of the core\<close>

datatype core_command =
    DoAppend js_value
  | DoSubmit "store_op list" js_value
  | DoCancel js_value js_value
  | DoIsolate js_value js_value isolation_category "ev_failure option"
  | DoConsume consume_request handler
  | DoStore store_op

fun core_exec :: "core_env \<times> core_command \<Rightarrow> unit core_act" where
  "core_exec (env, DoAppend input) = voidA (appendEvent env input)"
| "core_exec (env, DoSubmit raced input) = voidA (submitJob env raced input)"
| "core_exec (env, DoCancel i reason) = voidA (cancelJob i reason)"
| "core_exec (env, DoIsolate i n category callback) =
     voidA (isolateJobForDeliveryFailure i n category callback)"
| "core_exec (env, DoConsume q h) = voidA (consume env q h)"
| "core_exec (env, DoStore op) = on_store (store_exec op)"

section \<open>What no operation can undo\<close>

text \<open>
  The contract of a fact about the store that every store operation keeps and that a rollback to an
  earlier state with the fact restores. Every operation of the core keeps such a fact.
\<close>

locale store_fact =
  fixes P :: "ev_store \<Rightarrow> bool"
  assumes op_keeps: "P s \<Longrightarrow> P (snd (store_exec op s))"
    and restores: "P s \<Longrightarrow> P (t\<lparr>es_outbox := es_outbox s, es_inbox := es_inbox s,
      es_jobs := es_jobs s, es_isolations := es_isolations s\<rparr>)"
begin

abbreviation Q :: "ev_world \<Rightarrow> bool" where
  "Q w \<equiv> P (ew_store w)"

lemma ops_keep: "P s \<Longrightarrow> P (run_all store_exec ops s)"
  by (induction ops arbitrary: s) (auto intro: op_keeps)

lemma on_store_keeps:
  assumes "\<And>s. P s \<Longrightarrow> P (snd (m s))"
  shows "keepsA Q (on_store m)"
  using assms by (auto simp: keepsA_def on_store_def split: prod.split) (metis snd_conv)

lemma op_acts [keeps]:
  "keepsA Q (on_store (appendOutbox r))"
  "keepsA Q (on_store (createInboxReceipt rc))"
  "keepsA Q (on_store (createIsolation isol))"
  "keepsA Q (on_store (createJob j))"
  "keepsA Q (on_store (claimJob i))"
  "keepsA Q (on_store (store_cancelJob i reason))"
  "keepsA Q (on_store (completeJob i))"
  "keepsA Q (on_store (isolateJob i))"
  "keepsA Q (on_store (store_exec op))"
  using op_keeps [of _ "SAppend r"] op_keeps [of _ "SReceipt rc"] op_keeps [of _ "SIsolation isol"]
    op_keeps [of _ "SCreateJob j"] op_keeps [of _ "SClaimJob i"]
    op_keeps [of _ "SCancelJob i reason"] op_keeps [of _ "SCompleteJob i"]
    op_keeps [of _ "SIsolateJob i"] op_keeps [of _ op]
  by (auto intro: on_store_keeps)

lemma others_keep [keeps]: "keepsA Q (others_do ops)"
  by (simp add: keepsA_def others_do_def ops_keep)

lemma logs_keep [keeps]:
  "keepsA Q (observe op out)"
  "keepsA Q (modifyA (\<lambda>w. w\<lparr>ew_callbacks := f w\<rparr>))"
  "keepsA Q (modifyA (\<lambda>w. w\<lparr>ew_handled := g w\<rparr>))"
  by (simp_all add: keepsA_def observe_def)

lemma transaction_keeps [keeps]: "keepsA Q work \<Longrightarrow> keepsA Q (in_transaction work)"
  by (auto simp: keepsA_def in_transaction_def intro: restores split: prod.split sum.split)

lemma timeout_keeps [keeps]: "keepsA Q work \<Longrightarrow> keepsA Q (withTimeout b work)"
  by (auto simp: keepsA_def withTimeout_def split: prod.split)

lemma state_if_keeps:
  "keepsA Q m \<Longrightarrow> keepsA Q n \<Longrightarrow> keepsA Q (\<lambda>w. if b w then m w else n w)"
  by (simp add: keepsA_def)

lemma isolate_keeps [keeps]: "keepsA Q (ev_isolate env m c n reason)"
  unfolding ev_isolate_def by (intro keeps)

lemma receipt_keeps [keeps]: "keepsA Q (ev_receipt env m c)"
  unfolding ev_receipt_def by (intro keeps)

lemma handler_keeps [keeps]: "keepsA Q (run_handler h m c)"
  unfolding run_handler_def by (intro keeps)

lemma job_handler_keeps [keeps]: "keepsA Q (run_job_handler h m c)"
  unfolding run_job_handler_def by (intro keeps)

lemma unclaimed_keeps [keeps]: "keepsA Q (consume_unclaimed env m c)"
  unfolding consume_unclaimed_def
  by (intro keepsA_bind keepsA_gets) (auto split: option.split job_status.split intro!: keeps)

lemma consume_job_keeps [keeps]: "keepsA Q (consume_job env m c n h)"
  unfolding consume_job_def
  by (intro keepsA_bind keepsA_gets keepsA_if isolate_keeps op_acts)
    (auto split: option.split intro!: keeps)

lemma consume_locked_keeps [keeps]: "keepsA Q (consume_locked env m c n h)"
  unfolding consume_locked_def
  by (intro keepsA_bind keepsA_gets) (auto split: option.split intro!: keeps)

lemma consume_message_keeps [keeps]: "keepsA Q (consume_message env others m c n h)"
  unfolding consume_message_def
  by (intro keepsA_if keepsA_bind keepsA_gets isolate_keeps logs_keep keepsA_ret)
    (auto split: option.split intro!: keeps)

lemma consume_keeps: "keepsA Q (consume env q h)"
  unfolding consume_def by (intro keeps)

lemma append_keeps: "keepsA Q (appendEvent env input)"
  unfolding appendEvent_def
  by (intro keeps state_if_keeps)

lemma submit_keeps: "keepsA Q (submitJob env raced input)"
proof -
  have prior: "keepsA Q (\<lambda>w. case k w of None \<Rightarrow> (Inl e, w)
      | Some p \<Rightarrow> if b p then (Inr (x p), w) else (Inl e, w))" for k e b x
    by (auto simp: keepsA_def split: option.split)
  have cases: "keepsA Q (case v of None \<Rightarrow> m | Some p \<Rightarrow> n p)"
    if "keepsA Q m" "\<And>p. keepsA Q (n p)" for v m n
    using that by (cases v) simp_all
  show ?thesis
    unfolding submitJob_def Let_def by (intro keepsA_bind keepsA_lift keepsA_gets cases
      keepsA_catch keeps prior)
qed

lemma cancel_keeps: "keepsA Q (cancelJob i reason)"
  unfolding cancelJob_def by (intro keeps)

lemma delivery_keeps: "keepsA Q (isolateJobForDeliveryFailure i n cat cb)"
  unfolding isolateJobForDeliveryFailure_def by (intro keeps)

lemma core_keeps: "keepsA Q (core_exec c)"
  by (cases c rule: core_exec.cases)
    (auto intro: keepsA_voidA append_keeps submit_keeps cancel_keeps delivery_keeps consume_keeps
      op_acts)

end

sublocale store_fact < core: guarded_machine core_exec "\<lambda>w. P (ew_store w)"
  by unfold_locales (rule keepsA_D [OF core_keeps])

lemmas store_op_defs = appendOutbox_def markOutboxPublished_def markOutboxFailure_def
  store_replayOutbox_def createInboxReceipt_def createIsolation_def createJob_def claimJob_def
  store_cancelJob_def completeJob_def isolateJob_def claimOutbox_def

definition receipt_is :: "string \<Rightarrow> inbox_receipt \<Rightarrow> ev_store \<Rightarrow> bool" where
  "receipt_is k r s \<longleftrightarrow> jm_get (es_inbox s) k = Some r"

definition job_settled :: "string \<Rightarrow> job_record \<Rightarrow> ev_store \<Rightarrow> bool" where
  "job_settled i j s \<longleftrightarrow> jm_get (es_jobs s) i = Some j
     \<and> (jr_status j = Cancelled \<or> jr_status j = Completed \<or> jr_status j = JobIsolated)"

lemma claim_each_maps [simp]:
  "es_inbox (snd (claim_each now token i rs s)) = es_inbox s"
  "es_jobs (snd (claim_each now token i rs s)) = es_jobs s"
  by (induction rs arbitrary: i s) (simp_all add: Let_def split_beta)

interpretation receipts: store_fact "receipt_is k r" for k r
proof
  show "receipt_is k r s \<Longrightarrow> receipt_is k r (snd (store_exec op s))" for s op
    by (cases op) (auto simp: receipt_is_def store_op_defs Let_def split: option.split)
qed (simp add: receipt_is_def)

interpretation settled: store_fact "job_settled i j" for i j
proof
  show "job_settled i j s \<Longrightarrow> job_settled i j (snd (store_exec op s))" for s op
    by (cases op) (auto simp: job_settled_def store_op_defs Let_def split: option.split)
qed (simp add: job_settled_def)

text \<open>
  A job that was cancelled, completed or isolated keeps its record, whatever operations of the
  core and of the store follow, failing and rolled back ones included.
\<close>

theorem settled_job_final:
  assumes "jm_get (es_jobs (ew_store w)) i = Some j"
    and "jr_status j = Cancelled \<or> jr_status j = Completed \<or> jr_status j = JobIsolated"
  shows "jm_get (es_jobs (ew_store (run_all core_exec cs w))) i = Some j"
  using settled.core.run_keeps [where s = w and i = i and j = j] assms by (simp add: job_settled_def)

section \<open>Effectively once\<close>

lemma ev_receipt_Inr:
  "ev_receipt env m c w = (Inr u, w') \<Longrightarrow>
     \<exists>r. findInboxReceipt (vm_messageId m) c (ew_store w') = Some r
       \<and> ir_payloadSha256 r = vm_payloadSha256 m"
  by (auto simp: ev_receipt_def on_store_def createInboxReceipt_def findInboxReceipt_def Let_def
      split: if_splits)

lemma ev_isolate_not_Done: "ev_isolate env m c n reason w \<noteq> (Inr Done, w')"
  by (auto simp: ev_isolate_def bindA_eq_Inr split: if_splits)

lemma consume_unclaimed_not_Done: "consume_unclaimed env m c w \<noteq> (Inr Done, w')"
  by (auto simp: consume_unclaimed_def bindA_eq_Inr split: option.splits job_status.splits)

lemma consume_locked_Done:
  "consume_locked env m c n h w = (Inr Done, w') \<Longrightarrow>
     \<exists>r. findInboxReceipt (vm_messageId m) c (ew_store w') = Some r
       \<and> ir_payloadSha256 r = vm_payloadSha256 m"
  by (auto simp: consume_locked_def consume_job_def bindA_eq_Inr ev_isolate_not_Done
      consume_unclaimed_not_Done split: option.splits if_splits dest!: ev_receipt_Inr)

lemma consume_message_Done:
  "consume_message env others m c n h w = (Inr Done, w') \<Longrightarrow>
     \<exists>r. findInboxReceipt (vm_messageId m) c (ew_store w') = Some r
       \<and> ir_payloadSha256 r = vm_payloadSha256 m"
  by (auto simp: consume_message_def catchA_run in_transaction_def bindA_eq_Inr bindA_eq_Inl
      ev_isolate_not_Done observe_def others_do_def dest!: consume_locked_Done
      split: option.splits if_splits prod.splits sum.splits)

lemma consume_eq:
  assumes "validateConsumerName (cq_consumer q) = Inr c"
    and "validateMessageEnvelope (ce_lib env) (cq_envelope q) = Inr m"
  shows "(\<exists>n. consume env q h w = consume_message env (cq_raced q) m c n h w)
    \<or> (\<exists>e. consume env q h w = (Inl e, w))"
  using assms by (cases "ev_bounded (cq_attempt q) 1 1000"; cases "consume_timeout q m")
    (auto simp: consume_def bindA_def)

lemma ev_isolate_handled [simp]:
  "ew_handled (snd (ev_isolate env m c n reason w)) = ew_handled w"
  by (auto simp: ev_isolate_def bindA_def on_store_def split: sum.split prod.split)

lemma consume_message_again:
  assumes "findInboxReceipt (vm_messageId m) c (ew_store w) = Some r"
  shows "ew_handled (snd (consume_message env others m c n h w)) = ew_handled w"
    and "fst (consume_message env others m c n h w) \<noteq> Inr Done"
proof -
  have i: "ew_handled w1 = ew_handled w"
    if "ev_isolate env m c n reason w = (v, w1)" for reason v w1
    using that ev_isolate_handled [of env m c n reason w] by simp
  show "ew_handled (snd (consume_message env others m c n h w)) = ew_handled w"
    using assms by (auto simp: consume_message_def bindA_def observe_def dest: i
        split: sum.split prod.split)
  show "fst (consume_message env others m c n h w) \<noteq> Inr Done"
    using assms ev_isolate_not_Done [of env m c n _ w]
    by (auto simp: consume_message_def bindA_def observe_def split: sum.split prod.split)
qed


section \<open>Failed consumption\<close>

definition store_maps where
  "store_maps s = (es_outbox s, es_inbox s, es_jobs s, es_isolations s)"

lemma ev_isolate_fails: "ev_isolate env m c n reason w = (Inl e, w') \<Longrightarrow> w' = w"
  by (auto simp: ev_isolate_def bindA_eq_Inl on_store_def createIsolation_def
      split: if_splits prod.splits)

lemma in_transaction_fails:
  "in_transaction work w = (Inl e, w') \<Longrightarrow> store_maps (ew_store w') = store_maps (ew_store w)"
  by (auto simp: in_transaction_def store_maps_def split: prod.splits sum.splits)

text \<open>
  C26: a consumption that throws, because its handler threw or timed out or a write failed, leaves
  the outbox, the inbox, the jobs and the isolations as they were: no receipt, no claimed job.
\<close>

theorem failed_consume_rolls_back:
  assumes "consume env q h w = (Inl e, w')" and "cq_raced q = []"
  shows "store_maps (ew_store w') = store_maps (ew_store w)"
proof -
  have "store_maps (ew_store w') = store_maps (ew_store w)"
    if "consume_message env [] m c n h w = (Inl e, w')" for m c n
    using that by (auto simp: consume_message_def bindA_eq_Inl bindA_eq_Inr catchA_run observe_def
        others_do_def dest!: ev_isolate_fails in_transaction_fails
        split: option.splits if_splits prod.splits sum.splits)
  with assms show ?thesis by (auto simp: consume_def bindA_eq_Inl)
qed

subsection \<open>A sample run\<close>

definition sample_core :: core_env where
  "sample_core = \<lparr>ce_lib = sample_lib, ce_clock = 0,
     ce_isolationId = JString ''00000000-0000-4000-8000-000000000009''\<rparr>"

definition sample_handler :: "ev_failure option \<Rightarrow> handler" where
  "sample_handler e = \<lparr>hd_kind = Event, hd_messageType = ''crm.customer.created.v1'',
     hd_messageVersion = 1, hd_recheck = None, hd_handle = e, hd_expired = False, hd_during = []\<rparr>"

definition sample_request :: "string \<Rightarrow> consume_request" where
  "sample_request d = \<lparr>cq_attempt = js_int 1, cq_consumer = JString ''crm.reader'',
     cq_envelope = sample_event_input d, cq_timeoutMs = js_int 1000, cq_raced = []\<rparr>"

definition empty_world :: ev_world where
  "empty_world = \<lparr>ew_store = emptyEventingStore, ew_handled = [], ew_observed = [], ew_callbacks = []\<rparr>"

definition sample_consumed :: ev_world where
  "sample_consumed = snd (consume sample_core (sample_request ''x'') (sample_handler None) empty_world)"

lemma sample_consumption:
  "consume sample_core (sample_request ''x'') (sample_handler None) empty_world = (Inr Done, sample_consumed)"
proof -
  have "fst (consume sample_core (sample_request ''x'') (sample_handler None) empty_world) = Inr Done"
    by code_simp
  then show ?thesis by (simp add: sample_consumed_def prod_eq_iff)
qed

lemma sample_request_valid:
  "validateConsumerName (cq_consumer (sample_request d)) = Inr ''crm.reader''"
  "validateMessageEnvelope (ce_lib sample_core) (cq_envelope (sample_request ''x'')) = Inr sample_event"
proof -
  have "validateConsumerName (JString ''crm.reader'') = Inr ''crm.reader''" by code_simp
  then show "validateConsumerName (cq_consumer (sample_request d)) = Inr ''crm.reader''"
    by (simp add: sample_request_def)
  show "validateMessageEnvelope (ce_lib sample_core) (cq_envelope (sample_request ''x'')) = Inr sample_event"
    using sample_event_valid by (simp add: sample_request_def sample_core_def)
qed


theorem failed_consume_rolls_back_witness:
  "store_maps (ew_store (snd (consume sample_core (sample_request ''x'')
      (sample_handler (Some (EvPortError ''late''))) empty_world))) = store_maps (ew_store empty_world)"
proof (rule failed_consume_rolls_back)
  have "fst (consume sample_core (sample_request ''x'') (sample_handler (Some (EvPortError ''late'')))
      empty_world) = Inl (EvPortError ''late'')" by code_simp
  then show "consume sample_core (sample_request ''x'') (sample_handler (Some (EvPortError ''late'')))
      empty_world = (Inl (EvPortError ''late''), snd (consume sample_core (sample_request ''x'')
        (sample_handler (Some (EvPortError ''late''))) empty_world))"
    by (simp add: prod_eq_iff)
qed (simp add: sample_request_def)

definition sample_jobs :: ev_world where
  "sample_jobs = snd (cancelJob (JString ''00000000-0000-4000-8000-000000000003'') (JString ''not needed'')
     (snd (submitJob sample_core [] sample_job_input empty_world)))"

theorem settled_job_final_witness:
  "\<exists>j. jm_get (es_jobs (ew_store (run_all core_exec [] sample_jobs)))
     ''00000000-0000-4000-8000-000000000003'' = Some j \<and> jr_status j = Cancelled"
proof -
  have "map_option jr_status (jm_get (es_jobs (ew_store sample_jobs))
      ''00000000-0000-4000-8000-000000000003'') = Some Cancelled" by code_simp
  then obtain j where "jm_get (es_jobs (ew_store sample_jobs))
      ''00000000-0000-4000-8000-000000000003'' = Some j" "jr_status j = Cancelled" by auto
  with settled_job_final [of sample_jobs "''00000000-0000-4000-8000-000000000003''" j "[]"]
  show ?thesis by blast
qed

end
