(* ===== verification/Rabbit.thy ===== *)
theory Rabbit
  imports EventCore
begin

text \<open>
  The message broker's side of the eventing module
  (\<open>packages/crm-modules/eventing-outbox/src/rabbit.ts\<close>): the publisher's transport and the
  handling of a delivery. What the code asks of the channel or the delivery is a trace of actions;
  what they answer is a parameter.
\<close>

section \<open>The confirming transport\<close>

definition name_ok :: "string \<Rightarrow> bool" where
  "name_ok s = shape alnum (alnum @ ''._:-'') 0 254 s"

definition route_ok :: "string \<Rightarrow> bool" where
  "route_ok s = shape (alnum @ ''*#'') (alnum @ ''._*#:-'') 0 254 s"

record rabbit_route =
  rr_messageKind :: message_kind
  rr_messageType :: string
  rr_messageVersion :: int
  rr_routingKey :: string

record rabbit_topology =
  rt_exchange :: string
  rt_exchangeType :: string
  rt_routes :: "rabbit_route list"

text \<open>A message of the outbox as the transport gets it (\<open>OutboxPublication\<close>).\<close>

record publication =
  pn_attempt :: int
  pn_messageId :: string
  pn_messageKind :: message_kind
  pn_messageType :: string
  pn_messageVersion :: int
  pn_producer :: string
  pn_correlationId :: string
  pn_payload :: string
  pn_causationId :: "string option"
  pn_traceparent :: "string option"
  pn_tracestate :: "string option"

definition kind_name :: "message_kind \<Rightarrow> string" where
  "kind_name k = (case k of Event \<Rightarrow> ''event'' | Job \<Rightarrow> ''job'')"

definition route_key :: "message_kind \<Rightarrow> string \<Rightarrow> int \<Rightarrow> string" where
  "route_key k t v = kind_name k @ [CHR 0x00] @ t @ [CHR 0x00] @ show_int v"

fun routes_map :: "rabbit_route list \<Rightarrow> (string, string) jsmap \<Rightarrow> (string, string) jsmap" where
  "routes_map [] m = m"
| "routes_map (r # rs) m = routes_map rs
     (jm_set m (route_key (rr_messageKind r) (rr_messageType r) (rr_messageVersion r)) (rr_routingKey r))"

text \<open>What the channel answers, and what it is asked.\<close>

record channel =
  ch_assert :: "ev_failure option"
  ch_publish :: "ev_failure + bool"
  ch_drain :: "ev_failure option"
  ch_confirms :: "ev_failure option"
  ch_returned :: bool

datatype channel_action =
    AssertExchange string string
  | PublishMandatory string string string "(string \<times> js_value) list"
  | WaitForDrain
  | WaitForConfirms
  | TakeReturned string

type_synonym 'a channel_act = "(channel_action list, ev_failure, 'a) act"

definition ask :: "channel_action \<Rightarrow> unit channel_act" where
  "ask a = modifyA (\<lambda>tr. tr @ [a])"

definition answer :: "ev_failure option \<Rightarrow> ('s, ev_failure, unit) act" where
  "answer e = liftA (case e of None \<Rightarrow> Inr () | Some x \<Rightarrow> Inl x)"

definition createRabbitConfirmTransport ::
  "channel \<Rightarrow> rabbit_topology \<Rightarrow> (string, string) jsmap channel_act" where
  "createRabbitConfirmTransport ch t =
     thenA (ensureA (name_ok (rt_exchange t) \<and> 1 \<le> length (rt_routes t) \<and> length (rt_routes t) \<le> 1000
              \<and> list_all (\<lambda>r. route_ok (rr_routingKey r)) (rt_routes t))
              (ev_error eventing_invalid_input))
     (let routes = routes_map (rt_routes t) [] in
      thenA (ensureA (length routes = length (rt_routes t)) (ev_error eventing_invalid_input))
      (thenA (ask (AssertExchange (rt_exchange t) (rt_exchangeType t)))
      (thenA (answer (ch_assert ch)) (retA routes))))"

definition publish_properties :: "publication \<Rightarrow> (string \<times> js_value) list" where
  "publish_properties p =
     [(''persistent'', JBool True), (''contentType'', JString ''application/json''),
      (''messageId'', JString (pn_messageId p)), (''type'', JString (pn_messageType p)),
      (''correlationId'', JString (pn_correlationId p)), (''appId'', JString (pn_producer p)),
      (''headers'', JObject ([(''x-ai-crm-kind'', JString (kind_name (pn_messageKind p))),
         (''x-ai-crm-version'', js_int (pn_messageVersion p)),
         (''x-ai-crm-publish-attempt'', js_int (pn_attempt p)),
         (''x-ai-crm-delivery-attempt'', js_int 1)]
        @ js_opt ''x-ai-crm-causation-id'' (pn_causationId p)
        @ js_opt ''traceparent'' (pn_traceparent p) @ js_opt ''tracestate'' (pn_tracestate p)))]"

definition transport_publish ::
  "channel \<Rightarrow> rabbit_topology \<Rightarrow> (string, string) jsmap \<Rightarrow> publication \<Rightarrow> unit channel_act" where
  "transport_publish ch t routes p =
     bindA (requireA (case jm_get routes (route_key (pn_messageKind p) (pn_messageType p)
              (pn_messageVersion p)) of Some [] \<Rightarrow> None | r \<Rightarrow> r) (ev_error eventing_invalid_input)) (\<lambda>route.
     thenA (ask (PublishMandatory (rt_exchange t) route (pn_payload p) (publish_properties p)))
     (bindA (liftA (ch_publish ch)) (\<lambda>writable.
      thenA (if writable then retA () else thenA (ask WaitForDrain) (answer (ch_drain ch)))
      (thenA (ask WaitForConfirms)
      (thenA (ensureA (ch_confirms ch = None) storage_unavailable)
      (thenA (ask (TakeReturned (pn_messageId p)))
       (ensureA (\<not> ch_returned ch) storage_unavailable)))))))"

text \<open>A publication only returns after the broker's confirms came and the message was not returned.\<close>

lemma transport_publish_confirmed:
  assumes "transport_publish ch t routes p tr = (Inr u, tr')"
  shows "ch_confirms ch = None \<and> \<not> ch_returned ch
    \<and> WaitForConfirms \<in> set tr' \<and> TakeReturned (pn_messageId p) \<in> set tr'"
  using assms by (auto simp: transport_publish_def bindA_eq_Inr ask_def)

section \<open>Deliveries\<close>

text \<open>
  \<open>dv_parsed\<close> is the value of the body's JSON text, \<open>None\<close> if parsing it throws;
  \<open>dv_retry\<close> is what \<open>delivery.retry\<close> rejects with.
\<close>

record delivery =
  dv_size :: int
  dv_parsed :: "js_value option"
  dv_attempt :: jsnum
  dv_retry :: "ev_failure option"

record event_policy =
  ep_maxAttempts :: jsnum
  ep_backoffSeconds :: "jsnum list"
  ep_timeoutMs :: jsnum

datatype classification = Retryable | Terminal

text \<open>Results as the caller of \<open>consume\<close> reports them; \<open>None\<close> is \<open>undefined\<close>.\<close>

definition consumptionResult :: "js_value \<Rightarrow> ev_failure + consumption option" where
  "consumptionResult v = (case v of
     JUndefined \<Rightarrow> Inr None
   | JObject fs \<Rightarrow>
       (let status = js_field fs ''status''; reason = js_field fs ''reason'' in
        if ''status'' \<notin> set (map fst fs) then ev_invalid
        else if status = JString ''completed'' then Inr (Some Done)
        else if status = JString ''duplicate'' then Inr (Some Duplicate)
        else if ''reason'' \<notin> set (map fst fs) then ev_invalid
        else if status = JString ''skipped'' \<and> reason = JString ''job_cancelled''
          then Inr (Some Skipped_cancelled)
        else if status = JString ''skipped'' \<and> reason = JString ''authoritative_state_rejected''
          then Inr (Some Skipped_rejected)
        else if status = JString ''isolated'' \<and> reason = JString ''payload_conflict''
          then Inr (Some (Isolated_as Payload_conflict))
        else if status = JString ''isolated'' \<and> reason = JString ''unsupported_message''
          then Inr (Some (Isolated_as Unsupported_message))
        else ev_invalid)
   | _ \<Rightarrow> ev_invalid)"

text \<open>
  The caller's side: what \<open>consume\<close> answers for an envelope, how a failure is classified, and
  what the two callbacks do (\<open>None\<close> when absent, else what they reject with).
\<close>

record delivery_options =
  do_eventPolicy :: event_policy
  do_consume :: "js_value \<Rightarrow> int \<Rightarrow> int \<Rightarrow> ev_failure + js_value"
  do_classify :: "ev_failure \<Rightarrow> classification"
  do_onIsolated :: "ev_failure option option"
  do_onConsumed :: "ev_failure option option"

datatype delivery_action =
    Ack
  | Retry int
  | DeadLetter
  | OnIsolated string int isolation_category
  | OnConsumed string message_kind int consumption

type_synonym 'a delivery_act = "(delivery_action list, ev_failure, 'a) act"

definition does :: "delivery_action \<Rightarrow> unit delivery_act" where
  "does a = modifyA (\<lambda>tr. tr @ [a])"

definition event_policy_ok :: "event_policy \<Rightarrow> bool" where
  "event_policy_ok p \<longleftrightarrow>
     isInteger (ep_maxAttempts p) \<and> 1 \<le> num_int (ep_maxAttempts p) \<and> num_int (ep_maxAttempts p) \<le> 16
     \<and> int (length (ep_backoffSeconds p)) = num_int (ep_maxAttempts p) - 1
     \<and> list_all (\<lambda>v. isInteger v \<and> 1 \<le> num_int v \<and> num_int v \<le> 86400) (ep_backoffSeconds p)
     \<and> isInteger (ep_timeoutMs p) \<and> 100 \<le> num_int (ep_timeoutMs p) \<and> num_int (ep_timeoutMs p) \<le> 900000"

text \<open>The checks of the \<open>try\<close> block: the message and the policy its retries follow.\<close>

definition delivery_message ::
  "ev_lib \<Rightarrow> event_policy \<Rightarrow> delivery \<Rightarrow> ev_failure + validated_message \<times> job_policy" where
  "delivery_message lib p d =
     bindE (ensure (dv_size d \<le> 262144 \<and> isInteger (dv_attempt d) \<and> 1 \<le> num_int (dv_attempt d))
              (ev_error eventing_invalid_input)) (\<lambda>_.
     bindE (case dv_parsed d of None \<Rightarrow> Inl (EvPortError ''SyntaxError'') | Some v \<Rightarrow> Inr v) (\<lambda>v.
     bindE (validateMessageEnvelope lib v) (\<lambda>m.
     case vm_policy m of
       Some policy \<Rightarrow> Inr (m, policy)
     | None \<Rightarrow>
         if event_policy_ok p
         then Inr (m, \<lparr>jp_maxAttempts = num_int (ep_maxAttempts p),
                jp_backoffSeconds = map num_int (ep_backoffSeconds p),
                jp_timeoutMs = num_int (ep_timeoutMs p)\<rparr>)
         else ev_invalid)))"

definition delivery_isolate ::
  "delivery_options \<Rightarrow> validated_message \<Rightarrow> int \<Rightarrow> isolation_category \<Rightarrow> unit delivery_act" where
  "delivery_isolate opts m attempt category =
     (case do_onIsolated opts of
        None \<Rightarrow> retA ()
      | Some rejects \<Rightarrow>
          if vm_messageKind m \<noteq> Job then retA ()
          else thenA (does (OnIsolated (vm_messageId m) attempt category)) (answer rejects))"

definition handleRabbitDelivery ::
  "ev_lib \<Rightarrow> delivery_options \<Rightarrow> delivery \<Rightarrow> unit delivery_act" where
  "handleRabbitDelivery lib opts d =
     (case delivery_message lib (do_eventPolicy opts) d of
        Inl e \<Rightarrow> does DeadLetter
      | Inr (m, policy) \<Rightarrow>
          let attempt = num_int (dv_attempt d) in
          if jp_maxAttempts policy < attempt then
            thenA (delivery_isolate opts m attempt Delivery_budget_exceeded) (does DeadLetter)
          else
            (case bindE (do_consume opts (vm_envelope m) attempt (jp_timeoutMs policy)) consumptionResult of
               Inl error \<Rightarrow>
                 if do_classify opts error = Retryable \<and> attempt < jp_maxAttempts policy then
                   thenA (does (Retry (let i = nat (attempt - 1) in
                     if i < length (jp_backoffSeconds policy) then jp_backoffSeconds policy ! i else 1)))
                   (thenA (answer (dv_retry d)) (does Ack))
                 else
                   thenA (delivery_isolate opts m attempt
                     (if do_classify opts error = Terminal then Terminal_failure else Attempts_exhausted))
                   (does DeadLetter)
             | Inr result \<Rightarrow>
                 thenA (case (result, do_onConsumed opts) of
                     (Some r, Some rejects) \<Rightarrow>
                       thenA (does (OnConsumed (vm_messageId m) (vm_messageKind m) attempt r)) (answer rejects)
                   | _ \<Rightarrow> retA ())
                 (does Ack)))"

section \<open>How a delivery is settled\<close>

definition settlements :: "delivery_action list \<Rightarrow> delivery_action list" where
  "settlements tr = filter (\<lambda>a. a = Ack \<or> a = DeadLetter) tr"

text \<open>Settled once when the handling returned, not at all when it threw.\<close>

definition settled_once :: "(ev_failure + unit) \<times> delivery_action list \<Rightarrow> bool" where
  "settled_once r = (case r of
     (Inr u, tr) \<Rightarrow> settlements tr = [Ack] \<or> settlements tr = [DeadLetter]
   | (Inl e, tr) \<Rightarrow> settlements tr = [])"

lemma settlements_simps [simp]:
  "settlements [] = []"
  "settlements (xs @ ys) = settlements xs @ settlements ys"
  "settlements (Ack # tr) = Ack # settlements tr"
  "settlements (DeadLetter # tr) = DeadLetter # settlements tr"
  "settlements (Retry k # tr) = settlements tr"
  "settlements (OnIsolated i n c # tr) = settlements tr"
  "settlements (OnConsumed i kd n res # tr) = settlements tr"
  by (simp_all add: settlements_def)

lemma does_simps [simp]: "does a tr = (Inr (), tr @ [a])"
  by (simp add: does_def)

lemma delivery_isolate_settles:
  "\<exists>r xs. delivery_isolate opts m n c tr = (r, tr @ xs) \<and> settlements xs = [] \<and> Ack \<notin> set xs"
  by (auto simp: delivery_isolate_def answer_def bindA_def split: option.split)

lemma isolate_then_settled:
  "settled_once (thenA (delivery_isolate opts m n c) (does DeadLetter) [])"
  using delivery_isolate_settles [of opts m n c "[]"]
  by (auto simp: settled_once_def bindA_def split: sum.split_asm)

text \<open>
  Handling a delivery that returns has acknowledged it or dead-lettered it, exactly once and not
  both; handling that throws has done neither, so the broker delivers again. No delivery is lost or
  settled twice, whatever the consumer, the callbacks and the broker's retry answer.
\<close>

theorem delivery_settled_once: "settled_once (handleRabbitDelivery lib opts d [])"
proof (cases "delivery_message lib (do_eventPolicy opts) d")
  case (Inr mp)
  obtain m policy where mp: "mp = (m, policy)" by fastforce
  let ?r = "bindE (do_consume opts (vm_envelope m) (num_int (dv_attempt d)) (jp_timeoutMs policy))
    consumptionResult"
  show ?thesis
  proof (cases ?r)
    case (Inl error)
    with Inr mp isolate_then_settled show ?thesis
      by (auto simp: handleRabbitDelivery_def Let_def answer_def bindA_run settled_once_def
          split: option.split)
  next
    case (Inr result)
    with \<open>delivery_message lib _ d = Inr mp\<close> mp isolate_then_settled show ?thesis
      by (auto simp: handleRabbitDelivery_def Let_def answer_def bindA_run settled_once_def
          split: option.split)
  qed
qed (simp add: handleRabbitDelivery_def settled_once_def)

lemma message_policy_ok:
  assumes "validateMessageEnvelope lib v = Inr m" and "vm_policy m = Some p"
  shows "job_policy_ok p"
proof -
  have "message_ok lib m"
    using assms(1) unfolding validateMessageEnvelope_def
    by (metis event_message_ok job_message_ok)
  with assms(2) show ?thesis by (auto simp: message_ok_def split: message_kind.splits)
qed

lemma delivery_policy_ok:
  assumes "delivery_message lib ep d = Inr (m, p)"
  shows "job_policy_ok p \<and> 1 \<le> num_int (dv_attempt d)"
proof (cases "vm_policy m")
  case None
  with assms show ?thesis
    by (auto simp: delivery_message_def bindE_eq_Inr event_policy_ok_def job_policy_ok_def
        list_all_iff split: option.splits if_splits)
next
  case (Some q)
  with assms have "p = q" "1 \<le> num_int (dv_attempt d)"
    "\<exists>v. validateMessageEnvelope lib v = Inr m"
    by (auto simp: delivery_message_def bindE_eq_Inr split: option.splits if_splits)
  with Some show ?thesis by (auto intro: message_policy_ok)
qed


subsection \<open>A sample delivery\<close>

definition sample_event_policy :: event_policy where
  "sample_event_policy = \<lparr>ep_maxAttempts = Fin 2, ep_backoffSeconds = [Fin 7], ep_timeoutMs = Fin 1000\<rparr>"

definition sample_options :: delivery_options where
  "sample_options = \<lparr>do_eventPolicy = sample_event_policy,
     do_consume = (\<lambda>v n t. Inl (EvPortError ''down'')), do_classify = (\<lambda>e. Retryable),
     do_onIsolated = None, do_onConsumed = None\<rparr>"

definition sample_delivery :: delivery where
  "sample_delivery = \<lparr>dv_size = 100, dv_parsed = Some (sample_event_input ''x''), dv_attempt = Fin 1,
     dv_retry = None\<rparr>"

definition sample_delivery_policy :: job_policy where
  "sample_delivery_policy = \<lparr>jp_maxAttempts = 2, jp_backoffSeconds = [7], jp_timeoutMs = 1000\<rparr>"

lemma sample_delivery_message:
  "delivery_message sample_lib (do_eventPolicy sample_options) sample_delivery
     = Inr (sample_event, sample_delivery_policy)"
proof -
  have "vm_policy sample_event = None" by code_simp
  moreover have "event_policy_ok sample_event_policy" by code_simp
  ultimately show ?thesis
    using sample_event_valid
    by (simp add: delivery_message_def sample_options_def sample_delivery_def sample_event_policy_def
        sample_delivery_policy_def isInteger_def)
qed

lemma sample_delivery_trace:
  "handleRabbitDelivery sample_lib sample_options sample_delivery [] = (Inr (), [Retry 7, Ack])"
  using sample_delivery_message
  by (simp add: handleRabbitDelivery_def sample_options_def sample_delivery_def
      sample_delivery_policy_def does_def answer_def bindA_run)


end
