(* ===== verification/NotifyTemplate.thy ===== *)
theory NotifyTemplate
  imports EventValidation
begin

text \<open>
  Values and templates of the notification module
  (\<open>packages/crm-modules/notifications/src/\<close>: \<open>errors.ts\<close>, \<open>types.ts\<close>, \<open>validation.ts\<close>,
  \<open>template.ts\<close>). Mustache, AJV, the Markdown parser, SHA-256, \<open>localeCompare\<close> and the text of a
  number are parameters (\<open>notify_lib\<close>).
\<close>

section \<open>Errors\<close>

datatype notify_code =
    NOTIFICATION_AUDIT_FAILED
  | NOTIFICATION_AUTHORIZATION_FAILED
  | NOTIFICATION_CONFLICT
  | NOTIFICATION_INPUT_INVALID
  | NOTIFICATION_NOT_FOUND
  | NOTIFICATION_OPERATION_DENIED
  | NOTIFICATION_RECIPIENT_RESOLUTION_FAILED
  | NOTIFICATION_STORAGE_UNAVAILABLE
  | NOTIFICATION_TEMPLATE_INVALID
  | NOTIFICATION_TEMPLATE_NOT_FOUND

text \<open>A \<open>NotificationError\<close> with its \<open>retryable\<close> flag, or what a port throws.\<close>

datatype notify_failure = NotificationError notify_code bool | NotifyPortError string

abbreviation nt_error :: "notify_code \<Rightarrow> notify_failure" where
  "nt_error c \<equiv> NotificationError c False"

abbreviation nt_invalid :: "notify_failure + 'a" where
  "nt_invalid \<equiv> Inl (nt_error NOTIFICATION_INPUT_INVALID)"

section \<open>Identifiers and times\<close>

definition nt_id_ok :: "string \<Rightarrow> bool" where
  "nt_id_ok s = shape alnum (alnum @ ''._:-'') 0 254 s"

definition nt_id :: "string \<Rightarrow> notify_failure + string" where
  "nt_id s = (if nt_id_ok s then Inr s else nt_invalid)"

definition nt_uuid :: "string \<Rightarrow> notify_failure + string" where
  "nt_uuid s = (if uuid_any s then Inr s else nt_invalid)"

definition nt_timestamp :: "string \<Rightarrow> notify_failure + string" where
  "nt_timestamp s = (if utc_time_ok s then Inr s else nt_invalid)"

definition nt_cursor :: "string \<Rightarrow> notify_failure + string" where
  "nt_cursor s =
     (if 128 < length s then nt_invalid
      else case split_on (CHR 0x00) s of
        [a, b] \<Rightarrow> bindE (nt_timestamp a) (\<lambda>_. bindE (nt_uuid b) (\<lambda>_. Inr s))
      | _ \<Rightarrow> nt_invalid)"

section \<open>Actors, recipients, links\<close>

record notify_actor =
  na_principalId :: string
  na_activeAssignmentIds :: "string list option"
  na_selectedAssignmentId :: "string option"
  na_workforcePersonId :: "string option"

definition nt_optional :: "(string \<Rightarrow> notify_failure + string) \<Rightarrow> string option \<Rightarrow> notify_failure + string option" where
  "nt_optional f v = (case v of None \<Rightarrow> Inr None | Some s \<Rightarrow> bindE (f s) (\<lambda>x. Inr (Some x)))"

definition nt_actor :: "notify_actor \<Rightarrow> notify_failure + notify_actor" where
  "nt_actor a =
     bindE (case na_activeAssignmentIds a of
         None \<Rightarrow> Inr None
       | Some ids \<Rightarrow> if 100 < length ids then nt_invalid
                     else bindE (mapE nt_id ids) (\<lambda>xs. Inr (Some xs))) (\<lambda>assignments.
     bindE (nt_optional nt_id (na_selectedAssignmentId a)) (\<lambda>selected.
     bindE (ensure (case selected of None \<Rightarrow> True
              | Some i \<Rightarrow> (case assignments of None \<Rightarrow> False | Some xs \<Rightarrow> i \<in> set xs))
              (nt_error NOTIFICATION_INPUT_INVALID)) (\<lambda>_.
     bindE (nt_optional nt_id (na_workforcePersonId a)) (\<lambda>person.
     bindE (nt_id (na_principalId a)) (\<lambda>principal.
     Inr \<lparr>na_principalId = principal, na_activeAssignmentIds = assignments,
          na_selectedAssignmentId = selected, na_workforcePersonId = person\<rparr>)))))"

record selector =
  se_selectorType :: string
  se_referenceId :: string

definition nt_selector :: "selector \<Rightarrow> notify_failure + selector" where
  "nt_selector s =
     bindE (nt_id (se_selectorType s)) (\<lambda>_. bindE (nt_id (se_referenceId s)) (\<lambda>_. Inr s))"

record resolved_recipient =
  rc_principalId :: string
  rc_recipientReference :: string
  rc_resolutionReference :: string
  rc_resolutionVersion :: string
  rc_workforcePersonId :: "string option"

definition nt_recipient :: "resolved_recipient \<Rightarrow> notify_failure + resolved_recipient" where
  "nt_recipient r =
     bindE (nt_id (rc_principalId r)) (\<lambda>_. bindE (nt_id (rc_recipientReference r)) (\<lambda>_.
     bindE (nt_id (rc_resolutionReference r)) (\<lambda>_. bindE (nt_id (rc_resolutionVersion r)) (\<lambda>_.
     bindE (nt_optional nt_id (rc_workforcePersonId r)) (\<lambda>_. Inr r)))))"

record deep_link =
  dk_applicationId :: string
  dk_routeId :: string
  dk_resourceType :: string
  dk_resourceId :: string
  dk_parameters :: "(string \<times> string) list option"

text \<open>The entries of an object have distinct keys, so \<open>Object.keys\<close> counts them.\<close>

definition nt_deepLink :: "deep_link \<Rightarrow> notify_failure + deep_link" where
  "nt_deepLink d =
     bindE (case dk_parameters d of
         None \<Rightarrow> Inr ()
       | Some ps \<Rightarrow> bindE (mapE (\<lambda>p. bindE (nt_id (fst p)) (\<lambda>_. nt_id (snd p))) ps) (\<lambda>_.
           ensure (length ps \<le> 20) (nt_error NOTIFICATION_INPUT_INVALID))) (\<lambda>_.
     bindE (nt_id (dk_applicationId d)) (\<lambda>_. bindE (nt_id (dk_routeId d)) (\<lambda>_.
     bindE (nt_id (dk_resourceType d)) (\<lambda>_. bindE (nt_id (dk_resourceId d)) (\<lambda>_. Inr d)))))"

section \<open>Canonical values\<close>

text \<open>What is not under \<open>src/\<close>. \<open>nl_markdown\<close> is the syntax tree of a text, if it parses.\<close>

datatype md_node = MdNode (md_type: string) (md_children: "md_node list")

record notify_lib =
  nl_before :: "string \<Rightarrow> string \<Rightarrow> bool"
  nl_showNum :: "jsnum \<Rightarrow> string"
  nl_sha256 :: "string \<Rightarrow> string"
  nl_mustacheParses :: "string \<Rightarrow> bool"
  nl_mustacheRender :: "string \<Rightarrow> (string \<times> string) list \<Rightarrow> string"
  nl_markdown :: "string \<Rightarrow> md_node option"
  nl_schemaCompiles :: "js_value \<Rightarrow> bool"
  nl_schemaAccepts :: "js_value \<Rightarrow> js_value \<Rightarrow> bool"

definition forbidden_key :: "string \<Rightarrow> bool" where
  "forbidden_key k \<longleftrightarrow> k = ''__proto__'' \<or> k = ''prototype'' \<or> k = ''constructor''"

fun canonical :: "notify_lib \<Rightarrow> js_value \<Rightarrow> notify_failure + js_value" where
  "canonical lib JUndefined = nt_invalid"
| "canonical lib JNull = Inr JNull"
| "canonical lib (JBool b) = Inr (JBool b)"
| "canonical lib (JNumber n) = (if isFinite n then Inr (JNumber n) else nt_invalid)"
| "canonical lib (JString s) = Inr (JString s)"
| "canonical lib (JArray vs) = bindE (mapE (canonical lib) vs) (\<lambda>ws. Inr (JArray ws))"
| "canonical lib (JObject fs) =
     bindE (mapE (\<lambda>e. if forbidden_key (fst e) then nt_invalid
                       else bindE (canonical lib (snd e)) (\<lambda>w. Inr (fst e, w)))
              (sort_by (\<lambda>a b. nl_before lib (fst a) (fst b)) fs)) (\<lambda>es. Inr (js_object es))"

definition nt_stable :: "notify_lib \<Rightarrow> js_value \<Rightarrow> notify_failure + string" where
  "nt_stable lib v = bindE (canonical lib v) (\<lambda>w. Inr (js_stringify (nl_showNum lib) w))"

definition nt_jsonRecord :: "notify_lib \<Rightarrow> js_value \<Rightarrow> notify_failure + (string \<times> js_value) list" where
  "nt_jsonRecord lib v = (case v of
     JObject fs \<Rightarrow> bindE (canonical lib v) (\<lambda>w. case w of JObject es \<Rightarrow> Inr es | _ \<Rightarrow> nt_invalid)
   | _ \<Rightarrow> nt_invalid)"

section \<open>Template sources\<close>

definition starts_with :: "string \<Rightarrow> string \<Rightarrow> bool" where
  "starts_with p s = (take (length p) s = p)"

fun occurs_in :: "string \<Rightarrow> string \<Rightarrow> bool" where
  "occurs_in p [] = (p = [])"
| "occurs_in p (c # cs) = (starts_with p (c # cs) \<or> occurs_in p cs)"

text \<open>The text up to the first \<open>}}\<close> and the text after it.\<close>

fun until_close :: "string \<Rightarrow> (string \<times> string) option" where
  "until_close (a # b # s) =
     (if a = CHR ''}'' \<and> b = CHR ''}'' then Some ([], s)
      else map_option (\<lambda>(x, r). (a # x, r)) (until_close (b # s)))"
| "until_close s = None"

lemma until_close_shorter: "until_close s = Some (x, r) \<Longrightarrow> length r < length s"
  by (induction s arbitrary: x r rule: until_close.induct) (fastforce split: if_splits)+

text \<open>\<open>/\{\{[\s\S]*?\}\}/g\<close>: the text between the braces of each match.\<close>

function template_tags :: "string \<Rightarrow> string list" where
  "template_tags s =
     (case s of
        [] \<Rightarrow> []
      | c # cs \<Rightarrow>
          if starts_with ''{{'' s then
            (case until_close (drop 2 s) of
               None \<Rightarrow> template_tags cs
             | Some (x, r) \<Rightarrow> x # template_tags r)
          else template_tags cs)"
  by pat_completeness auto

termination
  by (relation "measure length") (auto dest!: until_close_shorter)

declare template_tags.simps [simp del]

definition letters :: string where
  "letters = lower @ upper"

definition variable_name :: "string \<Rightarrow> bool" where
  "variable_name s = (case s of [] \<Rightarrow> False | c # cs \<Rightarrow> c \<in> set letters \<and> all_in (alnum @ ''_'') cs)"

definition tag_ok :: "string \<Rightarrow> bool" where
  "tag_ok inner = variable_name (trim inner)"

text \<open>One match of \<open>VARIABLE\<close> at the head of a text: the name and the text after the match.\<close>

definition match_variable :: "string \<Rightarrow> (string \<times> string) option" where
  "match_variable s =
     (if \<not> starts_with ''{{'' s then None
      else
        let body = dropWhile (is_in white) (drop 2 s);
            name = takeWhile (is_in (alnum @ ''_'')) body;
            rest = dropWhile (is_in white) (dropWhile (is_in (alnum @ ''_'')) body)
        in if variable_name name \<and> starts_with ''}}'' rest then Some (name, drop 2 rest) else None)"

lemma match_variable_shorter: "match_variable s = Some (x, r) \<Longrightarrow> length r < length s"
proof -
  assume m: "match_variable s = Some (x, r)"
  have "length (dropWhile P xs) \<le> length xs" for P and xs :: string
    by (rule length_dropWhile_le)
  then have "length (dropWhile (is_in white) (dropWhile (is_in (alnum @ ''_''))
      (dropWhile (is_in white) (drop 2 s)))) \<le> length (drop 2 s)"
    by (meson order_trans)
  moreover from m have "take 2 s = ''{{''" "r = drop 2 (dropWhile (is_in white)
      (dropWhile (is_in (alnum @ ''_'')) (dropWhile (is_in white) (drop 2 s))))"
    by (auto simp: match_variable_def starts_with_def Let_def numeral_2_eq_2 split: if_splits)
  moreover from this(1) have "2 \<le> length s" by (cases s; cases "tl s") auto
  ultimately show ?thesis by simp
qed

text \<open>\<open>source.matchAll(VARIABLE)\<close>\<close>

function variableNames :: "string \<Rightarrow> string list" where
  "variableNames s =
     (case s of
        [] \<Rightarrow> []
      | c # cs \<Rightarrow>
          (case match_variable s of
             None \<Rightarrow> variableNames cs
           | Some (x, r) \<Rightarrow> x # variableNames r))"
  by pat_completeness auto

termination
  by (relation "measure length") (auto dest!: match_variable_shorter)

declare variableNames.simps [simp del]

definition replaceControlCharacters :: "string \<Rightarrow> bool \<Rightarrow> string" where
  "replaceControlCharacters s preserveTab =
     map (\<lambda>c. let code = (of_char c :: int) in
       if code = 127 \<or> code < 32 \<and> (\<not> preserveTab \<or> code \<noteq> 9) then CHR '' '' else c) s"

definition nt_template_invalid :: "notify_failure + 'a" where
  "nt_template_invalid = Inl (nt_error NOTIFICATION_TEMPLATE_INVALID)"

definition validateTemplateSource :: "notify_lib \<Rightarrow> string \<Rightarrow> int \<Rightarrow> notify_failure + string" where
  "validateTemplateSource lib s maximum =
     (if length s < 1 \<or> maximum < int (length s) \<or> occurs_in ''{{{'' s
         \<or> list_ex (\<lambda>w. occurs_in w s) [''__proto__'', ''prototype'', ''constructor'']
      then nt_template_invalid
      else if list_ex (\<lambda>t. \<not> tag_ok t) (template_tags s) then nt_template_invalid
      else if \<not> nl_mustacheParses lib s then nt_template_invalid
      else Inr s)"

definition validatePlainTemplate :: "notify_lib \<Rightarrow> string \<Rightarrow> int \<Rightarrow> notify_failure + string" where
  "validatePlainTemplate lib s maximum =
     bindE (validateTemplateSource lib s maximum) (\<lambda>source.
       if replaceControlCharacters source True \<noteq> source then nt_template_invalid else Inr source)"

definition markdown_types :: "string list" where
  "markdown_types = [''root'', ''paragraph'', ''text'', ''strong'', ''emphasis'', ''list'',
     ''listItem'', ''blockquote'', ''inlineCode'', ''break'']"

fun md_allowed :: "md_node \<Rightarrow> bool" where
  "md_allowed (MdNode t ns) = (t \<in> set markdown_types \<and> list_all md_allowed ns)"

definition validateRestrictedMarkdown :: "notify_lib \<Rightarrow> string \<Rightarrow> notify_failure + string" where
  "validateRestrictedMarkdown lib s =
     bindE (validateTemplateSource lib s 8000) (\<lambda>source.
       case nl_markdown lib source of
         None \<Rightarrow> nt_template_invalid
       | Some tree \<Rightarrow> if md_allowed tree then Inr source else nt_template_invalid)"

section \<open>Template definitions and releases\<close>

datatype variable_type = Ty_boolean | Ty_date_time | Ty_integer | Ty_number | Ty_string

record template_variable =
  tv_description :: string
  tv_example :: js_value
  tv_key :: string
  tv_label :: string
  tv_maximumLength :: "int option"
  tv_ownerModule :: string
  tv_privacy :: string
  tv_source :: string
  tv_type :: variable_type

record template_definition =
  td_allowedVariables :: "template_variable list"
  td_definitionVersion :: int
  td_enabled :: bool
  td_notificationType :: string
  td_ownerModule :: string
  td_systemSenderName :: string
  td_templateKey :: string
  td_variableCatalogVersion :: int

record template_draft =
  tf_bodyTemplate :: string
  tf_revision :: int
  tf_summaryTemplate :: string
  tf_templateKey :: string
  tf_titleTemplate :: string
  tf_updatedAt :: string

datatype body_format = Plain_text | Restricted_markdown

record template_release =
  tr_templateKey :: string
  tr_version :: int
  tr_ownerReference :: string
  tr_notificationType :: string
  tr_variableSchema :: "(string \<times> js_value) list"
  tr_variableCatalogVersion :: "int option"
  tr_titleTemplate :: string
  tr_summaryTemplate :: "string option"
  tr_bodyTemplate :: string
  tr_bodyFormat :: "body_format option"
  tr_contentDigest :: string
  tr_publishedAt :: string

definition variable_type_name :: "variable_type \<Rightarrow> string" where
  "variable_type_name t = (case t of
     Ty_boolean \<Rightarrow> ''boolean''
   | Ty_date_time \<Rightarrow> ''date-time''
   | Ty_integer \<Rightarrow> ''integer''
   | Ty_number \<Rightarrow> ''number''
   | Ty_string \<Rightarrow> ''string'')"

definition variable_property :: "template_variable \<Rightarrow> js_value" where
  "variable_property v = JObject
     ((case tv_type v of
         Ty_date_time \<Rightarrow> [(''format'', JString ''date-time''), (''type'', JString ''string'')]
       | t \<Rightarrow> [(''type'', JString (variable_type_name t))])
      @ (case tv_maximumLength v of None \<Rightarrow> [] | Some n \<Rightarrow> [(''maxLength'', js_int n)]))"

text \<open>\<open>byKey\<close>: the last variable with a key wins.\<close>

definition allowed_variable :: "template_definition \<Rightarrow> string \<Rightarrow> template_variable option" where
  "allowed_variable d k = find (\<lambda>v. tv_key v = k) (rev (td_allowedVariables d))"

definition variableSchema ::
  "template_definition \<Rightarrow> string list \<Rightarrow> notify_failure + (string \<times> js_value) list" where
  "variableSchema d used =
     (if list_ex (\<lambda>k. allowed_variable d k = None) used then nt_template_invalid
      else
        let keys = sort_by str_lt (js_dedup used) in
        Inr [(''additionalProperties'', JBool False),
             (''properties'', js_object (map (\<lambda>k. (k, variable_property (the (allowed_variable d k)))) keys)),
             (''required'', JArray (map JString keys)),
             (''type'', JString ''object'')])"

definition body_format_name :: "body_format \<Rightarrow> string" where
  "body_format_name f = (case f of Plain_text \<Rightarrow> ''plain-text'' | Restricted_markdown \<Rightarrow> ''restricted-markdown'')"

text \<open>The release without its digest, as \<open>digestTemplate\<close> gets it; canonical form sorts its keys.\<close>

definition release_value :: "template_release \<Rightarrow> js_value" where
  "release_value r = JObject
     ([(''templateKey'', JString (tr_templateKey r)), (''version'', js_int (tr_version r)),
       (''ownerReference'', JString (tr_ownerReference r)),
       (''notificationType'', JString (tr_notificationType r)),
       (''variableSchema'', JObject (tr_variableSchema r))]
      @ (case tr_variableCatalogVersion r of None \<Rightarrow> [] | Some n \<Rightarrow> [(''variableCatalogVersion'', js_int n)])
      @ [(''titleTemplate'', JString (tr_titleTemplate r))]
      @ js_opt ''summaryTemplate'' (tr_summaryTemplate r)
      @ [(''bodyTemplate'', JString (tr_bodyTemplate r))]
      @ js_opt ''bodyFormat'' (map_option body_format_name (tr_bodyFormat r))
      @ [(''publishedAt'', JString (tr_publishedAt r))])"

definition digestTemplate :: "notify_lib \<Rightarrow> template_release \<Rightarrow> notify_failure + string" where
  "digestTemplate lib r = bindE (nt_stable lib (release_value r)) (\<lambda>t. Inr (nl_sha256 lib t))"

definition release_summary :: "template_release \<Rightarrow> string" where
  "release_summary r = (case tr_summaryTemplate r of None \<Rightarrow> tr_bodyTemplate r | Some t \<Rightarrow> t)"

definition release_format :: "template_release \<Rightarrow> body_format" where
  "release_format r = (case tr_bodyFormat r of None \<Rightarrow> Plain_text | Some f \<Rightarrow> f)"

definition release_names :: "template_release \<Rightarrow> string list" where
  "release_names r = variableNames (tr_titleTemplate r) @ variableNames (release_summary r)
     @ variableNames (tr_bodyTemplate r)"

definition validateTemplateRelease :: "notify_lib \<Rightarrow> template_release \<Rightarrow> notify_failure + unit" where
  "validateTemplateRelease lib r =
     (let schema = tr_variableSchema r in
      if \<not> nl_schemaCompiles lib (JObject schema) then nt_template_invalid
      else case (js_field schema ''properties'', js_field schema ''required'') of
        (JObject properties, JArray required) \<Rightarrow>
          if js_field schema ''type'' \<noteq> JString ''object''
             \<or> js_field schema ''additionalProperties'' \<noteq> JBool False
          then nt_template_invalid
          else
            bindE (validatePlainTemplate lib (tr_titleTemplate r) 512) (\<lambda>_.
            bindE (validatePlainTemplate lib (release_summary r) 2000) (\<lambda>_.
            bindE (if release_format r = Restricted_markdown
                   then validateRestrictedMarkdown lib (tr_bodyTemplate r)
                   else validateTemplateSource lib (tr_bodyTemplate r) 8000) (\<lambda>_.
            if list_ex (\<lambda>k. k \<notin> set (map fst properties) \<or> JString k \<notin> set required) (release_names r)
            then nt_template_invalid else Inr ())))
      | _ \<Rightarrow> nt_template_invalid)"

section \<open>Rendering\<close>

text \<open>\<open>String(value)\<close> of a primitive value; the schemas the code builds admit no others.\<close>

definition primitive_text :: "notify_lib \<Rightarrow> js_value \<Rightarrow> string" where
  "primitive_text lib v = (case v of
     JNull \<Rightarrow> ''null''
   | JBool b \<Rightarrow> (if b then ''true'' else ''false'')
   | JNumber n \<Rightarrow> nl_showNum lib n
   | JString s \<Rightarrow> s
   | JUndefined \<Rightarrow> ''undefined''
   | _ \<Rightarrow> ''[object Object]'')"

definition plain_value :: "notify_lib \<Rightarrow> js_value \<Rightarrow> string" where
  "plain_value lib v = (if v = JNull then [] else replaceControlCharacters (primitive_text lib v) False)"

definition markdown_special :: string where
  "markdown_special = [CHR 0x5C, CHR 0x60] @ ''*_{}[]()<>#+.!|-''"

definition markdown_escape :: "string \<Rightarrow> string" where
  "markdown_escape s = concat (map (\<lambda>c. if c \<in> set markdown_special then [CHR 0x5C, c] else [c]) s)"

definition markdown_value :: "notify_lib \<Rightarrow> js_value \<Rightarrow> string" where
  "markdown_value lib v = markdown_escape (plain_value lib v)"

record rendered =
  rd_body :: string
  rd_summary :: string
  rd_title :: string

definition renderTemplate ::
  "notify_lib \<Rightarrow> template_release \<Rightarrow> (string \<times> js_value) list \<Rightarrow> notify_failure + rendered" where
  "renderTemplate lib r variables =
     bindE (validateTemplateRelease lib r) (\<lambda>_.
     if \<not> nl_schemaAccepts lib (JObject (tr_variableSchema r)) (JObject variables) then nt_template_invalid
     else
       let plainVariables = map (\<lambda>(k, v). (k, plain_value lib v)) variables;
           markdownVariables = map (\<lambda>(k, v). (k, markdown_value lib v)) variables;
           title = nl_mustacheRender lib (tr_titleTemplate r) plainVariables;
           summary = nl_mustacheRender lib (release_summary r) plainVariables;
           body = nl_mustacheRender lib (tr_bodyTemplate r)
             (if release_format r = Restricted_markdown then markdownVariables else plainVariables)
       in if 512 < length title \<or> 2000 < length summary \<or> 8000 < length body
          then nt_template_invalid
          else Inr \<lparr>rd_body = body, rd_summary = summary, rd_title = title\<rparr>)"

section \<open>What is accepted\<close>

lemma renderTemplate_bounded:
  "renderTemplate lib r vs = Inr x \<Longrightarrow>
     length (rd_title x) \<le> 512 \<and> length (rd_summary x) \<le> 2000 \<and> length (rd_body x) \<le> 8000"
  by (auto simp: renderTemplate_def bindE_eq_Inr Let_def nt_template_invalid_def split: if_splits)

lemma variableSchema_allowed:
  "variableSchema d used = Inr schema \<Longrightarrow> k \<in> set used \<Longrightarrow> allowed_variable d k \<noteq> None"
  by (auto simp: variableSchema_def nt_template_invalid_def list_ex_iff split: if_splits)

text \<open>
  The reader's side of the escape: a backslash before a special character stands for the character;
  \<open>None\<close> if a special character stands alone, as markup.
\<close>

fun markdown_read :: "string \<Rightarrow> string option" where
  "markdown_read [] = Some []"
| "markdown_read [c] = (if c \<in> set markdown_special then None else Some [c])"
| "markdown_read (c # d # s) =
     (if c = CHR 0x5C then
        (if d \<in> set markdown_special then map_option (Cons d) (markdown_read s) else None)
      else if c \<in> set markdown_special then None
      else map_option (Cons c) (markdown_read (d # s)))"

lemma markdown_read_plain:
  "c \<notin> set markdown_special \<Longrightarrow> markdown_read (c # s) = map_option (Cons c) (markdown_read s)"
  by (cases s) (auto simp: markdown_special_def)

text \<open>
  A variable's value put into a Markdown body carries no markup: every special character of the
  text is escaped, and reading the text gives the value back, character by character.
\<close>

theorem markdown_escape_roundtrip: "markdown_read (markdown_escape s) = Some s"
proof (induction s)
  case (Cons c s)
  show ?case
  proof (cases "c \<in> set markdown_special")
    case True
    with Cons show ?thesis by (simp add: markdown_escape_def)
  next
    case False
    with Cons show ?thesis by (simp add: markdown_escape_def markdown_read_plain)
  qed
qed (simp add: markdown_escape_def)

end
