(* ===== verification/NotifyStore.thy ===== *)
theory NotifyStore
  imports NotifyTemplate
begin

text \<open>
  The in-memory notification store
  (\<open>packages/crm-modules/notifications/src/memory-store.ts\<close> and the stored types of \<open>types.ts\<close>):
  templates, intents and notifications, with the paging of a principal's notifications.
\<close>

section \<open>Stored data\<close>

datatype preference_decision = Deliver | Suppress

record intent_result =
  ni_intentId :: string
  ni_notificationIds :: "string list"

record stored_intent =
  si_intentId :: string
  si_producer :: string
  si_idempotencyKey :: string
  si_fingerprint :: string
  si_result :: intent_result
  si_createdAt :: string

record notification =
  nn_notificationId :: string
  nn_intentId :: string
  nn_principalId :: string
  nn_recipientReference :: string
  nn_resolutionReference :: string
  nn_resolutionVersion :: string
  nn_templateKey :: string
  nn_templateVersion :: int
  nn_notificationType :: string
  nn_title :: string
  nn_summary :: string
  nn_body :: string
  nn_bodyFormat :: body_format
  nn_contentDigest :: "string option"
  nn_stateVersion :: int
  nn_sourceType :: string
  nn_sourceId :: string
  nn_deepLink :: deep_link
  nn_preferenceDecision :: preference_decision
  nn_preferenceReason :: string
  nn_preferenceVersion :: string
  nn_createdAt :: string
  nn_readAt :: "string option"
  nn_archivedAt :: "string option"

record notification_page =
  np_items :: "notification list"
  np_nextCursor :: "string option"

record notify_store =
  ns_definitions :: "(string, template_definition) jsmap"
  ns_drafts :: "(string, template_draft) jsmap"
  ns_draftOperations :: "(string, template_draft) jsmap"
  ns_templates :: "(string, template_release) jsmap"
  ns_activeVersions :: "(string, int) jsmap"
  ns_activationIds :: "(string, string \<times> int) jsmap"
  ns_intents :: "(string, stored_intent) jsmap"
  ns_notifications :: "(string, notification) jsmap"

definition emptyNotifyStore :: notify_store where
  "emptyNotifyStore = \<lparr>ns_definitions = [], ns_drafts = [], ns_draftOperations = [],
     ns_templates = [], ns_activeVersions = [], ns_activationIds = [], ns_intents = [],
     ns_notifications = []\<rparr>"

type_synonym ('s, 'a) nt_act = "('s, notify_failure, 'a) act"

abbreviation nt_conflict :: notify_failure where
  "nt_conflict \<equiv> nt_error NOTIFICATION_CONFLICT"

definition intentKey :: "string \<Rightarrow> string \<Rightarrow> string" where
  "intentKey producer key = producer @ [CHR 0x00] @ key"

definition releaseKey :: "string \<Rightarrow> int \<Rightarrow> string" where
  "releaseKey templateKey version = templateKey @ [CHR 0x00] @ show_int version"

text \<open>Whether a template definition is new or was already there, and the same for a release.\<close>

datatype registered = Created | Already

section \<open>Templates\<close>

definition variable_value :: "template_variable \<Rightarrow> js_value" where
  "variable_value v = JObject
     ([(''key'', JString (tv_key v)), (''label'', JString (tv_label v)),
       (''description'', JString (tv_description v))]
      @ (if tv_example v = JUndefined then [] else [(''example'', tv_example v)])
      @ [(''ownerModule'', JString (tv_ownerModule v)), (''privacy'', JString (tv_privacy v)),
         (''source'', JString (tv_source v)), (''type'', JString (variable_type_name (tv_type v)))]
      @ (case tv_maximumLength v of None \<Rightarrow> [] | Some n \<Rightarrow> [(''maximumLength'', js_int n)]))"

definition definition_value :: "template_definition \<Rightarrow> js_value" where
  "definition_value d = JObject
     [(''templateKey'', JString (td_templateKey d)), (''ownerModule'', JString (td_ownerModule d)),
      (''notificationType'', JString (td_notificationType d)),
      (''definitionVersion'', js_int (td_definitionVersion d)),
      (''variableCatalogVersion'', js_int (td_variableCatalogVersion d)),
      (''systemSenderName'', JString (td_systemSenderName d)), (''enabled'', JBool (td_enabled d)),
      (''allowedVariables'', JArray (map variable_value (td_allowedVariables d)))]"

definition ns_registerTemplateDefinition ::
  "notify_lib \<Rightarrow> template_definition \<Rightarrow> (notify_store, registered) nt_act" where
  "ns_registerTemplateDefinition lib d s =
     (case jm_get (ns_definitions s) (td_templateKey d) of
        Some e \<Rightarrow>
          if js_stringify (nl_showNum lib) (definition_value e)
             \<noteq> js_stringify (nl_showNum lib) (definition_value d)
          then (Inl nt_conflict, s) else (Inr Already, s)
      | None \<Rightarrow> (Inr Created, s\<lparr>ns_definitions := jm_set (ns_definitions s) (td_templateKey d) d\<rparr>))"

definition ns_listTemplateDefinitions :: "notify_lib \<Rightarrow> notify_store \<Rightarrow> template_definition list" where
  "ns_listTemplateDefinitions lib s =
     sort_by (\<lambda>a b. nl_before lib (td_templateKey a) (td_templateKey b)) (jm_values (ns_definitions s))"

text \<open>The draft comes without its revision; \<open>d\<close>'s is ignored.\<close>

definition ns_saveTemplateDraft ::
  "template_draft \<Rightarrow> int \<Rightarrow> string \<Rightarrow> (notify_store, template_draft) nt_act" where
  "ns_saveTemplateDraft d expectedRevision operationId s =
     (case jm_get (ns_draftOperations s) operationId of
        Some receipt \<Rightarrow>
          if tf_templateKey receipt \<noteq> tf_templateKey d \<or> tf_revision receipt \<noteq> expectedRevision + 1
             \<or> tf_titleTemplate receipt \<noteq> tf_titleTemplate d
             \<or> tf_summaryTemplate receipt \<noteq> tf_summaryTemplate d
             \<or> tf_bodyTemplate receipt \<noteq> tf_bodyTemplate d \<or> tf_updatedAt receipt \<noteq> tf_updatedAt d
          then (Inl nt_conflict, s) else (Inr receipt, s)
      | None \<Rightarrow>
          if (case jm_get (ns_drafts s) (tf_templateKey d) of None \<Rightarrow> 0 | Some e \<Rightarrow> tf_revision e)
             \<noteq> expectedRevision
          then (Inl nt_conflict, s)
          else (let n = d\<lparr>tf_revision := expectedRevision + 1\<rparr> in
            (Inr n, s\<lparr>ns_drafts := jm_set (ns_drafts s) (tf_templateKey d) n,
                      ns_draftOperations := jm_set (ns_draftOperations s) operationId n\<rparr>)))"

definition ns_publishTemplate :: "template_release \<Rightarrow> (notify_store, registered) nt_act" where
  "ns_publishTemplate r s =
     (let key = releaseKey (tr_templateKey r) (tr_version r) in
      case jm_get (ns_templates s) key of
        Some e \<Rightarrow>
          if tr_contentDigest e \<noteq> tr_contentDigest r then (Inl nt_conflict, s) else (Inr Already, s)
      | None \<Rightarrow> (Inr Created, s\<lparr>ns_templates := jm_set (ns_templates s) key r\<rparr>))"

definition ns_activateTemplate :: "string \<Rightarrow> string \<Rightarrow> int \<Rightarrow> (notify_store, unit) nt_act" where
  "ns_activateTemplate activationId templateKey version s =
     (if \<not> jm_has (ns_templates s) (releaseKey templateKey version)
      then (Inl (nt_error NOTIFICATION_TEMPLATE_NOT_FOUND), s)
      else
        let existing = jm_get (ns_activationIds s) activationId in
        if existing \<noteq> None \<and> existing \<noteq> Some (templateKey, version) then (Inl nt_conflict, s)
        else (Inr (), s\<lparr>ns_activationIds := (if existing = None
                  then jm_set (ns_activationIds s) activationId (templateKey, version)
                  else ns_activationIds s),
                ns_activeVersions := jm_set (ns_activeVersions s) templateKey version\<rparr>))"

definition ns_publishAndActivateTemplate ::
  "string \<Rightarrow> template_release \<Rightarrow> (notify_store, registered) nt_act" where
  "ns_publishAndActivateTemplate activationId r s =
     (let existingRelease = jm_get (ns_templates s) (releaseKey (tr_templateKey r) (tr_version r));
          existingActivation = jm_get (ns_activationIds s) activationId in
      if (case existingRelease of None \<Rightarrow> False | Some e \<Rightarrow> tr_contentDigest e \<noteq> tr_contentDigest r)
      then (Inl nt_conflict, s)
      else if existingActivation \<noteq> None \<and> existingActivation \<noteq> Some (tr_templateKey r, tr_version r)
      then (Inl nt_conflict, s)
      else bindA (ns_publishTemplate r) (\<lambda>status.
        thenA (ns_activateTemplate activationId (tr_templateKey r) (tr_version r)) (retA status)) s)"

definition ns_getTemplate :: "string \<Rightarrow> int \<Rightarrow> notify_store \<Rightarrow> template_release option" where
  "ns_getTemplate templateKey version s = jm_get (ns_templates s) (releaseKey templateKey version)"

definition ns_listTemplateReleases :: "string \<Rightarrow> notify_store \<Rightarrow> template_release list" where
  "ns_listTemplateReleases templateKey s =
     sort_by (\<lambda>a b. tr_version b < tr_version a)
       (filter (\<lambda>r. tr_templateKey r = templateKey) (jm_values (ns_templates s)))"

definition ns_getActiveTemplate :: "string \<Rightarrow> notify_store \<Rightarrow> template_release option" where
  "ns_getActiveTemplate templateKey s =
     (case jm_get (ns_activeVersions s) templateKey of
        None \<Rightarrow> None | Some v \<Rightarrow> ns_getTemplate templateKey v s)"

section \<open>Intents and notifications\<close>

definition ns_findIntent :: "string \<Rightarrow> string \<Rightarrow> notify_store \<Rightarrow> stored_intent option" where
  "ns_findIntent producer key s = jm_get (ns_intents s) (intentKey producer key)"

fun ns_add_all ::
  "notification list \<Rightarrow> (string, notification) jsmap \<Rightarrow> notify_failure + (string, notification) jsmap" where
  "ns_add_all [] m = Inr m"
| "ns_add_all (n # ns) m =
     (if jm_has m (nn_notificationId n) then Inl nt_conflict
      else ns_add_all ns (jm_set m (nn_notificationId n) n))"

text \<open>The notifications are put back when one of them is already there.\<close>

definition ns_acceptIntent ::
  "stored_intent \<Rightarrow> notification list \<Rightarrow> (notify_store, registered \<times> intent_result) nt_act" where
  "ns_acceptIntent i ns s =
     (let key = intentKey (si_producer i) (si_idempotencyKey i) in
      case jm_get (ns_intents s) key of
        Some e \<Rightarrow>
          if si_fingerprint e \<noteq> si_fingerprint i then (Inl nt_conflict, s)
          else (Inr (Already, si_result e), s)
      | None \<Rightarrow>
          (case ns_add_all ns (ns_notifications s) of
             Inl e \<Rightarrow> (Inl e, s)
           | Inr m \<Rightarrow> (Inr (Created, si_result i),
               s\<lparr>ns_notifications := m, ns_intents := jm_set (ns_intents s) key i\<rparr>)))"

definition visible_to :: "string \<Rightarrow> notification \<Rightarrow> bool" where
  "visible_to principalId n \<longleftrightarrow> nn_principalId n = principalId \<and> nn_preferenceDecision n = Deliver"

definition ns_get :: "string \<Rightarrow> string \<Rightarrow> notify_store \<Rightarrow> notification option" where
  "ns_get principalId i s =
     (case jm_get (ns_notifications s) i of
        None \<Rightarrow> None | Some n \<Rightarrow> if visible_to principalId n then Some n else None)"

text \<open>\<open>b.createdAt.localeCompare(a.createdAt) || b.notificationId.localeCompare(a.notificationId)\<close>\<close>

definition newer :: "(string \<Rightarrow> string \<Rightarrow> bool) \<Rightarrow> notification \<Rightarrow> notification \<Rightarrow> bool" where
  "newer before a b \<longleftrightarrow>
     before (nn_createdAt b) (nn_createdAt a)
     \<or> \<not> before (nn_createdAt a) (nn_createdAt b) \<and> before (nn_notificationId b) (nn_notificationId a)"

definition notification_cursor :: "notification \<Rightarrow> string" where
  "notification_cursor n = nn_createdAt n @ [CHR 0x00] @ nn_notificationId n"

definition ns_rows :: "(string \<Rightarrow> string \<Rightarrow> bool) \<Rightarrow> string \<Rightarrow> bool \<Rightarrow> notify_store \<Rightarrow> notification list" where
  "ns_rows before principalId includeArchived s =
     sort_by (newer before) (filter (\<lambda>n. visible_to principalId n
       \<and> (includeArchived \<or> nn_archivedAt n = None)) (jm_values (ns_notifications s)))"

definition ns_list ::
  "(string \<Rightarrow> string \<Rightarrow> bool) \<Rightarrow> string \<Rightarrow> nat \<Rightarrow> string option \<Rightarrow> bool \<Rightarrow> notify_store \<Rightarrow> notification_page" where
  "ns_list before principalId limit cursor includeArchived s =
     (let rows = filter (\<lambda>n. case cursor of None \<Rightarrow> True
                | Some c \<Rightarrow> str_lt (notification_cursor n) c) (ns_rows before principalId includeArchived s);
          items = take limit rows in
      \<lparr>np_items = items,
       np_nextCursor = (if limit < length rows \<and> items \<noteq> []
         then Some (notification_cursor (last items)) else None)\<rparr>)"

definition ns_unreadCount :: "string \<Rightarrow> notify_store \<Rightarrow> nat" where
  "ns_unreadCount principalId s =
     length (filter (\<lambda>n. visible_to principalId n \<and> nn_readAt n = None \<and> nn_archivedAt n = None)
       (jm_values (ns_notifications s)))"

definition ns_markRead ::
  "string \<Rightarrow> string \<Rightarrow> string \<Rightarrow> (notify_store, notification option) nt_act" where
  "ns_markRead principalId i now s =
     (case ns_get principalId i s of
        None \<Rightarrow> (Inr None, s)
      | Some n \<Rightarrow>
          let n' = (if nn_readAt n = None
            then n\<lparr>nn_readAt := Some now, nn_stateVersion := nn_stateVersion n + 1\<rparr> else n) in
          (Inr (Some n'), s\<lparr>ns_notifications := jm_set (ns_notifications s) i n'\<rparr>))"

definition ns_archive ::
  "string \<Rightarrow> string \<Rightarrow> string \<Rightarrow> (notify_store, notification option) nt_act" where
  "ns_archive principalId i now s =
     (case ns_get principalId i s of
        None \<Rightarrow> (Inr None, s)
      | Some n \<Rightarrow>
          let n' = (if nn_archivedAt n = None
            then n\<lparr>nn_archivedAt := Some now, nn_stateVersion := nn_stateVersion n + 1\<rparr> else n) in
          (Inr (Some n'), s\<lparr>ns_notifications := jm_set (ns_notifications s) i n'\<rparr>))"

end
