(* ===== verification/NotifyPages.thy ===== *)
theory NotifyPages
  imports NotifyStore
begin

text \<open>
  Paging through a principal's notifications
  (\<open>packages/crm-modules/notifications/src/memory-store.ts\<close>, \<open>list\<close>): the pages a client gets by
  following the cursors are the sorted list, cut in pieces.
\<close>

section \<open>The order of strings\<close>

lemma str_lt_append:
  "length a = length b \<Longrightarrow> str_lt (a @ x) (b @ y) \<longleftrightarrow> str_lt a b \<or> a = b \<and> str_lt x y"
proof (induction a b rule: list_induct2)
  case (Cons c cs d ds)
  then show ?case by (auto simp: str_lt_irrefl)
qed simp

section \<open>Sorting by a total order\<close>

lemma insert_by_sorted:
  assumes "sorted_wrt R ys" and "transp R"
    and "\<And>y. y \<in> set ys \<Longrightarrow> before y x \<longleftrightarrow> R y x" and "\<And>y. y \<in> set ys \<Longrightarrow> R x y \<or> R y x"
  shows "sorted_wrt R (insert_by before x ys)"
  using assms
proof (induction ys)
  case (Cons y ys)
  show ?case
  proof (cases "R y x")
    case True
    with Cons show ?thesis by auto
  next
    case False
    with Cons.prems(4) [of y] have "R x y" by simp
    moreover from this Cons.prems(1,2) have "\<forall>z \<in> set ys. R x z" by (auto dest: transpD)
    ultimately show ?thesis using Cons.prems False by auto
  qed
qed simp

lemma sort_by_sorted:
  assumes "distinct xs" and "transp R"
    and "\<And>a b. a \<in> set xs \<Longrightarrow> b \<in> set xs \<Longrightarrow> before a b \<longleftrightarrow> R a b"
    and "\<And>a b. a \<in> set xs \<Longrightarrow> b \<in> set xs \<Longrightarrow> a \<noteq> b \<Longrightarrow> R a b \<or> R b a"
  shows "sorted_wrt R (sort_by before xs)"
  using assms(1,3,4)
proof (induction xs)
  case (Cons x xs)
  have sorted: "sorted_wrt R (sort_by before xs)" using Cons by auto
  have total: "R x y \<or> R y x" if "y \<in> set xs" for y
    using Cons.prems(1) Cons.prems(3) [of x y] that by auto
  show ?case
    using insert_by_sorted [OF sorted assms(2), of before x] total Cons.prems(2) by simp
qed simp

section \<open>Pages\<close>

text \<open>The stored notifications sit under their ids and carry canonical times.\<close>

definition rows_ok :: "notify_store \<Rightarrow> bool" where
  "rows_ok s \<longleftrightarrow> jm_ok (ns_notifications s)
     \<and> (\<forall>i n. jm_get (ns_notifications s) i = Some n \<longrightarrow>
          nn_notificationId n = i \<and> length (nn_createdAt n) = 24)"

text \<open>
  \<open>localeCompare\<close> orders the stored times and ids as their code units do, as it does on strings
  of digits, ASCII lower case letters and fixed punctuation.
\<close>

definition locale_agrees :: "(string \<Rightarrow> string \<Rightarrow> bool) \<Rightarrow> notify_store \<Rightarrow> bool" where
  "locale_agrees before s \<longleftrightarrow>
     (\<forall>a \<in> set (jm_values (ns_notifications s)). \<forall>b \<in> set (jm_values (ns_notifications s)).
        (before (nn_createdAt a) (nn_createdAt b) \<longleftrightarrow> str_lt (nn_createdAt a) (nn_createdAt b))
        \<and> (before (nn_notificationId a) (nn_notificationId b)
             \<longleftrightarrow> str_lt (nn_notificationId a) (nn_notificationId b)))"

abbreviation cursor_after :: "notification \<Rightarrow> notification \<Rightarrow> bool" where
  "cursor_after a b \<equiv> str_lt (notification_cursor b) (notification_cursor a)"

lemma transp_cursor_after: "transp cursor_after"
  by (auto intro!: transpI dest: str_lt_trans)

lemma row_facts:
  assumes "rows_ok s" and "n \<in> set (jm_values (ns_notifications s))"
  shows "jm_get (ns_notifications s) (nn_notificationId n) = Some n" and "length (nn_createdAt n) = 24"
  using assms by (auto simp: rows_ok_def jm_values_iff)

lemma cursor_order:
  assumes "rows_ok s" and "a \<in> set (jm_values (ns_notifications s))"
    and "b \<in> set (jm_values (ns_notifications s))"
  shows "cursor_after a b \<longleftrightarrow> str_lt (nn_createdAt b) (nn_createdAt a)
    \<or> nn_createdAt b = nn_createdAt a \<and> str_lt (nn_notificationId b) (nn_notificationId a)"
  using row_facts [OF assms(1,2)] row_facts [OF assms(1,3)]
  by (simp add: notification_cursor_def str_lt_append)

lemma rows_ids:
  assumes "rows_ok s"
  shows "distinct (map nn_notificationId (jm_values (ns_notifications s)))"
proof -
  have "nn_notificationId (snd e) = fst e" if "e \<in> set (ns_notifications s)" for e
    using assms that by (cases e) (auto simp: rows_ok_def jm_ok_def jm_get_def map_of_is_SomeI)
  then have "map nn_notificationId (jm_values (ns_notifications s)) = map fst (ns_notifications s)"
    by (simp add: jm_values_def)
  with assms show ?thesis by (simp add: rows_ok_def jm_ok_def)
qed

lemma rows_sorted:
  assumes "rows_ok s" and "locale_agrees before s"
  shows "sorted_wrt cursor_after (ns_rows before p arch s)"
proof -
  let ?vs = "jm_values (ns_notifications s)"
  have dis: "distinct ?vs" using rows_ids [OF assms(1)] by (simp add: distinct_map)
  have same: "newer before a b \<longleftrightarrow> cursor_after a b" if "a \<in> set ?vs" "b \<in> set ?vs" for a b
    using cursor_order [OF assms(1) that] assms(2) that str_lt_linear
    by (auto simp: newer_def locale_agrees_def dest: str_lt_asym)
  have total: "cursor_after a b \<or> cursor_after b a" if "a \<in> set ?vs" "b \<in> set ?vs" "a \<noteq> b" for a b
  proof -
    from row_facts(1) [OF assms(1) that(1)] row_facts(1) [OF assms(1) that(2)] that(3)
    have "nn_notificationId a \<noteq> nn_notificationId b" by auto
    with cursor_order [OF assms(1) that(1,2)] cursor_order [OF assms(1) that(2,1)]
    show ?thesis by (metis str_lt_linear)
  qed
  show ?thesis
    unfolding ns_rows_def by (rule sort_by_sorted [OF _ transp_cursor_after]) (use dis same total in auto)
qed

lemma sorted_rest:
  assumes "sorted_wrt cursor_after (xs @ c # ys)"
  shows "filter (\<lambda>n. str_lt (notification_cursor n) (notification_cursor c)) (xs @ c # ys) = ys"
proof -
  have "\<not> str_lt (notification_cursor n) (notification_cursor c)" if "n \<in> set xs" for n
    using assms that by (auto simp: sorted_wrt_append dest: str_lt_asym)
  moreover have "str_lt (notification_cursor n) (notification_cursor c)" if "n \<in> set ys" for n
    using assms that by (auto simp: sorted_wrt_append)
  ultimately show ?thesis by (simp add: filter_empty_conv)
qed

text \<open>A client that follows the cursors, at most \<open>fuel\<close> pages.\<close>

fun collect_pages :: "nat \<Rightarrow> (string option \<Rightarrow> notification_page) \<Rightarrow> string option \<Rightarrow> notification list" where
  "collect_pages 0 page c = []"
| "collect_pages (Suc fuel) page c =
     np_items (page c) @ (case np_nextCursor (page c) of
        None \<Rightarrow> [] | Some d \<Rightarrow> collect_pages fuel page (Some d))"

lemma collect_rest:
  assumes "sorted_wrt cursor_after (ns_rows before p arch s)" and "0 < limit"
    and "filter (\<lambda>n. case c of None \<Rightarrow> True | Some d \<Rightarrow> str_lt (notification_cursor n) d)
           (ns_rows before p arch s) = rest"
    and "ns_rows before p arch s = done_rows @ rest" and "length rest < fuel"
  shows "collect_pages fuel (\<lambda>c. ns_list before p limit c arch s) c = rest"
  using assms(3-5)
proof (induction fuel arbitrary: c done_rows rest)
  case (Suc fuel)
  show ?case
  proof (cases "limit < length rest")
    case False
    with Suc.prems(1) show ?thesis by (simp add: ns_list_def)
  next
    case True
    let ?x = "last (take limit rest)"
    from True assms(2) have ne: "take limit rest \<noteq> []" by auto
    then have split: "ns_rows before p arch s = (done_rows @ butlast (take limit rest)) @ ?x # drop limit rest"
      using Suc.prems(2) by (metis append.assoc append_butlast_last_id append_Cons append_Nil append_take_drop_id)
    have next_page: "filter (\<lambda>n. case Some (notification_cursor ?x) of None \<Rightarrow> True
        | Some d \<Rightarrow> str_lt (notification_cursor n) d) (ns_rows before p arch s) = drop limit rest"
      using sorted_rest [of "done_rows @ butlast (take limit rest)" ?x "drop limit rest"] assms(1) split
      by simp
    have "collect_pages fuel (\<lambda>c. ns_list before p limit c arch s) (Some (notification_cursor ?x))
        = drop limit rest"
    proof (rule Suc.IH [OF next_page])
      show "ns_rows before p arch s = (done_rows @ take limit rest) @ drop limit rest"
        using Suc.prems(2) by simp
      show "length (drop limit rest) < fuel" using True Suc.prems(3) assms(2) by simp
    qed
    moreover have "ns_list before p limit c arch s
        = \<lparr>np_items = take limit rest, np_nextCursor = Some (notification_cursor ?x)\<rparr>"
      using True ne Suc.prems(1) by (simp add: ns_list_def Let_def)
    ultimately show ?thesis by simp
  qed
qed simp

text \<open>
  Following the cursors from the first page on, a client gets exactly the principal's delivered
  notifications (the unarchived ones, unless it asked for all), newest first, each once, whatever the
  page size: no page skips or repeats a row.
\<close>

theorem pages_cover_rows:
  assumes "rows_ok s" and "locale_agrees before s" and "0 < limit"
    and "length (ns_notifications s) < fuel"
    and "items = collect_pages fuel (\<lambda>c. ns_list before person limit c archived s) None"
  shows "sorted_wrt cursor_after items \<and> distinct items
    \<and> set items = {n. jm_get (ns_notifications s) (nn_notificationId n) = Some n
        \<and> nn_principalId n = person \<and> nn_preferenceDecision n = Deliver
        \<and> (archived \<or> nn_archivedAt n = None)}"
proof -
  let ?vs = "jm_values (ns_notifications s)"
  have len: "length (ns_rows before person archived s) < fuel"
    using assms(4) length_filter_le [of _ ?vs] unfolding ns_rows_def length_sort_by
    by (metis (no_types, lifting) jm_values_def le_less_trans length_map)
  have items: "items = ns_rows before person archived s"
    unfolding assms(5)
    by (rule collect_rest [OF rows_sorted [OF assms(1,2)] assms(3) _ _ len, where done_rows = "[]"]) simp_all
  have "distinct ?vs" using rows_ids [OF assms(1)] by (simp add: distinct_map)
  moreover have "n \<in> set ?vs \<longleftrightarrow> jm_get (ns_notifications s) (nn_notificationId n) = Some n" for n
    using row_facts(1) [OF assms(1), of n] jm_get_in_values by metis
  ultimately show ?thesis
    unfolding items using rows_sorted [OF assms(1,2)] by (auto simp: ns_rows_def visible_to_def)
qed

subsection \<open>A sample store\<close>

definition sample_notification :: "string \<Rightarrow> notification" where
  "sample_notification i = \<lparr>nn_notificationId = i, nn_intentId = ''i'', nn_principalId = ''u1'',
     nn_recipientReference = ''r1'', nn_resolutionReference = ''x1'', nn_resolutionVersion = ''1'',
     nn_templateKey = ''welcome'', nn_templateVersion = 1, nn_notificationType = ''info'',
     nn_title = ''Hello'', nn_summary = ''Hello'', nn_body = ''Hello'', nn_bodyFormat = Plain_text,
     nn_contentDigest = None, nn_stateVersion = 1, nn_sourceType = ''lead'', nn_sourceId = ''1'',
     nn_deepLink = \<lparr>dk_applicationId = ''crm'', dk_routeId = ''lead'', dk_resourceType = ''lead'',
       dk_resourceId = ''1'', dk_parameters = None\<rparr>,
     nn_preferenceDecision = Deliver, nn_preferenceReason = ''default'', nn_preferenceVersion = ''1'',
     nn_createdAt = ''2024-01-01T00:00:00.000Z'', nn_readAt = None, nn_archivedAt = None\<rparr>"

definition sample_mailbox :: notify_store where
  "sample_mailbox = emptyNotifyStore\<lparr>ns_notifications :=
     [(''a'', sample_notification ''a''), (''b'', sample_notification ''b'')]\<rparr>"

theorem pages_cover_rows_witness:
  "distinct (collect_pages 3 (\<lambda>c. ns_list str_lt ''u1'' 1 c False sample_mailbox) None)"
proof -
  have "rows_ok sample_mailbox"
    by (auto simp: rows_ok_def sample_mailbox_def sample_notification_def jm_ok_def jm_get_def
        split: if_splits)
  moreover have "locale_agrees str_lt sample_mailbox" by (simp add: locale_agrees_def)
  ultimately show ?thesis
    using pages_cover_rows [of sample_mailbox str_lt 1 3 _ "''u1''" False]
    by (simp add: sample_mailbox_def)
qed

end
