(* ===== verification/Notifications.thy ===== *)
theory Notifications
  imports NotifyPages
begin

text \<open>
  The notification center (\<open>packages/crm-modules/notifications/src/service.ts\<close>) over the in-memory
  store. What its ports answer is a parameter of each command; audit entries and observations are
  logs beside the store. Where an intent is prepared, others may run store operations meanwhile.
\<close>

section \<open>The store's operations as commands\<close>

text \<open>Notifications of other intents carry the canonical time of their acceptance, as here.\<close>

definition stamped :: "int \<Rightarrow> notification list \<Rightarrow> notification list" where
  "stamped now ns = map (\<lambda>n. n\<lparr>nn_createdAt := to_iso now\<rparr>) ns"

datatype notify_op =
    OpRegister template_definition
  | OpDraft template_draft int string
  | OpPublish template_release
  | OpPublishActivate string template_release
  | OpActivate string string int
  | OpAccept stored_intent "notification list" int
  | OpRead string string string
  | OpArchive string string string

fun notify_store_exec :: "notify_lib \<Rightarrow> notify_op \<Rightarrow> (notify_store, unit) nt_act" where
  "notify_store_exec lib (OpRegister d) = voidA (ns_registerTemplateDefinition lib d)"
| "notify_store_exec lib (OpDraft d n i) = voidA (ns_saveTemplateDraft d n i)"
| "notify_store_exec lib (OpPublish r) = voidA (ns_publishTemplate r)"
| "notify_store_exec lib (OpPublishActivate i r) = voidA (ns_publishAndActivateTemplate i r)"
| "notify_store_exec lib (OpActivate i k v) = ns_activateTemplate i k v"
| "notify_store_exec lib (OpAccept i ns now) = voidA (ns_acceptIntent i (stamped now ns))"
| "notify_store_exec lib (OpRead p i now) = voidA (ns_markRead p i now)"
| "notify_store_exec lib (OpArchive p i now) = voidA (ns_archive p i now)"

section \<open>Ports\<close>

datatype notify_operation =
    Notification_archive | Notification_detail | Notification_intent_submit | Notification_list
  | Notification_mark_read | Notification_template_activate | Notification_template_manage
  | Notification_template_publish | Notification_template_read | Notification_unread_count

datatype audit_phase = Attempted | Failed | Succeeded

record notify_audit =
  nu_actor :: notify_actor
  nu_operation :: notify_operation
  nu_phase :: audit_phase
  nu_decisionId :: string
  nu_referenceId :: string
  nu_errorCode :: "notify_code option"

datatype notify_outcome = Obs_done | Obs_denied | Obs_error

record authorization_extra =
  ax_notificationId :: "string option"
  ax_ownerReference :: "string option"
  ax_producerReference :: "string option"

definition no_extra :: authorization_extra where
  "no_extra = \<lparr>ax_notificationId = None, ax_ownerReference = None, ax_producerReference = None\<rparr>"

record preference_answer =
  pa_decision :: string
  pa_reason :: string
  pa_version :: string

record notify_env =
  ne_lib :: notify_lib
  ne_authorize :: "notify_actor \<Rightarrow> notify_operation \<Rightarrow> authorization_extra \<Rightarrow> notify_failure + bool \<times> string"
  ne_auditFails :: "notify_audit \<Rightarrow> bool"
  ne_resolve :: "selector list \<Rightarrow> notify_failure + resolved_recipient list"
  ne_displayName :: "(string \<Rightarrow> notify_failure + string) option"
  ne_preference :: "string \<Rightarrow> resolved_recipient \<Rightarrow> notify_failure + preference_answer"
  ne_shanghaiTime :: "int \<Rightarrow> notify_failure + string"
  ne_now :: int

record notify_world =
  nw_store :: notify_store
  nw_audit :: "notify_audit list"
  nw_observed :: "(notify_operation \<times> notify_outcome) list"

type_synonym 'a nt_do = "(notify_world, notify_failure, 'a) act"

definition in_store :: "(notify_store, 'a) nt_act \<Rightarrow> 'a nt_do" where
  "in_store m w = (case m (nw_store w) of (r, s) \<Rightarrow> (r, w\<lparr>nw_store := s\<rparr>))"

definition from_store :: "(notify_store \<Rightarrow> 'a) \<Rightarrow> 'a nt_do" where
  "from_store f = getsA (\<lambda>w. f (nw_store w))"

definition meanwhile :: "notify_lib \<Rightarrow> notify_op list \<Rightarrow> unit nt_do" where
  "meanwhile lib ops = modifyA (\<lambda>w. w\<lparr>nw_store := run_all (notify_store_exec lib) ops (nw_store w)\<rparr>)"

definition nt_observe :: "notify_operation \<Rightarrow> 'a nt_do \<Rightarrow> 'a nt_do" where
  "nt_observe op m w = (case m w of
     (Inr x, w') \<Rightarrow> (Inr x, w'\<lparr>nw_observed := nw_observed w' @ [(op, Obs_done)]\<rparr>)
   | (Inl e, w') \<Rightarrow> (Inl e, w'\<lparr>nw_observed := nw_observed w' @ [(op,
       case e of NotificationError c b \<Rightarrow>
         if c = NOTIFICATION_OPERATION_DENIED then Obs_denied else Obs_error
       | _ \<Rightarrow> Obs_error)]\<rparr>))"

definition nt_audit :: "notify_env \<Rightarrow> notify_audit \<Rightarrow> unit nt_do" where
  "nt_audit env a w =
     (if ne_auditFails env a then (Inl (NotificationError NOTIFICATION_AUDIT_FAILED True), w)
      else (Inr (), w\<lparr>nw_audit := nw_audit w @ [a]\<rparr>))"

definition nt_authorize ::
  "notify_env \<Rightarrow> notify_actor \<Rightarrow> notify_operation \<Rightarrow> string \<Rightarrow> authorization_extra
     \<Rightarrow> (notify_actor \<times> string) nt_do" where
  "nt_authorize env actorInput op referenceId extra =
     bindA (liftA (nt_actor actorInput)) (\<lambda>a.
     bindA (liftA (case ne_authorize env a op extra of
         Inl e \<Rightarrow> Inl (NotificationError NOTIFICATION_AUTHORIZATION_FAILED True)
       | Inr d \<Rightarrow> Inr d)) (\<lambda>decision.
     bindA (liftA (nt_id (snd decision))) (\<lambda>decisionId.
     let entry = (\<lambda>phase code. \<lparr>nu_actor = a, nu_operation = op, nu_phase = phase,
           nu_decisionId = decisionId, nu_referenceId = referenceId, nu_errorCode = code\<rparr>) in
     if \<not> fst decision then
       thenA (nt_audit env (entry Failed (Some NOTIFICATION_OPERATION_DENIED)))
         (throwA (nt_error NOTIFICATION_OPERATION_DENIED))
     else thenA (nt_audit env (entry Attempted None)) (retA (a, decisionId)))))"

definition nt_finish ::
  "notify_env \<Rightarrow> notify_actor \<times> string \<Rightarrow> notify_operation \<Rightarrow> string \<Rightarrow> notify_code option \<Rightarrow> unit nt_do" where
  "nt_finish env ctx op referenceId error = nt_audit env
     \<lparr>nu_actor = fst ctx, nu_operation = op,
      nu_phase = (if error = None then Succeeded else Failed), nu_decisionId = snd ctx,
      nu_referenceId = referenceId, nu_errorCode = error\<rparr>"

definition nt_mapped :: "notify_code \<Rightarrow> notify_failure \<Rightarrow> notify_failure" where
  "nt_mapped fallback e = (case e of
     NotificationError c b \<Rightarrow> e | NotifyPortError m \<Rightarrow> NotificationError fallback True)"

definition failure_code :: "notify_failure \<Rightarrow> notify_code" where
  "failure_code e = (case e of
     NotificationError c b \<Rightarrow> c | NotifyPortError m \<Rightarrow> NOTIFICATION_STORAGE_UNAVAILABLE)"

text \<open>The shape the operations share: \<open>try { work; finish } catch { finish with the failure; throw }\<close>.\<close>

definition nt_guarded ::
  "notify_env \<Rightarrow> notify_actor \<times> string \<Rightarrow> notify_operation \<Rightarrow> string \<Rightarrow> 'a nt_do \<Rightarrow> 'a nt_do" where
  "nt_guarded env ctx op referenceId work =
     catchA work (\<lambda>e. let failure = nt_mapped NOTIFICATION_STORAGE_UNAVAILABLE e in
       thenA (nt_finish env ctx op referenceId (Some (failure_code failure))) (throwA failure))"

definition nt_finished ::
  "notify_env \<Rightarrow> notify_actor \<times> string \<Rightarrow> notify_operation \<Rightarrow> ('a \<Rightarrow> string) \<Rightarrow> 'a nt_do \<Rightarrow> 'a nt_do" where
  "nt_finished env ctx op referenceOf work =
     bindA work (\<lambda>x. thenA (nt_finish env ctx op (referenceOf x) None) (retA x))"

text \<open>\<open>read\<close>: a notification of the actor.\<close>

definition nt_read ::
  "notify_env \<Rightarrow> notify_actor \<Rightarrow> string \<Rightarrow> notify_operation
     \<Rightarrow> (notification \<times> notify_actor \<times> string) nt_do" where
  "nt_read env actorInput idInput op =
     bindA (liftA (nt_uuid idInput)) (\<lambda>i.
     bindA (nt_authorize env actorInput op i (no_extra\<lparr>ax_notificationId := Some i\<rparr>)) (\<lambda>ctx.
     nt_guarded env ctx op i
       (bindA (from_store (ns_get (na_principalId (fst ctx)) i)) (\<lambda>item.
        bindA (requireA item (nt_error NOTIFICATION_NOT_FOUND)) (\<lambda>n. retA (n, ctx))))))"

definition nt_templateContext ::
  "notify_env \<Rightarrow> notify_actor \<Rightarrow> notify_operation \<Rightarrow> string
     \<Rightarrow> ((notify_actor \<times> string) \<times> template_definition \<times> string) nt_do" where
  "nt_templateContext env actorInput op keyInput =
     bindA (liftA (nt_id keyInput)) (\<lambda>key.
     bindA (from_store (\<lambda>s. jm_get (ns_definitions s) key)) (\<lambda>found.
     bindA (requireA found (nt_error NOTIFICATION_TEMPLATE_NOT_FOUND)) (\<lambda>d.
     bindA (nt_authorize env actorInput op key (no_extra\<lparr>ax_ownerReference := Some (td_ownerModule d)\<rparr>))
       (\<lambda>ctx. retA (ctx, d, key)))))"

section \<open>Template administration\<close>

definition validateVariable :: "notify_lib \<Rightarrow> template_variable \<Rightarrow> notify_failure + template_variable" where
  "validateVariable lib v =
     bindE (nt_id (tv_key v)) (\<lambda>_.
     bindE (validatePlainTemplate lib (tv_label v) 100) (\<lambda>_.
     bindE (validatePlainTemplate lib (tv_description v) 500) (\<lambda>_.
     bindE (nt_id (tv_ownerModule v)) (\<lambda>_.
     bindE (ensure (tv_privacy v = ''internal'' \<or> tv_privacy v = ''personal'')
              (nt_error NOTIFICATION_INPUT_INVALID)) (\<lambda>_.
     bindE (ensure (tv_source v \<in> set [''domain'', ''notification.owner'', ''notification.sender'', ''notification.time''])
              (nt_error NOTIFICATION_INPUT_INVALID)) (\<lambda>_. Inr v))))))"

text \<open>The two version numbers come as JavaScript numbers.\<close>

definition positive_safe :: "jsnum \<Rightarrow> bool" where
  "positive_safe n \<longleftrightarrow> isSafeInteger n \<and> 1 \<le> num_int n"

definition validateDefinition ::
  "notify_lib \<Rightarrow> jsnum \<Rightarrow> jsnum \<Rightarrow> template_definition \<Rightarrow> notify_failure + template_definition" where
  "validateDefinition lib definitionVersion catalogVersion d =
     bindE (ensure (positive_safe definitionVersion \<and> positive_safe catalogVersion)
              (nt_error NOTIFICATION_INPUT_INVALID)) (\<lambda>_.
     bindE (mapE (validateVariable lib) (td_allowedVariables d)) (\<lambda>vs.
     bindE (ensure (distinct (map tv_key vs)) (nt_error NOTIFICATION_INPUT_INVALID)) (\<lambda>_.
     bindE (nt_id (td_templateKey d)) (\<lambda>_.
     bindE (nt_id (td_ownerModule d)) (\<lambda>_.
     bindE (nt_id (td_notificationType d)) (\<lambda>_.
     bindE (validatePlainTemplate lib (td_systemSenderName d) 100) (\<lambda>_.
     Inr (d\<lparr>td_definitionVersion := num_int definitionVersion,
            td_variableCatalogVersion := num_int catalogVersion, td_allowedVariables := vs\<rparr>))))))))"

definition nt_registerTemplateDefinition ::
  "notify_env \<Rightarrow> notify_actor \<Rightarrow> jsnum \<Rightarrow> jsnum \<Rightarrow> template_definition \<Rightarrow> template_definition nt_do" where
  "nt_registerTemplateDefinition env actorInput definitionVersion catalogVersion input =
     nt_observe Notification_template_manage
       (bindA (liftA (validateDefinition (ne_lib env) definitionVersion catalogVersion input)) (\<lambda>d.
        bindA (nt_authorize env actorInput Notification_template_manage (td_templateKey d)
                 (no_extra\<lparr>ax_ownerReference := Some (td_ownerModule d)\<rparr>)) (\<lambda>ctx.
        nt_guarded env ctx Notification_template_manage (td_templateKey d)
          (nt_finished env ctx Notification_template_manage (\<lambda>_. td_templateKey d)
            (thenA (in_store (ns_registerTemplateDefinition (ne_lib env) d)) (retA d))))))"

record template_summary =
  ts_currentVersion :: "int option"
  ts_definition :: template_definition
  ts_draft :: "template_draft option"
  ts_releases :: "template_release list"

definition template_summary_of :: "template_definition \<Rightarrow> notify_store \<Rightarrow> template_summary" where
  "template_summary_of d s =
     \<lparr>ts_currentVersion = map_option tr_version (ns_getActiveTemplate (td_templateKey d) s),
      ts_definition = d, ts_draft = jm_get (ns_drafts s) (td_templateKey d),
      ts_releases = ns_listTemplateReleases (td_templateKey d) s\<rparr>"

definition nt_listTemplateDefinitions :: "notify_env \<Rightarrow> notify_actor \<Rightarrow> template_summary list nt_do" where
  "nt_listTemplateDefinitions env actorInput =
     nt_observe Notification_template_read
       (bindA (nt_authorize env actorInput Notification_template_read ''notification-templates'' no_extra) (\<lambda>ctx.
        nt_guarded env ctx Notification_template_read ''notification-templates''
          (nt_finished env ctx Notification_template_read (\<lambda>_. ''notification-templates'')
            (from_store (\<lambda>s. map (\<lambda>d. template_summary_of d s)
               (ns_listTemplateDefinitions (ne_lib env) s))))))"

definition nt_getTemplateAdministration ::
  "notify_env \<Rightarrow> notify_actor \<Rightarrow> string \<Rightarrow> template_summary nt_do" where
  "nt_getTemplateAdministration env actorInput keyInput =
     nt_observe Notification_template_read
       (bindA (nt_templateContext env actorInput Notification_template_read keyInput) (\<lambda>(ctx, d, key).
        nt_guarded env ctx Notification_template_read key
          (nt_finished env ctx Notification_template_read (\<lambda>_. key)
            (from_store (template_summary_of d)))))"

record template_texts =
  tt_title :: string
  tt_summary :: string
  tt_body :: string

definition validate_texts :: "notify_lib \<Rightarrow> template_texts \<Rightarrow> notify_failure + template_texts" where
  "validate_texts lib t =
     bindE (validatePlainTemplate lib (tt_title t) 512) (\<lambda>_.
     bindE (validatePlainTemplate lib (tt_summary t) 2000) (\<lambda>_.
     bindE (validateRestrictedMarkdown lib (tt_body t)) (\<lambda>_. Inr t)))"

definition text_names :: "template_texts \<Rightarrow> string list" where
  "text_names t = variableNames (tt_title t) @ variableNames (tt_summary t) @ variableNames (tt_body t)"

definition nt_saveTemplateDraft ::
  "notify_env \<Rightarrow> notify_actor \<Rightarrow> string \<Rightarrow> template_texts \<Rightarrow> jsnum \<Rightarrow> string \<Rightarrow> string \<Rightarrow> template_draft nt_do" where
  "nt_saveTemplateDraft env actorInput keyInput texts expectedRevision operationId updatedAt =
     nt_observe Notification_template_manage
       (bindA (nt_templateContext env actorInput Notification_template_manage keyInput) (\<lambda>(ctx, d, key).
        nt_guarded env ctx Notification_template_manage key
          (nt_finished env ctx Notification_template_manage (\<lambda>_. key)
            (thenA (ensureA (td_enabled d \<and> isSafeInteger expectedRevision \<and> 0 \<le> num_int expectedRevision)
                      (nt_error NOTIFICATION_INPUT_INVALID))
            (bindA (liftA (validate_texts (ne_lib env) texts)) (\<lambda>t.
             thenA (liftA (variableSchema d (text_names t)))
             (bindA (liftA (nt_uuid operationId)) (\<lambda>i.
              bindA (liftA (nt_timestamp updatedAt)) (\<lambda>time.
              in_store (ns_saveTemplateDraft
                \<lparr>tf_bodyTemplate = tt_body t, tf_revision = 0, tf_summaryTemplate = tt_summary t,
                 tf_templateKey = key, tf_titleTemplate = tt_title t, tf_updatedAt = time\<rparr>
                (num_int expectedRevision) i))))))))))"

text \<open>A release of a definition's texts, with its digest.\<close>

definition release_of ::
  "notify_lib \<Rightarrow> template_definition \<Rightarrow> string \<Rightarrow> int \<Rightarrow> template_texts \<Rightarrow> (string \<times> js_value) list
     \<Rightarrow> string \<Rightarrow> notify_failure + template_release" where
  "release_of lib d key version t schema publishedAt =
     (let base = \<lparr>tr_templateKey = key, tr_version = version, tr_ownerReference = td_ownerModule d,
            tr_notificationType = td_notificationType d, tr_variableSchema = schema,
            tr_variableCatalogVersion = Some (td_variableCatalogVersion d),
            tr_titleTemplate = tt_title t, tr_summaryTemplate = Some (tt_summary t),
            tr_bodyTemplate = tt_body t, tr_bodyFormat = Some Restricted_markdown,
            tr_contentDigest = [], tr_publishedAt = publishedAt\<rparr> in
      bindE (digestTemplate lib base) (\<lambda>digest. Inr (base\<lparr>tr_contentDigest := digest\<rparr>)))"

text \<open>The variables of a preview: the definition's examples, overridden by the command's.\<close>

definition preview_variables ::
  "template_definition \<Rightarrow> (string \<times> js_value) list \<Rightarrow> string list \<Rightarrow> (string \<times> js_value) list" where
  "preview_variables d given names =
     filter (\<lambda>e. fst e \<in> set names)
       (foldl (\<lambda>m e. jm_set m (fst e) (snd e))
         (foldl (\<lambda>m v. jm_set m (tv_key v) (tv_example v)) [] (td_allowedVariables d)) given)"

definition nt_previewTemplate ::
  "notify_env \<Rightarrow> notify_actor \<Rightarrow> string \<Rightarrow> template_texts \<Rightarrow> (string \<times> js_value) list \<Rightarrow> rendered nt_do" where
  "nt_previewTemplate env actorInput keyInput texts given =
     nt_observe Notification_template_manage
       (bindA (nt_templateContext env actorInput Notification_template_manage keyInput) (\<lambda>(ctx, d, key).
        nt_guarded env ctx Notification_template_manage key
          (nt_finished env ctx Notification_template_manage (\<lambda>_. key)
            (bindA (liftA (validate_texts (ne_lib env) texts)) (\<lambda>t.
             bindA (liftA (variableSchema d (text_names t))) (\<lambda>schema.
             bindA (liftA (release_of (ne_lib env) d key 1 t schema (to_iso (ne_now env)))) (\<lambda>release.
             liftA (renderTemplate (ne_lib env) release
               (preview_variables d given (text_names t))))))))))"

definition next_version :: "template_release list \<Rightarrow> int" where
  "next_version rs = foldl max 0 (map tr_version rs) + 1"

definition release_reference :: "string \<Rightarrow> int \<Rightarrow> string" where
  "release_reference key version = key @ '':'' @ show_int version"

definition nt_publishTemplateDraft ::
  "notify_env \<Rightarrow> notify_actor \<Rightarrow> string \<Rightarrow> string \<Rightarrow> string \<Rightarrow> template_release nt_do" where
  "nt_publishTemplateDraft env actorInput keyInput activationId publishedAt =
     nt_observe Notification_template_publish
       (bindA (nt_templateContext env actorInput Notification_template_publish keyInput) (\<lambda>(ctx, d, key).
        nt_guarded env ctx Notification_template_publish key
          (nt_finished env ctx Notification_template_publish (\<lambda>r. release_reference key (tr_version r))
            (bindA (from_store (\<lambda>s. jm_get (ns_drafts s) key)) (\<lambda>found.
             bindA (requireA (if td_enabled d then found else None)
                      (nt_error NOTIFICATION_TEMPLATE_NOT_FOUND)) (\<lambda>draft.
             bindA (from_store (ns_listTemplateReleases key)) (\<lambda>releases.
             let t = \<lparr>tt_title = tf_titleTemplate draft, tt_summary = tf_summaryTemplate draft,
                      tt_body = tf_bodyTemplate draft\<rparr> in
             bindA (liftA (variableSchema d (text_names t))) (\<lambda>schema.
             bindA (liftA (nt_timestamp publishedAt)) (\<lambda>time.
             bindA (liftA (release_of (ne_lib env) d key (next_version releases) t schema time)) (\<lambda>release.
             thenA (liftA (validateTemplateRelease (ne_lib env) release))
             (bindA (liftA (nt_uuid activationId)) (\<lambda>i.
              thenA (in_store (ns_publishAndActivateTemplate i release)) (retA release)))))))))))))"

definition nt_activateTemplate ::
  "notify_env \<Rightarrow> notify_actor \<Rightarrow> string \<Rightarrow> jsnum \<Rightarrow> string \<Rightarrow> string \<Rightarrow> unit nt_do" where
  "nt_activateTemplate env actorInput keyInput version activationId activatedAt =
     nt_observe Notification_template_activate
       (bindA (nt_templateContext env actorInput Notification_template_activate keyInput) (\<lambda>(ctx, d, key).
        nt_guarded env ctx Notification_template_activate key
          (nt_finished env ctx Notification_template_activate (\<lambda>_. release_reference key (num_int version))
            (thenA (ensureA (positive_safe version) (nt_error NOTIFICATION_INPUT_INVALID))
            (bindA (liftA (nt_uuid activationId)) (\<lambda>i.
             thenA (liftA (nt_timestamp activatedAt))
               (in_store (ns_activateTemplate i key (num_int version)))))))))"

text \<open>\<open>publishTemplate\<close>: the command is a release without digest; its version is a number.\<close>

definition nt_publishTemplate ::
  "notify_env \<Rightarrow> notify_actor \<Rightarrow> jsnum \<Rightarrow> template_release \<Rightarrow> template_release nt_do" where
  "nt_publishTemplate env actorInput version c =
     nt_observe Notification_template_publish
       (bindA (liftA (nt_actor actorInput)) (\<lambda>a.
        bindA (liftA (nt_id (tr_templateKey c))) (\<lambda>key.
        bindA (liftA (nt_id (tr_ownerReference c))) (\<lambda>owner.
        let reference = key @ '':'' @ nl_showNum (ne_lib env) version in
        bindA (nt_authorize env a Notification_template_publish reference
                 (no_extra\<lparr>ax_ownerReference := Some owner\<rparr>)) (\<lambda>ctx.
        nt_guarded env ctx Notification_template_publish reference
          (nt_finished env ctx Notification_template_publish (\<lambda>_. reference)
            (thenA (ensureA (positive_safe version) (nt_error NOTIFICATION_INPUT_INVALID))
            (thenA (liftA (nt_id (tr_notificationType c)))
            (thenA (liftA (validatePlainTemplate (ne_lib env) (tr_titleTemplate c) 512))
            (thenA (liftA (case tr_summaryTemplate c of None \<Rightarrow> Inr []
               | Some t \<Rightarrow> validatePlainTemplate (ne_lib env) t 2000))
            (thenA (liftA (if tr_bodyFormat c = Some Restricted_markdown
               then validateRestrictedMarkdown (ne_lib env) (tr_bodyTemplate c)
               else validateTemplateSource (ne_lib env) (tr_bodyTemplate c) 8000))
            (thenA (liftA (nt_timestamp (tr_publishedAt c)))
            (bindA (liftA (digestTemplate (ne_lib env) (c\<lparr>tr_version := num_int version\<rparr>))) (\<lambda>digest.
             let release = c\<lparr>tr_version := num_int version, tr_contentDigest := digest\<rparr> in
             thenA (liftA (validateTemplateRelease (ne_lib env) release))
             (thenA (in_store (ns_publishTemplate release)) (retA release))))))))))))))))"

section \<open>Intents\<close>

datatype intent_sender = System_sender | Person_sender string

datatype intent_kind = IntentV1 jsnum | IntentV2 intent_sender

record intent =
  it_intentId :: string
  it_producer :: string
  it_idempotencyKey :: string
  it_templateKey :: string
  it_kind :: intent_kind
  it_selectors :: "selector list"
  it_variables :: js_value
  it_sourceType :: string
  it_sourceId :: string
  it_deepLink :: deep_link

definition hex_value :: "char \<Rightarrow> int" where
  "hex_value c = (if c \<in> set digits then digit_val c
     else if c \<in> set ''abcdef'' then (of_char c :: int) - 87
     else if c \<in> set ''ABCDEF'' then (of_char c :: int) - 55 else 0)"

text \<open>A digest as a version 5 UUID; \<open>(x & 3) | 8\<close> is \<open>8 + x mod 4\<close>.\<close>

definition notificationUuid :: "notify_lib \<Rightarrow> string \<Rightarrow> string \<Rightarrow> string \<Rightarrow> string" where
  "notificationUuid lib intentId principalId recipientReference =
     (let h = take 32 (nl_sha256 lib
            (intentId @ [CHR 0x00] @ principalId @ [CHR 0x00] @ recipientReference));
          v = (if 16 < length h then hex_value (h ! 16) else 0);
          x = h[12 := CHR ''5'', 16 := hex_digit (nat (8 + v mod 4))];
          f = (\<lambda>i n. take n (drop i x))
      in f 0 8 @ ''-'' @ f 8 4 @ ''-'' @ f 12 4 @ ''-'' @ f 16 4 @ ''-'' @ drop 20 x)"

fun dedupe_into ::
  "resolved_recipient list \<Rightarrow> (string, resolved_recipient) jsmap
     \<Rightarrow> notify_failure + (string, resolved_recipient) jsmap" where
  "dedupe_into [] m = Inr m"
| "dedupe_into (r # rs) m =
     (let key = rc_principalId r @ [CHR 0x00] @ rc_recipientReference r in
      case jm_get m key of
        Some e \<Rightarrow>
          if rc_resolutionReference e \<noteq> rc_resolutionReference r
             \<or> rc_resolutionVersion e \<noteq> rc_resolutionVersion r
             \<or> rc_workforcePersonId e \<noteq> rc_workforcePersonId r
          then Inl (nt_error NOTIFICATION_RECIPIENT_RESOLUTION_FAILED)
          else dedupe_into rs (jm_set m key r)
      | None \<Rightarrow> dedupe_into rs (jm_set m key r))"

definition deduplicateRecipients ::
  "resolved_recipient list \<Rightarrow> notify_failure + resolved_recipient list" where
  "deduplicateRecipients rs = bindE (dedupe_into rs []) (\<lambda>m. Inr (jm_values m))"

definition link_value :: "deep_link \<Rightarrow> js_value" where
  "link_value d = JObject
     ([(''applicationId'', JString (dk_applicationId d)), (''routeId'', JString (dk_routeId d)),
       (''resourceType'', JString (dk_resourceType d)), (''resourceId'', JString (dk_resourceId d))]
      @ (case dk_parameters d of None \<Rightarrow> []
         | Some ps \<Rightarrow> [(''parameters'', js_object (map (\<lambda>(k, v). (k, JString v)) ps))]))"

text \<open>\<open>normalized\<close>, the value whose digest identifies the request.\<close>

definition intent_value :: "intent \<Rightarrow> (string \<times> js_value) list \<Rightarrow> js_value" where
  "intent_value i variables = JObject
     ([(''intentId'', JString (it_intentId i)), (''producer'', JString (it_producer i)),
       (''idempotencyKey'', JString (it_idempotencyKey i)),
       (''templateKey'', JString (it_templateKey i)),
       (''selectors'', JArray (map (\<lambda>s. JObject [(''selectorType'', JString (se_selectorType s)),
          (''referenceId'', JString (se_referenceId s))]) (it_selectors i))),
       (''variables'', JObject variables), (''sourceType'', JString (it_sourceType i)),
       (''sourceId'', JString (it_sourceId i)), (''deepLink'', link_value (it_deepLink i))]
      @ (case it_kind i of
           IntentV1 n \<Rightarrow> [(''templateVersion'', JNumber n)]
         | IntentV2 sender \<Rightarrow> [(''version'', js_int 2), (''sender'', JObject (case sender of
               System_sender \<Rightarrow> [(''kind'', JString ''system'')]
             | Person_sender p \<Rightarrow> [(''kind'', JString ''workforce_person''),
                 (''workforcePersonId'', JString p)]))]))"

text \<open>The checks of an intent's fields, its canonical variables and its fingerprint.\<close>

definition check_intent ::
  "notify_lib \<Rightarrow> intent \<Rightarrow> notify_failure + (string \<times> js_value) list \<times> string" where
  "check_intent lib i =
     bindE (ensure (1 \<le> length (it_selectors i) \<and> length (it_selectors i) \<le> 100)
              (nt_error NOTIFICATION_INPUT_INVALID)) (\<lambda>_.
     bindE (nt_jsonRecord lib (it_variables i)) (\<lambda>variables.
     bindE (nt_id (it_templateKey i)) (\<lambda>_.
     bindE (mapE nt_selector (it_selectors i)) (\<lambda>_.
     bindE (nt_id (it_sourceType i)) (\<lambda>_.
     bindE (nt_id (it_sourceId i)) (\<lambda>_.
     bindE (nt_deepLink (it_deepLink i)) (\<lambda>_.
     bindE (case it_kind i of
         IntentV1 n \<Rightarrow> ensure (positive_safe n) (nt_error NOTIFICATION_INPUT_INVALID)
       | IntentV2 System_sender \<Rightarrow> Inr ()
       | IntentV2 (Person_sender p) \<Rightarrow> bindE (nt_id p) (\<lambda>_. Inr ())) (\<lambda>_.
     bindE (nt_stable lib (intent_value i variables)) (\<lambda>t.
     Inr (variables, nl_sha256 lib t))))))))))"

abbreviation resolution_failed :: notify_failure where
  "resolution_failed \<equiv> nt_error NOTIFICATION_RECIPIENT_RESOLUTION_FAILED"

definition resolve_recipients ::
  "notify_env \<Rightarrow> selector list \<Rightarrow> notify_failure + resolved_recipient list" where
  "resolve_recipients env selectors =
     (case bindE (ne_resolve env selectors) (mapE nt_recipient) of
        Inl e \<Rightarrow> Inl (nt_mapped NOTIFICATION_RECIPIENT_RESOLUTION_FAILED e)
      | Inr resolved \<Rightarrow>
          bindE (deduplicateRecipients resolved) (\<lambda>rs.
          bindE (ensure (1 \<le> length rs \<and> length rs \<le> 100) resolution_failed) (\<lambda>_. Inr rs)))"

text \<open>The sender's name of a version 2 intent.\<close>

definition sender_name ::
  "notify_env \<Rightarrow> intent \<Rightarrow> template_definition option \<Rightarrow> notify_failure + string option" where
  "sender_name env i definition_found =
     (case it_kind i of
        IntentV1 n \<Rightarrow> Inr None
      | IntentV2 sender \<Rightarrow>
          (case (definition_found, ne_displayName env) of
             (Some d, Some displayName) \<Rightarrow>
               (case sender of
                  System_sender \<Rightarrow> Inr (Some (td_systemSenderName d))
                | Person_sender p \<Rightarrow> bindE (displayName p) (\<lambda>n. Inr (Some n)))
           | _ \<Rightarrow> Inl resolution_failed))"

definition target_variables ::
  "notify_env \<Rightarrow> intent \<Rightarrow> string option \<Rightarrow> (string \<times> js_value) list \<Rightarrow> resolved_recipient
     \<Rightarrow> notify_failure + (string \<times> js_value) list" where
  "target_variables env i sender variables target =
     (case it_kind i of
        IntentV1 n \<Rightarrow> Inr variables
      | IntentV2 _ \<Rightarrow>
          (case (rc_workforcePersonId target, ne_displayName env, sender) of
             (Some person, Some displayName, Some senderName) \<Rightarrow>
               if person = [] then Inl resolution_failed
               else bindE (displayName person) (\<lambda>owner.
                 bindE (ne_shanghaiTime env (ne_now env)) (\<lambda>time.
                 Inr (jm_set (jm_set (jm_set variables ''owner'' (JString owner))
                        ''sender'' (JString senderName)) ''time'' (JString time))))
           | _ \<Rightarrow> Inl resolution_failed))"

text \<open>The notification for one recipient.\<close>

definition make_notification ::
  "notify_env \<Rightarrow> intent \<Rightarrow> template_release \<Rightarrow> string option \<Rightarrow> (string \<times> js_value) list
     \<Rightarrow> resolved_recipient \<Rightarrow> notify_failure + notification" where
  "make_notification env i r sender variables target =
     bindE (target_variables env i sender variables target) (\<lambda>vs.
     bindE (renderTemplate (ne_lib env) r vs) (\<lambda>text.
     bindE (ne_preference env (tr_notificationType r) target) (\<lambda>answer.
     bindE (if pa_decision answer = ''deliver'' then Inr Deliver
            else if pa_decision answer = ''suppress'' then Inr Suppress else nt_invalid) (\<lambda>decision.
     bindE (nt_id (pa_reason answer)) (\<lambda>reason.
     bindE (nt_id (pa_version answer)) (\<lambda>version.
     Inr \<lparr>nn_notificationId = notificationUuid (ne_lib env) (it_intentId i) (rc_principalId target)
            (rc_recipientReference target),
          nn_intentId = it_intentId i, nn_principalId = rc_principalId target,
          nn_recipientReference = rc_recipientReference target,
          nn_resolutionReference = rc_resolutionReference target,
          nn_resolutionVersion = rc_resolutionVersion target,
          nn_templateKey = tr_templateKey r, nn_templateVersion = tr_version r,
          nn_notificationType = tr_notificationType r, nn_title = rd_title text,
          nn_summary = rd_summary text, nn_body = rd_body text,
          nn_bodyFormat = release_format r, nn_contentDigest = Some (tr_contentDigest r),
          nn_stateVersion = 1, nn_sourceType = it_sourceType i, nn_sourceId = it_sourceId i,
          nn_deepLink = it_deepLink i, nn_preferenceDecision = decision,
          nn_preferenceReason = reason, nn_preferenceVersion = version,
          nn_createdAt = to_iso (ne_now env), nn_readAt = None, nn_archivedAt = None\<rparr>))))))"

text \<open>An intent that was not accepted before.\<close>

definition accept_new ::
  "notify_env \<Rightarrow> notify_op list \<Rightarrow> intent \<Rightarrow> (string \<times> js_value) list \<Rightarrow> string \<Rightarrow> intent_result nt_do" where
  "accept_new env others i variables fingerprint =
     bindA (from_store (\<lambda>s. case it_kind i of
        IntentV2 _ \<Rightarrow> ns_getActiveTemplate (it_templateKey i) s
      | IntentV1 n \<Rightarrow> ns_getTemplate (it_templateKey i) (num_int n) s)) (\<lambda>found.
     bindA (requireA found (nt_error NOTIFICATION_TEMPLATE_NOT_FOUND)) (\<lambda>release.
     bindA (liftA (resolve_recipients env (it_selectors i))) (\<lambda>recipients.
     thenA (liftA (nt_timestamp (to_iso (ne_now env))))
     (bindA (from_store (\<lambda>s. jm_get (ns_definitions s) (it_templateKey i))) (\<lambda>d.
      bindA (liftA (sender_name env i d)) (\<lambda>sender.
      bindA (liftA (mapE (make_notification env i release sender variables) recipients)) (\<lambda>ns.
      thenA (meanwhile (ne_lib env) others)
      (bindA (in_store (ns_acceptIntent
          \<lparr>si_intentId = it_intentId i, si_producer = it_producer i,
           si_idempotencyKey = it_idempotencyKey i, si_fingerprint = fingerprint,
           si_result = \<lparr>ni_intentId = it_intentId i, ni_notificationIds = map nn_notificationId ns\<rparr>,
           si_createdAt = to_iso (ne_now env)\<rparr> ns)) (\<lambda>accepted.
       retA (snd accepted))))))))))"

text \<open>The body of the \<open>try\<close> block of \<open>submitIntent\<close>.\<close>

definition submit_work :: "notify_env \<Rightarrow> notify_op list \<Rightarrow> intent \<Rightarrow> intent_result nt_do" where
  "submit_work env others i =
     bindA (liftA (check_intent (ne_lib env) i)) (\<lambda>(variables, fingerprint).
     bindA (from_store (ns_findIntent (it_producer i) (it_idempotencyKey i))) (\<lambda>existing.
     case existing of
       Some e \<Rightarrow> thenA (ensureA (si_fingerprint e = fingerprint) nt_conflict) (retA (si_result e))
     | None \<Rightarrow> accept_new env others i variables fingerprint))"

definition nt_submitIntent ::
  "notify_env \<Rightarrow> notify_op list \<Rightarrow> notify_actor \<Rightarrow> intent \<Rightarrow> intent_result nt_do" where
  "nt_submitIntent env others actorInput i =
     nt_observe Notification_intent_submit
       (thenA (liftA (nt_uuid (it_intentId i)))
       (thenA (liftA (nt_id (it_producer i)))
       (thenA (liftA (nt_id (it_idempotencyKey i)))
       (bindA (nt_authorize env actorInput Notification_intent_submit (it_intentId i)
                (no_extra\<lparr>ax_producerReference := Some (it_producer i)\<rparr>)) (\<lambda>ctx.
        nt_guarded env ctx Notification_intent_submit (it_intentId i)
          (nt_finished env ctx Notification_intent_submit (\<lambda>_. it_intentId i)
            (submit_work env others i)))))))"

section \<open>Reading and marking\<close>

definition nt_get :: "notify_env \<Rightarrow> notify_actor \<Rightarrow> string \<Rightarrow> notification nt_do" where
  "nt_get env actorInput i =
     nt_observe Notification_detail
       (bindA (nt_read env actorInput i Notification_detail) (\<lambda>(n, ctx).
        thenA (nt_finish env ctx Notification_detail (nn_notificationId n) None) (retA n)))"

definition nt_list ::
  "notify_env \<Rightarrow> notify_actor \<Rightarrow> jsnum option \<Rightarrow> string option \<Rightarrow> bool \<Rightarrow> notification_page nt_do" where
  "nt_list env actorInput limitInput cursorInput includeArchived =
     nt_observe Notification_list
       (bindA (nt_authorize env actorInput Notification_list (na_principalId actorInput) no_extra) (\<lambda>ctx.
        let person = na_principalId (fst ctx) in
        nt_guarded env ctx Notification_list person
          (nt_finished env ctx Notification_list (\<lambda>_. person)
            (let limit = (case limitInput of None \<Rightarrow> Fin 50 | Some n \<Rightarrow> n) in
             thenA (ensureA (isSafeInteger limit \<and> 1 \<le> num_int limit \<and> num_int limit \<le> 100)
                      (nt_error NOTIFICATION_INPUT_INVALID))
             (bindA (liftA (nt_optional nt_cursor cursorInput)) (\<lambda>c.
              from_store (ns_list (nl_before (ne_lib env)) person (nat (num_int limit)) c includeArchived)))))))"

definition nt_unreadCount :: "notify_env \<Rightarrow> notify_actor \<Rightarrow> nat nt_do" where
  "nt_unreadCount env actorInput =
     nt_observe Notification_unread_count
       (bindA (nt_authorize env actorInput Notification_unread_count (na_principalId actorInput) no_extra) (\<lambda>ctx.
        let person = na_principalId (fst ctx) in
        nt_guarded env ctx Notification_unread_count person
          (nt_finished env ctx Notification_unread_count (\<lambda>_. person) (from_store (ns_unreadCount person)))))"

text \<open>\<open>markRead\<close> and \<open>archive\<close> differ in the store's operation.\<close>

definition nt_mark ::
  "notify_operation \<Rightarrow> (string \<Rightarrow> string \<Rightarrow> string \<Rightarrow> (notify_store, notification option) nt_act)
     \<Rightarrow> notify_env \<Rightarrow> notify_actor \<Rightarrow> string \<Rightarrow> notification nt_do" where
  "nt_mark op store_mark env actorInput i =
     nt_observe op
       (bindA (nt_read env actorInput i op) (\<lambda>(found, ctx).
        nt_guarded env ctx op (nn_notificationId found)
          (nt_finished env ctx op (\<lambda>_. nn_notificationId found)
            (bindA (liftA (nt_timestamp (to_iso (ne_now env)))) (\<lambda>time.
             bindA (in_store (store_mark (na_principalId (fst ctx)) (nn_notificationId found) time)) (\<lambda>item.
             requireA item (nt_error NOTIFICATION_NOT_FOUND)))))))"

definition nt_markRead :: "notify_env \<Rightarrow> notify_actor \<Rightarrow> string \<Rightarrow> notification nt_do" where
  "nt_markRead = nt_mark Notification_mark_read ns_markRead"

definition nt_archive :: "notify_env \<Rightarrow> notify_actor \<Rightarrow> string \<Rightarrow> notification nt_do" where
  "nt_archive = nt_mark Notification_archive ns_archive"

end
