(* ===== verification/NotifyProps.thy ===== *)
theory NotifyProps
  imports Notifications
begin

text \<open>
  What the notification center guarantees: facts of its store that no operation undoes, intents
  handled once, changes only after an audited authorization, and marks that stay.
\<close>

section \<open>Commands of the center\<close>

datatype notify_command =
    CmdRegister notify_actor jsnum jsnum template_definition
  | CmdListTemplates notify_actor
  | CmdTemplate notify_actor string
  | CmdSaveDraft notify_actor string template_texts jsnum string string
  | CmdPreview notify_actor string template_texts "(string \<times> js_value) list"
  | CmdPublishDraft notify_actor string string string
  | CmdActivate notify_actor string jsnum string string
  | CmdPublish notify_actor jsnum template_release
  | CmdSubmit notify_actor "notify_op list" intent
  | CmdGet notify_actor string
  | CmdList notify_actor "jsnum option" "string option" bool
  | CmdUnread notify_actor
  | CmdRead notify_actor string
  | CmdArchive notify_actor string

fun notify_exec :: "notify_env \<times> notify_command \<Rightarrow> unit nt_do" where
  "notify_exec (env, CmdRegister a v c d) = voidA (nt_registerTemplateDefinition env a v c d)"
| "notify_exec (env, CmdListTemplates a) = voidA (nt_listTemplateDefinitions env a)"
| "notify_exec (env, CmdTemplate a k) = voidA (nt_getTemplateAdministration env a k)"
| "notify_exec (env, CmdSaveDraft a k t n i u) = voidA (nt_saveTemplateDraft env a k t n i u)"
| "notify_exec (env, CmdPreview a k t g) = voidA (nt_previewTemplate env a k t g)"
| "notify_exec (env, CmdPublishDraft a k i u) = voidA (nt_publishTemplateDraft env a k i u)"
| "notify_exec (env, CmdActivate a k v i u) = nt_activateTemplate env a k v i u"
| "notify_exec (env, CmdPublish a v r) = voidA (nt_publishTemplate env a v r)"
| "notify_exec (env, CmdSubmit a others i) = voidA (nt_submitIntent env others a i)"
| "notify_exec (env, CmdGet a i) = voidA (nt_get env a i)"
| "notify_exec (env, CmdList a n c arch) = voidA (nt_list env a n c arch)"
| "notify_exec (env, CmdUnread a) = voidA (nt_unreadCount env a)"
| "notify_exec (env, CmdRead a i) = voidA (nt_markRead env a i)"
| "notify_exec (env, CmdArchive a i) = voidA (nt_archive env a i)"

section \<open>Facts of the store that no operation undoes\<close>

locale notify_fact =
  fixes P :: "notify_store \<Rightarrow> bool"
  assumes op_keeps: "P s \<Longrightarrow> P (snd (notify_store_exec lib op s))"
begin

abbreviation Q :: "notify_world \<Rightarrow> bool" where
  "Q w \<equiv> P (nw_store w)"

lemma ops_keep: "P s \<Longrightarrow> P (run_all (notify_store_exec lib) ops s)"
  by (induction ops arbitrary: s) (auto intro: op_keeps)

lemma in_store_keeps:
  assumes "\<And>s. P s \<Longrightarrow> P (snd (m s))"
  shows "keepsA Q (in_store m)"
  using assms by (auto simp: keepsA_def in_store_def split: prod.split) (metis snd_conv)

lemma store_acts [keeps]:
  "keepsA Q (in_store (ns_registerTemplateDefinition lib d))"
  "keepsA Q (in_store (ns_saveTemplateDraft f n i))"
  "keepsA Q (in_store (ns_publishTemplate r))"
  "keepsA Q (in_store (ns_publishAndActivateTemplate i r))"
  "keepsA Q (in_store (ns_activateTemplate i k v))"
  "keepsA Q (in_store (ns_acceptIntent e (stamped now ns)))"
  "keepsA Q (in_store (ns_markRead p i t))"
  "keepsA Q (in_store (ns_archive p i t))"
  using op_keeps [of _ lib "OpRegister d"] op_keeps [of _ lib "OpDraft f n i"]
    op_keeps [of _ lib "OpPublish r"] op_keeps [of _ lib "OpPublishActivate i r"]
    op_keeps [of _ lib "OpActivate i k v"] op_keeps [of _ lib "OpAccept e ns now"]
    op_keeps [of _ lib "OpRead p i t"] op_keeps [of _ lib "OpArchive p i t"]
  by (auto intro: in_store_keeps)

lemma meanwhile_keeps [keeps]: "keepsA Q (meanwhile lib ops)"
  by (simp add: keepsA_def meanwhile_def ops_keep)

lemma from_store_keeps [keeps]: "keepsA Q (from_store f)"
  by (simp add: from_store_def keepsA_gets)

lemma audit_keeps [keeps]: "keepsA Q (nt_audit env a)"
  by (simp add: keepsA_def nt_audit_def)

lemma observe_keeps [keeps]: "keepsA Q m \<Longrightarrow> keepsA Q (nt_observe op m)"
  by (auto simp: keepsA_def nt_observe_def split: prod.split sum.split)

lemma finish_keeps [keeps]: "keepsA Q (nt_finish env ctx op i e)"
  unfolding nt_finish_def by (intro keeps)

lemma authorize_keeps [keeps]: "keepsA Q (nt_authorize env a op i x)"
  unfolding nt_authorize_def Let_def by (intro keeps)

lemma guarded_keeps [keeps]: "keepsA Q work \<Longrightarrow> keepsA Q (nt_guarded env ctx op i work)"
  unfolding nt_guarded_def Let_def by (intro keeps)

lemma finished_keeps [keeps]: "keepsA Q work \<Longrightarrow> keepsA Q (nt_finished env ctx op f work)"
  unfolding nt_finished_def by (intro keeps)

lemma read_keeps [keeps]: "keepsA Q (nt_read env a i op)"
  unfolding nt_read_def by (intro keeps)

lemma context_keeps [keeps]: "keepsA Q (nt_templateContext env a op k)"
  unfolding nt_templateContext_def by (intro keeps)

lemma prepared_keeps:
  "(\<And>x. r = Inr x \<Longrightarrow> keepsA Q (f x)) \<Longrightarrow> keepsA Q (bindA (liftA r) f)"
  by (cases r) (auto simp: keepsA_def bindA_def)

lemma accept_keeps [keeps]: "keepsA Q (accept_new env others i vs fp)"
proof -
  have "ns = stamped (ne_now env) ns"
    if "mapE (make_notification env i r sender vs) rs = Inr ns" for ns r sender rs
    using that
  proof (induction rs arbitrary: ns)
    case (Cons x rs)
    then show ?case by (auto simp: bindE_eq_Inr stamped_def make_notification_def)
  qed (simp add: stamped_def)
  then have "keepsA Q (in_store (ns_acceptIntent e ns))"
    if "mapE (make_notification env i r sender vs) rs = Inr ns" for e ns r sender rs
    using that store_acts(6) by metis
  then show ?thesis
    unfolding accept_new_def by (intro prepared_keeps keeps) simp
qed

lemma submit_keeps: "keepsA Q (nt_submitIntent env others a i)"
  unfolding nt_submitIntent_def submit_work_def by (intro keeps)

lemma mark_keeps:
  "keepsA Q (nt_markRead env a i)" "keepsA Q (nt_archive env a i)"
  unfolding nt_markRead_def nt_archive_def nt_mark_def by (intro keeps)+

lemma template_keeps:
  "keepsA Q (nt_registerTemplateDefinition env a v c d)"
  "keepsA Q (nt_listTemplateDefinitions env a)"
  "keepsA Q (nt_getTemplateAdministration env a k)"
  "keepsA Q (nt_saveTemplateDraft env a k t n i u)"
  "keepsA Q (nt_previewTemplate env a k t g)"
  "keepsA Q (nt_publishTemplateDraft env a k i u)"
  "keepsA Q (nt_activateTemplate env a k ver i u)"
  "keepsA Q (nt_publishTemplate env a ver r)"
  unfolding nt_registerTemplateDefinition_def nt_listTemplateDefinitions_def
    nt_getTemplateAdministration_def nt_saveTemplateDraft_def nt_previewTemplate_def
    nt_publishTemplateDraft_def nt_activateTemplate_def nt_publishTemplate_def Let_def
  by (intro keeps)+

lemma query_keeps:
  "keepsA Q (nt_get env a i)" "keepsA Q (nt_list env a n c arch)" "keepsA Q (nt_unreadCount env a)"
  unfolding nt_get_def nt_list_def nt_unreadCount_def Let_def by (intro keeps)+

lemma notify_keeps: "keepsA Q (notify_exec c)"
  by (cases c rule: notify_exec.cases)
    (auto intro: keepsA_voidA template_keeps query_keeps submit_keeps mark_keeps)

end

sublocale notify_fact < center: guarded_machine notify_exec "\<lambda>w. P (nw_store w)"
  by unfold_locales (rule keepsA_D [OF notify_keeps])

definition intent_is :: "string \<Rightarrow> stored_intent \<Rightarrow> notify_store \<Rightarrow> bool" where
  "intent_is k e s \<longleftrightarrow> jm_get (ns_intents s) k = Some e"

definition release_is :: "string \<Rightarrow> template_release \<Rightarrow> notify_store \<Rightarrow> bool" where
  "release_is k r s \<longleftrightarrow> jm_get (ns_templates s) k = Some r"

text \<open>A notification's later versions: the same content, marks that stay, a growing version.\<close>

definition later_version :: "notification \<Rightarrow> notification \<Rightarrow> bool" where
  "later_version n n' \<longleftrightarrow>
     n'\<lparr>nn_readAt := nn_readAt n, nn_archivedAt := nn_archivedAt n, nn_stateVersion := nn_stateVersion n\<rparr> = n
     \<and> (nn_readAt n = None \<or> nn_readAt n' = nn_readAt n)
     \<and> (nn_archivedAt n = None \<or> nn_archivedAt n' = nn_archivedAt n)
     \<and> nn_stateVersion n \<le> nn_stateVersion n'"

definition notification_stays :: "string \<Rightarrow> notification \<Rightarrow> notify_store \<Rightarrow> bool" where
  "notification_stays i n s \<longleftrightarrow>
     (case jm_get (ns_notifications s) i of None \<Rightarrow> False | Some n' \<Rightarrow> later_version n n')"

lemmas notify_op_defs = ns_registerTemplateDefinition_def ns_saveTemplateDraft_def
  ns_publishTemplate_def ns_publishAndActivateTemplate_def ns_activateTemplate_def
  ns_acceptIntent_def ns_markRead_def ns_archive_def ns_get_def

lemma ns_add_all_get:
  "ns_add_all ns m = Inr m' \<Longrightarrow> jm_get m k = Some n \<Longrightarrow> jm_get m' k = Some n"
  by (induction ns arbitrary: m) (fastforce split: if_splits)+

lemma ns_add_all_new:
  assumes "ns_add_all ns m = Inr m'" and "jm_get m' k = Some n"
  shows "jm_get m k = Some n \<or> n \<in> set ns \<and> nn_notificationId n = k"
  using assms by (induction ns arbitrary: m) (fastforce split: if_splits)+

lemma ns_add_all_ok: "ns_add_all ns m = Inr m' \<Longrightarrow> jm_ok m \<Longrightarrow> jm_ok m'"
  by (induction ns arbitrary: m) (auto split: if_splits)

interpretation intents: notify_fact "intent_is k e" for k e
proof
  show "intent_is k e s \<Longrightarrow> intent_is k e (snd (notify_store_exec lib op s))" for s lib op
    by (cases op) (auto simp: intent_is_def notify_op_defs Let_def bindA_run
        split: option.split sum.split)
qed

interpretation releases: notify_fact "release_is k r" for k r
proof
  show "release_is k r s \<Longrightarrow> release_is k r (snd (notify_store_exec lib op s))" for s lib op
    by (cases op) (auto simp: release_is_def notify_op_defs Let_def bindA_run
        split: option.split sum.split)
qed

lemma later_version_mark:
  "later_version n n' \<Longrightarrow> nn_readAt n' = None \<Longrightarrow>
     later_version n (n'\<lparr>nn_readAt := Some t, nn_stateVersion := nn_stateVersion n' + 1\<rparr>)"
  "later_version n n' \<Longrightarrow> nn_archivedAt n' = None \<Longrightarrow>
     later_version n (n'\<lparr>nn_archivedAt := Some t, nn_stateVersion := nn_stateVersion n' + 1\<rparr>)"
  by (auto simp: later_version_def)

interpretation kept: notify_fact "notification_stays i n" for i n
proof
  show "notification_stays i n s \<Longrightarrow> notification_stays i n (snd (notify_store_exec lib op s))" for s lib op
    by (cases op) (auto simp: notification_stays_def notify_op_defs Let_def bindA_run later_version_mark
        dest: ns_add_all_get split: option.split option.split_asm sum.split)
qed

lemma pad_length [simp]: "length (pad w n) = w"
  by (induction w arbitrary: n) simp_all

lemma to_iso_length: "length (to_iso t) = 24"
  by (simp add: to_iso_def Let_def split: prod.split)

interpretation rows: notify_fact rows_ok
proof
  show "rows_ok s \<Longrightarrow> rows_ok (snd (notify_store_exec lib op s))" for s lib op
    by (cases op) (auto simp: rows_ok_def notify_op_defs Let_def bindA_run ns_add_all_ok stamped_def
        to_iso_length dest!: ns_add_all_new split: option.split option.split_asm sum.split)
qed

text \<open>
  An accepted notification keeps its content for ever; once it is read or archived it keeps the
  time of that, and its state version never goes back. That holds through all later commands and
  what others do to the store meanwhile.
\<close>

theorem notification_permanent:
  assumes "jm_get (ns_notifications (nw_store w)) i = Some n"
  shows "\<exists>n'. jm_get (ns_notifications (nw_store (run_all notify_exec cs w))) i = Some n'
    \<and> later_version n n'"
proof -
  have "notification_stays i n (nw_store w)"
    using assms by (simp add: notification_stays_def later_version_def)
  then have "notification_stays i n (nw_store (run_all notify_exec cs w))"
    by (rule kept.center.run_keeps)
  then show ?thesis by (auto simp: notification_stays_def split: option.splits)
qed

text \<open>The same for a published release, which never changes at all.\<close>

lemma release_permanent:
  "jm_get (ns_templates (nw_store w)) k = Some r \<Longrightarrow>
     jm_get (ns_templates (nw_store (run_all notify_exec cs w))) k = Some r"
  using releases.center.run_keeps [where s = w and k = k and r = r] by (simp add: release_is_def)

section \<open>Intents are handled once\<close>

lemma store_same [simp]:
  "nw_store (snd (nt_audit env a w)) = nw_store w"
  "nw_store (snd (nt_finish env ctx op i e w)) = nw_store w"
  "nw_store (snd (nt_authorize env a' op i x w)) = nw_store w"
  "nw_store (snd (nt_observe op m w)) = nw_store (snd (m w))"
proof -
  show a: "nw_store (snd (nt_audit env a w)) = nw_store w" for a by (simp add: nt_audit_def)
  then show "nw_store (snd (nt_finish env ctx op i e w)) = nw_store w" by (simp add: nt_finish_def)
  show "nw_store (snd (nt_authorize env a' op i x w)) = nw_store w"
    using a by (auto simp: nt_authorize_def Let_def bindA_run split: sum.split prod.split) (metis snd_conv)+
  show "nw_store (snd (nt_observe op m w)) = nw_store (snd (m w))"
    by (auto simp: nt_observe_def split: prod.split sum.split)
qed

lemma run_store:
  "nt_finish env ctx op i e w = (r, w') \<Longrightarrow> nw_store w' = nw_store w"
  "nt_authorize env a op i x w = (r', w') \<Longrightarrow> nw_store w' = nw_store w"
  using store_same(2) [of env ctx op i e w] store_same(3) [of env a op i x w] by simp_all

lemma nt_observe_eq: "fst (nt_observe op m w) = fst (m w)"
  by (auto simp: nt_observe_def split: prod.split sum.split)

lemma guarded_finished_Inr:
  "nt_guarded env ctx op i (nt_finished env ctx op f work) w = (Inr x, w') \<Longrightarrow>
     \<exists>u. work w = (Inr x, u) \<and> nw_store w' = nw_store u"
  by (auto simp: nt_guarded_def nt_finished_def catchA_run bindA_eq_Inr Let_def
      dest!: run_store(1) split: prod.splits sum.splits)

lemma guarded_finished_same:
  assumes "\<And>w'. snd (work w) = w' \<Longrightarrow> nw_store w' = nw_store w"
  shows "nw_store (snd (nt_guarded env ctx op i (nt_finished env ctx op f work) w)) = nw_store w"
  using assms by (auto simp: nt_guarded_def nt_finished_def catchA_run bindA_run Let_def
      split: prod.split sum.split) (metis run_store(1) snd_conv)+

lemma accept_new_logs:
  assumes "accept_new env others i vs fp w = (Inr r, w')"
  shows "\<exists>e. ns_findIntent (it_producer i) (it_idempotencyKey i) (nw_store w') = Some e \<and> si_result e = r"
  using assms
  by (auto simp: accept_new_def bindA_eq_Inr in_store_def ns_acceptIntent_def ns_findIntent_def Let_def
      split: option.splits sum.splits if_splits prod.splits)

lemma submit_run:
  assumes "nt_submitIntent env others a i w = (Inr r, w')"
  shows "\<exists>u v. nw_store u = nw_store w \<and> submit_work env others i u = (Inr r, v)
    \<and> nw_store w' = nw_store v"
  using assms
  by (auto simp: nt_submitIntent_def nt_observe_def bindA_eq_Inr split: prod.splits sum.splits
      dest!: guarded_finished_Inr run_store(2))

lemma submit_logs:
  assumes "nt_submitIntent env others a i w = (Inr r, w')"
  shows "\<exists>e. ns_findIntent (it_producer i) (it_idempotencyKey i) (nw_store w') = Some e \<and> si_result e = r"
proof -
  obtain u v where "submit_work env others i u = (Inr r, v)" "nw_store w' = nw_store v"
    using submit_run [OF assms] by blast
  then show ?thesis
    by (auto simp: submit_work_def bindA_eq_Inr from_store_def split: option.splits
        dest!: accept_new_logs)
qed

lemma work_again:
  assumes "ns_findIntent (it_producer i) (it_idempotencyKey i) (nw_store u) = Some e"
  shows "snd (submit_work env others i u) = u"
    and "submit_work env others i u = (Inr x, v) \<Longrightarrow> x = si_result e"
  using assms by (auto simp: submit_work_def bindA_run from_store_def ensureA_def
      split: sum.splits prod.splits if_splits)

lemma submit_again:
  assumes "ns_findIntent (it_producer i) (it_idempotencyKey i) (nw_store w) = Some e"
  shows "nw_store (snd (nt_submitIntent env others a i w)) = nw_store w"
    and "fst (nt_submitIntent env others a i w) = Inr (si_result e)
      \<or> \<not> isOk (fst (nt_submitIntent env others a i w))"
proof -
  have "nw_store (snd (nt_guarded env ctx op j (nt_finished env ctx op f (submit_work env others i)) u))
      = nw_store w" if "nw_store u = nw_store w" for ctx op j f u
    using guarded_finished_same [of "submit_work env others i" u] work_again(1) [of i u e] assms that
    by simp
  then show "nw_store (snd (nt_submitIntent env others a i w)) = nw_store w"
    by (auto simp: nt_submitIntent_def bindA_run split: sum.split prod.split dest!: run_store(2))
  show "fst (nt_submitIntent env others a i w) = Inr (si_result e)
      \<or> \<not> isOk (fst (nt_submitIntent env others a i w))"
  proof (cases "nt_submitIntent env others a i w")
    case (Pair out w')
    show ?thesis
    proof (cases out)
      case (Inr r)
      then obtain u v where "nw_store u = nw_store w" "submit_work env others i u = (Inr r, v)"
        using Pair submit_run [of env others a i w r w'] by auto
      with work_again(2) [of i u e env others r v] assms Pair Inr show ?thesis by simp
    qed (use Pair in simp)
  qed
qed

text \<open>
  C10: An intent that was accepted stays accepted: whatever happened since, submitting it again, or
  any other intent with the same producer and idempotency key, writes nothing (no notification, no
  mark, no intent) and either returns the first result or is refused.
\<close>

theorem intent_effectively_once:
  assumes "nt_submitIntent env others a i w = (Inr r, w1)" and "w2 = run_all notify_exec cs w1"
    and "it_producer i' = it_producer i" and "it_idempotencyKey i' = it_idempotencyKey i"
    and "nt_submitIntent env' others' a' i' w2 = (out, w3)"
  shows "nw_store w3 = nw_store w2 \<and> (out = Inr r \<or> \<not> isOk out)"
proof -
  obtain e where "intent_is (intentKey (it_producer i) (it_idempotencyKey i)) e (nw_store w1)"
    and "si_result e = r"
    using submit_logs [OF assms(1)] by (auto simp: ns_findIntent_def intent_is_def)
  moreover from this(1) have "ns_findIntent (it_producer i') (it_idempotencyKey i') (nw_store w2) = Some e"
    using intents.center.run_keeps [of _ e w1 cs] assms(2-4)
    by (simp add: ns_findIntent_def intent_is_def)
  ultimately show ?thesis
    using submit_again [of i' w2 e env' others' a'] assms(5) by simp
qed

section \<open>Changes are authorized and audited\<close>

text \<open>
  The log grows only at its end, so a command's own entries are what it adds. A command that was not
  authorized changes nothing.
\<close>

definition attempted_in :: "notify_env \<Rightarrow> notify_audit list \<Rightarrow> notify_audit list \<Rightarrow> bool" where
  "attempted_in env before after \<longleftrightarrow>
     (\<exists>xs. after = before @ xs \<and> (\<exists>x \<in> set xs. nu_phase x = Attempted
        \<and> (\<exists>extra. ne_authorize env (nu_actor x) (nu_operation x) extra = Inr (True, nu_decisionId x))))"

definition attempted_since :: "notify_env \<Rightarrow> notify_audit list \<Rightarrow> notify_world \<Rightarrow> bool" where
  "attempted_since env l w \<longleftrightarrow> attempted_in env l (nw_audit w)"

lemma attempted_more: "attempted_since env l w \<Longrightarrow> attempted_since env l (w\<lparr>nw_audit := nw_audit w @ [a]\<rparr>)"
  by (fastforce simp: attempted_since_def attempted_in_def)

lemma attempted_keeps [keeps]:
  "keepsA (attempted_since env l) (in_store m)"
  "keepsA (attempted_since env l) (from_store f)"
  "keepsA (attempted_since env l) (meanwhile lib ops)"
  "keepsA (attempted_since env l) (nt_audit env' a)"
  "keepsA (attempted_since env l) (nt_finish env' ctx op i e)"
  by (auto simp: keepsA_def in_store_def from_store_def meanwhile_def nt_audit_def nt_finish_def
      attempted_since_def split: prod.split)
    (fastforce simp: attempted_in_def)+

lemma attempted_guarded [keeps]:
  "keepsA (attempted_since env l) work \<Longrightarrow> keepsA (attempted_since env l) (nt_guarded env' ctx op i work)"
  unfolding nt_guarded_def Let_def by (intro keeps)

lemma attempted_finished [keeps]:
  "keepsA (attempted_since env l) work \<Longrightarrow> keepsA (attempted_since env l) (nt_finished env' ctx op f work)"
  unfolding nt_finished_def by (intro keeps)

lemma authorize_attempts:
  assumes "nt_authorize env a op i x w = (Inr ctx, w')"
  shows "attempted_since env (nw_audit w) w'"
  using assms by (auto simp: nt_authorize_def Let_def bindA_eq_Inr nt_audit_def attempted_since_def
      attempted_in_def nt_id_def split: if_splits sum.splits)

text \<open>Either nothing changed in the store, or the change came after an authorization.\<close>

definition rightful :: "notify_env \<Rightarrow> 'a nt_do \<Rightarrow> bool" where
  "rightful env m \<longleftrightarrow> (\<forall>w. nw_store (snd (m w)) = nw_store w
     \<or> attempted_since env (nw_audit w) (snd (m w)))"

named_theorems rightful "rules for actions that change the store only when authorized"

lemma rightful_observe [rightful]: "rightful env m \<Longrightarrow> rightful env (nt_observe op m)"
  unfolding rightful_def attempted_since_def
  by (auto simp: nt_observe_def split: prod.split sum.split) (metis snd_conv)+

lemma rightful_void [rightful]: "rightful env m \<Longrightarrow> rightful env (voidA m)"
  by (simp add: rightful_def)

lemma rightful_lift [rightful]: "(\<And>x. rightful env (f x)) \<Longrightarrow> rightful env (bindA (liftA r) f)"
  by (cases r) (auto simp: rightful_def bindA_def)

lemma rightful_require [rightful]: "(\<And>x. rightful env (f x)) \<Longrightarrow> rightful env (bindA (requireA r e) f)"
  by (cases r) (auto simp: rightful_def bindA_def requireA_def)

lemma rightful_from [rightful]: "(\<And>x. rightful env (f x)) \<Longrightarrow> rightful env (bindA (from_store g) f)"
  by (auto simp: rightful_def bindA_def from_store_def)

lemma rightful_authorize [rightful]:
  assumes "\<And>ctx l. keepsA (attempted_since env l) (f ctx)"
  shows "rightful env (bindA (nt_authorize env a op i x) f)"
  unfolding rightful_def
proof
  fix w
  obtain r u where r: "nt_authorize env a op i x w = (r, u)" by fastforce
  show "nw_store (snd (bindA (nt_authorize env a op i x) f w)) = nw_store w
    \<or> attempted_since env (nw_audit w) (snd (bindA (nt_authorize env a op i x) f w))"
  proof (cases r)
    case (Inl e)
    with r run_store(2) [OF r] show ?thesis by (simp add: bindA_def)
  next
    case (Inr ctx)
    with r assms authorize_attempts [of env a op i x w ctx u] show ?thesis
      by (simp add: bindA_def keepsA_def)
  qed
qed

lemmas center_defs = nt_registerTemplateDefinition_def nt_listTemplateDefinitions_def
  nt_getTemplateAdministration_def nt_saveTemplateDraft_def nt_previewTemplate_def
  nt_publishTemplateDraft_def nt_activateTemplate_def nt_publishTemplate_def nt_submitIntent_def
  nt_get_def nt_list_def nt_unreadCount_def nt_markRead_def nt_archive_def nt_mark_def

lemma accept_attempted [keeps]: "keepsA (attempted_since env l) (accept_new env others i vs fp)"
  unfolding accept_new_def by (intro keeps)

lemma work_attempted [keeps]: "keepsA (attempted_since env l) (submit_work env others i)"
  unfolding submit_work_def by (intro keeps)

lemma context_rightful [rightful]:
  assumes "\<And>ctx d k l. keepsA (attempted_since env l) (f (ctx, d, k))"
  shows "rightful env (bindA (nt_templateContext env a op key) f)"
  unfolding nt_templateContext_def bindA_assoc
  by (intro rightful) (use assms in \<open>auto intro!: keeps\<close>)

lemma read_rightful [rightful]:
  assumes "\<And>n ctx l. keepsA (attempted_since env l) (f (n, ctx))"
  shows "rightful env (bindA (nt_read env a i op) f)"
  unfolding nt_read_def bindA_assoc
  by (intro rightful keepsA_bind attempted_guarded) (use assms in \<open>auto intro!: keeps\<close>)

lemma exec_rightful: "rightful (fst c) (notify_exec c)"
  by (cases c rule: notify_exec.cases) 
    (simp_all only: notify_exec.simps fst_conv center_defs Let_def split_beta, (intro rightful keeps)+)


section \<open>Paging over any run\<close>

lemma rows_ok_run: "rows_ok (nw_store w) \<Longrightarrow> rows_ok (nw_store (run_all notify_exec cs w))"
  by (rule rows.center.run_keeps)

definition empty_notify_world :: notify_world where
  "empty_notify_world = \<lparr>nw_store = emptyNotifyStore, nw_audit = [], nw_observed = []\<rparr>"

lemma rows_ok_start: "rows_ok (nw_store empty_notify_world)"
  by (simp add: rows_ok_def empty_notify_world_def emptyNotifyStore_def)

section \<open>A sample center\<close>

definition sample_notify_lib :: notify_lib where
  "sample_notify_lib = \<lparr>nl_before = str_lt, nl_showNum = (\<lambda>n. show_int (num_int n)),
     nl_sha256 = (\<lambda>s. replicate 64 (CHR ''a'')), nl_mustacheParses = (\<lambda>s. True),
     nl_mustacheRender = (\<lambda>t vs. t), nl_markdown = (\<lambda>s. Some (MdNode ''root'' [])),
     nl_schemaCompiles = (\<lambda>v. True), nl_schemaAccepts = (\<lambda>s v. True)\<rparr>"

definition sample_recipient :: resolved_recipient where
  "sample_recipient = \<lparr>rc_principalId = ''u1'', rc_recipientReference = ''r1'',
     rc_resolutionReference = ''x1'', rc_resolutionVersion = ''1'', rc_workforcePersonId = None\<rparr>"

definition sample_notify_env :: notify_env where
  "sample_notify_env = \<lparr>ne_lib = sample_notify_lib, ne_authorize = (\<lambda>a op x. Inr (True, ''d1'')),
     ne_auditFails = (\<lambda>a. False), ne_resolve = (\<lambda>ss. Inr [sample_recipient]),
     ne_displayName = None, ne_preference = (\<lambda>t r. Inr \<lparr>pa_decision = ''deliver'', pa_reason = ''default'',
       pa_version = ''1''\<rparr>), ne_shanghaiTime = (\<lambda>t. Inr ''t''), ne_now = 0\<rparr>"

definition sample_actor :: notify_actor where
  "sample_actor = \<lparr>na_principalId = ''u1'', na_activeAssignmentIds = None,
     na_selectedAssignmentId = None, na_workforcePersonId = None\<rparr>"

definition sample_release :: template_release where
  "sample_release = \<lparr>tr_templateKey = ''welcome'', tr_version = 1, tr_ownerReference = ''crm'',
     tr_notificationType = ''info'',
     tr_variableSchema = [(''additionalProperties'', JBool False), (''properties'', JObject []),
       (''required'', JArray []), (''type'', JString ''object'')],
     tr_variableCatalogVersion = None, tr_titleTemplate = ''Hello'', tr_summaryTemplate = None,
     tr_bodyTemplate = ''Welcome'', tr_bodyFormat = None, tr_contentDigest = [],
     tr_publishedAt = ''2024-01-01T00:00:00Z''\<rparr>"

definition sample_intent :: intent where
  "sample_intent = \<lparr>it_intentId = ''00000000-0000-4000-8000-000000000001'', it_producer = ''crm'',
     it_idempotencyKey = ''k1'', it_templateKey = ''welcome'', it_kind = IntentV1 (Fin 1),
     it_selectors = [\<lparr>se_selectorType = ''person'', se_referenceId = ''p1''\<rparr>],
     it_variables = JObject [], it_sourceType = ''lead'', it_sourceId = ''1'',
     it_deepLink = \<lparr>dk_applicationId = ''crm'', dk_routeId = ''lead'', dk_resourceType = ''lead'',
       dk_resourceId = ''1'', dk_parameters = None\<rparr>\<rparr>"

definition published_world :: notify_world where
  "published_world = snd (nt_publishTemplate sample_notify_env sample_actor (Fin 1) sample_release
     empty_notify_world)"

definition submitted :: "(notify_failure + intent_result) \<times> notify_world" where
  "submitted = nt_submitIntent sample_notify_env [] sample_actor sample_intent published_world"

lemma submitted_ok: "isOk (fst submitted)"
  by code_simp

lemma submitted_run:
  "nt_submitIntent sample_notify_env [] sample_actor sample_intent published_world
     = (Inr (projr (fst submitted)), snd submitted)"
  using projr_ok [OF submitted_ok] by (simp add: submitted_def prod_eq_iff)

theorem intent_effectively_once_witness:
  "nw_store (snd (nt_submitIntent sample_notify_env [] sample_actor sample_intent (snd submitted)))
     = nw_store (snd submitted)"
  by (rule intent_effectively_once [OF submitted_run _ refl refl prod.collapse [symmetric],
        where cs = "[]", THEN conjunct1]) simp

theorem notification_permanent_witness:
  "\<exists>n. jm_get (ns_notifications (nw_store (run_all notify_exec
       [(sample_notify_env, CmdArchive sample_actor ''aaaaaaaa-aaaa-5aaa-aaaa-aaaaaaaaaaaa'')]
       (snd submitted)))) ''aaaaaaaa-aaaa-5aaa-aaaa-aaaaaaaaaaaa'' = Some n"
proof -
  have "jm_get (ns_notifications (nw_store (snd submitted))) ''aaaaaaaa-aaaa-5aaa-aaaa-aaaaaaaaaaaa'' \<noteq> None"
    by code_simp
  with notification_permanent [of "snd submitted" "''aaaaaaaa-aaaa-5aaa-aaaa-aaaaaaaaaaaa''"]
  show ?thesis by blast
qed


end
