(* ===== verification/Authorization.thy ===== *)
theory Authorization
  imports JsLib
begin

text \<open>
  Fixed-role authorization (\<open>authorization/src/types.ts\<close>, \<open>errors.ts\<close>, \<open>fixed-roles.ts\<close>): the
  reviewed permission bundles, the grant store over its PostgreSQL table, the decision recorder and
  the service. The table's constraints are those of the module's migrations
  (\<open>0000000028\<close>, \<open>0000000035\<close>, \<open>0000000038\<close>). How the database reads a \<open>uuid\<close> or a \<open>timestamptz\<close> parameter
  and how the driver turns a stored time into a \<open>Date\<close> are parameters.
\<close>

section \<open>Types\<close>

datatype fixed_role = Application_user | Crm_administrator | System_administrator

record permission =
  pm_action :: string
  pm_resource :: string
  pm_resourceContext :: "(string \<times> string) list option"

record auth_subject =
  as_activeAssignmentIds :: "string list"
  as_selectedAssignmentId :: "string option"
  as_workforcePersonId :: string

record scope_constraint =
  sc_dimension :: string
  sc_values :: "string list"

datatype scope_term = Scope_all | Scope_match "scope_constraint list"

record data_scope =
  da_terms :: "scope_term list"
  da_version :: int

datatype decision_reason = Reason_allowed | Unknown_permission | No_applicable_grant

record decision =
  dn_allowed :: bool
  dn_decisionId :: string
  dn_evaluatedAt :: string
  dn_reason :: decision_reason

record scope_resolution =
  sr_decision :: decision
  sr_scope :: "data_scope option"

datatype record_operation = Op_batch_check | Op_check | Op_resolve_data_scope

record decision_record =
  dr_action :: string
  dr_allowed :: bool
  dr_decisionId :: string
  dr_evaluatedAt :: string
  dr_operation :: record_operation
  dr_permissionCode :: string
  dr_reason :: decision_reason
  dr_resource :: string
  dr_selectedAssignmentId :: "string option"
  dr_traceId :: string
  dr_workforcePersonId :: string

text \<open>The errors the module throws: the two of \<open>errors.ts\<close> and the two start-up errors.\<close>

datatype auth_failure = Authorization_denied string | Authorization_unavailable
  | Permission_invalid | Permission_unapproved

record grant =
  gr_assignmentId :: "string option"
  gr_grantId :: string
  gr_grantedAt :: string
  gr_roleKey :: fixed_role
  gr_workforcePersonId :: string

section \<open>The permission bundles\<close>

definition perm :: "string \<Rightarrow> string \<Rightarrow> permission" where
  "perm action resource = \<lparr>pm_action = action, pm_resource = resource, pm_resourceContext = None\<rparr>"

definition application_user_bundle :: "permission list" where
  "application_user_bundle = [
     perm ''upload'' ''crm.file-center.file'',
     perm ''download'' ''crm.file-center.file'',
     perm ''read'' ''crm.form-schema.form-release'',
     perm ''validate'' ''crm.form-schema.form-release'',
     perm ''list'' ''crm.notifications.in-app-notification'',
     perm ''read'' ''crm.notifications.in-app-notification'',
     perm ''mark-read'' ''crm.notifications.in-app-notification'',
     perm ''archive'' ''crm.notifications.in-app-notification'',
     perm ''list'' ''crm.task-center.task-projection'',
     perm ''read'' ''crm.task-center.task-projection'',
     perm ''complete'' ''crm.task-center.task-projection'',
     perm ''reconcile'' ''crm.task-center.task-projection'',
     perm ''read'' ''crm.workbench.shell'',
     perm ''access'' ''crm.application'']"

definition crm_administrator_bundle :: "permission list" where
  "crm_administrator_bundle = [
     perm ''upload'' ''crm.file-center.file'',
     perm ''download'' ''crm.file-center.file'',
     perm ''read'' ''crm.form-schema.form-release'',
     perm ''validate'' ''crm.form-schema.form-release'',
     perm ''list'' ''crm.notifications.in-app-notification'',
     perm ''read'' ''crm.notifications.in-app-notification'',
     perm ''mark-read'' ''crm.notifications.in-app-notification'',
     perm ''archive'' ''crm.notifications.in-app-notification'',
     perm ''read'' ''crm.notifications.template'',
     perm ''manage'' ''crm.notifications.template'',
     perm ''publish'' ''crm.notifications.template'',
     perm ''activate'' ''crm.notifications.template'',
     perm ''list'' ''crm.task-center.task-projection'',
     perm ''read'' ''crm.task-center.task-projection'',
     perm ''complete'' ''crm.task-center.task-projection'',
     perm ''reconcile'' ''crm.task-center.task-projection'',
     perm ''read'' ''crm.workbench.shell'',
     perm ''read'' ''crm.workforce-access.console'',
     perm ''manage'' ''crm.workforce-access.console'',
     perm ''access'' ''crm.application'']"

section \<open>The table of grants\<close>

text \<open>
  A row of \<open>authorization_core.fixed_role_grants\<close>: uuids in the database's canonical text, times in
  microseconds since 1970.
\<close>

record grant_row =
  gw_grant_id :: string
  gw_person :: string
  gw_assignment :: "string option"
  gw_role :: fixed_role
  gw_granted_at :: int
  gw_revoked_at :: "int option"
  gw_operation_id :: string

text \<open>
  What PostgreSQL and its driver do with values: \<open>pg_uuid\<close> and \<open>pg_time\<close> read a parameter (or refuse
  it), \<open>pg_date\<close> gives the milliseconds of the \<open>Date\<close> the driver makes of a stored time;
  \<open>js_date\<close> reads the date formats that are the engine's own.
\<close>

record auth_lib =
  pg_uuid :: "string \<Rightarrow> string option"
  pg_time :: "string \<Rightarrow> int option"
  pg_date :: "int \<Rightarrow> int"
  js_date :: "string \<Rightarrow> int option"
  al_sha256 :: "string \<Rightarrow> string"

text \<open>The constraints \<open>scope_check\<close>, \<open>revoked_after_granted\<close>, and the index \<open>active_unique\<close>.\<close>

definition scope_check :: "grant_row \<Rightarrow> bool" where
  "scope_check r = (gw_role r = System_administrator \<longleftrightarrow> gw_assignment r = None)"

definition revoked_check :: "grant_row \<Rightarrow> bool" where
  "revoked_check r = (case gw_revoked_at r of None \<Rightarrow> True | Some t \<Rightarrow> gw_granted_at r \<le> t)"

definition unrevoked :: "grant_row \<Rightarrow> bool" where
  "unrevoked r = (gw_revoked_at r = None)"

definition zero_uuid :: string where
  "zero_uuid = ''00000000-0000-0000-0000-000000000000''"

definition active_slot :: "grant_row \<Rightarrow> string \<times> fixed_role \<times> string" where
  "active_slot r = (gw_person r, gw_role r,
     case gw_assignment r of None \<Rightarrow> zero_uuid | Some a \<Rightarrow> a)"

definition row_conflicts :: "grant_row \<Rightarrow> grant_row \<Rightarrow> bool" where
  "row_conflicts r x = (gw_grant_id x = gw_grant_id r \<or> gw_operation_id x = gw_operation_id r
     \<or> unrevoked x \<and> unrevoked r \<and> active_slot x = active_slot r)"

text \<open>
  The statements of the store, each atomic: \<open>insert .. on conflict do nothing\<close> and the update that
  revokes return the number of rows; \<open>None\<close> is a statement the database refuses.
\<close>

definition sql_insert_grant :: "grant_row \<Rightarrow> grant_row list \<Rightarrow> (nat \<times> grant_row list) option" where
  "sql_insert_grant r t =
     (if \<not> (scope_check r \<and> revoked_check r) then None
      else if list_ex (row_conflicts r) t then Some (0, t) else Some (1, t @ [r]))"

definition sql_revoke_grant :: "string \<Rightarrow> int \<Rightarrow> grant_row list \<Rightarrow> (nat \<times> grant_row list) option" where
  "sql_revoke_grant i revoked t =
     (let hit = (\<lambda>r. gw_grant_id r = i \<and> unrevoked r);
          upd = (\<lambda>r. r\<lparr>gw_revoked_at := Some revoked\<rparr>) in
      if list_all (\<lambda>r. hit r \<longrightarrow> revoked_check (upd r)) t
      then Some (length (filter hit t), map (\<lambda>r. if hit r then upd r else r) t)
      else None)"

definition active_at :: "string \<Rightarrow> int \<Rightarrow> grant_row \<Rightarrow> bool" where
  "active_at person moment r = (gw_person r = person \<and> gw_granted_at r \<le> moment
     \<and> (case gw_revoked_at r of None \<Rightarrow> True | Some t \<Rightarrow> moment < t))"

text \<open>\<open>order by role_key, assignment_id nulls first, grant_id\<close>\<close>

fun role_rank :: "fixed_role \<Rightarrow> nat" where
  "role_rank Application_user = 0"
| "role_rank Crm_administrator = 1"
| "role_rank System_administrator = 2"

definition assignment_lt :: "string option \<Rightarrow> string option \<Rightarrow> bool" where
  "assignment_lt a b = (case (a, b) of
     (None, Some _) \<Rightarrow> True | (Some x, Some y) \<Rightarrow> str_lt x y | _ \<Rightarrow> False)"

definition grant_before :: "grant_row \<Rightarrow> grant_row \<Rightarrow> bool" where
  "grant_before a b =
     (role_rank (gw_role a) < role_rank (gw_role b) \<or> gw_role a = gw_role b \<and>
      (assignment_lt (gw_assignment a) (gw_assignment b) \<or> gw_assignment a = gw_assignment b \<and>
       str_lt (gw_grant_id a) (gw_grant_id b)))"

definition sql_active_grants :: "string \<Rightarrow> int \<Rightarrow> grant_row list \<Rightarrow> grant_row list" where
  "sql_active_grants person moment t = sort_by grant_before (filter (active_at person moment) t)"

section \<open>The world of the module\<close>

text \<open>
  The statements other clients run on the table between two statements of an operation.
\<close>

datatype grant_statement = Insert_grant grant_row | Revoke_grant string int

fun run_statement :: "grant_row list \<Rightarrow> grant_statement \<Rightarrow> grant_row list" where
  "run_statement t (Insert_grant r) = (case sql_insert_grant r t of None \<Rightarrow> t | Some (n, u) \<Rightarrow> u)"
| "run_statement t (Revoke_grant i at_us) =
     (case sql_revoke_grant i at_us t of None \<Rightarrow> t | Some (n, u) \<Rightarrow> u)"

record auth_world =
  aw_grants :: "grant_row list"
  aw_decisions :: "(decision_record \<times> string) list"

text \<open>
  One operation's environment. Statement \<open>n\<close> of the operation fails if \<open>ae_fails n\<close> and finds what
  the others did before it, \<open>ae_others n\<close>; \<open>ae_now\<close> is the clock's time in milliseconds; decision
  \<open>i\<close> of the operation has the id \<open>ae_uuid i\<close> and the trace id \<open>ae_trace i\<close>, and the
  database stores its record if \<open>ae_records i\<close>.
\<close>

record auth_env =
  ae_lib :: auth_lib
  ae_fails :: "nat \<Rightarrow> bool"
  ae_others :: "nat \<Rightarrow> grant_statement list"
  ae_now :: int
  ae_uuid :: "nat \<Rightarrow> string"
  ae_trace :: "nat \<Rightarrow> string"
  ae_records :: "nat \<Rightarrow> bool"

type_synonym 'a auth_act = "(auth_world, auth_failure, 'a) act"

text \<open>
  \<open>database.execute\<close>, with any failure reported as the stores' \<open>catch\<close> clauses report it.
\<close>

definition execute_sql ::
  "auth_env \<Rightarrow> nat \<Rightarrow> (grant_row list \<Rightarrow> ('a \<times> grant_row list) option) \<Rightarrow> 'a auth_act" where
  "execute_sql env n q w =
     (let t = foldl run_statement (aw_grants w) (ae_others env n) in
      if ae_fails env n then (Inl Authorization_unavailable, w\<lparr>aw_grants := t\<rparr>)
      else (case q t of
              None \<Rightarrow> (Inl Authorization_unavailable, w\<lparr>aw_grants := t\<rparr>)
            | Some (x, u) \<Rightarrow> (Inr x, w\<lparr>aw_grants := u\<rparr>)))"

definition read_uuid :: "auth_env \<Rightarrow> string \<Rightarrow> auth_failure + string" where
  "read_uuid env s = (case pg_uuid (ae_lib env) s of
     None \<Rightarrow> Inl Authorization_unavailable | Some u \<Rightarrow> Inr u)"

definition read_uuid_opt :: "auth_env \<Rightarrow> string option \<Rightarrow> auth_failure + string option" where
  "read_uuid_opt env v = (case v of None \<Rightarrow> Inr None | Some s \<Rightarrow> bindE (read_uuid env s) (\<lambda>u. Inr (Some u)))"

definition read_time :: "auth_env \<Rightarrow> string \<Rightarrow> auth_failure + int" where
  "read_time env s = (case pg_time (ae_lib env) s of
     None \<Rightarrow> Inl Authorization_unavailable | Some t \<Rightarrow> Inr t)"

section \<open>The grant store\<close>

record grant_input =
  gi_assignmentId :: "string option"
  gi_grantId :: string
  gi_grantedAt :: string
  gi_operationId :: string
  gi_roleKey :: fixed_role
  gi_workforcePersonId :: string

text \<open>\<open>iso\<close> of a stored time, through the driver's \<open>Date\<close>.\<close>

definition iso_stored :: "auth_env \<Rightarrow> int \<Rightarrow> string" where
  "iso_stored env t = to_iso (pg_date (ae_lib env) t)"

text \<open>The row the insert statement writes, from the text of its parameters.\<close>

definition grant_row_of :: "auth_env \<Rightarrow> grant_input \<Rightarrow> auth_failure + grant_row" where
  "grant_row_of env input =
     bindE (read_uuid env (gi_grantId input)) (\<lambda>g.
     bindE (read_uuid env (gi_workforcePersonId input)) (\<lambda>p.
     bindE (read_uuid_opt env (gi_assignmentId input)) (\<lambda>a.
     bindE (read_time env (gi_grantedAt input)) (\<lambda>t.
     bindE (read_uuid env (gi_operationId input)) (\<lambda>o'.
     Inr \<lparr>gw_grant_id = g, gw_person = p, gw_assignment = a, gw_role = gi_roleKey input,
       gw_granted_at = t, gw_revoked_at = None, gw_operation_id = o'\<rparr>)))))"

text \<open>The stored row is the one an earlier call with the same input wrote.\<close>

definition same_grant :: "auth_env \<Rightarrow> grant_input \<Rightarrow> grant_row \<Rightarrow> bool" where
  "same_grant env input r =
     (gw_grant_id r = gi_grantId input \<and> gw_operation_id r = gi_operationId input \<and>
      gw_person r = gi_workforcePersonId input \<and> gw_assignment r = gi_assignmentId input \<and>
      gw_role r = gi_roleKey input \<and>
      (case date_parse (js_date (ae_lib env)) (gi_grantedAt input) of
         None \<Rightarrow> False | Some t \<Rightarrow> iso_stored env (gw_granted_at r) = to_iso t))"

definition grant_identity :: "grant_row \<Rightarrow> grant_row list \<Rightarrow> grant_row list" where
  "grant_identity r t =
     filter (\<lambda>x. gw_operation_id x = gw_operation_id r \<or> gw_grant_id x = gw_grant_id r) t"

definition grant_existing :: "grant_row \<Rightarrow> grant_row list \<Rightarrow> grant_row list" where
  "grant_existing r t = filter (\<lambda>x. gw_person x = gw_person r \<and> gw_role x = gw_role r \<and>
     gw_assignment x = gw_assignment r \<and> unrevoked x) t"

definition grantRole :: "auth_env \<Rightarrow> grant_input \<Rightarrow> unit auth_act" where
  "grantRole env input =
     bindA (liftA (grant_row_of env input)) (\<lambda>r.
     bindA (execute_sql env 0 (sql_insert_grant r)) (\<lambda>inserted.
     if inserted = 1 then retA ()
     else bindA (execute_sql env 1 (\<lambda>t. Some (grant_identity r t, t))) (\<lambda>rows.
       if rows \<noteq> [] then
         (case rows of
            [row] \<Rightarrow> ensureA (same_grant env input row) Authorization_unavailable
          | _ \<Rightarrow> throwA Authorization_unavailable)
       else bindA (execute_sql env 2 (\<lambda>t. Some (grant_existing r t, t))) (\<lambda>existing.
         ensureA (existing \<noteq> []) Authorization_unavailable))))"

definition grant_of_row :: "auth_env \<Rightarrow> grant_row \<Rightarrow> grant" where
  "grant_of_row env r = \<lparr>gr_assignmentId = gw_assignment r, gr_grantId = gw_grant_id r,
     gr_grantedAt = iso_stored env (gw_granted_at r), gr_roleKey = gw_role r,
     gr_workforcePersonId = gw_person r\<rparr>"

definition listActive :: "auth_env \<Rightarrow> string \<Rightarrow> string \<Rightarrow> grant list auth_act" where
  "listActive env person moment =
     bindA (liftA (read_uuid env person)) (\<lambda>p.
     bindA (liftA (read_time env moment)) (\<lambda>t.
     bindA (execute_sql env 0 (\<lambda>g. Some (sql_active_grants p t g, g))) (\<lambda>rows.
     retA (map (grant_of_row env) rows))))"

definition revokeGrant :: "auth_env \<Rightarrow> string \<Rightarrow> string \<Rightarrow> unit auth_act" where
  "revokeGrant env grantId revokedAt =
     bindA (liftA (read_uuid env grantId)) (\<lambda>g.
     bindA (liftA (read_time env revokedAt)) (\<lambda>t.
     bindA (execute_sql env 0 (sql_revoke_grant g t)) (\<lambda>n.
     ensureA (n = 1) (Authorization_denied (ae_uuid env 0)))))"

section \<open>The decision recorder\<close>

fun reason_name :: "decision_reason \<Rightarrow> string" where
  "reason_name Reason_allowed = ''allowed''"
| "reason_name Unknown_permission = ''unknown_permission''"
| "reason_name No_applicable_grant = ''no_applicable_grant''"

fun operation_name :: "record_operation \<Rightarrow> string" where
  "operation_name Op_batch_check = ''batch_check''"
| "operation_name Op_check = ''check''"
| "operation_name Op_resolve_data_scope = ''resolve_data_scope''"

definition policyVersion :: string where
  "policyVersion = ''fixed-roles.v1''"

definition record_json :: "decision_record \<Rightarrow> json" where
  "record_json r = J_obj (
     [(''action'', J_str (dr_action r)), (''allowed'', J_bool (dr_allowed r)),
      (''decisionId'', J_str (dr_decisionId r)), (''evaluatedAt'', J_str (dr_evaluatedAt r)),
      (''operation'', J_str (operation_name (dr_operation r))),
      (''permissionCode'', J_str (dr_permissionCode r)), (''policyVersion'', J_str policyVersion),
      (''reason'', J_str (reason_name (dr_reason r))), (''resource'', J_str (dr_resource r))]
     @ j_opt ''selectedAssignmentId'' (dr_selectedAssignmentId r)
     @ [(''traceId'', J_str (dr_traceId r)), (''workforcePersonId'', J_str (dr_workforcePersonId r))])"

definition recordDecision :: "auth_env \<Rightarrow> nat \<Rightarrow> decision_record \<Rightarrow> unit auth_act" where
  "recordDecision env i r =
     bindA (ensureA (ae_records env i) Authorization_unavailable) (\<lambda>_.
     modifyA (\<lambda>w. w\<lparr>aw_decisions :=
       aw_decisions w @ [(r, al_sha256 (ae_lib env) (stringify (record_json r)))]\<rparr>))"

section \<open>The service\<close>

record auth_options =
  ao_approvedPermissions :: "permission list"
  ao_application_user :: "permission list"
  ao_crm_administrator :: "permission list"
  ao_recorder :: bool

definition permissionKey :: "permission \<Rightarrow> string" where
  "permissionKey p = pm_resource p @ '':'' @ pm_action p"

definition validatePermission :: "permission \<Rightarrow> auth_failure + unit" where
  "validatePermission p = ensure (pm_resource p \<noteq> [] \<and> pm_action p \<noteq> [] \<and>
     CHR ''*'' \<notin> set (pm_resource p) \<and> CHR ''*'' \<notin> set (pm_action p)) Permission_invalid"

record auth_service =
  sv_approved :: "string list"
  sv_application :: "string list"
  sv_crmAdministrator :: "string list"
  sv_recorder :: bool

definition validate_role_permission :: "auth_options \<Rightarrow> permission \<Rightarrow> auth_failure + unit" where
  "validate_role_permission options p =
     bindE (validatePermission p) (\<lambda>_.
     ensure (list_ex (\<lambda>approved. permissionKey approved = permissionKey p)
       (ao_approvedPermissions options)) Permission_unapproved)"

definition createFixedRoleAuthorizationService :: "auth_options \<Rightarrow> auth_failure + auth_service" where
  "createFixedRoleAuthorizationService options =
     bindE (mapE validatePermission (ao_approvedPermissions options)) (\<lambda>_.
     bindE (mapE (validate_role_permission options)
       (ao_application_user options @ ao_crm_administrator options)) (\<lambda>_.
     Inr \<lparr>sv_approved = map permissionKey (ao_approvedPermissions options),
       sv_application = map permissionKey (ao_application_user options),
       sv_crmAdministrator = map permissionKey (ao_crm_administrator options),
       sv_recorder = ao_recorder options\<rparr>))"

definition grant_applicable :: "auth_subject \<Rightarrow> grant \<Rightarrow> bool" where
  "grant_applicable subject g =
     (gr_roleKey g = System_administrator \<or>
      (case gr_assignmentId g of
         None \<Rightarrow> False
       | Some a \<Rightarrow> as_selectedAssignmentId subject = Some a \<and>
           a \<in> set (as_activeAssignmentIds subject)))"

definition grant_permits :: "auth_service \<Rightarrow> string \<Rightarrow> grant \<Rightarrow> bool" where
  "grant_permits sv key g =
     (gr_roleKey g = System_administrator \<or>
      gr_roleKey g = Application_user \<and> key \<in> set (sv_application sv) \<or>
      gr_roleKey g = Crm_administrator \<and> key \<in> set (sv_crmAdministrator sv))"

definition decide :: "auth_service \<Rightarrow> auth_subject \<Rightarrow> string \<Rightarrow> grant list \<Rightarrow> bool \<times> decision_reason" where
  "decide sv subject key grants =
     (if key \<in> set (sv_approved sv) then
        (let allowed = list_ex (grant_permits sv key) (filter (grant_applicable subject) grants) in
         (allowed, if allowed then Reason_allowed else No_applicable_grant))
      else (False, Unknown_permission))"

definition decision_record_of ::
  "auth_env \<Rightarrow> nat \<Rightarrow> record_operation \<Rightarrow> auth_subject \<Rightarrow> permission \<Rightarrow> decision \<Rightarrow> decision_record" where
  "decision_record_of env i operation subject request d =
     \<lparr>dr_action = pm_action request, dr_allowed = dn_allowed d, dr_decisionId = dn_decisionId d,
      dr_evaluatedAt = dn_evaluatedAt d, dr_operation = operation,
      dr_permissionCode = permissionKey request, dr_reason = dn_reason d,
      dr_resource = pm_resource request,
      dr_selectedAssignmentId = as_selectedAssignmentId subject, dr_traceId = ae_trace env i,
      dr_workforcePersonId = as_workforcePersonId subject\<rparr>"

definition auth_evaluate ::
  "auth_service \<Rightarrow> auth_env \<Rightarrow> nat \<Rightarrow> auth_subject \<Rightarrow> permission \<Rightarrow> record_operation \<Rightarrow>
   grant list option \<Rightarrow> string \<Rightarrow> (decision \<times> grant list) auth_act" where
  "auth_evaluate sv env i subject request operation snapshot evaluatedAt =
     bindA (case snapshot of
              Some gs \<Rightarrow> retA gs
            | None \<Rightarrow> if permissionKey request \<in> set (sv_approved sv)
                      then listActive env (as_workforcePersonId subject) evaluatedAt else retA []) (\<lambda>grants.
     let outcome = decide sv subject (permissionKey request) grants;
         d = \<lparr>dn_allowed = fst outcome, dn_decisionId = ae_uuid env i,
              dn_evaluatedAt = evaluatedAt, dn_reason = snd outcome\<rparr> in
     bindA (if sv_recorder sv
            then recordDecision env i (decision_record_of env i operation subject request d)
            else retA ()) (\<lambda>_.
     retA (d, grants)))"

definition auth_check :: "auth_service \<Rightarrow> auth_env \<Rightarrow> auth_subject \<Rightarrow> permission \<Rightarrow> decision auth_act" where
  "auth_check sv env subject request =
     bindA (auth_evaluate sv env 0 subject request Op_check None (to_iso (ae_now env)))
       (\<lambda>r. retA (fst r))"

definition requireAllowed :: "auth_service \<Rightarrow> auth_env \<Rightarrow> auth_subject \<Rightarrow> permission \<Rightarrow> decision auth_act" where
  "requireAllowed sv env subject request =
     bindA (auth_evaluate sv env 0 subject request Op_check None (to_iso (ae_now env))) (\<lambda>r.
     if dn_allowed (fst r) then retA (fst r)
     else throwA (Authorization_denied (dn_decisionId (fst r))))"

text \<open>\<open>Promise.all\<close> over work that is started in order: all of it runs, the first failure is thrown.\<close>

fun promise_all :: "('s, 'e, 'a) act list \<Rightarrow> ('s, 'e, 'a list) act" where
  "promise_all [] s = (Inr [], s)"
| "promise_all (m # ms) s =
     (case m s of (r, t) \<Rightarrow> (case promise_all ms t of (rs, u) \<Rightarrow>
        (bindE r (\<lambda>x. bindE rs (\<lambda>xs. Inr (x # xs))), u)))"

definition batch_item ::
  "auth_service \<Rightarrow> auth_env \<Rightarrow> auth_subject \<Rightarrow> grant list \<Rightarrow> string \<Rightarrow> nat \<times> permission \<Rightarrow> decision auth_act" where
  "batch_item sv env subject grants evaluatedAt item =
     bindA (auth_evaluate sv env (fst item) subject (snd item) Op_batch_check (Some grants) evaluatedAt)
       (\<lambda>r. retA (fst r))"

definition batchCheck ::
  "auth_service \<Rightarrow> auth_env \<Rightarrow> auth_subject \<Rightarrow> permission list \<Rightarrow> decision list auth_act" where
  "batchCheck sv env subject requests =
     (let evaluatedAt = to_iso (ae_now env) in
      bindA (if list_ex (\<lambda>r. permissionKey r \<in> set (sv_approved sv)) requests
             then listActive env (as_workforcePersonId subject) evaluatedAt else retA []) (\<lambda>grants.
      promise_all (map (batch_item sv env subject grants evaluatedAt) (enumerate 0 requests))))"

definition scope_of :: "auth_subject \<Rightarrow> grant list \<Rightarrow> decision \<Rightarrow> scope_resolution" where
  "scope_of subject grants d =
     (if \<not> dn_allowed d then \<lparr>sr_decision = d, sr_scope = None\<rparr>
      else let systemAdministrator = list_ex (\<lambda>g. gr_roleKey g = System_administrator) grants in
        \<lparr>sr_decision = d, sr_scope = Some \<lparr>da_terms =
          (if systemAdministrator then [Scope_all]
           else [Scope_match [\<lparr>sc_dimension = ''assignmentId'',
             sc_values = (case as_selectedAssignmentId subject of None \<Rightarrow> [] | Some a \<Rightarrow> [a])\<rparr>]]),
          da_version = 1\<rparr>\<rparr>)"

definition resolveDataScope ::
  "auth_service \<Rightarrow> auth_env \<Rightarrow> auth_subject \<Rightarrow> permission \<Rightarrow> scope_resolution auth_act" where
  "resolveDataScope sv env subject request =
     (let evaluatedAt = to_iso (ae_now env) in
      bindA (if permissionKey request \<in> set (sv_approved sv)
             then listActive env (as_workforcePersonId subject) evaluatedAt else retA []) (\<lambda>grants.
      bindA (auth_evaluate sv env 0 subject request Op_resolve_data_scope (Some grants) evaluatedAt) (\<lambda>r.
      retA (scope_of subject grants (fst r)))))"

end
