(* ===== verification/AuthProps.thy ===== *)
theory AuthProps
  imports Authorization
begin

text \<open>
  What the fixed-role module promises: the table of grants stays well formed and keeps its history
  under any commands and any other clients' statements; the service allows a permission exactly
  when the table holds an active grant for it, alone or in a batch; a data scope is never wider
  than the grants it comes from; a revocation is final.
\<close>

section \<open>The table's invariant\<close>

text \<open>
  Grant and operation ids are unique, at most one unrevoked grant exists per person, role and
  assignment, and every row satisfies the table's checks.
\<close>

definition grants_ok :: "grant_row list \<Rightarrow> bool" where
  "grants_ok t \<longleftrightarrow> distinct (map gw_grant_id t) \<and> distinct (map gw_operation_id t)
     \<and> distinct (map active_slot (filter unrevoked t))
     \<and> (\<forall>r \<in> set t. scope_check r \<and> revoked_check r)"

lemma insert_grants_ok: "sql_insert_grant r t = Some (n, u) \<Longrightarrow> grants_ok t \<Longrightarrow> grants_ok u"
  by (fastforce simp: sql_insert_grant_def grants_ok_def list_ex_iff row_conflicts_def
      split: if_splits)

lemma revoke_slots:
  assumes "distinct (map active_slot (filter unrevoked t))" and "\<And>r. \<not> unrevoked (upd r)"
  shows "distinct (map active_slot (filter unrevoked (map (\<lambda>r. if hit r then upd r else r) t)))"
proof -
  have "filter unrevoked (map (\<lambda>r. if hit r then upd r else r) t)
      = filter (\<lambda>r. \<not> hit r) (filter unrevoked t)"
    using assms(2) by (induction t) auto
  then show ?thesis using distinct_map_filter [OF assms(1)] by simp
qed

lemma revoke_grants_ok:
  assumes "sql_revoke_grant i m t = Some (n, u)" and "grants_ok t"
  shows "grants_ok u"
proof -
  let ?hit = "\<lambda>r. gw_grant_id r = i \<and> unrevoked r"
  let ?upd = "\<lambda>r. r\<lparr>gw_revoked_at := Some m\<rparr>"
  have u: "u = map (\<lambda>r. if ?hit r then ?upd r else r) t"
    and checked: "list_all (\<lambda>r. ?hit r \<longrightarrow> revoked_check (?upd r)) t"
    using assms(1) by (auto simp: sql_revoke_grant_def Let_def split: if_splits)
  have ids: "map gw_grant_id u = map gw_grant_id t" "map gw_operation_id u = map gw_operation_id t"
    unfolding u by simp_all
  have slots: "distinct (map active_slot (filter unrevoked u))"
    unfolding u using assms(2) by (intro revoke_slots) (auto simp: grants_ok_def unrevoked_def)
  have "\<forall>r \<in> set u. scope_check r \<and> revoked_check r"
    using assms(2) checked unfolding u grants_ok_def by (auto simp: list_all_iff scope_check_def)
  with ids slots assms(2) show ?thesis unfolding grants_ok_def by simp
qed

text \<open>A row is never removed, and a revoked one is never changed.\<close>

lemma insert_row_stays: "sql_insert_grant x t = Some (n, u) \<Longrightarrow> r \<in> set t \<Longrightarrow> r \<in> set u"
  by (auto simp: sql_insert_grant_def split: if_splits)

lemma revoke_row_stays:
  "sql_revoke_grant i m t = Some (n, u) \<Longrightarrow> \<not> unrevoked r \<Longrightarrow> r \<in> set t \<Longrightarrow> r \<in> set u"
  by (auto simp: sql_revoke_grant_def Let_def image_iff split: if_splits)

section \<open>A fact of the table that every statement keeps\<close>

text \<open>
  The module's commands. A fact of the table that the two writing statements keep holds through
  every run of commands, whatever statements other clients run between.
\<close>

datatype auth_command =
    Cmd_grant grant_input
  | Cmd_list string string
  | Cmd_revoke string string
  | Cmd_check auth_subject permission
  | Cmd_require auth_subject permission
  | Cmd_batch auth_subject "permission list"
  | Cmd_scope auth_subject permission

fun auth_exec :: "auth_service \<Rightarrow> auth_env \<times> auth_command \<Rightarrow> unit auth_act" where
  "auth_exec sv (env, Cmd_grant input) = grantRole env input"
| "auth_exec sv (env, Cmd_list p m) = voidA (listActive env p m)"
| "auth_exec sv (env, Cmd_revoke g m) = revokeGrant env g m"
| "auth_exec sv (env, Cmd_check s p) = voidA (auth_check sv env s p)"
| "auth_exec sv (env, Cmd_require s p) = voidA (requireAllowed sv env s p)"
| "auth_exec sv (env, Cmd_batch s ps) = voidA (batchCheck sv env s ps)"
| "auth_exec sv (env, Cmd_scope s p) = voidA (resolveDataScope sv env s p)"

locale grant_fact =
  fixes fact :: "grant_row list \<Rightarrow> bool"
  assumes insert_keeps: "sql_insert_grant r t = Some (n, u) \<Longrightarrow> fact t \<Longrightarrow> fact u"
    and revoke_keeps: "sql_revoke_grant i m t = Some (n, u) \<Longrightarrow> fact t \<Longrightarrow> fact u"
begin

definition holds :: "auth_world \<Rightarrow> bool" where
  "holds w = fact (aw_grants w)"

lemma statement_keeps: "fact t \<Longrightarrow> fact (run_statement t c)"
  by (cases c) (auto split: option.split intro: insert_keeps revoke_keeps)

lemma statements_keep: "fact t \<Longrightarrow> fact (foldl run_statement t cs)"
  by (induction cs arbitrary: t) (auto intro: statement_keeps)

lemma execute_keeps:
  "(\<And>t x u. q t = Some (x, u) \<Longrightarrow> fact t \<Longrightarrow> fact u) \<Longrightarrow> keepsA holds (execute_sql env n q)"
  by (auto simp: keepsA_def execute_sql_def holds_def Let_def statements_keep split: option.split)

lemma store_keeps [keeps]:
  "keepsA holds (execute_sql env n (sql_insert_grant r))"
  "keepsA holds (execute_sql env n (sql_revoke_grant i m))"
  "keepsA holds (execute_sql env n (\<lambda>t. Some (f t, t)))"
  by (auto intro!: execute_keeps intro: insert_keeps revoke_keeps)

lemma list_keeps [keeps]: "keepsA holds (listActive env p m)"
  unfolding listActive_def by (intro keeps)

lemma record_keeps [keeps]: "keepsA holds (recordDecision env i r)"
  unfolding recordDecision_def by (intro keeps) (simp add: keepsA_def holds_def)

lemma evaluate_keeps [keeps]: "keepsA holds (auth_evaluate sv env i s p op snap m)"
  unfolding auth_evaluate_def by (intro keeps)

lemma all_keeps: "(\<And>m. m \<in> set ms \<Longrightarrow> keepsA holds m) \<Longrightarrow> keepsA holds (promise_all ms)"
proof (induction ms)
  case (Cons m ms)
  then have "keepsA holds m" "keepsA holds (promise_all ms)" by simp_all
  then show ?case by (fastforce simp: keepsA_def split: prod.split)
qed (simp add: keepsA_def)

lemma command_keeps:
  "keepsA holds (grantRole env input)" "keepsA holds (revokeGrant env g m)"
  "keepsA holds (auth_check sv env s p)" "keepsA holds (requireAllowed sv env s p)"
  "keepsA holds (batchCheck sv env s ps)" "keepsA holds (resolveDataScope sv env s p)"
  unfolding grantRole_def revokeGrant_def auth_check_def requireAllowed_def batchCheck_def
    resolveDataScope_def
  by (auto simp: batch_item_def intro!: keeps all_keeps split: list.split)

lemma exec_keeps: "keepsA holds (auth_exec sv c)"
  by (cases "(sv, c)" rule: auth_exec.cases)
    (auto intro: keepsA_voidA command_keeps list_keeps)

end

sublocale grant_fact < grants: guarded_machine "auth_exec sv" holds for sv
  by unfold_locales (rule keepsA_D [OF exec_keeps])

interpretation table: grant_fact grants_ok
  by unfold_locales (auto intro: insert_grants_ok revoke_grants_ok)

text \<open>
  Whatever commands run, whatever statements other clients run between theirs, and whichever of
  them fail: grant and operation ids stay unique, no person ever has two unrevoked grants of one role
  on one assignment, global grants are system administrators' only, and no grant is revoked before
  it was given.
\<close>

theorem one_active_grant: "grants_ok (aw_grants (run_all (auth_exec sv) cs \<lparr>aw_grants = [], aw_decisions = ds\<rparr>))"
  using table.grants.run_keeps [of "\<lparr>aw_grants = [], aw_decisions = ds\<rparr>" sv cs]
  by (simp add: table.holds_def grants_ok_def)

section \<open>A revocation is final\<close>

definition revoked_row :: "grant_row \<Rightarrow> grant_row list \<Rightarrow> bool" where
  "revoked_row r t \<longleftrightarrow> grants_ok t \<and> \<not> unrevoked r \<and> r \<in> set t"

interpretation revoked: grant_fact "revoked_row r" for r
  by unfold_locales
    (auto simp: revoked_row_def intro: insert_grants_ok revoke_grants_ok
      dest: insert_row_stays revoke_row_stays)

lemma revoke_hits:
  assumes "sql_revoke_grant i m t = Some (1, u)"
  shows "\<exists>r \<in> set u. gw_grant_id r = i \<and> gw_revoked_at r = Some m"
proof -
  have "filter (\<lambda>r. gw_grant_id r = i \<and> unrevoked r) t \<noteq> []"
    using assms by (auto simp: sql_revoke_grant_def Let_def split: if_splits)
  then obtain r where "r \<in> set t" "gw_grant_id r = i" "unrevoked r"
    unfolding filter_empty_conv by blast
  moreover have "u = map (\<lambda>r. if gw_grant_id r = i \<and> unrevoked r then r\<lparr>gw_revoked_at := Some m\<rparr> else r) t"
    using assms by (auto simp: sql_revoke_grant_def Let_def split: if_splits)
  ultimately have "r\<lparr>gw_revoked_at := Some m\<rparr> \<in> set u"
    by (auto intro!: image_eqI [of _ _ r])
  with \<open>gw_grant_id r = i\<close> show ?thesis
    by (intro bexI [of _ "r\<lparr>gw_revoked_at := Some m\<rparr>"]) simp_all
qed

lemma grant_id_row:
  "grants_ok t \<Longrightarrow> r \<in> set t \<Longrightarrow> x \<in> set t \<Longrightarrow> gw_grant_id x = gw_grant_id r \<Longrightarrow> x = r"
  by (auto simp: grants_ok_def distinct_map dest: inj_onD)

lemma revoked_at_once:
  assumes "revokeGrant env g m w = (Inr (), w')" and "grants_ok (aw_grants w)"
    and "pg_uuid (ae_lib env) g = Some i" and "pg_time (ae_lib env) m = Some t"
  shows "\<exists>r. revoked_row r (aw_grants w') \<and> gw_grant_id r = i \<and> gw_revoked_at r = Some t"
proof -
  have "execute_sql env 0 (sql_revoke_grant i t) w = (Inr 1, w')"
    using assms by (auto simp: revokeGrant_def bindA_eq_Inr read_uuid_def read_time_def split: option.splits)
  then obtain u where u: "sql_revoke_grant i t (foldl run_statement (aw_grants w) (ae_others env 0)) = Some (1, u)"
    and w': "aw_grants w' = u"
    by (auto simp: execute_sql_def Let_def split: if_splits option.splits)
  have "grants_ok u"
    using u table.statements_keep [OF assms(2)] revoke_grants_ok by blast
  with revoke_hits [OF u] w' show ?thesis by (auto simp: revoked_row_def unrevoked_def)
qed

text \<open>
  C12: A grant that was revoked is never active again from the time of its revocation on, whatever
  commands and foreign statements follow (a new grant has another id).
\<close>

theorem revocation_final:
  assumes "revokeGrant env g m w = (Inr (), w')" and "grants_ok (aw_grants w)"
    and "pg_uuid (ae_lib env) g = Some i" and "pg_time (ae_lib env) m = Some t"
    and "r \<in> set (aw_grants (run_all (auth_exec sv) cs w'))" and "gw_grant_id r = i" and "t \<le> moment"
  shows "\<not> active_at person moment r"
proof -
  obtain x where x: "revoked_row x (aw_grants w')" "gw_grant_id x = i" "gw_revoked_at x = Some t"
    using revoked_at_once [OF assms(1-4)] by blast
  then have "revoked_row x (aw_grants (run_all (auth_exec sv) cs w'))"
    using revoked.grants.run_keeps [of x w' sv cs] by (simp add: revoked.holds_def)
  then have "r = x" using grant_id_row assms(5,6) x(2) by (auto simp: revoked_row_def)
  then show ?thesis using x(3) assms(7) by (simp add: active_at_def)
qed

section \<open>Decisions against the table\<close>

text \<open>
  What a permission means, in terms of the rows alone: an active row of the person gives it, either
  as system administrator or by the bundle of its role on the assignment the subject works under.
\<close>

definition bundle_of :: "auth_options \<Rightarrow> fixed_role \<Rightarrow> permission list" where
  "bundle_of options role = (case role of
     Application_user \<Rightarrow> ao_application_user options
   | Crm_administrator \<Rightarrow> ao_crm_administrator options
   | System_administrator \<Rightarrow> ao_approvedPermissions options)"

definition row_gives :: "auth_options \<Rightarrow> auth_subject \<Rightarrow> permission \<Rightarrow> grant_row \<Rightarrow> bool" where
  "row_gives options subject request r \<longleftrightarrow>
     gw_role r = System_administrator \<or>
     (\<exists>a. gw_assignment r = Some a \<and> as_selectedAssignmentId subject = Some a
        \<and> a \<in> set (as_activeAssignmentIds subject)
        \<and> permissionKey request \<in> permissionKey ` set (bundle_of options (gw_role r)))"

definition permission_granted ::
  "auth_options \<Rightarrow> auth_subject \<Rightarrow> permission \<Rightarrow> string \<Rightarrow> int \<Rightarrow> grant_row list \<Rightarrow> bool" where
  "permission_granted options subject request person moment t \<longleftrightarrow>
     permissionKey request \<in> permissionKey ` set (ao_approvedPermissions options) \<and>
     (\<exists>r \<in> set t. active_at person moment r \<and> row_gives options subject request r)"

text \<open>The rows a statement of the operation sees, and what was read from the parameters.\<close>

definition rows_seen :: "auth_env \<Rightarrow> auth_world \<Rightarrow> grant_row list" where
  "rows_seen env w = foldl run_statement (aw_grants w) (ae_others env 0)"

definition granted_now ::
  "auth_options \<Rightarrow> auth_env \<Rightarrow> auth_subject \<Rightarrow> permission \<Rightarrow> auth_world \<Rightarrow> bool" where
  "granted_now options env subject request w \<longleftrightarrow>
     (\<exists>person moment. pg_uuid (ae_lib env) (as_workforcePersonId subject) = Some person
        \<and> pg_time (ae_lib env) (to_iso (ae_now env)) = Some moment
        \<and> permission_granted options subject request person moment (rows_seen env w))"

lemma created_service:
  "createFixedRoleAuthorizationService options = Inr sv \<Longrightarrow>
     sv = \<lparr>sv_approved = map permissionKey (ao_approvedPermissions options),
       sv_application = map permissionKey (ao_application_user options),
       sv_crmAdministrator = map permissionKey (ao_crm_administrator options),
       sv_recorder = ao_recorder options\<rparr>"
  by (auto simp: createFixedRoleAuthorizationService_def bindE_eq_Inr)

lemma listActive_Inr:
  "listActive env p m w = (Inr gs, w') \<Longrightarrow> \<exists>person moment. pg_uuid (ae_lib env) p = Some person
     \<and> pg_time (ae_lib env) m = Some moment
     \<and> gs = map (grant_of_row env) (sql_active_grants person moment (rows_seen env w))
     \<and> aw_decisions w' = aw_decisions w"
  by (auto simp: listActive_def bindA_eq_Inr read_uuid_def read_time_def execute_sql_def Let_def
      rows_seen_def split: option.splits if_splits)

lemma decide_rows:
  assumes "createFixedRoleAuthorizationService options = Inr sv"
  shows "fst (decide sv subject (permissionKey request)
        (map (grant_of_row env) (sql_active_grants person moment t)))
      \<longleftrightarrow> permission_granted options subject request person moment t"
proof -
  have row: "grant_applicable subject (grant_of_row env r) \<and> grant_permits sv (permissionKey request) (grant_of_row env r)
      \<longleftrightarrow> row_gives options subject request r"
    if "permissionKey request \<in> permissionKey ` set (ao_approvedPermissions options)" for r
    using that created_service [OF assms]
    by (cases "gw_role r")
      (auto simp: grant_applicable_def grant_permits_def grant_of_row_def row_gives_def bundle_of_def
        split: option.splits)
  then show ?thesis
    using created_service [OF assms]
    by (auto simp: decide_def Let_def permission_granted_def list_ex_iff sql_active_grants_def)
qed

lemma decide_unapproved:
  "createFixedRoleAuthorizationService options = Inr sv \<Longrightarrow>
     permissionKey request \<notin> set (sv_approved sv) \<Longrightarrow>
     \<not> fst (decide sv subject (permissionKey request) gs)
     \<and> \<not> permission_granted options subject request person moment t"
  by (drule created_service) (auto simp: decide_def permission_granted_def)

lemma listActive_decisions: "listActive env p m w = (Inr gs, w') \<Longrightarrow> aw_decisions w' = aw_decisions w"
  by (auto dest: listActive_Inr)

lemma evaluate_Inr:
  assumes "auth_evaluate sv env i subject request op snap m w = (Inr (d, gs), w')"
  shows "dn_allowed d = fst (decide sv subject (permissionKey request) gs)
    \<and> dn_evaluatedAt d = m \<and> dn_decisionId d = ae_uuid env i
    \<and> (snap = None \<longrightarrow> permissionKey request \<in> set (sv_approved sv) \<longrightarrow>
         (\<exists>v. listActive env (as_workforcePersonId subject) m w = (Inr gs, v)))
    \<and> (\<forall>g. snap = Some g \<longrightarrow> gs = g)
    \<and> map fst (aw_decisions w') = map fst (aw_decisions w) @
        (if sv_recorder sv then [decision_record_of env i op subject request d] else [])"
  using assms
  by (auto simp: auth_evaluate_def bindA_eq_Inr Let_def recordDecision_def split: option.splits if_splits
      dest: listActive_decisions)

lemma evaluate_same:
  "auth_evaluate sv env i subject request op (Some g) m w = (Inr (d, gs), w') \<Longrightarrow> gs = g"
  by (drule evaluate_Inr) simp

lemma granted_not_approved:
  "createFixedRoleAuthorizationService options = Inr sv \<Longrightarrow>
    permissionKey request \<notin> set (sv_approved sv) \<Longrightarrow> \<not> granted_now options env subject request w"
  by (auto simp: granted_now_def dest: decide_unapproved)

lemma decide_now:
  assumes "createFixedRoleAuthorizationService options = Inr sv"
    and "permissionKey request \<in> set (sv_approved sv) \<Longrightarrow>
      \<exists>v. listActive env (as_workforcePersonId subject) (to_iso (ae_now env)) w = (Inr gs, v)"
  shows "fst (decide sv subject (permissionKey request) gs) \<longleftrightarrow> granted_now options env subject request w"
proof (cases "permissionKey request \<in> set (sv_approved sv)")
  case True
  with assms(2) obtain v where "listActive env (as_workforcePersonId subject) (to_iso (ae_now env)) w = (Inr gs, v)"
    by blast
  from listActive_Inr [OF this] show ?thesis
    using decide_rows [OF assms(1)] by (auto simp: granted_now_def)
next
  case False
  then show ?thesis
    using decide_unapproved [OF assms(1) False] granted_not_approved [OF assms(1) False] by blast
qed

text \<open>
  C2: A check allows a permission exactly when the permission is approved and some row of the table
  that is active at the moment of the check gives it: a system administrator's grant, or a grant on
  the assignment the subject selected and still holds, whose role's bundle has the permission. The
  decision is recorded before it is returned.
\<close>

theorem check_iff_granted:
  assumes "createFixedRoleAuthorizationService options = Inr sv"
    and "auth_check sv env subject request w = (Inr d, w')"
  shows "(dn_allowed d \<longleftrightarrow> granted_now options env subject request w)
    \<and> (ao_recorder options \<longrightarrow> map fst (aw_decisions w') =
         map fst (aw_decisions w) @ [decision_record_of env 0 Op_check subject request d])"
proof -
  obtain gs where e: "auth_evaluate sv env 0 subject request Op_check None (to_iso (ae_now env)) w = (Inr (d, gs), w')"
    using assms(2) by (auto simp: auth_check_def bindA_eq_Inr)
  have "sv_recorder sv = ao_recorder options" using created_service [OF assms(1)] by simp
  with evaluate_Inr [OF e] decide_now [OF assms(1), of request env subject w gs] show ?thesis by auto
qed

lemma batch_item_Inr:
  "batch_item sv env subject gs m (n, request) w = (Inr d, u) \<longleftrightarrow>
     (\<exists>gs'. auth_evaluate sv env n subject request Op_batch_check (Some gs) m w = (Inr (d, gs'), u))"
  by (auto simp: batch_item_def bindA_eq_Inr)

lemma batch_run:
  assumes "promise_all (map (batch_item sv env subject gs m) (enumerate n requests)) w = (Inr ds, w')"
  shows "map dn_allowed ds = map (\<lambda>r. fst (decide sv subject (permissionKey r) gs)) requests
    \<and> map fst (aw_decisions w') = map fst (aw_decisions w) @ (if sv_recorder sv
        then map (\<lambda>((i, r), d). decision_record_of env i Op_batch_check subject r d) (zip (enumerate n requests) ds)
        else [])"
  using assms
proof (induction requests arbitrary: n w ds)
  case (Cons request requests)
  then obtain d gs' u ds' where
    e: "auth_evaluate sv env n subject request Op_batch_check (Some gs) m w = (Inr (d, gs'), u)" and
    rest: "promise_all (map (batch_item sv env subject gs m) (enumerate (Suc n) requests)) u = (Inr ds', w')" and
    ds: "ds = d # ds'"
    by (auto simp: batch_item_Inr bindE_eq_Inr split: prod.splits)
  from evaluate_Inr [OF e] Cons.IH [OF rest] show ?case by (simp add: ds)
qed simp

text \<open>
  A batch answers as the single checks would, all against one reading of the table: a request
  made twice gets the same answer, and no other client's change falls between two answers. Each
  decision is recorded, in the order of the requests.
\<close>

theorem batch_iff_granted:
  assumes "createFixedRoleAuthorizationService options = Inr sv"
    and "batchCheck sv env subject requests w = (Inr ds, w')"
  shows "map dn_allowed ds = map (\<lambda>r. granted_now options env subject r w) requests
    \<and> (ao_recorder options \<longrightarrow> map fst (aw_decisions w') = map fst (aw_decisions w) @
         map (\<lambda>((i, r), d). decision_record_of env i Op_batch_check subject r d)
           (zip (enumerate 0 requests) ds))"
proof -
  let ?list = "listActive env (as_workforcePersonId subject) (to_iso (ae_now env)) w"
  obtain gs v where gs: "(list_ex (\<lambda>r. permissionKey r \<in> set (sv_approved sv)) requests \<longrightarrow> ?list = (Inr gs, v))"
      "\<not> list_ex (\<lambda>r. permissionKey r \<in> set (sv_approved sv)) requests \<longrightarrow> v = w"
    and run: "promise_all (map (batch_item sv env subject gs (to_iso (ae_now env)))
        (enumerate 0 requests)) v = (Inr ds, w')"
    using assms(2) by (auto simp: batchCheck_def Let_def bindA_eq_Inr split: if_splits)
  have "fst (decide sv subject (permissionKey r) gs) \<longleftrightarrow> granted_now options env subject r w"
    if "r \<in> set requests" for r
    using that gs(1) by (intro decide_now [OF assms(1)]) (auto simp: list_ex_iff)
  moreover have "aw_decisions v = aw_decisions w"
    using gs listActive_decisions by (metis (no_types, lifting))
  moreover have "sv_recorder sv = ao_recorder options" using created_service [OF assms(1)] by simp
  ultimately show ?thesis using batch_run [OF run] by (auto cong: map_cong)
qed

text \<open>
  A data scope is given exactly when the permission is, and is never wider than the grants behind
  it: everything only for a person with an active system administrator's grant, otherwise the one
  assignment the subject selected and still holds.
\<close>

theorem scope_never_wider:
  assumes "createFixedRoleAuthorizationService options = Inr sv"
    and "resolveDataScope sv env subject request w = (Inr r, w')"
  shows "(sr_scope r \<noteq> None \<longleftrightarrow> granted_now options env subject request w)
    \<and> (\<forall>sc. sr_scope r = Some sc \<longrightarrow>
         da_terms sc = [Scope_all] \<and> (\<exists>person moment. \<exists>x \<in> set (rows_seen env w).
           pg_uuid (ae_lib env) (as_workforcePersonId subject) = Some person
           \<and> pg_time (ae_lib env) (to_iso (ae_now env)) = Some moment
           \<and> active_at person moment x \<and> gw_role x = System_administrator)
       \<or> (\<exists>a. da_terms sc = [Scope_match [\<lparr>sc_dimension = ''assignmentId'', sc_values = [a]\<rparr>]]
           \<and> as_selectedAssignmentId subject = Some a \<and> a \<in> set (as_activeAssignmentIds subject)))"
proof -
  let ?approved = "permissionKey request \<in> set (sv_approved sv)"
  let ?list = "listActive env (as_workforcePersonId subject) (to_iso (ae_now env)) w"
  obtain gs v d gs' u where gs: "if ?approved then ?list = (Inr gs, v) else gs = [] \<and> v = w"
    and e: "auth_evaluate sv env 0 subject request Op_resolve_data_scope (Some gs) (to_iso (ae_now env)) v = (Inr (d, gs'), u)"
    and r: "r = scope_of subject gs d"
    using assms(2)
    by (auto simp: resolveDataScope_def Let_def bindA_eq_Inr split: if_splits)
  have d: "dn_allowed d = fst (decide sv subject (permissionKey request) gs)"
    using evaluate_Inr [OF e] by simp
  have now: "dn_allowed d \<longleftrightarrow> granted_now options env subject request w"
    unfolding d using gs by (intro decide_now [OF assms(1)]) (auto split: if_splits)
  have everything: "\<exists>person moment. \<exists>x \<in> set (rows_seen env w).
      pg_uuid (ae_lib env) (as_workforcePersonId subject) = Some person
      \<and> pg_time (ae_lib env) (to_iso (ae_now env)) = Some moment
      \<and> active_at person moment x \<and> gw_role x = System_administrator"
    if "list_ex (\<lambda>g. gr_roleKey g = System_administrator) gs"
    using that gs
    by (auto simp: list_ex_iff sql_active_grants_def grant_of_row_def dest!: listActive_Inr split: if_splits) blast
  have one: "\<exists>a. as_selectedAssignmentId subject = Some a \<and> a \<in> set (as_activeAssignmentIds subject)"
    if "dn_allowed d" "\<not> list_ex (\<lambda>g. gr_roleKey g = System_administrator) gs"
    using that by (auto simp: d decide_def Let_def list_ex_iff grant_applicable_def split: if_splits option.splits)
  show ?thesis using now everything one by (auto simp: r scope_of_def Let_def)
qed

section \<open>A sample service\<close>

definition standard_options :: auth_options where
  "standard_options = \<lparr>ao_approvedPermissions = crm_administrator_bundle,
     ao_application_user = application_user_bundle, ao_crm_administrator = crm_administrator_bundle,
     ao_recorder = True\<rparr>"

text \<open>With the reviewed bundles an administrator can do whatever a user can.\<close>

lemma administrator_extends_user: "set application_user_bundle \<subseteq> set crm_administrator_bundle"
  by (simp add: application_user_bundle_def crm_administrator_bundle_def)

definition sample_auth_env :: auth_env where
  "sample_auth_env = \<lparr>ae_lib = \<lparr>pg_uuid = Some, pg_time = (\<lambda>s. map_option (\<lambda>t. t * 1000) (parse_iso s)),
       pg_date = (\<lambda>t. t div 1000), js_date = (\<lambda>s. None), al_sha256 = (\<lambda>s. ''digest'')\<rparr>,
     ae_fails = (\<lambda>n. False), ae_others = (\<lambda>n. []), ae_now = 1700000000000,
     ae_uuid = (\<lambda>n. ''decision''), ae_trace = (\<lambda>n. ''trace''), ae_records = (\<lambda>n. True)\<rparr>"

definition sample_grant :: grant_input where
  "sample_grant = \<lparr>gi_assignmentId = Some ''desk'', gi_grantId = ''grant'',
     gi_grantedAt = ''2023-01-01T00:00:00.000Z'', gi_operationId = ''operation'',
     gi_roleKey = Application_user, gi_workforcePersonId = ''ann''\<rparr>"

definition granted_world :: auth_world where
  "granted_world = snd (grantRole sample_auth_env sample_grant \<lparr>aw_grants = [], aw_decisions = []\<rparr>)"

definition sample_subject :: auth_subject where
  "sample_subject = \<lparr>as_activeAssignmentIds = [''desk''], as_selectedAssignmentId = Some ''desk'',
     as_workforcePersonId = ''ann''\<rparr>"

definition sample_service :: auth_service where
  "sample_service = projr (createFixedRoleAuthorizationService standard_options)"

lemma sample_service_created: "createFixedRoleAuthorizationService standard_options = Inr sample_service"
proof -
  have "isOk (createFixedRoleAuthorizationService standard_options)" by code_simp
  then show ?thesis unfolding sample_service_def by (rule projr_ok)
qed

definition upload :: permission where
  "upload = perm ''upload'' ''crm.file-center.file''"

definition checked :: "(auth_failure + decision) \<times> auth_world" where
  "checked = auth_check sample_service sample_auth_env sample_subject upload granted_world"

lemma checked_run:
  "auth_check sample_service sample_auth_env sample_subject upload granted_world
     = (Inr (projr (fst checked)), snd checked)"
proof -
  have "isOk (fst checked)" by code_simp
  from projr_ok [OF this] show ?thesis by (simp add: checked_def prod_eq_iff)
qed

lemma checked_allowed: "dn_allowed (projr (fst checked))"
  by code_simp

theorem check_iff_granted_witness:
  "granted_now standard_options sample_auth_env sample_subject upload granted_world"
  using check_iff_granted [OF sample_service_created checked_run] checked_allowed by blast

definition batched :: "(auth_failure + decision list) \<times> auth_world" where
  "batched = batchCheck sample_service sample_auth_env sample_subject
     [upload, perm ''manage'' ''crm.notifications.template''] granted_world"

lemma batched_run:
  "batchCheck sample_service sample_auth_env sample_subject
     [upload, perm ''manage'' ''crm.notifications.template''] granted_world
     = (Inr (projr (fst batched)), snd batched)"
proof -
  have "isOk (fst batched)" by code_simp
  from projr_ok [OF this] show ?thesis by (simp add: batched_def prod_eq_iff)
qed

theorem batch_iff_granted_witness:
  "\<not> granted_now standard_options sample_auth_env sample_subject
     (perm ''manage'' ''crm.notifications.template'') granted_world"
proof -
  have "map dn_allowed (projr (fst batched)) = [True, False]" by code_simp
  with batch_iff_granted [OF sample_service_created batched_run] show ?thesis by simp
qed

definition scoped :: "(auth_failure + scope_resolution) \<times> auth_world" where
  "scoped = resolveDataScope sample_service sample_auth_env sample_subject upload granted_world"

lemma scoped_run:
  "resolveDataScope sample_service sample_auth_env sample_subject upload granted_world
     = (Inr (projr (fst scoped)), snd scoped)"
proof -
  have "isOk (fst scoped)" by code_simp
  from projr_ok [OF this] show ?thesis by (simp add: scoped_def prod_eq_iff)
qed

theorem scope_never_wider_witness:
  "granted_now standard_options sample_auth_env sample_subject upload granted_world"
proof -
  have "sr_scope (projr (fst scoped)) \<noteq> None" by code_simp
  with scope_never_wider [OF sample_service_created scoped_run] show ?thesis by blast
qed

definition revoked_world :: auth_world where
  "revoked_world = snd (revokeGrant sample_auth_env ''grant'' ''2023-06-01T00:00:00.000Z'' granted_world)"

theorem revocation_final_witness:
  "\<not> active_at ''ann'' 1700000000000000 (hd (aw_grants revoked_world))"
proof (rule revocation_final [where cs = "[]" and w = granted_world and w' = revoked_world
      and env = sample_auth_env and g = "''grant''" and m = "''2023-06-01T00:00:00.000Z''"
      and i = "''grant''" and t = 1685577600000000])
  have "fst (revokeGrant sample_auth_env ''grant'' ''2023-06-01T00:00:00.000Z'' granted_world) = Inr ()"
    by code_simp
  then show "revokeGrant sample_auth_env ''grant'' ''2023-06-01T00:00:00.000Z'' granted_world
      = (Inr (), revoked_world)"
    by (simp add: revoked_world_def prod_eq_iff)
  show "grants_ok (aw_grants granted_world)" unfolding grants_ok_def by code_simp
qed code_simp+

end
