(* ===== verification/Sessions.thy ===== *)
theory Sessions
  imports JsLib
begin

text \<open>
  The session store of the API (\<open>apps/api/src/auth/errors.ts\<close>, \<open>local-session-store.ts\<close>): sessions,
  the account index and the login rate counters in Redis, and the Lua scripts that change them
  atomically. The keyed digest and Lua's reading of a string as a number are parameters. A JSON text in
  Redis is represented by the value it denotes.
\<close>

section \<open>Sessions and failures\<close>

datatype auth_code = Csrf_rejected | Dependency_unavailable | Invalid_credentials | Rate_limited
  | Auth_required

datatype surface = Internal_h5 | Part_time | Pc

fun surface_name :: "surface \<Rightarrow> string" where
  "surface_name Internal_h5 = ''internal-h5''"
| "surface_name Part_time = ''part-time''"
| "surface_name Pc = ''pc''"

record access_session =
  se_absoluteExpiresAtMs :: int
  se_accountId :: string
  se_authenticatedAtMs :: int
  se_createdAtMs :: int
  se_csrfToken :: string
  se_currentAssignmentId :: "string option"
  se_reauthenticatedUntilMs :: "int option"
  se_securityRevision :: int
  se_sessionId :: string
  se_surface :: surface
  se_workforcePersonId :: string

record observed_session =
  ob_idleExpiresAtMs :: int
  ob_session :: access_session

definition credential_ok :: "string \<Rightarrow> bool" where
  "credential_ok c = (length c = 43 \<and> all_in (alnum @ ''_-'') c)"

definition SESSION_MAX_BYTES :: int where
  "SESSION_MAX_BYTES = 16384"

definition RATE_WINDOW_MS :: int where
  "RATE_WINDOW_MS = 15 * 60 * 1000"

text \<open>The text \<open>JSON.stringify(session)\<close>, as the object it denotes.\<close>

definition session_fields :: "access_session \<Rightarrow> (string \<times> json) list" where
  "session_fields s =
     [(''absoluteExpiresAtMs'', J_int (se_absoluteExpiresAtMs s)),
      (''accountId'', J_str (se_accountId s)),
      (''authenticatedAtMs'', J_int (se_authenticatedAtMs s)),
      (''createdAtMs'', J_int (se_createdAtMs s)),
      (''csrfToken'', J_str (se_csrfToken s))]
     @ j_opt ''currentAssignmentId'' (se_currentAssignmentId s)
     @ (case se_reauthenticatedUntilMs s of None \<Rightarrow> [] | Some t \<Rightarrow> [(''reauthenticatedUntilMs'', J_int t)])
     @ [(''securityRevision'', J_int (se_securityRevision s)),
        (''sessionId'', J_str (se_sessionId s)),
        (''surface'', J_str (surface_name (se_surface s))),
        (''workforcePersonId'', J_str (se_workforcePersonId s))]"

definition session_json :: "access_session \<Rightarrow> json" where
  "session_json s = J_obj (session_fields s)"

text \<open>\<open>Buffer.byteLength(text, 'utf8')\<close> of a text of 8-bit code units.\<close>

definition utf8_length :: "string \<Rightarrow> int" where
  "utf8_length s = sum_list (map (\<lambda>c. if (of_char c :: nat) < 128 then 1 else 2) s)"

definition session_required :: "string list" where
  "session_required = [''absoluteExpiresAtMs'', ''accountId'', ''authenticatedAtMs'', ''createdAtMs'',
     ''csrfToken'', ''securityRevision'', ''sessionId'', ''surface'', ''workforcePersonId'']"

definition session_optional :: "string list" where
  "session_optional = [''currentAssignmentId'', ''reauthenticatedUntilMs'']"

fun text_of :: "json option \<Rightarrow> string option" where
  "text_of (Some (J_str s)) = Some s"
| "text_of _ = None"

fun count_of :: "json option \<Rightarrow> int option" where
  "count_of (Some (J_int n)) = (if 0 \<le> n \<and> n \<le> max_safe then Some n else None)"
| "count_of _ = None"

definition label_ok :: "string \<Rightarrow> bool" where
  "label_ok s = (s \<noteq> [] \<and> length s \<le> 128)"

text \<open>An optional member: absent, or accepted by the test.\<close>

definition opt_member :: "('a \<Rightarrow> bool) \<Rightarrow> (json option \<Rightarrow> 'a option) \<Rightarrow> json option \<Rightarrow> 'a option option" where
  "opt_member ok read v = (case v of None \<Rightarrow> Some None
     | Some j \<Rightarrow> (case read (Some j) of None \<Rightarrow> None | Some x \<Rightarrow> if ok x then Some (Some x) else None))"

text \<open>The members there are: all required ones, no unknown one, and the expected surface.\<close>

definition members_known :: "(string \<times> json) list \<Rightarrow> surface \<Rightarrow> bool" where
  "members_known fs expected =
     (list_all (\<lambda>k. map_of fs k \<noteq> None) session_required \<and>
      list_all (\<lambda>k. k \<in> set session_required \<or> k \<in> set session_optional) (map fst fs) \<and>
      text_of (map_of fs ''surface'') = Some (surface_name expected))"

text \<open>The session they hold, \<open>None\<close> where a member has the wrong type or is out of its bounds.\<close>

definition read_members :: "(string \<times> json) list \<Rightarrow> surface \<Rightarrow> access_session option" where
  "read_members fs expected =
     Option.bind (text_of (map_of fs ''accountId'')) (\<lambda>accountId.
     Option.bind (text_of (map_of fs ''workforcePersonId'')) (\<lambda>person.
     Option.bind (text_of (map_of fs ''sessionId'')) (\<lambda>sessionId.
     Option.bind (text_of (map_of fs ''csrfToken'')) (\<lambda>csrf.
     Option.bind (count_of (map_of fs ''absoluteExpiresAtMs'')) (\<lambda>absolute.
     Option.bind (count_of (map_of fs ''authenticatedAtMs'')) (\<lambda>authenticated.
     Option.bind (count_of (map_of fs ''createdAtMs'')) (\<lambda>created.
     Option.bind (count_of (map_of fs ''securityRevision'')) (\<lambda>revision.
     Option.bind (opt_member label_ok text_of (map_of fs ''currentAssignmentId'')) (\<lambda>assignment.
     Option.bind (opt_member (\<lambda>t. authenticated \<le> t) count_of (map_of fs ''reauthenticatedUntilMs'')) (\<lambda>reauth.
     if label_ok accountId \<and> label_ok person \<and> credential_ok sessionId \<and> credential_ok csrf \<and>
        created \<le> authenticated \<and> authenticated < absolute
     then Some \<lparr>se_absoluteExpiresAtMs = absolute, se_accountId = accountId,
       se_authenticatedAtMs = authenticated, se_createdAtMs = created, se_csrfToken = csrf,
       se_currentAssignmentId = assignment, se_reauthenticatedUntilMs = reauth,
       se_securityRevision = revision, se_sessionId = sessionId, se_surface = expected,
       se_workforcePersonId = person\<rparr>
     else None))))))))))"

definition parse_members :: "(string \<times> json) list \<Rightarrow> surface \<Rightarrow> access_session option" where
  "parse_members fs expected = (if members_known fs expected then read_members fs expected else None)"

text \<open>\<open>parseSession\<close> of what Redis answered: \<open>undefined\<close> if nothing, \<open>Inl\<close> if the code throws.\<close>

definition parseSession :: "json option \<Rightarrow> surface \<Rightarrow> auth_code + access_session option" where
  "parseSession v expected = (case v of
     None \<Rightarrow> Inr None
   | Some j \<Rightarrow> if utf8_length (stringify j) > SESSION_MAX_BYTES then Inl Auth_required
       else (case j of
         J_obj fs \<Rightarrow> (case parse_members fs expected of None \<Rightarrow> Inl Auth_required | Some s \<Rightarrow> Inr (Some s))
       | _ \<Rightarrow> Inl Auth_required))"

definition serializeAndValidateSession :: "access_session \<Rightarrow> surface \<Rightarrow> auth_code + json" where
  "serializeAndValidateSession s expected =
     bindE (ensure (utf8_length (stringify (session_json s)) \<le> SESSION_MAX_BYTES) Auth_required) (\<lambda>_.
     bindE (parseSession (Some (session_json s)) expected) (\<lambda>_. Inr (session_json s)))"

section \<open>Redis\<close>

text \<open>
  A key is one of the three kinds the store builds, by its parts; a value expires at a time in
  milliseconds. Redis answers for a key only while it has not expired.
\<close>

datatype redis_key = Session_key surface string | Account_key surface string | Rate_key string string

datatype redis_value = V_session json | V_index string | V_count int

type_synonym redis = "(redis_key, redis_value \<times> int) jsmap"

definition rd_get :: "int \<Rightarrow> redis \<Rightarrow> redis_key \<Rightarrow> redis_value option" where
  "rd_get now r k = (case jm_get r k of None \<Rightarrow> None | Some (v, e) \<Rightarrow> if now < e then Some v else None)"

definition rd_ttl :: "int \<Rightarrow> redis \<Rightarrow> redis_key \<Rightarrow> int" where
  "rd_ttl now r k = (case jm_get r k of None \<Rightarrow> -2 | Some (v, e) \<Rightarrow> e - now)"

definition rd_set :: "redis \<Rightarrow> redis_key \<Rightarrow> redis_value \<Rightarrow> int \<Rightarrow> redis" where
  "rd_set r k v e = jm_set r k (v, e)"

text \<open>\<open>PEXPIRE\<close>: a new time for a value that is there.\<close>

definition rd_expire :: "int \<Rightarrow> redis \<Rightarrow> redis_key \<Rightarrow> int \<Rightarrow> redis" where
  "rd_expire now r k e = (case rd_get now r k of None \<Rightarrow> r | Some v \<Rightarrow> jm_set r k (v, e))"

definition rd_count :: "int \<Rightarrow> redis \<Rightarrow> redis_key \<Rightarrow> int" where
  "rd_count now r k = (case rd_get now r k of Some (V_count n) \<Rightarrow> n | _ \<Rightarrow> 0)"

text \<open>
  \<open>INCR\<close> and the \<open>PEXPIRE\<close> that follows when the counter is new: a live counter keeps its time.
\<close>

definition rd_incr :: "int \<Rightarrow> redis \<Rightarrow> redis_key \<Rightarrow> int \<Rightarrow> redis" where
  "rd_incr now r k window = (case jm_get r k of
     Some (V_count n, e) \<Rightarrow> if now < e then jm_set r k (V_count (n + 1), if n + 1 = 1 then now + window else e)
       else jm_set r k (V_count 1, now + window)
   | _ \<Rightarrow> jm_set r k (V_count 1, now + window))"

section \<open>The scripts\<close>

text \<open>What a script answers: a number, nothing, a session's text, or the text with its \<open>PTTL\<close>.\<close>

datatype reply = R_int int | R_none | R_value json | R_pair json int

definition create_script ::
  "int \<Rightarrow> surface \<Rightarrow> string \<Rightarrow> string \<Rightarrow> json \<Rightarrow> int \<Rightarrow> int \<Rightarrow> redis \<Rightarrow> reply \<times> redis" where
  "create_script now sf index account text ttl accountTtl r =
     (if ttl \<le> 0 \<or> accountTtl \<le> 0 then (R_int (-1), r)
      else let r1 = (case rd_get now r (Account_key sf account) of
                Some (V_index previous) \<Rightarrow> jm_delete r (Session_key sf previous) | _ \<Rightarrow> r);
               r2 = rd_set r1 (Session_key sf index) (V_session text) (now + ttl);
               r3 = rd_set r2 (Account_key sf account) (V_index index) (now + accountTtl) in
           (R_int 1, r3))"

definition rotate_script ::
  "int \<Rightarrow> surface \<Rightarrow> string \<Rightarrow> string \<Rightarrow> string \<Rightarrow> json \<Rightarrow> int \<Rightarrow> int \<Rightarrow> redis \<Rightarrow> reply \<times> redis" where
  "rotate_script now sf previous nextIndex account text ttl accountTtl r =
     (if ttl \<le> 0 \<or> accountTtl \<le> 0 then (R_int (-1), r)
      else if rd_get now r (Session_key sf previous) = None then (R_int 0, r)
      else if rd_get now r (Account_key sf account) \<noteq> Some (V_index previous) then (R_int 0, r)
      else let r1 = jm_delete r (Session_key sf previous);
               r2 = rd_set r1 (Session_key sf nextIndex) (V_session text) (now + ttl);
               r3 = rd_set r2 (Account_key sf account) (V_index nextIndex) (now + accountTtl) in
           (R_int 1, r3))"

definition delete_script :: "int \<Rightarrow> surface \<Rightarrow> string \<Rightarrow> string \<Rightarrow> json \<Rightarrow> redis \<Rightarrow> reply \<times> redis" where
  "delete_script now sf index account text r =
     (if rd_get now r (Session_key sf index) \<noteq> Some (V_session text) then (R_int 0, r)
      else let r1 = jm_delete r (Session_key sf index) in
        (R_int 1, if rd_get now r1 (Account_key sf account) = Some (V_index index)
                  then jm_delete r1 (Account_key sf account) else r1))"

text \<open>\<open>tonumber(record.absoluteExpiresAtMs)\<close> of a decoded text, \<open>None\<close> if there is no such number.\<close>

definition absolute_of :: "(string \<Rightarrow> int option) \<Rightarrow> json \<Rightarrow> int option" where
  "absolute_of tonumber j = (case j of
     J_obj fs \<Rightarrow> (case map_of fs ''absoluteExpiresAtMs'' of
         Some (J_int n) \<Rightarrow> Some n | Some (J_str s) \<Rightarrow> tonumber s | _ \<Rightarrow> None)
   | _ \<Rightarrow> None)"

definition peek_script :: "(string \<Rightarrow> int option) \<Rightarrow> int \<Rightarrow> surface \<Rightarrow> string \<Rightarrow> int \<Rightarrow> redis \<Rightarrow> reply \<times> redis" where
  "peek_script tonumber now sf index nowMs r =
     (let k = Session_key sf index in
      case rd_get now r k of
        Some (V_session j) \<Rightarrow> (case absolute_of tonumber j of
            None \<Rightarrow> (R_none, jm_delete r k)
          | Some absolute \<Rightarrow>
              if absolute \<le> nowMs then (R_none, jm_delete r k)
              else if rd_ttl now r k \<le> 0 then (R_none, jm_delete r k)
              else (R_pair j (rd_ttl now r k), r))
      | _ \<Rightarrow> (R_none, r))"

definition touch_script :: "(string \<Rightarrow> int option) \<Rightarrow> int \<Rightarrow> surface \<Rightarrow> string \<Rightarrow> int \<Rightarrow> int \<Rightarrow> redis \<Rightarrow> reply \<times> redis" where
  "touch_script tonumber now sf index nowMs idle r =
     (let k = Session_key sf index in
      case rd_get now r k of
        Some (V_session j) \<Rightarrow> (case absolute_of tonumber j of
            None \<Rightarrow> (R_none, jm_delete r k)
          | Some absolute \<Rightarrow>
              if absolute - nowMs \<le> 0 then (R_none, jm_delete r k)
              else (R_value j, rd_expire now r k (now + min idle (absolute - nowMs))))
      | _ \<Rightarrow> (R_none, r))"

definition admission_script :: "int \<Rightarrow> string \<Rightarrow> string \<Rightarrow> int \<Rightarrow> int \<Rightarrow> int \<Rightarrow> redis \<Rightarrow> reply \<times> redis" where
  "admission_script now identifier source window limitA limitB r =
     (let a = Rate_key ''identifier'' identifier; b = Rate_key ''source'' source in
      if rd_count now r a \<ge> limitA \<or> rd_count now r b \<ge> limitB then (R_int 0, r)
      else (R_int 1, rd_incr now (rd_incr now r a window) b window))"

definition login_success_script :: "int \<Rightarrow> string \<Rightarrow> string \<Rightarrow> redis \<Rightarrow> reply \<times> redis" where
  "login_success_script now identifier source r =
     (let a = Rate_key ''identifier'' identifier; b = Rate_key ''source'' source;
          r1 = jm_delete r a; n = rd_count now r1 b in
      (R_int 1, if n \<le> 1 then jm_delete r1 b
                else (case jm_get r1 b of None \<Rightarrow> r1 | Some (v, e) \<Rightarrow> jm_set r1 b (V_count (n - 1), e))))"

text \<open>The commands the store sends, by their arguments.\<close>

datatype redis_script =
    Sc_create surface string string json int int
  | Sc_rotate surface string string string json int int
  | Sc_delete surface string string json
  | Sc_get surface string
  | Sc_del surface string
  | Sc_peek surface string int
  | Sc_touch surface string int int
  | Sc_admit string string int int int
  | Sc_success string string

fun run_script :: "(string \<Rightarrow> int option) \<Rightarrow> int \<Rightarrow> redis_script \<Rightarrow> redis \<Rightarrow> reply \<times> redis" where
  "run_script tn now (Sc_create sf index account text ttl attl) r = create_script now sf index account text ttl attl r"
| "run_script tn now (Sc_rotate sf previous nextIndex account text ttl attl) r =
     rotate_script now sf previous nextIndex account text ttl attl r"
| "run_script tn now (Sc_delete sf index account text) r = delete_script now sf index account text r"
| "run_script tn now (Sc_get sf index) r =
     ((case rd_get now r (Session_key sf index) of Some (V_session j) \<Rightarrow> R_value j | _ \<Rightarrow> R_none), r)"
| "run_script tn now (Sc_del sf index) r = (R_int 1, jm_delete r (Session_key sf index))"
| "run_script tn now (Sc_peek sf index nowMs) r = peek_script tn now sf index nowMs r"
| "run_script tn now (Sc_touch sf index nowMs idle) r = touch_script tn now sf index nowMs idle r"
| "run_script tn now (Sc_admit identifier source window a b) r = admission_script now identifier source window a b r"
| "run_script tn now (Sc_success identifier source) r = login_success_script now identifier source r"

section \<open>The store\<close>

record session_lib =
  sl_digest :: "string \<Rightarrow> string \<Rightarrow> string"
  sl_tonumber :: "string \<Rightarrow> int option"

text \<open>
  A command on its way: the time it takes, what other clients send before it, and whether the
  answer comes back. A failed command may have run or not.
\<close>

datatype fate = Answered | Lost_before | Lost_after

record redis_step =
  rs_delay :: nat
  rs_others :: "redis_script list"
  rs_fate :: fate

record session_world =
  sw_redis :: redis
  sw_now :: int
  sw_steps :: "redis_step list"

type_synonym 'a session_act = "(session_world, auth_code, 'a) act"

definition others_run :: "session_lib \<Rightarrow> int \<Rightarrow> redis_script list \<Rightarrow> redis \<Rightarrow> redis" where
  "others_run lib now scripts r = foldl (\<lambda>r c. snd (run_script (sl_tonumber lib) now c r)) r scripts"

definition redis_command :: "session_lib \<Rightarrow> redis_script \<Rightarrow> reply session_act" where
  "redis_command lib c w =
     (let st = (case sw_steps w of [] \<Rightarrow> \<lparr>rs_delay = 0, rs_others = [], rs_fate = Answered\<rparr> | x # _ \<Rightarrow> x);
          now = sw_now w + int (rs_delay st);
          r = others_run lib now (rs_others st) (sw_redis w);
          w1 = w\<lparr>sw_now := now, sw_steps := tl (sw_steps w)\<rparr> in
      case run_script (sl_tonumber lib) now c r of (answer, r') \<Rightarrow>
        (case rs_fate st of
           Answered \<Rightarrow> (Inr answer, w1\<lparr>sw_redis := r'\<rparr>)
         | Lost_before \<Rightarrow> (Inl Dependency_unavailable, w1\<lparr>sw_redis := r\<rparr>)
         | Lost_after \<Rightarrow> (Inl Dependency_unavailable, w1\<lparr>sw_redis := r'\<rparr>)))"

definition validCredential :: "string \<Rightarrow> auth_code + unit" where
  "validCredential v = ensure (credential_ok v) Auth_required"

definition validTtl :: "int \<Rightarrow> auth_code + unit" where
  "validTtl ttl = ensure (ttl \<le> max_safe \<and> 0 < ttl) Auth_required"

definition validNow :: "int \<Rightarrow> auth_code + unit" where
  "validNow now = ensure (now \<le> max_safe \<and> 0 \<le> now) Auth_required"

definition session_index :: "session_lib \<Rightarrow> surface \<Rightarrow> string \<Rightarrow> string" where
  "session_index lib sf c = sl_digest lib (''session:'' @ surface_name sf) c"

definition account_index :: "session_lib \<Rightarrow> surface \<Rightarrow> string \<Rightarrow> string" where
  "account_index lib sf accountId = sl_digest lib (''account:'' @ surface_name sf) accountId"

definition rate_index :: "session_lib \<Rightarrow> string \<Rightarrow> string \<Rightarrow> string" where
  "rate_index lib kind v = sl_digest lib (''rate:'' @ kind) v"

definition admitLoginAttempt :: "session_lib \<Rightarrow> string \<Rightarrow> string \<Rightarrow> bool session_act" where
  "admitLoginAttempt lib identifier source =
     bindA (redis_command lib (Sc_admit (rate_index lib ''identifier'' identifier)
       (rate_index lib ''source'' source) RATE_WINDOW_MS 5 30)) (\<lambda>answer.
     if answer = R_int 1 then retA True
     else if answer = R_int 0 then retA False else throwA Dependency_unavailable)"

definition recordLoginSuccess :: "session_lib \<Rightarrow> string \<Rightarrow> string \<Rightarrow> unit session_act" where
  "recordLoginSuccess lib identifier source =
     voidA (redis_command lib (Sc_success (rate_index lib ''identifier'' identifier) (rate_index lib ''source'' source)))"

definition createSession :: "session_lib \<Rightarrow> surface \<Rightarrow> string \<Rightarrow> access_session \<Rightarrow> int \<Rightarrow> unit session_act" where
  "createSession lib sf c s ttl =
     bindA (liftA (validCredential c)) (\<lambda>_.
     bindA (liftA (validTtl ttl)) (\<lambda>_.
     bindA (liftA (serializeAndValidateSession s sf)) (\<lambda>text.
     let accountTtl = max ttl (se_absoluteExpiresAtMs s - se_createdAtMs s) in
     bindA (liftA (validTtl accountTtl)) (\<lambda>_.
     bindA (redis_command lib (Sc_create sf (session_index lib sf c) (account_index lib sf (se_accountId s))
       text ttl accountTtl)) (\<lambda>answer.
     ensureA (answer = R_int 1) Dependency_unavailable)))))"

text \<open>What the reply carries of a session's text.\<close>

definition reply_text :: "reply \<Rightarrow> json option" where
  "reply_text a = (case a of R_value j \<Rightarrow> Some j | _ \<Rightarrow> None)"

definition deleteSession :: "session_lib \<Rightarrow> surface \<Rightarrow> string \<Rightarrow> unit session_act" where
  "deleteSession lib sf c =
     bindA (liftA (validCredential c)) (\<lambda>_.
     bindA (redis_command lib (Sc_get sf (session_index lib sf c))) (\<lambda>answer.
     bindA (liftA (parseSession (reply_text answer) sf)) (\<lambda>stored.
     case (stored, reply_text answer) of
       (Some s, Some text) \<Rightarrow> voidA (redis_command lib (Sc_delete sf (session_index lib sf c)
          (account_index lib sf (se_accountId s)) text))
     | _ \<Rightarrow> retA ())))"

text \<open>A malformed record is deleted before its failure is thrown; a failing deletion is ignored.\<close>

definition parse_or_delete ::
  "session_lib \<Rightarrow> surface \<Rightarrow> string \<Rightarrow> json option \<Rightarrow> access_session option session_act" where
  "parse_or_delete lib sf c text =
     (case parseSession text sf of
        Inr s \<Rightarrow> retA s
      | Inl e \<Rightarrow> bindA (catchA (voidA (redis_command lib (Sc_del sf (session_index lib sf c)))) (\<lambda>_. retA ())) (\<lambda>_. throwA e))"

definition getSession :: "session_lib \<Rightarrow> surface \<Rightarrow> string \<Rightarrow> int \<Rightarrow> int \<Rightarrow> access_session option session_act" where
  "getSession lib sf c idle now =
     bindA (liftA (validCredential c)) (\<lambda>_.
     bindA (liftA (validTtl idle)) (\<lambda>_.
     bindA (liftA (validNow now)) (\<lambda>_.
     bindA (redis_command lib (Sc_touch sf (session_index lib sf c) now idle)) (\<lambda>answer.
     parse_or_delete lib sf c (reply_text answer)))))"

definition peekSession :: "session_lib \<Rightarrow> surface \<Rightarrow> string \<Rightarrow> int \<Rightarrow> observed_session option session_act" where
  "peekSession lib sf c now =
     bindA (liftA (validCredential c)) (\<lambda>_.
     bindA (liftA (validNow now)) (\<lambda>_.
     bindA (redis_command lib (Sc_peek sf (session_index lib sf c) now)) (\<lambda>answer.
     case answer of
       R_none \<Rightarrow> retA None
     | R_pair text ttl \<Rightarrow>
         bindA (ensureA (0 \<le> ttl) Auth_required) (\<lambda>_.
         bindA (parse_or_delete lib sf c (Some text)) (\<lambda>found.
         case found of
           None \<Rightarrow> throwA Auth_required
         | Some s \<Rightarrow> bindA (ensureA (ttl \<le> max_safe \<and> 0 < ttl) Auth_required) (\<lambda>_.
             retA (Some \<lparr>ob_idleExpiresAtMs = min (se_absoluteExpiresAtMs s) (now + ttl), ob_session = s\<rparr>))))
     | _ \<Rightarrow> throwA Auth_required)))"

definition rotateSession ::
  "session_lib \<Rightarrow> surface \<Rightarrow> string \<Rightarrow> string \<Rightarrow> access_session \<Rightarrow> int \<Rightarrow> int \<Rightarrow> unit session_act" where
  "rotateSession lib sf previous nextCredential s ttl now =
     bindA (liftA (validCredential previous)) (\<lambda>_.
     bindA (liftA (validCredential nextCredential)) (\<lambda>_.
     bindA (liftA (validTtl ttl)) (\<lambda>_.
     bindA (liftA (validNow now)) (\<lambda>_.
     bindA (liftA (serializeAndValidateSession s sf)) (\<lambda>text.
     let accountTtl = max ttl (se_absoluteExpiresAtMs s - now) in
     bindA (liftA (validTtl accountTtl)) (\<lambda>_.
     bindA (redis_command lib (Sc_rotate sf (session_index lib sf previous) (session_index lib sf nextCredential)
       (account_index lib sf (se_accountId s)) text ttl accountTtl)) (\<lambda>answer.
     ensureA (answer = R_int 1) Auth_required)))))))"

end
