(* ===== verification/SessionProps.thy ===== *)
theory SessionProps
  imports Sessions
begin

text \<open>
  What the session store promises: a session it writes is read back as it was; an account has at
  most one live session per surface, whatever the order of the scripts that reach Redis; a rotated
  credential is dead; and the login counters bound the attempts.
\<close>

section \<open>A session is read back as it was written\<close>

lemma option_bind_Some: "Option.bind x f = Some y \<longleftrightarrow> (\<exists>z. x = Some z \<and> f z = Some y)"
  by (cases x) simp_all

lemma count_of_int [simp]: "count_of (Some (J_int n)) = Some m \<longleftrightarrow> m = n \<and> 0 \<le> n \<and> n \<le> max_safe"
  by auto

lemma surface_name_inj [simp]: "surface_name a = surface_name b \<longleftrightarrow> a = b"
  by (cases a; cases b) simp_all

lemma opt_member_text: "opt_member ok text_of (map_option J_str v) = Some w \<Longrightarrow> w = v"
  by (cases v) (auto simp: opt_member_def split: if_splits)

lemma opt_member_count: "opt_member ok count_of (map_option J_int v) = Some w \<Longrightarrow> w = v"
  by (cases v) (auto simp: opt_member_def split: if_splits)

lemma session_members [simp]:
  "map_of (session_fields s) ''absoluteExpiresAtMs'' = Some (J_int (se_absoluteExpiresAtMs s))"
  "map_of (session_fields s) ''accountId'' = Some (J_str (se_accountId s))"
  "map_of (session_fields s) ''authenticatedAtMs'' = Some (J_int (se_authenticatedAtMs s))"
  "map_of (session_fields s) ''createdAtMs'' = Some (J_int (se_createdAtMs s))"
  "map_of (session_fields s) ''csrfToken'' = Some (J_str (se_csrfToken s))"
  "map_of (session_fields s) ''currentAssignmentId'' = map_option J_str (se_currentAssignmentId s)"
  "map_of (session_fields s) ''reauthenticatedUntilMs'' = map_option J_int (se_reauthenticatedUntilMs s)"
  "map_of (session_fields s) ''securityRevision'' = Some (J_int (se_securityRevision s))"
  "map_of (session_fields s) ''sessionId'' = Some (J_str (se_sessionId s))"
  "map_of (session_fields s) ''surface'' = Some (J_str (surface_name (se_surface s)))"
  "map_of (session_fields s) ''workforcePersonId'' = Some (J_str (se_workforcePersonId s))"
  by (simp_all add: session_fields_def j_opt_def split: option.split)

lemma count_bind: "Option.bind (count_of (Some (J_int n))) f = Some y \<Longrightarrow> f n = Some y"
  by (simp split: if_splits)

lemma session_literal:
  "\<lparr>se_absoluteExpiresAtMs = se_absoluteExpiresAtMs s, se_accountId = se_accountId s,
     se_authenticatedAtMs = se_authenticatedAtMs s, se_createdAtMs = se_createdAtMs s,
     se_csrfToken = se_csrfToken s, se_currentAssignmentId = a, se_reauthenticatedUntilMs = b,
     se_securityRevision = se_securityRevision s, se_sessionId = se_sessionId s,
     se_surface = se_surface s, se_workforcePersonId = se_workforcePersonId s\<rparr>
   = s\<lparr>se_currentAssignmentId := a, se_reauthenticatedUntilMs := b\<rparr>"
  by (cases s) simp

lemma read_members_session:
  assumes "read_members (session_fields s) (se_surface s) = Some s'"
  shows "s' = s"
proof -
  have "Option.bind (opt_member label_ok text_of (map_option J_str (se_currentAssignmentId s))) (\<lambda>a.
      Option.bind (opt_member (\<lambda>t. se_authenticatedAtMs s \<le> t) count_of
        (map_option J_int (se_reauthenticatedUntilMs s))) (\<lambda>b.
      if label_ok (se_accountId s) \<and> label_ok (se_workforcePersonId s) \<and> credential_ok (se_sessionId s)
        \<and> credential_ok (se_csrfToken s) \<and> se_createdAtMs s \<le> se_authenticatedAtMs s
        \<and> se_authenticatedAtMs s < se_absoluteExpiresAtMs s
      then Some (s\<lparr>se_currentAssignmentId := a, se_reauthenticatedUntilMs := b\<rparr>) else None)) = Some s'"
    using assms [unfolded read_members_def session_members text_of.simps bind.bind_lunit,
      THEN count_bind, THEN count_bind, THEN count_bind, THEN count_bind, unfolded session_literal] .
  then obtain a b where "opt_member label_ok text_of (map_option J_str (se_currentAssignmentId s)) = Some a"
    and "opt_member (\<lambda>t. se_authenticatedAtMs s \<le> t) count_of (map_option J_int (se_reauthenticatedUntilMs s)) = Some b"
    and s': "s' = s\<lparr>se_currentAssignmentId := a, se_reauthenticatedUntilMs := b\<rparr>"
    unfolding option_bind_Some by (metis (no_types, lifting) option.distinct(1) option.inject)
  then have "a = se_currentAssignmentId s" "b = se_reauthenticatedUntilMs s"
    using opt_member_text opt_member_count by blast+
  with s' show ?thesis by simp
qed

lemma parse_members_session:
  "parse_members (session_fields s) sf = Some s' \<Longrightarrow> s' = s \<and> se_surface s = sf"
  using read_members_session [of s s']
  by (auto simp: parse_members_def members_known_def split: if_splits)

lemma parse_session_json:
  assumes "parseSession (Some (session_json s)) sf = Inr v"
  shows "v = Some s \<and> se_surface s = sf"
proof -
  obtain s' where "parse_members (session_fields s) sf = Some s'" "v = Some s'"
    using assms unfolding parseSession_def session_json_def option.case json.case
    by (metis (no_types, lifting) Inl_Inr_False Inr_inject option.case_eq_if option.collapse)
  with parse_members_session show ?thesis by blast
qed


section \<open>One live session per account and surface\<close>

definition live :: "(string \<Rightarrow> int option) \<Rightarrow> int \<Rightarrow> redis \<Rightarrow> surface \<Rightarrow> string \<Rightarrow> json \<Rightarrow> bool" where
  "live tn now r sf i j \<longleftrightarrow> rd_get now r (Session_key sf i) = Some (V_session j)
     \<and> (\<exists>n. absolute_of tn j = Some n \<and> now < n)"

text \<open>
  Every live session is the one its account's index names, and the index outlives the session.
\<close>

definition indexed :: "session_lib \<Rightarrow> int \<Rightarrow> redis \<Rightarrow> bool" where
  "indexed lib now r \<longleftrightarrow> (\<forall>sf i j. live (sl_tonumber lib) now r sf i j \<longrightarrow> (\<exists>s e. j = session_json s
     \<and> jm_get r (Account_key sf (account_index lib sf (se_accountId s))) = Some (V_index i, e)
     \<and> se_absoluteExpiresAtMs s \<le> e))"

text \<open>
  What the store sends: the text of a session, its account's index and a time to live for the index
  that reaches the session's absolute expiry; clocks agree, so what was read before is not later.
\<close>

fun proper :: "session_lib \<Rightarrow> int \<Rightarrow> redis_script \<Rightarrow> bool" where
  "proper lib now (Sc_create sf i account text ttl attl) \<longleftrightarrow> (\<exists>s. text = session_json s
     \<and> account = account_index lib sf (se_accountId s)
     \<and> attl = max ttl (se_absoluteExpiresAtMs s - se_createdAtMs s) \<and> se_createdAtMs s \<le> now)"
| "proper lib now (Sc_rotate sf previous i account text ttl attl) \<longleftrightarrow> (\<exists>s before. text = session_json s
     \<and> account = account_index lib sf (se_accountId s)
     \<and> attl = max ttl (se_absoluteExpiresAtMs s - before) \<and> before \<le> now)"
| "proper lib now _ \<longleftrightarrow> True"

lemma absolute_session [simp]: "absolute_of tn (session_json s) = Some (se_absoluteExpiresAtMs s)"
  by (simp add: absolute_of_def session_json_def)

lemma live_session [simp]: "live tn now r sf i (session_json s) \<longleftrightarrow>
    rd_get now r (Session_key sf i) = Some (V_session (session_json s)) \<and> now < se_absoluteExpiresAtMs s"
  by (simp add: live_def)

lemma indexed_later: "indexed lib now r \<Longrightarrow> now \<le> later \<Longrightarrow> indexed lib later r"
proof -
  assume ix: "indexed lib now r" and le: "now \<le> later"
  have "live (sl_tonumber lib) now r sf i j" if "live (sl_tonumber lib) later r sf i j" for sf i j
    using that le by (auto simp: live_def rd_get_def split: option.splits if_splits)
  then show ?thesis using ix unfolding indexed_def by meson
qed

text \<open>Changes that keep the index of every session that stays live.\<close>

lemma indexed_sub:
  assumes "indexed lib now r"
    and "\<And>sf i j. live (sl_tonumber lib) now r' sf i j \<Longrightarrow> live (sl_tonumber lib) now r sf i j"
    and "\<And>sf i j a e. live (sl_tonumber lib) now r' sf i j \<Longrightarrow>
      jm_get r (Account_key sf a) = Some (V_index i, e) \<Longrightarrow> jm_get r' (Account_key sf a) = Some (V_index i, e)"
  shows "indexed lib now r'"
  using assms unfolding indexed_def by meson

lemma session_json_inj:
  assumes "session_json s = session_json s'"
  shows "se_accountId s = se_accountId s' \<and> se_absoluteExpiresAtMs s = se_absoluteExpiresAtMs s'"
proof -
  have "map_of (session_fields s) k = map_of (session_fields s') k" for k
    using assms by (simp add: session_json_def)
  from this [of "''accountId''"] this [of "''absoluteExpiresAtMs''"] show ?thesis by simp
qed

lemma indexed_index:
  assumes "indexed lib now r" and "live (sl_tonumber lib) now r sf i (session_json s)"
  shows "rd_get now r (Account_key sf (account_index lib sf (se_accountId s))) = Some (V_index i)"
proof -
  obtain s' e where s': "session_json s = session_json s'"
      "jm_get r (Account_key sf (account_index lib sf (se_accountId s'))) = Some (V_index i, e)"
      "se_absoluteExpiresAtMs s' \<le> e"
    using assms unfolding indexed_def by meson
  have "se_accountId s' = se_accountId s" "se_absoluteExpiresAtMs s' = se_absoluteExpiresAtMs s"
    using session_json_inj [OF s'(1)] by simp_all
  with s' assms(2) show ?thesis by (simp add: rd_get_def)
qed

text \<open>What the basic commands leave under another key.\<close>

lemma rd_get_simps [simp]:
  "rd_get now (jm_delete r k) k' = (if k' = k then None else rd_get now r k')"
  "rd_get now (jm_set r k (v, e)) k' = (if k' = k then if now < e then Some v else None else rd_get now r k')"
  "rd_get now (rd_set r k v e) k' = (if k' = k then if now < e then Some v else None else rd_get now r k')"
  "jm_get (rd_set r k v e) k' = (if k' = k then Some (v, e) else jm_get r k')"
  by (simp_all add: rd_get_def rd_set_def)

lemma rd_incr_other [simp]:
  "k' \<noteq> k \<Longrightarrow> jm_get (rd_incr now r k w) k' = jm_get r k'"
  by (auto simp: rd_incr_def split: option.split redis_value.split prod.split)

lemma rd_get_incr [simp]: "k' \<noteq> k \<Longrightarrow> rd_get now (rd_incr now r k w) k' = rd_get now r k'"
  by (simp add: rd_get_def)

text \<open>An account's index is replaced by a new session's while the one it named is deleted.\<close>

lemma indexed_replace:
  assumes ix: "indexed lib now r"
    and r': "r' = rd_set (rd_set r1 (Session_key sf i) (V_session (session_json s)) e)
      (Account_key sf (account_index lib sf (se_accountId s))) (V_index i) e'"
    and outlives: "se_absoluteExpiresAtMs s \<le> e'"
    and kept: "\<And>k. k \<notin> {Session_key sf p |p. rd_get now r (Account_key sf (account_index lib sf (se_accountId s))) = Some (V_index p)}
      \<Longrightarrow> jm_get r1 k = jm_get r k"
    and gone: "\<And>p. rd_get now r (Account_key sf (account_index lib sf (se_accountId s))) = Some (V_index p)
      \<Longrightarrow> jm_get r1 (Session_key sf p) = None"
  shows "indexed lib now r'"
  unfolding indexed_def
proof (intro allI impI)
  fix sf' i' j
  let ?account = "Account_key sf (account_index lib sf (se_accountId s))"
  assume l: "live (sl_tonumber lib) now r' sf' i' j"
  show "\<exists>x e. j = session_json x \<and> jm_get r' (Account_key sf' (account_index lib sf' (se_accountId x)))
      = Some (V_index i', e) \<and> se_absoluteExpiresAtMs x \<le> e"
  proof (cases "Session_key sf' i' = Session_key sf i")
    case True
    then have "j = session_json s" using l by (auto simp: live_def r' split: if_splits)
    with True outlives show ?thesis by (auto simp: r')
  next
    case False
    then have g1: "rd_get now r1 (Session_key sf' i') = Some (V_session j)"
      using l by (auto simp: live_def r' split: if_splits)
    then have notp: "\<not> (sf' = sf \<and> rd_get now r ?account = Some (V_index i'))"
      using gone by (auto simp: rd_get_def)
    then have "jm_get r1 (Session_key sf' i') = jm_get r (Session_key sf' i')" by (intro kept) auto
    then have "live (sl_tonumber lib) now r sf' i' j" using g1 l by (simp add: live_def rd_get_def)
    then obtain x e where x: "j = session_json x" "se_absoluteExpiresAtMs x \<le> e"
        "jm_get r (Account_key sf' (account_index lib sf' (se_accountId x))) = Some (V_index i', e)"
      using ix unfolding indexed_def by meson
    moreover have "rd_get now r (Account_key sf' (account_index lib sf' (se_accountId x))) = Some (V_index i')"
      using x l by (simp add: rd_get_def)
    then have "Account_key sf' (account_index lib sf' (se_accountId x)) \<noteq> ?account" using notp by auto
    moreover have "jm_get r1 (Account_key sf' (account_index lib sf' (se_accountId x)))
        = jm_get r (Account_key sf' (account_index lib sf' (se_accountId x)))" by (intro kept) auto
    ultimately show ?thesis by (auto simp: r')
  qed
qed

lemma indexed_script:
  assumes ix: "indexed lib now r" and proper: "proper lib now c"
  shows "indexed lib now (snd (run_script (sl_tonumber lib) now c r))"
proof (cases c)
  case (Sc_create sf i account written ttl attl)
  then obtain s where s: "written = session_json s" "account = account_index lib sf (se_accountId s)"
      "attl = max ttl (se_absoluteExpiresAtMs s - se_createdAtMs s)" "se_createdAtMs s \<le> now"
    using proper by auto
  let ?r1 = "case rd_get now r (Account_key sf account) of
      Some (V_index p) \<Rightarrow> jm_delete r (Session_key sf p) | _ \<Rightarrow> r"
  have "indexed lib now (rd_set (rd_set ?r1 (Session_key sf i) (V_session written) (now + ttl))
      (Account_key sf account) (V_index i) (now + attl))"
    unfolding s(1,2)
    by (rule indexed_replace [OF ix refl]) (use s(3,4) in \<open>auto simp: s(2) split: option.split redis_value.split\<close>)
  then show ?thesis using ix by (simp add: Sc_create create_script_def Let_def)
next
  case (Sc_rotate sf previous i account written ttl attl)
  then obtain s before where s: "written = session_json s" "account = account_index lib sf (se_accountId s)"
      "attl = max ttl (se_absoluteExpiresAtMs s - before)" "before \<le> now"
    using proper by auto
  have "indexed lib now (rd_set (rd_set (jm_delete r (Session_key sf previous)) (Session_key sf i)
      (V_session written) (now + ttl)) (Account_key sf account) (V_index i) (now + attl))"
    if "rd_get now r (Account_key sf account) = Some (V_index previous)"
    unfolding s(1,2) by (rule indexed_replace [OF ix refl]) (use s(3,4) that in \<open>auto simp: s(2)\<close>)
  then show ?thesis using ix by (simp add: Sc_rotate rotate_script_def Let_def)
next
  case (Sc_delete sf i account written)
  have "indexed lib now r'" if "r' = jm_delete r (Session_key sf i)
      \<or> r' = jm_delete (jm_delete r (Session_key sf i)) (Account_key sf account)
        \<and> rd_get now r (Account_key sf account) = Some (V_index i)" for r'
    by (rule indexed_sub [OF ix])
      (use that in \<open>auto simp: live_def rd_get_def split: if_splits option.splits\<close>)
  then show ?thesis using ix by (simp add: Sc_delete delete_script_def Let_def)
next
  case (Sc_del sf i)
  show ?thesis by (rule indexed_sub [OF ix]) (auto simp: Sc_del live_def split: if_splits)
next
  case (Sc_peek sf i nowMs)
  show ?thesis
    by (rule indexed_sub [OF ix])
      (auto simp: Sc_peek peek_script_def Let_def live_def split: if_splits option.splits redis_value.splits)
next
  case (Sc_touch sf i nowMs idle)
  show ?thesis
    by (rule indexed_sub [OF ix])
      (auto simp: Sc_touch touch_script_def rd_expire_def Let_def live_def
        split: if_splits option.splits redis_value.splits)
next
  case (Sc_admit d1 d2 w a b)
  show ?thesis
    by (rule indexed_sub [OF ix]) (auto simp: Sc_admit admission_script_def Let_def live_def split: if_splits)
next
  case (Sc_success d1 d2)
  show ?thesis
    by (rule indexed_sub [OF ix])
      (auto simp: Sc_success login_success_script_def Let_def live_def split: if_splits option.splits)
qed (use ix in simp)

text \<open>Scripts at their times, in the order Redis runs them.\<close>

fun run_timed :: "session_lib \<Rightarrow> (int \<times> redis_script) list \<Rightarrow> redis \<Rightarrow> redis" where
  "run_timed lib [] r = r"
| "run_timed lib ((t, c) # cs) r = run_timed lib cs (snd (run_script (sl_tonumber lib) t c r))"

lemma indexed_timed:
  assumes "indexed lib t0 r" and "sorted (t0 # map fst cs)"
    and "\<And>t c. (t, c) \<in> set cs \<Longrightarrow> proper lib t c \<and> t \<le> now" and "t0 \<le> now"
  shows "indexed lib now (run_timed lib cs r)"
  using assms
proof (induction cs arbitrary: t0 r)
  case Nil
  then show ?case by (simp add: indexed_later)
next
  case (Cons tc cs)
  obtain t c where tc: "tc = (t, c)" by fastforce
  have now: "proper lib t c" "t \<le> now" using Cons.prems(3) [of t c] by (simp_all add: tc)
  have "t0 \<le> t" using Cons.prems(2) by (simp add: tc)
  then have "indexed lib t (snd (run_script (sl_tonumber lib) t c r))"
    using now indexed_script indexed_later [OF Cons.prems(1)] by blast
  from Cons.IH [OF this _ Cons.prems(3) now(2)] Cons.prems(2) show ?case by (auto simp: tc)
qed

text \<open>
  C6: However the scripts of all API processes interleave in Redis, an account has at most one live
  session on a surface: two live sessions of one account are under the same key. A login on a
  surface ends the session the account had there.
\<close>

theorem one_session_per_account:
  assumes "sorted (map fst cs)" and "\<forall>(t, c) \<in> set cs. proper lib t c \<and> t \<le> now"
    and "r = run_timed lib cs []"
    and "live (sl_tonumber lib) now r sf i (session_json s)"
    and "live (sl_tonumber lib) now r sf j (session_json s')"
    and "se_accountId s = se_accountId s'"
  shows "i = j"
proof -
  have start: "indexed lib t []" for t by (simp add: indexed_def live_def rd_get_def)
  have scripts: "proper lib t c \<and> t \<le> now" if "(t, c) \<in> set cs" for t c using assms(2) that by auto
  have "indexed lib now r"
  proof (cases cs)
    case (Cons tc ds)
    have "sorted (fst tc # map fst cs)" "fst tc \<le> now"
      using assms(1) scripts [of "fst tc" "snd tc"] by (simp_all add: Cons)
    with indexed_timed [OF start] scripts show ?thesis unfolding assms(3) by blast
  qed (simp add: assms(3) start)
  from indexed_index [OF this assms(4)] indexed_index [OF this assms(5)] assms(6) show ?thesis by simp
qed

section \<open>Login attempts are bounded\<close>

abbreviation attempts_key :: "string \<Rightarrow> redis_key" where
  "attempts_key d \<equiv> Rate_key ''identifier'' d"

text \<open>How many attempts on an identifier (by its digest) a run of scripts admits.\<close>

fun admits :: "string \<Rightarrow> redis_script \<Rightarrow> reply \<Rightarrow> bool" where
  "admits d (Sc_admit d' source window a b) answer = (d' = d \<and> answer = R_int 1)"
| "admits d _ answer = False"

fun admitted :: "session_lib \<Rightarrow> string \<Rightarrow> (int \<times> redis_script) list \<Rightarrow> redis \<Rightarrow> nat" where
  "admitted lib d [] r = 0"
| "admitted lib d ((t, c) # cs) r = (case run_script (sl_tonumber lib) t c r of (answer, r') \<Rightarrow>
     (if admits d c answer then 1 else 0) + admitted lib d cs r')"

text \<open>The store's own admissions, and no success on the identifier.\<close>

fun unsuccessful :: "string \<Rightarrow> redis_script \<Rightarrow> bool" where
  "unsuccessful d (Sc_admit d' source window a b) = (window = RATE_WINDOW_MS \<and> a = 5 \<and> b = 30)"
| "unsuccessful d (Sc_success d' source) = (d' \<noteq> d)"
| "unsuccessful d _ = True"

definition attempts_left :: "string \<Rightarrow> int \<Rightarrow> int \<Rightarrow> redis \<Rightarrow> nat" where
  "attempts_left d finish t r = (case jm_get r (attempts_key d) of
     Some (V_count n, e) \<Rightarrow> if t < e then nat (5 - n) + (if e \<le> finish then 5 else 0) else 5
   | _ \<Rightarrow> 5)"

lemma attempts_left_later: "t \<le> t' \<Longrightarrow> t' \<le> finish \<Longrightarrow> attempts_left d finish t' r \<le> attempts_left d finish t r"
  by (auto simp: attempts_left_def split: option.split redis_value.split)

lemma other_counter:
  "unsuccessful d c \<Longrightarrow> (\<And>d' s w a b. c = Sc_admit d' s w a b \<Longrightarrow> d' \<noteq> d) \<Longrightarrow>
     jm_get (snd (run_script tn t c r)) (attempts_key d) = jm_get r (attempts_key d)"
  by (cases c) (auto simp: create_script_def rotate_script_def delete_script_def peek_script_def
      touch_script_def rd_expire_def admission_script_def login_success_script_def Let_def
      split: option.split redis_value.split)

lemma admission_spends:
  assumes "unsuccessful d (Sc_admit d s w a b)" and "t \<le> finish" and "finish < t + RATE_WINDOW_MS"
    and "run_script tn t (Sc_admit d s w a b) r = (answer, r')"
  shows "attempts_left d finish t r' + (if answer = R_int 1 then 1 else 0) \<le> attempts_left d finish t r"
proof (cases "rd_count t r (attempts_key d) \<ge> 5 \<or> rd_count t r (Rate_key ''source'' s) \<ge> 30")
  case True
  then show ?thesis using assms(1,4) by (auto simp: admission_script_def Let_def)
next
  case False
  then have "answer = R_int 1" and r': "r' = rd_incr t (rd_incr t r (attempts_key d) w) (Rate_key ''source'' s) w"
    using assms(1,4) by (auto simp: admission_script_def Let_def)
  moreover have "jm_get r' (attempts_key d) = jm_get (rd_incr t r (attempts_key d) RATE_WINDOW_MS) (attempts_key d)"
    using assms(1) by (simp add: r')
  ultimately show ?thesis
    using False assms(2,3)
    by (auto simp: attempts_left_def rd_incr_def rd_count_def rd_get_def nat_diff_distrib'
        split: option.splits redis_value.splits if_splits)
qed

lemma admitted_left:
  assumes "sorted (t0 # map fst cs)" and "\<And>t c. (t, c) \<in> set cs \<Longrightarrow> unsuccessful d c \<and> t \<le> finish"
    and "finish < t0 + RATE_WINDOW_MS" and "t0 \<le> finish"
  shows "admitted lib d cs r \<le> attempts_left d finish t0 r"
  using assms
proof (induction cs arbitrary: t0 r)
  case (Cons tc cs)
  obtain t c where tc: "tc = (t, c)" by fastforce
  obtain answer r' where run: "run_script (sl_tonumber lib) t c r = (answer, r')" by fastforce
  have t: "unsuccessful d c" "t \<le> finish" "t0 \<le> t" "finish < t + RATE_WINDOW_MS"
    using Cons.prems(1,3) Cons.prems(2) [of t c] by (auto simp: tc)
  have "admitted lib d cs r' \<le> attempts_left d finish t r'"
    by (rule Cons.IH) (use Cons.prems t in \<open>auto simp: tc\<close>)
  moreover have "attempts_left d finish t r' + (if admits d c answer then 1 else 0) \<le> attempts_left d finish t r"
  proof (cases "\<exists>s w a b. c = Sc_admit d s w a b")
    case True
    then show ?thesis using admission_spends [OF _ t(2,4)] t(1) run by fastforce
  next
    case False
    then have "jm_get r' (attempts_key d) = jm_get r (attempts_key d)" "\<not> admits d c answer"
      using other_counter [OF t(1), of "sl_tonumber lib" t r] run by (auto elim: admits.elims)
    then show ?thesis by (simp add: attempts_left_def)
  qed
  moreover have "attempts_left d finish t r \<le> attempts_left d finish t0 r" using t(2,3) by (rule attempts_left_later [rotated])
  ultimately show ?case using run by (simp add: tc)
qed simp

text \<open>
  In any quarter of an hour without a successful login, at most ten attempts on one identifier
  are admitted, over all sources and all API processes; and at most five if the quarter of an hour
  starts with no attempt counted.
\<close>

theorem login_attempts_bounded:
  assumes "sorted (map fst cs)" and "\<forall>(t, c) \<in> set cs. unsuccessful d c \<and> t0 \<le> t \<and> t < t0 + RATE_WINDOW_MS"
    and "0 \<le> rd_count t0 r (attempts_key d)"
  shows "admitted lib d cs r \<le> 10 \<and> (rd_get t0 r (attempts_key d) = None \<longrightarrow> admitted lib d cs r \<le> 5)"
proof -
  let ?finish = "t0 + RATE_WINDOW_MS - 1"
  have "admitted lib d cs r \<le> attempts_left d ?finish t0 r"
    by (rule admitted_left) (use assms(1,2) in \<open>auto simp: RATE_WINDOW_MS_def\<close>)
  moreover have "attempts_left d ?finish t0 r \<le> 10 \<and> (rd_get t0 r (attempts_key d) = None \<longrightarrow> attempts_left d ?finish t0 r \<le> 5)"
    using assms(3) by (auto simp: attempts_left_def rd_count_def rd_get_def split: option.splits redis_value.splits)
  ultimately show ?thesis by linarith
qed

section \<open>Samples\<close>

definition opaque :: "char \<Rightarrow> string" where
  "opaque c = replicate 43 c"

definition sample_session :: access_session where
  "sample_session = \<lparr>se_absoluteExpiresAtMs = 600, se_accountId = ''ann'',
     se_authenticatedAtMs = 0, se_createdAtMs = 0, se_csrfToken = opaque (CHR ''c''),
     se_currentAssignmentId = Some ''desk'', se_reauthenticatedUntilMs = None,
     se_securityRevision = 2, se_sessionId = opaque (CHR ''d''), se_surface = Pc,
     se_workforcePersonId = ''ann''\<rparr>"

lemma sample_session_written:
  "serializeAndValidateSession sample_session Pc = Inr (session_json sample_session)"
  by code_simp


definition sample_session_lib :: session_lib where
  "sample_session_lib = \<lparr>sl_digest = (\<lambda>domain v. domain @ ''/'' @ v), sl_tonumber = (\<lambda>s. None)\<rparr>"

definition two_logins :: "(int \<times> redis_script) list" where
  "two_logins = [
     (0, Sc_create Pc ''first'' ''account:pc/ann'' (session_json sample_session) 300 600),
     (60, Sc_create Pc ''second'' ''account:pc/ann'' (session_json sample_session) 300 600)]"

theorem one_session_per_account_witness:
  "\<not> live (\<lambda>s. None) 100 (run_timed sample_session_lib two_logins []) Pc ''first'' (session_json sample_session)"
proof
  have account: "account_index sample_session_lib Pc (se_accountId sample_session) = ''account:pc/ann''"
    by code_simp
  assume first: "live (\<lambda>s. None) 100 (run_timed sample_session_lib two_logins []) Pc ''first'' (session_json sample_session)"
  have second: "live (sl_tonumber sample_session_lib) 100 (run_timed sample_session_lib two_logins []) Pc ''second''
      (session_json sample_session)"
    unfolding live_session by code_simp
  have "\<forall>(t, c) \<in> set two_logins. proper sample_session_lib t c \<and> t \<le> 100"
    using account by (auto simp: two_logins_def sample_session_def intro!: exI [of _ sample_session])
  moreover have "sorted (map fst two_logins)" by (simp add: two_logins_def)
  ultimately have "''first'' = ''second''"
    using one_session_per_account [OF _ _ refl _ second refl, of "''first''"] first
    by (simp add: sample_session_lib_def)
  then show False by simp
qed

definition six_attempts :: "(int \<times> redis_script) list" where
  "six_attempts = map (\<lambda>t. (t, Sc_admit ''d'' ''s'' RATE_WINDOW_MS 5 30)) [0, 1, 2, 3, 4, 5]"

theorem login_attempts_bounded_witness: "admitted sample_session_lib ''d'' six_attempts [] \<le> 5"
proof -
  have "admitted sample_session_lib ''d'' six_attempts [] \<le> 10
    \<and> (rd_get 0 [] (attempts_key ''d'') = None \<longrightarrow> admitted sample_session_lib ''d'' six_attempts [] \<le> 5)"
  proof (rule login_attempts_bounded)
    show "sorted (map fst six_attempts)" by (simp add: six_attempts_def)
    show "\<forall>(t, c) \<in> set six_attempts. unsuccessful ''d'' c \<and> 0 \<le> t \<and> t < 0 + RATE_WINDOW_MS"
      by (simp add: six_attempts_def RATE_WINDOW_MS_def)
  qed (simp add: rd_count_def rd_get_def)
  moreover have "rd_get 0 [] (attempts_key ''d'') = None" by (simp add: rd_get_def)
  ultimately show ?thesis by blast
qed

end
