(* ===== verification/Workforce.thy ===== *)
theory Workforce
  imports JsLib
begin

text \<open>
  Workforce accounts and their login identifiers (\<open>workforce-access/src/\<close>: \<open>errors.ts\<close>, \<open>types.ts\<close>,
  \<open>store.ts\<close>, \<open>validation.ts\<close>, \<open>memory-store.ts\<close>, \<open>service.ts\<close>). SHA-256, the authorizer, the
  engine's own date formats, \<open>localeCompare\<close> and the order in which a caller wrote the members of a
  command are parameters; other commits may reach the store while a command awaits its authorizer.
\<close>

section \<open>Types\<close>

datatype wa_code = Wa_authorization_denied | Wa_entity_conflict | Wa_entity_not_found
  | Wa_idempotency_conflict | Wa_input_invalid | Wa_login_identifier_occupied
  | Wa_revision_conflict | Wa_state_transition_invalid

text \<open>A \<open>WorkforceAccessError\<close>, or what a dependency threw.\<close>

datatype wa_failure = Wa_error wa_code | Wa_other string

datatype account_status = Account_active | Account_disabled

datatype identifier_kind = Kind_phone | Kind_username

datatype wa_actor_type = Authenticated_subject | System_actor

record wa_actor =
  wc_actorId :: string
  wc_actorType :: wa_actor_type

record wa_metadata =
  wm_actor :: wa_actor
  wm_operationId :: string
  wm_reason :: string
  wm_traceId :: string

record account =
  ac_accountId :: string
  ac_createdAt :: string
  ac_phone :: "string option"
  ac_revision :: int
  ac_securityRevision :: int
  ac_status :: account_status
  ac_updatedAt :: string
  ac_username :: string
  ac_usernameNormalized :: string
  ac_workforcePersonId :: string

record login_identifier =
  li_accountId :: string
  li_identifierId :: string
  li_kind :: identifier_kind
  li_normalizedValue :: string
  li_releasedAt :: "string option"
  li_value :: string

record wa_operation =
  wo_accountId :: string
  wo_fingerprint :: string
  wo_operationId :: string
  wo_recordedAt :: string
  wo_traceId :: string

record create_account = wa_metadata +
  ca_accountId :: string
  ca_createdAt :: string
  ca_phone :: "string option"
  ca_status :: "account_status option"
  ca_username :: string
  ca_workforcePersonId :: string

text \<open>\<open>phone\<close> may be absent, \<open>null\<close> or a text.\<close>

record update_identifiers = wa_metadata +
  ui_accountId :: string
  ui_expectedRevision :: jsnum
  ui_phone :: "string option option"
  ui_updatedAt :: string
  ui_username :: "string option"

record set_status = wa_metadata +
  ss_accountId :: string
  ss_expectedRevision :: jsnum
  ss_status :: account_status
  ss_updatedAt :: string

record release_phone = wa_metadata +
  rp_accountId :: string
  rp_expectedRevision :: jsnum
  rp_phone :: string
  rp_releasedAt :: string

record account_page =
  ap_items :: "account list"
  ap_nextCursor :: "string option"

datatype wa_action = Act_account_create | Act_identity_update | Act_phone_release | Act_status_update

datatype wa_mutation =
    Mut_create account "login_identifier list"
  | Mut_identifiers string int "login_identifier list" "string option option" string "string option" "string option"
  | Mut_status string int account_status string
  | Mut_release string int string string

record wa_commit =
  wk_fingerprint :: string
  wk_operation :: wa_operation
  wk_mutation :: wa_mutation

section \<open>Validation\<close>

definition wa_invalid :: "wa_failure + 'a" where
  "wa_invalid = Inl (Wa_error Wa_input_invalid)"

definition wa_requireId :: "string \<Rightarrow> wa_failure + unit" where
  "wa_requireId v = ensure (uuid_v5 v) (Wa_error Wa_input_invalid)"

definition wa_requireText :: "string \<Rightarrow> nat \<Rightarrow> wa_failure + unit" where
  "wa_requireText v maximum =
     ensure (trim v \<noteq> [] \<and> length v \<le> maximum) (Wa_error Wa_input_invalid)"

definition wa_requireTimestamp :: "(string \<Rightarrow> int option) \<Rightarrow> string \<Rightarrow> wa_failure + unit" where
  "wa_requireTimestamp formats v = ensure (date_parse formats v \<noteq> None) (Wa_error Wa_input_invalid)"

definition username_ok :: "string \<Rightarrow> bool" where
  "username_ok v = shape (alnum @ ''._-'') (alnum @ ''._-'') 3 31 v"

definition normalizeUsername :: "string \<Rightarrow> wa_failure + string" where
  "normalizeUsername v = (if username_ok v then Inr (map char_lower v) else wa_invalid)"

definition phone_ok :: "string \<Rightarrow> bool" where
  "phone_ok v = (let d = (if take 1 v = ''+'' then drop 1 v else v) in
     all_in digits d \<and> 6 \<le> length d \<and> length d \<le> 20)"

definition normalizePhone :: "string \<Rightarrow> wa_failure + string" where
  "normalizePhone v =
     (let normalized = filter (\<lambda>c. c \<notin> set '' -'') v in
      if phone_ok normalized then Inr normalized else wa_invalid)"

section \<open>The store\<close>

record wa_store =
  ws_accounts :: "(string, account) jsmap"
  ws_identifiers :: "(string, login_identifier) jsmap"
  ws_operations :: "(string, string) jsmap"

definition emptyWorkforceStore :: wa_store where
  "emptyWorkforceStore = \<lparr>ws_accounts = [], ws_identifiers = [], ws_operations = []\<rparr>"

definition wa_occupy ::
  "login_identifier \<Rightarrow> (string, login_identifier) jsmap \<Rightarrow> wa_failure + (string, login_identifier) jsmap" where
  "wa_occupy item identifiers =
     (let matches = filter (\<lambda>x. li_kind x = li_kind item \<and>
            li_normalizedValue x = li_normalizedValue item) (jm_values identifiers) in
      if list_ex (\<lambda>x. li_releasedAt x = None) matches \<or> li_kind item = Kind_username \<and> matches \<noteq> []
      then Inl (Wa_error Wa_login_identifier_occupied)
      else Inr (jm_set identifiers (li_identifierId item) item))"

fun wa_occupy_all ::
  "login_identifier list \<Rightarrow> (string, login_identifier) jsmap \<Rightarrow> wa_failure + (string, login_identifier) jsmap" where
  "wa_occupy_all [] identifiers = Inr identifiers"
| "wa_occupy_all (item # items) identifiers =
     bindE (wa_occupy item identifiers) (wa_occupy_all items)"

definition wa_create :: "account \<Rightarrow> login_identifier list \<Rightarrow> wa_store \<Rightarrow> wa_failure + wa_store" where
  "wa_create a items s =
     (if jm_has (ws_accounts s) (ac_accountId a) \<or>
         list_ex (\<lambda>x. ac_workforcePersonId x = ac_workforcePersonId a) (jm_values (ws_accounts s))
      then Inl (Wa_error Wa_entity_conflict)
      else bindE (wa_occupy_all items (ws_identifiers s)) (\<lambda>ids.
        Inr (s\<lparr>ws_identifiers := ids, ws_accounts := jm_set (ws_accounts s) (ac_accountId a) a\<rparr>)))"

text \<open>The first entry of the map that satisfies the test.\<close>

definition find_entry :: "('v \<Rightarrow> bool) \<Rightarrow> ('k, 'v) jsmap \<Rightarrow> ('k \<times> 'v) option" where
  "find_entry p m = find (\<lambda>e. p (snd e)) m"

definition wa_release :: "account \<Rightarrow> string \<Rightarrow> string \<Rightarrow> wa_store \<Rightarrow> wa_failure + wa_store" where
  "wa_release current normalizedPhone releasedAt s =
     (case find_entry (\<lambda>x. li_accountId x = ac_accountId current \<and> li_kind x = Kind_phone \<and>
            li_normalizedValue x = normalizedPhone \<and> li_releasedAt x = None) (ws_identifiers s) of
        None \<Rightarrow> Inl (Wa_error Wa_state_transition_invalid)
      | Some (key, x) \<Rightarrow>
          if ac_phone current = Some (li_value x) then Inl (Wa_error Wa_state_transition_invalid)
          else Inr (s\<lparr>ws_identifiers :=
            jm_set (ws_identifiers s) key (x\<lparr>li_releasedAt := Some releasedAt\<rparr>)\<rparr>))"

text \<open>The account after an update of its identifiers: absent members keep their value.\<close>

definition with_identifiers ::
  "string option option \<Rightarrow> string \<Rightarrow> string option \<Rightarrow> string option \<Rightarrow> account \<Rightarrow> account" where
  "with_identifiers phone updatedAt username normalized a =
     (let b = (case username of None \<Rightarrow> a | Some u \<Rightarrow> a\<lparr>ac_username := u, ac_usernameNormalized :=
            (case normalized of None \<Rightarrow> ac_usernameNormalized a | Some n \<Rightarrow> n)\<rparr>);
          c = (case phone of None \<Rightarrow> b | Some p \<Rightarrow> b\<lparr>ac_phone := p\<rparr>) in
      c\<lparr>ac_revision := ac_revision a + 1, ac_updatedAt := updatedAt\<rparr>)"

definition wa_identify ::
  "account \<Rightarrow> login_identifier list \<Rightarrow> string option option \<Rightarrow> string \<Rightarrow> string option \<Rightarrow>
   string option \<Rightarrow> wa_store \<Rightarrow> wa_failure + wa_store" where
  "wa_identify current items phone updatedAt username normalized s =
     bindE (wa_occupy_all items (ws_identifiers s)) (\<lambda>ids.
       Inr (s\<lparr>ws_identifiers := ids, ws_accounts := jm_set (ws_accounts s) (ac_accountId current)
         (with_identifiers phone updatedAt username normalized current)\<rparr>))"

definition with_status :: "account_status \<Rightarrow> string \<Rightarrow> account \<Rightarrow> account" where
  "with_status status updatedAt a = a\<lparr>ac_securityRevision := ac_securityRevision a + 1,
     ac_status := status, ac_revision := ac_revision a + 1, ac_updatedAt := updatedAt\<rparr>"

text \<open>The branches that change an existing account: it must be there, at the expected revision.\<close>

definition wa_current :: "string \<Rightarrow> int \<Rightarrow> wa_store \<Rightarrow> wa_failure + account" where
  "wa_current accountId expectedRevision s = (case jm_get (ws_accounts s) accountId of
     None \<Rightarrow> Inl (Wa_error Wa_entity_not_found)
   | Some a \<Rightarrow> if ac_revision a \<noteq> expectedRevision then Inl (Wa_error Wa_revision_conflict) else Inr a)"

fun wa_mutate :: "wa_mutation \<Rightarrow> wa_store \<Rightarrow> wa_failure + wa_store" where
  "wa_mutate (Mut_create a items) s = wa_create a items s"
| "wa_mutate (Mut_release i n phone moment) s =
     bindE (wa_current i n s) (\<lambda>a. wa_release a phone moment s)"
| "wa_mutate (Mut_identifiers i n items phone moment username normalized) s =
     bindE (wa_current i n s) (\<lambda>a. wa_identify a items phone moment username normalized s)"
| "wa_mutate (Mut_status i n status moment) s =
     bindE (wa_current i n s) (\<lambda>a.
       Inr (s\<lparr>ws_accounts := jm_set (ws_accounts s) (ac_accountId a) (with_status status moment a)\<rparr>))"

text \<open>
  \<open>commit\<close> works on copies of the maps and writes them back at the end, so a failure changes nothing.
\<close>

definition wa_store_commit :: "wa_commit \<Rightarrow> (wa_store, wa_failure, bool) act" where
  "wa_store_commit c s =
     (let oid = wo_operationId (wk_operation c) in
      case jm_get (ws_operations s) oid of
        Some prior \<Rightarrow> if prior \<noteq> wk_fingerprint c then (Inl (Wa_error Wa_idempotency_conflict), s)
                      else (Inr True, s)
      | None \<Rightarrow> (case wa_mutate (wk_mutation c) s of
          Inl e \<Rightarrow> (Inl e, s)
        | Inr t \<Rightarrow> (Inr False, t\<lparr>ws_operations := jm_set (ws_operations t) oid (wk_fingerprint c)\<rparr>)))"

definition wa_findAccount :: "string \<Rightarrow> wa_store \<Rightarrow> account option" where
  "wa_findAccount i s = jm_get (ws_accounts s) i"

definition wa_findIdentifier :: "identifier_kind \<Rightarrow> string \<Rightarrow> wa_store \<Rightarrow> login_identifier option" where
  "wa_findIdentifier kind normalized s = find (\<lambda>x. li_kind x = kind \<and>
     li_normalizedValue x = normalized \<and> li_releasedAt x = None) (jm_values (ws_identifiers s))"

definition wa_history :: "string \<Rightarrow> wa_store \<Rightarrow> login_identifier list" where
  "wa_history i s = filter (\<lambda>x. li_accountId x = i) (jm_values (ws_identifiers s))"

definition wa_page ::
  "(string \<Rightarrow> string \<Rightarrow> bool) \<Rightarrow> string option \<Rightarrow> nat \<Rightarrow> account_status option \<Rightarrow> wa_store \<Rightarrow> account_page" where
  "wa_page before cursor limit status s =
     (let rows = filter (\<lambda>a. case cursor of None \<Rightarrow> True | Some c \<Rightarrow> str_lt c (ac_accountId a))
            (sort_by (\<lambda>a b. before (ac_accountId a) (ac_accountId b))
              (filter (\<lambda>a. status = None \<or> status = Some (ac_status a)) (jm_values (ws_accounts s))));
          items = take limit rows in
      \<lparr>ap_items = items,
       ap_nextCursor = (if length rows > limit then Some (ac_accountId (List.last items)) else None)\<rparr>)"

section \<open>The service\<close>

record wa_env =
  we_sha256 :: "string \<Rightarrow> string"
  we_formats :: "string \<Rightarrow> int option"
  we_before :: "string \<Rightarrow> string \<Rightarrow> bool"
  we_order :: "(string \<times> json) list \<Rightarrow> (string \<times> json) list"
  we_authorize :: "string \<Rightarrow> wa_action \<Rightarrow> wa_actor \<Rightarrow> string \<Rightarrow> wa_failure option"
  we_others :: "wa_commit list"

type_synonym 'a wa_act = "(wa_store, wa_failure, 'a) act"

definition wa_authorize :: "wa_env \<Rightarrow> wa_metadata \<Rightarrow> string \<Rightarrow> wa_action \<Rightarrow> unit wa_act" where
  "wa_authorize env m accountId action s =
     (let t = run_all wa_store_commit (we_others env) s in
      case we_authorize env accountId action (wm_actor m) (wm_operationId m) of
        Some e \<Rightarrow> (Inl e, t) | None \<Rightarrow> (Inr (), t))"

definition wa_metadata_ok :: "wa_metadata \<Rightarrow> wa_failure + unit" where
  "wa_metadata_ok m =
     bindE (wa_requireId (wm_operationId m)) (\<lambda>_.
     bindE (wa_requireText (wc_actorId (wm_actor m)) 500) (\<lambda>_.
     bindE (wa_requireText (wm_reason m) 500) (\<lambda>_.
     wa_requireText (wm_traceId m) 128)))"

definition wa_revision :: "jsnum \<Rightarrow> wa_failure + unit" where
  "wa_revision v = ensure (isSafeInteger v \<and> 0 \<le> num_int v) (Wa_error Wa_input_invalid)"

text \<open>The command's members that the fingerprint covers: all but \<open>operationId\<close> and \<open>traceId\<close>.\<close>

definition wa_actor_json :: "wa_actor \<Rightarrow> json" where
  "wa_actor_json a = J_obj [(''actorId'', J_str (wc_actorId a)),
     (''actorType'', J_str (case wc_actorType a of Authenticated_subject \<Rightarrow> ''authenticated_subject''
        | System_actor \<Rightarrow> ''system''))]"

fun status_name :: "account_status \<Rightarrow> string" where
  "status_name Account_active = ''active''"
| "status_name Account_disabled = ''disabled''"

fun kind_name :: "identifier_kind \<Rightarrow> string" where
  "kind_name Kind_phone = ''phone''"
| "kind_name Kind_username = ''username''"

definition wa_fingerprint :: "wa_env \<Rightarrow> wa_metadata \<Rightarrow> (string \<times> json) list \<Rightarrow> string" where
  "wa_fingerprint env m members = we_sha256 env (stringify (J_obj (we_order env
     ([(''actor'', wa_actor_json (wm_actor m)), (''reason'', J_str (wm_reason m))] @ members))))"

definition wa_commit_of ::
  "wa_env \<Rightarrow> wa_metadata \<Rightarrow> (string \<times> json) list \<Rightarrow> account \<Rightarrow> wa_mutation \<Rightarrow> wa_commit" where
  "wa_commit_of env m members a mutation =
     (let fp = wa_fingerprint env m members in
      \<lparr>wk_fingerprint = fp, wk_operation = \<lparr>wo_accountId = ac_accountId a, wo_fingerprint = fp,
         wo_operationId = wm_operationId m, wo_recordedAt = (case mutation of
            Mut_create _ _ \<Rightarrow> ac_createdAt a
          | Mut_identifiers _ _ _ _ moment _ _ \<Rightarrow> moment
          | Mut_status _ _ _ moment \<Rightarrow> moment
          | Mut_release _ _ _ moment \<Rightarrow> moment), wo_traceId = wm_traceId m\<rparr>,
       wk_mutation = mutation\<rparr>)"

text \<open>The identifier's id is cut from a digest: \<open>8-4-4xxx-8xxx-12\<close>.\<close>

definition identifier_id :: "(string \<Rightarrow> string) \<Rightarrow> string \<Rightarrow> identifier_kind \<Rightarrow> string \<Rightarrow> string" where
  "identifier_id sha operationId kind normalized =
     (let hex = sha (operationId @ '':'' @ kind_name kind @ '':'' @ normalized);
          slice = (\<lambda>i j. take (j - i) (drop i hex)) in
      slice 0 8 @ ''-'' @ slice 8 12 @ ''-4'' @ slice 13 16 @ ''-8'' @ slice 17 20 @ ''-'' @ slice 20 32)"

definition new_identifier ::
  "wa_env \<Rightarrow> string \<Rightarrow> identifier_kind \<Rightarrow> string \<Rightarrow> string \<Rightarrow> string \<Rightarrow> login_identifier" where
  "new_identifier env accountId kind v normalized operationId =
     \<lparr>li_accountId = accountId,
      li_identifierId = identifier_id (we_sha256 env) operationId kind normalized, li_kind = kind,
      li_normalizedValue = normalized, li_releasedAt = None, li_value = v\<rparr>"

definition wa_getAccount :: "string \<Rightarrow> account wa_act" where
  "wa_getAccount i =
     bindA (liftA (wa_requireId i)) (\<lambda>_.
     (\<lambda>s. requireA (wa_findAccount i s) (Wa_error Wa_entity_not_found) s))"

definition optE :: "('a \<Rightarrow> 'e + 'b) \<Rightarrow> 'a option \<Rightarrow> 'e + 'b option" where
  "optE f v = (case v of None \<Rightarrow> Inr None | Some x \<Rightarrow> bindE (f x) (\<lambda>y. Inr (Some y)))"

text \<open>The new account and its identifiers, from the command.\<close>

definition created_account :: "create_account \<Rightarrow> string \<Rightarrow> string option \<Rightarrow> account" where
  "created_account c usernameNormalized phone =
     \<lparr>ac_accountId = ca_accountId c, ac_createdAt = ca_createdAt c, ac_phone = phone,
      ac_revision = 0, ac_securityRevision = 0,
      ac_status = (case ca_status c of None \<Rightarrow> Account_active | Some st \<Rightarrow> st),
      ac_updatedAt = ca_createdAt c, ac_username = ca_username c,
      ac_usernameNormalized = usernameNormalized, ac_workforcePersonId = ca_workforcePersonId c\<rparr>"

definition created_identifiers ::
  "wa_env \<Rightarrow> create_account \<Rightarrow> string \<Rightarrow> string option \<Rightarrow> login_identifier list" where
  "created_identifiers env c usernameNormalized phone =
     new_identifier env (ca_accountId c) Kind_username (ca_username c) usernameNormalized (wm_operationId c)
     # (case phone of None \<Rightarrow> []
        | Some p \<Rightarrow> [new_identifier env (ca_accountId c) Kind_phone p p (wm_operationId c)])"

definition create_members :: "create_account \<Rightarrow> (string \<times> json) list" where
  "create_members c = [(''accountId'', J_str (ca_accountId c)), (''createdAt'', J_str (ca_createdAt c))]
     @ j_opt ''phone'' (ca_phone c) @ j_opt ''status'' (map_option status_name (ca_status c))
     @ [(''username'', J_str (ca_username c)), (''workforcePersonId'', J_str (ca_workforcePersonId c))]"

definition wa_createAccount :: "wa_env \<Rightarrow> create_account \<Rightarrow> account wa_act" where
  "wa_createAccount env c =
     bindA (liftA (wa_metadata_ok (wa_metadata.truncate c))) (\<lambda>_.
     bindA (liftA (wa_requireId (ca_accountId c))) (\<lambda>_.
     bindA (liftA (wa_requireId (ca_workforcePersonId c))) (\<lambda>_.
     bindA (liftA (wa_requireTimestamp (we_formats env) (ca_createdAt c))) (\<lambda>_.
     bindA (liftA (normalizeUsername (ca_username c))) (\<lambda>usernameNormalized.
     bindA (liftA (optE normalizePhone (ca_phone c))) (\<lambda>phone.
     bindA (wa_authorize env (wa_metadata.truncate c) (ca_accountId c) Act_account_create) (\<lambda>_.
     let a = created_account c usernameNormalized phone in
     bindA (wa_store_commit (wa_commit_of env (wa_metadata.truncate c) (create_members c) a
       (Mut_create a (created_identifiers env c usernameNormalized phone)))) (\<lambda>_.
     wa_getAccount (ca_accountId c)))))))))"

definition wa_listAccounts ::
  "wa_env \<Rightarrow> string option \<Rightarrow> jsnum option \<Rightarrow> account_status option \<Rightarrow> account_page wa_act" where
  "wa_listAccounts env cursor limit status =
     (let n = (case limit of None \<Rightarrow> Fin 50 | Some l \<Rightarrow> l) in
      bindA (ensureA (isSafeInteger n \<and> 1 \<le> num_int n \<and> num_int n \<le> 200) (Wa_error Wa_input_invalid)) (\<lambda>_.
      bindA (liftA (optE wa_requireId cursor)) (\<lambda>_.
      getsA (wa_page (we_before env) cursor (nat (num_int n)) status))))"

definition wa_listIdentifierHistory :: "string \<Rightarrow> login_identifier list wa_act" where
  "wa_listIdentifierHistory i = bindA (wa_getAccount i) (\<lambda>_. getsA (wa_history i))"

text \<open>The identifiers an update occupies: those the account did not have when it was read.\<close>

definition changed_identifiers ::
  "wa_env \<Rightarrow> update_identifiers \<Rightarrow> account \<Rightarrow> string option \<Rightarrow> string option option \<Rightarrow> login_identifier list" where
  "changed_identifiers env c current usernameNormalized phone =
     (case (ui_username c, usernameNormalized) of
        (Some u, Some n) \<Rightarrow> if n \<noteq> ac_usernameNormalized current
          then [new_identifier env (ui_accountId c) Kind_username u n (wm_operationId c)] else []
      | _ \<Rightarrow> [])
     @ (case phone of
          Some (Some p) \<Rightarrow> if ac_phone current \<noteq> Some p
            then [new_identifier env (ui_accountId c) Kind_phone p p (wm_operationId c)] else []
        | _ \<Rightarrow> [])"

definition update_members :: "update_identifiers \<Rightarrow> (string \<times> json) list" where
  "update_members c = [(''accountId'', J_str (ui_accountId c)),
       (''expectedRevision'', J_int (num_int (ui_expectedRevision c)))]
     @ (case ui_phone c of None \<Rightarrow> [] | Some None \<Rightarrow> [(''phone'', J_null)]
        | Some (Some p) \<Rightarrow> [(''phone'', J_str p)])
     @ [(''updatedAt'', J_str (ui_updatedAt c))] @ j_opt ''username'' (ui_username c)"

definition wa_updateLoginIdentifiers :: "wa_env \<Rightarrow> update_identifiers \<Rightarrow> account wa_act" where
  "wa_updateLoginIdentifiers env c =
     bindA (liftA (wa_metadata_ok (wa_metadata.truncate c))) (\<lambda>_.
     bindA (liftA (wa_requireId (ui_accountId c))) (\<lambda>_.
     bindA (liftA (wa_requireTimestamp (we_formats env) (ui_updatedAt c))) (\<lambda>_.
     bindA (liftA (wa_revision (ui_expectedRevision c))) (\<lambda>_.
     bindA (ensureA (ui_username c \<noteq> None \<or> ui_phone c \<noteq> None) (Wa_error Wa_input_invalid)) (\<lambda>_.
     bindA (wa_getAccount (ui_accountId c)) (\<lambda>current.
     bindA (liftA (optE normalizeUsername (ui_username c))) (\<lambda>usernameNormalized.
     bindA (liftA (optE (optE normalizePhone) (ui_phone c))) (\<lambda>phone.
     bindA (wa_authorize env (wa_metadata.truncate c) (ui_accountId c) Act_identity_update) (\<lambda>_.
     bindA (wa_store_commit (wa_commit_of env (wa_metadata.truncate c) (update_members c) current
       (Mut_identifiers (ui_accountId c) (num_int (ui_expectedRevision c))
         (changed_identifiers env c current usernameNormalized phone) phone (ui_updatedAt c)
         (ui_username c) usernameNormalized))) (\<lambda>_.
     wa_getAccount (ui_accountId c)))))))))))"

definition status_members :: "set_status \<Rightarrow> (string \<times> json) list" where
  "status_members c = [(''accountId'', J_str (ss_accountId c)),
     (''expectedRevision'', J_int (num_int (ss_expectedRevision c))),
     (''status'', J_str (status_name (ss_status c))), (''updatedAt'', J_str (ss_updatedAt c))]"

definition wa_setStatus :: "wa_env \<Rightarrow> set_status \<Rightarrow> account wa_act" where
  "wa_setStatus env c =
     bindA (liftA (wa_metadata_ok (wa_metadata.truncate c))) (\<lambda>_.
     bindA (liftA (wa_requireId (ss_accountId c))) (\<lambda>_.
     bindA (liftA (wa_requireTimestamp (we_formats env) (ss_updatedAt c))) (\<lambda>_.
     bindA (liftA (wa_revision (ss_expectedRevision c))) (\<lambda>_.
     bindA (wa_getAccount (ss_accountId c)) (\<lambda>current.
     bindA (wa_authorize env (wa_metadata.truncate c) (ss_accountId c) Act_status_update) (\<lambda>_.
     bindA (wa_store_commit (wa_commit_of env (wa_metadata.truncate c) (status_members c) current
       (Mut_status (ss_accountId c) (num_int (ss_expectedRevision c)) (ss_status c) (ss_updatedAt c)))) (\<lambda>_.
     wa_getAccount (ss_accountId c))))))))"

definition release_members :: "release_phone \<Rightarrow> (string \<times> json) list" where
  "release_members c = [(''accountId'', J_str (rp_accountId c)),
     (''expectedRevision'', J_int (num_int (rp_expectedRevision c))),
     (''phone'', J_str (rp_phone c)), (''releasedAt'', J_str (rp_releasedAt c))]"

definition wa_releasePhone :: "wa_env \<Rightarrow> release_phone \<Rightarrow> unit wa_act" where
  "wa_releasePhone env c =
     bindA (liftA (wa_metadata_ok (wa_metadata.truncate c))) (\<lambda>_.
     bindA (liftA (wa_requireId (rp_accountId c))) (\<lambda>_.
     bindA (liftA (wa_requireTimestamp (we_formats env) (rp_releasedAt c))) (\<lambda>_.
     bindA (liftA (wa_revision (rp_expectedRevision c))) (\<lambda>_.
     bindA (wa_getAccount (rp_accountId c)) (\<lambda>current.
     bindA (wa_authorize env (wa_metadata.truncate c) (rp_accountId c) Act_phone_release) (\<lambda>_.
     bindA (liftA (normalizePhone (rp_phone c))) (\<lambda>phone.
     voidA (wa_store_commit (wa_commit_of env (wa_metadata.truncate c) (release_members c) current
       (Mut_release (rp_accountId c) (num_int (rp_expectedRevision c)) phone (rp_releasedAt c)))))))))))"

end
