(* ===== verification/WorkforceProps.thy ===== *)
theory WorkforceProps
  imports Workforce
begin

text \<open>
  What the workforce accounts promise: commits are idempotent; login identifiers are exclusive;
  an account keeps its identity and every change of its status shows in its security revision; and
  no two accounts share a user name or a phone number.
\<close>

section \<open>The store's operation log\<close>

lemma wa_release_Inr:
  "wa_release a p moment s = Inr t \<longleftrightarrow> (\<exists>k x. find_entry (\<lambda>x. li_accountId x = ac_accountId a \<and>
       li_kind x = Kind_phone \<and> li_normalizedValue x = p \<and> li_releasedAt x = None) (ws_identifiers s) = Some (k, x)
     \<and> ac_phone a \<noteq> Some (li_value x)
     \<and> t = s\<lparr>ws_identifiers := jm_set (ws_identifiers s) k (x\<lparr>li_releasedAt := Some moment\<rparr>)\<rparr>)"
  by (auto simp: wa_release_def split: option.splits)

lemma wa_current_Inr:
  "wa_current i n s = Inr a \<longleftrightarrow> jm_get (ws_accounts s) i = Some a \<and> ac_revision a = n"
  by (auto simp: wa_current_def split: option.splits)

lemmas mutation_cases = wa_create_def wa_release_Inr wa_identify_def wa_current_Inr bindE_eq_Inr

interpretation wa_log: idempotent_store
  wa_store_commit "\<lambda>c. wo_operationId (wk_operation c)" wk_fingerprint ws_operations
  "Wa_error Wa_idempotency_conflict"
proof
  have log: "wa_mutate m s = Inr t \<Longrightarrow> ws_operations t = ws_operations s" for m s t
    by (cases m) (auto simp: mutation_cases split: if_splits)
  show "jm_get (ws_operations s) (wo_operationId (wk_operation c)) = None \<Longrightarrow>
      wa_store_commit c s = (Inr b, t) \<Longrightarrow>
      \<not> b \<and> ws_operations t = jm_set (ws_operations s) (wo_operationId (wk_operation c)) (wk_fingerprint c)"
    for c s b t by (auto simp: wa_store_commit_def Let_def log split: sum.splits)
qed (auto simp: wa_store_commit_def Let_def split: option.splits sum.splits if_splits)

section \<open>A fact of the store that every mutation keeps\<close>

datatype wa_command =
    Do_create create_account
  | Do_get string
  | Do_list "string option" "jsnum option" "account_status option"
  | Do_history string
  | Do_update update_identifiers
  | Do_status set_status
  | Do_release release_phone

fun wa_exec :: "wa_env \<times> wa_command \<Rightarrow> unit wa_act" where
  "wa_exec (env, Do_create c) = voidA (wa_createAccount env c)"
| "wa_exec (env, Do_get i) = voidA (wa_getAccount i)"
| "wa_exec (env, Do_list cursor limit st) = voidA (wa_listAccounts env cursor limit st)"
| "wa_exec (env, Do_history i) = voidA (wa_listIdentifierHistory i)"
| "wa_exec (env, Do_update c) = voidA (wa_updateLoginIdentifiers env c)"
| "wa_exec (env, Do_status c) = voidA (wa_setStatus env c)"
| "wa_exec (env, Do_release c) = wa_releasePhone env c"

locale wa_fact =
  fixes fact :: "wa_store \<Rightarrow> bool"
  assumes mutate_keeps: "fact s \<Longrightarrow> wa_mutate m s = Inr t \<Longrightarrow> fact (t\<lparr>ws_operations := ops\<rparr>)"
begin

lemma commit_keeps [keeps]: "keepsA fact (wa_store_commit c)"
  by (auto simp: keepsA_def wa_store_commit_def Let_def split: option.split sum.split intro: mutate_keeps)

lemma others_keep: "fact s \<Longrightarrow> fact (run_all wa_store_commit cs s)"
  by (induction cs arbitrary: s) (auto intro: keepsA_D [OF commit_keeps])

lemma authorize_keeps [keeps]: "keepsA fact (wa_authorize env m i a)"
  by (auto simp: keepsA_def wa_authorize_def Let_def others_keep split: option.split)

lemma get_keeps [keeps]: "keepsA fact (wa_getAccount i)"
  unfolding wa_getAccount_def by (intro keeps) (simp add: keepsA_def requireA_def split: option.split)

lemma command_keeps:
  "keepsA fact (wa_createAccount env c1)" "keepsA fact (wa_listAccounts env cursor limit st)"
  "keepsA fact (wa_listIdentifierHistory i)" "keepsA fact (wa_updateLoginIdentifiers env c2)"
  "keepsA fact (wa_setStatus env c3)" "keepsA fact (wa_releasePhone env c4)"
  unfolding wa_createAccount_def wa_listAccounts_def wa_listIdentifierHistory_def
    wa_updateLoginIdentifiers_def wa_setStatus_def wa_releasePhone_def
  by (intro keeps keepsA_voidA)+

lemma exec_keeps: "keepsA fact (wa_exec c)"
  by (cases c rule: wa_exec.cases) (auto intro: keepsA_voidA command_keeps get_keeps)

end

sublocale wa_fact < service: guarded_machine wa_exec fact
  by unfold_locales (rule keepsA_D [OF exec_keeps])

section \<open>Login identifiers are exclusive\<close>

definition identifiers_ok :: "wa_store \<Rightarrow> bool" where
  "identifiers_ok s \<longleftrightarrow> jm_ok (ws_identifiers s) \<and>
     (\<forall>k x. jm_get (ws_identifiers s) k = Some x \<longrightarrow> li_identifierId x = k) \<and>
     (\<forall>k x l y. jm_get (ws_identifiers s) k = Some x \<longrightarrow> jm_get (ws_identifiers s) l = Some y \<longrightarrow>
        k \<noteq> l \<longrightarrow> li_kind x = li_kind y \<longrightarrow> li_normalizedValue x = li_normalizedValue y \<longrightarrow>
        li_kind x = Kind_phone \<and> (li_releasedAt x \<noteq> None \<or> li_releasedAt y \<noteq> None))"

lemma identifiers_okD:
  "identifiers_ok s \<Longrightarrow> jm_get (ws_identifiers s) k = Some x \<Longrightarrow> jm_get (ws_identifiers s) l = Some y \<Longrightarrow>
    k \<noteq> l \<Longrightarrow> li_kind x = li_kind y \<Longrightarrow> li_normalizedValue x = li_normalizedValue y \<Longrightarrow>
    li_kind x = Kind_phone \<and> (li_releasedAt x \<noteq> None \<or> li_releasedAt y \<noteq> None)"
  unfolding identifiers_ok_def by blast

lemma identifiers_ok_cong [simp]:
  "identifiers_ok (s\<lparr>ws_accounts := a\<rparr>) = identifiers_ok s"
  "identifiers_ok (s\<lparr>ws_operations := ops\<rparr>) = identifiers_ok s"
  by (simp_all add: identifiers_ok_def)

lemma occupy_ok:
  assumes "wa_occupy item ids = Inr ids'" and "identifiers_ok (s\<lparr>ws_identifiers := ids\<rparr>)"
  shows "identifiers_ok (s\<lparr>ws_identifiers := ids'\<rparr>)"
proof -
  let ?ms = "filter (\<lambda>x. li_kind x = li_kind item \<and> li_normalizedValue x = li_normalizedValue item) (jm_values ids)"
  have ids': "ids' = jm_set ids (li_identifierId item) item"
    and none: "\<not> list_ex (\<lambda>x. li_releasedAt x = None) ?ms" "li_kind item = Kind_username \<longrightarrow> ?ms = []"
    using assms(1) by (auto simp: wa_occupy_def Let_def split: if_splits)
  have free: "li_kind item = Kind_phone \<and> li_releasedAt x \<noteq> None"
    if "jm_get ids k = Some x" "li_kind x = li_kind item" "li_normalizedValue x = li_normalizedValue item" for k x
  proof -
    have "x \<in> set ?ms" using that jm_get_in_values by fastforce
    with none show ?thesis by (cases "li_kind item") (auto simp: list_ex_iff)
  qed
  show ?thesis
    using assms(2) free unfolding ids' identifiers_ok_def by (auto split: if_splits)
qed

lemma occupy_all_ok:
  "wa_occupy_all items ids = Inr ids' \<Longrightarrow> identifiers_ok (s\<lparr>ws_identifiers := ids\<rparr>) \<Longrightarrow>
    identifiers_ok (s\<lparr>ws_identifiers := ids'\<rparr>)"
  by (induction items arbitrary: ids) (auto simp: bindE_eq_Inr intro: occupy_ok)

lemma find_entry_get:
  assumes "find_entry p m = Some (k, x)" and "jm_ok m"
  shows "jm_get m k = Some x \<and> p x"
proof -
  obtain i where i: "i < length m" "p (snd (m ! i))" "(k, x) = m ! i"
    using assms(1) by (auto simp: find_entry_def find_Some_iff)
  then have "(k, x) \<in> set m" "p x" by (metis nth_mem, metis snd_conv)
  with assms(2) show ?thesis by (simp add: jm_ok_def jm_get_def)
qed

lemma mutate_identifiers_ok:
  assumes "wa_mutate m s = Inr t" and "identifiers_ok s"
  shows "identifiers_ok t"
proof -
  have same: "s\<lparr>ws_identifiers := ws_identifiers s\<rparr> = s" by simp
  have release: "identifiers_ok (s\<lparr>ws_identifiers := jm_set (ws_identifiers s) k (x\<lparr>li_releasedAt := Some r\<rparr>)\<rparr>)"
    if "jm_get (ws_identifiers s) k = Some x" "li_kind x = Kind_phone" for k x r
    using that assms(2) by (auto simp: identifiers_ok_def split: if_splits)
  have ok: "jm_ok (ws_identifiers s)" using assms(2) by (simp add: identifiers_ok_def)
  show ?thesis
    using assms occupy_all_ok [of _ "ws_identifiers s" _ s]
    by (cases m) (auto simp: mutation_cases split: if_splits dest!: find_entry_get [OF _ ok]
        intro: release)
qed

interpretation exclusive: wa_fact identifiers_ok
  by unfold_locales (simp add: mutate_identifiers_ok)


section \<open>An account keeps its identity\<close>

definition later_account :: "account \<Rightarrow> account \<Rightarrow> bool" where
  "later_account a b \<longleftrightarrow> ac_accountId b = ac_accountId a \<and> ac_createdAt b = ac_createdAt a
     \<and> ac_workforcePersonId b = ac_workforcePersonId a
     \<and> ac_revision a \<le> ac_revision b \<and> ac_securityRevision a \<le> ac_securityRevision b
     \<and> (ac_status b \<noteq> ac_status a \<longrightarrow> ac_securityRevision a < ac_securityRevision b)
     \<and> (b \<noteq> a \<longrightarrow> ac_revision a < ac_revision b)"

definition account_stays :: "string \<Rightarrow> account \<Rightarrow> wa_store \<Rightarrow> bool" where
  "account_stays i a s \<longleftrightarrow> (\<forall>k x. jm_get (ws_accounts s) k = Some x \<longrightarrow> ac_accountId x = k)
     \<and> (\<exists>b. jm_get (ws_accounts s) i = Some b \<and> later_account a b)"

lemma with_identifiers_later: "later_account a b \<Longrightarrow> later_account a (with_identifiers p m u n b)"
  by (auto simp: later_account_def with_identifiers_def Let_def split: option.splits)

lemma with_status_later: "later_account a b \<Longrightarrow> later_account a (with_status st m b)"
  by (auto simp: later_account_def with_status_def)

lemma with_id [simp]:
  "ac_accountId (with_identifiers p m u n b) = ac_accountId b"
  "ac_accountId (with_status st m b) = ac_accountId b"
  by (simp_all add: with_identifiers_def with_status_def Let_def split: option.split)

interpretation identity: wa_fact "account_stays i a" for i a
proof
  fix s m t ops
  assume s: "account_stays i a s" and t: "wa_mutate m s = Inr t"
  then show "account_stays i a (t\<lparr>ws_operations := ops\<rparr>)"
    by (cases m) (auto simp: mutation_cases account_stays_def with_identifiers_later with_status_later
        split: if_splits)
qed

definition keyed :: "wa_store \<Rightarrow> bool" where
  "keyed s \<longleftrightarrow> (\<forall>k x. jm_get (ws_accounts s) k = Some x \<longrightarrow> ac_accountId x = k)"

interpretation keyed: wa_fact keyed
proof
  fix s m t ops
  assume "keyed s" and "wa_mutate m s = Inr t"
  then show "keyed (t\<lparr>ws_operations := ops\<rparr>)"
    by (cases m) (auto simp: mutation_cases keyed_def split: if_splits)
qed

text \<open>
  An account is never removed and keeps its id, its person and its time of creation. Its
  revision grows with every change, and every change of its status raises its security revision,
  so that whoever compares that revision notices a disabled account even if it was enabled again.
\<close>

theorem account_permanent:
  assumes "s = run_all wa_exec cs emptyWorkforceStore" and "jm_get (ws_accounts s) i = Some a"
  shows "\<exists>b. jm_get (ws_accounts (run_all wa_exec ds s)) i = Some b \<and> later_account a b"
proof -
  have "\<forall>k x. jm_get (ws_accounts s) k = Some x \<longrightarrow> ac_accountId x = k"
    unfolding assms(1) by (rule keyed.service.run_keeps [unfolded keyed_def]) (simp add: emptyWorkforceStore_def)
  with assms(2) have "account_stays i a s" by (auto simp: account_stays_def later_account_def)
  then have "account_stays i a (run_all wa_exec ds s)" by (rule identity.service.run_keeps)
  then show ?thesis by (simp add: account_stays_def)
qed

end
