(* ===== verification/WorkforceNames.thy ===== *)
theory WorkforceNames
  imports WorkforceProps
begin

text \<open>
  No two workforce accounts share a user name or a phone number. The store alone does not promise it
  (a commit may name an account without occupying its identifiers); the service's commands do,
  when each runs to its end before the next and SHA-256 does not collide on the identifiers
  they occupy.
\<close>

section \<open>Accounts backed by identifiers\<close>

definition owns :: "wa_store \<Rightarrow> string \<Rightarrow> identifier_kind \<Rightarrow> string \<Rightarrow> bool" where
  "owns s i kind n \<longleftrightarrow> (\<exists>k x. jm_get (ws_identifiers s) k = Some x \<and> li_accountId x = i
     \<and> li_kind x = kind \<and> li_normalizedValue x = n \<and> li_releasedAt x = None)"

definition backed :: "wa_store \<Rightarrow> bool" where
  "backed s \<longleftrightarrow> identifiers_ok s \<and> keyed s
     \<and> (\<forall>k x. jm_get (ws_identifiers s) k = Some x \<longrightarrow> li_kind x = Kind_phone \<longrightarrow> li_value x = li_normalizedValue x)
     \<and> (\<forall>i a. jm_get (ws_accounts s) i = Some a \<longrightarrow> owns s i Kind_username (ac_usernameNormalized a)
          \<and> (\<forall>p. ac_phone a = Some p \<longrightarrow> owns s i Kind_phone p))"

lemma owner_unique: "identifiers_ok s \<Longrightarrow> owns s i kind n \<Longrightarrow> owns s j kind n \<Longrightarrow> i = j"
  unfolding owns_def by (metis identifiers_okD option.inject)

lemma backed_distinct:
  assumes "backed s" and "jm_get (ws_accounts s) i = Some a" and "jm_get (ws_accounts s) j = Some b"
    and "i \<noteq> j"
  shows "ac_usernameNormalized a \<noteq> ac_usernameNormalized b
    \<and> (ac_phone a = None \<or> ac_phone a \<noteq> ac_phone b)"
proof -
  have ok: "identifiers_ok s" using assms(1) by (simp add: backed_def)
  have "owns s i Kind_username (ac_usernameNormalized a)" "owns s j Kind_username (ac_usernameNormalized b)"
    using assms by (auto simp: backed_def)
  moreover have "owns s i Kind_phone p \<and> owns s j Kind_phone p"
    if "ac_phone a = Some p" "ac_phone b = Some p" for p
    using that assms by (auto simp: backed_def)
  ultimately show ?thesis using owner_unique [OF ok] assms(4) by (metis option.exhaust)
qed

section \<open>What a sound mutation does\<close>

text \<open>
  \<open>D\<close> holds what the commands of a run occupy: operation, kind and normalized value.
\<close>

definition traced :: "(string \<Rightarrow> string) \<Rightarrow> (string \<times> identifier_kind \<times> string) set \<Rightarrow> wa_store \<Rightarrow> bool" where
  "traced sha D s \<longleftrightarrow> (\<forall>k x. jm_get (ws_identifiers s) k = Some x \<longrightarrow>
     (\<exists>oid. jm_get (ws_operations s) oid \<noteq> None \<and> (oid, li_kind x, li_normalizedValue x) \<in> D
        \<and> k = identifier_id sha oid (li_kind x) (li_normalizedValue x)))"

definition no_collision :: "(string \<Rightarrow> string) \<Rightarrow> (string \<times> identifier_kind \<times> string) set \<Rightarrow> bool" where
  "no_collision sha D \<longleftrightarrow> inj_on (\<lambda>(oid, kind, n). identifier_id sha oid kind n) D"

definition sound_items ::
  "(string \<Rightarrow> string) \<Rightarrow> (string \<times> identifier_kind \<times> string) set \<Rightarrow> string \<Rightarrow> login_identifier list \<Rightarrow> bool" where
  "sound_items sha D oid items \<longleftrightarrow> distinct (map li_kind items) \<and> (\<forall>x \<in> set items.
     li_releasedAt x = None \<and> (li_kind x = Kind_phone \<longrightarrow> li_value x = li_normalizedValue x)
     \<and> (oid, li_kind x, li_normalizedValue x) \<in> D
     \<and> li_identifierId x = identifier_id sha oid (li_kind x) (li_normalizedValue x))"

definition claims :: "login_identifier list \<Rightarrow> string \<Rightarrow> identifier_kind \<Rightarrow> string \<Rightarrow> bool" where
  "claims items i kind n \<longleftrightarrow>
     (\<exists>x \<in> set items. li_accountId x = i \<and> li_kind x = kind \<and> li_normalizedValue x = n)"

fun sound_mutation ::
  "(string \<Rightarrow> string) \<Rightarrow> (string \<times> identifier_kind \<times> string) set \<Rightarrow> string \<Rightarrow> wa_store \<Rightarrow> wa_mutation \<Rightarrow> bool" where
  "sound_mutation sha D oid s (Mut_create a items) \<longleftrightarrow> sound_items sha D oid items
     \<and> claims items (ac_accountId a) Kind_username (ac_usernameNormalized a)
     \<and> (\<forall>p. ac_phone a = Some p \<longrightarrow> claims items (ac_accountId a) Kind_phone p)"
| "sound_mutation sha D oid s (Mut_identifiers i n items phone moment username normalized) \<longleftrightarrow>
     sound_items sha D oid items \<and> (\<forall>a. jm_get (ws_accounts s) i = Some a \<longrightarrow>
       (\<forall>u. username = Some u \<longrightarrow> (\<exists>m. normalized = Some m \<and>
          (m = ac_usernameNormalized a \<or> claims items i Kind_username m)))
       \<and> (\<forall>p. phone = Some (Some p) \<longrightarrow> ac_phone a = Some p \<or> claims items i Kind_phone p))"
| "sound_mutation sha D oid s _ \<longleftrightarrow> True"

lemma occupy_all_new:
  assumes "wa_occupy_all items ids = Inr ids'" and "distinct (map li_identifierId items)"
    and "\<And>x. x \<in> set items \<Longrightarrow> jm_get ids (li_identifierId x) = None"
  shows "(\<forall>k x. jm_get ids k = Some x \<longrightarrow> jm_get ids' k = Some x)
    \<and> (\<forall>x \<in> set items. jm_get ids' (li_identifierId x) = Some x)
    \<and> (\<forall>k x. jm_get ids' k = Some x \<longrightarrow> jm_get ids k = Some x \<or> x \<in> set items \<and> k = li_identifierId x)"
  using assms
proof (induction items arbitrary: ids)
  case (Cons item items)
  let ?ids = "jm_set ids (li_identifierId item) item"
  have rest: "wa_occupy_all items ?ids = Inr ids'"
    using Cons.prems(1) by (auto simp: bindE_eq_Inr wa_occupy_def Let_def split: if_splits)
  have "jm_get ?ids (li_identifierId x) = None" if "x \<in> set items" for x
    using that Cons.prems by (auto simp: image_iff)
  note IH = Cons.IH [OF rest _ this]
  have "distinct (map li_identifierId items)" using Cons.prems(2) by simp
  note IH = IH [OF this]
  have new: "jm_get ids (li_identifierId item) = None" using Cons.prems(3) by simp
  show ?case
  proof (intro conjI allI impI)
    show "jm_get ids' k = Some x" if "jm_get ids k = Some x" for k x
      using that new IH by (cases "k = li_identifierId item") auto
    show "\<forall>x \<in> set (item # items). jm_get ids' (li_identifierId x) = Some x"
      using IH by auto
    show "jm_get ids k = Some x \<or> x \<in> set (item # items) \<and> k = li_identifierId x"
      if "jm_get ids' k = Some x" for k x
    proof -
      have "jm_get ?ids k = Some x \<or> x \<in> set items \<and> k = li_identifierId x" using IH that by blast
      then show ?thesis by (cases "k = li_identifierId item") auto
    qed
  qed
qed simp

lemma new_ids:
  assumes "sound_items sha D oid items" and "no_collision sha D" and "traced sha D s"
    and "jm_get (ws_operations s) oid = None"
  shows "distinct (map li_identifierId items) \<and> (\<forall>x \<in> set items. jm_get (ws_identifiers s) (li_identifierId x) = None)"
proof
  let ?id = "\<lambda>x. (oid, li_kind x, li_normalizedValue x)"
  have same: "?id x = ?id y" if "x \<in> set items" "y \<in> set items" "li_identifierId x = li_identifierId y" for x y
    using that assms(1) inj_onD [OF assms(2) [unfolded no_collision_def], of "?id x" "?id y"]
    by (simp add: sound_items_def)
  have kinds: "distinct items" "inj_on li_kind (set items)"
    using assms(1) by (auto simp: sound_items_def distinct_map)
  have "inj_on li_identifierId (set items)"
  proof (rule inj_onI)
    fix x y
    assume "x \<in> set items" "y \<in> set items" "li_identifierId x = li_identifierId y"
    with same [of x y] show "x = y" by (auto intro: inj_onD [OF kinds(2)])
  qed
  with kinds(1) show "distinct (map li_identifierId items)" by (simp add: distinct_map)
  show "\<forall>x \<in> set items. jm_get (ws_identifiers s) (li_identifierId x) = None"
  proof (rule ballI, rule ccontr)
    fix x
    assume x: "x \<in> set items" and "jm_get (ws_identifiers s) (li_identifierId x) \<noteq> None"
    then obtain y where "jm_get (ws_identifiers s) (li_identifierId x) = Some y" by blast
    with assms(3) obtain o' where y: "jm_get (ws_operations s) o' \<noteq> None"
        "(o', li_kind y, li_normalizedValue y) \<in> D"
        "li_identifierId x = identifier_id sha o' (li_kind y) (li_normalizedValue y)"
      unfolding traced_def by metis
    have "?id x = (o', li_kind y, li_normalizedValue y)"
      using x y assms(1)
        inj_onD [OF assms(2) [unfolded no_collision_def], of "?id x" "(o', li_kind y, li_normalizedValue y)"]
      by (simp add: sound_items_def)
    with y(1) assms(4) show False by simp
  qed
qed

section \<open>Sound commits keep the accounts backed\<close>

lemma owns_mono:
  "(\<And>k x. jm_get (ws_identifiers s) k = Some x \<Longrightarrow> jm_get (ws_identifiers t) k = Some x) \<Longrightarrow>
     owns s i kind n \<Longrightarrow> owns t i kind n"
  unfolding owns_def by blast

lemma claims_own:
  assumes "claims items i kind n" and "sound_items sha D oid items"
    and "\<And>x. x \<in> set items \<Longrightarrow> jm_get (ws_identifiers t) (li_identifierId x) = Some x"
  shows "owns t i kind n"
  using assms unfolding claims_def owns_def sound_items_def by blast

text \<open>Occupying new identifiers: what the accounts own stays owned, what is claimed becomes owned.\<close>

lemma occupy_backed:
  assumes "backed s" and "sound_items sha D oid items"
    and "distinct (map li_identifierId items)"
    and "\<forall>x \<in> set items. jm_get (ws_identifiers s) (li_identifierId x) = None"
    and "wa_occupy_all items (ws_identifiers s) = Inr ids"
    and t: "t = s\<lparr>ws_identifiers := ids, ws_accounts := jm_set (ws_accounts s) i a\<rparr>"
    and "ac_accountId a = i"
    and "owns s i Kind_username (ac_usernameNormalized a) \<or> claims items i Kind_username (ac_usernameNormalized a)"
    and "\<forall>p. ac_phone a = Some p \<longrightarrow> owns s i Kind_phone p \<or> claims items i Kind_phone p"
  shows "backed t"
proof -
  note new = occupy_all_new [OF assms(5,3)]
  have keep: "jm_get (ws_identifiers t) k = Some x" if "jm_get (ws_identifiers s) k = Some x" for k x
    using new that assms(4) t by simp
  have added: "jm_get (ws_identifiers t) (li_identifierId x) = Some x" if "x \<in> set items" for x
    using new that assms(4) t by simp
  have only: "jm_get (ws_identifiers s) k = Some x \<or> x \<in> set items"
    if "jm_get (ws_identifiers t) k = Some x" for k x
    using new that assms(4) t by auto
  have own: "owns t j kind n" if "owns s j kind n" for j kind n
    using owns_mono [OF keep that] .
  have claim: "owns t i kind n" if "claims items i kind n" for kind n
    using claims_own [OF that assms(2) added] .
  have "identifiers_ok t"
    using occupy_all_ok [OF assms(5), of s] assms(1) by (simp add: t backed_def)
  moreover have "keyed t" using assms(1,7) by (simp add: t backed_def keyed_def)
  moreover have "li_value x = li_normalizedValue x"
    if "jm_get (ws_identifiers t) k = Some x" "li_kind x = Kind_phone" for k x
    using only [OF that(1)] that(2) assms(1,2) by (auto simp: backed_def sound_items_def)
  moreover have "owns t j Kind_username (ac_usernameNormalized b)
      \<and> (\<forall>p. ac_phone b = Some p \<longrightarrow> owns t j Kind_phone p)"
    if "jm_get (ws_accounts t) j = Some b" for j b
    using that assms(1,8,9) own claim by (cases "j = i") (auto simp: t backed_def)
  ultimately show ?thesis by (simp add: backed_def)
qed

lemma release_backed:
  assumes "backed s" and "jm_get (ws_accounts s) i = Some a" and "wa_release a p moment s = Inr t"
  shows "backed t"
proof -
  have ok: "identifiers_ok s" and a: "ac_accountId a = i"
    using assms(1,2) by (simp_all add: backed_def keyed_def)
  obtain k x where found: "find_entry (\<lambda>x. li_accountId x = ac_accountId a \<and> li_kind x = Kind_phone \<and>
        li_normalizedValue x = p \<and> li_releasedAt x = None) (ws_identifiers s) = Some (k, x)"
    and current: "ac_phone a \<noteq> Some (li_value x)"
    and t: "t = s\<lparr>ws_identifiers := jm_set (ws_identifiers s) k (x\<lparr>li_releasedAt := Some moment\<rparr>)\<rparr>"
    using assms(3) by (auto simp: wa_release_Inr)
  have x: "jm_get (ws_identifiers s) k = Some x" "li_accountId x = i" "li_kind x = Kind_phone"
      "ac_phone a \<noteq> Some (li_value x)"
    using find_entry_get [OF found] ok a current by (simp_all add: identifiers_ok_def)
  have same: "owns t j kind n" if "owns s j kind n"
      "\<not> (j = i \<and> kind = Kind_phone \<and> n = li_normalizedValue x)" for j kind n
  proof -
    from that(1) obtain l y where y: "jm_get (ws_identifiers s) l = Some y" "li_accountId y = j"
        "li_kind y = kind" "li_normalizedValue y = n" "li_releasedAt y = None"
      by (auto simp: owns_def)
    then have "l \<noteq> k" using x that(2) by auto
    with y show ?thesis by (auto simp: owns_def t)
  qed
  have m: "wa_mutate (Mut_release i (ac_revision a) p moment) s = Inr t"
    using assms(2,3) by (simp add: wa_current_def)
  have "keyed (t\<lparr>ws_operations := ws_operations t\<rparr>)"
    by (rule keyed.mutate_keeps [OF _ m]) (use assms(1) in \<open>simp add: backed_def\<close>)
  then have "identifiers_ok t" "keyed t" using mutate_identifiers_ok [OF m ok] by simp_all
  moreover have "li_value y = li_normalizedValue y"
    if "jm_get (ws_identifiers t) l = Some y" "li_kind y = Kind_phone" for l y
    using that assms(1) x by (auto simp: t backed_def split: if_splits)
  moreover have "owns t j Kind_username (ac_usernameNormalized b)
      \<and> (\<forall>q. ac_phone b = Some q \<longrightarrow> owns t j Kind_phone q)"
    if b: "jm_get (ws_accounts t) j = Some b" for j b
  proof -
    have "li_value x = li_normalizedValue x" using x assms(1) by (auto simp: backed_def)
    then have "\<not> (j = i \<and> ac_phone b = Some (li_normalizedValue x))"
      using x(4) b assms(2) by (auto simp: t)
    then show ?thesis using same b assms(1) by (auto simp: t backed_def)
  qed
  ultimately show ?thesis by (simp add: backed_def)
qed

definition names_ok :: "(string \<Rightarrow> string) \<Rightarrow> (string \<times> identifier_kind \<times> string) set \<Rightarrow> wa_store \<Rightarrow> bool" where
  "names_ok sha D s \<longleftrightarrow> backed s \<and> traced sha D s"

lemma mutation_backed:
  assumes "backed s" and "traced sha D s" and "no_collision sha D"
    and "jm_get (ws_operations s) oid = None"
    and "sound_mutation sha D oid s m" and "wa_mutate m s = Inr t"
  shows "backed t"
proof (cases m)
  case (Mut_create a items)
  then have items: "sound_items sha D oid items" using assms(5) by simp
  note new = new_ids [OF items assms(3,2,4)]
  obtain ids where "wa_occupy_all items (ws_identifiers s) = Inr ids"
    and "t = s\<lparr>ws_identifiers := ids, ws_accounts := jm_set (ws_accounts s) (ac_accountId a) a\<rparr>"
    using assms(6) Mut_create by (auto simp: wa_create_def bindE_eq_Inr split: if_splits)
  then show ?thesis
    using assms(5) Mut_create new by (intro occupy_backed [OF assms(1) items]) auto
next
  case (Mut_identifiers i n items phone moment username normalized)
  then have items: "sound_items sha D oid items" using assms(5) by simp
  note new = new_ids [OF items assms(3,2,4)]
  obtain a ids where a: "jm_get (ws_accounts s) i = Some a" "ac_accountId a = i"
    and ids: "wa_occupy_all items (ws_identifiers s) = Inr ids"
    and t: "t = s\<lparr>ws_identifiers := ids, ws_accounts := jm_set (ws_accounts s) i
      (with_identifiers phone moment username normalized a)\<rparr>"
    using assms(1,6) Mut_identifiers
    by (auto simp: wa_current_Inr wa_identify_def bindE_eq_Inr backed_def keyed_def)
  have "owns s i Kind_username (ac_usernameNormalized a)" "\<forall>p. ac_phone a = Some p \<longrightarrow> owns s i Kind_phone p"
    using a(1) assms(1) by (auto simp: backed_def)
  then show ?thesis
    using assms(5) Mut_identifiers new a
    by (intro occupy_backed [OF assms(1) items _ _ ids t])
      (auto simp: with_identifiers_def Let_def split: option.splits)
next
  case (Mut_status i n st moment)
  then obtain a where "jm_get (ws_accounts s) i = Some a"
    and "t = s\<lparr>ws_accounts := jm_set (ws_accounts s) (ac_accountId a) (with_status st moment a)\<rparr>"
    using assms(6) by (auto simp: wa_current_Inr bindE_eq_Inr)
  moreover from this have "owns t = owns s" "identifiers_ok t" "ac_accountId a = i"
    using assms(1) by (auto simp: owns_def backed_def keyed_def fun_eq_iff)
  ultimately show ?thesis
    using assms(1) by (auto simp: backed_def keyed_def with_status_def)
next
  case (Mut_release i n p moment)
  then show ?thesis using assms(1,6) release_backed by (auto simp: wa_current_Inr bindE_eq_Inr)
qed

text \<open>What a mutation leaves under a key was there, but for its release, or is one of its items.\<close>

fun items_of :: "wa_mutation \<Rightarrow> login_identifier list" where
  "items_of (Mut_create a items) = items"
| "items_of (Mut_identifiers i n items phone moment username normalized) = items"
| "items_of _ = []"

lemma occupied:
  "jm_get ids' k = Some x \<Longrightarrow> wa_occupy_all items ids = Inr ids' \<Longrightarrow>
     jm_get ids k = Some x \<or> x \<in> set items \<and> k = li_identifierId x"
proof (induction items arbitrary: ids)
  case (Cons item items)
  then have "wa_occupy_all items (jm_set ids (li_identifierId item) item) = Inr ids'"
    by (auto simp: bindE_eq_Inr wa_occupy_def Let_def split: if_splits)
  from Cons.IH [OF Cons.prems(1) this] show ?case by (cases "k = li_identifierId item") auto
qed simp

lemma mutated_entry:
  assumes "wa_mutate m s = Inr t" and "jm_get (ws_identifiers t) k = Some x" and "jm_ok (ws_identifiers s)"
  shows "(\<exists>y. jm_get (ws_identifiers s) k = Some y \<and> li_kind y = li_kind x \<and> li_normalizedValue y = li_normalizedValue x)
    \<or> x \<in> set (items_of m) \<and> k = li_identifierId x"
proof (cases m)
  case (Mut_release i n p moment)
  then obtain l y where "jm_get (ws_identifiers s) l = Some y"
    and "t = s\<lparr>ws_identifiers := jm_set (ws_identifiers s) l (y\<lparr>li_releasedAt := Some moment\<rparr>)\<rparr>"
    using assms(1,3) by (auto simp: mutation_cases dest!: find_entry_get)
  with assms(2) show ?thesis by (cases "k = l") auto
next
  case (Mut_create a items)
  then obtain ids where "wa_occupy_all items (ws_identifiers s) = Inr ids" "ws_identifiers t = ids"
    using assms(1) by (auto simp: mutation_cases split: if_splits)
  with assms(2) Mut_create occupied show ?thesis by fastforce
next
  case (Mut_identifiers i n items phone moment username normalized)
  then obtain ids where "wa_occupy_all items (ws_identifiers s) = Inr ids" "ws_identifiers t = ids"
    using assms(1) by (auto simp: mutation_cases)
  with assms(2) Mut_identifiers occupied show ?thesis by fastforce
next
  case (Mut_status i n st moment)
  with assms(1,2) show ?thesis by (auto simp: mutation_cases)
qed

lemma mutation_traced:
  assumes "traced sha D s" and "sound_mutation sha D oid s m" and "wa_mutate m s = Inr t"
    and "jm_ok (ws_identifiers s)" and "ws_operations t = ws_operations s"
  shows "traced sha D (t\<lparr>ws_operations := jm_set (ws_operations t) oid fp\<rparr>)"
  unfolding traced_def
proof (intro allI impI)
  fix k x
  assume x: "jm_get (ws_identifiers (t\<lparr>ws_operations := jm_set (ws_operations t) oid fp\<rparr>)) k = Some x"
  have items: "sound_items sha D oid (items_of m)" using assms(2) by (cases m) (simp_all add: sound_items_def)
  let ?from = "\<lambda>o'. (o', li_kind x, li_normalizedValue x) \<in> D
      \<and> k = identifier_id sha o' (li_kind x) (li_normalizedValue x)"
  from x mutated_entry [OF assms(3) _ assms(4)] consider
    y where "jm_get (ws_identifiers s) k = Some y" "li_kind y = li_kind x"
        "li_normalizedValue y = li_normalizedValue x"
    | "x \<in> set (items_of m)" "k = li_identifierId x"
    by auto
  then have "\<exists>o'. (jm_get (ws_operations s) o' \<noteq> None \<or> o' = oid) \<and> ?from o'"
  proof cases
    case 1
    with assms(1) show ?thesis unfolding traced_def by metis
  next
    case 2
    with items show ?thesis by (auto simp: sound_items_def)
  qed
  then show "\<exists>o'. jm_get (ws_operations (t\<lparr>ws_operations := jm_set (ws_operations t) oid fp\<rparr>)) o' \<noteq> None
      \<and> ?from o'"
    using assms(5) by auto
qed

lemma backed_operations [simp]: "backed (t\<lparr>ws_operations := ops\<rparr>) = backed t"
  by (simp add: backed_def keyed_def owns_def)

lemma commit_names:
  assumes "names_ok sha D s" and "no_collision sha D"
    and "sound_mutation sha D (wo_operationId (wk_operation c)) s (wk_mutation c)"
  shows "names_ok sha D (snd (wa_store_commit c s))"
proof (cases "jm_get (ws_operations s) (wo_operationId (wk_operation c))")
  case None
  show ?thesis
  proof (cases "wa_mutate (wk_mutation c) s")
    case (Inr t)
    have b: "backed t"
      using mutation_backed [OF _ _ assms(2) None assms(3) Inr] assms(1) by (simp add: names_ok_def)
    have ok: "jm_ok (ws_identifiers s)"
      using assms(1) by (simp add: names_ok_def backed_def identifiers_ok_def)
    have "ws_operations t = ws_operations s"
      using Inr by (cases "wk_mutation c") (auto simp: mutation_cases split: if_splits)
    then show ?thesis
      using None Inr b mutation_traced [OF _ assms(3) Inr ok] assms(1)
      by (simp add: names_ok_def wa_store_commit_def Let_def)
  qed (use None assms(1) in \<open>simp add: wa_store_commit_def Let_def\<close>)
qed (use assms(1) in \<open>simp add: wa_store_commit_def Let_def\<close>)

section \<open>The service's commands commit soundly\<close>

text \<open>What a command occupies, from its text alone.\<close>

fun wa_inputs :: "wa_command \<Rightarrow> (string \<times> identifier_kind \<times> string) list" where
  "wa_inputs (Do_create c) =
     (case normalizeUsername (ca_username c) of
        Inl _ \<Rightarrow> [] | Inr u \<Rightarrow> [(wm_operationId c, Kind_username, u)])
     @ (case optE normalizePhone (ca_phone c) of
        Inr (Some p) \<Rightarrow> [(wm_operationId c, Kind_phone, p)] | _ \<Rightarrow> [])"
| "wa_inputs (Do_update c) =
     (case optE normalizeUsername (ui_username c) of
        Inr (Some u) \<Rightarrow> [(wm_operationId c, Kind_username, u)] | _ \<Rightarrow> [])
     @ (case optE (optE normalizePhone) (ui_phone c) of
        Inr (Some (Some p)) \<Rightarrow> [(wm_operationId c, Kind_phone, p)] | _ \<Rightarrow> [])"
| "wa_inputs _ = []"

lemma reads_authorize: "we_others env = [] \<Longrightarrow> reads (wa_authorize env m i a)"
  by (simp add: reads_def wa_authorize_def Let_def split: option.split)

lemma reads_get: "reads (wa_getAccount i)"
  unfolding wa_getAccount_def by (intro reads_bind) simp_all

lemma commit_of_parts [simp]:
  "wo_operationId (wk_operation (wa_commit_of env m members a mutation)) = wm_operationId m"
  "wk_mutation (wa_commit_of env m members a mutation) = mutation"
  by (simp_all add: wa_commit_of_def Let_def)

lemma truncate_id [simp]: "wm_operationId (wa_metadata.truncate c) = wm_operationId c"
  by (simp add: wa_metadata.truncate_def)

lemma created_sound:
  assumes "we_sha256 env = sha" and "normalizeUsername (ca_username c) = Inr u"
    and "optE normalizePhone (ca_phone c) = Inr p" and "set (wa_inputs (Do_create c)) \<subseteq> D"
  shows "sound_mutation sha D (wm_operationId c) s
    (Mut_create (created_account c u p) (created_identifiers env c u p))"
  using assms by (auto simp: sound_items_def claims_def created_account_def created_identifiers_def
      new_identifier_def split: option.splits)

lemma changed_sound:
  assumes "we_sha256 env = sha" and "optE normalizeUsername (ui_username c) = Inr u"
    and "optE (optE normalizePhone) (ui_phone c) = Inr p" and "set (wa_inputs (Do_update c)) \<subseteq> D"
    and "jm_get (ws_accounts s) (ui_accountId c) = Some current"
  shows "sound_mutation sha D (wm_operationId c) s (Mut_identifiers (ui_accountId c) n
    (changed_identifiers env c current u p) p moment (ui_username c) u)"
proof -
  have named: "\<exists>m. u = Some m" if "ui_username c = Some v" for v
    using assms(2) that by (auto simp: optE_def bindE_eq_Inr)
  have "sound_items sha D (wm_operationId c) (changed_identifiers env c current u p)"
    using assms(1-4) by (auto simp: sound_items_def changed_identifiers_def new_identifier_def split: option.splits)
  moreover have "claims (changed_identifiers env c current u p) (ui_accountId c) Kind_username m"
    if "ui_username c = Some v" "u = Some m" "m \<noteq> ac_usernameNormalized current" for v m
    using that by (simp add: claims_def changed_identifiers_def new_identifier_def)
  moreover have "claims (changed_identifiers env c current u p) (ui_accountId c) Kind_phone q"
    if "p = Some (Some q)" "ac_phone current \<noteq> Some q" for q
    using that by (simp add: claims_def changed_identifiers_def new_identifier_def split: option.split)
  ultimately show ?thesis using assms(5) named by fastforce
qed

lemma get_current: "wa_getAccount i s = (Inr a, t) \<Longrightarrow> jm_get (ws_accounts s) i = Some a"
  by (auto simp: wa_getAccount_def bindA_eq_Inr wa_findAccount_def)

lemma commit_then_get:
  assumes "names_ok sha D s" and "no_collision sha D"
    and "sound_mutation sha D (wo_operationId (wk_operation c)) s (wk_mutation c)"
  shows "names_ok sha D (snd (bindA (wa_store_commit c) (\<lambda>_. wa_getAccount i) s))"
  by (rule after_then_reads) (rule commit_names [OF assms], rule reads_get)

lemma create_names:
  assumes "we_others env = []" and "we_sha256 env = sha" and "set (wa_inputs (Do_create c)) \<subseteq> D"
    and "no_collision sha D" and s: "names_ok sha D s"
  shows "names_ok sha D (snd (wa_createAccount env c s))"
proof -
  note lift = after_lift [where P = "names_ok sha D" and s = s, OF s]
  note authorize = after_reads [where P = "names_ok sha D" and s = s, OF reads_authorize [OF assms(1)] s]
  note commit = commit_then_get [OF s assms(4)]
  show ?thesis
    unfolding wa_createAccount_def Let_def
    by (rule lift | rule authorize | rule commit)+ (simp add: created_sound [OF assms(2) _ _ assms(3)] del: sound_mutation.simps)
qed

lemma update_names:
  assumes "we_others env = []" and "we_sha256 env = sha" and "set (wa_inputs (Do_update c)) \<subseteq> D"
    and "no_collision sha D" and s: "names_ok sha D s"
  shows "names_ok sha D (snd (wa_updateLoginIdentifiers env c s))"
proof -
  note lift = after_lift [where P = "names_ok sha D" and s = s, OF s]
  note check = after_ensure [where P = "names_ok sha D" and s = s, OF s]
  note read = after_reads [where P = "names_ok sha D" and s = s, OF reads_get s]
  note authorize = after_reads [where P = "names_ok sha D" and s = s, OF reads_authorize [OF assms(1)] s]
  note commit = commit_then_get [OF s assms(4)]
  show ?thesis
    unfolding wa_updateLoginIdentifiers_def
    by (rule lift | rule check | rule read | rule authorize | rule commit)+
      (simp add: changed_sound [OF assms(2) _ _ assms(3) get_current] del: sound_mutation.simps)
qed

lemma status_names:
  assumes "we_others env = []" and "no_collision sha D" and s: "names_ok sha D s"
  shows "names_ok sha D (snd (wa_setStatus env c s))" "names_ok sha D (snd (wa_releasePhone env d s))"
proof -
  note lift = after_lift [where P = "names_ok sha D" and s = s, OF s]
  note read = after_reads [where P = "names_ok sha D" and s = s, OF reads_get s]
  note authorize = after_reads [where P = "names_ok sha D" and s = s, OF reads_authorize [OF assms(1)] s]
  note commit = commit_then_get [OF s assms(2)]
  show "names_ok sha D (snd (wa_setStatus env c s))"
    unfolding wa_setStatus_def by (rule lift | rule read | rule authorize | rule commit)+ simp
  show "names_ok sha D (snd (wa_releasePhone env d s))"
    unfolding wa_releasePhone_def
    by (rule lift | rule read | rule authorize)+ (simp add: commit_names [OF s assms(2)])
qed

lemma exec_names:
  assumes "we_others (fst c) = []" and "we_sha256 (fst c) = sha" and "set (wa_inputs (snd c)) \<subseteq> D"
    and "no_collision sha D" and s: "names_ok sha D s"
  shows "names_ok sha D (snd (wa_exec c s))"
proof (cases c rule: wa_exec.cases)
  case (2 env i)
  then show ?thesis using reads_get s by (simp add: reads_def)
next
  case (3 env cursor limit st)
  have "reads (wa_listAccounts env cursor limit st)"
    unfolding wa_listAccounts_def Let_def by (intro reads_bind) simp_all
  with 3 s show ?thesis by (simp add: reads_def)
next
  case (4 env i)
  have "reads (wa_listIdentifierHistory i)"
    unfolding wa_listIdentifierHistory_def by (intro reads_bind reads_get) simp
  with 4 s show ?thesis by (simp add: reads_def)
qed (use assms create_names update_names status_names in auto)

text \<open>
  No two workforce accounts share a user name or a phone number, after any commands run one
  after the other: what an account is known by always stays occupied by that account.
\<close>

theorem login_names_distinct:
  assumes "\<forall>c \<in> set cs. we_others (fst c) = [] \<and> we_sha256 (fst c) = sha"
    and "no_collision sha (set (concat (map (wa_inputs \<circ> snd) cs)))"
    and "s = run_all wa_exec cs emptyWorkforceStore"
    and "jm_get (ws_accounts s) i = Some a" and "jm_get (ws_accounts s) j = Some b" and "i \<noteq> j"
  shows "ac_usernameNormalized a \<noteq> ac_usernameNormalized b
    \<and> (ac_phone a = None \<or> ac_phone a \<noteq> ac_phone b)"
proof -
  let ?D = "set (concat (map (wa_inputs \<circ> snd) cs))"
  have run: "names_ok sha ?D t \<Longrightarrow> set ds \<subseteq> set cs \<Longrightarrow> names_ok sha ?D (run_all wa_exec ds t)" for ds t
    using assms(1,2) by (induction ds arbitrary: t) (auto intro!: exec_names)
  have "names_ok sha ?D emptyWorkforceStore"
    by (simp add: names_ok_def backed_def traced_def identifiers_ok_def keyed_def emptyWorkforceStore_def)
  then have "names_ok sha ?D s" unfolding assms(3) by (rule run) simp
  then show ?thesis using backed_distinct [OF _ assms(4-6)] by (simp add: names_ok_def)
qed

end
