(* ===== verification/PasswordLogin.thy ===== *)
theory PasswordLogin
  imports WorkforceNames
begin

text \<open>
  Passwords and the credential port (\<open>workforce-access/src/password-credentials.ts\<close>) over the tables
  \<open>accounts\<close>, \<open>login_identifier_history\<close> and \<open>password_credentials\<close> of the module's migrations. Argon2,
  its salts and which times the database accepts are parameters.
\<close>

section \<open>Passwords\<close>

text \<open>
  \<open>hash\<close> of the library (with the options and salt of the call), and \<open>verify\<close>: \<open>None\<close> if it throws.
\<close>

record password_lib =
  pl_hash :: "string \<Rightarrow> string"
  pl_verify :: "string \<Rightarrow> string \<Rightarrow> bool option"

definition DUMMY_PASSWORD_HASH :: string where
  "DUMMY_PASSWORD_HASH = ''$argon2id$v=19$m=65536,t=3,p=1$YWktY3JtLWR1bW15LXYxIQ$k6uhbHENOv5p61e8KvZMw48C++qlb02EXoUW4eg9vt0''"

definition password_ok :: "string \<Rightarrow> bool" where
  "password_ok p = (8 \<le> length p \<and> length p \<le> 64 \<and>
     list_all (\<lambda>c. 0x20 \<le> (of_char c :: nat) \<and> (of_char c :: nat) \<le> 0x7e) p)"

definition validatePassword :: "string \<Rightarrow> wa_failure + unit" where
  "validatePassword p = ensure (password_ok p) (Wa_error Wa_input_invalid)"

definition hashPassword :: "password_lib \<Rightarrow> string \<Rightarrow> wa_failure + string" where
  "hashPassword lib p = bindE (validatePassword p) (\<lambda>_. Inr (pl_hash lib p))"

text \<open>The result, and the hashes the library was asked to verify on the way.\<close>

definition verifyPassword :: "password_lib \<Rightarrow> string \<Rightarrow> string \<Rightarrow> bool \<times> string list" where
  "verifyPassword lib passwordHash password =
     (if length password > 64 then (False, [DUMMY_PASSWORD_HASH])
      else (case pl_verify lib passwordHash password of
              None \<Rightarrow> (False, [passwordHash]) | Some b \<Rightarrow> (b, [passwordHash])))"

record login_account =
  lc_accountId :: string
  lc_passwordHash :: string
  lc_securityRevision :: int
  lc_status :: account_status
  lc_workforcePersonId :: string

definition verifyPasswordOrDummy :: "password_lib \<Rightarrow> login_account option \<Rightarrow> string \<Rightarrow> bool \<times> string list" where
  "verifyPasswordOrDummy lib a password = verifyPassword lib
     (case a of None \<Rightarrow> DUMMY_PASSWORD_HASH | Some x \<Rightarrow> lc_passwordHash x) password"

section \<open>The tables\<close>

record credential =
  cr_passwordHash :: string
  cr_revision :: int
  cr_updatedAt :: string

record login_db =
  ld_accounts :: "(string, account) jsmap"
  ld_identifiers :: "login_identifier list"
  ld_credentials :: "(string, credential) jsmap"

text \<open>
  The environment of one call: the database answers or fails with a message, and accepts or refuses
  a time for a row.
\<close>

record login_env =
  le_formats :: "string \<Rightarrow> int option"
  le_down :: "string option"
  le_time_ok :: "string \<Rightarrow> bool"

type_synonym 'a login_act = "(login_db, wa_failure, 'a) act"

text \<open>A \<open>uuid\<close> parameter is compared as the database writes it, in lower case.\<close>

definition uuid_text :: "string \<Rightarrow> string" where
  "uuid_text i = map char_lower i"

definition db_up :: "login_env \<Rightarrow> unit login_act" where
  "db_up env = (case le_down env of None \<Rightarrow> retA () | Some e \<Rightarrow> throwA (Wa_other e))"

text \<open>The join of an account with its credential, and the first row that satisfies the clause.\<close>

definition login_row :: "login_db \<Rightarrow> account \<Rightarrow> login_account option" where
  "login_row db a = map_option (\<lambda>c. \<lparr>lc_accountId = ac_accountId a, lc_passwordHash = cr_passwordHash c,
       lc_securityRevision = ac_securityRevision a, lc_status = ac_status a,
       lc_workforcePersonId = ac_workforcePersonId a\<rparr>) (jm_get (ld_credentials db) (ac_accountId a))"

definition find_login :: "(account \<Rightarrow> bool) \<Rightarrow> login_db \<Rightarrow> login_account option" where
  "find_login clause db = Option.bind
     (find (\<lambda>a. clause a \<and> jm_has (ld_credentials db) (ac_accountId a)) (jm_values (ld_accounts db)))
     (login_row db)"

text \<open>The names a login may mean: the text as a phone number, and as a user name.\<close>

definition normalizedIdentifiers :: "string \<Rightarrow> wa_failure + (identifier_kind \<times> string) list" where
  "normalizedIdentifiers v =
     (let found = (case normalizePhone v of Inl _ \<Rightarrow> [] | Inr p \<Rightarrow> [(Kind_phone, p)])
        @ (case normalizeUsername v of Inl _ \<Rightarrow> [] | Inr u \<Rightarrow> [(Kind_username, u)]) in
      if found = [] then wa_invalid else Inr found)"

definition has_identifier :: "login_db \<Rightarrow> identifier_kind \<times> string \<Rightarrow> account \<Rightarrow> bool" where
  "has_identifier db candidate a = list_ex (\<lambda>x. li_accountId x = ac_accountId a \<and>
     li_kind x = fst candidate \<and> li_normalizedValue x = snd candidate \<and> li_releasedAt x = None)
     (ld_identifiers db)"

section \<open>The port\<close>

definition schema_name_ok :: "string \<Rightarrow> bool" where
  "schema_name_ok s = (s \<noteq> [] \<and> all_in (lower @ ''_'') s)"

definition createPasswordCredentialPort :: "string option \<Rightarrow> string option \<Rightarrow> wa_failure + string \<times> string" where
  "createPasswordCredentialPort schemaOption personOption =
     (let schema = (case schemaOption of None \<Rightarrow> ''workforce_access'' | Some s \<Rightarrow> s);
          personColumn = (case personOption of None \<Rightarrow> ''workforce_person_id'' | Some s \<Rightarrow> s) in
      bindE (ensure (schema_name_ok schema \<and> schema_name_ok personColumn) (Wa_error Wa_input_invalid)) (\<lambda>_.
      Inr (schema, personColumn)))"

definition argon_text :: string where
  "argon_text = ''$argon2id$''"

definition hash_acceptable :: "string \<Rightarrow> bool" where
  "hash_acceptable h = (take (length argon_text) h = argon_text \<and> length h \<le> 1024)"

text \<open>
  The insert: the table's checks first (an unknown code is passed on), then its primary key
  (\<open>23505\<close>), then the reference to the account (\<open>23503\<close>).
\<close>

definition createCredential :: "login_env \<Rightarrow> string \<Rightarrow> string \<Rightarrow> string \<Rightarrow> unit login_act" where
  "createCredential env accountId passwordHash updatedAt =
     bindA (liftA (wa_requireId accountId)) (\<lambda>_.
     bindA (liftA (wa_requireTimestamp (le_formats env) updatedAt)) (\<lambda>_.
     bindA (ensureA (hash_acceptable passwordHash) (Wa_error Wa_input_invalid)) (\<lambda>_.
     bindA (db_up env) (\<lambda>_.
     bindA (ensureA (le_time_ok env updatedAt \<and> 32 \<le> length passwordHash) (Wa_other ''23514'')) (\<lambda>_.
     bindA (\<lambda>db. ensureA (\<not> jm_has (ld_credentials db) (uuid_text accountId)) (Wa_error Wa_entity_conflict) db) (\<lambda>_.
     bindA (\<lambda>db. ensureA (jm_has (ld_accounts db) (uuid_text accountId)) (Wa_error Wa_entity_not_found) db) (\<lambda>_.
     modifyA (\<lambda>db. db\<lparr>ld_credentials := jm_set (ld_credentials db) (uuid_text accountId)
       \<lparr>cr_passwordHash = passwordHash, cr_revision = 0, cr_updatedAt = updatedAt\<rparr>\<rparr>))))))))"

definition findByAccountId :: "login_env \<Rightarrow> string \<Rightarrow> login_account option login_act" where
  "findByAccountId env accountId =
     bindA (liftA (wa_requireId accountId)) (\<lambda>_.
     bindA (db_up env) (\<lambda>_.
     getsA (find_login (\<lambda>a. ac_accountId a = uuid_text accountId))))"

text \<open>\<open>new Map(rows by accountId).values()\<close>\<close>

definition distinct_accounts :: "login_account option list \<Rightarrow> login_account list" where
  "distinct_accounts rows = jm_values (foldl (\<lambda>m r. case r of
     None \<Rightarrow> m | Some a \<Rightarrow> jm_set m (lc_accountId a) a) [] rows)"

definition findByIdentifier :: "login_env \<Rightarrow> string \<Rightarrow> login_account option login_act" where
  "findByIdentifier env identifier =
     bindA (liftA (normalizedIdentifiers identifier)) (\<lambda>candidates.
     bindA (db_up env) (\<lambda>_.
     bindA (getsA (\<lambda>db. map (\<lambda>c. find_login (has_identifier db c) db) candidates)) (\<lambda>rows.
     let matches = distinct_accounts rows in
     if length matches > 1 then throwA (Wa_error Wa_input_invalid)
     else retA (case matches of [] \<Rightarrow> None | a # _ \<Rightarrow> Some a))))"

text \<open>
  Both updates run in one transaction: a failure leaves the tables as they were.
\<close>

definition transactional :: "'a login_act \<Rightarrow> 'a login_act" where
  "transactional m db = (case m db of (Inl e, _) \<Rightarrow> (Inl e, db) | (Inr x, db') \<Rightarrow> (Inr x, db'))"

definition replace_work :: "login_env \<Rightarrow> string \<Rightarrow> int \<Rightarrow> string \<Rightarrow> string \<Rightarrow> int login_act" where
  "replace_work env accountId expected passwordHash updatedAt =
     bindA (db_up env) (\<lambda>_.
     bindA (ensureA (le_time_ok env updatedAt) (Wa_other ''23514'')) (\<lambda>_.
     bindA (\<lambda>db. requireA (case jm_get (ld_accounts db) (uuid_text accountId) of
              Some a \<Rightarrow> if ac_securityRevision a = expected then Some a else None
            | None \<Rightarrow> None) (Wa_error Wa_revision_conflict) db) (\<lambda>a.
     bindA (modifyA (\<lambda>db. db\<lparr>ld_accounts := jm_set (ld_accounts db) (uuid_text accountId)
       (a\<lparr>ac_securityRevision := ac_securityRevision a + 1, ac_revision := ac_revision a + 1,
          ac_updatedAt := updatedAt\<rparr>)\<rparr>)) (\<lambda>_.
     bindA (ensureA (32 \<le> length passwordHash) (Wa_other ''23514'')) (\<lambda>_.
     bindA (\<lambda>db. requireA (jm_get (ld_credentials db) (uuid_text accountId)) (Wa_error Wa_entity_not_found) db) (\<lambda>c.
     bindA (modifyA (\<lambda>db. db\<lparr>ld_credentials := jm_set (ld_credentials db) (uuid_text accountId)
       \<lparr>cr_passwordHash = passwordHash, cr_revision = cr_revision c + 1, cr_updatedAt = updatedAt\<rparr>\<rparr>)) (\<lambda>_.
     retA (ac_securityRevision a + 1))))))))"

definition replaceCredential :: "login_env \<Rightarrow> string \<Rightarrow> jsnum \<Rightarrow> string \<Rightarrow> string \<Rightarrow> int login_act" where
  "replaceCredential env accountId expected passwordHash updatedAt =
     bindA (liftA (wa_requireId accountId)) (\<lambda>_.
     bindA (liftA (wa_requireTimestamp (le_formats env) updatedAt)) (\<lambda>_.
     bindA (ensureA (isSafeInteger expected \<and> 0 \<le> num_int expected \<and> hash_acceptable passwordHash)
       (Wa_error Wa_input_invalid)) (\<lambda>_.
     transactional (replace_work env accountId (num_int expected) passwordHash updatedAt))))"

section \<open>A login finds one account\<close>

text \<open>The rows by account: every row's account is among the matches.\<close>

lemma distinct_accounts_step:
  fixes rows
  defines "step \<equiv> \<lambda>m r. case r of None \<Rightarrow> m | Some a \<Rightarrow> jm_set m (lc_accountId a) a"
  assumes "jm_ok m" and "\<forall>k x. jm_get m k = Some x \<longrightarrow> lc_accountId x = k"
  shows "jm_ok (foldl step m rows)
    \<and> (\<forall>k x. jm_get (foldl step m rows) k = Some x \<longrightarrow> lc_accountId x = k)
    \<and> (\<forall>k. jm_get m k \<noteq> None \<longrightarrow> jm_get (foldl step m rows) k \<noteq> None)
    \<and> (\<forall>x. Some x \<in> set rows \<longrightarrow> jm_get (foldl step m rows) (lc_accountId x) \<noteq> None)"
  using assms(2,3)
proof (induction rows arbitrary: m)
  case (Cons r rows)
  show ?case
  proof (cases r)
    case None
    then show ?thesis using Cons.IH [OF Cons.prems] by (simp add: step_def)
  next
    case (Some a)
    have "jm_ok (jm_set m (lc_accountId a) a)"
      "\<forall>k x. jm_get (jm_set m (lc_accountId a) a) k = Some x \<longrightarrow> lc_accountId x = k"
      using Cons.prems by auto
    note IH = Cons.IH [OF this]
    have "step m r = jm_set m (lc_accountId a) a" using Some by (simp add: step_def)
    with IH Some show ?thesis by (auto split: if_splits)
  qed
qed simp

lemma single_match:
  assumes "Some x \<in> set rows" and "distinct_accounts rows = l # rest" and "length (distinct_accounts rows) \<le> 1"
  shows "lc_accountId x = lc_accountId l"
proof -
  let ?step = "\<lambda>m r. case r of None \<Rightarrow> m | Some a \<Rightarrow> jm_set m (lc_accountId a) a"
  let ?m = "foldl ?step [] rows"
  note step = distinct_accounts_step [of "[]" rows, simplified]
  obtain y where y: "jm_get ?m (lc_accountId x) = Some y" "lc_accountId y = lc_accountId x"
    using step assms(1) by fastforce
  have "y \<in> set (jm_values ?m)" by (rule jm_get_in_values [OF y(1)])
  then have "y = l" using assms(2,3) by (simp add: distinct_accounts_def)
  with y show ?thesis by simp
qed

definition login_db_of :: "wa_store \<Rightarrow> (string, credential) jsmap \<Rightarrow> login_db" where
  "login_db_of s creds = \<lparr>ld_accounts = ws_accounts s, ld_identifiers = jm_values (ws_identifiers s),
     ld_credentials = creds\<rparr>"

lemma find_candidate:
  assumes "identifiers_ok s" and "keyed s" and "jm_ok (ws_accounts s)"
    and x: "x \<in> set (jm_values (ws_identifiers s))" "li_releasedAt x = None"
    and "jm_has (ws_accounts s) (li_accountId x)" and "jm_has creds (li_accountId x)"
  shows "\<exists>l. find_login (has_identifier (login_db_of s creds) (li_kind x, li_normalizedValue x)) (login_db_of s creds)
      = Some l \<and> lc_accountId l = li_accountId x"
proof -
  let ?db = "login_db_of s creds"
  let ?clause = "has_identifier ?db (li_kind x, li_normalizedValue x)"
  let ?found = "find (\<lambda>a. ?clause a \<and> jm_has (ld_credentials ?db) (ac_accountId a)) (jm_values (ld_accounts ?db))"
  have owner: "ac_accountId a = li_accountId x" if "?clause a" for a
  proof -
    from that obtain y where y: "y \<in> set (jm_values (ws_identifiers s))" "li_accountId y = ac_accountId a"
        "li_kind y = li_kind x" "li_normalizedValue y = li_normalizedValue x" "li_releasedAt y = None"
      by (auto simp: has_identifier_def login_db_of_def list_ex_iff)
    obtain k l where "jm_get (ws_identifiers s) k = Some x" "jm_get (ws_identifiers s) l = Some y"
      using x y(1) assms(1) by (auto simp: identifiers_ok_def jm_values_iff)
    then have "y = x" using identifiers_okD [OF assms(1)] x(2) y by (metis option.inject)
    with y(2) show ?thesis by simp
  qed
  obtain b where b: "jm_get (ws_accounts s) (li_accountId x) = Some b" "ac_accountId b = li_accountId x"
    using assms(2,6) by (auto simp: keyed_def)
  have "?clause b"
    using x b by (auto simp: has_identifier_def login_db_of_def list_ex_iff)
  moreover have "b \<in> set (jm_values (ld_accounts ?db))"
    using jm_get_in_values [OF b(1)] by (simp add: login_db_of_def)
  ultimately have "?found \<noteq> None"
    using b assms(7) by (auto simp: find_None_iff login_db_of_def)
  then obtain a where a: "?found = Some a" by blast
  then have "?clause a \<and> jm_has (ld_credentials ?db) (ac_accountId a)" by (auto simp: find_Some_iff)
  with owner a show ?thesis by (auto simp: find_login_def login_row_def)
qed

definition accounts_ok :: "wa_store \<Rightarrow> bool" where
  "accounts_ok s \<longleftrightarrow> jm_ok (ws_accounts s)"

interpretation accounts_map: wa_fact accounts_ok
proof
  fix s m t ops
  assume "accounts_ok s" and "wa_mutate m s = Inr t"
  then show "accounts_ok (t\<lparr>ws_operations := ops\<rparr>)"
    by (cases m) (auto simp: mutation_cases accounts_ok_def split: if_splits)
qed

text \<open>
  When a login text finds an account, every unreleased identifier that the text can mean, as a
  phone number or as a user name, and that leads to an account with a password, belongs to that
  very account. A text that means one account's phone number and another's user name finds none.
\<close>

theorem login_unambiguous:
  assumes "s = run_all wa_exec cs emptyWorkforceStore"
    and "findByIdentifier env v (login_db_of s creds) = (Inr (Some l), db')"
    and "normalizedIdentifiers v = Inr candidates"
    and "(li_kind x, li_normalizedValue x) \<in> set candidates"
    and "x \<in> set (jm_values (ws_identifiers s))" and "li_releasedAt x = None"
    and "jm_has (ws_accounts s) (li_accountId x)" and "jm_has creds (li_accountId x)"
  shows "li_accountId x = lc_accountId l"
proof -
  have ok: "identifiers_ok s" "keyed s" "jm_ok (ws_accounts s)"
    unfolding assms(1)
    by (rule exclusive.service.run_keeps keyed.service.run_keeps
        accounts_map.service.run_keeps [unfolded accounts_ok_def],
        simp add: identifiers_ok_def keyed_def emptyWorkforceStore_def)+
  let ?rows = "map (\<lambda>c. find_login (has_identifier (login_db_of s creds) c) (login_db_of s creds)) candidates"
  have "distinct_accounts ?rows \<noteq> []" and one: "length (distinct_accounts ?rows) \<le> 1"
    and "l = hd (distinct_accounts ?rows)"
    using assms(2,3)
    by (auto simp: findByIdentifier_def bindA_eq_Inr db_up_def Let_def split: option.splits if_splits list.splits)
  then obtain rest where l: "distinct_accounts ?rows = l # rest" by (metis list.collapse)
  obtain k where k: "find_login (has_identifier (login_db_of s creds) (li_kind x, li_normalizedValue x)) (login_db_of s creds)
      = Some k" "lc_accountId k = li_accountId x"
    using find_candidate [OF ok assms(5-8)] by blast
  then have "Some k \<in> set ?rows" using assms(4) by force
  from single_match [OF this l one] k(2) show ?thesis by simp
qed

section \<open>A password is replaced once per security revision\<close>

datatype port_command =
    Port_create string string string
  | Port_find string
  | Port_identify string
  | Port_replace string jsnum string string

fun port_exec :: "login_env \<times> port_command \<Rightarrow> unit login_act" where
  "port_exec (env, Port_create i h t) = createCredential env i h t"
| "port_exec (env, Port_find i) = voidA (findByAccountId env i)"
| "port_exec (env, Port_identify v) = voidA (findByIdentifier env v)"
| "port_exec (env, Port_replace i n h t) = voidA (replaceCredential env i n h t)"

definition revision_past :: "string \<Rightarrow> int \<Rightarrow> login_db \<Rightarrow> bool" where
  "revision_past i r db \<longleftrightarrow> (\<exists>a. jm_get (ld_accounts db) i = Some a \<and> r < ac_securityRevision a)"

lemma replaced:
  assumes "replaceCredential env i n h t db = (Inr r, db')"
  shows "\<exists>a. jm_get (ld_accounts db) (uuid_text i) = Some a \<and> ac_securityRevision a = num_int n \<and> r = num_int n + 1
    \<and> (\<exists>b. ld_accounts db' = jm_set (ld_accounts db) (uuid_text i) b \<and> ac_securityRevision b = r)
    \<and> (\<exists>c. jm_get (ld_credentials db') (uuid_text i) = Some c \<and> cr_passwordHash c = h)"
  using assms
  by (auto simp: replaceCredential_def replace_work_def transactional_def bindA_eq_Inr db_up_def
      split: option.splits prod.splits sum.splits if_splits)

lemma transactional_fails: "transactional m db = (Inl e, db') \<Longrightarrow> db' = db"
  by (auto simp: transactional_def split: prod.splits sum.splits)

lemma replace_fails: "replaceCredential env i n h t db = (Inl e, db') \<Longrightarrow> db' = db"
  by (auto simp: replaceCredential_def bindA_eq_Inl dest: transactional_fails)

interpretation rotation: guarded_machine port_exec "revision_past i r" for i r
proof
  fix db c
  assume past: "revision_past i r db"
  show "revision_past i r (snd (port_exec c db))"
  proof (cases c rule: port_exec.cases)
    case (1 env j h t)
    then show ?thesis
      using past by (auto simp: createCredential_def db_up_def bindA_run ensureA_def revision_past_def
          split: option.split sum.split prod.split)
  next
    case (2 env j)
    then show ?thesis
      using past by (auto simp: findByAccountId_def db_up_def bindA_run split: option.split sum.split)
  next
    case (3 env v)
    then show ?thesis
      using past by (auto simp: findByIdentifier_def db_up_def bindA_run Let_def
          split: option.split sum.split prod.split list.split)
  next
    case (4 env j n h t)
    show ?thesis
    proof (cases "replaceCredential env j n h t db")
      case (Pair res db')
      show ?thesis
      proof (cases res)
        case (Inl e)
        with Pair replace_fails past 4 show ?thesis by fastforce
      next
        case (Inr k)
        with replaced [of env j n h t db k db'] Pair past 4 show ?thesis
          by (auto simp: revision_past_def split: if_splits)
      qed
    qed
  qed
qed

text \<open>
  Of all attempts to replace a password that expect the same security revision, one succeeds:
  after it, whatever else happens, another such attempt fails and changes neither the password nor
  the account.
\<close>

theorem password_replaced_once:
  assumes "replaceCredential env i n h t db = (Inr r, db1)"
    and "replaceCredential env2 i n h2 t2 (run_all port_exec cs db1) = (res, db2)"
  shows "\<not> isOk res \<and> db2 = run_all port_exec cs db1"
proof -
  have "revision_past (uuid_text i) (num_int n) db1"
    using replaced [OF assms(1)] by (auto simp: revision_past_def)
  then have past: "revision_past (uuid_text i) (num_int n) (run_all port_exec cs db1)"
    by (rule rotation.run_keeps)
  show ?thesis
  proof (cases res)
    case (Inl e)
    then show ?thesis using replace_fails assms(2) by simp
  next
    case (Inr k)
    with replaced [OF assms(2) [unfolded Inr]] past show ?thesis by (auto simp: revision_past_def)
  qed
qed

section \<open>Samples\<close>

definition sample_wa_env :: wa_env where
  "sample_wa_env = \<lparr>we_sha256 = rev, we_formats = (\<lambda>s. None), we_before = str_lt,
     we_order = (\<lambda>m. m), we_authorize = (\<lambda>i a c o'. None), we_others = []\<rparr>"

definition sample_create :: "string \<Rightarrow> string \<Rightarrow> string \<Rightarrow> string option \<Rightarrow> create_account" where
  "sample_create oid i name phone = \<lparr>wm_actor = \<lparr>wc_actorId = ''admin'', wc_actorType = System_actor\<rparr>,
     wm_operationId = oid, wm_reason = ''hired'', wm_traceId = ''trace'', ca_accountId = i,
     ca_createdAt = ''2024-01-01T00:00:00.000Z'', ca_phone = phone, ca_status = None,
     ca_username = name, ca_workforcePersonId = i\<rparr>"

definition ann :: string where "ann = ''11111111-1111-4111-8111-111111111111''"
definition bob :: string where "bob = ''22222222-2222-4222-8222-222222222222''"

definition sample_hires :: "(wa_env \<times> wa_command) list" where
  "sample_hires = [(sample_wa_env, Do_create (sample_create ann ann ''Anna'' (Some ''123456''))),
     (sample_wa_env, Do_create (sample_create bob bob ''Bobby'' None))]"

definition staff :: wa_store where
  "staff = run_all wa_exec sample_hires emptyWorkforceStore"


lemma staff_accounts: "jm_has (ws_accounts staff) ann" "jm_has (ws_accounts staff) bob"
  by code_simp+

theorem account_permanent_witness:
  "\<exists>b. jm_get (ws_accounts (run_all wa_exec [(sample_wa_env, Do_get ann)] staff)) ann = Some b"
proof -
  obtain a where "jm_get (ws_accounts staff) ann = Some a" using staff_accounts(1) by auto
  with account_permanent [OF staff_def] show ?thesis by blast
qed

theorem login_names_distinct_witness:
  "ac_usernameNormalized (the (jm_get (ws_accounts staff) ann))
     \<noteq> ac_usernameNormalized (the (jm_get (ws_accounts staff) bob))"
proof (rule login_names_distinct [OF _ _ staff_def, THEN conjunct1])
  show "\<forall>c \<in> set sample_hires. we_others (fst c) = [] \<and> we_sha256 (fst c) = rev"
    by (simp add: sample_hires_def sample_wa_env_def)
  have "distinct (map (\<lambda>(oid, kind, n). identifier_id rev oid kind n)
      (concat (map (wa_inputs \<circ> snd) sample_hires)))" by code_simp
  then show "no_collision rev (set (concat (map (wa_inputs \<circ> snd) sample_hires)))"
    unfolding no_collision_def by (simp only: distinct_map)
qed (use staff_accounts in \<open>auto simp: ann_def bob_def\<close>)

definition sample_login_env :: login_env where
  "sample_login_env = \<lparr>le_formats = (\<lambda>s. None), le_down = None, le_time_ok = (\<lambda>t. True)\<rparr>"

definition sample_credentials :: "(string, credential) jsmap" where
  "sample_credentials = [(ann, \<lparr>cr_passwordHash = DUMMY_PASSWORD_HASH, cr_revision = 0,
     cr_updatedAt = ''2024-01-01T00:00:00.000Z''\<rparr>)]"

definition ann_login :: login_account where
  "ann_login = the (projr (fst (findByIdentifier sample_login_env ''123456'' (login_db_of staff sample_credentials))))"

lemma ann_found: "findByIdentifier sample_login_env ''123456'' (login_db_of staff sample_credentials)
    = (Inr (Some ann_login), login_db_of staff sample_credentials)"
proof -
  let ?run = "findByIdentifier sample_login_env ''123456'' (login_db_of staff sample_credentials)"
  have "isOk (fst ?run) \<and> projr (fst ?run) \<noteq> None" by code_simp
  then have "fst ?run = Inr (Some ann_login)" unfolding ann_login_def using projr_ok by fastforce
  moreover have "snd ?run = login_db_of staff sample_credentials"
    by (simp add: findByIdentifier_def db_up_def sample_login_env_def bindA_run Let_def
        split: option.split sum.split prod.split list.split)
  ultimately show ?thesis by (simp add: prod_eq_iff)
qed

theorem login_unambiguous_witness:
  "li_accountId (the (wa_findIdentifier Kind_phone ''123456'' staff)) = lc_accountId ann_login"
proof (rule login_unambiguous [OF staff_def ann_found])
  show "normalizedIdentifiers ''123456'' = Inr [(Kind_phone, ''123456''), (Kind_username, ''123456'')]"
    by code_simp
qed code_simp+

definition rotated_db :: login_db where
  "rotated_db = snd (replaceCredential sample_login_env ann (Fin 0) DUMMY_PASSWORD_HASH
     ''2024-02-01T00:00:00.000Z'' (login_db_of staff sample_credentials))"

theorem password_replaced_once_witness:
  "\<not> isOk (fst (replaceCredential sample_login_env ann (Fin 0) DUMMY_PASSWORD_HASH
     ''2024-03-01T00:00:00.000Z'' rotated_db))"
proof -
  have "fst (replaceCredential sample_login_env ann (Fin 0) DUMMY_PASSWORD_HASH
     ''2024-02-01T00:00:00.000Z'' (login_db_of staff sample_credentials)) = Inr 1" by code_simp
  then have "replaceCredential sample_login_env ann (Fin 0) DUMMY_PASSWORD_HASH
     ''2024-02-01T00:00:00.000Z'' (login_db_of staff sample_credentials) = (Inr 1, rotated_db)"
    by (simp add: rotated_db_def prod_eq_iff)
  from password_replaced_once [OF this, where cs = "[]" and ?env2.0 = sample_login_env
      and ?h2.0 = DUMMY_PASSWORD_HASH and ?t2.0 = "''2024-03-01T00:00:00.000Z''"]
  show ?thesis by (metis prod.collapse run_all.simps(1))
qed

end
