(* ===== verification/AccountAccess.thy ===== *)
theory AccountAccess
  imports OrgService Authorization PasswordLogin Sessions
begin

text \<open>
  The application service behind the login endpoints (\<open>apps/api/src/auth/account-access-service.ts\<close>),
  over the session store, the credential port, the organization service and the grant store. Each
  operation reads the accounts, the organization and the grants once; the environment of an operation
  holds them as that read finds them, so anything may happen to them before and after. Argon2, the
  random bytes of a credential, the audit port's answers and the clock's progress are parameters.
\<close>

section \<open>Data\<close>

datatype access_action = Assignment_selected | Login_failed | Login_succeeded | Logout
  | Logout_requested | Reauthenticated | Reauthentication_failed

record access_event =
  ev_accountId :: "string option"
  ev_action :: access_action
  ev_occurredAt :: string
  ev_surface :: surface
  ev_traceId :: "string option"
  ev_workforcePersonId :: "string option"

record session_view =
  vw_absoluteExpiresAt :: string
  vw_accountId :: string
  vw_assignments :: "string list"
  vw_authenticatedAt :: string
  vw_csrfToken :: string
  vw_currentAssignmentId :: "string option"
  vw_idleExpiresAt :: string
  vw_reauthenticatedUntil :: "string option"
  vw_roles :: "fixed_role list"
  vw_surface :: surface

record session_result =
  sn_credential :: string
  sn_view :: session_view

record access_principal =
  pr_accountId :: string
  pr_currentAssignmentId :: "string option"
  pr_expiresAt :: string
  pr_issuedAt :: string
  pr_reauthenticated :: bool
  pr_sessionId :: string
  pr_workforcePersonId :: string

record login_input =
  lg_identifier :: string
  lg_password :: string
  lg_sourceAddress :: string
  lg_surface :: surface
  lg_traceId :: "string option"

record reauth_input =
  ra_credential :: string
  ra_password :: string
  ra_sourceAddress :: string
  ra_surface :: surface
  ra_traceId :: "string option"

record select_input =
  si_assignmentId :: string
  si_credential :: string
  si_surface :: surface
  si_traceId :: "string option"

definition IDLE_TTL_MS :: int where "IDLE_TTL_MS = 30 * 60 * 1000"
definition ABSOLUTE_TTL_MS :: int where "ABSOLUTE_TTL_MS = 8 * 60 * 60 * 1000"
definition REAUTHENTICATION_TTL_MS :: int where "REAUTHENTICATION_TTL_MS = 5 * 60 * 1000"

text \<open>
  \<open>xw_reads\<close> and \<open>xw_serial\<close> count the readings of the clock and the random credentials so far.
\<close>

record access_world =
  xw_sessions :: session_world
  xw_audit :: "access_event list"
  xw_reads :: nat
  xw_serial :: nat

record access_env =
  xe_session :: session_lib
  xe_password :: password_lib
  xe_login :: login_env
  xe_accounts :: login_db
  xe_org :: org_env
  xe_org_down :: "string option"
  xe_facts :: org_store
  xe_auth :: auth_env
  xe_grants :: "grant_row list"
  xe_audit :: "access_event \<Rightarrow> fate"
  xe_ticks :: "nat \<Rightarrow> nat"
  xe_opaque :: "nat \<Rightarrow> string"

text \<open>What an operation throws: a failure of the module, or the engine's \<open>RangeError\<close>.\<close>

datatype access_failure = Session_failure auth_code | Range_error

type_synonym 'a access_act = "(access_world, access_failure, 'a) act"

section \<open>The ports\<close>

definition dependencyFailure :: access_failure where
  "dependencyFailure = Session_failure Dependency_unavailable"

text \<open>\<open>this.#clock()\<close>: some time after what was done before.\<close>

definition readClock :: "access_env \<Rightarrow> int access_act" where
  "readClock env w =
     (let now = sw_now (xw_sessions w) + int (xe_ticks env (xw_reads w)) in
      (Inr now, w\<lparr>xw_sessions := (xw_sessions w)\<lparr>sw_now := now\<rparr>, xw_reads := xw_reads w + 1\<rparr>))"

definition createOpaque :: "access_env \<Rightarrow> string access_act" where
  "createOpaque env w = (Inr (xe_opaque env (xw_serial w)), w\<lparr>xw_serial := xw_serial w + 1\<rparr>)"

definition sessionA :: "'a session_act \<Rightarrow> 'a access_act" where
  "sessionA m w = (case m (xw_sessions w) of
     (Inl e, s) \<Rightarrow> (Inl (Session_failure e), w\<lparr>xw_sessions := s\<rparr>)
   | (Inr x, s) \<Rightarrow> (Inr x, w\<lparr>xw_sessions := s\<rparr>))"

text \<open>\<open>.catch(() => undefined)\<close>\<close>

definition ignoreA :: "unit access_act \<Rightarrow> unit access_act" where
  "ignoreA m = catchA m (\<lambda>_. retA ())"

text \<open>\<open>iso\<close>: \<open>toISOString\<close> throws outside the range of a \<open>Date\<close>.\<close>

definition iso_text :: "int \<Rightarrow> access_failure + string" where
  "iso_text ms = (if \<bar>ms\<bar> \<le> 8640000000000000 then Inr (to_iso ms) else Inl Range_error)"

definition iso_opt :: "int option \<Rightarrow> access_failure + string option" where
  "iso_opt v = (case v of None \<Rightarrow> Inr None | Some ms \<Rightarrow> bindE (iso_text ms) (\<lambda>t. Inr (Some t)))"

text \<open>\<open>#audit\<close>: a record that fails may have been stored or not.\<close>

definition auditA :: "access_env \<Rightarrow> access_event \<Rightarrow> unit access_act" where
  "auditA env e w = (case xe_audit env e of
     Answered \<Rightarrow> (Inr (), w\<lparr>xw_audit := xw_audit w @ [e]\<rparr>)
   | Lost_before \<Rightarrow> (Inl dependencyFailure, w)
   | Lost_after \<Rightarrow> (Inl dependencyFailure, w\<lparr>xw_audit := xw_audit w @ [e]\<rparr>))"

definition auditAfterSessionChange ::
  "access_env \<Rightarrow> surface \<Rightarrow> string \<Rightarrow> access_event \<Rightarrow> unit access_act" where
  "auditAfterSessionChange env sf c e = catchA (auditA env e) (\<lambda>f.
     bindA (ignoreA (sessionA (deleteSession (xe_session env) sf c))) (\<lambda>_. throwA f))"

text \<open>\<open>safeCode\<close> of what the credential port and the organization throw.\<close>

definition wa_safeCode :: "wa_failure \<Rightarrow> wa_code option" where
  "wa_safeCode e = (case e of Wa_error c \<Rightarrow> Some c | _ \<Rightarrow> None)"

definition org_safeCode :: "org_failure \<Rightarrow> org_code option" where
  "org_safeCode e = (case e of OrganizationError c \<Rightarrow> Some c | OrgPortError _ \<Rightarrow> None)"

definition not_employed :: "org_failure \<Rightarrow> bool" where
  "not_employed e = (org_safeCode e \<in> {Some assignment_not_active, Some employment_not_active, Some entity_not_found})"

definition byIdentifier :: "access_env \<Rightarrow> string \<Rightarrow> wa_failure + login_account option" where
  "byIdentifier env v = fst (findByIdentifier (xe_login env) v (xe_accounts env))"

definition byAccountId :: "access_env \<Rightarrow> string \<Rightarrow> wa_failure + login_account option" where
  "byAccountId env i = fst (findByAccountId (xe_login env) i (xe_accounts env))"

definition personContext :: "access_env \<Rightarrow> string \<Rightarrow> int \<Rightarrow> string option \<Rightarrow> org_failure + person_context" where
  "personContext env person now assignment = (case xe_org_down env of
     Some e \<Rightarrow> Inl (OrgPortError e)
   | None \<Rightarrow> resolveWorkforcePersonContext (xe_org env) person (to_iso now) assignment (xe_facts env))"

definition activeGrants :: "access_env \<Rightarrow> string \<Rightarrow> int \<Rightarrow> auth_failure + grant list" where
  "activeGrants env person now =
     fst (listActive (xe_auth env) person (to_iso now) \<lparr>aw_grants = xe_grants env, aw_decisions = []\<rparr>)"

definition passwordValid :: "access_env \<Rightarrow> login_account option \<Rightarrow> string \<Rightarrow> bool" where
  "passwordValid env a password = fst (verifyPasswordOrDummy (xe_password env) a password)"

text \<open>\<open>toLowerCase\<close> of a text of 8-bit code units, and the name attempts are counted under.\<close>

definition unit_lower :: "char \<Rightarrow> char" where
  "unit_lower c = (let n = (of_char c :: nat) in
     if 192 \<le> n \<and> n \<le> 222 \<and> n \<noteq> 215 then char_of (n + 32) else char_lower c)"

definition rateIdentifier :: "string \<Rightarrow> string" where
  "rateIdentifier v = (let compact = filter (\<lambda>c. c \<notin> set '' -'') v in
     if phone_ok compact then compact else map unit_lower v)"

definition source_ok :: "string \<Rightarrow> bool" where
  "source_ok a = (1 \<le> length a \<and> length a \<le> 128)"

definition personEvent :: "access_action \<Rightarrow> int \<Rightarrow> surface \<Rightarrow> string option \<Rightarrow> login_account option \<Rightarrow> access_event" where
  "personEvent action now sf trace a = \<lparr>ev_accountId = map_option lc_accountId a, ev_action = action,
     ev_occurredAt = to_iso now, ev_surface = sf, ev_traceId = trace,
     ev_workforcePersonId = map_option lc_workforcePersonId a\<rparr>"

section \<open>The operations\<close>

definition visible_roles :: "access_session \<Rightarrow> grant list \<Rightarrow> fixed_role list" where
  "visible_roles s grants = map gr_roleKey (filter (\<lambda>g. gr_roleKey g = System_administrator
     \<or> gr_assignmentId g = se_currentAssignmentId s) grants)"

definition sessionView :: "access_env \<Rightarrow> access_session \<Rightarrow> person_context \<Rightarrow> int \<Rightarrow> session_view access_act" where
  "sessionView env s ctx idle =
     bindA (readClock env) (\<lambda>now.
     case activeGrants env (se_workforcePersonId s) now of
       Inl _ \<Rightarrow> throwA dependencyFailure
     | Inr grants \<Rightarrow>
         bindA (liftA (iso_text (se_absoluteExpiresAtMs s))) (\<lambda>absolute.
         bindA (liftA (iso_text (se_authenticatedAtMs s))) (\<lambda>authenticated.
         bindA (liftA (iso_text (min (se_absoluteExpiresAtMs s) idle))) (\<lambda>idleExpires.
         bindA (liftA (iso_opt (se_reauthenticatedUntilMs s))) (\<lambda>reauth.
         retA \<lparr>vw_absoluteExpiresAt = absolute, vw_accountId = se_accountId s,
           vw_assignments = map rf_assignment (pc_assignments ctx), vw_authenticatedAt = authenticated,
           vw_csrfToken = se_csrfToken s, vw_currentAssignmentId = se_currentAssignmentId s,
           vw_idleExpiresAt = idleExpires, vw_reauthenticatedUntil = reauth,
           vw_roles = js_dedup (visible_roles s grants), vw_surface = se_surface s\<rparr>)))))"

record resolved =
  re_account :: login_account
  re_idleExpiresAtMs :: int
  re_session :: access_session
  re_workforce :: person_context

text \<open>The session under a credential: touched, or only looked at with the time it has left.\<close>

definition observeSession :: "access_env \<Rightarrow> bool \<Rightarrow> surface \<Rightarrow> string \<Rightarrow> int \<Rightarrow> (access_session option \<times> int option) access_act" where
  "observeSession env touch sf c now =
     (if touch then bindA (sessionA (getSession (xe_session env) sf c IDLE_TTL_MS now)) (\<lambda>s. retA (s, None))
      else bindA (sessionA (peekSession (xe_session env) sf c now)) (\<lambda>ob.
        retA (map_option ob_session ob, map_option ob_idleExpiresAtMs ob)))"

abbreviation authenticationRequired :: access_failure where
  "authenticationRequired \<equiv> Session_failure Auth_required"

text \<open>The checks on the account and the person of a session.\<close>

definition checkedAccount :: "access_env \<Rightarrow> access_session \<Rightarrow> access_failure + login_account" where
  "checkedAccount env s = (case byAccountId env (se_accountId s) of
     Inl _ \<Rightarrow> Inl dependencyFailure
   | Inr None \<Rightarrow> Inl authenticationRequired
   | Inr (Some a) \<Rightarrow> if lc_status a \<noteq> Account_active \<or> lc_securityRevision a \<noteq> se_securityRevision s
         \<or> lc_workforcePersonId a \<noteq> se_workforcePersonId s
       then Inl authenticationRequired else Inr a)"

definition checkedContext :: "access_env \<Rightarrow> access_session \<Rightarrow> int \<Rightarrow> access_failure + person_context" where
  "checkedContext env s now =
     (case personContext env (se_workforcePersonId s) now (se_currentAssignmentId s) of
        Inl e \<Rightarrow> Inl (if not_employed e then authenticationRequired else dependencyFailure)
      | Inr ctx \<Rightarrow> if pc_employmentIds ctx = [] \<or> pc_assignments ctx = []
          then Inl authenticationRequired else Inr ctx)"

definition resolveSession :: "access_env \<Rightarrow> bool \<Rightarrow> surface \<Rightarrow> string \<Rightarrow> resolved access_act" where
  "resolveSession env touch sf c =
     bindA (readClock env) (\<lambda>now.
     bindA (observeSession env touch sf c now) (\<lambda>(found, idle).
     bindA (requireA found authenticationRequired) (\<lambda>s.
     bindA (ensureA (now < se_absoluteExpiresAtMs s) authenticationRequired) (\<lambda>_.
     bindA (liftA (checkedAccount env s)) (\<lambda>a.
     bindA (liftA (checkedContext env s now)) (\<lambda>ctx.
     bindA (requireA (if touch then Some (min (se_absoluteExpiresAtMs s) (now + IDLE_TTL_MS)) else idle)
       authenticationRequired) (\<lambda>idleExpires.
     retA \<lparr>re_account = a, re_idleExpiresAtMs = idleExpires, re_session = s, re_workforce = ctx\<rparr>)))))))"

definition recordLoginFailure :: "access_env \<Rightarrow> login_input \<Rightarrow> int \<Rightarrow> login_account option \<Rightarrow> unit access_act" where
  "recordLoginFailure env input now a =
     auditA env (personEvent Login_failed now (lg_surface input) (lg_traceId input) a)"

text \<open>A failed login is recorded before it is refused.\<close>

definition refuseLogin :: "access_env \<Rightarrow> login_input \<Rightarrow> int \<Rightarrow> login_account option \<Rightarrow> 'a access_act" where
  "refuseLogin env input now a =
     bindA (recordLoginFailure env input now a) (\<lambda>_. throwA (Session_failure Invalid_credentials))"

definition openSession ::
  "access_env \<Rightarrow> login_input \<Rightarrow> string \<Rightarrow> int \<Rightarrow> login_account \<Rightarrow> person_context \<Rightarrow> session_result access_act" where
  "openSession env input rateKey now a ctx =
     bindA (createOpaque env) (\<lambda>csrf.
     bindA (createOpaque env) (\<lambda>sessionId.
     let s = \<lparr>se_absoluteExpiresAtMs = now + ABSOLUTE_TTL_MS, se_accountId = lc_accountId a,
         se_authenticatedAtMs = now, se_createdAtMs = now, se_csrfToken = csrf,
         se_currentAssignmentId = (case pc_assignments ctx of [r] \<Rightarrow> Some (rf_assignment r) | _ \<Rightarrow> None),
         se_reauthenticatedUntilMs = None, se_securityRevision = lc_securityRevision a,
         se_sessionId = sessionId, se_surface = lg_surface input,
         se_workforcePersonId = lc_workforcePersonId a\<rparr> in
     bindA (createOpaque env) (\<lambda>credential.
     bindA (sessionView env s ctx (now + IDLE_TTL_MS)) (\<lambda>v.
     bindA (sessionA (createSession (xe_session env) (lg_surface input) credential s IDLE_TTL_MS)) (\<lambda>_.
     bindA (auditAfterSessionChange env (lg_surface input) credential
       (personEvent Login_succeeded now (lg_surface input) (lg_traceId input) (Some a))) (\<lambda>_.
     bindA (sessionA (recordLoginSuccess (xe_session env) rateKey (lg_sourceAddress input))) (\<lambda>_.
     retA \<lparr>sn_credential = credential, sn_view = v\<rparr>)))))))"

text \<open>The account a login text names: none where the port finds the text invalid.\<close>

definition loginAccount :: "access_env \<Rightarrow> string \<Rightarrow> access_failure + login_account option" where
  "loginAccount env v = (case byIdentifier env v of
     Inl e \<Rightarrow> if wa_safeCode e = Some Wa_input_invalid then Inr None else Inl dependencyFailure
   | Inr a \<Rightarrow> Inr a)"

definition loginPerson :: "access_env \<Rightarrow> login_input \<Rightarrow> string \<Rightarrow> int \<Rightarrow> login_account \<Rightarrow> session_result access_act" where
  "loginPerson env input rateKey now a =
     (case personContext env (lc_workforcePersonId a) now None of
        Inl e \<Rightarrow> if not_employed e then refuseLogin env input now (Some a) else throwA dependencyFailure
      | Inr ctx \<Rightarrow> if pc_employmentIds ctx = [] \<or> pc_assignments ctx = []
          then refuseLogin env input now (Some a)
          else openSession env input rateKey now a ctx)"

definition login :: "access_env \<Rightarrow> login_input \<Rightarrow> session_result access_act" where
  "login env input =
     bindA (readClock env) (\<lambda>now.
     bindA (ensureA (1 \<le> length (lg_identifier input) \<and> length (lg_identifier input) \<le> 64
       \<and> source_ok (lg_sourceAddress input)) (Session_failure Invalid_credentials)) (\<lambda>_.
     let rateKey = rateIdentifier (lg_identifier input) in
     bindA (sessionA (admitLoginAttempt (xe_session env) rateKey (lg_sourceAddress input))) (\<lambda>admitted.
     if \<not> admitted
     then bindA (auditA env (personEvent Login_failed now (lg_surface input) (lg_traceId input) None)) (\<lambda>_.
       throwA (Session_failure Rate_limited))
     else bindA (liftA (loginAccount env (lg_identifier input))) (\<lambda>account.
       case account of
         None \<Rightarrow> refuseLogin env input now None
       | Some a \<Rightarrow> if \<not> passwordValid env account (lg_password input) \<or> lc_status a \<noteq> Account_active
           then refuseLogin env input now account
           else loginPerson env input rateKey now a))))"

definition current :: "access_env \<Rightarrow> surface \<Rightarrow> string \<Rightarrow> session_view access_act" where
  "current env sf c =
     bindA (resolveSession env False sf c) (\<lambda>x.
     sessionView env (re_session x) (re_workforce x) (re_idleExpiresAtMs x))"

definition principal :: "access_env \<Rightarrow> surface \<Rightarrow> string \<Rightarrow> access_principal access_act" where
  "principal env sf c =
     bindA (resolveSession env True sf c) (\<lambda>x.
     bindA (readClock env) (\<lambda>now.
     let s = re_session x in
     bindA (liftA (iso_text (se_absoluteExpiresAtMs s))) (\<lambda>expires.
     bindA (liftA (iso_text (se_authenticatedAtMs s))) (\<lambda>issued.
     retA \<lparr>pr_accountId = se_accountId s, pr_currentAssignmentId = se_currentAssignmentId s,
       pr_expiresAt = expires, pr_issuedAt = issued,
       pr_reauthenticated = (case se_reauthenticatedUntilMs s of None \<Rightarrow> 0 | Some t \<Rightarrow> t) > now,
       pr_sessionId = se_sessionId s, pr_workforcePersonId = se_workforcePersonId s\<rparr>))))"

text \<open>A session's successor under a new credential, with what is left of its time.\<close>

definition successor ::
  "access_env \<Rightarrow> surface \<Rightarrow> string \<Rightarrow> string \<Rightarrow> access_session \<Rightarrow> person_context \<Rightarrow> int \<Rightarrow> access_event
     \<Rightarrow> session_result access_act" where
  "successor env sf previous credential s ctx now e =
     (let remaining = min IDLE_TTL_MS (se_absoluteExpiresAtMs s - now) in
      bindA (ensureA (0 < remaining) authenticationRequired) (\<lambda>_.
      bindA (sessionView env s ctx (now + remaining)) (\<lambda>v.
      bindA (sessionA (rotateSession (xe_session env) sf previous credential s remaining now)) (\<lambda>_.
      bindA (auditAfterSessionChange env sf credential e) (\<lambda>_.
      retA \<lparr>sn_credential = credential, sn_view = v\<rparr>)))))"

text \<open>A failed reauthentication is recorded before it is refused.\<close>

definition refuseReauthentication ::
  "access_env \<Rightarrow> reauth_input \<Rightarrow> int \<Rightarrow> login_account \<Rightarrow> auth_code \<Rightarrow> 'a access_act" where
  "refuseReauthentication env input now a code =
     bindA (auditA env (personEvent Reauthentication_failed now (ra_surface input) (ra_traceId input) (Some a))) (\<lambda>_.
     throwA (Session_failure code))"

definition reauthenticationKey :: "string \<Rightarrow> string" where
  "reauthenticationKey accountId = ''reauthentication:'' @ accountId"

definition reauthenticate :: "access_env \<Rightarrow> reauth_input \<Rightarrow> session_result access_act" where
  "reauthenticate env input =
     bindA (ensureA (source_ok (ra_sourceAddress input)) (Session_failure Invalid_credentials)) (\<lambda>_.
     bindA (resolveSession env True (ra_surface input) (ra_credential input)) (\<lambda>x.
     let a = re_account x; rateKey = reauthenticationKey (lc_accountId a) in
     bindA (readClock env) (\<lambda>now.
     bindA (sessionA (admitLoginAttempt (xe_session env) rateKey (ra_sourceAddress input))) (\<lambda>admitted.
     if \<not> admitted then refuseReauthentication env input now a Rate_limited
     else if \<not> passwordValid env (Some a) (ra_password input)
     then refuseReauthentication env input now a Invalid_credentials
     else bindA (createOpaque env) (\<lambda>csrf.
       bindA (createOpaque env) (\<lambda>sessionId.
       bindA (createOpaque env) (\<lambda>credential.
       bindA (successor env (ra_surface input) (ra_credential input) credential
         ((re_session x)\<lparr>se_csrfToken := csrf, se_reauthenticatedUntilMs := Some (now + REAUTHENTICATION_TTL_MS),
            se_sessionId := sessionId\<rparr>) (re_workforce x) now
         (personEvent Reauthenticated now (ra_surface input) (ra_traceId input) (Some a))) (\<lambda>result.
       bindA (sessionA (recordLoginSuccess (xe_session env) rateKey (ra_sourceAddress input))) (\<lambda>_.
       retA result)))))))))"

definition selectAssignment :: "access_env \<Rightarrow> select_input \<Rightarrow> session_result access_act" where
  "selectAssignment env input =
     bindA (resolveSession env True (si_surface input) (si_credential input)) (\<lambda>x.
     bindA (ensureA (list_ex (\<lambda>r. rf_assignment r = si_assignmentId input) (pc_assignments (re_workforce x)))
       authenticationRequired) (\<lambda>_.
     bindA (createOpaque env) (\<lambda>csrf.
     bindA (createOpaque env) (\<lambda>sessionId.
     bindA (createOpaque env) (\<lambda>credential.
     bindA (readClock env) (\<lambda>now.
     successor env (si_surface input) (si_credential input) credential
       ((re_session x)\<lparr>se_csrfToken := csrf, se_currentAssignmentId := Some (si_assignmentId input),
          se_sessionId := sessionId\<rparr>) (re_workforce x) now
       (personEvent Assignment_selected now (si_surface input) (si_traceId input) (Some (re_account x)))))))))"

text \<open>What a logout records, before and after it deletes the session.\<close>

definition logoutEvent ::
  "access_env \<Rightarrow> access_action \<Rightarrow> surface \<Rightarrow> string option \<Rightarrow> observed_session option \<Rightarrow> unit access_act" where
  "logoutEvent env action sf trace observed =
     bindA (readClock env) (\<lambda>now.
     ignoreA (auditA env \<lparr>ev_accountId = map_option (se_accountId \<circ> ob_session) observed, ev_action = action,
       ev_occurredAt = to_iso now, ev_surface = sf, ev_traceId = trace,
       ev_workforcePersonId = map_option (se_workforcePersonId \<circ> ob_session) observed\<rparr>))"

definition logout :: "access_env \<Rightarrow> surface \<Rightarrow> string option \<Rightarrow> string option \<Rightarrow> unit access_act" where
  "logout env sf credential trace = (case credential of
     None \<Rightarrow> retA ()
   | Some c \<Rightarrow>
       bindA (readClock env) (\<lambda>now.
       bindA (catchA (sessionA (peekSession (xe_session env) sf c now)) (\<lambda>_. retA None)) (\<lambda>observed.
       bindA (logoutEvent env Logout_requested sf trace observed) (\<lambda>_.
       bindA (sessionA (deleteSession (xe_session env) sf c)) (\<lambda>_.
       logoutEvent env Logout sf trace observed)))))"

end
