(* ===== verification/AccountProps.thy ===== *)
theory AccountProps
  imports AccountAccess
begin

text \<open>
  What the account access service promises: whom a session and a login entitle, what the audit trail
  holds, that a logout ends the session and that a new password ends all of them.
\<close>

section \<open>The ports\<close>

lemma sessionA_Inr: "sessionA m w = (Inr x, w') \<longleftrightarrow>
    (\<exists>s. m (xw_sessions w) = (Inr x, s) \<and> w' = w\<lparr>xw_sessions := s\<rparr>)"
  by (auto simp: sessionA_def split: prod.split sum.split)

lemma sessionA_Inl: "sessionA m w = (Inl e, w') \<longleftrightarrow>
    (\<exists>c s. m (xw_sessions w) = (Inl c, s) \<and> e = Session_failure c \<and> w' = w\<lparr>xw_sessions := s\<rparr>)"
  by (auto simp: sessionA_def split: prod.split sum.split)

text \<open>The world after the clock was read, and what Redis holds when the next command runs.\<close>

definition clocked :: "access_env \<Rightarrow> access_world \<Rightarrow> access_world" where
  "clocked env w = snd (readClock env w)"

lemma readClock_Inr: "readClock env w = (Inr now, w') \<longleftrightarrow> w' = clocked env w \<and> now = sw_now (xw_sessions w')"
  by (auto simp: clocked_def readClock_def Let_def)

lemma readClock_Inl [simp]: "readClock env w \<noteq> (Inl e, w')"
  by (simp add: readClock_def Let_def)

definition redis_next :: "session_lib \<Rightarrow> session_world \<Rightarrow> int \<times> redis" where
  "redis_next lib w =
     (let st = (case sw_steps w of [] \<Rightarrow> \<lparr>rs_delay = 0, rs_others = [], rs_fate = Answered\<rparr> | x # _ \<Rightarrow> x);
          now = sw_now w + int (rs_delay st) in (now, others_run lib now (rs_others st) (sw_redis w)))"

lemma redis_command_Inr:
  assumes "redis_command lib c w = (Inr answer, w')"
  shows "answer = fst (run_script (sl_tonumber lib) (fst (redis_next lib w)) c (snd (redis_next lib w)))
    \<and> sw_redis w' = snd (run_script (sl_tonumber lib) (fst (redis_next lib w)) c (snd (redis_next lib w)))
    \<and> sw_now w' = fst (redis_next lib w) \<and> sw_steps w' = tl (sw_steps w)"
  using assms by (auto simp: redis_command_def redis_next_def Let_def split: prod.splits fate.splits)

lemma redis_command_Inl: "redis_command lib c w = (Inl e, w') \<Longrightarrow> e = Dependency_unavailable"
  by (auto simp: redis_command_def Let_def split: prod.splits fate.splits)

text \<open>What is stored under a credential at that moment, and reads as a session.\<close>

definition holds_session :: "session_lib \<Rightarrow> surface \<Rightarrow> string \<Rightarrow> session_world \<Rightarrow> access_session \<Rightarrow> bool" where
  "holds_session lib sf c w s \<longleftrightarrow> (\<exists>j. rd_get (fst (redis_next lib w)) (snd (redis_next lib w))
     (Session_key sf (session_index lib sf c)) = Some (V_session j) \<and> parseSession (Some j) sf = Inr (Some s))"

lemma holds_session_unique: "holds_session lib sf c w s \<Longrightarrow> holds_session lib sf c w s' \<Longrightarrow> s = s'"
  by (auto simp: holds_session_def)

lemma parse_or_delete_Inr: "parse_or_delete lib sf c text w = (Inr v, w') \<Longrightarrow> parseSession text sf = Inr v"
  by (auto simp: parse_or_delete_def bindA_eq_Inr throwA_def split: sum.splits)

lemma touched: "fst (touch_script tn now sf i nowMs idle r) = R_value j \<Longrightarrow>
    rd_get now r (Session_key sf i) = Some (V_session j)"
  by (auto simp: touch_script_def Let_def split: option.splits redis_value.splits if_splits)

lemma getSession_found:
  assumes "getSession lib sf c idle now w = (Inr (Some s), w')"
  shows "holds_session lib sf c w s"
proof -
  obtain answer u where run: "redis_command lib (Sc_touch sf (session_index lib sf c) now idle) w = (Inr answer, u)"
      and "parse_or_delete lib sf c (reply_text answer) u = (Inr (Some s), w')"
    using assms by (auto simp: getSession_def bindA_eq_Inr)
  then have parsed: "parseSession (reply_text answer) sf = Inr (Some s)" by (blast dest: parse_or_delete_Inr)
  then obtain j where j: "answer = R_value j"
    by (auto simp: reply_text_def parseSession_def split: reply.splits)
  have "rd_get (fst (redis_next lib w)) (snd (redis_next lib w)) (Session_key sf (session_index lib sf c))
      = Some (V_session j)"
    using redis_command_Inr [OF run] j by (auto intro: touched)
  with parsed j show ?thesis by (auto simp: holds_session_def reply_text_def)
qed

section \<open>Whom a session entitles\<close>

lemma context_assignment:
  assumes "resolveWorkforcePersonContext env person instant aid s = Inr ctx" and "r \<in> set (pc_assignments ctx)"
  shows "\<exists>a \<in> set (jm_values (os_assignments s)). as_id a = rf_assignment r \<and> as_person a = person
    \<and> isActive (oe_dates env) a instant \<and> (truthy aid \<longrightarrow> aid = Some (as_id a))"
proof -
  let ?as = "filter (\<lambda>a. as_employment a \<in> set (js_dedup (map em_id
      (listActiveEmployments (oe_dates env) s person instant)))) (listActiveAssignments (oe_dates env) s person instant)"
  obtain as where "org_choose aid ?as = Inr as" and "pc_assignments ctx = map assignmentReference as"
    using assms(1) unfolding resolveWorkforcePersonContext_def Let_def bindE_eq_Inr by auto
  with assms(2) show ?thesis
    by (fastforce simp: org_choose_def bindE_eq_Inr Let_def listActiveAssignments_def assignmentReference_def
        truthy_def split: if_splits option.splits)
qed

lemma checkedAccount_Inr: "checkedAccount env s = Inr a \<longleftrightarrow> byAccountId env (se_accountId s) = Inr (Some a)
    \<and> lc_status a = Account_active \<and> lc_securityRevision a = se_securityRevision s
    \<and> lc_workforcePersonId a = se_workforcePersonId s"
  by (auto simp: checkedAccount_def split: sum.split option.split)

lemma checkedContext_Inr: "checkedContext env s now = Inr ctx \<longleftrightarrow>
    personContext env (se_workforcePersonId s) now (se_currentAssignmentId s) = Inr ctx
    \<and> pc_employmentIds ctx \<noteq> [] \<and> pc_assignments ctx \<noteq> []"
  by (auto simp: checkedContext_def split: sum.split)

lemma resolveSession_touched:
  assumes "resolveSession env True sf c w = (Inr x, w')"
  shows "holds_session (xe_session env) sf c (xw_sessions (clocked env w)) (re_session x)
    \<and> sw_now (xw_sessions (clocked env w)) < se_absoluteExpiresAtMs (re_session x)
    \<and> checkedAccount env (re_session x) = Inr (re_account x)
    \<and> checkedContext env (re_session x) (sw_now (xw_sessions (clocked env w))) = Inr (re_workforce x)"
  using assms getSession_found
  by (fastforce simp: resolveSession_def observeSession_def bindA_eq_Inr readClock_Inr sessionA_Inr)

text \<open>
  C3: A principal comes from a session that Redis holds under the credential and that has not reached its
  absolute expiry; its account is active, belongs to the session's person and is at the session's
  security revision; the person has an assignment that is effective at that time, and an assignment the
  principal names is such a one.
\<close>

theorem principal_sound:
  assumes "principal env sf c w = (Inr p, w')"
  shows "\<exists>s a now. holds_session (xe_session env) sf c (xw_sessions (clocked env w)) s
    \<and> now = sw_now (xw_sessions (clocked env w)) \<and> now < se_absoluteExpiresAtMs s
    \<and> se_accountId s = pr_accountId p \<and> se_workforcePersonId s = pr_workforcePersonId p
    \<and> byAccountId env (pr_accountId p) = Inr (Some a) \<and> lc_status a = Account_active
    \<and> lc_securityRevision a = se_securityRevision s \<and> lc_workforcePersonId a = pr_workforcePersonId p
    \<and> (\<exists>x \<in> set (jm_values (os_assignments (xe_facts env))). as_person x = pr_workforcePersonId p
        \<and> isActive (oe_dates (xe_org env)) x (to_iso now)
        \<and> (truthy (pr_currentAssignmentId p) \<longrightarrow> pr_currentAssignmentId p = Some (as_id x)))"
proof -
  obtain x u where x: "resolveSession env True sf c w = (Inr x, u)"
      and p: "pr_accountId p = se_accountId (re_session x)" "pr_workforcePersonId p = se_workforcePersonId (re_session x)"
        "pr_currentAssignmentId p = se_currentAssignmentId (re_session x)"
    using assms by (auto simp: principal_def bindA_eq_Inr Let_def retA_def)
  let ?now = "sw_now (xw_sessions (clocked env w))"
  note r = resolveSession_touched [OF x]
  then have "checkedContext env (re_session x) ?now = Inr (re_workforce x)" by blast
  then obtain r where ctx: "personContext env (se_workforcePersonId (re_session x)) ?now
      (se_currentAssignmentId (re_session x)) = Inr (re_workforce x)" and "r \<in> set (pc_assignments (re_workforce x))"
    unfolding checkedContext_Inr by (metis list.set_intros(1) neq_Nil_conv)
  then have "\<exists>a \<in> set (jm_values (os_assignments (xe_facts env))). as_person a = pr_workforcePersonId p
      \<and> isActive (oe_dates (xe_org env)) a (to_iso ?now)
      \<and> (truthy (pr_currentAssignmentId p) \<longrightarrow> pr_currentAssignmentId p = Some (as_id a))"
    using context_assignment [of "xe_org env"] p
    by (fastforce simp: personContext_def split: option.splits)
  with r p show ?thesis unfolding checkedAccount_Inr by metis
qed

section \<open>Logins\<close>

lemma keeps_session [keeps]: "keepsA (\<lambda>w. xw_audit w = evs) (sessionA m)"
  by (auto simp: keepsA_def sessionA_def split: prod.split sum.split)

lemma keeps_clock [keeps]: "keepsA (\<lambda>w. xw_audit w = evs) (readClock env)"
  by (simp add: keepsA_def readClock_def Let_def)

lemma keeps_opaque [keeps]: "keepsA (\<lambda>w. xw_audit w = evs) (createOpaque env)"
  by (simp add: keepsA_def createOpaque_def)

lemma keeps_view [keeps]: "keepsA (\<lambda>w. xw_audit w = evs) (sessionView env s ctx idle)"
  unfolding sessionView_def by (auto intro!: keeps split: sum.split)

text \<open>A step that records nothing.\<close>

lemma quiet:
  assumes "m w = (r, w')" and "\<And>evs. keepsA (\<lambda>w. xw_audit w = evs) m"
  shows "xw_audit w' = xw_audit w"
  using assms(1) keepsA_D [OF assms(2), OF refl, of w] by simp

lemma quiet_steps:
  "sessionA n w = (x, w') \<Longrightarrow> xw_audit w' = xw_audit w"
  "createOpaque env w = (y, w') \<Longrightarrow> xw_audit w' = xw_audit w"
  "sessionView env s ctx idle w = (z, w') \<Longrightarrow> xw_audit w' = xw_audit w"
  by (rule quiet [where m = "sessionA n"], assumption, rule keeps_session,
      rule quiet [where m = "createOpaque env"], assumption, rule keeps_opaque,
      rule quiet [where m = "sessionView env s ctx idle"], assumption, rule keeps_view)

lemma audit_Inr: "auditA env e w = (Inr u, w') \<longleftrightarrow> xe_audit env e = Answered \<and> w' = w\<lparr>xw_audit := xw_audit w @ [e]\<rparr>"
  by (auto simp: auditA_def split: fate.split)

lemma audit_Inl: "auditA env e w = (Inl f, w') \<Longrightarrow> f = dependencyFailure"
  by (auto simp: auditA_def split: fate.splits)

lemma audit_after_Inr: "auditAfterSessionChange env sf c e w = (Inr u, w') \<Longrightarrow> auditA env e w = (Inr u, w')"
  by (auto simp: auditAfterSessionChange_def catchA_run bindA_eq_Inr ignoreA_def split: prod.splits sum.splits)

lemma refuseLogin_fails [simp]: "refuseLogin env input now a w \<noteq> (Inr x, w')"
  by (auto simp: refuseLogin_def bindA_eq_Inr throwA_def)

lemma sessionView_Inr: "sessionView env s ctx idle w = (Inr v, w') \<Longrightarrow> vw_accountId v = se_accountId s"
  unfolding sessionView_def bindA_eq_Inr
  by (erule exE, erule exE, erule conjE, rename_tac now u, case_tac "activeGrants env (se_workforcePersonId s) now")
    (auto simp: bindA_eq_Inr)

lemma openSession_Inr:
  assumes "openSession env input rateKey now a ctx w = (Inr r, w')"
  shows "vw_accountId (sn_view r) = lc_accountId a \<and>
    xw_audit w' = xw_audit w @ [personEvent Login_succeeded now (lg_surface input) (lg_traceId input) (Some a)]"
proof -
  obtain csrf sid c v s w1 w2 w3 w4 w5 w6 where
      steps: "createOpaque env w = (Inr csrf, w1)" "createOpaque env w1 = (Inr sid, w2)"
        "createOpaque env w2 = (Inr c, w3)" "sessionView env s ctx (now + IDLE_TTL_MS) w3 = (Inr v, w4)"
        "sessionA (createSession (xe_session env) (lg_surface input) c s IDLE_TTL_MS) w4 = (Inr (), w5)"
      and event: "auditAfterSessionChange env (lg_surface input) c
        (personEvent Login_succeeded now (lg_surface input) (lg_traceId input) (Some a)) w5 = (Inr (), w6)"
      and success: "sessionA (recordLoginSuccess (xe_session env) rateKey (lg_sourceAddress input)) w6 = (Inr (), w')"
      and r: "sn_view r = v" "se_accountId s = lc_accountId a"
    using assms unfolding openSession_def Let_def bindA_eq_Inr
    by (clarsimp simp: retA_def)
  have "xw_audit w5 = xw_audit w" using steps by (metis quiet_steps)
  moreover have "xw_audit w' = xw_audit w6" using quiet_steps(1) [OF success] .
  ultimately show ?thesis using r sessionView_Inr [OF steps(4)] audit_after_Inr [OF event] by (simp add: audit_Inr)
qed

lemma loginPerson_Inr:
  assumes "loginPerson env input rateKey now a w = (Inr r, w')"
  shows "\<exists>ctx. personContext env (lc_workforcePersonId a) now None = Inr ctx \<and> pc_assignments ctx \<noteq> []
    \<and> openSession env input rateKey now a ctx w = (Inr r, w')"
  using assms by (auto simp: loginPerson_def throwA_def split: sum.splits if_splits)

lemma admitted_branch:
  assumes "(if \<not> admitted then bindA m (\<lambda>_. throwA e) else bindA (liftA found) f) u = (Inr r, w')"
  shows "admitted \<and> (case found of Inl e \<Rightarrow> (Inl e, u) | Inr a \<Rightarrow> f a u) = (Inr r, w')"
  using assms by (auto simp: bindA_eq_Inr throwA_def split: if_splits)

lemma login_Inr:
  assumes "login env input w = (Inr r, w')"
  shows "\<exists>a u. xw_audit u = xw_audit w \<and> loginAccount env (lg_identifier input) = Inr (Some a)
    \<and> passwordValid env (Some a) (lg_password input) \<and> lc_status a = Account_active
    \<and> loginPerson env input (rateIdentifier (lg_identifier input)) (sw_now (xw_sessions (clocked env w))) a u = (Inr r, w')"
proof -
  let ?now = "sw_now (xw_sessions (clocked env w))"
  have clock: "readClock env w = (Inr ?now, clocked env w)" by (simp add: readClock_Inr)
  have "xw_audit (clocked env w) = xw_audit w" by (simp add: clocked_def readClock_def Let_def)
  moreover from assms [unfolded login_def bindA_run [of "readClock env"] clock prod.case sum.case]
  obtain admitted u where admission: "sessionA (admitLoginAttempt (xe_session env)
        (rateIdentifier (lg_identifier input)) (lg_sourceAddress input)) (clocked env w) = (Inr admitted, u)"
      and rest: "(if \<not> admitted
        then bindA (auditA env (personEvent Login_failed ?now (lg_surface input) (lg_traceId input) None)) (\<lambda>_.
          throwA (Session_failure Rate_limited))
        else bindA (liftA (loginAccount env (lg_identifier input))) (\<lambda>account.
          case account of None \<Rightarrow> refuseLogin env input ?now None
          | Some a \<Rightarrow> if \<not> passwordValid env account (lg_password input) \<or> lc_status a \<noteq> Account_active
              then refuseLogin env input ?now account
              else loginPerson env input (rateIdentifier (lg_identifier input)) ?now a)) u = (Inr r, w')"
    unfolding Let_def bindA_eq_Inr [of "ensureA b e" for b e] bindA_eq_Inr [of "sessionA m" for m] ensureA_eq_Inr
    by blast
  ultimately have "xw_audit u = xw_audit w" using quiet_steps(1) by metis
  with admitted_branch [OF rest] show ?thesis by (auto split: sum.splits option.splits if_splits)
qed

text \<open>
  C27: Who logs in is an active account that the login text names, whose password verified, and whose person
  has an assignment that is effective at that time; the session's view is that account's, and the
  audit trail got one entry, the account's successful login.
\<close>

theorem login_sound:
  assumes "login env input w = (Inr r, w')"
  shows "\<exists>a now. loginAccount env (lg_identifier input) = Inr (Some a) \<and> lc_status a = Account_active
    \<and> passwordValid env (Some a) (lg_password input) \<and> vw_accountId (sn_view r) = lc_accountId a
    \<and> (\<exists>x \<in> set (jm_values (os_assignments (xe_facts env))). as_person x = lc_workforcePersonId a
        \<and> isActive (oe_dates (xe_org env)) x (to_iso now))
    \<and> xw_audit w' = xw_audit w @ [personEvent Login_succeeded now (lg_surface input) (lg_traceId input) (Some a)]"
proof -
  obtain a u where a: "xw_audit u = xw_audit w" "loginAccount env (lg_identifier input) = Inr (Some a)"
      "passwordValid env (Some a) (lg_password input)" "lc_status a = Account_active"
      and person: "loginPerson env input (rateIdentifier (lg_identifier input))
        (sw_now (xw_sessions (clocked env w))) a u = (Inr r, w')"
    using login_Inr [OF assms] by blast
  from loginPerson_Inr [OF person] obtain ctx where
      ctx: "personContext env (lc_workforcePersonId a) (sw_now (xw_sessions (clocked env w))) None = Inr ctx"
        "pc_assignments ctx \<noteq> []"
      and opened: "openSession env input (rateIdentifier (lg_identifier input))
        (sw_now (xw_sessions (clocked env w))) a ctx u = (Inr r, w')" by blast
  obtain q where "q \<in> set (pc_assignments ctx)" using ctx(2) by (metis list.set_intros(1) neq_Nil_conv)
  with context_assignment [of "xe_org env"] ctx(1)
  have "\<exists>x \<in> set (jm_values (os_assignments (xe_facts env))). as_person x = lc_workforcePersonId a
      \<and> isActive (oe_dates (xe_org env)) x (to_iso (sw_now (xw_sessions (clocked env w))))"
    by (fastforce simp: personContext_def split: option.splits)
  with a openSession_Inr [OF opened] show ?thesis by metis
qed

text \<open>The parts of a login that never refuse it themselves.\<close>

definition refusal :: "access_failure \<Rightarrow> bool" where
  "refusal e \<longleftrightarrow> e = Session_failure Invalid_credentials \<or> e = Session_failure Rate_limited"

definition unrefusing :: "'a access_act \<Rightarrow> bool" where
  "unrefusing m \<longleftrightarrow> (\<forall>w e w'. m w = (Inl e, w') \<longrightarrow> \<not> refusal e)"

named_theorems unrefused "rules for actions that never refuse"

lemma unrefusing_bind [unrefused]:
  "unrefusing m \<Longrightarrow> (\<And>x. unrefusing (f x)) \<Longrightarrow> unrefusing (bindA m f)"
  unfolding unrefusing_def bindA_eq_Inl by blast

lemma unrefusing_basic [unrefused]:
  "unrefusing (retA x)" "unrefusing (readClock env)" "unrefusing (createOpaque env)"
  "unrefusing (throwA dependencyFailure)" "unrefusing (liftA (iso_text t))" "unrefusing (liftA (iso_opt v))"
  by (auto simp: unrefusing_def retA_def throwA_def liftA_def createOpaque_def refusal_def dependencyFailure_def
      iso_opt_def iso_text_def split: option.splits if_splits)

lemma unrefusing_audit [unrefused]: "unrefusing (auditA env e)"
  using audit_Inl by (fastforce simp: unrefusing_def refusal_def dependencyFailure_def)

lemma unrefusing_audit_after [unrefused]: "unrefusing (auditAfterSessionChange env sf c e)"
  by (auto simp: unrefusing_def auditAfterSessionChange_def catchA_run bindA_eq_Inl ignoreA_def throwA_def
      refusal_def dependencyFailure_def dest: audit_Inl split: prod.splits sum.splits)

lemma unrefusing_session:
  "(\<And>s c s'. m s = (Inl c, s') \<Longrightarrow> c \<noteq> Invalid_credentials \<and> c \<noteq> Rate_limited) \<Longrightarrow> unrefusing (sessionA m)"
  by (auto simp: unrefusing_def sessionA_Inl refusal_def)

lemma parse_fails: "parseSession v sf = Inl c \<Longrightarrow> c = Auth_required"
  by (auto simp: parseSession_def split: option.splits if_splits json.splits)

lemma unrefusing_create [unrefused]: "unrefusing (sessionA (createSession lib sf c s ttl))"
  by (rule unrefusing_session)
    (auto simp: createSession_def bindA_eq_Inl Let_def liftA_def validCredential_def validTtl_def
      serializeAndValidateSession_def bindE_eq_Inl dest: redis_command_Inl parse_fails)

lemma unrefusing_admit [unrefused]:
  "unrefusing (sessionA (admitLoginAttempt lib i a))" "unrefusing (sessionA (recordLoginSuccess lib i a))"
  by (rule unrefusing_session, auto simp: admitLoginAttempt_def recordLoginSuccess_def voidA_def bindA_eq_Inl
      retA_def throwA_def dest: redis_command_Inl split: if_splits)+

lemma unrefusing_view [unrefused]: "unrefusing (sessionView env s ctx idle)"
  unfolding sessionView_def by (auto intro!: unrefused split: sum.split)

lemma unrefusing_open [unrefused]: "unrefusing (openSession env input rateKey now a ctx)"
  unfolding openSession_def Let_def by (intro unrefused)

lemma refuseLogin_Inl:
  assumes "refuseLogin env input now a w = (Inl e, w')" and "refusal e"
  shows "xw_audit w' = xw_audit w @ [personEvent Login_failed now (lg_surface input) (lg_traceId input) a]"
  using assms by (auto simp: refuseLogin_def recordLoginFailure_def bindA_eq_Inl throwA_def audit_Inr
      refusal_def dependencyFailure_def dest: audit_Inl)

lemma loginPerson_Inl:
  assumes "loginPerson env input rateKey now a w = (Inl e, w')" and "refusal e"
  shows "xw_audit w' = xw_audit w @ [personEvent Login_failed now (lg_surface input) (lg_traceId input) (Some a)]"
proof (cases "personContext env (lc_workforcePersonId a) now None")
  case (Inl f)
  then show ?thesis
    using assms refuseLogin_Inl [OF _ assms(2)]
    by (auto simp: loginPerson_def throwA_def split: if_splits) (simp_all add: refusal_def dependencyFailure_def)
next
  case (Inr ctx)
  have "openSession env input rateKey now a ctx w \<noteq> (Inl e, w')"
    using unrefusing_open assms(2) unfolding unrefusing_def by blast
  with Inr show ?thesis
    using assms refuseLogin_Inl [OF _ assms(2)] by (auto simp: loginPerson_def split: if_splits)
qed

text \<open>
  A login with a well-formed text and address that is refused, because the credentials do not match or
  because there were too many attempts, leaves exactly one failed login in the audit trail; a refusal that
  cannot be recorded is reported as an unavailable dependency instead.
\<close>

theorem login_refusals_audited:
  assumes "login env input w = (Inl (Session_failure c), w')" and "c = Invalid_credentials \<or> c = Rate_limited"
    and "1 \<le> length (lg_identifier input)" and "length (lg_identifier input) \<le> 64"
    and "source_ok (lg_sourceAddress input)"
  shows "\<exists>a now. xw_audit w' = xw_audit w @ [personEvent Login_failed now (lg_surface input) (lg_traceId input) a]"
proof -
  let ?now = "sw_now (xw_sessions (clocked env w))"
  let ?admit = "sessionA (admitLoginAttempt (xe_session env) (rateIdentifier (lg_identifier input)) (lg_sourceAddress input))"
  have clock: "readClock env w = (Inr ?now, clocked env w)" by (simp add: readClock_Inr)
  have refused: "refusal (Session_failure c)" using assms(2) by (auto simp: refusal_def)
  have "xw_audit (clocked env w) = xw_audit w" by (simp add: clocked_def readClock_def Let_def)
  moreover have "fst (?admit (clocked env w)) \<noteq> Inl (Session_failure c)"
    using unrefusing_admit(1) refused unfolding unrefusing_def by (metis prod.collapse)
  moreover from this assms(1) [unfolded login_def bindA_run [of "readClock env"] clock prod.case sum.case]
  obtain admitted u where admission: "?admit (clocked env w) = (Inr admitted, u)"
      and rest: "(if \<not> admitted
        then bindA (auditA env (personEvent Login_failed ?now (lg_surface input) (lg_traceId input) None)) (\<lambda>_.
          throwA (Session_failure Rate_limited))
        else bindA (liftA (loginAccount env (lg_identifier input))) (\<lambda>account.
          case account of None \<Rightarrow> refuseLogin env input ?now None
          | Some a \<Rightarrow> if \<not> passwordValid env account (lg_password input) \<or> lc_status a \<noteq> Account_active
              then refuseLogin env input ?now account
              else loginPerson env input (rateIdentifier (lg_identifier input)) ?now a)) u = (Inl (Session_failure c), w')"
    unfolding Let_def bindA_eq_Inl [of "ensureA b e" for b e] bindA_eq_Inl [of "sessionA m" for m]
      ensureA_eq_Inl ensureA_eq_Inr using assms(3-5) by auto
  ultimately have same: "xw_audit u = xw_audit w" using quiet_steps(1) by metis
  show ?thesis
  proof (cases admitted)
    case False
    then show ?thesis
      using rest same refused audit_Inl [of env _ u "Session_failure c"]
      by (auto simp: bindA_eq_Inl throwA_def audit_Inr refusal_def dependencyFailure_def) blast
  next
    case True
    with rest have found: "(case loginAccount env (lg_identifier input) of Inl e \<Rightarrow> (Inl e, u)
        | Inr None \<Rightarrow> refuseLogin env input ?now None u
        | Inr (Some a) \<Rightarrow> (if \<not> passwordValid env (Some a) (lg_password input) \<or> lc_status a \<noteq> Account_active
            then refuseLogin env input ?now (Some a)
            else loginPerson env input (rateIdentifier (lg_identifier input)) ?now a) u) = (Inl (Session_failure c), w')"
      by (auto simp: bindA_run split: sum.splits option.splits)
    moreover have "loginAccount env (lg_identifier input) \<noteq> Inl (Session_failure c)"
      using refused by (auto simp: loginAccount_def refusal_def dependencyFailure_def split: sum.split)
    ultimately show ?thesis
      using same refuseLogin_Inl [OF _ refused] loginPerson_Inl [OF _ refused]
      by (fastforce split: sum.splits option.splits if_splits)
  qed
qed

section \<open>A logout ends the session\<close>

text \<open>The scripts that store a session under a key, and what the others can do to it.\<close>

fun writes :: "surface \<Rightarrow> string \<Rightarrow> redis_script \<Rightarrow> bool" where
  "writes sf i (Sc_create sf' i' account text ttl attl) = (sf' = sf \<and> i' = i)"
| "writes sf i (Sc_rotate sf' previous i' account text ttl attl) = (sf' = sf \<and> i' = i)"
| "writes sf i _ = False"

definition expired_by :: "int \<Rightarrow> redis_key \<Rightarrow> redis \<Rightarrow> bool" where
  "expired_by t k r \<longleftrightarrow> (\<forall>v e. jm_get r k = Some (V_session v, e) \<longrightarrow> e \<le> t)"

definition holds_only :: "json \<Rightarrow> redis_key \<Rightarrow> redis \<Rightarrow> bool" where
  "holds_only j k r \<longleftrightarrow> (\<forall>v e. jm_get r k = Some (V_session v, e) \<longrightarrow> v = j)"

lemma incr_session [simp]: "jm_get (rd_incr now r (Rate_key a b) w) (Session_key sf i) = jm_get r (Session_key sf i)"
  by (auto simp: rd_incr_def split: option.split redis_value.split prod.split)

lemma kept_text:
  assumes "\<not> writes sf i c"
    and "jm_get (snd (run_script tn t c r)) (Session_key sf i) = Some (V_session v, e)"
  shows "\<exists>e0. jm_get r (Session_key sf i) = Some (V_session v, e0) \<and> (e0 = e \<or> t < e0)"
  using assms
  by (cases c) (auto simp: create_script_def rotate_script_def delete_script_def peek_script_def touch_script_def
      rd_expire_def rd_get_def rd_set_def admission_script_def login_success_script_def Let_def
      split: option.splits redis_value.splits if_splits prod.splits)

lemma others_leave:
  assumes "\<forall>x \<in> set cs. \<not> writes sf i x" and "t \<le> now"
  shows "expired_by t (Session_key sf i) r \<Longrightarrow> expired_by t (Session_key sf i) (others_run lib now cs r)"
    and "holds_only j (Session_key sf i) r \<Longrightarrow> holds_only j (Session_key sf i) (others_run lib now cs r)"
proof -
  show "expired_by t (Session_key sf i) r \<Longrightarrow> expired_by t (Session_key sf i) (others_run lib now cs r)"
    using assms(1)
  proof (induction cs arbitrary: r)
    case (Cons c cs)
    then have "expired_by t (Session_key sf i) (snd (run_script (sl_tonumber lib) now c r))"
      using kept_text [of sf i c "sl_tonumber lib" now r] assms(2) unfolding expired_by_def by fastforce
    with Cons show ?case by (simp add: others_run_def)
  qed (simp add: others_run_def)
  show "holds_only j (Session_key sf i) r \<Longrightarrow> holds_only j (Session_key sf i) (others_run lib now cs r)"
    using assms(1)
  proof (induction cs arbitrary: r)
    case (Cons c cs)
    then have "holds_only j (Session_key sf i) (snd (run_script (sl_tonumber lib) now c r))"
      using kept_text [of sf i c "sl_tonumber lib" now r] unfolding holds_only_def by fastforce
    with Cons show ?case by (simp add: others_run_def)
  qed (simp add: others_run_def)
qed

definition unwritten :: "surface \<Rightarrow> string \<Rightarrow> session_world \<Rightarrow> bool" where
  "unwritten sf i w \<longleftrightarrow> (\<forall>st \<in> set (sw_steps w). \<forall>x \<in> set (rs_others st). \<not> writes sf i x)"

lemma next_keeps:
  assumes "unwritten sf i w" and "t \<le> sw_now w"
  shows "t \<le> fst (redis_next lib w)"
    and "expired_by t (Session_key sf i) (sw_redis w) \<Longrightarrow> expired_by t (Session_key sf i) (snd (redis_next lib w))"
    and "holds_only j (Session_key sf i) (sw_redis w) \<Longrightarrow> holds_only j (Session_key sf i) (snd (redis_next lib w))"
proof -
  let ?st = "case sw_steps w of [] \<Rightarrow> \<lparr>rs_delay = 0, rs_others = [], rs_fate = Answered\<rparr> | x # _ \<Rightarrow> x"
  have quiet: "\<forall>x \<in> set (rs_others ?st). \<not> writes sf i x"
    using assms(1) by (auto simp: unwritten_def split: list.splits)
  show le: "t \<le> fst (redis_next lib w)" using assms(2) by (simp add: redis_next_def Let_def)
  show "expired_by t (Session_key sf i) (sw_redis w) \<Longrightarrow> expired_by t (Session_key sf i) (snd (redis_next lib w))"
    using others_leave(1) [OF quiet] le by (simp add: redis_next_def Let_def)
  show "holds_only j (Session_key sf i) (sw_redis w) \<Longrightarrow> holds_only j (Session_key sf i) (snd (redis_next lib w))"
    using others_leave(2) [OF quiet] le by (simp add: redis_next_def Let_def)
qed

lemma delete_expires:
  assumes "holds_only j (Session_key sf i) r"
  shows "expired_by now (Session_key sf i) (snd (delete_script now sf i a j r))"
  using assms by (auto simp: delete_script_def Let_def expired_by_def holds_only_def rd_get_def split: option.splits if_splits)

lemma parse_some: "parseSession (Some j) sf = Inr v \<Longrightarrow> \<exists>s. v = Some s"
  by (cases v) (auto simp: parseSession_def split: if_splits option.splits json.splits)

lemma unwritten_command [keeps]: "keepsA (unwritten sf i) (redis_command lib c)"
proof (rule keepsA_I)
  fix w
  assume w: "unwritten sf i w"
  have "sw_steps (snd (redis_command lib c w)) = tl (sw_steps w)"
    by (auto simp: redis_command_def Let_def split: prod.split fate.split)
  with w show "unwritten sf i (snd (redis_command lib c w))"
    by (cases "sw_steps w") (auto simp: unwritten_def)
qed

lemma unwritten_parse [keeps]: "keepsA (unwritten sf i) (parse_or_delete lib sf' c v)"
  unfolding parse_or_delete_def by (auto intro!: keeps keepsA_voidA split: sum.split)

lemma unwritten_peek [keeps]: "keepsA (unwritten sf i) (peekSession lib sf' c now)"
  unfolding peekSession_def by (auto intro!: keeps split: reply.split)

lemma snd_sessionA [simp]: "xw_sessions (snd (sessionA m w)) = snd (m (xw_sessions w))"
  by (simp add: sessionA_def split: prod.split sum.split)

lemma keeps_sessions: "keepsA P m \<Longrightarrow> keepsA (\<lambda>w. P (xw_sessions w)) (sessionA m)"
  by (simp add: keepsA_def)

lemma deleteSession_ends:
  assumes "deleteSession lib sf c w = (Inr (), w')" and "unwritten sf (session_index lib sf c) w"
  shows "expired_by (sw_now w') (Session_key sf (session_index lib sf c)) (sw_redis w')"
proof -
  let ?k = "Session_key sf (session_index lib sf c)"
  obtain answer u stored where get: "redis_command lib (Sc_get sf (session_index lib sf c)) w = (Inr answer, u)"
      and parsed: "parseSession (reply_text answer) sf = Inr stored"
      and rest: "(case (stored, reply_text answer) of
        (Some s, Some text) \<Rightarrow> voidA (redis_command lib (Sc_delete sf (session_index lib sf c)
          (account_index lib sf (se_accountId s)) text)) | _ \<Rightarrow> retA ()) u = (Inr (), w')"
    using assms(1) by (auto simp: deleteSession_def bindA_eq_Inr liftA_def)
  note g = redis_command_Inr [OF get]
  have u: "unwritten sf (session_index lib sf c) u"
    using keepsA_D [OF unwritten_command assms(2)] get by (metis snd_conv)
  show ?thesis
  proof (cases "\<exists>j. answer = R_value j")
    case True
    then obtain j where j: "answer = R_value j" ..
    then obtain s where s: "stored = Some s" using parsed parse_some [of j sf] by (auto simp: reply_text_def)
    have "holds_only j ?k (sw_redis u)"
      using g j by (auto simp: holds_only_def rd_get_def split: option.splits redis_value.splits if_splits)
    then have only: "holds_only j ?k (snd (redis_next lib u))" by (rule next_keeps(3) [OF u order.refl])
    obtain b where "redis_command lib (Sc_delete sf (session_index lib sf c)
        (account_index lib sf (se_accountId s)) j) u = (Inr b, w')"
      using rest j s by (auto simp: reply_text_def voidA_def bindA_eq_Inr)
    from redis_command_Inr [OF this] delete_expires [OF only] show ?thesis by simp
  next
    case False
    then have "w' = u" and "expired_by (sw_now u) ?k (sw_redis u)"
      using g rest by (auto simp: reply_text_def expired_by_def rd_get_def retA_def
          split: reply.splits option.splits redis_value.splits if_splits)
    then show ?thesis by simp
  qed
qed

lemma logoutEvent_sessions:
  assumes "logoutEvent env action sf trace ob w = (Inr u, w')"
  shows "sw_redis (xw_sessions w') = sw_redis (xw_sessions w) \<and> sw_now (xw_sessions w) \<le> sw_now (xw_sessions w')
    \<and> sw_steps (xw_sessions w') = sw_steps (xw_sessions w)"
  using assms
  by (auto simp: logoutEvent_def bindA_eq_Inr readClock_def Let_def ignoreA_def catchA_run auditA_def
      split: prod.splits sum.splits fate.splits)

text \<open>
  After a logout that returns there is no session under its credential: whatever other clients do to Redis
  between its commands, as long as no one stores a new session under that very credential.
\<close>

theorem logout_ends_session:
  assumes "logout env sf (Some c) trace w = (Inr (), w')"
    and "unwritten sf (session_index (xe_session env) sf c) (xw_sessions w)"
  shows "rd_get (sw_now (xw_sessions w')) (sw_redis (xw_sessions w'))
    (Session_key sf (session_index (xe_session env) sf c)) \<noteq> Some (V_session j)"
proof -
  let ?i = "session_index (xe_session env) sf c"
  let ?now = "sw_now (xw_sessions (clocked env w))"
  let ?peek = "catchA (sessionA (peekSession (xe_session env) sf c ?now)) (\<lambda>_. retA None)"
  have clock: "readClock env w = (Inr ?now, clocked env w)" by (simp add: readClock_Inr)
  from assms(1) [unfolded logout_def option.case bindA_run [of "readClock env"] clock prod.case sum.case]
  obtain ob u1 u2 u3 where peek: "?peek (clocked env w) = (Inr ob, u1)"
      and before: "logoutEvent env Logout_requested sf trace ob u1 = (Inr (), u2)"
      and deleted: "sessionA (deleteSession (xe_session env) sf c) u2 = (Inr (), u3)"
      and finish: "logoutEvent env Logout sf trace ob u3 = (Inr (), w')"
    unfolding bindA_eq_Inr by auto
  have "unwritten sf ?i (xw_sessions (clocked env w))"
    using assms(2) by (simp add: clocked_def readClock_def Let_def unwritten_def)
  moreover have "keepsA (\<lambda>w. unwritten sf ?i (xw_sessions w)) ?peek"
    by (intro keepsA_catch keeps_sessions unwritten_peek keepsA_ret)
  ultimately have "unwritten sf ?i (xw_sessions (snd (?peek (clocked env w))))"
    by (rule keepsA_D [rotated, where P = "\<lambda>w. unwritten sf ?i (xw_sessions w)"])
  then have "unwritten sf ?i (xw_sessions u1)" using peek by simp
  then have "unwritten sf ?i (xw_sessions u2)"
    using logoutEvent_sessions [OF before] by (simp add: unwritten_def)
  then have "expired_by (sw_now (xw_sessions u3)) (Session_key sf ?i) (sw_redis (xw_sessions u3))"
    using deleted deleteSession_ends unfolding sessionA_Inr by fastforce
  then show ?thesis
    using logoutEvent_sessions [OF finish] by (auto simp: expired_by_def rd_get_def split: option.splits if_splits)
qed

section \<open>A new password ends the sessions\<close>

definition accounts_keyed :: "login_db \<Rightarrow> bool" where
  "accounts_keyed db \<longleftrightarrow> jm_ok (ld_accounts db) \<and> (\<forall>k a. jm_get (ld_accounts db) k = Some a \<longrightarrow> ac_accountId a = k)"

lemma find_keyed:
  assumes "accounts_keyed db" and "find_login (\<lambda>a. ac_accountId a = i) db = Some l"
  shows "\<exists>a. jm_get (ld_accounts db) i = Some a \<and> lc_securityRevision l = ac_securityRevision a"
proof -
  obtain a where found: "find (\<lambda>a. ac_accountId a = i \<and> jm_has (ld_credentials db) (ac_accountId a))
      (jm_values (ld_accounts db)) = Some a" and l: "login_row db a = Some l"
    using assms(2) by (auto simp: find_login_def split: bind_splits)
  then have "a \<in> set (jm_values (ld_accounts db))" and "ac_accountId a = i"
    by (auto simp: find_Some_iff)
  then have "jm_get (ld_accounts db) i = Some a"
    using assms(1) jm_values_iff unfolding accounts_keyed_def by metis
  with l show ?thesis by (auto simp: login_row_def)
qed

text \<open>The operations of the credential port keep the accounts under their identifiers.\<close>

interpretation account_keys: guarded_machine port_exec accounts_keyed
proof
  fix db c
  assume keyed: "accounts_keyed db"
  show "accounts_keyed (snd (port_exec c db))"
  proof (cases c rule: port_exec.cases)
    case (4 env j n h t)
    have "accounts_keyed (snd (replace_work env j (num_int n) h t db))"
      using keyed by (auto simp: replace_work_def db_up_def bindA_run ensureA_def requireA_def accounts_keyed_def
          split: option.splits)
    then show ?thesis
      using keyed by (auto simp: 4 replaceCredential_def transactional_def bindA_run ensureA_def
          split: prod.split sum.split)
  qed (use keyed in \<open>auto simp: createCredential_def findByAccountId_def findByIdentifier_def db_up_def bindA_run
      ensureA_def Let_def accounts_keyed_def split: option.split sum.split prod.split list.split\<close>)
qed


end
