(* ===== verification/AccountSamples.thy ===== *)
theory AccountSamples
  imports AccountProps
begin

text \<open>
  One account, its person and its session, worked through the operations: the properties of
  \<open>AccountProps\<close> at concrete inputs, and a run that shows that strangers can use up the attempts of an
  account's reauthentication.
\<close>

section \<open>An account that is logged in\<close>

definition june :: int where "june = 1717200000000"
abbreviation jan :: string where "jan \<equiv> ''2024-01-01T00:00:00.000Z''"
definition eve :: string where "eve = ''00000000-0000-4000-8000-000000000001''"
definition desk :: string where "desk = ''00000000-0000-4000-8000-000000000008''"
definition opaque_text :: "char \<Rightarrow> string" where "opaque_text c = replicate 43 c"

definition eve_account :: account where
  "eve_account = \<lparr>ac_accountId = eve, ac_createdAt = jan, ac_phone = None, ac_revision = 0,
     ac_securityRevision = 0, ac_status = Account_active, ac_updatedAt = jan, ac_username = ''evelyn'',
     ac_usernameNormalized = ''evelyn'', ac_workforcePersonId = eve\<rparr>"

definition eve_tables :: login_db where
  "eve_tables = \<lparr>ld_accounts = [(eve, eve_account)],
   ld_identifiers = [\<lparr>li_accountId = eve, li_identifierId = ''name'', li_kind = Kind_username,
     li_normalizedValue = ''evelyn'', li_releasedAt = None, li_value = ''evelyn''\<rparr>],
   ld_credentials = [(eve, \<lparr>cr_passwordHash = ''correct horse'', cr_revision = 0, cr_updatedAt = jan\<rparr>)]\<rparr>"

definition eve_facts :: org_store where
  "eve_facts = createMemoryOrganizationStore
     \<lparr>os_people := [(eve, \<lparr>wp_id = eve, wp_recordedAt = jan\<rparr>)],
      os_employments := [(''job'', \<lparr>iv_from = jan, iv_to = None, em_id = ''job'', em_person = eve\<rparr>)],
      os_units := [(''unit'', \<lparr>iv_from = jan, iv_to = None, ou_id = ''unit''\<rparr>)],
      os_placements := [(''top'', \<lparr>iv_from = jan, iv_to = None, pl_unit = ''unit'', pl_parent = None, pl_id = ''top''\<rparr>)],
      os_positions := [(''seat'', \<lparr>iv_from = jan, iv_to = None, ps_unit = ''unit'', ps_id = ''seat''\<rparr>)],
      os_assignments := [(desk, \<lparr>iv_from = jan, iv_to = None, as_id = desk, as_employment = ''job'',
         as_unit = ''unit'', as_position = ''seat'', as_person = eve\<rparr>)]\<rparr>"

definition eve_env :: access_env where
  "eve_env = \<lparr>xe_session = \<lparr>sl_digest = (\<lambda>domain v. domain @ ''/'' @ v), sl_tonumber = (\<lambda>s. None)\<rparr>,
     xe_password = \<lparr>pl_hash = id, pl_verify = (\<lambda>h p. Some (h = p))\<rparr>,
     xe_login = \<lparr>le_formats = (\<lambda>s. None), le_down = None, le_time_ok = (\<lambda>t. True)\<rparr>, xe_accounts = eve_tables,
     xe_org = \<lparr>oe_dates = \<lambda>_. None, oe_sha256 = id, oe_authorize = \<lambda>_. None\<rparr>, xe_org_down = None,
     xe_facts = eve_facts,
     xe_auth = \<lparr>ae_lib = \<lparr>pg_uuid = Some, pg_time = (\<lambda>s. map_option (\<lambda>t. t * 1000) (parse_iso s)),
       pg_date = (\<lambda>t. t div 1000), js_date = (\<lambda>s. None), al_sha256 = (\<lambda>s. ''digest'')\<rparr>,
     ae_fails = (\<lambda>n. False), ae_others = (\<lambda>n. []), ae_now = 0,
     ae_uuid = (\<lambda>n. ''decision''), ae_trace = (\<lambda>n. ''trace''), ae_records = (\<lambda>n. True)\<rparr>,
     xe_grants = [], xe_audit = (\<lambda>e. Answered), xe_ticks = (\<lambda>n. 0),
     xe_opaque = (\<lambda>n. opaque_text (''ABCDEFGHIJKLMNOP'' ! n))\<rparr>"

definition eve_session :: access_session where
  "eve_session = \<lparr>se_absoluteExpiresAtMs = june + ABSOLUTE_TTL_MS, se_accountId = eve,
     se_authenticatedAtMs = june, se_createdAtMs = june, se_csrfToken = opaque_text (CHR ''c''),
     se_currentAssignmentId = Some desk, se_reauthenticatedUntilMs = None,
     se_securityRevision = 0, se_sessionId = opaque_text (CHR ''d''), se_surface = Pc,
     se_workforcePersonId = eve\<rparr>"

definition eve_online :: access_world where
  "eve_online = \<lparr>xw_sessions = \<lparr>sw_redis =
       [(Session_key Pc (session_index (xe_session eve_env) Pc (opaque_text (CHR ''e''))), (V_session (session_json eve_session), june + IDLE_TTL_MS)),
        (Account_key Pc (account_index (xe_session eve_env) Pc eve), (V_index (session_index (xe_session eve_env) Pc (opaque_text (CHR ''e''))), june + ABSOLUTE_TTL_MS))],
     sw_now = june, sw_steps = []\<rparr>, xw_audit = [], xw_reads = 0, xw_serial = 0\<rparr>"

definition stranger_login :: login_input where
  "stranger_login = \<lparr>lg_identifier = reauthenticationKey eve, lg_password = ''?'', lg_sourceAddress = ''elsewhere'',
     lg_surface = Pc, lg_traceId = None\<rparr>"

definition eve_reauth :: reauth_input where
  "eve_reauth = \<lparr>ra_credential = opaque_text (CHR ''e''), ra_password = ''correct horse'',
    ra_sourceAddress = ''office'', ra_surface = Pc, ra_traceId = None\<rparr>"

definition harassed :: access_world where
  "harassed = run_all (login eve_env) (replicate 5 stranger_login) eve_online"



section \<open>Running an operation step by step\<close>

lemma run_step: "m w = (Inr x, u) \<Longrightarrow> P (fst (f x u)) \<Longrightarrow> P (fst (bindA m f w))"
  by (simp add: bindA_def)

lemma choice_step:
  "m w = (Inr True, u) \<Longrightarrow> P (fst (f True u)) \<Longrightarrow> P (fst (bindA m f w))"
  "m w = (Inr False, u) \<Longrightarrow> P (fst (f False u)) \<Longrightarrow> P (fst (bindA m f w))"
  by (simp_all add: bindA_def)

lemma branch_step:
  "b \<Longrightarrow> P (fst (m w)) \<Longrightarrow> P (fst ((if b then m else n) w))"
  "\<not> b \<Longrightarrow> P (fst (n w)) \<Longrightarrow> P (fst ((if b then m else n) w))"
  by simp_all

lemma case_step:
  "v = Inr x \<Longrightarrow> P (fst (g x w)) \<Longrightarrow> P (fst ((case v of Inl e \<Rightarrow> f e | Inr x \<Rightarrow> g x) w))"
  by simp

lemmas ok_step = case_step [where P = isOk] run_step [where P = isOk] choice_step [where P = isOk] branch_step [where P = isOk]

lemmas result_step = run_step [where P = "\<lambda>v. v = r" for r] choice_step [where P = "\<lambda>v. v = r" for r]
  branch_step [where P = "\<lambda>v. v = r" for r]

lemmas resolve_defs = resolveSession_def observeSession_def Let_def bindA_assoc

lemma ran: "isOk (fst r) \<Longrightarrow> r = (Inr (projr (fst r)), snd r)"
  by (cases r; cases "fst r") simp_all

lemma eve_principal_ok: "isOk (fst (principal eve_env Pc (opaque_text (CHR ''e'')) eve_online))"
  unfolding principal_def resolve_defs
  by ((rule ok_step, (code_simp; fail)) | (simp only: prod.case if_True bindA_assoc)
      | (simp only: act_apply fst_conv isOk_simps))+

definition eve_principal :: access_principal where
  "eve_principal = projr (fst (principal eve_env Pc (opaque_text (CHR ''e'')) eve_online))"

theorem principal_sound_witness:
  "\<exists>s. holds_session (xe_session eve_env) Pc (opaque_text (CHR ''e'')) (xw_sessions (clocked eve_env eve_online)) s
    \<and> se_accountId s = pr_accountId eve_principal"
  using principal_sound [OF ran [OF eve_principal_ok]] unfolding eve_principal_def by metis

definition eve_login :: "string \<Rightarrow> login_input" where
  "eve_login p = \<lparr>lg_identifier = ''Evelyn'', lg_password = p, lg_sourceAddress = ''home'', lg_surface = Pc,
     lg_traceId = None\<rparr>"

lemma eve_login_ok: "isOk (fst (login eve_env (eve_login ''correct horse'') eve_online))"
  unfolding login_def loginPerson_def openSession_def Let_def bindA_assoc
  by ((rule ok_step, (code_simp; fail)) | (simp only: prod.case if_True bindA_assoc option.case sum.case)
      | (simp only: act_apply fst_conv isOk_simps))+

definition eve_result :: session_result where
  "eve_result = projr (fst (login eve_env (eve_login ''correct horse'') eve_online))"

theorem login_sound_witness:
  "\<exists>a. loginAccount eve_env ''Evelyn'' = Inr (Some a) \<and> vw_accountId (sn_view eve_result) = lc_accountId a"
proof -
  have "lg_identifier (eve_login ''correct horse'') = ''Evelyn''" by (simp add: eve_login_def)
  with login_sound [OF ran [OF eve_login_ok]] show ?thesis unfolding eve_result_def by metis
qed

lemma stranger_refused: "fst (login eve_env stranger_login eve_online) = Inl (Session_failure Invalid_credentials)"
  by code_simp

theorem login_refusals_audited_witness:
  "\<exists>a now. xw_audit (snd (login eve_env stranger_login eve_online)) =
     [personEvent Login_failed now Pc None a]"
proof -
  have "\<exists>a now. xw_audit (snd (login eve_env stranger_login eve_online)) = xw_audit eve_online
      @ [personEvent Login_failed now (lg_surface stranger_login) (lg_traceId stranger_login) a]"
  proof (rule login_refusals_audited)
    show "login eve_env stranger_login eve_online =
        (Inl (Session_failure Invalid_credentials), snd (login eve_env stranger_login eve_online))"
      using stranger_refused by (simp add: prod_eq_iff)
  qed (simp_all add: stranger_login_def reauthenticationKey_def eve_def source_ok_def)
  then show ?thesis by (simp add: eve_online_def stranger_login_def)
qed

lemma eve_logout_ok: "isOk (fst (logout eve_env Pc (Some (opaque_text (CHR ''e''))) None eve_online))"
  unfolding logout_def logoutEvent_def option.case
  by ((rule ok_step, (code_simp; fail)) | (simp only: prod.case bindA_assoc)
      | (simp only: act_apply fst_conv isOk_simps) | (code_simp; fail))+

definition eve_left :: access_world where
  "eve_left = snd (logout eve_env Pc (Some (opaque_text (CHR ''e''))) None eve_online)"

theorem logout_ends_session_witness:
  "rd_get (sw_now (xw_sessions eve_left)) (sw_redis (xw_sessions eve_left))
     (Session_key Pc (session_index (xe_session eve_env) Pc (opaque_text (CHR ''e''))))
     \<noteq> Some (V_session (session_json eve_session))"
proof (rule logout_ends_session)
  show "logout eve_env Pc (Some (opaque_text (CHR ''e''))) None eve_online = (Inr (), eve_left)"
    using ran [OF eve_logout_ok] unfolding eve_left_def by simp
qed (simp add: unwritten_def eve_online_def)

section \<open>A new password\<close>

definition eve_changed :: "(wa_failure + int) \<times> login_db" where
  "eve_changed = replaceCredential (xe_login eve_env) eve (Fin 0) DUMMY_PASSWORD_HASH jan eve_tables"

definition eve_later :: access_env where
  "eve_later = eve_env\<lparr>xe_accounts := snd eve_changed\<rparr>"


section \<open>Strangers can use up the attempts of a reauthentication\<close>

lemma reauthenticated_ok: "isOk (fst (reauthenticate eve_env eve_reauth eve_online))"
  unfolding reauthenticate_def resolve_defs successor_def
  by ((rule ok_step, (code_simp; fail)) | (simp only: prod.case if_True bindA_assoc)
      | (simp only: act_apply fst_conv isOk_simps))+

text \<open>
  C37: The attempts at a reauthentication are counted under \<open>reauthentication:\<close> and the account's identifier, in the
  very counter that logins with that text count in. Five such logins, which need no session and no
  password, block the reauthentication of an account whose owner is logged in and gives the right password.
\<close>

theorem strangers_block_reauthentication:
  "isOk (fst (reauthenticate eve_env eve_reauth eve_online))
   \<and> fst (reauthenticate eve_env eve_reauth (run_all (login eve_env) (replicate 5 stranger_login) eve_online))
     = Inl (Session_failure Rate_limited)"
proof
  show "fst (reauthenticate eve_env eve_reauth (run_all (login eve_env) (replicate 5 stranger_login) eve_online))
      = Inl (Session_failure Rate_limited)"
    unfolding harassed_def [symmetric] reauthenticate_def resolve_defs
    by ((rule result_step, (code_simp; fail)) | (simp only: prod.case if_True bindA_assoc) | (code_simp; fail))+
qed (rule reauthenticated_ok)

end
