(* ===== verification/TaskStore.thy ===== *)
theory TaskStore
  imports JsLib
begin

text \<open>
  The task center's data, validation and in-memory store (\<open>packages/crm-modules/task-center/src/\<close>:
  \<open>types.ts\<close>, \<open>errors.ts\<close>, \<open>validation.ts\<close>, \<open>memory-store.ts\<close>): projections of the tasks of source
  systems, made from their lifecycle events, and the claims of commands. SHA-256 and the order of
  \<open>localeCompare\<close> are parameters.
\<close>

section \<open>Data\<close>

datatype tc_code =
    TASK_AUDIT_FAILED | TASK_AUTHORIZATION_FAILED | TASK_COMMAND_CONFLICT | TASK_COMMAND_IN_PROGRESS
  | TASK_INPUT_INVALID | TASK_NOT_FOUND | TASK_OPERATION_DENIED | TASK_SOURCE_UNAVAILABLE
  | TASK_STORAGE_UNAVAILABLE

text \<open>A \<open>TaskCenterError\<close> with its \<open>retryable\<close> flag, or anything else that is thrown.\<close>

datatype tc_failure = Task_error tc_code bool | Task_thrown string

abbreviation tc_error :: "tc_code \<Rightarrow> tc_failure" where
  "tc_error c \<equiv> Task_error c False"

abbreviation tc_invalid :: "tc_failure + 'a" where
  "tc_invalid \<equiv> Inl (tc_error TASK_INPUT_INVALID)"

datatype task_status = Task_cancelled | Task_completed | Task_open

record task_key =
  tk_sourceType :: string
  tk_sourceTaskId :: string

record task_link =
  tl_appId :: string
  tl_routeId :: string

record task_event = task_key +
  te_eventId :: string
  te_sourceVersion :: int
  te_occurredAt :: string
  te_status :: task_status
  te_display :: "(string \<times> string) option"
  te_deepLink :: task_link
  te_assigneeReference :: "string option"
  te_candidateScopeReference :: "string option"
  te_dueAt :: "string option"

text \<open>An event as it arrives: its version is any number, its status any text.\<close>

record event_input = task_key +
  ei_eventId :: string
  ei_sourceVersion :: jsnum
  ei_occurredAt :: string
  ei_status :: string
  ei_display :: "(string \<times> string) option"
  ei_deepLink :: task_link
  ei_assigneeReference :: "string option"
  ei_candidateScopeReference :: "string option"
  ei_dueAt :: "string option"

record task_projection = task_key +
  tp_projectionId :: string
  tp_sourceVersion :: int
  tp_status :: task_status
  tp_title :: string
  tp_summary :: string
  tp_deepLink :: task_link
  tp_createdAt :: string
  tp_updatedAt :: string
  tp_assigneeReference :: "string option"
  tp_candidateScopeReference :: "string option"
  tp_dueAt :: "string option"

record task_actor =
  tr_activeAssignmentIds :: "string list option"
  tr_principalId :: string
  tr_selectedAssignmentId :: "string option"
  tr_workforcePersonId :: "string option"

datatype command_result = Accepted_command (sourceCommandId: string)

datatype command_claim = Claimed string | Claim_running | Claim_accepted command_result

datatype apply_status = Applied | Duplicate_event | Stale

record task_page =
  tg_items :: "task_projection list"
  tg_nextCursor :: "string option"

section \<open>Validation\<close>

definition tc_id :: "string \<Rightarrow> tc_failure + string" where
  "tc_id s = (if shape alnum (alnum @ ''._:-'') 0 254 s then Inr s else tc_invalid)"

definition tc_uuid :: "string \<Rightarrow> tc_failure + string" where
  "tc_uuid s = (if uuid_any s then Inr s else tc_invalid)"

definition displayText :: "string \<Rightarrow> nat \<Rightarrow> tc_failure + string" where
  "displayText s maximum = (if 1 \<le> length s \<and> length s \<le> maximum then Inr s else tc_invalid)"

text \<open>A member that may be absent.\<close>

definition tc_optional :: "('a \<Rightarrow> tc_failure + 'b) \<Rightarrow> 'a option \<Rightarrow> tc_failure + 'b option" where
  "tc_optional f v = (case v of None \<Rightarrow> Inr None | Some x \<Rightarrow> bindE (f x) (\<lambda>y. Inr (Some y)))"

definition key_part :: "'a task_key_scheme \<Rightarrow> task_key" where
  "key_part k = \<lparr>tk_sourceType = tk_sourceType k, tk_sourceTaskId = tk_sourceTaskId k\<rparr>"

definition tc_key :: "'a task_key_scheme \<Rightarrow> tc_failure + task_key" where
  "tc_key k = bindE (tc_id (tk_sourceType k)) (\<lambda>_. bindE (tc_id (tk_sourceTaskId k)) (\<lambda>_. Inr (key_part k)))"

definition tc_actor :: "task_actor \<Rightarrow> tc_failure + task_actor" where
  "tc_actor a =
     bindE (ensure (case tr_activeAssignmentIds a of None \<Rightarrow> True | Some xs \<Rightarrow> length xs \<le> 100)
       (tc_error TASK_INPUT_INVALID)) (\<lambda>_.
     bindE (tc_optional (mapE tc_id) (tr_activeAssignmentIds a)) (\<lambda>assignments.
     bindE (tc_optional tc_id (tr_selectedAssignmentId a)) (\<lambda>selected.
     bindE (ensure (case selected of None \<Rightarrow> True
         | Some i \<Rightarrow> (case assignments of None \<Rightarrow> False | Some xs \<Rightarrow> i \<in> set xs))
       (tc_error TASK_INPUT_INVALID)) (\<lambda>_.
     bindE (tc_optional tc_id (tr_workforcePersonId a)) (\<lambda>person.
     bindE (tc_id (tr_principalId a)) (\<lambda>principal.
     Inr \<lparr>tr_activeAssignmentIds = assignments, tr_principalId = principal,
       tr_selectedAssignmentId = selected, tr_workforcePersonId = person\<rparr>))))))"

definition tc_timestamp :: "string \<Rightarrow> tc_failure + string" where
  "tc_timestamp s = (if utc_time_ok s then Inr s else tc_invalid)"

definition status_of :: "string \<Rightarrow> task_status option" where
  "status_of s = (if s = ''open'' then Some Task_open else if s = ''completed'' then Some Task_completed
     else if s = ''cancelled'' then Some Task_cancelled else None)"

definition tc_event :: "event_input \<Rightarrow> tc_failure + task_event" where
  "tc_event e =
     bindE (tc_key e) (\<lambda>_.
     bindE (ensure (isSafeInteger (ei_sourceVersion e) \<and> 1 \<le> num_int (ei_sourceVersion e)
       \<and> status_of (ei_status e) \<noteq> None) (tc_error TASK_INPUT_INVALID)) (\<lambda>_.
     bindE (tc_timestamp (ei_occurredAt e)) (\<lambda>occurredAt.
     bindE (tc_optional tc_timestamp (ei_dueAt e)) (\<lambda>dueAt.
     bindE (tc_optional (\<lambda>d. bindE (displayText (fst d) 512) (\<lambda>title.
         bindE (displayText (snd d) 2000) (\<lambda>summary. Inr (title, summary)))) (ei_display e)) (\<lambda>display.
     bindE (tc_uuid (ei_eventId e)) (\<lambda>eventId.
     bindE (tc_id (tl_appId (ei_deepLink e))) (\<lambda>appId.
     bindE (tc_id (tl_routeId (ei_deepLink e))) (\<lambda>routeId.
     bindE (tc_optional tc_id (ei_assigneeReference e)) (\<lambda>assignee.
     bindE (tc_optional tc_id (ei_candidateScopeReference e)) (\<lambda>scope.
     Inr \<lparr>tk_sourceType = tk_sourceType e, tk_sourceTaskId = tk_sourceTaskId e, te_eventId = eventId,
       te_sourceVersion = num_int (ei_sourceVersion e), te_occurredAt = occurredAt,
       te_status = the (status_of (ei_status e)), te_display = display,
       te_deepLink = \<lparr>tl_appId = appId, tl_routeId = routeId\<rparr>, te_assigneeReference = assignee,
       te_candidateScopeReference = scope, te_dueAt = dueAt\<rparr>))))))))))"

text \<open>\<open>canonicalize\<close>: the members of every object in the order of their names.\<close>

fun canonicalize :: "json \<Rightarrow> json" where
  "canonicalize (J_arr vs) = J_arr (map canonicalize vs)"
| "canonicalize (J_obj fs) =
     J_obj (sort_by (\<lambda>a b. str_lt (fst a) (fst b)) (map (\<lambda>f. (fst f, canonicalize (snd f))) fs))"
| "canonicalize v = v"

definition stableSerialize :: "json \<Rightarrow> string" where
  "stableSerialize v = stringify (canonicalize v)"

definition tc_fingerprint :: "(string \<Rightarrow> string) \<Rightarrow> json \<Rightarrow> string" where
  "tc_fingerprint sha v = sha (stableSerialize v)"

definition validateSourceCommandResult :: "js_value \<Rightarrow> tc_failure + command_result" where
  "validateSourceCommandResult v = (case v of
     JObject fs \<Rightarrow>
       if join '','' (sort_by str_lt (map fst fs)) = ''sourceCommandId,status''
          \<and> map_of fs ''status'' = Some (JString ''accepted'')
       then (case map_of fs ''sourceCommandId'' of
           Some (JString s) \<Rightarrow> bindE (tc_id s) (\<lambda>i. Inr (Accepted_command i))
         | _ \<Rightarrow> tc_invalid)
       else tc_invalid
   | _ \<Rightarrow> tc_invalid)"

section \<open>What is digested\<close>

definition status_name :: "task_status \<Rightarrow> string" where
  "status_name s = (case s of Task_open \<Rightarrow> ''open'' | Task_completed \<Rightarrow> ''completed'' | Task_cancelled \<Rightarrow> ''cancelled'')"

definition link_json :: "task_link \<Rightarrow> json" where
  "link_json l = J_obj [(''appId'', J_str (tl_appId l)), (''routeId'', J_str (tl_routeId l))]"

definition event_json :: "task_event \<Rightarrow> json" where
  "event_json e = J_obj (
     [(''sourceType'', J_str (tk_sourceType e)), (''sourceTaskId'', J_str (tk_sourceTaskId e)),
      (''eventId'', J_str (te_eventId e)), (''sourceVersion'', J_int (te_sourceVersion e)),
      (''occurredAt'', J_str (te_occurredAt e)), (''status'', J_str (status_name (te_status e))),
      (''deepLink'', link_json (te_deepLink e))]
     @ (case te_display e of None \<Rightarrow> [] | Some (t, s) \<Rightarrow>
         [(''display'', J_obj [(''title'', J_str t), (''summary'', J_str s)])])
     @ j_opt ''assigneeReference'' (te_assigneeReference e)
     @ j_opt ''candidateScopeReference'' (te_candidateScopeReference e) @ j_opt ''dueAt'' (te_dueAt e))"

definition projection_json :: "task_projection \<Rightarrow> json" where
  "projection_json p = J_obj (
     [(''projectionId'', J_str (tp_projectionId p)), (''sourceType'', J_str (tk_sourceType p)),
      (''sourceTaskId'', J_str (tk_sourceTaskId p)), (''sourceVersion'', J_int (tp_sourceVersion p)),
      (''status'', J_str (status_name (tp_status p))), (''title'', J_str (tp_title p)),
      (''summary'', J_str (tp_summary p)), (''deepLink'', link_json (tp_deepLink p)),
      (''createdAt'', J_str (tp_createdAt p)), (''updatedAt'', J_str (tp_updatedAt p))]
     @ j_opt ''assigneeReference'' (tp_assigneeReference p)
     @ j_opt ''candidateScopeReference'' (tp_candidateScopeReference p) @ j_opt ''dueAt'' (tp_dueAt p))"

section \<open>The store\<close>

record command_row =
  cw_fingerprint :: string
  cw_leaseExpiresAt :: "int option"
  cw_leaseToken :: "string option"
  cw_result :: "command_result option"
  cw_accepted :: bool

record task_store =
  tk_projections :: "(string, task_projection) jsmap"
  tk_events :: "(string, string) jsmap"
  tk_commands :: "(string, command_row) jsmap"

definition emptyTaskStore :: task_store where
  "emptyTaskStore = \<lparr>tk_projections = [], tk_events = [], tk_commands = []\<rparr>"

type_synonym 'a task_act = "(task_store, tc_failure, 'a) act"

definition keyOf :: "'a task_key_scheme \<Rightarrow> string" where
  "keyOf k = tk_sourceType k @ [CHR 0x00] @ tk_sourceTaskId k"

definition projectionOf :: "task_event \<Rightarrow> string \<Rightarrow> string \<Rightarrow> task_projection" where
  "projectionOf e projectionId createdAt =
     \<lparr>tk_sourceType = tk_sourceType e, tk_sourceTaskId = tk_sourceTaskId e, tp_projectionId = projectionId,
      tp_sourceVersion = te_sourceVersion e, tp_status = te_status e,
      tp_title = (case te_display e of None \<Rightarrow> ''Task update'' | Some d \<Rightarrow> fst d),
      tp_summary = (case te_display e of None \<Rightarrow> ''Open the task to view its current details.'' | Some d \<Rightarrow> snd d),
      tp_deepLink = te_deepLink e, tp_createdAt = createdAt, tp_updatedAt = te_occurredAt e,
      tp_assigneeReference = te_assigneeReference e,
      tp_candidateScopeReference = te_candidateScopeReference e, tp_dueAt = te_dueAt e\<rparr>"

text \<open>The successor of what is stored under the event's key: it keeps the identifier and the creation time.\<close>

definition projected :: "task_event \<Rightarrow> task_store \<Rightarrow> task_projection" where
  "projected e s = (case jm_get (tk_projections s) (keyOf e) of
     None \<Rightarrow> projectionOf e (te_eventId e) (te_occurredAt e)
   | Some p \<Rightarrow> projectionOf e (tp_projectionId p) (tp_createdAt p))"

definition note_event :: "(string \<Rightarrow> string) \<Rightarrow> task_event \<Rightarrow> task_store \<Rightarrow> task_store" where
  "note_event sha e s = s\<lparr>tk_events := jm_set (tk_events s) (te_eventId e) (tc_fingerprint sha (event_json e))\<rparr>"

definition project_event :: "(string \<Rightarrow> string) \<Rightarrow> task_event \<Rightarrow> task_store \<Rightarrow> task_store" where
  "project_event sha e s =
     note_event sha e (s\<lparr>tk_projections := jm_set (tk_projections s) (keyOf e) (projected e s)\<rparr>)"

text \<open>\<open>aborted\<close> is the reason of a signal that is aborted when the operation starts.\<close>

definition task_apply ::
  "(string \<Rightarrow> string) \<Rightarrow> string option \<Rightarrow> task_event \<Rightarrow> (apply_status \<times> task_projection) task_act" where
  "task_apply sha aborted e s =
     (case aborted of
        Some reason \<Rightarrow> (Inl (Task_thrown reason), s)
      | None \<Rightarrow>
          (let existing = jm_get (tk_projections s) (keyOf e) in
           case jm_get (tk_events s) (te_eventId e) of
             Some seen \<Rightarrow>
               if seen \<noteq> tc_fingerprint sha (event_json e) then (Inl (tc_error TASK_COMMAND_CONFLICT), s)
               else (case existing of
                   None \<Rightarrow> (Inl (Task_error TASK_STORAGE_UNAVAILABLE True), s)
                 | Some p \<Rightarrow> (Inr (Duplicate_event, p), s))
           | None \<Rightarrow>
               (case existing of
                  Some p \<Rightarrow>
                    if te_sourceVersion e \<le> tp_sourceVersion p then (Inr (Stale, p), note_event sha e s)
                    else (Inr (Applied, projected e s), project_event sha e s)
                | None \<Rightarrow> (Inr (Applied, projected e s), project_event sha e s))))"

definition task_reconcile ::
  "(string \<Rightarrow> string) \<Rightarrow> task_event \<Rightarrow> (apply_status \<times> task_projection) task_act" where
  "task_reconcile sha e s =
     (let existing = jm_get (tk_projections s) (keyOf e);
          seen = jm_get (tk_events s) (te_eventId e) in
      if seen \<noteq> None \<and> seen \<noteq> Some (tc_fingerprint sha (event_json e))
      then (Inl (tc_error TASK_COMMAND_CONFLICT), s)
      else (case existing of
          Some p \<Rightarrow>
            if te_sourceVersion e < tp_sourceVersion p then (Inr (Stale, p), s)
            else (Inr (if tc_fingerprint sha (projection_json p) = tc_fingerprint sha (projection_json (projected e s))
                       then Duplicate_event else Applied, projected e s), project_event sha e s)
        | None \<Rightarrow> (Inr (Applied, projected e s), project_event sha e s)))"

definition task_get :: "'a task_key_scheme \<Rightarrow> task_store \<Rightarrow> task_projection option" where
  "task_get k s = jm_get (tk_projections s) (keyOf k)"

definition task_getByProjectionId :: "string \<Rightarrow> task_store \<Rightarrow> task_projection option" where
  "task_getByProjectionId i s = find (\<lambda>p. tp_projectionId p = i) (jm_values (tk_projections s))"

text \<open>\<open>prior\<close> is the order of \<open>localeCompare\<close>; the cursor is compared by code units.\<close>

definition task_rows ::
  "(string \<Rightarrow> string \<Rightarrow> bool) \<Rightarrow> task_status option \<Rightarrow> string option \<Rightarrow> task_store \<Rightarrow> task_projection list" where
  "task_rows prior status cursor s =
     filter (\<lambda>p. case cursor of None \<Rightarrow> True | Some c \<Rightarrow> str_lt c (keyOf p))
       (sort_by (\<lambda>a b. prior (keyOf a) (keyOf b))
         (filter (\<lambda>p. case status of None \<Rightarrow> True | Some st \<Rightarrow> tp_status p = st) (jm_values (tk_projections s))))"

definition task_list ::
  "(string \<Rightarrow> string \<Rightarrow> bool) \<Rightarrow> task_status option \<Rightarrow> nat \<Rightarrow> string option \<Rightarrow> task_store \<Rightarrow> task_page" where
  "task_list prior status limit cursor s =
     (let rows = task_rows prior status cursor s; items = take limit rows in
      \<lparr>tg_items = items,
       tg_nextCursor = (if length items < length rows \<and> items \<noteq> [] then Some (keyOf (last items)) else None)\<rparr>)"

text \<open>A \<open>Date\<close> of a time out of its range is invalid and compares false.\<close>

definition date_at :: "int \<Rightarrow> int option" where
  "date_at ms = (if \<bar>ms\<bar> \<le> 8640000000000000 then Some ms else None)"

definition claimCommand ::
  "string \<Rightarrow> string \<Rightarrow> string \<Rightarrow> int option \<Rightarrow> int option \<Rightarrow> command_claim task_act" where
  "claimCommand idempotencyKey fingerprint leaseToken now leaseExpiresAt s =
     (let claim = (Inr (Claimed leaseToken), s\<lparr>tk_commands := jm_set (tk_commands s) idempotencyKey
            \<lparr>cw_fingerprint = fingerprint, cw_leaseExpiresAt = leaseExpiresAt, cw_leaseToken = Some leaseToken,
             cw_result = None, cw_accepted = False\<rparr>\<rparr>) in
      case jm_get (tk_commands s) idempotencyKey of
        None \<Rightarrow> claim
      | Some row \<Rightarrow>
          if cw_fingerprint row \<noteq> fingerprint then (Inl (tc_error TASK_COMMAND_CONFLICT), s)
          else (case (cw_accepted row, cw_result row) of
              (True, Some r) \<Rightarrow> (Inr (Claim_accepted r), s)
            | _ \<Rightarrow> if \<not> cw_accepted row \<and> time_lt now (cw_leaseExpiresAt row) then (Inr Claim_running, s) else claim))"

definition acceptCommand :: "string \<Rightarrow> string \<Rightarrow> command_result \<Rightarrow> bool task_act" where
  "acceptCommand idempotencyKey leaseToken result s =
     (case jm_get (tk_commands s) idempotencyKey of
        Some row \<Rightarrow>
          if cw_accepted row \<or> cw_leaseToken row \<noteq> Some leaseToken then (Inr False, s)
          else (Inr True, s\<lparr>tk_commands := jm_set (tk_commands s) idempotencyKey
            \<lparr>cw_fingerprint = cw_fingerprint row, cw_leaseExpiresAt = None, cw_leaseToken = None,
             cw_result = Some result, cw_accepted = True\<rparr>\<rparr>)
      | None \<Rightarrow> (Inr False, s))"

definition releaseCommand :: "string \<Rightarrow> string \<Rightarrow> unit task_act" where
  "releaseCommand idempotencyKey leaseToken s =
     (case jm_get (tk_commands s) idempotencyKey of
        Some row \<Rightarrow>
          if \<not> cw_accepted row \<and> cw_leaseToken row = Some leaseToken
          then (Inr (), s\<lparr>tk_commands := jm_delete (tk_commands s) idempotencyKey\<rparr>) else (Inr (), s)
      | None \<Rightarrow> (Inr (), s))"

section \<open>The store's operations as commands\<close>

datatype task_op =
    Op_apply "string option" task_event
  | Op_reconcile task_event
  | Op_claim string string string "int option" "int option"
  | Op_accept string string command_result
  | Op_release string string

fun task_exec :: "(string \<Rightarrow> string) \<Rightarrow> task_op \<Rightarrow> unit task_act" where
  "task_exec sha (Op_apply aborted e) = voidA (task_apply sha aborted e)"
| "task_exec sha (Op_reconcile e) = voidA (task_reconcile sha e)"
| "task_exec sha (Op_claim i f l now expires) = voidA (claimCommand i f l now expires)"
| "task_exec sha (Op_accept i l r) = voidA (acceptCommand i l r)"
| "task_exec sha (Op_release i l) = releaseCommand i l"

end
