(* ===== verification/TaskCenter.thy ===== *)
theory TaskCenter
  imports TaskStore
begin

text \<open>
  The task center (\<open>packages/crm-modules/task-center/src/service.ts\<close>) over the in-memory store. What its
  ports answer is a parameter of each operation; audit entries, observations and the commands routed to a
  source are logs beside the store. Between the steps of an operation others may run operations of
  the store; durations of observations are left out.
\<close>

section \<open>Ports\<close>

datatype task_operation = Task_complete | Task_detail | Task_list | Task_reconcile | Projection_apply

datatype task_phase = Task_attempted | Task_failed | Task_succeeded

record task_audit =
  ta_actor :: task_actor
  ta_operation :: task_operation
  ta_phase :: task_phase
  ta_decisionId :: string
  ta_referenceId :: string
  ta_errorCode :: "tc_code option"

datatype task_outcome = Task_done | Task_denied | Task_error_seen

record routed_command =
  ro_key :: task_key
  ro_actor :: task_actor
  ro_idempotencyKey :: string
  ro_reference :: "string option"

text \<open>
  \<open>tv_authorize\<close>, \<open>tv_route\<close> and \<open>tv_source\<close> give what the port answers or throws; \<open>tv_now\<close> is the clock's
  milliseconds, unless it answers no finite number; \<open>tv_others n\<close> are the store operations of others
  before the store operation \<open>n\<close> of a completion.
\<close>

record task_env =
  tv_sha :: "string \<Rightarrow> string"
  tv_before :: "string \<Rightarrow> string \<Rightarrow> bool"
  tv_authorize :: "task_actor \<Rightarrow> task_operation \<Rightarrow> task_key option \<Rightarrow> tc_failure + bool \<times> string"
  tv_auditFails :: "task_audit \<Rightarrow> bool"
  tv_route :: "routed_command \<Rightarrow> tc_failure + js_value"
  tv_source :: "task_key \<Rightarrow> tc_failure + event_input"
  tv_now :: "int option"
  tv_leaseToken :: string
  tv_leaseMs :: int
  tv_others :: "nat \<Rightarrow> task_op list"

record task_world =
  tw_store :: task_store
  tw_audit :: "task_audit list"
  tw_observed :: "(task_operation \<times> task_outcome) list"
  tw_routed :: "routed_command list"

type_synonym 'a task_do = "(task_world, tc_failure, 'a) act"

definition on_tasks :: "'a task_act \<Rightarrow> 'a task_do" where
  "on_tasks m w = (case m (tw_store w) of (r, s) \<Rightarrow> (r, w\<lparr>tw_store := s\<rparr>))"

definition others_do :: "task_env \<Rightarrow> nat \<Rightarrow> unit task_do" where
  "others_do env n = modifyA (\<lambda>w. w\<lparr>tw_store := run_all (task_exec (tv_sha env)) (tv_others env n) (tw_store w)\<rparr>)"

text \<open>The configuration of the center: a lease between a second and five minutes.\<close>

definition createTaskCenter :: "jsnum option \<Rightarrow> tc_failure + int" where
  "createTaskCenter commandLeaseMs =
     (let ms = (case commandLeaseMs of None \<Rightarrow> Fin 30000 | Some n \<Rightarrow> n) in
      bindE (ensure (isSafeInteger ms \<and> 1000 \<le> num_int ms \<and> num_int ms \<le> 300000) (tc_error TASK_INPUT_INVALID)) (\<lambda>_.
      Inr (num_int ms)))"

definition tc_mapped :: "tc_code \<Rightarrow> tc_failure \<Rightarrow> tc_failure" where
  "tc_mapped fallback e = (case e of Task_error c b \<Rightarrow> e | Task_thrown m \<Rightarrow> Task_error fallback True)"

definition tc_code_of :: "tc_failure \<Rightarrow> tc_code" where
  "tc_code_of e = (case e of Task_error c b \<Rightarrow> c | Task_thrown m \<Rightarrow> TASK_STORAGE_UNAVAILABLE)"

definition tc_observe :: "task_operation \<Rightarrow> 'a task_do \<Rightarrow> 'a task_do" where
  "tc_observe op m w = (case m w of
     (Inr x, w') \<Rightarrow> (Inr x, w'\<lparr>tw_observed := tw_observed w' @ [(op, Task_done)]\<rparr>)
   | (Inl e, w') \<Rightarrow> (Inl e, w'\<lparr>tw_observed := tw_observed w' @ [(op,
       case e of Task_error c b \<Rightarrow> if c = TASK_OPERATION_DENIED then Task_denied else Task_error_seen
       | _ \<Rightarrow> Task_error_seen)]\<rparr>))"

definition recordAudit :: "task_env \<Rightarrow> task_audit \<Rightarrow> unit task_do" where
  "recordAudit env a w =
     (if tv_auditFails env a then (Inl (Task_error TASK_AUDIT_FAILED True), w)
      else (Inr (), w\<lparr>tw_audit := tw_audit w @ [a]\<rparr>))"

definition task_reference :: "'a task_key_scheme \<Rightarrow> string" where
  "task_reference k = tk_sourceType k @ '':'' @ tk_sourceTaskId k"

text \<open>A decision whose identifier is not well formed counts as a failed authorization, not retryable.\<close>

definition tc_authorize ::
  "task_env \<Rightarrow> task_actor \<Rightarrow> task_operation \<Rightarrow> task_key option \<Rightarrow> (task_actor \<times> string) task_do" where
  "tc_authorize env actorInput op key =
     bindA (liftA (tc_actor actorInput)) (\<lambda>actor.
     bindA (liftA (case tv_authorize env actor op key of
         Inl e \<Rightarrow> Inl (Task_error TASK_AUTHORIZATION_FAILED True) | Inr d \<Rightarrow> Inr d)) (\<lambda>decision.
     bindA (liftA (case tc_id (snd decision) of
         Inl e \<Rightarrow> Inl (tc_error TASK_AUTHORIZATION_FAILED) | Inr i \<Rightarrow> Inr i)) (\<lambda>decisionId.
     let entry = (\<lambda>phase code. \<lparr>ta_actor = actor, ta_operation = op, ta_phase = phase, ta_decisionId = decisionId,
           ta_referenceId = (case key of None \<Rightarrow> tr_principalId actor | Some k \<Rightarrow> task_reference k), ta_errorCode = code\<rparr>) in
     if \<not> fst decision
     then bindA (recordAudit env (entry Task_failed (Some TASK_OPERATION_DENIED))) (\<lambda>_. throwA (tc_error TASK_OPERATION_DENIED))
     else bindA (recordAudit env (entry Task_attempted None)) (\<lambda>_. retA (actor, decisionId)))))"

definition tc_finish ::
  "task_env \<Rightarrow> task_actor \<times> string \<Rightarrow> task_operation \<Rightarrow> string \<Rightarrow> tc_code option \<Rightarrow> unit task_do" where
  "tc_finish env ctx op referenceId error = recordAudit env
     \<lparr>ta_actor = fst ctx, ta_operation = op, ta_phase = (if error = None then Task_succeeded else Task_failed),
      ta_decisionId = snd ctx, ta_referenceId = referenceId, ta_errorCode = error\<rparr>"

text \<open>The shape of the operations: \<open>try { work; finish } catch { finish with the failure; throw it }\<close>.\<close>

definition tc_guarded ::
  "task_env \<Rightarrow> tc_code \<Rightarrow> task_actor \<times> string \<Rightarrow> task_operation \<Rightarrow> string \<Rightarrow> 'a task_do \<Rightarrow> 'a task_do" where
  "tc_guarded env fallback ctx op referenceId work =
     catchA (bindA work (\<lambda>x. bindA (tc_finish env ctx op referenceId None) (\<lambda>_. retA x))) (\<lambda>e.
       let failure = tc_mapped fallback e in
       bindA (tc_finish env ctx op referenceId (Some (tc_code_of failure))) (\<lambda>_. throwA failure))"

definition getAuthorized :: "task_env \<Rightarrow> task_actor \<Rightarrow> task_key \<Rightarrow> task_operation \<Rightarrow> task_projection task_do" where
  "getAuthorized env actorInput keyInput op =
     bindA (liftA (tc_key keyInput)) (\<lambda>key.
     bindA (tc_authorize env actorInput op (Some key)) (\<lambda>ctx.
     tc_guarded env TASK_STORAGE_UNAVAILABLE ctx op (task_reference key)
       (bindA (getsA (\<lambda>w. task_get key (tw_store w))) (\<lambda>p. requireA p (tc_error TASK_NOT_FOUND)))))"

section \<open>The operations\<close>

definition tc_apply :: "task_env \<Rightarrow> event_input \<Rightarrow> string option \<Rightarrow> (apply_status \<times> task_projection) task_do" where
  "tc_apply env e aborted = tc_observe Projection_apply
     (catchA (bindA (liftA (tc_event e)) (\<lambda>v. on_tasks (task_apply (tv_sha env) aborted v)))
       (\<lambda>e. throwA (tc_mapped TASK_STORAGE_UNAVAILABLE e)))"

definition tc_get :: "task_env \<Rightarrow> task_actor \<Rightarrow> task_key \<Rightarrow> task_projection task_do" where
  "tc_get env actor key = tc_observe Task_detail (getAuthorized env actor key Task_detail)"

definition tc_getByProjectionId :: "task_env \<Rightarrow> task_actor \<Rightarrow> string \<Rightarrow> task_projection task_do" where
  "tc_getByProjectionId env actor projectionId = tc_observe Task_detail
     (bindA (liftA (tc_uuid projectionId)) (\<lambda>i.
      bindA (getsA (\<lambda>w. task_getByProjectionId i (tw_store w))) (\<lambda>found.
      bindA (requireA found (tc_error TASK_NOT_FOUND)) (\<lambda>p.
      getAuthorized env actor (key_part p) Task_detail))))"

text \<open>The tasks of a page that the actor may see, each with its own decision and audit.\<close>

fun visible_tasks :: "task_env \<Rightarrow> task_actor \<Rightarrow> task_projection list \<Rightarrow> task_projection list task_do" where
  "visible_tasks env actor [] = retA []"
| "visible_tasks env actor (p # ps) =
     bindA (catchA
       (bindA (tc_authorize env actor Task_detail (Some (key_part p))) (\<lambda>ctx.
        bindA (tc_finish env ctx Task_detail (task_reference p) None) (\<lambda>_. retA [p])))
       (\<lambda>e. if tc_code_of e = TASK_OPERATION_DENIED then retA [] else throwA e)) (\<lambda>shown.
     bindA (visible_tasks env actor ps) (\<lambda>rest. retA (shown @ rest)))"

record task_query =
  tq_actor :: task_actor
  tq_status :: "task_status option"
  tq_limit :: "jsnum option"
  tq_cursor :: "string option"

definition tc_list :: "task_env \<Rightarrow> task_query \<Rightarrow> task_page task_do" where
  "tc_list env q = tc_observe Task_list
     (bindA (liftA (tc_actor (tq_actor q))) (\<lambda>actor.
      bindA (tc_authorize env actor Task_list None) (\<lambda>ctx.
      let limit = (case tq_limit q of None \<Rightarrow> Fin 50 | Some n \<Rightarrow> n) in
      bindA (ensureA (isSafeInteger limit \<and> 1 \<le> num_int limit \<and> num_int limit \<le> 100) (tc_error TASK_INPUT_INVALID)) (\<lambda>_.
      tc_guarded env TASK_STORAGE_UNAVAILABLE ctx Task_list (tr_principalId actor)
        (bindA (getsA (\<lambda>w. task_list (tv_before env) (tq_status q) (nat (num_int limit)) (tq_cursor q) (tw_store w))) (\<lambda>page.
         bindA (visible_tasks env actor (tg_items page)) (\<lambda>items.
         retA \<lparr>tg_items = items, tg_nextCursor = tg_nextCursor page\<rparr>)))))))"

definition command_fingerprint :: "task_env \<Rightarrow> task_actor \<Rightarrow> task_key \<Rightarrow> string option \<Rightarrow> string" where
  "command_fingerprint env actor key reference = tc_fingerprint (tv_sha env) (J_obj (
     [(''actor'', J_str (tr_principalId actor)), (''sourceType'', J_str (tk_sourceType key)),
      (''sourceTaskId'', J_str (tk_sourceTaskId key))] @ j_opt ''sourceCommandReference'' reference))"

text \<open>The source's answer to a claimed command; if there is none, the claim is released.\<close>

definition routeCommand :: "task_env \<Rightarrow> routed_command \<Rightarrow> string \<Rightarrow> command_result task_do" where
  "routeCommand env c token =
     bindA (modifyA (\<lambda>w. w\<lparr>tw_routed := tw_routed w @ [c]\<rparr>)) (\<lambda>_.
     bindA (others_do env 1) (\<lambda>_.
     case bindE (tv_route env c) validateSourceCommandResult of
       Inr r \<Rightarrow> retA r
     | Inl e \<Rightarrow> bindA (on_tasks (releaseCommand (ro_idempotencyKey c) token)) (\<lambda>_.
         throwA (Task_error TASK_SOURCE_UNAVAILABLE True))))"

definition completeClaimed :: "task_env \<Rightarrow> routed_command \<Rightarrow> string \<Rightarrow> command_result task_do" where
  "completeClaimed env c fp =
     bindA (requireA (tv_now env) (Task_error TASK_STORAGE_UNAVAILABLE True)) (\<lambda>claimedAt.
     bindA (liftA (tc_uuid (tv_leaseToken env))) (\<lambda>token.
     bindA (others_do env 0) (\<lambda>_.
     bindA (on_tasks (claimCommand (ro_idempotencyKey c) fp token (date_at claimedAt)
       (date_at (claimedAt + tv_leaseMs env)))) (\<lambda>claim.
     case claim of
       Claim_accepted r \<Rightarrow> retA r
     | Claim_running \<Rightarrow> throwA (Task_error TASK_COMMAND_IN_PROGRESS True)
     | Claimed t \<Rightarrow>
         bindA (routeCommand env c t) (\<lambda>r.
         bindA (on_tasks (acceptCommand (ro_idempotencyKey c) t r)) (\<lambda>kept.
         bindA (ensureA kept (Task_error TASK_COMMAND_IN_PROGRESS True)) (\<lambda>_. retA r)))))))"

record complete_input = task_key +
  ci_actor :: task_actor
  ci_idempotencyKey :: string
  ci_sourceCommandReference :: "string option"

definition tc_complete :: "task_env \<Rightarrow> complete_input \<Rightarrow> command_result task_do" where
  "tc_complete env input = tc_observe Task_complete
     (bindA (liftA (tc_key input)) (\<lambda>key.
      bindA (liftA (tc_actor (ci_actor input))) (\<lambda>actor.
      bindA (liftA (tc_id (ci_idempotencyKey input))) (\<lambda>idempotencyKey.
      bindA (liftA (tc_optional tc_id (ci_sourceCommandReference input))) (\<lambda>reference.
      bindA (getAuthorized env actor key Task_detail) (\<lambda>_.
      bindA (tc_authorize env actor Task_complete (Some key)) (\<lambda>ctx.
      tc_guarded env TASK_STORAGE_UNAVAILABLE ctx Task_complete (task_reference key)
        (completeClaimed env \<lparr>ro_key = key, ro_actor = actor, ro_idempotencyKey = idempotencyKey,
            ro_reference = reference\<rparr> (command_fingerprint env actor key reference)))))))))"

datatype reconciled = Reconcile_applied | Reconcile_current | Reconcile_stale

definition reconciled_as :: "apply_status \<Rightarrow> reconciled" where
  "reconciled_as s = (case s of Applied \<Rightarrow> Reconcile_applied | Duplicate_event \<Rightarrow> Reconcile_current
     | Stale \<Rightarrow> Reconcile_stale)"

definition tc_reconcile :: "task_env \<Rightarrow> task_actor \<Rightarrow> task_key \<Rightarrow> (reconciled \<times> task_projection) task_do" where
  "tc_reconcile env actorInput keyInput = tc_observe Task_reconcile
     (bindA (liftA (tc_key keyInput)) (\<lambda>key.
      bindA (liftA (tc_actor actorInput)) (\<lambda>actor.
      bindA (tc_authorize env actor Task_reconcile (Some key)) (\<lambda>ctx.
      tc_guarded env TASK_SOURCE_UNAVAILABLE ctx Task_reconcile (task_reference key)
        (bindA (liftA (bindE (tv_source env key) tc_event)) (\<lambda>e.
         bindA (ensureA (key_part e = key) (Task_error TASK_SOURCE_UNAVAILABLE True)) (\<lambda>_.
         bindA (on_tasks (task_reconcile (tv_sha env) e)) (\<lambda>(status, p).
         retA (reconciled_as status, p)))))))))"

end
