(* ===== verification/TaskProps.thy ===== *)
theory TaskProps
  imports TaskCenter
begin

text \<open>
  What the task center promises: the store of projections refines the latest event of each task, so it
  comes out the same in whatever order the events arrive; a command that was accepted once keeps its result and
  is not sent again; and a list shows a task only where the actor may see it.
\<close>

section \<open>Projections are the latest events\<close>

definition content :: "task_projection \<Rightarrow> task_projection" where
  "content p = p\<lparr>tp_projectionId := [], tp_createdAt := []\<rparr>"

text \<open>
  The specification: under each key the content of an event, replaced by that of an event with a higher version.
\<close>

definition latest :: "task_event \<Rightarrow> (string \<rightharpoonup> task_projection) \<Rightarrow> string \<rightharpoonup> task_projection" where
  "latest e m = (if (\<exists>c. m (keyOf e) = Some c \<and> te_sourceVersion e \<le> tp_sourceVersion c) then m
     else m(keyOf e \<mapsto> projectionOf e [] []))"

definition task_view :: "task_store \<Rightarrow> string \<rightharpoonup> task_projection" where
  "task_view s = (\<lambda>k. map_option content (jm_get (tk_projections s) k))"

definition unique_ids :: "task_event set \<Rightarrow> bool" where
  "unique_ids E \<longleftrightarrow> (\<forall>e \<in> E. \<forall>e' \<in> E. te_eventId e = te_eventId e' \<longrightarrow> e = e')"

text \<open>Every recorded event of \<open>E\<close> has its own digest, and its task's projection is at its version or past it.\<close>

definition recorded :: "(string \<Rightarrow> string) \<Rightarrow> task_event set \<Rightarrow> task_store \<Rightarrow> bool" where
  "recorded sha E s \<longleftrightarrow> unique_ids E \<and> (\<forall>e \<in> E. \<forall>f. jm_get (tk_events s) (te_eventId e) = Some f \<longrightarrow>
     f = tc_fingerprint sha (event_json e) \<and>
     (\<exists>p. jm_get (tk_projections s) (keyOf e) = Some p \<and> te_sourceVersion e \<le> tp_sourceVersion p))"

lemma projected_version [simp]: "tp_sourceVersion (projected e s) = te_sourceVersion e"
  by (simp add: projected_def projectionOf_def split: option.split)

lemma projected_content [simp]: "content (projected e s) = projectionOf e [] []"
  by (simp add: projected_def projectionOf_def content_def split: option.split)

lemma content_version [simp]: "tp_sourceVersion (content p) = tp_sourceVersion p"
  by (simp add: content_def)

lemma project_event_parts [simp]:
  "jm_get (tk_projections (project_event sha e s)) = (jm_get (tk_projections s))(keyOf e \<mapsto> projected e s)"
  "jm_get (tk_events (project_event sha e s)) = (jm_get (tk_events s))(te_eventId e \<mapsto> tc_fingerprint sha (event_json e))"
  "tk_projections (note_event sha e s) = tk_projections s"
  "jm_get (tk_events (note_event sha e s)) = (jm_get (tk_events s))(te_eventId e \<mapsto> tc_fingerprint sha (event_json e))"
  by (simp_all add: project_event_def note_event_def)

text \<open>The three ways an event that is not aborted goes.\<close>

lemma apply_cases:
  assumes "recorded sha E s" and "e \<in> E"
  obtains (seen) p where "snd (task_apply sha None e s) = s" "jm_get (tk_projections s) (keyOf e) = Some p"
      "te_sourceVersion e \<le> tp_sourceVersion p"
    | (stale) p where "snd (task_apply sha None e s) = note_event sha e s"
      "jm_get (tk_projections s) (keyOf e) = Some p" "te_sourceVersion e \<le> tp_sourceVersion p"
    | (fresh) "snd (task_apply sha None e s) = project_event sha e s"
      "\<forall>p. jm_get (tk_projections s) (keyOf e) = Some p \<longrightarrow> tp_sourceVersion p < te_sourceVersion e"
proof (cases "jm_get (tk_events s) (te_eventId e)")
  case (Some f)
  with assms obtain p where "jm_get (tk_projections s) (keyOf e) = Some p" "te_sourceVersion e \<le> tp_sourceVersion p"
    unfolding recorded_def by blast
  moreover from this have "snd (task_apply sha None e s) = s" using Some by (simp add: task_apply_def)
  ultimately show thesis using seen by blast
next
  case None
  show thesis
  proof (cases "\<exists>p. jm_get (tk_projections s) (keyOf e) = Some p \<and> te_sourceVersion e \<le> tp_sourceVersion p")
    case True
    then obtain p where "jm_get (tk_projections s) (keyOf e) = Some p" "te_sourceVersion e \<le> tp_sourceVersion p" by blast
    with None show thesis by (intro stale [of p]) (simp_all add: task_apply_def)
  next
    case False
    with None show thesis
      by (intro fresh) (auto simp: task_apply_def Let_def not_le split: option.split)
  qed
qed

lemma recorded_event:
  assumes "recorded sha E s" and "e \<in> E"
    and "jm_get (tk_events t) = (jm_get (tk_events s))(te_eventId e \<mapsto> tc_fingerprint sha (event_json e))"
    and "\<And>k p. jm_get (tk_projections s) k = Some p \<Longrightarrow>
      \<exists>q. jm_get (tk_projections t) k = Some q \<and> tp_sourceVersion p \<le> tp_sourceVersion q"
    and "\<exists>q. jm_get (tk_projections t) (keyOf e) = Some q \<and> te_sourceVersion e \<le> tp_sourceVersion q"
  shows "recorded sha E t"
  unfolding recorded_def
proof (intro conjI ballI allI impI)
  show ids: "unique_ids E" using assms(1) by (simp add: recorded_def)
  fix e' f
  assume e': "e' \<in> E" and f: "jm_get (tk_events t) (te_eventId e') = Some f"
  show "f = tc_fingerprint sha (event_json e')"
    and "\<exists>p. jm_get (tk_projections t) (keyOf e') = Some p \<and> te_sourceVersion e' \<le> tp_sourceVersion p"
  proof -
    have "f = tc_fingerprint sha (event_json e') \<and>
      (\<exists>p. jm_get (tk_projections t) (keyOf e') = Some p \<and> te_sourceVersion e' \<le> tp_sourceVersion p)"
    proof (cases "te_eventId e' = te_eventId e")
      case True
      then have "e' = e" using ids e' assms(2) by (simp add: unique_ids_def)
      with f assms(3,5) show ?thesis by simp
    next
      case False
      then have "jm_get (tk_events s) (te_eventId e') = Some f" using f assms(3) by simp
      with assms(1) e' obtain p where "f = tc_fingerprint sha (event_json e')"
          "jm_get (tk_projections s) (keyOf e') = Some p" "te_sourceVersion e' \<le> tp_sourceVersion p"
        unfolding recorded_def by blast
      with assms(4) show ?thesis using order.trans by blast
    qed
    then show "f = tc_fingerprint sha (event_json e')"
      and "\<exists>p. jm_get (tk_projections t) (keyOf e') = Some p \<and> te_sourceVersion e' \<le> tp_sourceVersion p" by blast+
  qed
qed

interpretation projections: refinement "task_apply sha None" "recorded sha E" "\<lambda>e. e \<in> E" latest task_view for sha E
proof
  fix s e
  assume rec: "recorded sha E s" and e: "e \<in> E"
  show "recorded sha E (snd (task_apply sha None e s))"
    using rec e
  proof (cases rule: apply_cases)
    case (stale p)
    then show ?thesis by (intro recorded_event [OF rec e]) auto
  next
    case fresh
    show ?thesis
      unfolding fresh(1) by (rule recorded_event [OF rec e]) (use fresh(2) in \<open>auto simp: less_imp_le\<close>)
  qed (simp add: rec)
  show "task_view (snd (task_apply sha None e s)) = latest e (task_view s)"
    using rec e
  proof (cases rule: apply_cases)
    case fresh
    then show ?thesis by (auto simp: latest_def task_view_def fun_eq_iff)
  qed (auto simp: latest_def task_view_def)
qed

lemma recorded_start: "unique_ids E \<Longrightarrow> recorded sha E emptyTaskStore"
  by (simp add: recorded_def emptyTaskStore_def)

lemma run_latest:
  assumes "unique_ids (set es)"
  shows "task_view (run_all (task_apply sha None) es emptyTaskStore) = fold latest es Map.empty"
proof -
  have "task_view emptyTaskStore = Map.empty" by (simp add: task_view_def emptyTaskStore_def)
  moreover have "recorded sha (set es) emptyTaskStore" using assms by (rule recorded_start)
  ultimately show ?thesis
    using projections.run_refines [of sha "set es" emptyTaskStore es] by (simp add: list_all_iff)
qed


section \<open>The order of the events does not matter\<close>

lemma latest_keeps:
  "m k = Some c \<Longrightarrow> (keyOf e = k \<Longrightarrow> te_sourceVersion e \<le> tp_sourceVersion c) \<Longrightarrow> latest e m k = Some c"
  by (auto simp: latest_def)

lemma latest_run:
  assumes "\<And>c. m k = Some c \<Longrightarrow> tp_sourceVersion c < v" and "e \<in> set es" and "keyOf e = k" and "te_sourceVersion e = v"
    and "\<And>e'. e' \<in> set es \<Longrightarrow> keyOf e' = k \<Longrightarrow> te_sourceVersion e' \<le> v"
    and "\<And>e'. e' \<in> set es \<Longrightarrow> keyOf e' = k \<Longrightarrow> te_sourceVersion e' = v \<Longrightarrow> projectionOf e' [] [] = projectionOf e [] []"
  shows "fold latest es m k = Some (projectionOf e [] [])"
proof -
  have kept: "fold latest es m k = Some c"
    if "m k = Some c" "\<forall>e' \<in> set es. keyOf e' = k \<longrightarrow> te_sourceVersion e' \<le> tp_sourceVersion c" for es m c
    using that by (induction es arbitrary: m) (auto simp: latest_keeps)
  show ?thesis
    using assms
  proof (induction es arbitrary: m)
    case (Cons e' es)
    show ?case
    proof (cases "keyOf e' = k \<and> te_sourceVersion e' = v")
      case True
      then have "\<not> (\<exists>c. m (keyOf e') = Some c \<and> te_sourceVersion e' \<le> tp_sourceVersion c)"
        using Cons.prems(1) by force
      then have "latest e' m k = Some (projectionOf e' [] [])" using True by (auto simp: latest_def)
      then have "fold latest es (latest e' m) k = Some (projectionOf e' [] [])"
        by (rule kept) (use True Cons.prems(5) in \<open>auto simp: projectionOf_def\<close>)
      moreover have "projectionOf e' [] [] = projectionOf e [] []" using Cons.prems(6) [of e'] True by simp
      ultimately show ?thesis by simp
    next
      case False
      have "tp_sourceVersion c < v" if "latest e' m k = Some c" for c
        using that False Cons.prems(1) Cons.prems(5) [of e']
        by (auto simp: latest_def projectionOf_def split: if_splits)
      then show ?thesis
        using Cons.IH [of "latest e' m"] Cons.prems False by (metis fold_simps(2) list.set_intros(2) set_ConsD)
    qed
  qed simp
qed

lemma latest_none: "\<forall>e \<in> set es. keyOf e \<noteq> k \<Longrightarrow> fold latest es m k = m k"
  by (induction es arbitrary: m) (auto simp: latest_def)

text \<open>
  Two deliveries of the same events, in any order and with any repetitions, leave the same tasks, as
  long as no two different events give one task one version.
\<close>

theorem projections_converge:
  assumes "set es = set es'" and "unique_ids (set es)"
    and "\<forall>e \<in> set es. \<forall>e' \<in> set es. keyOf e = keyOf e' \<and> te_sourceVersion e = te_sourceVersion e' \<longrightarrow>
      projectionOf e [] [] = projectionOf e' [] []"
  shows "task_view (run_all (task_apply sha None) es emptyTaskStore)
    = task_view (run_all (task_apply sha None) es' emptyTaskStore)"
proof -
  have "fold latest es Map.empty k = fold latest es' Map.empty k" for k
  proof (cases "\<exists>e \<in> set es. keyOf e = k")
    case True
    let ?vs = "te_sourceVersion ` {e \<in> set es. keyOf e = k}"
    have vs: "finite ?vs" "?vs \<noteq> {}" using True by auto
    from Max_in [OF vs] obtain e where e: "e \<in> set es" "keyOf e = k" "te_sourceVersion e = Max ?vs" by auto
    have top: "te_sourceVersion e' \<le> Max ?vs" if "e' \<in> set es" "keyOf e' = k" for e'
      using vs that by (auto intro: Max_ge)
    have "fold latest xs Map.empty k = Some (projectionOf e [] [])" if "set xs = set es" for xs
    proof (rule latest_run [where v = "Max ?vs"])
      show "e \<in> set xs" "keyOf e = k" "te_sourceVersion e = Max ?vs" using e that by simp_all
      show "te_sourceVersion e' \<le> Max ?vs" if "e' \<in> set xs" "keyOf e' = k" for e'
        using that top \<open>set xs = set es\<close> by simp
      show "projectionOf e' [] [] = projectionOf e [] []"
        if "e' \<in> set xs" "keyOf e' = k" "te_sourceVersion e' = Max ?vs" for e'
        using assms(3) that e \<open>set xs = set es\<close> by (metis (no_types, lifting))
    qed simp
    with assms(1) show ?thesis by simp
  next
    case False
    with assms(1) latest_none show ?thesis by metis
  qed
  then have "fold latest es Map.empty = fold latest es' Map.empty" by (rule ext)
  moreover have "unique_ids (set es')" using assms(1,2) by simp
  ultimately show ?thesis using run_latest [OF assms(2), of sha] run_latest [of es' sha] by simp
qed

section \<open>A command that was accepted\<close>

text \<open>Under the idempotency key: the command was accepted, with this result.\<close>

definition has_result :: "string \<Rightarrow> command_result \<Rightarrow> task_store \<Rightarrow> bool" where
  "has_result k r s \<longleftrightarrow> (\<exists>row. jm_get (tk_commands s) k = Some row \<and> cw_accepted row \<and> cw_result row = Some r)"

lemma claim_with_result:
  assumes "has_result k r s"
  shows "snd (claimCommand i f l now expires s) = s \<or> i \<noteq> k"
    and "claimCommand k f l now expires s = (Inr (Claim_accepted r), s)
      \<or> claimCommand k f l now expires s = (Inl (tc_error TASK_COMMAND_CONFLICT), s)"
  using assms by (auto simp: has_result_def claimCommand_def Let_def split: if_splits)

lemma store_keeps_result: "has_result k r s \<Longrightarrow> has_result k r (snd (task_exec sha c s))"
proof (cases c)
  case (Op_claim i f l now expires)
  assume "has_result k r s"
  then show ?thesis
    using claim_with_result(1) [of k r s i f l now expires] Op_claim
    by (cases "i = k")
      (auto simp: has_result_def claimCommand_def Let_def split: option.splits bool.splits)
qed (auto simp: has_result_def task_apply_def task_reconcile_def acceptCommand_def releaseCommand_def
    note_event_def project_event_def Let_def split: option.splits)

interpretation commands: guarded_machine "task_exec sha" "has_result k r" for sha k r
  by unfold_locales (rule store_keeps_result)

text \<open>Audits and decisions touch neither the store nor the routed commands.\<close>

definition kept_answer :: "string \<Rightarrow> command_result \<Rightarrow> routed_command list \<Rightarrow> task_world \<Rightarrow> bool" where
  "kept_answer k r routed w \<longleftrightarrow> has_result k r (tw_store w) \<and> tw_routed w = routed"

lemma audit_frame:
  "tw_store (snd (recordAudit env a w)) = tw_store w" "tw_routed (snd (recordAudit env a w)) = tw_routed w"
  by (simp_all add: recordAudit_def)

lemma recordAudit_keeps [keeps]: "keepsA (kept_answer k r routed) (recordAudit env a)"
  by (simp add: keepsA_def kept_answer_def audit_frame)

lemma tc_finish_keeps [keeps]: "keepsA (kept_answer k r routed) (tc_finish env ctx op i e)"
  unfolding tc_finish_def by (rule recordAudit_keeps)

lemma tc_authorize_keeps [keeps]: "keepsA (kept_answer k r routed) (tc_authorize env a op key)"
  unfolding tc_authorize_def Let_def by (intro keeps)

lemma tc_guarded_keeps [keeps]:
  "keepsA (kept_answer k r routed) m \<Longrightarrow> keepsA (kept_answer k r routed) (tc_guarded env c ctx op i m)"
  unfolding tc_guarded_def Let_def by (intro keeps)

lemma tc_observe_keeps [keeps]:
  "keepsA (kept_answer k r routed) m \<Longrightarrow> keepsA (kept_answer k r routed) (tc_observe op m)"
  by (fastforce simp: keepsA_def tc_observe_def kept_answer_def split: prod.split sum.split)

lemma getAuthorized_keeps [keeps]: "keepsA (kept_answer k r routed) (getAuthorized env a key op)"
  unfolding getAuthorized_def by (intro keeps)

lemma others_keep_answer [keeps]: "keepsA (kept_answer k r routed) (others_do env n)"
  by (simp add: keepsA_def kept_answer_def others_do_def commands.run_keeps)

text \<open>An action that keeps the answer and gives no other.\<close>

definition repeats :: "string \<Rightarrow> command_result \<Rightarrow> routed_command list \<Rightarrow> command_result task_do \<Rightarrow> bool" where
  "repeats k r routed m \<longleftrightarrow> keepsA (kept_answer k r routed) m
     \<and> (\<forall>w q. kept_answer k r routed w \<longrightarrow> fst (m w) = Inr q \<longrightarrow> q = r)"

named_theorems repeating "rules for actions that repeat an answer"

lemma repeats_bind [repeating]:
  assumes "keepsA (kept_answer k r routed) m" and "\<And>x. repeats k r routed (f x)"
  shows "repeats k r routed (bindA m f)"
  using assms by (fastforce simp: repeats_def keepsA_def bindA_def split: prod.splits sum.splits)

lemma repeats_lift:
  assumes "\<And>x. v = Inr x \<Longrightarrow> repeats k r routed (f x)"
  shows "repeats k r routed (bindA (liftA v) f)"
  using assms by (cases v) (auto simp: repeats_def keepsA_def bindA_def)

lemma repeats_guarded [repeating]:
  assumes "repeats k r routed m"
  shows "repeats k r routed (tc_guarded env c ctx op i m)"
  using assms by (auto simp: repeats_def tc_guarded_keeps)
    (auto simp: tc_guarded_def catchA_def bindA_def Let_def split: prod.splits sum.splits)

lemma repeats_observe [repeating]:
  "repeats k r routed m \<Longrightarrow> repeats k r routed (tc_observe op m)"
  by (fastforce simp: repeats_def tc_observe_keeps tc_observe_def split: prod.splits sum.splits)

lemma claimed_repeats:
  assumes "ro_idempotencyKey c = k"
  shows "repeats k r routed (completeClaimed env c fp)"
proof -
  have claim: "repeats k r routed (bindA (on_tasks (claimCommand k f l now expires)) (\<lambda>claim.
      case claim of Claim_accepted q \<Rightarrow> retA q | Claim_running \<Rightarrow> throwA e | Claimed t \<Rightarrow> g t))" for f l now expires e g
  proof -
    have "(on_tasks (claimCommand k f l now expires) w = (Inr (Claim_accepted r), w))
        \<or> on_tasks (claimCommand k f l now expires) w = (Inl (tc_error TASK_COMMAND_CONFLICT), w)"
      if "kept_answer k r routed w" for w
      using claim_with_result(2) [of k r "tw_store w" f l now expires] that
      by (auto simp: kept_answer_def on_tasks_def)
    then show ?thesis by (fastforce simp: repeats_def keepsA_def bindA_def)
  qed
  show ?thesis
    unfolding completeClaimed_def assms by (intro repeating keeps claim)
qed

lemma complete_repeats:
  assumes "ci_idempotencyKey input = k"
  shows "repeats k r routed (tc_complete env input)"
  unfolding tc_complete_def assms
  by (intro repeats_observe repeats_lift repeats_bind repeats_guarded keeps claimed_repeats)
    (simp add: tc_id_def split: if_splits)

text \<open>A completion that returns has left its answer.\<close>

lemma guarded_returns:
  "tc_guarded env c ctx op i m w = (Inr x, u) \<Longrightarrow> \<exists>v. m w = (Inr x, v) \<and> tw_store u = tw_store v"
  by (auto simp: tc_guarded_def catchA_def bindA_def Let_def tc_finish_def recordAudit_def
      split: prod.splits sum.splits if_splits)

lemma observed_returns: "tc_observe op m w = (Inr x, u) \<Longrightarrow> \<exists>v. m w = (Inr x, v) \<and> tw_store u = tw_store v"
  by (auto simp: tc_observe_def split: prod.splits sum.splits)

lemma on_tasks_eq:
  "on_tasks m w = (r, u) \<longleftrightarrow> (\<exists>s. m (tw_store w) = (r, s) \<and> u = w\<lparr>tw_store := s\<rparr>)"
  by (auto simp: on_tasks_def split: prod.splits)

lemma accept_result: "acceptCommand k t x s = (Inr True, s') \<Longrightarrow> has_result k x s'"
  by (auto simp: acceptCommand_def has_result_def split: option.splits if_splits)

lemma claim_accepted_result: "claimCommand k f l now expires s = (Inr (Claim_accepted x), s') \<Longrightarrow> has_result k x s'"
  by (auto simp: claimCommand_def has_result_def Let_def split: option.splits if_splits bool.splits)

lemma claimed_returns:
  assumes "completeClaimed env c fp w = (Inr x, u)"
  shows "has_result (ro_idempotencyKey c) x (tw_store u)"
proof -
  let ?k = "ro_idempotencyKey c"
  from assms obtain now token w1 claim w2 where
      claim: "on_tasks (claimCommand ?k fp token (date_at now) (date_at (now + tv_leaseMs env))) w1 = (Inr claim, w2)"
    and rest: "(case claim of Claim_accepted r \<Rightarrow> retA r
     | Claim_running \<Rightarrow> throwA (Task_error TASK_COMMAND_IN_PROGRESS True)
     | Claimed t \<Rightarrow>
         bindA (routeCommand env c t) (\<lambda>r.
         bindA (on_tasks (acceptCommand ?k t r)) (\<lambda>kept.
         bindA (ensureA kept (Task_error TASK_COMMAND_IN_PROGRESS True)) (\<lambda>_. retA r)))) w2 = (Inr x, u)"
    unfolding completeClaimed_def by (auto simp: bindA_eq_Inr)
  show ?thesis
  proof (cases claim)
    case (Claim_accepted r)
    with rest claim show ?thesis
      by (auto simp: on_tasks_eq intro: claim_accepted_result)
  next
    case (Claimed t)
    with rest show ?thesis
      by (auto simp: bindA_eq_Inr on_tasks_eq intro: accept_result)
  qed (use rest in simp)
qed

lemma complete_returns:
  assumes "tc_complete env input w = (Inr x, u)"
  shows "has_result (ci_idempotencyKey input) x (tw_store u)"
proof -
  from assms obtain v where v: "tw_store u = tw_store v"
    "\<exists>key actor reference ctx w1. tc_guarded env TASK_STORAGE_UNAVAILABLE ctx Task_complete (task_reference key)
        (completeClaimed env \<lparr>ro_key = key, ro_actor = actor, ro_idempotencyKey = ci_idempotencyKey input,
            ro_reference = reference\<rparr> (command_fingerprint env actor key reference)) w1 = (Inr x, v)"
    unfolding tc_complete_def
    by (fastforce dest!: observed_returns simp: bindA_eq_Inr tc_id_def split: if_splits)
  then show ?thesis by (auto dest!: guarded_returns dest: claimed_returns)
qed

text \<open>
  C13: A completion that returned has settled its idempotency key for good. After whatever others do to the store,
  a completion under the key, by whomever and of whatever task, sends no command, and if it returns, it
  returns the first result.
\<close>

theorem accepted_command_final:
  assumes "tc_complete env input w = (Inr r, u)"
    and "tw_store v = run_all (task_exec sha) ops (tw_store u)"
    and "ci_idempotencyKey input' = ci_idempotencyKey input"
  shows "tw_routed (snd (tc_complete env' input' v)) = tw_routed v
    \<and> fst (tc_complete env' input' v) \<in> range Inl \<union> {Inr r}"
proof -
  let ?k = "ci_idempotencyKey input"
  have "has_result ?k r (tw_store v)"
    unfolding assms(2) by (rule commands.run_keeps) (rule complete_returns [OF assms(1)])
  then have "kept_answer ?k r (tw_routed v) v" by (simp add: kept_answer_def)
  moreover have "repeats ?k r (tw_routed v) (tc_complete env' input')" by (rule complete_repeats [OF assms(3)])
  ultimately have "kept_answer ?k r (tw_routed v) (snd (tc_complete env' input' v))"
    and "\<And>q. fst (tc_complete env' input' v) = Inr q \<Longrightarrow> q = r"
    unfolding repeats_def keepsA_def by blast+
  then show ?thesis
    by (cases "fst (tc_complete env' input' v)") (auto simp: kept_answer_def)
qed

section \<open>A list shows what the actor may see\<close>

lemma tc_uuid_same: "tc_uuid s = Inr i \<Longrightarrow> i = s"
  by (simp add: tc_uuid_def split: if_splits)

lemma optional_same:
  "(\<And>x y. f x = Inr y \<Longrightarrow> y = x) \<Longrightarrow> tc_optional f v = Inr y \<Longrightarrow> y = v"
  by (auto simp: tc_optional_def bindE_eq_Inr split: option.splits)

lemma tc_actor_same: "tc_actor a = Inr b \<Longrightarrow> b = a"
proof -
  have id: "\<And>x y. tc_id x = Inr y \<Longrightarrow> y = x" by (simp add: tc_id_def split: if_splits)
  assume "tc_actor a = Inr b"
  then obtain xs sel per pri where
    "tc_optional (mapE tc_id) (tr_activeAssignmentIds a) = Inr xs" "tc_optional tc_id (tr_selectedAssignmentId a) = Inr sel"
    "tc_optional tc_id (tr_workforcePersonId a) = Inr per" "tc_id (tr_principalId a) = Inr pri"
    "b = \<lparr>tr_activeAssignmentIds = xs, tr_principalId = pri, tr_selectedAssignmentId = sel, tr_workforcePersonId = per\<rparr>"
    unfolding tc_actor_def by (auto simp: bindE_eq_Inr)
  moreover have "\<And>x y. mapE tc_id x = Inr y \<Longrightarrow> y = x" by (erule mapE_same [rotated]) (rule id)
  ultimately have "xs = tr_activeAssignmentIds a" "sel = tr_selectedAssignmentId a" "per = tr_workforcePersonId a"
      "pri = tr_principalId a"
    using optional_same [of "mapE tc_id"] optional_same [of tc_id] id by blast+
  with \<open>b = _\<close> show ?thesis by simp
qed

definition may_see :: "task_env \<Rightarrow> task_actor \<Rightarrow> task_projection \<Rightarrow> bool" where
  "may_see env actor p \<longleftrightarrow> (\<exists>i. tv_authorize env actor Task_detail (Some (key_part p)) = Inr (True, i))"

lemma authorized_allows:
  assumes "tc_authorize env a op key w = (Inr ctx, u)"
  shows "\<exists>i. tv_authorize env a op key = Inr (True, i)"
  using assms unfolding tc_authorize_def Let_def
  by (auto simp: bindA_eq_Inr dest!: tc_actor_same split: if_splits sum.splits)

lemma authorize_store: "tw_store (snd (tc_authorize env a op key w)) = tw_store w"
  by (auto simp: tc_authorize_def bindA_def recordAudit_def throwA_def Let_def split: prod.split sum.split)

lemma visible_allowed:
  "visible_tasks env actor ps w = (Inr shown, u) \<Longrightarrow> set shown \<subseteq> {p \<in> set ps. may_see env actor p}"
proof (induction ps arbitrary: shown w u)
  case (Cons p ps)
  from Cons.prems obtain s1 s2 w1 w2 where
      first: "catchA (bindA (tc_authorize env actor Task_detail (Some (key_part p))) (\<lambda>ctx.
        bindA (tc_finish env ctx Task_detail (task_reference p) None) (\<lambda>_. retA [p])))
       (\<lambda>e. if tc_code_of e = TASK_OPERATION_DENIED then retA [] else throwA e) w = (Inr s1, w1)"
    and rest: "visible_tasks env actor ps w1 = (Inr s2, w2)" and shown: "shown = s1 @ s2"
    by (auto simp: bindA_eq_Inr)
  have "s1 = [] \<or> s1 = [p] \<and> may_see env actor p"
    using first unfolding catchA_def may_see_def
    by (auto simp: bindA_eq_Inr dest: authorized_allows split: prod.splits sum.splits if_splits)
  with Cons.IH [OF rest] shown show ?case by auto
qed simp

lemma task_list_stored:
  "set (tg_items (task_list prior status limit cursor s)) \<subseteq> {p \<in> set (jm_values (tk_projections s)).
     status = None \<or> status = Some (tp_status p)}"
  by (cases status) (auto simp: task_list_def task_rows_def Let_def dest!: in_set_takeD)

text \<open>
  Every task on a page that a list returns is one of the store, with the status asked for, and the
  actor was allowed its detail by a decision of its own.
\<close>

theorem listed_tasks_allowed:
  assumes "tc_list env q w = (Inr page, u)"
  shows "set (tg_items page) \<subseteq> {p \<in> set (jm_values (tk_projections (tw_store w))).
    (tq_status q = None \<or> tq_status q = Some (tp_status p)) \<and> may_see env (tq_actor q) p}"
proof -
  from assms obtain ctx w1 limit v where auth: "tc_authorize env (tq_actor q) Task_list None w = (Inr ctx, w1)"
    and guarded: "tc_guarded env TASK_STORAGE_UNAVAILABLE ctx Task_list (tr_principalId (tq_actor q))
        (bindA (getsA (\<lambda>w. task_list (tv_before env) (tq_status q) limit (tq_cursor q) (tw_store w))) (\<lambda>page.
         bindA (visible_tasks env (tq_actor q) (tg_items page)) (\<lambda>items.
         retA \<lparr>tg_items = items, tg_nextCursor = tg_nextCursor page\<rparr>))) w1 = (Inr page, v)"
    unfolding tc_list_def Let_def
    by (auto dest!: observed_returns tc_actor_same simp: bindA_eq_Inr)
  let ?rows = "task_list (tv_before env) (tq_status q) limit (tq_cursor q) (tw_store w1)"
  have "tw_store w1 = tw_store w" using authorize_store [of env "tq_actor q" Task_list None w] auth by simp
  moreover obtain w2 where "visible_tasks env (tq_actor q) (tg_items ?rows) w1 = (Inr (tg_items page), w2)"
    using guarded_returns [OF guarded] by (auto simp: bindA_eq_Inr)
  ultimately show ?thesis
    using visible_allowed task_list_stored [of "tv_before env" "tq_status q" limit "tq_cursor q" "tw_store w"]
    by (fastforce)
qed

end
