(* ===== verification/TaskSamples.thy ===== *)
theory TaskSamples
  imports TaskProps
begin

text \<open>
  A task of a sample source, its events, and a center whose ports allow everything: the properties of the
  task center apply to it.
\<close>

definition sample_event :: "string \<Rightarrow> int \<Rightarrow> task_status \<Rightarrow> task_event" where
  "sample_event n v st = \<lparr>tk_sourceType = ''flow'', tk_sourceTaskId = ''t1'',
     te_eventId = ''00000000-0000-4000-8000-00000000000'' @ n, te_sourceVersion = v,
     te_occurredAt = ''2026-01-01T00:00:00Z'', te_status = st, te_display = None,
     te_deepLink = \<lparr>tl_appId = ''app'', tl_routeId = ''task''\<rparr>, te_assigneeReference = None,
     te_candidateScopeReference = None, te_dueAt = None\<rparr>"

definition opened :: task_event where "opened = sample_event ''1'' 1 Task_open"
definition closed_event :: task_event where "closed_event = sample_event ''2'' 2 Task_completed"

definition sample_events :: "task_event list" where
  "sample_events = [opened, closed_event]"

definition task_alice :: task_actor where
  "task_alice = \<lparr>tr_activeAssignmentIds = None, tr_principalId = ''alice'', tr_selectedAssignmentId = None,
     tr_workforcePersonId = None\<rparr>"

definition permitting_tasks :: task_env where
  "permitting_tasks = \<lparr>tv_sha = (\<lambda>s. s), tv_before = str_lt, tv_authorize = (\<lambda>_ _ _. Inr (True, ''d1'')),
     tv_auditFails = (\<lambda>_. False),
     tv_route = (\<lambda>c. Inr (JObject [(''sourceCommandId'', JString ''c1''), (''status'', JString ''accepted'')])),
     tv_source = (\<lambda>_. Inl (Task_thrown ''no source'')), tv_now = Some 0,
     tv_leaseToken = ''00000000-0000-4000-8000-000000000001'', tv_leaseMs = 30000, tv_others = (\<lambda>_. [])\<rparr>"

definition sample_tasks :: task_world where
  "sample_tasks = \<lparr>tw_store = run_all (task_apply (\<lambda>s. s) None) sample_events emptyTaskStore, tw_audit = [],
     tw_observed = [], tw_routed = []\<rparr>"

definition sample_completion :: complete_input where
  "sample_completion = \<lparr>tk_sourceType = ''flow'', tk_sourceTaskId = ''t1'', ci_actor = task_alice,
     ci_idempotencyKey = ''k1'', ci_sourceCommandReference = None\<rparr>"

definition sample_query :: task_query where
  "sample_query = \<lparr>tq_actor = task_alice, tq_status = None, tq_limit = None, tq_cursor = None\<rparr>"


lemma projections_converge_witness:
  "task_view (run_all (task_apply (\<lambda>s. s) None) [opened, closed_event] emptyTaskStore)
    = task_view (run_all (task_apply (\<lambda>s. s) None) [closed_event, opened, closed_event] emptyTaskStore)"
proof (rule projections_converge)
  show "set [opened, closed_event] = set [closed_event, opened, closed_event]" by auto
  show "unique_ids (set [opened, closed_event])" by code_simp
  show "\<forall>e \<in> set [opened, closed_event]. \<forall>e' \<in> set [opened, closed_event].
    keyOf e = keyOf e' \<and> te_sourceVersion e = te_sourceVersion e' \<longrightarrow> projectionOf e [] [] = projectionOf e' [] []"
    by code_simp
qed

lemma completed:
  "tc_complete permitting_tasks sample_completion sample_tasks
    = (Inr (Accepted_command ''c1''), snd (tc_complete permitting_tasks sample_completion sample_tasks))"
proof -
  have "fst (tc_complete permitting_tasks sample_completion sample_tasks) = Inr (Accepted_command ''c1'')"
    by code_simp
  then show ?thesis by (simp add: prod_eq_iff)
qed

text \<open>The same completion again, after another actor tried to claim the key anew.\<close>

definition tried_again :: task_world where
  "tried_again = (let w = snd (tc_complete permitting_tasks sample_completion sample_tasks) in
     w\<lparr>tw_store := run_all (task_exec (\<lambda>s. s)) [Op_claim ''k1'' ''f'' ''l'' (Some 0) None] (tw_store w)\<rparr>)"

lemma accepted_command_final_witness:
  "tw_routed (snd (tc_complete permitting_tasks sample_completion tried_again)) = tw_routed tried_again
    \<and> fst (tc_complete permitting_tasks sample_completion tried_again) \<in> range Inl \<union> {Inr (Accepted_command ''c1'')}"
proof (rule accepted_command_final [OF completed])
  show "tw_store tried_again = run_all (task_exec (\<lambda>s. s)) [Op_claim ''k1'' ''f'' ''l'' (Some 0) None]
      (tw_store (snd (tc_complete permitting_tasks sample_completion sample_tasks)))"
    by (simp add: tried_again_def Let_def)
qed simp

lemma sample_listed:
  "isOk (fst (tc_list permitting_tasks sample_query sample_tasks))
    \<and> map tp_status (tg_items (projr (fst (tc_list permitting_tasks sample_query sample_tasks)))) = [Task_completed]"
  by code_simp

lemma listed_tasks_allowed_witness:
  "\<exists>p. p \<in> set (jm_values (tk_projections (tw_store sample_tasks))) \<and> tp_status p = Task_completed
    \<and> may_see permitting_tasks task_alice p"
proof -
  let ?r = "tc_list permitting_tasks sample_query sample_tasks"
  let ?page = "projr (fst ?r)"
  have "?r = (Inr ?page, snd ?r)" using sample_listed by (simp add: prod_eq_iff projr_ok)
  from listed_tasks_allowed [OF this] sample_listed show ?thesis
    by (cases "tg_items ?page") (auto simp: sample_query_def)
qed

end
