(* ===== verification/ConfigData.thy ===== *)
theory ConfigData
  imports JsLib
begin

text \<open>
  The data of business configuration and its validation
  (\<open>packages/crm-modules/business-configuration/src/\<close>: \<open>types.ts\<close>, \<open>errors.ts\<close>, \<open>validation.ts\<close>):
  dictionaries, parameters, and their values and activations. Commands arrive as values of unknown
  type and are read member by member. SHA-256, the text of a number, the engine's other date formats and
  the compiler of JSON schemas are parameters.
\<close>

section \<open>Data\<close>

datatype bc_code =
    Configuration_denied | Configuration_invalid_input | Configuration_missing | Configuration_not_found
  | Configuration_operation_conflict | Configuration_overlap | Configuration_unavailable

datatype bc_failure = Config_error bc_code bool

abbreviation bc_error :: "bc_code \<Rightarrow> bc_failure" where
  "bc_error c \<equiv> Config_error c False"

abbreviation bc_down :: bc_failure where
  "bc_down \<equiv> Config_error Configuration_unavailable True"

abbreviation bc_invalid :: "bc_failure + 'a" where
  "bc_invalid \<equiv> Inl (bc_error Configuration_invalid_input)"

type_synonym members = "(string \<times> js_value) list"

datatype config_value = Config_flag bool | Config_number jsnum | Config_text string

datatype bc_actor_type = Authenticated_subject | System_actor

record bc_actor =
  bc_actorId :: string
  bc_actorType :: bc_actor_type
  bc_assignmentId :: "string option"

record dict_item =
  di_code :: string
  di_enabled :: bool
  di_label :: string
  di_order :: int

record dict_draft =
  dd_dictionaryId :: string
  dd_items :: "dict_item list"
  dd_ownerModule :: string
  dd_revision :: int
  dd_updatedAt :: string

record dict_release =
  dr_contentDigest :: string
  dr_dictionaryId :: string
  dr_items :: "dict_item list"
  dr_ownerModule :: string
  dr_publishedAt :: string
  dr_releaseVersion :: int

datatype missing_policy = Fail_closed | Use_default

datatype value_type = Type_boolean | Type_integer | Type_number | Type_string

record param_definition =
  pd_allowedScopes :: "(int \<times> string) list"
  pd_defaultValue :: "config_value option"
  pd_missingPolicy :: missing_policy
  pd_ownerModule :: string
  pd_parameterKey :: string
  pd_valueSchema :: members
  pd_valueType :: value_type

record value_release =
  vr_contentDigest :: string
  vr_parameterKey :: string
  vr_publishedAt :: string
  vr_value :: config_value
  vr_valueVersion :: int

record param_scope =
  ps_scopeReference :: string
  ps_scopeType :: string

record activation =
  ax_activationId :: string
  ax_effectiveFrom :: string
  ax_effectiveTo :: "string option"
  ax_parameterKey :: string
  ax_scope :: param_scope
  ax_valueVersion :: int

record activation_end =
  ae_activationId :: string
  ae_effectiveTo :: string
  ae_occurredAt :: string
  ae_parameterKey :: string
  ae_terminationId :: string

record resolved =
  rs_activation :: "(string \<times> string \<times> string option \<times> param_scope) option"
  rs_parameterKey :: string
  rs_value :: config_value
  rs_valueVersion :: int

datatype bc_event_type = Activation_changed | Dictionary_published | Parameter_published

record bc_event =
  bn_eventId :: string
  bn_eventType :: bc_event_type
  bn_occurredAt :: string
  bn_resourceId :: string
  bn_version :: int

section \<open>What the module takes from its environment\<close>

text \<open>\<open>bl_ajv\<close> compiles a schema: it throws or gives the test of values.\<close>

record bc_lib =
  bl_sha256 :: "string \<Rightarrow> string"
  bl_numText :: "jsnum \<Rightarrow> string"
  bl_dates :: "string \<Rightarrow> int option"
  bl_ajv :: "members \<Rightarrow> string + (config_value \<Rightarrow> bool)"
  bl_localeBefore :: "string \<Rightarrow> string \<Rightarrow> bool"

section \<open>Reading values of unknown type\<close>

definition bc_object :: "js_value \<Rightarrow> bc_failure + members" where
  "bc_object v = (case v of JObject fs \<Rightarrow> Inr fs | _ \<Rightarrow> bc_invalid)"

definition bc_exact :: "js_value \<Rightarrow> string list \<Rightarrow> string list \<Rightarrow> bc_failure + members" where
  "bc_exact v required optional =
     bindE (bc_object v) (\<lambda>fs.
     bindE (ensure (exactly required optional fs) (bc_error Configuration_invalid_input)) (\<lambda>_.
     Inr fs))"

definition bc_array :: "js_value \<Rightarrow> nat \<Rightarrow> bc_failure + js_value list" where
  "bc_array v maximum = (case v of
     JArray vs \<Rightarrow> if length vs \<le> maximum then Inr vs else bc_invalid | _ \<Rightarrow> bc_invalid)"

definition sensitive :: "string \<Rightarrow> bool" where
  "sensitive s = occurs (\<lambda>t. begins_any_case ''credential'' t \<or> begins_any_case ''password'' t
     \<or> begins_any_case ''secret'' t \<or> begins_any_case ''token'' t) s"

definition secret_value :: "string \<Rightarrow> bool" where
  "secret_value s = occurs (\<lambda>t. begins_any_case ''-----begin'' t
     \<or> begins_any_case ''bearer'' t \<and> drop 6 t \<noteq> [] \<and> hd (drop 6 t) \<in> set white
     \<or> begins_any_case ''postgres://'' t \<or> begins_any_case ''postgresql://'' t
     \<or> begins_any_case ''akid'' t \<and> 12 \<le> length t \<and> all_in alnum (take 8 (drop 4 t))) s"

definition bc_id :: "js_value \<Rightarrow> bc_failure + string" where
  "bc_id v = (case v of
     JString s \<Rightarrow> if shape lower (lower @ digits @ ''_.-'') 0 127 s \<and> \<not> sensitive s then Inr s else bc_invalid
   | _ \<Rightarrow> bc_invalid)"

definition bc_reference :: "js_value \<Rightarrow> bc_failure + string" where
  "bc_reference v = (case v of
     JString s \<Rightarrow> if reference_ok s then Inr s else bc_invalid
   | _ \<Rightarrow> bc_invalid)"

definition bc_uuid :: "js_value \<Rightarrow> bc_failure + string" where
  "bc_uuid v = (case v of
     JString s \<Rightarrow> if uuid_any s then Inr (map char_lower s) else bc_invalid | _ \<Rightarrow> bc_invalid)"

definition bc_int :: "js_value \<Rightarrow> int \<Rightarrow> int option \<Rightarrow> bc_failure + int" where
  "bc_int v least greatest = (case v of
     JNumber n \<Rightarrow> if isSafeInteger n \<and> least \<le> num_int n
         \<and> (case greatest of None \<Rightarrow> True | Some g \<Rightarrow> num_int n \<le> g) then Inr (num_int n) else bc_invalid
   | _ \<Rightarrow> bc_invalid)"

definition bc_version :: "js_value \<Rightarrow> bool \<Rightarrow> bc_failure + int" where
  "bc_version v zero = bc_int v (if zero then 0 else 1) None"

definition bc_date :: "bc_lib \<Rightarrow> js_value \<Rightarrow> bc_failure + string" where
  "bc_date lib v = (case v of
     JString s \<Rightarrow> if any_canonical (bl_dates lib) s then Inr s else bc_invalid | _ \<Rightarrow> bc_invalid)"

definition bc_bool :: "js_value \<Rightarrow> bc_failure + bool" where
  "bc_bool v = (case v of JBool b \<Rightarrow> Inr b | _ \<Rightarrow> bc_invalid)"

definition bc_chars :: "js_value \<Rightarrow> nat \<Rightarrow> (string \<Rightarrow> bool) \<Rightarrow> bc_failure + string" where
  "bc_chars v maximum ok = (case v of
     JString s \<Rightarrow> if 1 \<le> length s \<and> length s \<le> maximum \<and> ok s then Inr s else bc_invalid | _ \<Rightarrow> bc_invalid)"

text \<open>A member that may be absent or \<open>undefined\<close>.\<close>

definition bc_maybe :: "(js_value \<Rightarrow> bc_failure + 'a) \<Rightarrow> js_value \<Rightarrow> bc_failure + 'a option" where
  "bc_maybe f v = (case v of JUndefined \<Rightarrow> Inr None | _ \<Rightarrow> bindE (f v) (\<lambda>x. Inr (Some x)))"

definition bc_actor_of :: "js_value \<Rightarrow> bc_failure + bc_actor" where
  "bc_actor_of v =
     bindE (bc_exact v [''actorId'', ''actorType''] [''assignmentId'']) (\<lambda>fs.
     bindE (case js_field fs ''actorType'' of
         JString s \<Rightarrow> if s = ''authenticated_subject'' then Inr Authenticated_subject
           else if s = ''system'' then Inr System_actor else bc_invalid
       | _ \<Rightarrow> bc_invalid) (\<lambda>actorType.
     bindE (bc_reference (js_field fs ''actorId'')) (\<lambda>actorId.
     bindE (bc_maybe bc_uuid (js_field fs ''assignmentId'')) (\<lambda>assignmentId.
     Inr \<lparr>bc_actorId = actorId, bc_actorType = actorType, bc_assignmentId = assignmentId\<rparr>))))"

record bc_command =
  bm_actor :: bc_actor
  bm_operationId :: string
  bm_reason :: string
  bm_traceId :: string
  bm_values :: members

definition bc_command_of :: "js_value \<Rightarrow> string list \<Rightarrow> bc_failure + bc_command" where
  "bc_command_of v names =
     bindE (bc_exact v ([''actor'', ''operationId'', ''reason'', ''traceId''] @ names) []) (\<lambda>fs.
     bindE (bc_actor_of (js_field fs ''actor'')) (\<lambda>a.
     bindE (bc_uuid (js_field fs ''operationId'')) (\<lambda>operationId.
     bindE (bc_chars (js_field fs ''reason'') 500 (\<lambda>_. True)) (\<lambda>reason.
     bindE (bc_chars (js_field fs ''traceId'') 32 trace_ok) (\<lambda>traceId.
     Inr \<lparr>bm_actor = a, bm_operationId = operationId, bm_reason = reason, bm_traceId = traceId, bm_values = fs\<rparr>)))))"

definition bc_decision :: "js_value \<Rightarrow> bc_failure + bool \<times> string" where
  "bc_decision v =
     bindE (bc_exact v [''allowed'', ''decisionId''] []) (\<lambda>fs.
     bindE (bc_bool (js_field fs ''allowed'')) (\<lambda>allowed.
     bindE (bc_uuid (js_field fs ''decisionId'')) (\<lambda>decisionId. Inr (allowed, decisionId))))"

fun bc_items :: "string list \<Rightarrow> js_value list \<Rightarrow> bc_failure + dict_item list" where
  "bc_items seen [] = Inr []"
| "bc_items seen (v # vs) =
     bindE (bc_exact v [''code'', ''enabled'', ''label'', ''order''] []) (\<lambda>fs.
     bindE (bc_id (js_field fs ''code'')) (\<lambda>code.
     bindE (ensure (code \<notin> set seen) (bc_error Configuration_invalid_input)) (\<lambda>_.
     bindE (bc_bool (js_field fs ''enabled'')) (\<lambda>enabled.
     bindE (bc_chars (js_field fs ''label'') 200 (\<lambda>s. CHR ''<'' \<notin> set s \<and> CHR ''>'' \<notin> set s)) (\<lambda>label.
     bindE (bc_int (js_field fs ''order'') 0 (Some 100000)) (\<lambda>order.
     bindE (bc_items (code # seen) vs) (\<lambda>rest.
     Inr (\<lparr>di_code = code, di_enabled = enabled, di_label = label, di_order = order\<rparr> # rest))))))))"

definition bc_itemList :: "js_value \<Rightarrow> bc_failure + dict_item list" where
  "bc_itemList v = bindE (bc_array v 500) (bc_items [])"

definition bc_scope_of :: "js_value \<Rightarrow> bc_failure + param_scope" where
  "bc_scope_of v =
     bindE (bc_exact v [''scopeReference'', ''scopeType''] []) (\<lambda>fs.
     bindE (bc_reference (js_field fs ''scopeReference'')) (\<lambda>scopeReference.
     bindE (bc_id (js_field fs ''scopeType'')) (\<lambda>scopeType.
     Inr \<lparr>ps_scopeReference = scopeReference, ps_scopeType = scopeType\<rparr>)))"

definition type_name :: "value_type \<Rightarrow> string" where
  "type_name t = (case t of Type_boolean \<Rightarrow> ''boolean'' | Type_integer \<Rightarrow> ''integer''
     | Type_number \<Rightarrow> ''number'' | Type_string \<Rightarrow> ''string'')"

definition type_of_name :: "js_value \<Rightarrow> bc_failure + value_type" where
  "type_of_name v = (case v of
     JString s \<Rightarrow> (case find (\<lambda>t. type_name t = s) [Type_boolean, Type_integer, Type_number, Type_string] of
         None \<Rightarrow> bc_invalid | Some t \<Rightarrow> Inr t)
   | _ \<Rightarrow> bc_invalid)"

text \<open>\<open>value\<close>: a value of the declared type that is no credential; and \<open>compile\<close>.\<close>

definition bc_value :: "js_value \<Rightarrow> value_type \<Rightarrow> bc_failure + config_value" where
  "bc_value v t = (case (v, t) of
     (JString s, Type_string) \<Rightarrow> if \<not> secret_value s \<and> length s \<le> 1000 then Inr (Config_text s) else bc_invalid
   | (JBool b, Type_boolean) \<Rightarrow> Inr (Config_flag b)
   | (JNumber n, Type_number) \<Rightarrow> if isFinite n then Inr (Config_number n) else bc_invalid
   | (JNumber n, Type_integer) \<Rightarrow> if isSafeInteger n then Inr (Config_number n) else bc_invalid
   | _ \<Rightarrow> bc_invalid)"

definition bc_compile :: "bc_lib \<Rightarrow> members \<Rightarrow> bc_failure + (config_value \<Rightarrow> bool)" where
  "bc_compile lib schema = (case bl_ajv lib schema of Inl _ \<Rightarrow> bc_invalid | Inr test \<Rightarrow> Inr test)"

fun bc_scopes :: "int list \<Rightarrow> string list \<Rightarrow> js_value list \<Rightarrow> bc_failure + (int \<times> string) list" where
  "bc_scopes priorities types [] = Inr []"
| "bc_scopes priorities types (v # vs) =
     bindE (bc_exact v [''priority'', ''scopeType''] []) (\<lambda>fs.
     bindE (bc_int (js_field fs ''priority'') 0 (Some 1000)) (\<lambda>priority.
     bindE (bc_id (js_field fs ''scopeType'')) (\<lambda>scopeType.
     bindE (ensure (priority \<notin> set priorities \<and> scopeType \<notin> set types) (bc_error Configuration_invalid_input)) (\<lambda>_.
     bindE (bc_scopes (priority # priorities) (scopeType # types) vs) (\<lambda>rest.
     Inr ((priority, scopeType) # rest))))))"

definition bc_definition :: "bc_lib \<Rightarrow> js_value \<Rightarrow> bc_failure + param_definition" where
  "bc_definition lib v =
     bindE (bc_exact v [''allowedScopes'', ''missingPolicy'', ''ownerModule'', ''parameterKey'', ''valueSchema'', ''valueType'']
       [''defaultValue'']) (\<lambda>fs.
     bindE (type_of_name (js_field fs ''valueType'')) (\<lambda>valueType.
     bindE (bc_exact (js_field fs ''valueSchema'') [''$schema'', ''type'']
       [''enum'', ''maxLength'', ''maximum'', ''minLength'', ''minimum'']) (\<lambda>schema.
     bindE (ensure (js_field schema ''$schema'' = JString ''https://json-schema.org/draft/2020-12/schema''
         \<and> js_field schema ''type'' = JString (type_name valueType)) (bc_error Configuration_invalid_input)) (\<lambda>_.
     bindE (bindE (bc_array (js_field fs ''allowedScopes'') 20) (bc_scopes [] [])) (\<lambda>scopes.
     bindE (ensure (scopes \<noteq> []) (bc_error Configuration_invalid_input)) (\<lambda>_.
     bindE (case js_field fs ''missingPolicy'' of
         JString s \<Rightarrow> if s = ''fail_closed'' then Inr Fail_closed else if s = ''use_default'' then Inr Use_default
           else bc_invalid
       | _ \<Rightarrow> bc_invalid) (\<lambda>policy.
     bindE (bc_id (js_field fs ''ownerModule'')) (\<lambda>owner.
     bindE (bc_id (js_field fs ''parameterKey'')) (\<lambda>key.
     bindE (bc_maybe (\<lambda>v. bc_value v valueType) (js_field fs ''defaultValue'')) (\<lambda>default.
     bindE (ensure (policy = Use_default \<longleftrightarrow> default \<noteq> None) (bc_error Configuration_invalid_input)) (\<lambda>_.
     bindE (case default of None \<Rightarrow> Inr ()
         | Some d \<Rightarrow> bindE (bc_compile lib schema) (\<lambda>test. ensure (test d) (bc_error Configuration_invalid_input))) (\<lambda>_.
     Inr \<lparr>pd_allowedScopes = scopes, pd_defaultValue = default, pd_missingPolicy = policy, pd_ownerModule = owner,
       pd_parameterKey = key, pd_valueSchema = schema, pd_valueType = valueType\<rparr>))))))))))))"

section \<open>Digests\<close>

fun bc_canonical :: "(jsnum \<Rightarrow> string) \<Rightarrow> js_value \<Rightarrow> string" where
  "bc_canonical num (JArray vs) = ''['' @ join '','' (map (bc_canonical num) vs) @ '']''"
| "bc_canonical num (JObject fs) = ''{'' @ join '','' (map snd (sort_by (\<lambda>a b. str_lt (fst a) (fst b))
     (map (\<lambda>f. (fst f, json_quote (fst f) @ '':'' @ bc_canonical num (snd f))) fs))) @ ''}''"
| "bc_canonical num (JString s) = json_quote s"
| "bc_canonical num (JNumber n) = num n"
| "bc_canonical num (JBool b) = (if b then ''true'' else ''false'')"
| "bc_canonical num JNull = ''null''"
| "bc_canonical num JUndefined = ''undefined''"

definition bc_hash :: "bc_lib \<Rightarrow> js_value \<Rightarrow> string" where
  "bc_hash lib v = bl_sha256 lib (bc_canonical (bl_numText lib) v)"

definition js_int :: "int \<Rightarrow> js_value" where
  "js_int i = JNumber (Fin (of_int i))"

definition value_js :: "config_value \<Rightarrow> js_value" where
  "value_js v = (case v of Config_flag b \<Rightarrow> JBool b | Config_number n \<Rightarrow> JNumber n | Config_text s \<Rightarrow> JString s)"

definition opt_member :: "string \<Rightarrow> js_value option \<Rightarrow> members" where
  "opt_member k v = (case v of None \<Rightarrow> [] | Some x \<Rightarrow> [(k, x)])"

definition items_js :: "dict_item list \<Rightarrow> js_value" where
  "items_js items = JArray (map (\<lambda>i. JObject [(''code'', JString (di_code i)), (''enabled'', JBool (di_enabled i)),
     (''label'', JString (di_label i)), (''order'', js_int (di_order i))]) items)"

definition scope_js :: "param_scope \<Rightarrow> js_value" where
  "scope_js s = JObject [(''scopeReference'', JString (ps_scopeReference s)), (''scopeType'', JString (ps_scopeType s))]"

definition definition_js :: "param_definition \<Rightarrow> js_value" where
  "definition_js d = JObject (
     [(''allowedScopes'', JArray (map (\<lambda>(p, t). JObject [(''priority'', js_int p), (''scopeType'', JString t)])
         (pd_allowedScopes d))),
      (''definitionVersion'', js_int 1),
      (''missingPolicy'', JString (case pd_missingPolicy d of Fail_closed \<Rightarrow> ''fail_closed'' | Use_default \<Rightarrow> ''use_default'')),
      (''ownerModule'', JString (pd_ownerModule d)), (''parameterKey'', JString (pd_parameterKey d)),
      (''valueSchema'', JObject (pd_valueSchema d)), (''valueType'', JString (type_name (pd_valueType d)))]
     @ opt_member ''defaultValue'' (map_option value_js (pd_defaultValue d)))"

definition activation_js :: "activation \<Rightarrow> js_value" where
  "activation_js a = JObject (
     [(''activationId'', JString (ax_activationId a)), (''effectiveFrom'', JString (ax_effectiveFrom a))]
     @ opt_member ''effectiveTo'' (map_option JString (ax_effectiveTo a))
     @ [(''parameterKey'', JString (ax_parameterKey a)), (''scope'', scope_js (ax_scope a)),
        (''valueVersion'', js_int (ax_valueVersion a))])"

definition resolved_js :: "resolved \<Rightarrow> js_value" where
  "resolved_js r = JObject (
     (case rs_activation r of None \<Rightarrow> [] | Some (i, start, end_at, sc) \<Rightarrow>
        [(''activationId'', JString i), (''effectiveFrom'', JString start)]
        @ opt_member ''effectiveTo'' (map_option JString end_at) @ [(''scope'', scope_js sc)])
     @ [(''definitionVersion'', js_int 1), (''parameterKey'', JString (rs_parameterKey r)),
        (''source'', JString (if rs_activation r = None then ''default'' else ''activation'')),
        (''value'', value_js (rs_value r)), (''valueVersion'', js_int (rs_valueVersion r)), (''version'', js_int 1)])"

end
