(* ===== verification/ConfigStore.thy ===== *)
theory ConfigStore
  imports ConfigData
begin

text \<open>
  The in-memory store of business configuration (\<open>business-configuration/src/memory-store.ts\<close>): drafts and
  releases of dictionaries, definitions and values of parameters, the activations of values in scopes and
  their ends, the receipts of operations and the events to publish.
\<close>

section \<open>State\<close>

datatype bc_result =
    Draft_saved dict_draft
  | Dictionary_released dict_release
  | Parameter_registered param_definition
  | Value_released value_release
  | Activated
  | Activation_ended activation_end

record bc_store =
  bs_drafts :: "(string, dict_draft) jsmap"
  bs_dictionaries :: "(string, dict_release list) jsmap"
  bs_definitions :: "(string, param_definition) jsmap"
  bs_values :: "(string, value_release list) jsmap"
  bs_activations :: "activation list"
  bs_terminations :: "(string, activation_end) jsmap"
  bs_receipts :: "(string, string \<times> bc_result) jsmap"
  bs_outbox :: "(string, bc_event) jsmap"

definition empty_config :: bc_store where
  "empty_config = \<lparr>bs_drafts = [], bs_dictionaries = [], bs_definitions = [], bs_values = [], bs_activations = [],
     bs_terminations = [], bs_receipts = [], bs_outbox = []\<rparr>"

type_synonym 'a bc_act = "(bc_store, bc_failure, 'a) act"

text \<open>What an operation returns: its result, and whether it is that of an earlier run.\<close>

type_synonym bc_reply = "bc_result \<times> bool"

definition bc_replay :: "string \<Rightarrow> string \<Rightarrow> bc_store \<Rightarrow> bc_failure + bc_result option" where
  "bc_replay operationId fingerprint s = (case jm_get (bs_receipts s) operationId of
     None \<Rightarrow> Inr None
   | Some (f, r) \<Rightarrow> if f \<noteq> fingerprint then Inl (bc_error Configuration_operation_conflict) else Inr (Some r))"

definition bc_save :: "string \<Rightarrow> string \<Rightarrow> bc_result \<Rightarrow> bc_store \<Rightarrow> bc_store" where
  "bc_save operationId fingerprint r s = s\<lparr>bs_receipts := jm_set (bs_receipts s) operationId (fingerprint, r)\<rparr>"

text \<open>The shape of every change: a receipt is replayed; else the change is made and its receipt is saved.\<close>

definition bc_once ::
  "string \<Rightarrow> string \<Rightarrow> (bc_store \<Rightarrow> bc_failure + bc_result \<times> bc_store) \<Rightarrow> bc_reply bc_act" where
  "bc_once operationId fingerprint change s =
     (case bc_replay operationId fingerprint s of
        Inl e \<Rightarrow> (Inl e, s)
      | Inr (Some r) \<Rightarrow> (Inr (r, True), s)
      | Inr None \<Rightarrow> (case change s of
          Inl e \<Rightarrow> (Inl e, s)
        | Inr (r, t) \<Rightarrow> (Inr (r, False), bc_save operationId fingerprint r t)))"

definition emit :: "bc_event \<Rightarrow> bc_store \<Rightarrow> bc_store" where
  "emit e s = s\<lparr>bs_outbox := jm_set (bs_outbox s) (bn_eventId e) e\<rparr>"

section \<open>Activations\<close>

definition effectiveEnd :: "bc_store \<Rightarrow> activation \<Rightarrow> string option" where
  "effectiveEnd s a =
     (let terminated = map_option ae_effectiveTo (jm_get (bs_terminations s) (ax_activationId a)) in
      case (ax_effectiveTo a, terminated) of
        (None, t) \<Rightarrow> t
      | (Some e, None) \<Rightarrow> Some e
      | (Some e, Some t) \<Rightarrow> Some (if str_lt t e then t else e))"

definition materialize :: "bc_store \<Rightarrow> activation \<Rightarrow> activation" where
  "materialize s a = (case effectiveEnd s a of None \<Rightarrow> a | Some e \<Rightarrow> a\<lparr>ax_effectiveTo := Some e\<rparr>)"

definition effective_at :: "bc_store \<Rightarrow> string \<Rightarrow> activation \<Rightarrow> bool" where
  "effective_at s moment a \<longleftrightarrow> \<not> str_lt moment (ax_effectiveFrom a)
     \<and> (case effectiveEnd s a of None \<Rightarrow> True | Some e \<Rightarrow> str_lt moment e)"

definition listEffectiveActivations :: "string \<Rightarrow> param_scope list \<Rightarrow> string \<Rightarrow> bc_store \<Rightarrow> activation list" where
  "listEffectiveActivations key scopes moment s =
     map (materialize s) (filter (\<lambda>a. ax_parameterKey a = key \<and> ax_scope a \<in> set scopes \<and> effective_at s moment a)
       (bs_activations s))"

definition end_of_time :: string where
  "end_of_time = ''9999-12-31T23:59:59.999Z''"

definition or_end :: "string option \<Rightarrow> string" where
  "or_end e = (case e of None \<Rightarrow> end_of_time | Some t \<Rightarrow> t)"

definition bc_overlaps :: "bc_store \<Rightarrow> activation \<Rightarrow> activation \<Rightarrow> bool" where
  "bc_overlaps s candidate current \<longleftrightarrow> ax_parameterKey current = ax_parameterKey candidate
     \<and> ax_scope current = ax_scope candidate
     \<and> str_lt (ax_effectiveFrom current) (or_end (ax_effectiveTo candidate))
     \<and> str_lt (ax_effectiveFrom candidate) (or_end (effectiveEnd s current))"

section \<open>Lookups\<close>

definition findDictionaryDraft :: "string \<Rightarrow> bc_store \<Rightarrow> dict_draft option" where
  "findDictionaryDraft i s = jm_get (bs_drafts s) i"

definition releases_of :: "string \<Rightarrow> bc_store \<Rightarrow> dict_release list" where
  "releases_of i s = (case jm_get (bs_dictionaries s) i of None \<Rightarrow> [] | Some rs \<Rightarrow> rs)"

definition values_of :: "string \<Rightarrow> bc_store \<Rightarrow> value_release list" where
  "values_of k s = (case jm_get (bs_values s) k of None \<Rightarrow> [] | Some rs \<Rightarrow> rs)"

definition findDictionaryRelease :: "string \<Rightarrow> int \<Rightarrow> bc_store \<Rightarrow> dict_release option" where
  "findDictionaryRelease i v s = find (\<lambda>r. dr_releaseVersion r = v) (releases_of i s)"

definition findParameterDefinition :: "string \<Rightarrow> bc_store \<Rightarrow> param_definition option" where
  "findParameterDefinition k s = jm_get (bs_definitions s) k"

definition findParameterValue :: "string \<Rightarrow> int \<Rightarrow> bc_store \<Rightarrow> value_release option" where
  "findParameterValue k v s = find (\<lambda>r. vr_valueVersion r = v) (values_of k s)"

section \<open>Changes\<close>

definition save_draft :: "dict_draft \<Rightarrow> int \<Rightarrow> bc_store \<Rightarrow> bc_failure + bc_result \<times> bc_store" where
  "save_draft draft expectedRevision s =
     (let current = jm_get (bs_drafts s) (dd_dictionaryId draft);
          revision = (case current of None \<Rightarrow> 0 | Some c \<Rightarrow> dd_revision c) in
      bindE (ensure (revision = expectedRevision
        \<and> (case current of None \<Rightarrow> True | Some c \<Rightarrow> dd_ownerModule c = dd_ownerModule draft))
        (bc_error Configuration_operation_conflict)) (\<lambda>_.
      let saved = draft\<lparr>dd_revision := expectedRevision + 1\<rparr> in
      Inr (Draft_saved saved, s\<lparr>bs_drafts := jm_set (bs_drafts s) (dd_dictionaryId saved) saved\<rparr>)))"

definition codes :: "dict_item list \<Rightarrow> string set" where
  "codes items = di_code ` set items"

definition publish_dictionary ::
  "bc_lib \<Rightarrow> string \<Rightarrow> bc_event \<Rightarrow> int \<Rightarrow> string \<Rightarrow> bc_store \<Rightarrow> bc_failure + bc_result \<times> bc_store" where
  "publish_dictionary lib dictionaryId event expectedRevision publishedAt s =
     (case jm_get (bs_drafts s) dictionaryId of
        None \<Rightarrow> Inl (bc_error Configuration_operation_conflict)
      | Some draft \<Rightarrow>
          bindE (ensure (dd_revision draft = expectedRevision) (bc_error Configuration_operation_conflict)) (\<lambda>_.
          let released = releases_of dictionaryId s in
          bindE (ensure (\<forall>r \<in> set released. codes (dr_items r) \<subseteq> codes (dd_items draft))
            (bc_error Configuration_operation_conflict)) (\<lambda>_.
          let release = \<lparr>dr_contentDigest = bc_hash lib (JObject [(''items'', items_js (dd_items draft))]),
                dr_dictionaryId = dd_dictionaryId draft, dr_items = dd_items draft,
                dr_ownerModule = dd_ownerModule draft, dr_publishedAt = publishedAt,
                dr_releaseVersion = int (length released) + 1\<rparr> in
          Inr (Dictionary_released release,
            emit (event\<lparr>bn_version := dr_releaseVersion release\<rparr>)
              (s\<lparr>bs_dictionaries := jm_set (bs_dictionaries s) (dd_dictionaryId draft) (released @ [release])\<rparr>)))))"

definition register_parameter :: "param_definition \<Rightarrow> bc_store \<Rightarrow> bc_failure + bc_result \<times> bc_store" where
  "register_parameter d s =
     bindE (ensure (\<not> jm_has (bs_definitions s) (pd_parameterKey d)) (bc_error Configuration_operation_conflict)) (\<lambda>_.
     Inr (Parameter_registered d, s\<lparr>bs_definitions := jm_set (bs_definitions s) (pd_parameterKey d) d\<rparr>))"

definition publish_value ::
  "string \<Rightarrow> bc_event \<Rightarrow> string \<Rightarrow> string \<Rightarrow> config_value \<Rightarrow> bc_store \<Rightarrow> bc_failure + bc_result \<times> bc_store" where
  "publish_value contentDigest event parameterKey publishedAt v s =
     bindE (ensure (jm_has (bs_definitions s) parameterKey) (bc_error Configuration_not_found)) (\<lambda>_.
     let released = values_of parameterKey s;
         release = \<lparr>vr_contentDigest = contentDigest, vr_parameterKey = parameterKey, vr_publishedAt = publishedAt,
           vr_value = v, vr_valueVersion = int (length released) + 1\<rparr> in
     Inr (Value_released release,
       emit (event\<lparr>bn_version := vr_valueVersion release\<rparr>)
         (s\<lparr>bs_values := jm_set (bs_values s) parameterKey (released @ [release])\<rparr>)))"

definition activate :: "activation \<Rightarrow> bc_event \<Rightarrow> bc_store \<Rightarrow> bc_failure + bc_result \<times> bc_store" where
  "activate candidate event s =
     bindE (ensure (jm_has (bs_definitions s) (ax_parameterKey candidate)
         \<and> ax_valueVersion candidate \<in> vr_valueVersion ` set (values_of (ax_parameterKey candidate) s))
       (bc_error Configuration_not_found)) (\<lambda>_.
     bindE (ensure (\<not> list_ex (bc_overlaps s candidate) (bs_activations s)) (bc_error Configuration_overlap)) (\<lambda>_.
     Inr (Activated, emit event (s\<lparr>bs_activations := bs_activations s @ [candidate]\<rparr>))))"

definition terminate ::
  "activation_end \<Rightarrow> bc_event \<Rightarrow> bc_store \<Rightarrow> bc_failure + bc_result \<times> bc_store" where
  "terminate e event s =
     (case find (\<lambda>a. ax_activationId a = ae_activationId e \<and> ax_parameterKey a = ae_parameterKey e) (bs_activations s) of
        None \<Rightarrow> Inl (bc_error Configuration_not_found)
      | Some a \<Rightarrow>
          bindE (ensure (\<not> jm_has (bs_terminations s) (ax_activationId a)
              \<and> \<not> str_lt (ae_effectiveTo e) (ae_occurredAt e)
              \<and> str_lt (ax_effectiveFrom a) (ae_effectiveTo e)
              \<and> (case ax_effectiveTo a of None \<Rightarrow> True | Some t \<Rightarrow> \<not> str_lt t (ae_effectiveTo e)))
            (bc_error Configuration_operation_conflict)) (\<lambda>_.
          Inr (Activation_ended e,
            emit event (s\<lparr>bs_terminations := jm_set (bs_terminations s) (ax_activationId a) e\<rparr>))))"

section \<open>The operations\<close>

datatype bc_change =
    Save_draft dict_draft int
  | Publish_dictionary string bc_event int string
  | Register_parameter param_definition
  | Publish_value string bc_event string string config_value
  | Activate activation bc_event
  | Terminate activation_end bc_event

record bc_op =
  bo_operationId :: string
  bo_fingerprint :: string
  bo_change :: bc_change

fun bc_apply :: "bc_lib \<Rightarrow> bc_change \<Rightarrow> bc_store \<Rightarrow> bc_failure + bc_result \<times> bc_store" where
  "bc_apply lib (Save_draft d r) = save_draft d r"
| "bc_apply lib (Publish_dictionary i e r p) = publish_dictionary lib i e r p"
| "bc_apply lib (Register_parameter d) = register_parameter d"
| "bc_apply lib (Publish_value c e k p v) = publish_value c e k p v"
| "bc_apply lib (Activate a e) = activate a e"
| "bc_apply lib (Terminate t e) = terminate t e"

definition bc_run :: "bc_lib \<Rightarrow> bc_op \<Rightarrow> bc_reply bc_act" where
  "bc_run lib op = bc_once (bo_operationId op) (bo_fingerprint op) (bc_apply lib (bo_change op))"

definition bc_exec :: "bc_lib \<Rightarrow> bc_op \<Rightarrow> bool bc_act" where
  "bc_exec lib op = bindA (bc_run lib op) (\<lambda>r. retA (snd r))"

section \<open>The contract of a store with an operation log\<close>

definition receipt_prints :: "bc_store \<Rightarrow> (string, string) jsmap" where
  "receipt_prints s = op_prints (bs_receipts s)"

lemma receipt_prints_get [simp]: "jm_get (receipt_prints s) k = map_option fst (jm_get (bs_receipts s) k)"
  by (simp add: receipt_prints_def)

lemma apply_receipts: "bc_apply lib c s = Inr (r, t) \<Longrightarrow> bs_receipts t = bs_receipts s"
  by (cases c) (auto simp: save_draft_def publish_dictionary_def register_parameter_def publish_value_def
      activate_def terminate_def emit_def Let_def bindE_eq_Inr split: option.splits)

lemma save_prints:
  assumes "bc_apply lib c s = Inr (r, t)"
  shows "receipt_prints (bc_save k f r t) = jm_set (receipt_prints s) k f"
  using apply_receipts [OF assms] by (simp add: receipt_prints_def bc_save_def)

interpretation configuration: idempotent_store "bc_exec lib" bo_operationId bo_fingerprint receipt_prints
  "bc_error Configuration_operation_conflict" for lib
proof
  fix c s f b t e
  show "jm_get (receipt_prints s) (bo_operationId c) = Some (bo_fingerprint c) \<Longrightarrow> bc_exec lib c s = (Inr True, s)"
    by (auto simp: bc_exec_def bc_run_def bc_once_def bc_replay_def bindA_def)
  show "jm_get (receipt_prints s) (bo_operationId c) = Some f \<Longrightarrow> f \<noteq> bo_fingerprint c \<Longrightarrow>
      bc_exec lib c s = (Inl (bc_error Configuration_operation_conflict), s)"
    by (auto simp: bc_exec_def bc_run_def bc_once_def bc_replay_def bindA_def)
  show "jm_get (receipt_prints s) (bo_operationId c) = None \<Longrightarrow> bc_exec lib c s = (Inr b, t) \<Longrightarrow>
      \<not> b \<and> receipt_prints t = jm_set (receipt_prints s) (bo_operationId c) (bo_fingerprint c)"
    by (auto simp: bc_exec_def bc_run_def bc_once_def bc_replay_def bindA_def dest!: save_prints
        split: sum.splits prod.splits)
  show "bc_exec lib c s = (Inl e, t) \<Longrightarrow> t = s"
    by (auto simp: bc_exec_def bc_run_def bc_once_def bindA_def split: sum.splits prod.splits option.splits)
qed

end
