(* ===== verification/ConfigService.thy ===== *)
theory ConfigService
  imports ConfigStore
begin

text \<open>
  The service of business configuration (\<open>business-configuration/src/service.ts\<close>) over the in-memory store.
  What the authorizer, the audit and the cache answer is a parameter of each operation; audit entries
  and cached resolutions are logs beside the store. Between an operation's lookup and its change others may
  run operations of the store.
\<close>

section \<open>Ports\<close>

datatype bc_permission = May_activate | May_manage | May_publish | May_read

record bc_request =
  bq_permission :: bc_permission
  bq_actor :: bc_actor
  bq_ownerModule :: "string option"
  bq_resourceId :: string

datatype bc_phase = Bc_attempted | Bc_denied | Bc_failed | Bc_succeeded

record bc_audit =
  bt_action :: string
  bt_actor :: bc_actor
  bt_decisionId :: string
  bt_operationId :: string
  bt_reason :: string
  bt_resourceId :: string
  bt_phase :: bc_phase
  bt_traceId :: string

text \<open>
  \<open>bv_authorize\<close> and \<open>bv_cached\<close> give the port's answer or \<open>Inl\<close> when it rejects. \<open>bv_clock n\<close> is what
  the clock says at its call \<open>n\<close> of the operation.
\<close>

record bc_env =
  bv_lib :: bc_lib
  bv_authorize :: "bc_request \<Rightarrow> string + js_value"
  bv_auditFails :: "bc_audit \<Rightarrow> bool"
  bv_cached :: "string \<Rightarrow> string + js_value"
  bv_cacheFails :: "string \<Rightarrow> bool"
  bv_invalidateFails :: "bc_event \<Rightarrow> bool"
  bv_clock :: "nat \<Rightarrow> int"
  bv_newId :: string
  bv_others :: "bc_op list"

record bc_world =
  bw_store :: bc_store
  bw_audit :: "bc_audit list"
  bw_cache :: "(string \<times> resolved) list"
  bw_invalidated :: "bc_event list"

type_synonym 'a bc_do = "(bc_world, bc_failure, 'a) act"

definition bc_authorize :: "bc_env \<Rightarrow> bc_request \<Rightarrow> (bool \<times> string) bc_do" where
  "bc_authorize env request = liftA (case bindE (case bv_authorize env request of Inl _ \<Rightarrow> Inl bc_down | Inr v \<Rightarrow> Inr v)
       bc_decision of Inl _ \<Rightarrow> Inl bc_down | Inr d \<Rightarrow> Inr d)"

definition bc_record :: "bc_env \<Rightarrow> bc_audit \<Rightarrow> unit bc_do" where
  "bc_record env a w = (if bv_auditFails env a then (Inl bc_down, w) else (Inr (), w\<lparr>bw_audit := bw_audit w @ [a]\<rparr>))"

definition bc_entry :: "bc_command \<Rightarrow> string \<Rightarrow> string \<Rightarrow> string \<Rightarrow> bc_phase \<Rightarrow> bc_audit" where
  "bc_entry meta action resourceId decisionId phase =
     \<lparr>bt_action = action, bt_actor = bm_actor meta, bt_decisionId = decisionId, bt_operationId = bm_operationId meta,
      bt_reason = bm_reason meta, bt_resourceId = resourceId, bt_phase = phase, bt_traceId = bm_traceId meta\<rparr>"

definition authorizeBeforeLookup :: "bc_env \<Rightarrow> bc_command \<Rightarrow> string \<Rightarrow> bc_permission \<Rightarrow> string \<Rightarrow> unit bc_do" where
  "authorizeBeforeLookup env meta action p resourceId =
     bindA (bc_authorize env \<lparr>bq_permission = p, bq_actor = bm_actor meta, bq_ownerModule = None, bq_resourceId = resourceId\<rparr>)
       (\<lambda>auth.
     if fst auth then retA ()
     else bindA (bc_record env (bc_entry meta action resourceId (snd auth) Bc_denied)) (\<lambda>_.
       throwA (bc_error Configuration_denied)))"

definition bc_others :: "bc_env \<Rightarrow> unit bc_do" where
  "bc_others env = modifyA (\<lambda>w. w\<lparr>bw_store := run_all (bc_exec (bv_lib env)) (bv_others env) (bw_store w)\<rparr>)"

definition bc_store_run :: "bc_env \<Rightarrow> bc_op \<Rightarrow> bc_reply bc_do" where
  "bc_store_run env op w = (case bc_run (bv_lib env) op (bw_store w) of (r, s) \<Rightarrow> (r, w\<lparr>bw_store := s\<rparr>))"

definition bc_mutate ::
  "bc_env \<Rightarrow> bc_command \<Rightarrow> string \<Rightarrow> bc_permission \<Rightarrow> string \<Rightarrow> string \<Rightarrow> bc_op \<Rightarrow> bc_reply bc_do" where
  "bc_mutate env meta action p resourceId ownerModule op =
     bindA (bc_authorize env \<lparr>bq_permission = p, bq_actor = bm_actor meta, bq_ownerModule = Some ownerModule,
         bq_resourceId = resourceId\<rparr>) (\<lambda>auth.
     let entry = bc_entry meta action resourceId (snd auth) in
     if \<not> fst auth
     then bindA (bc_record env (entry Bc_denied)) (\<lambda>_. throwA (bc_error Configuration_denied))
     else
       bindA (bc_record env (entry Bc_attempted)) (\<lambda>_.
       bindA (bc_others env) (\<lambda>_.
       bindA (catchA (bc_store_run env op) (\<lambda>e. bindA (bc_record env (entry Bc_failed)) (\<lambda>_. throwA e))) (\<lambda>result.
       bindA (bc_record env (entry Bc_succeeded)) (\<lambda>_. retA result)))))"

definition bc_event_of :: "bc_env \<Rightarrow> nat \<Rightarrow> bc_event_type \<Rightarrow> string \<Rightarrow> bc_event" where
  "bc_event_of env n t resourceId = \<lparr>bn_eventId = bv_newId env, bn_eventType = t,
     bn_occurredAt = any_iso (bv_clock env n), bn_resourceId = resourceId, bn_version = 0\<rparr>"

definition findDefinition :: "string \<Rightarrow> param_definition bc_do" where
  "findDefinition key =
     bindA (getsA (\<lambda>w. findParameterDefinition key (bw_store w))) (\<lambda>d. requireA d (bc_error Configuration_not_found))"

section \<open>Dictionaries\<close>

definition saveDictionaryDraft :: "bc_env \<Rightarrow> js_value \<Rightarrow> bc_reply bc_do" where
  "saveDictionaryDraft env input =
     bindA (liftA (bc_command_of input [''dictionaryId'', ''expectedRevision'', ''items'', ''ownerModule''])) (\<lambda>m.
     bindA (liftA (bc_id (js_field (bm_values m) ''dictionaryId''))) (\<lambda>dictionaryId.
     bindA (liftA (bc_id (js_field (bm_values m) ''ownerModule''))) (\<lambda>ownerModule.
     bindA (liftA (bc_version (js_field (bm_values m) ''expectedRevision'') True)) (\<lambda>expectedRevision.
     bindA (liftA (bc_itemList (js_field (bm_values m) ''items''))) (\<lambda>items.
     bindA (if 0 < expectedRevision
         then bindA (authorizeBeforeLookup env m ''configuration.dictionary.draft.save'' May_manage dictionaryId) (\<lambda>_.
           bindA (getsA (\<lambda>w. findDictionaryDraft dictionaryId (bw_store w))) (\<lambda>current.
           ensureA (case current of None \<Rightarrow> False | Some d \<Rightarrow> dd_ownerModule d = ownerModule)
             (bc_error Configuration_operation_conflict)))
         else retA ()) (\<lambda>_.
     bc_mutate env m ''configuration.dictionary.draft.save'' May_manage dictionaryId ownerModule
       \<lparr>bo_operationId = bm_operationId m,
        bo_fingerprint = bc_hash (bv_lib env) (JObject [(''dictionaryId'', JString dictionaryId),
          (''expectedRevision'', js_int expectedRevision), (''items'', items_js items), (''ownerModule'', JString ownerModule)]),
        bo_change = Save_draft \<lparr>dd_dictionaryId = dictionaryId, dd_items = items, dd_ownerModule = ownerModule,
          dd_revision = 0, dd_updatedAt = any_iso (bv_clock env 0)\<rparr> expectedRevision\<rparr>))))))"

definition publishDictionary :: "bc_env \<Rightarrow> js_value \<Rightarrow> bc_reply bc_do" where
  "publishDictionary env input =
     bindA (liftA (bc_command_of input [''dictionaryId'', ''expectedRevision''])) (\<lambda>m.
     bindA (liftA (bc_id (js_field (bm_values m) ''dictionaryId''))) (\<lambda>dictionaryId.
     bindA (liftA (bc_version (js_field (bm_values m) ''expectedRevision'') False)) (\<lambda>expectedRevision.
     bindA (authorizeBeforeLookup env m ''configuration.dictionary.publish'' May_publish dictionaryId) (\<lambda>_.
     bindA (getsA (\<lambda>w. findDictionaryDraft dictionaryId (bw_store w))) (\<lambda>found.
     bindA (requireA found (bc_error Configuration_not_found)) (\<lambda>draft.
     bc_mutate env m ''configuration.dictionary.publish'' May_publish dictionaryId (dd_ownerModule draft)
       \<lparr>bo_operationId = bm_operationId m,
        bo_fingerprint = bc_hash (bv_lib env) (JObject [(''dictionaryId'', JString dictionaryId),
          (''expectedRevision'', js_int expectedRevision)]),
        bo_change = Publish_dictionary dictionaryId (bc_event_of env 0 Dictionary_published dictionaryId)
          expectedRevision (any_iso (bv_clock env 1))\<rparr>))))))"

definition getDictionaryRelease :: "bc_env \<Rightarrow> js_value \<Rightarrow> dict_release bc_do" where
  "getDictionaryRelease env input =
     bindA (liftA (bc_exact input [''actor'', ''dictionaryId'', ''releaseVersion''] [])) (\<lambda>fs.
     bindA (liftA (bc_actor_of (js_field fs ''actor''))) (\<lambda>a.
     bindA (liftA (bc_id (js_field fs ''dictionaryId''))) (\<lambda>dictionaryId.
     bindA (liftA (bc_version (js_field fs ''releaseVersion'') False)) (\<lambda>releaseVersion.
     bindA (bc_authorize env \<lparr>bq_permission = May_read, bq_actor = a, bq_ownerModule = None,
         bq_resourceId = dictionaryId\<rparr>) (\<lambda>auth.
     bindA (ensureA (fst auth) (bc_error Configuration_denied)) (\<lambda>_.
     bindA (getsA (\<lambda>w. findDictionaryRelease dictionaryId releaseVersion (bw_store w))) (\<lambda>found.
     requireA found (bc_error Configuration_not_found))))))))"

section \<open>Parameters\<close>

definition registerParameter :: "bc_env \<Rightarrow> js_value \<Rightarrow> bc_reply bc_do" where
  "registerParameter env input =
     bindA (liftA (bc_command_of input [''definition''])) (\<lambda>m.
     bindA (liftA (bc_definition (bv_lib env) (js_field (bm_values m) ''definition''))) (\<lambda>d.
     bc_mutate env m ''configuration.parameter.register'' May_manage (pd_parameterKey d) (pd_ownerModule d)
       \<lparr>bo_operationId = bm_operationId m, bo_fingerprint = bc_hash (bv_lib env) (definition_js d),
        bo_change = Register_parameter d\<rparr>))"

definition publishParameterValue :: "bc_env \<Rightarrow> js_value \<Rightarrow> bc_reply bc_do" where
  "publishParameterValue env input =
     bindA (liftA (bc_command_of input [''parameterKey'', ''value''])) (\<lambda>m.
     bindA (liftA (bc_id (js_field (bm_values m) ''parameterKey''))) (\<lambda>key.
     bindA (authorizeBeforeLookup env m ''configuration.parameter.publish'' May_publish key) (\<lambda>_.
     bindA (findDefinition key) (\<lambda>d.
     bindA (liftA (bc_value (js_field (bm_values m) ''value'') (pd_valueType d))) (\<lambda>v.
     bindA (liftA (bc_compile (bv_lib env) (pd_valueSchema d))) (\<lambda>test.
     bindA (ensureA (test v) (bc_error Configuration_invalid_input)) (\<lambda>_.
     bc_mutate env m ''configuration.parameter.publish'' May_publish key (pd_ownerModule d)
       \<lparr>bo_operationId = bm_operationId m,
        bo_fingerprint = bc_hash (bv_lib env) (JObject [(''parameterKey'', JString key), (''value'', value_js v)]),
        bo_change = Publish_value (bc_hash (bv_lib env) (JObject [(''value'', value_js v)]))
          (bc_event_of env 0 Parameter_published key) key (any_iso (bv_clock env 1)) v\<rparr>)))))))"

definition activateParameter :: "bc_env \<Rightarrow> js_value \<Rightarrow> bc_reply bc_do" where
  "activateParameter env input =
     bindA (liftA (bc_object input)) (\<lambda>raw.
     bindA (liftA (bc_command_of input ([''activationId'', ''effectiveFrom'', ''parameterKey'', ''scope'', ''valueVersion'']
       @ (if ''effectiveTo'' \<in> set (map fst raw) then [''effectiveTo''] else [])))) (\<lambda>m.
     bindA (liftA (bc_id (js_field (bm_values m) ''parameterKey''))) (\<lambda>key.
     bindA (authorizeBeforeLookup env m ''configuration.parameter.activate'' May_activate key) (\<lambda>_.
     bindA (findDefinition key) (\<lambda>d.
     bindA (liftA (bc_scope_of (js_field (bm_values m) ''scope''))) (\<lambda>sc.
     bindA (liftA (bc_version (js_field (bm_values m) ''valueVersion'') False)) (\<lambda>valueVersion.
     bindA (liftA (bc_uuid (js_field (bm_values m) ''activationId''))) (\<lambda>activationId.
     bindA (liftA (bc_date (bv_lib env) (js_field (bm_values m) ''effectiveFrom''))) (\<lambda>effectiveFrom.
     bindA (liftA (bc_maybe (bc_date (bv_lib env)) (js_field (bm_values m) ''effectiveTo''))) (\<lambda>effectiveTo.
     bindA (ensureA (ps_scopeType sc \<in> snd ` set (pd_allowedScopes d)
         \<and> (case effectiveTo of None \<Rightarrow> True | Some t \<Rightarrow> str_lt effectiveFrom t)) (bc_error Configuration_invalid_input)) (\<lambda>_.
     let a = \<lparr>ax_activationId = activationId, ax_effectiveFrom = effectiveFrom, ax_effectiveTo = effectiveTo,
           ax_parameterKey = key, ax_scope = sc, ax_valueVersion = valueVersion\<rparr> in
     bc_mutate env m ''configuration.parameter.activate'' May_activate key (pd_ownerModule d)
       \<lparr>bo_operationId = bm_operationId m, bo_fingerprint = bc_hash (bv_lib env) (activation_js a),
        bo_change = Activate a (bc_event_of env 0 Activation_changed key)\<rparr>)))))))))))"

definition terminateParameterActivation :: "bc_env \<Rightarrow> js_value \<Rightarrow> bc_reply bc_do" where
  "terminateParameterActivation env input =
     bindA (liftA (bc_command_of input [''activationId'', ''effectiveTo'', ''parameterKey'', ''terminationId''])) (\<lambda>m.
     bindA (liftA (bc_id (js_field (bm_values m) ''parameterKey''))) (\<lambda>key.
     bindA (authorizeBeforeLookup env m ''configuration.parameter.activation.terminate'' May_activate key) (\<lambda>_.
     bindA (findDefinition key) (\<lambda>d.
     bindA (liftA (bc_uuid (js_field (bm_values m) ''activationId''))) (\<lambda>activationId.
     bindA (liftA (bc_uuid (js_field (bm_values m) ''terminationId''))) (\<lambda>terminationId.
     bindA (liftA (bc_date (bv_lib env) (js_field (bm_values m) ''effectiveTo''))) (\<lambda>effectiveTo.
     let occurredAt = any_iso (bv_clock env 0) in
     bindA (ensureA (\<not> str_lt effectiveTo occurredAt) (bc_error Configuration_invalid_input)) (\<lambda>_.
     bc_mutate env m ''configuration.parameter.activation.terminate'' May_activate key (pd_ownerModule d)
       \<lparr>bo_operationId = bm_operationId m,
        bo_fingerprint = bc_hash (bv_lib env) (JObject [(''activationId'', JString activationId),
          (''effectiveTo'', JString effectiveTo), (''parameterKey'', JString key), (''terminationId'', JString terminationId)]),
        bo_change = Terminate \<lparr>ae_activationId = activationId, ae_effectiveTo = effectiveTo, ae_occurredAt = occurredAt,
          ae_parameterKey = key, ae_terminationId = terminationId\<rparr> (bc_event_of env 1 Activation_changed key)\<rparr>))))))))"

section \<open>Resolution\<close>

text \<open>A cached resolution, when it is well formed and answers this very question.\<close>

definition bc_configurationValue :: "js_value \<Rightarrow> bc_failure + js_value" where
  "bc_configurationValue v = (case v of
     JString _ \<Rightarrow> Inr v | JBool _ \<Rightarrow> Inr v | JNumber n \<Rightarrow> if isFinite n then Inr v else bc_invalid | _ \<Rightarrow> bc_invalid)"

definition cached_default :: "bc_lib \<Rightarrow> members \<Rightarrow> string \<Rightarrow> param_definition \<Rightarrow> bc_failure + resolved option" where
  "cached_default lib parsed key d =
     bindE (bc_exact (JObject parsed) [''definitionVersion'', ''parameterKey'', ''source'', ''value'', ''valueVersion'', ''version''] [])
       (\<lambda>fs.
     bindE (bc_id (js_field fs ''parameterKey'')) (\<lambda>k. if k \<noteq> key then Inr None else
     bindE (bc_version (js_field fs ''definitionVersion'') False) (\<lambda>dv. if dv \<noteq> 1 then Inr None else
     bindE (bc_version (js_field fs ''valueVersion'') True) (\<lambda>vv. if vv \<noteq> 0 then Inr None else
     bindE (bc_version (js_field fs ''version'') False) (\<lambda>v. if v \<noteq> 1 then Inr None else
     bindE (bc_configurationValue (js_field fs ''value'')) (\<lambda>raw.
     bindE (bc_value raw (pd_valueType d)) (\<lambda>parsedValue.
     if pd_missingPolicy d \<noteq> Use_default \<or> pd_defaultValue d \<noteq> Some parsedValue then Inr None
     else bindE (bc_compile lib (pd_valueSchema d)) (\<lambda>test.
       Inr (if test parsedValue then Some \<lparr>rs_activation = None, rs_parameterKey = key, rs_value = parsedValue, rs_valueVersion = 0\<rparr>
         else None)))))))))"

definition cached_activation ::
  "bc_lib \<Rightarrow> members \<Rightarrow> string \<Rightarrow> param_definition \<Rightarrow> param_scope list \<Rightarrow> string \<Rightarrow> bc_failure + resolved option" where
  "cached_activation lib parsed key d scopes moment =
     bindE (bc_exact (JObject parsed) [''activationId'', ''definitionVersion'', ''effectiveFrom'', ''parameterKey'', ''scope'',
       ''source'', ''value'', ''valueVersion'', ''version''] [''effectiveTo'']) (\<lambda>fs.
     bindE (bc_id (js_field fs ''parameterKey'')) (\<lambda>k. if k \<noteq> key then Inr None else
     bindE (bc_version (js_field fs ''definitionVersion'') False) (\<lambda>dv. if dv \<noteq> 1 then Inr None else
     bindE (bc_version (js_field fs ''version'') False) (\<lambda>v. if v \<noteq> 1 then Inr None else
     bindE (bc_date lib (js_field fs ''effectiveFrom'')) (\<lambda>start.
     bindE (bc_maybe (bc_date lib) (js_field fs ''effectiveTo'')) (\<lambda>end_at.
     if (case end_at of None \<Rightarrow> False | Some t \<Rightarrow> \<not> str_lt start t) then Inr None else
     bindE (bc_scope_of (js_field fs ''scope'')) (\<lambda>sc.
     if sc \<notin> set scopes then Inr None
     else if ps_scopeType sc \<notin> snd ` set (pd_allowedScopes d) \<or> str_lt moment start
       \<or> (case end_at of None \<Rightarrow> False | Some t \<Rightarrow> \<not> str_lt moment t) then Inr None
     else bindE (bc_configurationValue (js_field fs ''value'')) (\<lambda>raw.
     bindE (bc_value raw (pd_valueType d)) (\<lambda>parsedValue.
     bindE (bc_compile lib (pd_valueSchema d)) (\<lambda>test.
     if \<not> test parsedValue then Inr None
     else bindE (bc_uuid (js_field fs ''activationId'')) (\<lambda>i.
     bindE (bc_version (js_field fs ''valueVersion'') False) (\<lambda>vv.
     Inr (Some \<lparr>rs_activation = Some (i, start, end_at, sc), rs_parameterKey = key, rs_value = parsedValue,
       rs_valueVersion = vv\<rparr>)))))))))))))"

definition cachedResolution ::
  "bc_lib \<Rightarrow> js_value \<Rightarrow> string \<Rightarrow> param_definition \<Rightarrow> param_scope list \<Rightarrow> string \<Rightarrow> resolved option" where
  "cachedResolution lib input key d scopes moment =
     (case bindE (bc_object input) (\<lambda>fs.
         if js_field fs ''source'' = JString ''default'' then cached_default lib fs key d
         else if js_field fs ''source'' = JString ''activation'' then cached_activation lib fs key d scopes moment
         else Inr None) of
        Inl _ \<Rightarrow> None
      | Inr r \<Rightarrow> r)"

definition priority_of :: "param_definition \<Rightarrow> activation \<Rightarrow> int" where
  "priority_of d a = (case find (\<lambda>(p, t). t = ps_scopeType (ax_scope a)) (rev (pd_allowedScopes d)) of
     None \<Rightarrow> - 1 | Some (p, t) \<Rightarrow> p)"

text \<open>What the store says: the value of the first of the highest activations, else the default.\<close>

definition resolve_fact ::
  "param_definition \<Rightarrow> string \<Rightarrow> activation list \<Rightarrow> bc_store \<Rightarrow> bc_failure + resolved" where
  "resolve_fact d key activations s =
     (case sort_by (\<lambda>a b. priority_of d b < priority_of d a) activations of
        [] \<Rightarrow> (case (pd_missingPolicy d, pd_defaultValue d) of
            (Use_default, Some v) \<Rightarrow> Inr \<lparr>rs_activation = None, rs_parameterKey = key, rs_value = v, rs_valueVersion = 0\<rparr>
          | _ \<Rightarrow> Inl (bc_error Configuration_missing))
      | a # _ \<Rightarrow> (case findParameterValue key (ax_valueVersion a) s of
            None \<Rightarrow> Inl (bc_error Configuration_missing)
          | Some release \<Rightarrow> Inr \<lparr>rs_activation = Some (ax_activationId a, ax_effectiveFrom a, ax_effectiveTo a, ax_scope a),
              rs_parameterKey = key, rs_value = vr_value release, rs_valueVersion = vr_valueVersion release\<rparr>))"

record bc_question =
  bu_actor :: bc_actor
  bu_at :: string
  bu_parameterKey :: string
  bu_scopes :: "param_scope list"

definition bc_question_of :: "bc_lib \<Rightarrow> js_value \<Rightarrow> bc_failure + bc_question" where
  "bc_question_of lib input =
     bindE (bc_exact input [''actor'', ''at'', ''parameterKey'', ''scopes''] []) (\<lambda>fs.
     bindE (bc_array (js_field fs ''scopes'') 20) (\<lambda>raw.
     bindE (bc_actor_of (js_field fs ''actor'')) (\<lambda>a.
     bindE (bc_date lib (js_field fs ''at'')) (\<lambda>moment.
     bindE (bc_id (js_field fs ''parameterKey'')) (\<lambda>key.
     bindE (mapE bc_scope_of raw) (\<lambda>scopes.
     bindE (ensure (distinct (map ps_scopeType scopes)) (bc_error Configuration_invalid_input)) (\<lambda>_.
     Inr \<lparr>bu_actor = a, bu_at = moment, bu_parameterKey = key, bu_scopes = scopes\<rparr>)))))))"

definition cache_key :: "bc_lib \<Rightarrow> bc_question \<Rightarrow> string" where
  "cache_key lib q = bc_hash lib (JObject [(''at'', JString (bu_at q)), (''parameterKey'', JString (bu_parameterKey q)),
     (''scopes'', JArray (map scope_js
       (sort_by (\<lambda>a b. bl_localeBefore lib (ps_scopeType a) (ps_scopeType b)) (bu_scopes q))))])"

definition cache_set :: "bc_env \<Rightarrow> string \<Rightarrow> resolved \<Rightarrow> unit bc_do" where
  "cache_set env key r w = (Inr (), if bv_cacheFails env key then w else w\<lparr>bw_cache := bw_cache w @ [(key, r)]\<rparr>)"

definition resolveParameter :: "bc_env \<Rightarrow> js_value \<Rightarrow> resolved bc_do" where
  "resolveParameter env input =
     bindA (liftA (bc_question_of (bv_lib env) input)) (\<lambda>q.
     bindA (bc_authorize env \<lparr>bq_permission = May_read, bq_actor = bu_actor q, bq_ownerModule = None,
         bq_resourceId = bu_parameterKey q\<rparr>) (\<lambda>auth.
     bindA (ensureA (fst auth) (bc_error Configuration_denied)) (\<lambda>_.
     bindA (findDefinition (bu_parameterKey q)) (\<lambda>d.
     let key = cache_key (bv_lib env) q;
         cached = (case bv_cached env key of Inl _ \<Rightarrow> None
           | Inr v \<Rightarrow> cachedResolution (bv_lib env) v (bu_parameterKey q) d (bu_scopes q) (bu_at q)) in
     bindA (getsA (\<lambda>w. listEffectiveActivations (bu_parameterKey q) (bu_scopes q) (bu_at q) (bw_store w))) (\<lambda>activations.
     bindA (bc_others env) (\<lambda>_.
     bindA (\<lambda>w. (resolve_fact d (bu_parameterKey q) activations (bw_store w), w)) (\<lambda>result.
     bindA (cache_set env key result) (\<lambda>_.
     retA (case cached of None \<Rightarrow> result
       | Some c \<Rightarrow> if bc_hash (bv_lib env) (resolved_js c) = bc_hash (bv_lib env) (resolved_js result) then c else result)))))))))"

definition event_type_of :: "js_value \<Rightarrow> bc_failure + bc_event_type" where
  "event_type_of v = (case v of
     JString s \<Rightarrow> if s = ''configuration.activation.changed'' then Inr Activation_changed
       else if s = ''configuration.dictionary.published'' then Inr Dictionary_published
       else if s = ''configuration.parameter.published'' then Inr Parameter_published else bc_invalid
   | _ \<Rightarrow> bc_invalid)"

definition handleInvalidation :: "bc_env \<Rightarrow> js_value \<Rightarrow> unit bc_do" where
  "handleInvalidation env input =
     bindA (liftA (bindE (bc_exact input [''eventId'', ''eventType'', ''occurredAt'', ''resourceId'', ''version''] []) (\<lambda>fs.
       bindE (event_type_of (js_field fs ''eventType'')) (\<lambda>t.
       bindE (bc_uuid (js_field fs ''eventId'')) (\<lambda>i.
       bindE (bc_date (bv_lib env) (js_field fs ''occurredAt'')) (\<lambda>occurredAt.
       bindE (bc_id (js_field fs ''resourceId'')) (\<lambda>resourceId.
       bindE (bc_version (js_field fs ''version'') True) (\<lambda>v.
       Inr \<lparr>bn_eventId = i, bn_eventType = t, bn_occurredAt = occurredAt, bn_resourceId = resourceId, bn_version = v\<rparr>)))))))) (\<lambda>e.
     bindA (ensureA (\<not> bv_invalidateFails env e) bc_down) (\<lambda>_.
     modifyA (\<lambda>w. w\<lparr>bw_invalidated := bw_invalidated w @ [e]\<rparr>)))"

end
