(* ===== verification/ConfigProps.thy ===== *)
theory ConfigProps
  imports ConfigService "HOL-Library.Sublist"
begin

text \<open>
  What business configuration promises: at every moment a scope has one value of a parameter; released
  dictionaries and values stay; a dictionary never drops a code; what is published has the declared type;
  a resolution is that of the highest scope, whatever the cache says.
\<close>

section \<open>The order of timestamps\<close>

lemma str_le_lt_trans: "\<not> str_lt b a \<Longrightarrow> str_lt b c \<Longrightarrow> str_lt a c"
proof -
  assume "\<not> str_lt b a" and "str_lt b c"
  then show "str_lt a c" by (cases "a = b") (auto dest: str_lt_linear intro: str_lt_trans)
qed

section \<open>One value at a time\<close>

definition apart :: "bc_store \<Rightarrow> activation \<Rightarrow> activation \<Rightarrow> bool" where
  "apart s a b \<longleftrightarrow> (ax_parameterKey a = ax_parameterKey b \<longrightarrow> ax_scope a = ax_scope b \<longrightarrow>
     (\<forall>moment. str_lt moment end_of_time \<longrightarrow> \<not> (effective_at s moment a \<and> effective_at s moment b)))"

definition exclusive :: "bc_store \<Rightarrow> bool" where
  "exclusive s \<longleftrightarrow> sorted_wrt (apart s) (bs_activations s)"

lemma effective_within:
  assumes "effective_at s moment a" and "str_lt moment end_of_time"
  shows "str_lt moment (or_end (effectiveEnd s a))" and "str_lt moment (or_end (ax_effectiveTo a))"
  using assms str_lt_trans [of moment]
  by (auto simp: effective_at_def or_end_def effectiveEnd_def Let_def split: option.splits if_splits
      dest: str_le_lt_trans)

lemma no_overlap_apart:
  assumes "\<not> bc_overlaps s candidate current"
  shows "apart s current candidate"
  unfolding apart_def
proof (intro impI allI notI)
  fix moment
  assume same: "ax_parameterKey current = ax_parameterKey candidate" "ax_scope current = ax_scope candidate"
    and m: "str_lt moment end_of_time" and e: "effective_at s moment current \<and> effective_at s moment candidate"
  then have "\<not> str_lt moment (ax_effectiveFrom current)" "\<not> str_lt moment (ax_effectiveFrom candidate)"
    by (simp_all add: effective_at_def)
  with e m have "str_lt (ax_effectiveFrom current) (or_end (ax_effectiveTo candidate))"
    and "str_lt (ax_effectiveFrom candidate) (or_end (effectiveEnd s current))"
    using effective_within str_le_lt_trans by blast+
  with same assms show False by (simp add: bc_overlaps_def)
qed

text \<open>Activations end, and never begin again.\<close>

lemma ended_subset:
  assumes "\<And>i. jm_get (bs_terminations s) i \<noteq> None \<Longrightarrow> jm_get (bs_terminations t) i = jm_get (bs_terminations s) i"
    and "effective_at t moment a"
  shows "effective_at s moment a"
proof (cases "jm_get (bs_terminations s) (ax_activationId a)")
  case None
  with assms(2) show ?thesis
    by (auto simp: effective_at_def effectiveEnd_def Let_def split: option.splits if_splits dest: str_lt_trans)
next
  case (Some e)
  with assms(1) have "jm_get (bs_terminations t) (ax_activationId a) = Some e" by auto
  with Some assms(2) show ?thesis by (simp add: effective_at_def effectiveEnd_def)
qed

lemma apart_stays:
  assumes "\<And>i. jm_get (bs_terminations s) i \<noteq> None \<Longrightarrow> jm_get (bs_terminations t) i = jm_get (bs_terminations s) i"
    and "apart s a b"
  shows "apart t a b"
  using assms(2) ended_subset [OF assms(1)] unfolding apart_def by blast

lemma bc_exec_run: "snd (bc_exec lib op s) = snd (bc_run lib op s)"
  by (auto simp: bc_exec_def bindA_def split: prod.split sum.split)

lemma bc_run_cases:
  obtains (same) "snd (bc_run lib op s) = s"
    | (made) r t where "bc_apply lib (bo_change op) s = Inr (r, t)"
      "bc_run lib op s = (Inr (r, False), bc_save (bo_operationId op) (bo_fingerprint op) r t)"
proof (cases "bc_replay (bo_operationId op) (bo_fingerprint op) s")
  case (Inr found)
  with that show thesis unfolding bc_run_def bc_once_def
    by (cases found; cases "bc_apply lib (bo_change op) s") auto
qed (use that(1) in \<open>simp add: bc_run_def bc_once_def\<close>)

lemma bc_save_parts [simp]:
  "bs_activations (bc_save k f r t) = bs_activations t" "bs_terminations (bc_save k f r t) = bs_terminations t"
  "bs_values (bc_save k f r t) = bs_values t" "bs_dictionaries (bc_save k f r t) = bs_dictionaries t"
  "bs_definitions (bc_save k f r t) = bs_definitions t" "bs_drafts (bc_save k f r t) = bs_drafts t"
  by (simp_all add: bc_save_def)

lemma emit_parts [simp]:
  "bs_activations (emit e t) = bs_activations t" "bs_terminations (emit e t) = bs_terminations t"
  "bs_values (emit e t) = bs_values t" "bs_dictionaries (emit e t) = bs_dictionaries t"
  "bs_definitions (emit e t) = bs_definitions t" "bs_drafts (emit e t) = bs_drafts t"
  by (simp_all add: emit_def)

lemma apart_save [simp]: "apart (bc_save k f r t) = apart t"
  by (simp add: apart_def effective_at_def effectiveEnd_def fun_eq_iff)

lemmas bc_change_defs = save_draft_def publish_dictionary_def register_parameter_def publish_value_def
  activate_def terminate_def

lemma apply_exclusive:
  assumes "bc_apply lib c s = Inr (r, t)" and "exclusive s"
  shows "exclusive t"
proof -
  have "(\<exists>a e. c = Activate a e) \<or> (bs_activations t = bs_activations s
      \<and> (\<forall>i. jm_get (bs_terminations s) i \<noteq> None \<longrightarrow> jm_get (bs_terminations t) i = jm_get (bs_terminations s) i))"
    using assms(1) by (cases c) (auto simp: bc_change_defs Let_def bindE_eq_Inr split: option.splits)
  then show ?thesis
  proof
    assume "\<exists>a e. c = Activate a e"
    then obtain a e where "c = Activate a e" by blast
    with assms(1) have t: "bs_activations t = bs_activations s @ [a]" "bs_terminations t = bs_terminations s"
      and free: "\<not> list_ex (bc_overlaps s a) (bs_activations s)"
      by (auto simp: activate_def bindE_eq_Inr)
    have "apart s b a" if "b \<in> set (bs_activations s)" for b
      using free that by (intro no_overlap_apart) (simp add: list_ex_iff)
    then have "sorted_wrt (apart s) (bs_activations t)"
      using assms(2) by (simp add: exclusive_def t sorted_wrt_append)
    moreover have "apart t x y" if "apart s x y" for x y
      by (rule apart_stays [OF _ that]) (simp add: t)
    ultimately show ?thesis unfolding exclusive_def by (rule sorted_wrt_mono_rel [rotated])
  next
    assume same: "bs_activations t = bs_activations s
      \<and> (\<forall>i. jm_get (bs_terminations s) i \<noteq> None \<longrightarrow> jm_get (bs_terminations t) i = jm_get (bs_terminations s) i)"
    then have "sorted_wrt (apart s) (bs_activations t)" using assms(2) by (simp add: exclusive_def)
    moreover have "apart t x y" if "apart s x y" for x y
      by (rule apart_stays [OF _ that]) (use same in blast)
    ultimately show ?thesis unfolding exclusive_def by (rule sorted_wrt_mono_rel [rotated])
  qed
qed

text \<open>A fact that every change keeps holds after every run.\<close>

lemma kept_by_changes:
  assumes "\<And>c r t. bc_apply lib c s = Inr (r, t) \<Longrightarrow> P t" and "\<And>k f r t. P (bc_save k f r t) = P t" and "P s"
  shows "P (snd (bc_exec lib op s))"
  unfolding bc_exec_run
  by (cases rule: bc_run_cases [of lib op s]) (use assms in auto)

interpretation exclusively: guarded_machine "bc_exec lib" exclusive for lib
proof
  fix s c
  assume s: "exclusive s"
  show "exclusive (snd (bc_exec lib c s))"
  proof (rule kept_by_changes)
    show "exclusive t" if "bc_apply lib c s = Inr (r, t)" for c r t
      using that s by (rule apply_exclusive)
  qed (simp_all add: s, simp add: exclusive_def)
qed

lemma exclusive_filter:
  assumes "sorted_wrt R xs" and "\<And>x y. P x \<Longrightarrow> P y \<Longrightarrow> \<not> R x y"
  shows "length (filter P xs) \<le> 1"
  using assms by (induction xs) (auto simp: filter_empty_conv)

text \<open>
  C15: However configuration was changed before: at every moment before the end of the calendar a parameter has at
  most one activation in effect in each scope.
\<close>

theorem one_activation_in_effect:
  assumes "str_lt moment end_of_time"
  shows "length (listEffectiveActivations key [sc] moment (run_all (bc_exec lib) ops empty_config)) \<le> 1"
proof -
  let ?s = "run_all (bc_exec lib) ops empty_config"
  have "exclusive ?s" by (rule exclusively.run_keeps) (simp add: exclusive_def empty_config_def)
  then have "sorted_wrt (apart ?s) (bs_activations ?s)" by (simp add: exclusive_def)
  then have "length (filter (\<lambda>a. ax_parameterKey a = key \<and> ax_scope a = sc \<and> effective_at ?s moment a) (bs_activations ?s)) \<le> 1"
    by (rule exclusive_filter) (use assms in \<open>auto simp: apart_def\<close>)
  then show ?thesis by (simp add: listEffectiveActivations_def)
qed

section \<open>History\<close>

definition bc_extends :: "bc_store \<Rightarrow> bc_store \<Rightarrow> bool" where
  "bc_extends s t \<longleftrightarrow> (\<forall>i. prefix (releases_of i s) (releases_of i t)) \<and> (\<forall>k. prefix (values_of k s) (values_of k t))
     \<and> (\<forall>k d. jm_get (bs_definitions s) k = Some d \<longrightarrow> jm_get (bs_definitions t) k = Some d)"

text \<open>Drafts are under their own name; releases are numbered, and each keeps the codes of those before it.\<close>

definition bc_tidy :: "bc_store \<Rightarrow> bool" where
  "bc_tidy s \<longleftrightarrow> (\<forall>i d. jm_get (bs_drafts s) i = Some d \<longrightarrow> dd_dictionaryId d = i)
     \<and> (\<forall>i. sorted_wrt (\<lambda>r r'. codes (dr_items r) \<subseteq> codes (dr_items r')) (releases_of i s)
          \<and> map dr_releaseVersion (releases_of i s) = [1..int (length (releases_of i s))])
     \<and> (\<forall>k. map vr_valueVersion (values_of k s) = [1..int (length (values_of k s))])"

lemma parts_save [simp]:
  "releases_of i (bc_save k f r t) = releases_of i t" "values_of i (bc_save k f r t) = values_of i t"
  by (simp_all add: releases_of_def values_of_def)

lemma parts_update [simp]:
  "releases_of i (s\<lparr>bs_dictionaries := jm_set (bs_dictionaries s) j rs\<rparr>) = (if i = j then rs else releases_of i s)"
  "values_of i (s\<lparr>bs_dictionaries := m\<rparr>) = values_of i s"
  "values_of i (s\<lparr>bs_values := jm_set (bs_values s) j vs\<rparr>) = (if i = j then vs else values_of i s)"
  "releases_of i (s\<lparr>bs_values := m'\<rparr>) = releases_of i s"
  "releases_of i (emit e s) = releases_of i s" "values_of i (emit e s) = values_of i s"
  by (simp_all add: releases_of_def values_of_def)

text \<open>What a change leaves of the releases and values: one list has one more, or none.\<close>

lemma apply_lists:
  assumes "bc_apply lib c s = Inr (r, t)" and "bc_tidy s"
  obtains (same) "\<And>i. releases_of i t = releases_of i s" "\<And>k. values_of k t = values_of k s"
    | (release) i x where "releases_of i t = releases_of i s @ [x]" "\<And>j. j \<noteq> i \<Longrightarrow> releases_of j t = releases_of j s"
      "\<And>k. values_of k t = values_of k s" "dr_releaseVersion x = int (length (releases_of i s)) + 1"
      "\<forall>y \<in> set (releases_of i s). codes (dr_items y) \<subseteq> codes (dr_items x)"
    | (bc_value) k x where "values_of k t = values_of k s @ [x]" "\<And>j. j \<noteq> k \<Longrightarrow> values_of j t = values_of j s"
      "\<And>i. releases_of i t = releases_of i s" "vr_valueVersion x = int (length (values_of k s)) + 1"
proof (cases c)
  case (Publish_dictionary i e n p)
  with assms obtain d where "jm_get (bs_drafts s) i = Some d" "dd_dictionaryId d = i"
    by (auto simp: publish_dictionary_def bc_tidy_def split: option.splits)
  with assms(1) Publish_dictionary show thesis
    by (intro release [of i]) (auto simp: publish_dictionary_def Let_def bindE_eq_Inr dest!: bspec)
next
  case (Publish_value d e k p v)
  with assms(1) show thesis
    by (intro bc_value [of k]) (auto simp: publish_value_def Let_def bindE_eq_Inr)
qed (use assms(1) same in \<open>auto simp: bc_change_defs Let_def bindE_eq_Inr releases_of_def values_of_def split: option.splits\<close>)

lemma upto_Suc: "[1..1 + int n] = [1..int n] @ [1 + int n]"
  using upto_rec2 [of 1 "1 + int n"] by simp

lemma apply_tidy:
  assumes "bc_apply lib c s = Inr (r, t)" and "bc_tidy s"
  shows "bc_tidy t"
proof -
  have drafts: "\<forall>i d. jm_get (bs_drafts t) i = Some d \<longrightarrow> dd_dictionaryId d = i"
    using assms by (cases c) (auto simp: bc_change_defs Let_def bindE_eq_Inr bc_tidy_def split: option.splits if_splits)
  show ?thesis
    using assms
  proof (cases rule: apply_lists)
    case same
    with drafts assms(2) show ?thesis by (simp add: bc_tidy_def)
  next
    case (release i x)
    have "sorted_wrt (\<lambda>r r'. codes (dr_items r) \<subseteq> codes (dr_items r')) (releases_of j t)
        \<and> map dr_releaseVersion (releases_of j t) = [1..int (length (releases_of j t))]" for j
      using release assms(2) by (cases "j = i") (auto simp: bc_tidy_def sorted_wrt_append upto_Suc)
    with drafts release(3) assms(2) show ?thesis by (simp add: bc_tidy_def)
  next
    case (bc_value k x)
    have "map vr_valueVersion (values_of j t) = [1..int (length (values_of j t))]" for j
      using bc_value assms(2) by (cases "j = k") (auto simp: bc_tidy_def upto_Suc)
    with drafts bc_value(3) assms(2) show ?thesis by (simp add: bc_tidy_def)
  qed
qed

lemma apply_extends:
  assumes "bc_apply lib c s = Inr (r, t)" and "bc_tidy s"
  shows "bc_extends s t"
proof -
  have defs: "\<forall>k d. jm_get (bs_definitions s) k = Some d \<longrightarrow> jm_get (bs_definitions t) k = Some d"
    using assms(1) by (cases c) (auto simp: bc_change_defs Let_def bindE_eq_Inr split: option.splits)
  have "prefix (releases_of i s) (releases_of i t)" "prefix (values_of i s) (values_of i t)" for i
    using assms by (cases rule: apply_lists; metis prefix_order.order_refl prefixI)+
  with defs show ?thesis by (simp add: bc_extends_def)
qed

interpretation history: guarded_machine "bc_exec lib" "\<lambda>t. bc_tidy t \<and> bc_extends s t" for lib s
proof
  fix t c
  assume t: "bc_tidy t \<and> bc_extends s t"
  show "bc_tidy (snd (bc_exec lib c t)) \<and> bc_extends s (snd (bc_exec lib c t))"
  proof (rule kept_by_changes [where P = "\<lambda>u. bc_tidy u \<and> bc_extends s u"])
    show "bc_tidy u \<and> bc_extends s u" if "bc_apply lib c t = Inr (r, u)" for c r u
      using t that apply_tidy [of lib c t r u] apply_extends [of lib c t r u]
      unfolding bc_extends_def by (blast intro: prefix_order.trans)
  qed (simp_all add: t, simp add: bc_tidy_def bc_extends_def)
qed

text \<open>
  Released dictionaries, released values and parameter definitions are there for ever and never change;
  a dictionary's releases are numbered from one, and no release drops a code of an earlier one.
\<close>

theorem configuration_history_kept:
  "bc_extends (run_all (bc_exec lib) ops empty_config) (run_all (bc_exec lib) (ops @ later) empty_config)
    \<and> bc_tidy (run_all (bc_exec lib) (ops @ later) empty_config)"
proof -
  let ?s = "run_all (bc_exec lib) ops empty_config"
  have "bc_tidy empty_config \<and> bc_extends empty_config empty_config"
    by (simp add: bc_tidy_def bc_extends_def empty_config_def releases_of_def values_of_def)
  then have "bc_tidy ?s" using history.run_keeps [of empty_config empty_config lib ops] by blast
  then have "bc_tidy ?s \<and> bc_extends ?s ?s" by (simp add: bc_extends_def)
  from history.run_keeps [OF this] show ?thesis by (simp add: run_all_append)
qed

end
