(* ===== verification/ConfigSafety.thy ===== *)
theory ConfigSafety
  imports ConfigProps
begin

text \<open>
  What the service of business configuration promises: its answers come from the store and not
  from the cache, a published value has the declared type, and a change was authorized and audited.
\<close>

section \<open>The cache\<close>

definition answer_digest :: "bc_lib \<Rightarrow> bc_failure + resolved \<Rightarrow> bc_failure + string" where
  "answer_digest lib = map_sum id (\<lambda>r. bc_hash lib (resolved_js r))"

definition alike :: "bc_lib \<Rightarrow> resolved bc_do \<Rightarrow> resolved bc_do \<Rightarrow> bool" where
  "alike lib m n \<longleftrightarrow> (\<forall>w. answer_digest lib (fst (m w)) = answer_digest lib (fst (n w)) \<and> snd (m w) = snd (n w))"

lemma alike_bind: "(\<And>x. alike lib (f x) (g x)) \<Longrightarrow> alike lib (bindA m f) (bindA m g)"
  by (auto simp: alike_def bindA_def split: prod.split sum.split)

lemma alike_answer:
  "alike lib (retA (case c of None \<Rightarrow> r | Some x \<Rightarrow> if bc_hash lib (resolved_js x) = bc_hash lib (resolved_js r) then x else r))
     (retA (case c' of None \<Rightarrow> r | Some x \<Rightarrow> if bc_hash lib (resolved_js x) = bc_hash lib (resolved_js r) then x else r))"
  by (auto simp: alike_def answer_digest_def split: option.split)


section \<open>Resolution\<close>

lemma sorted_insert_by:
  fixes f :: "'a \<Rightarrow> int"
  assumes "sorted_wrt (\<lambda>a b. f b \<le> f a) xs"
  shows "sorted_wrt (\<lambda>a b. f b \<le> f a) (insert_by (\<lambda>a b. f b < f a) x xs)"
  using assms by (induction xs) (auto intro: order.trans)

lemma sort_by_highest:
  fixes f :: "'a \<Rightarrow> int"
  assumes "sort_by (\<lambda>a b. f b < f a) xs = a # rest"
  shows "a \<in> set xs \<and> (\<forall>b \<in> set xs. f b \<le> f a)"
proof -
  have "sorted_wrt (\<lambda>a b. f b \<le> f a) (sort_by (\<lambda>a b. f b < f a) xs)"
    by (induction xs) (simp_all add: sorted_insert_by)
  moreover have "set (a # rest) = set xs" using assms set_sort_by by metis
  ultimately show ?thesis using assms by auto
qed

text \<open>The specification of an answer: the default where nothing is in effect, else the value of a highest activation.\<close>

definition answers :: "param_definition \<Rightarrow> activation list \<Rightarrow> bc_store \<Rightarrow> resolved \<Rightarrow> bool" where
  "answers d activations s r \<longleftrightarrow> (case rs_activation r of
     None \<Rightarrow> activations = [] \<and> pd_missingPolicy d = Use_default \<and> pd_defaultValue d = Some (rs_value r)
   | Some (i, start, end_at, sc) \<Rightarrow>
       (\<exists>a \<in> set activations. i = ax_activationId a \<and> start = ax_effectiveFrom a \<and> end_at = ax_effectiveTo a
         \<and> sc = ax_scope a \<and> (\<forall>b \<in> set activations. priority_of d b \<le> priority_of d a)
         \<and> map_option vr_value (findParameterValue (rs_parameterKey r) (ax_valueVersion a) s) = Some (rs_value r)))"

lemma fact_answers:
  assumes "resolve_fact d key activations s = Inr r"
  shows "answers d activations s r \<and> rs_parameterKey r = key"
proof (cases "sort_by (\<lambda>a b. priority_of d b < priority_of d a) activations")
  case Nil
  then have "activations = []" using length_sort_by by (metis length_0_conv)
  with assms Nil show ?thesis
    by (auto simp: resolve_fact_def answers_def split: missing_policy.splits option.splits)
next
  case (Cons a rest)
  with assms sort_by_highest [OF Cons] show ?thesis
    by (auto simp: resolve_fact_def answers_def split: option.splits)
qed


section \<open>Published values\<close>

definition value_ok :: "bc_lib \<Rightarrow> param_definition \<Rightarrow> config_value \<Rightarrow> bool" where
  "value_ok lib d v \<longleftrightarrow>
     (case (v, pd_valueType d) of
        (Config_text s, Type_string) \<Rightarrow> \<not> secret_value s \<and> length s \<le> 1000
      | (Config_flag b, Type_boolean) \<Rightarrow> True
      | (Config_number n, Type_number) \<Rightarrow> isFinite n
      | (Config_number n, Type_integer) \<Rightarrow> isSafeInteger n
      | _ \<Rightarrow> False)
     \<and> (\<exists>test. bl_ajv lib (pd_valueSchema d) = Inr test \<and> test v)"

lemma bc_value_ok:
  assumes "bc_value raw (pd_valueType d) = Inr v" and "bc_compile lib (pd_valueSchema d) = Inr test" and "test v"
  shows "value_ok lib d v"
  using assms
  by (auto simp: value_ok_def bc_value_def bc_compile_def split: js_value.splits value_type.splits if_splits sum.splits)

lemma apply_definitions:
  "bc_apply lib c s = Inr (r, t) \<Longrightarrow> jm_get (bs_definitions s) k = Some d \<Longrightarrow> jm_get (bs_definitions t) k = Some d"
  by (cases c) (auto simp: bc_change_defs Let_def bindE_eq_Inr split: option.splits)

interpretation definitions: guarded_machine "bc_exec lib" "\<lambda>s. jm_get (bs_definitions s) k = Some d" for lib k d
  by unfold_locales (rule kept_by_changes, auto dest: apply_definitions)

lemma mutate_returns:
  assumes "bc_mutate env m action p resource owner op w = (Inr result, w')"
  obtains u where "u = run_all (bc_exec (bv_lib env)) (bv_others env) (bw_store w)"
    "bc_run (bv_lib env) op u = (Inr result, bw_store w')"
  using assms
  by (auto simp: bc_mutate_def Let_def bindA_eq_Inr bc_authorize_def bc_record_def bc_others_def catchA_def
      bc_store_run_def bindA_def split: if_splits prod.splits sum.splits)

text \<open>
  C34: A value that is published for the first time is among the released values of its parameter, has the
  declared type, passes the declared schema and is no credential.
\<close>

theorem published_value_valid:
  assumes "publishParameterValue env input w = (Inr (result, False), w')"
  shows "\<exists>v d. result = Value_released v \<and> v \<in> set (values_of (vr_parameterKey v) (bw_store w'))
    \<and> jm_get (bs_definitions (bw_store w')) (vr_parameterKey v) = Some d \<and> value_ok (bv_lib env) d (vr_value v)"
proof -
  let ?op = "\<lambda>m key v. \<lparr>bo_operationId = bm_operationId m,
        bo_fingerprint = bc_hash (bv_lib env) (JObject [(''parameterKey'', JString key), (''value'', value_js v)]),
        bo_change = Publish_value (bc_hash (bv_lib env) (JObject [(''value'', value_js v)]))
          (bc_event_of env 0 Parameter_published key) key (any_iso (bv_clock env 1)) v\<rparr>"
  from assms obtain m key d v test w1 where
      d: "jm_get (bs_definitions (bw_store w1)) key = Some d"
    and v: "bc_value (js_field (bm_values m) ''value'') (pd_valueType d) = Inr v"
      "bc_compile (bv_lib env) (pd_valueSchema d) = Inr test" "test v"
    and run: "bc_mutate env m ''configuration.parameter.publish'' May_publish key (pd_ownerModule d) (?op m key v) w1
        = (Inr (result, False), w')"
    unfolding publishParameterValue_def findDefinition_def findParameterDefinition_def
    by (auto simp: bindA_eq_Inr)
  from run obtain u where u: "u = run_all (bc_exec (bv_lib env)) (bv_others env) (bw_store w1)"
    and r: "bc_run (bv_lib env) (?op m key v) u = (Inr (result, False), bw_store w')" by (rule mutate_returns)
  have "jm_get (bs_definitions u) key = Some d" unfolding u using d by (rule definitions.run_keeps)
  with bc_value_ok [OF v] have "\<exists>x d. result = Value_released x \<and> x \<in> set (values_of (vr_parameterKey x) t)
      \<and> jm_get (bs_definitions t) (vr_parameterKey x) = Some d \<and> value_ok (bv_lib env) d (vr_value x)"
    if "bc_run (bv_lib env) (?op m key v) u = (Inr (result, False), t)" for t
    using that by (auto simp: bc_run_def bc_once_def publish_value_def Let_def bindE_eq_Inr split: sum.splits option.splits)
  from this [OF r] show ?thesis .
qed

section \<open>Changes are authorized and audited\<close>

datatype bc_call =
    Save_dictionary_draft js_value
  | Publish_dictionary_call js_value
  | Register_parameter_call js_value
  | Publish_parameter_value js_value
  | Activate_parameter js_value
  | Terminate_activation js_value

fun bc_call_run :: "bc_env \<Rightarrow> bc_call \<Rightarrow> bc_reply bc_do" where
  "bc_call_run env (Save_dictionary_draft v) = saveDictionaryDraft env v"
| "bc_call_run env (Publish_dictionary_call v) = publishDictionary env v"
| "bc_call_run env (Register_parameter_call v) = registerParameter env v"
| "bc_call_run env (Publish_parameter_value v) = publishParameterValue env v"
| "bc_call_run env (Activate_parameter v) = activateParameter env v"
| "bc_call_run env (Terminate_activation v) = terminateParameterActivation env v"

text \<open>An attempt was audited, under a decision that allowed it to the actor for the owner of the resource.\<close>

definition accounted :: "bc_env \<Rightarrow> bc_world \<Rightarrow> bool" where
  "accounted env w \<longleftrightarrow> (\<exists>a \<in> set (bw_audit w). bt_phase a = Bc_attempted \<and> (\<exists>p owner v.
     bv_authorize env \<lparr>bq_permission = p, bq_actor = bt_actor a, bq_ownerModule = Some owner, bq_resourceId = bt_resourceId a\<rparr>
       = Inr v \<and> bc_decision v = Inr (True, bt_decisionId a)))"

definition settled :: "bc_env \<Rightarrow> bc_store \<Rightarrow> bc_world \<Rightarrow> bool" where
  "settled env s w \<longleftrightarrow> bw_store w = s \<or> accounted env w"

lemma accounted_more: "accounted env w \<Longrightarrow> set (bw_audit w) \<subseteq> set (bw_audit w') \<Longrightarrow> accounted env w'"
  unfolding accounted_def by blast

lemma settled_record [keeps]: "keepsA (settled env s) (bc_record env a)"
  by (auto simp: keepsA_def settled_def bc_record_def accounted_def)

lemma settled_authorize [keeps]: "keepsA (settled env s) (bc_authorize env q)"
  by (simp add: bc_authorize_def keepsA_lift)

lemma settled_lookup [keeps]: "keepsA (settled env s) (authorizeBeforeLookup env m action p r)"
  unfolding authorizeBeforeLookup_def by (intro keeps)

lemma settled_definition [keeps]: "keepsA (settled env s) (findDefinition k)"
  unfolding findDefinition_def by (intro keeps)

lemma accounted_after [keeps]:
  "keepsA (accounted env) (bc_record env a)" "keepsA (accounted env) (bc_others env)"
  "keepsA (accounted env) (bc_store_run env op)"
  by (auto simp: keepsA_def accounted_def bc_record_def bc_others_def bc_store_run_def split: prod.split)

lemma settled_mutate [keeps]: "keepsA (settled env s) (bc_mutate env m action p r owner op)"
proof (rule keepsA_I)
  fix w
  assume w: "settled env s w"
  let ?q = "\<lparr>bq_permission = p, bq_actor = bm_actor m, bq_ownerModule = Some owner, bq_resourceId = r\<rparr>"
  show "settled env s (snd (bc_mutate env m action p r owner op w))"
  proof (cases "fst (bc_authorize env ?q w)")
    case (Inl e)
    then show ?thesis using w by (auto simp: bc_mutate_def bindA_def bc_authorize_def)
  next
    case (Inr auth)
    then have auth: "bc_authorize env ?q w = (Inr auth, w)" by (simp add: bc_authorize_def)
    then obtain v where v: "bv_authorize env ?q = Inr v" "bc_decision v = Inr auth"
      by (auto simp: bc_authorize_def split: sum.splits)
    let ?a = "bc_entry m action r (snd auth) Bc_attempted"
    show ?thesis
    proof (cases "fst auth \<and> \<not> bv_auditFails env ?a")
      case True
      then have "accounted env (w\<lparr>bw_audit := bw_audit w @ [?a]\<rparr>)"
        unfolding accounted_def using v by (cases auth) (auto simp: bc_entry_def)
      moreover have "keepsA (accounted env)
        (bindA (bc_others env) (\<lambda>_.
         bindA (catchA (bc_store_run env op) (\<lambda>e. bindA (bc_record env (bc_entry m action r (snd auth) Bc_failed)) (\<lambda>_. throwA e)))
           (\<lambda>result. bindA (bc_record env (bc_entry m action r (snd auth) Bc_succeeded)) (\<lambda>_. retA result))))"
        by (intro keeps)
      ultimately have "accounted env (snd (bc_mutate env m action p r owner op w))"
        using True auth by (simp add: bc_mutate_def bindA_run [of "bc_authorize env ?q"]
            bindA_run [of "bc_record env ?a"] bc_record_def [of env ?a] Let_def keepsA_def)
      then show ?thesis by (simp add: settled_def)
    next
      case False
      obtain x u where "bc_record env (bc_entry m action r (snd auth) Bc_denied) w = (x, u)" "settled env s u"
        using keepsA_D [OF settled_record w] by (metis prod.collapse)
      with False show ?thesis using w auth
        by (auto simp: bc_mutate_def bindA_run [of "bc_authorize env ?q"] bindA_run [of "bc_record env _"] Let_def
            bc_record_def [of env ?a] split: sum.split)
    qed
  qed
qed

lemma settled_call: "keepsA (settled env s) (bc_call_run env c)"
  by (cases c) (simp_all only: bc_call_run.simps saveDictionaryDraft_def publishDictionary_def registerParameter_def
      publishParameterValue_def activateParameter_def terminateParameterActivation_def Let_def, (intro keeps)+)

text \<open>
  When a command left the store changed, it was attempted in the audit trail, and the authorizer had
  allowed it to that actor for the module that owns the resource.
\<close>

theorem configuration_change_accounted:
  assumes "bw_store (snd (bc_call_run env c w)) \<noteq> bw_store w"
  shows "accounted env (snd (bc_call_run env c w))"
  using keepsA_D [OF settled_call, of env "bw_store w" w c] assms by (simp add: settled_def)

end
