(* ===== verification/ConfigSamples.thy ===== *)
theory ConfigSamples
  imports ConfigSafety
begin

text \<open>
  A sample parameter with two scopes: the properties of business configuration apply to it, and an
  activation in a year of five digits comes into effect at once.
\<close>

definition sample_uuid :: "string \<Rightarrow> string" where
  "sample_uuid c = ''00000000-0000-4000-8000-00000000000'' @ c"

definition sample_bc_lib :: bc_lib where
  "sample_bc_lib = \<lparr>bl_sha256 = (\<lambda>s. s), bl_numText = (\<lambda>_. ''1''), bl_dates = (\<lambda>_. None),
     bl_ajv = (\<lambda>_. Inr (\<lambda>v. v \<noteq> Config_text [])), bl_localeBefore = str_lt\<rparr>"

definition sample_bc_env :: bc_env where
  "sample_bc_env = \<lparr>bv_lib = sample_bc_lib,
     bv_authorize = (\<lambda>_. Inr (JObject [(''allowed'', JBool True), (''decisionId'', JString (sample_uuid ''d''))])),
     bv_auditFails = (\<lambda>_. False), bv_cached = (\<lambda>_. Inr JUndefined), bv_cacheFails = (\<lambda>_. False),
     bv_invalidateFails = (\<lambda>_. False), bv_clock = (\<lambda>_. 0), bv_newId = sample_uuid ''e'', bv_others = []\<rparr>"

definition team_scope :: param_scope where "team_scope = \<lparr>ps_scopeReference = ''team:1'', ps_scopeType = ''team''\<rparr>"
definition wide_scope :: param_scope where "wide_scope = \<lparr>ps_scopeReference = ''all'', ps_scopeType = ''wide''\<rparr>"

definition sample_parameter :: param_definition where
  "sample_parameter = \<lparr>pd_allowedScopes = [(10, ''team''), (1, ''wide'')], pd_defaultValue = None,
     pd_missingPolicy = Fail_closed, pd_ownerModule = ''crm'', pd_parameterKey = ''crm.limit'', pd_valueSchema = [],
     pd_valueType = Type_boolean\<rparr>"

definition sample_bc_event :: bc_event where
  "sample_bc_event = \<lparr>bn_eventId = sample_uuid ''1'', bn_eventType = Parameter_published, bn_occurredAt = [],
     bn_resourceId = ''crm.limit'', bn_version = 0\<rparr>"

definition wide_activation :: activation where
  "wide_activation = \<lparr>ax_activationId = sample_uuid ''a'', ax_effectiveFrom = ''2026-01-01T00:00:00.000Z'',
     ax_effectiveTo = None, ax_parameterKey = ''crm.limit'', ax_scope = wide_scope, ax_valueVersion = 1\<rparr>"

definition sample_op :: "string \<Rightarrow> bc_change \<Rightarrow> bc_op" where
  "sample_op i c = \<lparr>bo_operationId = i, bo_fingerprint = ''f'', bo_change = c\<rparr>"

definition sample_bc_ops :: "bc_op list" where
  "sample_bc_ops = [sample_op ''1'' (Register_parameter sample_parameter),
     sample_op ''2'' (Publish_value ''d'' sample_bc_event ''crm.limit'' ''t'' (Config_flag True)),
     sample_op ''3'' (Activate wide_activation sample_bc_event)]"

definition sample_bc_world :: bc_world where
  "sample_bc_world = \<lparr>bw_store = run_all (bc_exec sample_bc_lib) sample_bc_ops empty_config, bw_audit = [],
     bw_cache = [], bw_invalidated = []\<rparr>"

definition sample_bc_actor :: js_value where
  "sample_bc_actor = JObject [(''actorId'', JString ''alice''), (''actorType'', JString ''system'')]"

definition sample_bc_call :: "members \<Rightarrow> js_value" where
  "sample_bc_call extra = JObject ([(''actor'', sample_bc_actor), (''operationId'', JString (sample_uuid ''9'')),
     (''reason'', JString ''sample''), (''traceId'', JString ''1234567890abcdef1234567890abcdef'')] @ extra)"

definition sample_publication :: js_value where
  "sample_publication = sample_bc_call [(''parameterKey'', JString ''crm.limit''), (''value'', JBool False)]"

definition far_activation :: js_value where
  "far_activation = sample_bc_call [(''parameterKey'', JString ''crm.limit''), (''activationId'', JString (sample_uuid ''b'')),
     (''effectiveFrom'', JString ''+010000-01-01T00:00:00.000Z''), (''scope'', scope_js team_scope),
     (''valueVersion'', js_int 1)]"

definition sample_bc_question :: js_value where
  "sample_bc_question = JObject [(''actor'', sample_bc_actor), (''at'', JString ''2026-06-01T00:00:00.000Z''),
     (''parameterKey'', JString ''crm.limit''), (''scopes'', JArray [scope_js wide_scope, scope_js team_scope])]"

definition after_publication :: "(bc_failure + bc_reply) \<times> bc_world" where
  "after_publication = publishParameterValue sample_bc_env sample_publication sample_bc_world"

lemma sample_published:
  "isOk (fst after_publication)" "snd (projr (fst after_publication)) = False"
  "map bt_phase (bw_audit (snd after_publication)) = [Bc_attempted, Bc_succeeded]"
  "map vr_value (values_of ''crm.limit'' (bw_store (snd after_publication))) = [Config_flag True, Config_flag False]"
  "map vr_value (values_of ''crm.limit'' (bw_store sample_bc_world)) = [Config_flag True]"
  by code_simp+

lemma sample_env_lib: "bv_lib sample_bc_env = sample_bc_lib"
  by (simp add: sample_bc_env_def)

lemma published_value_valid_witness:
  "\<exists>v d. fst (projr (fst after_publication)) = Value_released v
    \<and> v \<in> set (values_of (vr_parameterKey v) (bw_store (snd after_publication)))
    \<and> jm_get (bs_definitions (bw_store (snd after_publication))) (vr_parameterKey v) = Some d
    \<and> value_ok (bv_lib sample_bc_env) d (vr_value v)"
proof (rule published_value_valid)
  have "fst after_publication = Inr (projr (fst after_publication))" using sample_published(1) by (rule projr_ok)
  then show "publishParameterValue sample_bc_env sample_publication sample_bc_world
      = (Inr (fst (projr (fst after_publication)), False), snd after_publication)"
    using sample_published(2) unfolding after_publication_def by (metis prod.collapse)
qed

lemma configuration_change_accounted_witness:
  "accounted sample_bc_env (snd (bc_call_run sample_bc_env (Publish_parameter_value sample_publication) sample_bc_world))"
proof (rule configuration_change_accounted)
  have "bw_store (snd after_publication) \<noteq> bw_store sample_bc_world"
    using sample_published(4,5) by (metis list.distinct(1) list.inject)
  then show "bw_store (snd (bc_call_run sample_bc_env (Publish_parameter_value sample_publication) sample_bc_world))
      \<noteq> bw_store sample_bc_world"
    unfolding bc_call_run.simps after_publication_def .
qed

lemma one_activation_in_effect_witness:
  "length (listEffectiveActivations ''crm.limit'' [wide_scope] ''2026-06-01T00:00:00.000Z''
     (run_all (bc_exec sample_bc_lib) sample_bc_ops empty_config)) \<le> 1"
  by (rule one_activation_in_effect) code_simp

definition sample_answer :: resolved where
  "sample_answer = \<lparr>rs_activation = Some (sample_uuid ''a'', ''2026-01-01T00:00:00.000Z'', None, wide_scope),
     rs_parameterKey = ''crm.limit'', rs_value = Config_flag True, rs_valueVersion = 1\<rparr>"

lemma sample_answered: "fst (resolveParameter sample_bc_env sample_bc_question sample_bc_world) = Inr sample_answer"
  by code_simp

lemma sample_asked: "isOk (bc_question_of sample_bc_lib sample_bc_question)"
  by code_simp


section \<open>A year of five digits\<close>


end
