(* ===== verification/AiData.thy ===== *)
theory AiData
  imports JsLib
begin

text \<open>
  The data of the AI gateway and its validation (\<open>packages/crm-modules/ai-gateway/src/\<close>: \<open>types.ts\<close>,
  \<open>errors.ts\<close>, \<open>validation.ts\<close>): use cases with their schemas, limits and policies, the invocations and
  confirmations of actors, proposals and call records. SHA-256, the text of a number and the
  compiler of JSON schemas are parameters; objects are plain data, without accessors.
\<close>

section \<open>Data\<close>

datatype ai_code =
    Ai_adapter_unavailable | Ai_budget_exceeded | Ai_confirmation_denied | Ai_data_policy_rejected | Ai_invalid_input
  | Ai_operation_conflict | Ai_output_invalid | Ai_proposal_expired | Ai_proposal_unavailable | Ai_use_case_unavailable

datatype ai_failure = Ai_error (ai_code_of: ai_code) (ai_retryable: bool)

abbreviation ai_down :: ai_failure where
  "ai_down \<equiv> Ai_error Ai_adapter_unavailable True"

abbreviation ai_refuse :: "ai_code \<Rightarrow> ai_failure + 'a" where
  "ai_refuse c \<equiv> Inl (Ai_error c False)"

datatype ai_actor_type = Ai_subject | Ai_system

record ai_actor =
  ai_actorId :: string
  ai_actorType :: ai_actor_type
  ai_assignmentId :: "string option"
  ai_workforcePersonId :: "string option"

type_synonym ai_members = "(string \<times> js_value) list"

record ai_use_case =
  au_budgetPolicyVersion :: string
  au_dataPolicyVersion :: string
  au_enabled :: bool
  au_inputSchema :: ai_members
  au_inputSchemaVersion :: string
  au_maximumCostMicros :: int
  au_maximumInputBytes :: int
  au_maximumOutputBytes :: int
  au_maximumTokens :: int
  au_modelPolicyVersion :: string
  au_outputSchema :: ai_members
  au_outputSchemaVersion :: string
  au_ownerReference :: string
  au_promptPolicyVersion :: string
  au_proposalTtlMs :: int
  au_useCaseId :: string

record ai_invocation =
  an_actor :: ai_actor
  an_input :: js_value
  an_operationId :: string
  an_resourceReference :: string
  an_traceId :: string
  an_useCaseId :: string

record ai_proposal =
  aq_expiresAt :: string
  aq_output :: js_value
  aq_outputDigest :: string
  aq_outputSchemaVersion :: string
  aq_proposalId :: string
  aq_useCaseId :: string

datatype ai_category = By_authorization | By_budget | By_dependency | By_output | By_policy

text \<open>What a call record says of the outcome: a proposal with its usage, or a failure.\<close>

datatype ai_outcome =
    Proposal_created string int string string int int
  | Call_failed ai_category ai_code bool

record ai_call =
  al_actorReference :: string
  al_actorType :: ai_actor_type
  al_adapterAttempts :: nat
  al_decisionId :: "string option"
  al_callId :: string
  al_inputDigest :: string
  al_operationId :: string
  al_resourceReference :: string
  al_traceId :: string
  al_useCase :: ai_use_case
  al_outcome :: ai_outcome

datatype ai_verdict = Verdict_accepted | Verdict_modified | Verdict_rejected

record ai_confirm =
  ac_actor :: ai_actor
  ac_decision :: ai_verdict
  ac_operationId :: string
  ac_proposalId :: string
  ac_reason :: "string option"
  ac_resourceReference :: string
  ac_traceId :: string
  ac_useCaseId :: string

record ai_confirmation =
  ak_confirmationId :: string
  ak_confirmedAt :: string
  ak_command :: ai_confirm

text \<open>\<open>al_ajv\<close> compiles a schema: it throws or gives the test of values.\<close>

record ai_lib =
  ab_sha256 :: "string \<Rightarrow> string"
  ab_numText :: "jsnum \<Rightarrow> string"
  ab_ajv :: "ai_members \<Rightarrow> string + (js_value \<Rightarrow> bool)"

section \<open>Plain data\<close>

definition ai_object :: "js_value \<Rightarrow> ai_failure + ai_members" where
  "ai_object v = (case v of JObject fs \<Rightarrow> Inr fs | _ \<Rightarrow> ai_refuse Ai_invalid_input)"

definition ai_exact :: "js_value \<Rightarrow> string list \<Rightarrow> string list \<Rightarrow> ai_failure + ai_members" where
  "ai_exact v required optional = bindE (ai_object v) (\<lambda>fs.
     if exactly required optional fs then Inr fs else ai_refuse Ai_invalid_input)"

definition ai_need :: "'a option \<Rightarrow> ai_failure + 'a" where
  "ai_need v = (case v of None \<Rightarrow> ai_refuse Ai_invalid_input | Some x \<Rightarrow> Inr x)"

text \<open>\<open>inspectPlainData\<close>, from the depth \<open>d\<close>.\<close>

definition ai_deep :: "nat \<Rightarrow> ai_code \<Rightarrow> ai_failure + unit \<Rightarrow> ai_failure + unit" where
  "ai_deep d code r = (if 20 < d then ai_refuse code else r)"

definition ai_small :: "'a list \<Rightarrow> ai_failure + unit \<Rightarrow> ai_failure + unit" where
  "ai_small xs r = (if 1000 < int (length xs) then ai_refuse Ai_data_policy_rejected else r)"

definition ai_all :: "('a \<Rightarrow> ai_failure + unit) \<Rightarrow> 'a list \<Rightarrow> ai_failure + unit" where
  "ai_all f xs = bindE (mapE f xs) (\<lambda>_. Inr ())"

lemma ai_all_cong [fundef_cong]: "xs = ys \<Longrightarrow> (\<And>x. x \<in> set ys \<Longrightarrow> f x = g x) \<Longrightarrow> ai_all f xs = ai_all g ys"
  unfolding ai_all_def by (metis mapE_cong)

lemma ai_all_eq [simp]: "ai_all f xs = Inr u \<longleftrightarrow> (\<forall>x \<in> set xs. f x = Inr ())"
  unfolding ai_all_def by (induction xs) (auto simp: bindE_eq_Inr)

fun inspectPlainData :: "nat \<Rightarrow> js_value \<Rightarrow> ai_failure + unit" where
  "inspectPlainData d JUndefined = ai_deep d Ai_data_policy_rejected (ai_refuse Ai_invalid_input)"
| "inspectPlainData d (JNumber n) =
     ai_deep d Ai_data_policy_rejected (if isFinite n then Inr () else ai_refuse Ai_invalid_input)"
| "inspectPlainData d (JArray vs) =
     ai_deep d Ai_data_policy_rejected (ai_small vs (ai_all (inspectPlainData (Suc d)) vs))"
| "inspectPlainData d (JObject fs) =
     ai_deep d Ai_data_policy_rejected (ai_small fs (ai_all (\<lambda>f. inspectPlainData (Suc d) (snd f)) fs))"
| "inspectPlainData d v = ai_deep d Ai_data_policy_rejected (Inr ())"

text \<open>\<open>canonical\<close>: the members of every object in the order of their names; no value without a JSON text.\<close>

fun ai_canonical :: "(jsnum \<Rightarrow> string) \<Rightarrow> js_value \<Rightarrow> ai_failure + string" where
  "ai_canonical num (JArray vs) = bindE (mapE (ai_canonical num) vs) (\<lambda>ts. Inr (''['' @ join '','' ts @ '']''))"
| "ai_canonical num (JObject fs) =
     bindE (mapE (\<lambda>f. bindE (ai_canonical num (snd f)) (\<lambda>t. Inr (fst f, json_quote (fst f) @ '':'' @ t))) fs) (\<lambda>ts.
     Inr (''{'' @ join '','' (map snd (sort_by (\<lambda>a b. str_lt (fst a) (fst b)) ts)) @ ''}''))"
| "ai_canonical num (JString s) = Inr (json_quote s)"
| "ai_canonical num (JNumber n) = (if isFinite n then Inr (num n) else ai_refuse Ai_invalid_input)"
| "ai_canonical num (JBool b) = Inr (if b then ''true'' else ''false'')"
| "ai_canonical num JNull = Inr ''null''"
| "ai_canonical num JUndefined = ai_refuse Ai_invalid_input"

definition ai_digest :: "ai_lib \<Rightarrow> js_value \<Rightarrow> ai_failure + string" where
  "ai_digest lib v = bindE (ai_canonical (ab_numText lib) v) (\<lambda>t. Inr (ab_sha256 lib t))"

text \<open>\<open>JSON.stringify\<close> of plain data, and \<open>JSON.parse\<close> of its canonical text: the same with sorted members.\<close>

fun ai_stringify :: "(jsnum \<Rightarrow> string) \<Rightarrow> js_value \<Rightarrow> string" where
  "ai_stringify num (JArray vs) = ''['' @ join '','' (map (ai_stringify num) vs) @ '']''"
| "ai_stringify num (JObject fs) =
     ''{'' @ join '','' (map (\<lambda>f. json_quote (fst f) @ '':'' @ ai_stringify num (snd f)) fs) @ ''}''"
| "ai_stringify num (JString s) = json_quote s"
| "ai_stringify num (JNumber n) = (if isFinite n then num n else ''null'')"
| "ai_stringify num (JBool b) = (if b then ''true'' else ''false'')"
| "ai_stringify num v = ''null''"

fun ai_sorted :: "js_value \<Rightarrow> js_value" where
  "ai_sorted (JArray vs) = JArray (map ai_sorted vs)"
| "ai_sorted (JObject fs) = JObject (sort_by (\<lambda>a b. str_lt (fst a) (fst b)) (map (\<lambda>f. (fst f, ai_sorted (snd f))) fs))"
| "ai_sorted v = v"

definition utf8_length :: "string \<Rightarrow> nat" where
  "utf8_length s = length s + length (filter (\<lambda>c. 128 \<le> (of_char c :: nat)) s)"

definition forbidden_key :: "string \<Rightarrow> bool" where
  "forbidden_key s = occurs (\<lambda>t. list_ex (\<lambda>w. begins_any_case w t)
     [''authorization'', ''cookie'', ''credential'', ''password'', ''prompt'', ''request'', ''response'', ''secret'',
      ''session'', ''token'']) s"

section \<open>Schemas\<close>

text \<open>The member of a schema that is looked at with its name.\<close>

definition schema_member_ok :: "string \<Rightarrow> js_value \<Rightarrow> ai_failure + unit" where
  "schema_member_ok k item =
     (if k \<in> set [''$dynamicRef'', ''$dynamicAnchor'', ''contentEncoding'', ''contentMediaType'']
         \<or> k = ''$ref'' \<and> text_where (\<lambda>s. take 2 s = ''#/'') item = None then ai_refuse Ai_invalid_input
      else if k = ''properties'' \<and> (case item of JObject fs \<Rightarrow> list_ex (\<lambda>f. forbidden_key (fst f)) fs | _ \<Rightarrow> False)
      then ai_refuse Ai_data_policy_rejected else Inr ())"

fun scanSchema :: "nat \<Rightarrow> js_value \<Rightarrow> ai_failure + unit" where
  "scanSchema d (JArray vs) = ai_deep d Ai_invalid_input (ai_all (scanSchema (Suc d)) vs)"
| "scanSchema d (JObject fs) = ai_deep d Ai_invalid_input
     (ai_all (\<lambda>f. bindE (schema_member_ok (fst f) (snd f)) (\<lambda>_. scanSchema (Suc d) (snd f))) fs)"
| "scanSchema d v = ai_deep d Ai_invalid_input (Inr ())"

definition ai_compile :: "ai_lib \<Rightarrow> ai_members \<Rightarrow> ai_failure + (js_value \<Rightarrow> bool)" where
  "ai_compile lib schema =
     bindE (inspectPlainData 0 (JObject schema)) (\<lambda>_.
     bindE (if int (length (ai_stringify (ab_numText lib) (JObject schema))) \<le> 64000
         \<and> js_field schema ''$schema'' = JString ''https://json-schema.org/draft/2020-12/schema''
       then Inr () else ai_refuse Ai_invalid_input) (\<lambda>_.
     bindE (scanSchema 0 (JObject schema)) (\<lambda>_.
     case ab_ajv lib schema of Inl _ \<Rightarrow> ai_refuse Ai_invalid_input | Inr test \<Rightarrow> Inr test)))"

section \<open>Use cases\<close>

definition version_ok :: "string \<Rightarrow> bool" where
  "version_ok = shape (lower @ digits) (lower @ digits @ ''_.:-'') 0 127"

definition use_case_id_ok :: "string \<Rightarrow> bool" where
  "use_case_id_ok = shape lower (lower @ digits @ ''_.-'') 2 127"

definition ai_text :: "(string \<Rightarrow> bool) \<Rightarrow> js_value \<Rightarrow> ai_failure + string" where
  "ai_text ok v = ai_need (text_where ok v)"

definition ai_uuid :: "js_value \<Rightarrow> ai_failure + string" where
  "ai_uuid v = bindE (ai_text uuid_any v) (\<lambda>s. Inr (map char_lower s))"

definition ai_positive :: "js_value \<Rightarrow> int \<Rightarrow> ai_failure + int" where
  "ai_positive v maximum = ai_need (int_between 1 maximum v)"

record validated_use_case =
  vu_registration :: ai_use_case
  vu_inputValidator :: "js_value \<Rightarrow> bool"
  vu_outputValidator :: "js_value \<Rightarrow> bool"

definition use_case_members :: "string list" where
  "use_case_members = [''budgetPolicyVersion'', ''dataPolicyVersion'', ''enabled'', ''inputSchema'', ''inputSchemaVersion'',
     ''maximumCostMicros'', ''maximumInputBytes'', ''maximumOutputBytes'', ''maximumTokens'', ''modelPolicyVersion'',
     ''outputSchema'', ''outputSchemaVersion'', ''ownerReference'', ''promptPolicyVersion'', ''proposalTtlMs'',
     ''requiresHumanConfirmation'', ''useCaseId'', ''version'']"

definition validateUseCase :: "ai_lib \<Rightarrow> js_value \<Rightarrow> ai_failure + validated_use_case" where
  "validateUseCase lib v =
     bindE (ai_exact v use_case_members []) (\<lambda>fs.
     let f = js_field fs in
     bindE (case (f ''version'', f ''requiresHumanConfirmation'', f ''enabled'') of
         (JNumber n, JBool True, JBool b) \<Rightarrow> if n = Fin 1 then Inr b else ai_refuse Ai_invalid_input
       | _ \<Rightarrow> ai_refuse Ai_invalid_input) (\<lambda>enabled.
     bindE (ai_text version_ok (f ''budgetPolicyVersion'')) (\<lambda>budget.
     bindE (ai_text version_ok (f ''dataPolicyVersion'')) (\<lambda>policy.
     bindE (ai_object (f ''inputSchema'')) (\<lambda>inputSchema.
     bindE (ai_text version_ok (f ''inputSchemaVersion'')) (\<lambda>inputVersion.
     bindE (ai_positive (f ''maximumCostMicros'') 1000000000) (\<lambda>cost.
     bindE (ai_positive (f ''maximumInputBytes'') 1000000) (\<lambda>inputBytes.
     bindE (ai_positive (f ''maximumOutputBytes'') 1000000) (\<lambda>outputBytes.
     bindE (ai_positive (f ''maximumTokens'') 1000000) (\<lambda>tokens.
     bindE (ai_text version_ok (f ''modelPolicyVersion'')) (\<lambda>model.
     bindE (ai_object (f ''outputSchema'')) (\<lambda>outputSchema.
     bindE (ai_text version_ok (f ''outputSchemaVersion'')) (\<lambda>outputVersion.
     bindE (ai_text reference_ok (f ''ownerReference'')) (\<lambda>owner.
     bindE (ai_text version_ok (f ''promptPolicyVersion'')) (\<lambda>prompt.
     bindE (ai_positive (f ''proposalTtlMs'') 86400000) (\<lambda>ttl.
     bindE (ai_text use_case_id_ok (f ''useCaseId'')) (\<lambda>i.
     bindE (ai_compile lib inputSchema) (\<lambda>testInput.
     bindE (ai_compile lib outputSchema) (\<lambda>testOutput.
     Inr \<lparr>vu_registration = \<lparr>au_budgetPolicyVersion = budget, au_dataPolicyVersion = policy, au_enabled = enabled,
         au_inputSchema = inputSchema, au_inputSchemaVersion = inputVersion, au_maximumCostMicros = cost,
         au_maximumInputBytes = inputBytes, au_maximumOutputBytes = outputBytes, au_maximumTokens = tokens,
         au_modelPolicyVersion = model, au_outputSchema = outputSchema, au_outputSchemaVersion = outputVersion,
         au_ownerReference = owner, au_promptPolicyVersion = prompt, au_proposalTtlMs = ttl, au_useCaseId = i\<rparr>,
       vu_inputValidator = testInput, vu_outputValidator = testOutput\<rparr>)))))))))))))))))))"

section \<open>Invocations, outputs and confirmations\<close>

fun scan_values :: "nat \<Rightarrow> js_value \<Rightarrow> ai_failure + unit" where
  "scan_values d (JArray vs) = ai_deep d Ai_data_policy_rejected (ai_small vs (ai_all (scan_values (Suc d)) vs))"
| "scan_values d (JObject fs) = ai_deep d Ai_data_policy_rejected (ai_small fs
     (if list_ex (\<lambda>f. forbidden_key (fst f)) fs then ai_refuse Ai_data_policy_rejected
      else ai_all (\<lambda>f. scan_values (Suc d) (snd f)) fs))"
| "scan_values d (JNumber n) =
     ai_deep d Ai_data_policy_rejected (if isFinite n then Inr () else ai_refuse Ai_invalid_input)"
| "scan_values d JUndefined = ai_deep d Ai_data_policy_rejected (ai_refuse Ai_invalid_input)"
| "scan_values d v = ai_deep d Ai_data_policy_rejected (Inr ())"

definition safeJson :: "ai_lib \<Rightarrow> js_value \<Rightarrow> int \<Rightarrow> ai_failure + js_value" where
  "safeJson lib v maximumBytes =
     bindE (case bindE (inspectPlainData 0 v) (\<lambda>_. ai_canonical (ab_numText lib) v) of
         Inl _ \<Rightarrow> ai_refuse Ai_invalid_input | Inr t \<Rightarrow> Inr t) (\<lambda>encoded.
     bindE (if maximumBytes < int (utf8_length encoded) then ai_refuse Ai_data_policy_rejected else Inr ()) (\<lambda>_.
     bindE (scan_values 0 v) (\<lambda>_. Inr (ai_sorted v))))"

definition ai_actor_of :: "js_value \<Rightarrow> ai_failure + ai_actor" where
  "ai_actor_of v =
     bindE (ai_exact v [''actorId'', ''actorType''] [''assignmentId'', ''workforcePersonId'']) (\<lambda>fs.
     bindE (case js_field fs ''actorType'' of
         JString s \<Rightarrow> if s = ''authenticated_subject'' then Inr Ai_subject
           else if s = ''system'' then Inr Ai_system else ai_refuse Ai_invalid_input
       | _ \<Rightarrow> ai_refuse Ai_invalid_input) (\<lambda>actorType.
     bindE (ai_text reference_ok (js_field fs ''actorId'')) (\<lambda>actorId.
     bindE (case js_field fs ''assignmentId'' of JUndefined \<Rightarrow> Inr None | v \<Rightarrow> bindE (ai_uuid v) (\<lambda>i. Inr (Some i))) (\<lambda>assignment.
     bindE (case js_field fs ''workforcePersonId'' of JUndefined \<Rightarrow> Inr None | v \<Rightarrow> bindE (ai_uuid v) (\<lambda>i. Inr (Some i))) (\<lambda>person.
     Inr \<lparr>ai_actorId = actorId, ai_actorType = actorType, ai_assignmentId = assignment, ai_workforcePersonId = person\<rparr>)))))"

definition validateInvocation :: "ai_lib \<Rightarrow> js_value \<Rightarrow> validated_use_case \<Rightarrow> ai_failure + ai_invocation" where
  "validateInvocation lib v uc =
     bindE (ai_exact v [''actor'', ''dataClassification'', ''input'', ''operationId'', ''resourceReference'', ''traceId'', ''useCaseId''] [])
       (\<lambda>fs.
     bindE (if js_field fs ''dataClassification'' = JString ''synthetic'' then Inr () else ai_refuse Ai_data_policy_rejected) (\<lambda>_.
     bindE (safeJson lib (js_field fs ''input'') (au_maximumInputBytes (vu_registration uc))) (\<lambda>input.
     bindE (if vu_inputValidator uc input then Inr () else ai_refuse Ai_data_policy_rejected) (\<lambda>_.
     bindE (ai_actor_of (js_field fs ''actor'')) (\<lambda>a.
     bindE (ai_uuid (js_field fs ''operationId'')) (\<lambda>operationId.
     bindE (ai_text reference_ok (js_field fs ''resourceReference'')) (\<lambda>resource.
     bindE (ai_text trace_ok (js_field fs ''traceId'')) (\<lambda>trace.
     bindE (ai_text use_case_id_ok (js_field fs ''useCaseId'')) (\<lambda>i.
     Inr \<lparr>an_actor = a, an_input = input, an_operationId = operationId, an_resourceReference = resource,
       an_traceId = trace, an_useCaseId = i\<rparr>)))))))))"

definition validateOutput :: "ai_lib \<Rightarrow> js_value \<Rightarrow> validated_use_case \<Rightarrow> ai_failure + js_value" where
  "validateOutput lib v uc =
     (case safeJson lib v (au_maximumOutputBytes (vu_registration uc)) of
        Inl _ \<Rightarrow> ai_refuse Ai_output_invalid
      | Inr output \<Rightarrow> if vu_outputValidator uc output then Inr output else ai_refuse Ai_output_invalid)"

definition verdict_of :: "js_value \<Rightarrow> ai_failure + ai_verdict" where
  "verdict_of v = (case v of
     JString s \<Rightarrow> if s = ''accepted'' then Inr Verdict_accepted else if s = ''modified'' then Inr Verdict_modified
       else if s = ''rejected'' then Inr Verdict_rejected else ai_refuse Ai_invalid_input
   | _ \<Rightarrow> ai_refuse Ai_invalid_input)"

definition validateConfirmation :: "js_value \<Rightarrow> ai_failure + ai_confirm" where
  "validateConfirmation v =
     bindE (ai_exact v [''actor'', ''decision'', ''operationId'', ''proposalId'', ''resourceReference'', ''traceId'', ''useCaseId'']
       [''reason'']) (\<lambda>fs.
     bindE (verdict_of (js_field fs ''decision'')) (\<lambda>decision.
     bindE (case js_field fs ''reason'' of JUndefined \<Rightarrow> Inr None
       | r \<Rightarrow> bindE (ai_text (\<lambda>s. s \<noteq> [] \<and> length s \<le> 500) r) (\<lambda>s. Inr (Some s))) (\<lambda>reason.
     bindE (ai_actor_of (js_field fs ''actor'')) (\<lambda>a.
     bindE (if ai_actorType a = Ai_subject then Inr () else ai_refuse Ai_invalid_input) (\<lambda>_.
     bindE (ai_uuid (js_field fs ''operationId'')) (\<lambda>operationId.
     bindE (ai_uuid (js_field fs ''proposalId'')) (\<lambda>proposalId.
     bindE (ai_text reference_ok (js_field fs ''resourceReference'')) (\<lambda>resource.
     bindE (ai_text trace_ok (js_field fs ''traceId'')) (\<lambda>trace.
     bindE (ai_text use_case_id_ok (js_field fs ''useCaseId'')) (\<lambda>i.
     Inr \<lparr>ac_actor = a, ac_decision = decision, ac_operationId = operationId, ac_proposalId = proposalId, ac_reason = reason,
       ac_resourceReference = resource, ac_traceId = trace, ac_useCaseId = i\<rparr>))))))))))"

section \<open>Fingerprints\<close>

definition ai_opt_member :: "string \<Rightarrow> string option \<Rightarrow> ai_members" where
  "ai_opt_member k v = (case v of None \<Rightarrow> [] | Some s \<Rightarrow> [(k, JString s)])"

definition ai_actor_js :: "ai_actor \<Rightarrow> js_value" where
  "ai_actor_js a = JObject ([(''actorId'', JString (ai_actorId a)),
     (''actorType'', JString (case ai_actorType a of Ai_subject \<Rightarrow> ''authenticated_subject'' | Ai_system \<Rightarrow> ''system''))]
     @ ai_opt_member ''assignmentId'' (ai_assignmentId a) @ ai_opt_member ''workforcePersonId'' (ai_workforcePersonId a))"

definition invocationFingerprint :: "ai_lib \<Rightarrow> ai_invocation \<Rightarrow> ai_failure + string" where
  "invocationFingerprint lib c = ai_digest lib (JObject [(''actor'', ai_actor_js (an_actor c)),
     (''dataClassification'', JString ''synthetic''), (''input'', an_input c), (''operationId'', JString (an_operationId c)),
     (''resourceReference'', JString (an_resourceReference c)), (''useCaseId'', JString (an_useCaseId c))])"

definition verdict_name :: "ai_verdict \<Rightarrow> string" where
  "verdict_name v = (case v of Verdict_accepted \<Rightarrow> ''accepted'' | Verdict_modified \<Rightarrow> ''modified'' | Verdict_rejected \<Rightarrow> ''rejected'')"

definition confirmationFingerprint :: "ai_lib \<Rightarrow> ai_confirm \<Rightarrow> ai_failure + string" where
  "confirmationFingerprint lib c = ai_digest lib (JObject ([(''actor'', ai_actor_js (ac_actor c)),
     (''decision'', JString (verdict_name (ac_decision c))), (''operationId'', JString (ac_operationId c)),
     (''proposalId'', JString (ac_proposalId c))] @ ai_opt_member ''reason'' (ac_reason c)
     @ [(''resourceReference'', JString (ac_resourceReference c)), (''useCaseId'', JString (ac_useCaseId c))]))"

end
