(* ===== verification/AiGateway.thy ===== *)
theory AiGateway
  imports AiData
begin

text \<open>
  The AI gateway (\<open>packages/crm-modules/ai-gateway/src/service.ts\<close>). Its state are the operations and
  confirmations with their promises, running or settled, and the proposals. An invocation registers its
  operation before it first waits and settles it at the end; between the two others may invoke, join and
  confirm. Calls of the ports are logged beside the state.
\<close>

section \<open>State\<close>

text \<open>A promise that is shared by all who wait for it.\<close>

datatype 'a promise = Running | Settled "ai_failure + 'a"

record ai_world =
  aw_operations :: "(string, string \<times> (ai_call \<times> ai_proposal) promise) jsmap"
  aw_commands :: "(string, ai_invocation) jsmap"
  aw_proposals :: "(string, ai_proposal \<times> string) jsmap"
  aw_confirmations :: "(string, string \<times> ai_confirm \<times> int \<times> ai_confirmation promise) jsmap"
  aw_reserved :: "string list"
  aw_invoked :: "string list"
  aw_records :: "ai_call list"

type_synonym 'a ai_act = "(ai_world, ai_failure, 'a) act"

definition empty_gateway :: ai_world where
  "empty_gateway = \<lparr>aw_operations = [], aw_commands = [], aw_proposals = [], aw_confirmations = [], aw_reserved = [],
     aw_invoked = [], aw_records = []\<rparr>"

text \<open>
  What the ports answer during one execution; \<open>Inl\<close> when they reject. The adapter may reject with an
  error of the gateway's own.
\<close>

record ai_ports =
  ap_callId :: string
  ap_authorize :: "string + js_value"
  ap_reserve :: "string + js_value"
  ap_adapter :: "(ai_failure option) + js_value"
  ap_now :: "int option"
  ap_newId :: string
  ap_recordFails :: "ai_call \<Rightarrow> bool"

text \<open>The service: the library and the use cases it was created with.\<close>

record ai_service =
  as_lib :: ai_lib
  as_useCases :: "(string, validated_use_case) jsmap"

fun register_use_cases ::
  "ai_lib \<Rightarrow> js_value list \<Rightarrow> (string, validated_use_case) jsmap \<Rightarrow> ai_failure + (string, validated_use_case) jsmap" where
  "register_use_cases lib [] m = Inr m"
| "register_use_cases lib (v # vs) m =
     bindE (validateUseCase lib v) (\<lambda>uc.
     if jm_has m (au_useCaseId (vu_registration uc)) then ai_refuse Ai_invalid_input
     else register_use_cases lib vs (jm_set m (au_useCaseId (vu_registration uc)) uc))"

definition createAiGatewayService :: "ai_lib \<Rightarrow> js_value list \<Rightarrow> ai_failure + ai_service" where
  "createAiGatewayService lib vs = bindE (register_use_cases lib vs []) (\<lambda>m. Inr \<lparr>as_lib = lib, as_useCases = m\<rparr>)"

section \<open>What the ports answer\<close>

definition portObject :: "js_value \<Rightarrow> string list \<Rightarrow> string list \<Rightarrow> ai_failure + ai_members" where
  "portObject v required optional = (case v of
     JObject fs \<Rightarrow> if exactly required optional fs then Inr fs else Inl ai_down | _ \<Rightarrow> Inl ai_down)"

definition ai_authorize :: "ai_ports \<Rightarrow> ai_failure + bool \<times> string" where
  "ai_authorize ports =
     bindE (case ap_authorize ports of Inl _ \<Rightarrow> Inl ai_down | Inr v \<Rightarrow> portObject v [''allowed'', ''decisionId''] []) (\<lambda>fs.
     case (js_field fs ''allowed'', text_where uuid_any (js_field fs ''decisionId'')) of
       (JBool b, Some i) \<Rightarrow> Inr (b, map char_lower i) | _ \<Rightarrow> Inl ai_down)"

definition ai_reservation :: "ai_ports \<Rightarrow> ai_failure + unit" where
  "ai_reservation ports =
     bindE (case ap_reserve ports of Inl _ \<Rightarrow> Inl ai_down | Inr v \<Rightarrow> portObject v [''allowed''] [''reservationId'']) (\<lambda>fs.
     case js_field fs ''allowed'' of
       JBool False \<Rightarrow> if js_field fs ''reservationId'' \<noteq> JUndefined then Inl ai_down else ai_refuse Ai_budget_exceeded
     | JBool True \<Rightarrow> (case text_where (\<lambda>s. 1 \<le> length s \<and> length s \<le> 128) (js_field fs ''reservationId'') of
         None \<Rightarrow> Inl ai_down | Some _ \<Rightarrow> Inr ())
     | _ \<Rightarrow> Inl ai_down)"

record ai_result =
  ar_adapterVersion :: string
  ar_costMicros :: int
  ar_inputTokens :: int
  ar_outputTokens :: int
  ar_output :: js_value

text \<open>The adapter's result, when it is well formed and within the limits of the use case.\<close>

definition ai_adapter_result :: "ai_lib \<Rightarrow> validated_use_case \<Rightarrow> js_value \<Rightarrow> ai_failure + ai_result" where
  "ai_adapter_result lib uc v =
     (case bindE (portObject v [''adapterVersion'', ''structuredOutput'', ''usage''] []) (\<lambda>fs.
         bindE (portObject (js_field fs ''usage'') [''costMicros'', ''inputTokens'', ''outputTokens''] []) (\<lambda>us. Inr (fs, us))) of
        Inl _ \<Rightarrow> ai_refuse Ai_output_invalid
      | Inr (fs, us) \<Rightarrow>
          (case (int_between 0 max_safe (js_field us ''inputTokens''), int_between 0 max_safe (js_field us ''outputTokens''),
                 int_between 0 max_safe (js_field us ''costMicros''), text_where version_ok (js_field fs ''adapterVersion'')) of
             (Some i, Some out, Some cost, Some version) \<Rightarrow>
               if i + out \<le> au_maximumTokens (vu_registration uc) \<and> cost \<le> au_maximumCostMicros (vu_registration uc)
               then bindE (validateOutput lib (js_field fs ''structuredOutput'') uc) (\<lambda>output.
                 Inr \<lparr>ar_adapterVersion = version, ar_costMicros = cost, ar_inputTokens = i, ar_outputTokens = out,
                   ar_output = output\<rparr>)
               else ai_refuse Ai_output_invalid
           | _ \<Rightarrow> ai_refuse Ai_output_invalid))"

definition failedCategory :: "ai_code \<Rightarrow> ai_category" where
  "failedCategory c = (case c of
     Ai_use_case_unavailable \<Rightarrow> By_authorization | Ai_confirmation_denied \<Rightarrow> By_authorization
   | Ai_budget_exceeded \<Rightarrow> By_budget | Ai_output_invalid \<Rightarrow> By_output
   | Ai_data_policy_rejected \<Rightarrow> By_policy | Ai_invalid_input \<Rightarrow> By_policy | _ \<Rightarrow> By_dependency)"

definition recordCall :: "ai_ports \<Rightarrow> ai_call \<Rightarrow> unit ai_act" where
  "recordCall ports c w = (if ap_recordFails ports c then (Inl ai_down, w) else (Inr (), w\<lparr>aw_records := aw_records w @ [c]\<rparr>))"

section \<open>One execution\<close>

text \<open>The steps of an execution that can fail leave how far it came: the attempts and the decision.\<close>

record ai_progress =
  ag_attempts :: nat
  ag_decisionId :: "string option"

definition call_of ::
  "validated_use_case \<Rightarrow> ai_invocation \<Rightarrow> string \<Rightarrow> string \<Rightarrow> ai_progress \<Rightarrow> ai_outcome \<Rightarrow> ai_call" where
  "call_of uc c callId inputDigest p outcome =
     \<lparr>al_actorReference = ai_actorId (an_actor c), al_actorType = ai_actorType (an_actor c),
      al_adapterAttempts = ag_attempts p, al_decisionId = ag_decisionId p, al_callId = map char_lower callId,
      al_inputDigest = inputDigest, al_operationId = an_operationId c, al_resourceReference = an_resourceReference c,
      al_traceId = an_traceId c, al_useCase = vu_registration uc, al_outcome = outcome\<rparr>"

text \<open>From the adapter's answer to the stored proposal.\<close>

definition ai_propose ::
  "ai_service \<Rightarrow> validated_use_case \<Rightarrow> ai_invocation \<Rightarrow> ai_ports \<Rightarrow> string \<Rightarrow> ai_progress \<Rightarrow> (ai_call \<times> ai_proposal) ai_act" where
  "ai_propose sv uc c ports inputDigest p =
     bindA (liftA (case ap_adapter ports of
         Inl None \<Rightarrow> Inl ai_down | Inl (Some e) \<Rightarrow> Inl e | Inr v \<Rightarrow> Inr v)) (\<lambda>answer.
     bindA (liftA (ai_adapter_result (as_lib sv) uc answer)) (\<lambda>r.
     bindA (requireA (ap_now ports) ai_down) (\<lambda>now.
     bindA (ensureA (uuid_any (ap_newId ports)) ai_down) (\<lambda>_.
     bindA (liftA (ai_digest (as_lib sv) (ar_output r))) (\<lambda>outputDigest.
     bindA (ensureA (\<bar>now + au_proposalTtlMs (vu_registration uc)\<bar> \<le> 8640000000000000) ai_down) (\<lambda>_.
     let proposal = \<lparr>aq_expiresAt = any_iso (now + au_proposalTtlMs (vu_registration uc)), aq_output = ar_output r,
           aq_outputDigest = outputDigest, aq_outputSchemaVersion = au_outputSchemaVersion (vu_registration uc),
           aq_proposalId = map char_lower (ap_newId ports), aq_useCaseId = an_useCaseId c\<rparr>;
         call = call_of uc c (ap_callId ports) inputDigest p
           (Proposal_created (ar_adapterVersion r) (ar_costMicros r) outputDigest (aq_proposalId proposal)
             (ar_inputTokens r) (ar_outputTokens r)) in
     bindA (recordCall ports call) (\<lambda>_.
     bindA (modifyA (\<lambda>w. w\<lparr>aw_proposals := jm_set (aw_proposals w) (aq_proposalId proposal)
         (proposal, an_resourceReference c)\<rparr>)) (\<lambda>_.
     retA (call, proposal)))))))))"

definition ai_failed ::
  "validated_use_case \<Rightarrow> ai_invocation \<Rightarrow> ai_ports \<Rightarrow> string \<Rightarrow> ai_progress \<Rightarrow> ai_failure \<Rightarrow> 'a ai_act" where
  "ai_failed uc c ports inputDigest p e =
     bindA (recordCall ports (call_of uc c (ap_callId ports) inputDigest p
       (Call_failed (failedCategory (ai_code_of e)) (ai_code_of e) (ai_retryable e)))) (\<lambda>_. throwA e)"

definition ai_execute ::
  "ai_service \<Rightarrow> validated_use_case \<Rightarrow> ai_invocation \<Rightarrow> ai_ports \<Rightarrow> (ai_call \<times> ai_proposal) ai_act" where
  "ai_execute sv uc c ports =
     bindA (ensureA (uuid_any (ap_callId ports)) ai_down) (\<lambda>_.
     bindA (liftA (ai_digest (as_lib sv) (an_input c))) (\<lambda>inputDigest.
     case ai_authorize ports of
       Inl e \<Rightarrow> ai_failed uc c ports inputDigest \<lparr>ag_attempts = 0, ag_decisionId = None\<rparr> e
     | Inr (allowed, decisionId) \<Rightarrow>
         (let p = \<lparr>ag_attempts = 0, ag_decisionId = Some decisionId\<rparr> in
          if \<not> allowed then ai_failed uc c ports inputDigest p (Ai_error Ai_use_case_unavailable False)
          else bindA (modifyA (\<lambda>w. w\<lparr>aw_reserved := aw_reserved w @ [an_operationId c]\<rparr>)) (\<lambda>_.
          case ai_reservation ports of
            Inl e \<Rightarrow> ai_failed uc c ports inputDigest p e
          | Inr _ \<Rightarrow>
              bindA (modifyA (\<lambda>w. w\<lparr>aw_invoked := aw_invoked w @ [an_operationId c]\<rparr>)) (\<lambda>_.
              catchA (ai_propose sv uc c ports inputDigest (p\<lparr>ag_attempts := 1\<rparr>))
                (ai_failed uc c ports inputDigest (p\<lparr>ag_attempts := 1\<rparr>)))))))"

section \<open>The operations\<close>

text \<open>What an invocation comes to before it waits: it starts an execution, or joins one.\<close>

datatype ai_entry = Started string | Joined string

definition find_use_case :: "ai_service \<Rightarrow> js_value \<Rightarrow> ai_failure + validated_use_case" where
  "find_use_case sv v = bindE (ai_object v) (\<lambda>fs.
     case js_field fs ''useCaseId'' of
       JString i \<Rightarrow> (case jm_get (as_useCases sv) i of
           Some uc \<Rightarrow> if au_enabled (vu_registration uc) then Inr uc else ai_refuse Ai_use_case_unavailable
         | None \<Rightarrow> ai_refuse Ai_use_case_unavailable)
     | _ \<Rightarrow> ai_refuse Ai_invalid_input)"

definition invoke_start :: "ai_service \<Rightarrow> js_value \<Rightarrow> ai_entry ai_act" where
  "invoke_start sv v =
     bindA (liftA (find_use_case sv v)) (\<lambda>uc.
     bindA (liftA (validateInvocation (as_lib sv) v uc)) (\<lambda>c.
     bindA (liftA (invocationFingerprint (as_lib sv) c)) (\<lambda>fp.
     bindA (getsA (\<lambda>w. jm_get (aw_operations w) (an_operationId c))) (\<lambda>prior.
     case prior of
       Some (f, _) \<Rightarrow> if f \<noteq> fp then throwA (Ai_error Ai_operation_conflict False) else retA (Joined (an_operationId c))
     | None \<Rightarrow>
         bindA (modifyA (\<lambda>w. w\<lparr>aw_operations := jm_set (aw_operations w) (an_operationId c) (fp, Running),
           aw_commands := jm_set (aw_commands w) (an_operationId c) c\<rparr>)) (\<lambda>_. retA (Started (an_operationId c)))))))"

text \<open>A running execution ends: its promise settles with what it returned or threw.\<close>

definition invoke_settle :: "ai_service \<Rightarrow> string \<Rightarrow> ai_ports \<Rightarrow> ai_entry ai_act" where
  "invoke_settle sv i ports w =
     (case (jm_get (aw_operations w) i, jm_get (aw_commands w) i) of
        (Some (fp, Running), Some c) \<Rightarrow>
          (case jm_get (as_useCases sv) (an_useCaseId c) of
             None \<Rightarrow> (Inr (Joined i), w)
           | Some uc \<Rightarrow> (case ai_execute sv uc c ports w of
               (r, w') \<Rightarrow> (Inr (Joined i), w'\<lparr>aw_operations := jm_set (aw_operations w') i (fp, Settled r)\<rparr>)))
      | _ \<Rightarrow> (Inr (Joined i), w))"

definition proposal_for :: "ai_confirm \<Rightarrow> ai_world \<Rightarrow> ai_proposal option" where
  "proposal_for c w = (case jm_get (aw_proposals w) (ac_proposalId c) of
     Some (p, resource) \<Rightarrow> if aq_useCaseId p = ac_useCaseId c \<and> resource = ac_resourceReference c then Some p else None
   | None \<Rightarrow> None)"

definition any_parse :: "string \<Rightarrow> int option" where
  "any_parse s = (case parse_expanded s of Some t \<Rightarrow> Some t | None \<Rightarrow> parse_iso s)"

definition confirm_start :: "ai_service \<Rightarrow> js_value \<Rightarrow> int option \<Rightarrow> ai_entry ai_act" where
  "confirm_start sv v now =
     bindA (liftA (validateConfirmation v)) (\<lambda>c.
     bindA (liftA (confirmationFingerprint (as_lib sv) c)) (\<lambda>fp.
     bindA (getsA (\<lambda>w. jm_get (aw_confirmations w) (ac_operationId c))) (\<lambda>prior.
     case prior of
       Some (f, _) \<Rightarrow> if f \<noteq> fp then throwA (Ai_error Ai_operation_conflict False) else retA (Joined (ac_operationId c))
     | None \<Rightarrow>
         bindA (getsA (proposal_for c)) (\<lambda>found.
         bindA (requireA found (Ai_error Ai_proposal_unavailable False)) (\<lambda>p.
         bindA (ensureA (case jm_get (as_useCases sv) (ac_useCaseId c) of
             None \<Rightarrow> False | Some uc \<Rightarrow> au_enabled (vu_registration uc)) (Ai_error Ai_use_case_unavailable False)) (\<lambda>_.
         bindA (requireA now ai_down) (\<lambda>t.
         bindA (ensureA (\<not> time_le (any_parse (aq_expiresAt p)) (Some t)) (Ai_error Ai_proposal_expired False)) (\<lambda>_.
         bindA (modifyA (\<lambda>w. w\<lparr>aw_confirmations := jm_set (aw_confirmations w) (ac_operationId c) (fp, c, t, Running)\<rparr>)) (\<lambda>_.
         retA (Started (ac_operationId c)))))))))))"

definition confirm_work :: "ai_confirm \<Rightarrow> int \<Rightarrow> ai_ports \<Rightarrow> ai_failure + ai_confirmation" where
  "confirm_work c t ports =
     bindE (ai_authorize ports) (\<lambda>(allowed, decisionId).
     bindE (if allowed then Inr () else ai_refuse Ai_confirmation_denied) (\<lambda>_.
     bindE (if uuid_any (ap_newId ports) then Inr () else Inl ai_down) (\<lambda>_.
     Inr \<lparr>ak_confirmationId = map char_lower (ap_newId ports), ak_confirmedAt = any_iso t, ak_command = c\<rparr>)))"

text \<open>A confirmation that failed is forgotten.\<close>

definition confirm_settle :: "string \<Rightarrow> ai_ports \<Rightarrow> ai_entry ai_act" where
  "confirm_settle i ports w =
     (case jm_get (aw_confirmations w) i of
        Some (fp, c, t, Running) \<Rightarrow>
          (Inr (Joined i), w\<lparr>aw_confirmations := (case confirm_work c t ports of
             Inl e \<Rightarrow> jm_delete (aw_confirmations w) i
           | Inr k \<Rightarrow> jm_set (aw_confirmations w) i (fp, c, t, Settled (Inr k)))\<rparr>)
      | _ \<Rightarrow> (Inr (Joined i), w))"

text \<open>What may happen to a gateway.\<close>

datatype ai_event =
    Invoke js_value
  | Invocation_ends string ai_ports
  | Confirm js_value "int option"
  | Confirmation_ends string ai_ports

fun ai_step :: "ai_service \<Rightarrow> ai_event \<Rightarrow> ai_entry ai_act" where
  "ai_step sv (Invoke v) = invoke_start sv v"
| "ai_step sv (Invocation_ends i ports) = invoke_settle sv i ports"
| "ai_step sv (Confirm v now) = confirm_start sv v now"
| "ai_step sv (Confirmation_ends i ports) = confirm_settle i ports"

end
