(* ===== verification/AiProps.thy ===== *)
theory AiProps
  imports AiGateway
begin

text \<open>
  What the AI gateway promises: an operation is charged and sent to the model at most once, its outcome is final, a
  proposal has a valid output within the limits of its use case and an allowed decision, and only persons
  confirm, what was proposed for that use case and resource.
\<close>

section \<open>One execution\<close>

text \<open>The proposal is within what its use case allows, and the call record says so.\<close>

definition issued :: "ai_service \<Rightarrow> ai_invocation \<Rightarrow> validated_use_case \<Rightarrow> ai_call \<Rightarrow> ai_proposal \<Rightarrow> bool" where
  "issued sv c uc call p \<longleftrightarrow> vu_outputValidator uc (aq_output p) \<and> aq_useCaseId p = an_useCaseId c
     \<and> al_useCase call = vu_registration uc \<and> al_resourceReference call = an_resourceReference c
     \<and> al_operationId call = an_operationId c \<and> al_decisionId call \<noteq> None
     \<and> (\<exists>v cost d i out. al_outcome call = Proposal_created v cost d (aq_proposalId p) i out
          \<and> i + out \<le> au_maximumTokens (vu_registration uc) \<and> cost \<le> au_maximumCostMicros (vu_registration uc)
          \<and> d = aq_outputDigest p \<and> ai_digest (as_lib sv) (aq_output p) = Inr d)"

lemma failed_result:
  assumes "ai_failed uc c ports d p e w = (r, w')"
  shows "\<exists>e' cs. r = Inl e' \<and> w' = w\<lparr>aw_records := aw_records w @ cs\<rparr>"
proof (cases "ap_recordFails ports (call_of uc c (ap_callId ports) d p
    (Call_failed (failedCategory (ai_code_of e)) (ai_code_of e) (ai_retryable e)))")
  case True
  with assms have "r = Inl ai_down \<and> w' = w\<lparr>aw_records := aw_records w @ []\<rparr>"
    by (simp add: ai_failed_def bindA_def recordCall_def)
  then show ?thesis by blast
next
  case False
  with assms show ?thesis by (auto simp: ai_failed_def bindA_def recordCall_def)
qed

lemma adapter_result_ok:
  assumes "ai_adapter_result lib uc v = Inr r"
  shows "ar_inputTokens r + ar_outputTokens r \<le> au_maximumTokens (vu_registration uc)"
    and "ar_costMicros r \<le> au_maximumCostMicros (vu_registration uc)" and "vu_outputValidator uc (ar_output r)"
  using assms unfolding ai_adapter_result_def validateOutput_def
  by (auto simp: bindE_eq_Inr split: sum.splits option.splits prod.splits if_splits)

lemma propose_result:
  assumes "ai_propose sv uc c ports d p w = (r, w')" and "ag_decisionId p \<noteq> None"
  shows "(\<exists>e. r = Inl e \<and> w' = w) \<or> (\<exists>call q. r = Inr (call, q) \<and> issued sv c uc call q
    \<and> w' = w\<lparr>aw_records := aw_records w @ [call],
        aw_proposals := jm_set (aw_proposals w) (aq_proposalId q) (q, an_resourceReference c)\<rparr>)"
proof (cases r)
  case (Inl e)
  have "w' = w"
    using assms(1) Inl unfolding ai_propose_def Let_def by (auto simp: bindA_eq_Inl recordCall_def split: if_splits)
  with Inl show ?thesis by blast
next
  case (Inr x)
  with assms(1) obtain v res now dig where
      res: "ai_adapter_result (as_lib sv) uc v = Inr res" and dig: "ai_digest (as_lib sv) (ar_output res) = Inr dig"
    and x: "x = (call_of uc c (ap_callId ports) d p (Proposal_created (ar_adapterVersion res) (ar_costMicros res) dig
          (map char_lower (ap_newId ports)) (ar_inputTokens res) (ar_outputTokens res)),
        \<lparr>aq_expiresAt = any_iso (now + au_proposalTtlMs (vu_registration uc)), aq_output = ar_output res,
         aq_outputDigest = dig, aq_outputSchemaVersion = au_outputSchemaVersion (vu_registration uc),
         aq_proposalId = map char_lower (ap_newId ports), aq_useCaseId = an_useCaseId c\<rparr>)"
    and w': "w' = w\<lparr>aw_records := aw_records w @ [fst x],
        aw_proposals := jm_set (aw_proposals w) (aq_proposalId (snd x)) (snd x, an_resourceReference c)\<rparr>"
    unfolding ai_propose_def Let_def by (auto simp: bindA_eq_Inr recordCall_def split: if_splits)
  have "issued sv c uc (fst x) (snd x)"
    using adapter_result_ok [OF res] assms(2) dig by (simp add: issued_def x call_of_def)
  with Inr w' show ?thesis by (cases x) auto
qed

text \<open>An execution appends to the logs, and stores a proposal only with its call record.\<close>

definition effect :: "ai_service \<Rightarrow> ai_invocation \<Rightarrow> validated_use_case \<Rightarrow> ai_world \<Rightarrow>
    (ai_failure + ai_call \<times> ai_proposal) \<Rightarrow> ai_world \<Rightarrow> bool" where
  "effect sv c uc w r w' \<longleftrightarrow> (\<exists>res sent cs ps. (res = [] \<or> res = [an_operationId c]) \<and> (sent = [] \<or> sent = [an_operationId c])
     \<and> w' = w\<lparr>aw_reserved := aw_reserved w @ res, aw_invoked := aw_invoked w @ sent,
          aw_records := aw_records w @ cs, aw_proposals := ps\<rparr>
     \<and> (case r of Inl e \<Rightarrow> ps = aw_proposals w
        | Inr (call, q) \<Rightarrow> issued sv c uc call q \<and> call \<in> set cs
            \<and> ps = jm_set (aw_proposals w) (aq_proposalId q) (q, an_resourceReference c)))"

lemma effect_failed:
  assumes "ai_failed uc c ports d p e (w\<lparr>aw_reserved := aw_reserved w @ res, aw_invoked := aw_invoked w @ sent\<rparr>) = (r, w')"
    and "res = [] \<or> res = [an_operationId c]" and "sent = [] \<or> sent = [an_operationId c]"
  shows "effect sv c uc w r w'"
proof -
  let ?w = "w\<lparr>aw_reserved := aw_reserved w @ res, aw_invoked := aw_invoked w @ sent\<rparr>"
  from failed_result [OF assms(1)] obtain e' cs where "r = Inl e'" "w' = ?w\<lparr>aw_records := aw_records ?w @ cs\<rparr>" by blast
  then have "r = Inl e'" "w' = w\<lparr>aw_reserved := aw_reserved w @ res, aw_invoked := aw_invoked w @ sent,
      aw_records := aw_records w @ cs, aw_proposals := aw_proposals w\<rparr>" by simp_all
  with assms(2,3) show ?thesis unfolding effect_def
    by (intro exI [of _ res] exI [of _ sent] exI [of _ cs] exI [of _ "aw_proposals w"]) simp
qed

lemma effect_propose:
  assumes "catchA (ai_propose sv uc c ports d p) (ai_failed uc c ports d p)
      (w\<lparr>aw_reserved := aw_reserved w @ [an_operationId c], aw_invoked := aw_invoked w @ [an_operationId c]\<rparr>) = (r, w')"
    and "ag_decisionId p \<noteq> None"
  shows "effect sv c uc w r w'"
proof -
  let ?w = "w\<lparr>aw_reserved := aw_reserved w @ [an_operationId c], aw_invoked := aw_invoked w @ [an_operationId c]\<rparr>"
  obtain r1 w1 where run: "ai_propose sv uc c ports d p ?w = (r1, w1)" by (cases "ai_propose sv uc c ports d p ?w") auto
  from propose_result [OF this assms(2)] show ?thesis
  proof
    assume "\<exists>e. r1 = Inl e \<and> w1 = ?w"
    then obtain e where "r1 = Inl e" "w1 = ?w" by blast
    with run assms(1) have "ai_failed uc c ports d p e ?w = (r, w')" by (simp add: catchA_def)
    then show ?thesis by (rule effect_failed) simp_all
  next
    assume "\<exists>call q. r1 = Inr (call, q) \<and> issued sv c uc call q
      \<and> w1 = ?w\<lparr>aw_records := aw_records ?w @ [call],
          aw_proposals := jm_set (aw_proposals ?w) (aq_proposalId q) (q, an_resourceReference c)\<rparr>"
    then obtain call q where "r1 = Inr (call, q)" "issued sv c uc call q"
      and w1: "w1 = ?w\<lparr>aw_records := aw_records ?w @ [call],
          aw_proposals := jm_set (aw_proposals ?w) (aq_proposalId q) (q, an_resourceReference c)\<rparr>" by blast
    with run assms(1) have "r = Inr (call, q)" "w' = w1" "issued sv c uc call q" by (simp_all add: catchA_def)
    then show ?thesis unfolding effect_def w1
      by (intro exI [of _ "[an_operationId c]"] exI [of _ "[call]"] exI conjI) auto
  qed
qed

lemma execute_effect:
  assumes "ai_execute sv uc c ports w = (r, w')"
  shows "effect sv c uc w r w'"
proof -
  have stay: "effect sv c uc w (Inl e) w" for e
    unfolding effect_def by (intro exI [of _ "[]"] exI [of _ "aw_proposals w"] conjI) auto
  consider (before) e where "r = Inl e" "w' = w"
    | (refused) d p e where "ai_failed uc c ports d p e w = (r, w')"
    | (reserved) d p e where "ai_failed uc c ports d p e (w\<lparr>aw_reserved := aw_reserved w @ [an_operationId c]\<rparr>) = (r, w')"
    | (sent) d p where "catchA (ai_propose sv uc c ports d p) (ai_failed uc c ports d p)
        (w\<lparr>aw_reserved := aw_reserved w @ [an_operationId c], aw_invoked := aw_invoked w @ [an_operationId c]\<rparr>) = (r, w')"
      "ag_decisionId p \<noteq> None"
  proof (cases "uuid_any (ap_callId ports)")
    case False
    with assms before show thesis by (auto simp: ai_execute_def bindA_def ensureA_def)
  next
    case ok: True
    show thesis
    proof (cases "ai_digest (as_lib sv) (an_input c)")
      case (Inl e)
      with assms ok before show thesis by (auto simp: ai_execute_def bindA_def ensureA_def)
    next
      case dig: (Inr d)
      show thesis
      proof (cases "ai_authorize ports")
        case (Inl e)
        with assms ok dig refused show thesis by (auto simp: ai_execute_def bindA_def ensureA_def)
      next
        case auth: (Inr x)
        obtain allowed i where x: "x = (allowed, i)" by (cases x)
        show thesis
        proof (cases "ai_reservation ports")
          case (Inl e)
          with assms ok dig auth x refused reserved show thesis
            by (cases allowed) (auto simp: ai_execute_def bindA_def ensureA_def Let_def)
        next
          case (Inr u)
          with assms ok dig auth x refused sent show thesis
            by (cases allowed) (auto simp: ai_execute_def bindA_def ensureA_def Let_def)
        qed
      qed
    qed
  qed
  then show ?thesis
  proof cases
    case before
    then show ?thesis using stay by simp
  next
    case refused
    then show ?thesis using effect_failed [where res = "[]" and sent = "[]"] by simp
  next
    case reserved
    then show ?thesis using effect_failed [where res = "[an_operationId c]" and sent = "[]"] by simp
  next
    case sent
    then show ?thesis by (rule effect_propose)
  qed
qed

section \<open>The invariant\<close>

text \<open>A call record of a proposal with that identifier, for that use case and resource.\<close>

definition proposed :: "string \<Rightarrow> string \<Rightarrow> string \<Rightarrow> ai_call \<Rightarrow> bool" where
  "proposed k i resource call \<longleftrightarrow> au_useCaseId (al_useCase call) = i \<and> al_resourceReference call = resource
     \<and> (case al_outcome call of Proposal_created v cost d p inp out \<Rightarrow> p = k | _ \<Rightarrow> False)"

definition commands_ok :: "ai_service \<Rightarrow> ai_world \<Rightarrow> bool" where
  "commands_ok sv w \<longleftrightarrow> (\<forall>i c. jm_get (aw_commands w) i = Some c \<longrightarrow> an_operationId c = i)"

definition charges_ok :: "ai_world \<Rightarrow> bool" where
  "charges_ok w \<longleftrightarrow> distinct (aw_reserved w) \<and> distinct (aw_invoked w)
     \<and> (\<forall>i \<in> set (aw_reserved w) \<union> set (aw_invoked w). \<exists>fp r. jm_get (aw_operations w) i = Some (fp, Settled r))"

definition results_ok :: "ai_service \<Rightarrow> ai_world \<Rightarrow> bool" where
  "results_ok sv w \<longleftrightarrow> (\<forall>i fp call p. jm_get (aw_operations w) i = Some (fp, Settled (Inr (call, p))) \<longrightarrow>
     call \<in> set (aw_records w) \<and> (\<exists>c uc. an_operationId c = i \<and> issued sv c uc call p
       \<and> jm_get (as_useCases sv) (an_useCaseId c) = Some uc))"

definition proposals_ok :: "ai_world \<Rightarrow> bool" where
  "proposals_ok w \<longleftrightarrow> (\<forall>k p resource. jm_get (aw_proposals w) k = Some (p, resource) \<longrightarrow>
     (\<exists>call \<in> set (aw_records w). proposed k (aq_useCaseId p) resource call))"

definition confirmations_ok :: "ai_world \<Rightarrow> bool" where
  "confirmations_ok w \<longleftrightarrow> (\<forall>i fp c t st. jm_get (aw_confirmations w) i = Some (fp, c, t, st) \<longrightarrow>
     ac_operationId c = i \<and> ai_actorType (ac_actor c) = Ai_subject
     \<and> (\<exists>call \<in> set (aw_records w). proposed (ac_proposalId c) (ac_useCaseId c) (ac_resourceReference c) call)
     \<and> (\<forall>k. st = Settled (Inr k) \<longrightarrow> ak_command k = c))"

definition gateway_ok :: "ai_service \<Rightarrow> ai_world \<Rightarrow> bool" where
  "gateway_ok sv w \<longleftrightarrow> commands_ok sv w \<and> charges_ok w \<and> results_ok sv w \<and> proposals_ok w \<and> confirmations_ok w"

lemma invoke_start_cases:
  obtains (same) "snd (invoke_start sv v w) = w"
    | (started) c fp where "jm_get (aw_operations w) (an_operationId c) = None"
      "snd (invoke_start sv v w) = w\<lparr>aw_operations := jm_set (aw_operations w) (an_operationId c) (fp, Running),
         aw_commands := jm_set (aw_commands w) (an_operationId c) c\<rparr>"
proof (cases "\<exists>uc c fp. find_use_case sv v = Inr uc \<and> validateInvocation (as_lib sv) v uc = Inr c
    \<and> invocationFingerprint (as_lib sv) c = Inr fp \<and> jm_get (aw_operations w) (an_operationId c) = None")
  case True
  then obtain uc c fp where "find_use_case sv v = Inr uc" "validateInvocation (as_lib sv) v uc = Inr c"
    "invocationFingerprint (as_lib sv) c = Inr fp" "jm_get (aw_operations w) (an_operationId c) = None" by blast
  then show thesis by (intro started [of c fp]) (simp_all add: invoke_start_def bindA_def)
next
  case False
  then have "snd (invoke_start sv v w) = w"
    by (cases "find_use_case sv v"; cases "validateInvocation (as_lib sv) v (projr (find_use_case sv v))";
        cases "invocationFingerprint (as_lib sv) (projr (validateInvocation (as_lib sv) v (projr (find_use_case sv v))))")
      (auto simp: invoke_start_def bindA_def split: option.split)
  then show thesis by (rule same)
qed

lemma invoke_settle_cases:
  obtains (same) "snd (invoke_settle sv i ports w) = w"
    | (settled) fp c uc r w' where "jm_get (aw_operations w) i = Some (fp, Running)" "jm_get (aw_commands w) i = Some c"
      "jm_get (as_useCases sv) (an_useCaseId c) = Some uc" "effect sv c uc w r w'"
      "snd (invoke_settle sv i ports w) = w'\<lparr>aw_operations := jm_set (aw_operations w) i (fp, Settled r)\<rparr>"
proof (cases "\<exists>fp c uc. jm_get (aw_operations w) i = Some (fp, Running) \<and> jm_get (aw_commands w) i = Some c
    \<and> jm_get (as_useCases sv) (an_useCaseId c) = Some uc")
  case True
  then obtain fp c uc where f: "jm_get (aw_operations w) i = Some (fp, Running)" "jm_get (aw_commands w) i = Some c"
    "jm_get (as_useCases sv) (an_useCaseId c) = Some uc" by blast
  obtain r w' where run: "ai_execute sv uc c ports w = (r, w')" by (cases "ai_execute sv uc c ports w") auto
  then have e: "effect sv c uc w r w'" by (rule execute_effect)
  then have "aw_operations w' = aw_operations w" by (auto simp: effect_def)
  with f run have "snd (invoke_settle sv i ports w) = w'\<lparr>aw_operations := jm_set (aw_operations w) i (fp, Settled r)\<rparr>"
    by (simp add: invoke_settle_def)
  with f e show thesis by (intro settled)
next
  case False
  then have "snd (invoke_settle sv i ports w) = w"
    by (auto simp: invoke_settle_def split: option.split prod.split promise.split)
  then show thesis by (rule same)
qed

definition keyed :: "(string, validated_use_case) jsmap \<Rightarrow> bool" where
  "keyed m \<longleftrightarrow> (\<forall>k uc. jm_get m k = Some uc \<longrightarrow> au_useCaseId (vu_registration uc) = k)"

definition sv_ok :: "ai_service \<Rightarrow> bool" where
  "sv_ok sv \<longleftrightarrow> keyed (as_useCases sv)"

lemma registered_ok:
  assumes "register_use_cases lib vs m = Inr m'" and "keyed m"
  shows "keyed m'"
  using assms
proof (induction vs arbitrary: m)
  case (Cons v vs)
  then obtain uc where "register_use_cases lib vs (jm_set m (au_useCaseId (vu_registration uc)) uc) = Inr m'"
    by (auto simp: bindE_eq_Inr split: if_splits)
  moreover have "keyed (jm_set m (au_useCaseId (vu_registration uc)) uc)" using Cons.prems(2) by (simp add: keyed_def)
  ultimately show ?case by (rule Cons.IH)
qed simp

lemma created_ok: "createAiGatewayService lib vs = Inr sv \<Longrightarrow> sv_ok sv"
proof -
  assume "createAiGatewayService lib vs = Inr sv"
  then obtain m where m: "register_use_cases lib vs [] = Inr m" and sv: "sv = \<lparr>as_lib = lib, as_useCases = m\<rparr>"
    by (auto simp: createAiGatewayService_def bindE_eq_Inr)
  have "keyed m" using m by (rule registered_ok) (simp add: keyed_def)
  then show ?thesis by (simp add: sv sv_ok_def)
qed

lemma charged_settled:
  "charges_ok w \<Longrightarrow> i \<in> set (aw_reserved w) \<union> set (aw_invoked w) \<Longrightarrow> \<exists>fp r. jm_get (aw_operations w) i = Some (fp, Settled r)"
  unfolding charges_ok_def by blast

lemma start_ok:
  assumes "gateway_ok sv w"
  shows "gateway_ok sv (snd (invoke_start sv v w))"
proof (cases rule: invoke_start_cases [of sv v w])
  case (started c fp)
  have "i \<noteq> an_operationId c" if "i \<in> set (aw_reserved w) \<union> set (aw_invoked w)" for i
    using charged_settled [OF _ that] assms started(1) by (auto simp: gateway_ok_def)
  then have "charges_ok (snd (invoke_start sv v w))"
    using assms started unfolding gateway_ok_def charges_ok_def by auto
  moreover have "results_ok sv (snd (invoke_start sv v w))"
    using assms started unfolding gateway_ok_def results_ok_def by (auto split: if_splits)
  ultimately show ?thesis
    using assms started unfolding gateway_ok_def commands_ok_def proposals_ok_def confirmations_ok_def
    by (auto split: if_splits)
qed (use assms in simp)

lemma settle_ok:
  assumes "gateway_ok sv w" and "sv_ok sv"
  shows "gateway_ok sv (snd (invoke_settle sv i ports w))"
proof (cases rule: invoke_settle_cases [of sv i ports w])
  case (settled fp c uc r w')
  let ?t = "w'\<lparr>aw_operations := jm_set (aw_operations w) i (fp, Settled r)\<rparr>"
  have id: "an_operationId c = i" using assms(1) settled(2) by (simp add: gateway_ok_def commands_ok_def)
  have uc: "au_useCaseId (vu_registration uc) = an_useCaseId c" using assms(2) settled(3) by (simp add: sv_ok_def keyed_def)
  from settled(4) id obtain res sent cs ps where
      res: "res = [] \<or> res = [i]" "sent = [] \<or> sent = [i]"
    and w': "w' = w\<lparr>aw_reserved := aw_reserved w @ res, aw_invoked := aw_invoked w @ sent,
          aw_records := aw_records w @ cs, aw_proposals := ps\<rparr>"
    and out: "case r of Inl e \<Rightarrow> ps = aw_proposals w
        | Inr (call, q) \<Rightarrow> issued sv c uc call q \<and> call \<in> set cs
            \<and> ps = jm_set (aw_proposals w) (aq_proposalId q) (q, an_resourceReference c)"
    unfolding effect_def by blast
  have fresh: "i \<notin> set (aw_reserved w) \<union> set (aw_invoked w)"
    using charged_settled [of w i] assms(1) settled(1) by (auto simp: gateway_ok_def)
  have "charges_ok ?t"
    using assms(1) res fresh unfolding gateway_ok_def charges_ok_def w' by auto
  moreover have "results_ok sv ?t"
    using assms(1) out id settled(3) unfolding gateway_ok_def results_ok_def w' by (fastforce split: if_splits)
  moreover have "proposals_ok ?t"
  proof -
    have "proposed (aq_proposalId q) (aq_useCaseId q) (an_resourceReference c) call" if "r = Inr (call, q)" for call q
      using out that uc by (auto simp: proposed_def issued_def)
    moreover have "\<exists>call \<in> set (aw_records w). proposed k (aq_useCaseId p) resource call"
      if "jm_get (aw_proposals w) k = Some (p, resource)" for k p resource
      using assms(1) that unfolding gateway_ok_def proposals_ok_def by blast
    ultimately show ?thesis using out unfolding proposals_ok_def w'
      by (cases r) (fastforce split: if_splits)+
  qed
  moreover have "confirmations_ok ?t" and "commands_ok sv ?t"
    using assms(1) unfolding gateway_ok_def confirmations_ok_def commands_ok_def w' by (simp_all, blast)
  ultimately show ?thesis using settled(5) by (simp add: gateway_ok_def)
qed (use assms in simp)

lemma validateConfirmation_subject: "validateConfirmation v = Inr c \<Longrightarrow> ai_actorType (ac_actor c) = Ai_subject"
  unfolding validateConfirmation_def by (auto simp: bindE_eq_Inr split: if_splits)

lemma confirm_start_cases:
  obtains (same) "snd (confirm_start sv v now w) = w"
    | (started) c p fp t where "validateConfirmation v = Inr c" "proposal_for c w = Some p"
      "snd (confirm_start sv v now w)
        = w\<lparr>aw_confirmations := jm_set (aw_confirmations w) (ac_operationId c) (fp, c, t, Running)\<rparr>"
proof (cases "validateConfirmation v")
  case (Inl e)
  then show thesis by (intro same) (simp add: confirm_start_def bindA_def)
next
  case c: (Inr c)
  show thesis
  proof (cases "confirmationFingerprint (as_lib sv) c")
    case (Inl e)
    with c show thesis by (intro same) (simp add: confirm_start_def bindA_def)
  next
    case fp: (Inr fp)
    show thesis
    proof (cases "jm_get (aw_confirmations w) (ac_operationId c)")
      case (Some x)
      with c fp show thesis by (intro same) (simp add: confirm_start_def bindA_def split: prod.split)
    next
      case new: None
      show thesis
      proof (cases "proposal_for c w")
        case None
        with c fp new show thesis by (intro same) (simp add: confirm_start_def bindA_def requireA_def)
      next
        case (Some p)
        show thesis
        proof (cases now)
          case None
          with c fp new Some show thesis
            by (intro same) (simp add: confirm_start_def bindA_def requireA_def ensureA_def)
        next
          case (Some t)
          have "snd (confirm_start sv v now w) = w \<or> snd (confirm_start sv v now w)
              = w\<lparr>aw_confirmations := jm_set (aw_confirmations w) (ac_operationId c) (fp, c, t, Running)\<rparr>"
            using c fp new Some \<open>proposal_for c w = Some p\<close>
            by (cases "case jm_get (as_useCases sv) (ac_useCaseId c) of
                None \<Rightarrow> False | Some uc \<Rightarrow> au_enabled (vu_registration uc)";
              cases "time_le (any_parse (aq_expiresAt p)) (Some t)")
              (simp_all add: confirm_start_def bindA_def requireA_def ensureA_def)
          then show thesis using same started [OF c \<open>proposal_for c w = Some p\<close>] by blast
        qed
      qed
    qed
  qed
qed

lemma confirm_start_ok:
  assumes "gateway_ok sv w"
  shows "gateway_ok sv (snd (confirm_start sv v now w))"
proof (cases rule: confirm_start_cases [of sv v now w])
  case (started c p fp t)
  note c = started(1) and p = started(2) and new = started(3)
  from p assms obtain call where "call \<in> set (aw_records w)"
      "proposed (ac_proposalId c) (ac_useCaseId c) (ac_resourceReference c) call"
    unfolding proposal_for_def gateway_ok_def proposals_ok_def by (fastforce split: option.splits prod.splits if_splits)
  then have "confirmations_ok (snd (confirm_start sv v now w))"
    using assms validateConfirmation_subject [OF c] unfolding gateway_ok_def confirmations_ok_def new
    by (auto split: if_splits)
  then show ?thesis
    using assms unfolding gateway_ok_def commands_ok_def charges_ok_def results_ok_def proposals_ok_def new by simp
qed (use assms in simp)

lemma confirm_settle_ok:
  assumes "gateway_ok sv w"
  shows "gateway_ok sv (snd (confirm_settle i ports w))"
proof (cases "snd (confirm_settle i ports w) = w")
  case False
  then obtain fp c t where old: "jm_get (aw_confirmations w) i = Some (fp, c, t, Running)"
    unfolding confirm_settle_def by (auto split: option.splits prod.splits promise.splits)
  have command: "ak_command k = c" if "confirm_work c t ports = Inr k" for k
    using that unfolding confirm_work_def by (auto simp: bindE_eq_Inr split: if_splits)
  have "confirmations_ok (snd (confirm_settle i ports w))"
    using assms old command unfolding gateway_ok_def confirmations_ok_def confirm_settle_def
    by (cases "confirm_work c t ports") (fastforce split: if_splits)+
  then show ?thesis
    using assms old unfolding gateway_ok_def commands_ok_def charges_ok_def results_ok_def proposals_ok_def
    by (simp add: confirm_settle_def)
qed (use assms in simp)

lemma step_ok: "sv_ok sv \<Longrightarrow> gateway_ok sv w \<Longrightarrow> gateway_ok sv (snd (ai_step sv e w))"
  by (cases e) (simp_all add: start_ok settle_ok confirm_start_ok confirm_settle_ok)

interpretation gateway: guarded_machine "ai_step sv" "\<lambda>w. sv_ok sv \<longrightarrow> gateway_ok sv w" for sv
  by unfold_locales (simp add: step_ok)

lemma reached_ok:
  assumes "createAiGatewayService lib vs = Inr sv"
  shows "gateway_ok sv (run_all (ai_step sv) events empty_gateway)"
proof -
  have "gateway_ok sv empty_gateway"
    by (simp add: gateway_ok_def commands_ok_def charges_ok_def results_ok_def proposals_ok_def confirmations_ok_def
        empty_gateway_def)
  with gateway.run_keeps [of sv empty_gateway events] created_ok [OF assms] show ?thesis by blast
qed

section \<open>The promises\<close>

text \<open>
  C23: Whatever is invoked, in whatever order executions end, and whether they fail or not: the budget is
  reserved at most once for an operation identifier, and the model is called at most once.
\<close>

theorem operation_charged_once:
  assumes "createAiGatewayService lib vs = Inr sv"
  shows "distinct (aw_reserved (run_all (ai_step sv) events empty_gateway))
    \<and> distinct (aw_invoked (run_all (ai_step sv) events empty_gateway))"
  using reached_ok [OF assms] by (auto simp: gateway_ok_def charges_ok_def)


text \<open>
  C24: Only an authenticated subject confirms, and only what a recorded call proposed for the very use case
  and resource.
\<close>

theorem confirmation_by_person:
  assumes "createAiGatewayService lib vs = Inr sv"
    and "jm_get (aw_confirmations (run_all (ai_step sv) events empty_gateway)) i = Some (fp, c, t, Settled (Inr k))"
  shows "ai_actorType (ac_actor (ak_command k)) = Ai_subject
    \<and> (\<exists>call \<in> set (aw_records (run_all (ai_step sv) events empty_gateway)).
         proposed (ac_proposalId (ak_command k)) (ac_useCaseId (ak_command k)) (ac_resourceReference (ak_command k)) call)"
  using reached_ok [OF assms(1), of events] assms(2) unfolding gateway_ok_def confirmations_ok_def by blast

section \<open>Outcomes are final\<close>

definition operation_is :: "string \<Rightarrow> string \<Rightarrow> ai_failure + ai_call \<times> ai_proposal \<Rightarrow> ai_world \<Rightarrow> bool" where
  "operation_is i fp r w \<longleftrightarrow> jm_get (aw_operations w) i = Some (fp, Settled r)"

interpretation outcome: guarded_machine "ai_step sv" "operation_is i fp r" for sv i fp r
proof
  fix w e
  assume w: "operation_is i fp r w"
  show "operation_is i fp r (snd (ai_step sv e w))"
  proof (cases e)
    case (Invoke v)
    then show ?thesis using w
      by (cases rule: invoke_start_cases [of sv v w]) (auto simp: operation_is_def)
  next
    case (Invocation_ends j ports)
    then show ?thesis using w
      by (cases rule: invoke_settle_cases [of sv j ports w]) (auto simp: operation_is_def effect_def)
  next
    case (Confirm v now)
    then show ?thesis using w
      by (auto simp: operation_is_def confirm_start_def bindA_def throwA_def ensureA_def requireA_def
          split: sum.splits option.splits prod.splits)
  next
    case (Confirmation_ends j ports)
    then show ?thesis using w
      by (auto simp: operation_is_def confirm_settle_def split: option.splits prod.splits promise.splits)
  qed
qed

text \<open>
  Success or failure, the outcome of an operation identifier never changes: an invocation under it joins
  it, or is refused as a conflict, and sends nothing to the model.
\<close>

theorem operation_outcome_final:
  assumes "jm_get (aw_operations w) i = Some (fp, Settled r)"
  shows "jm_get (aw_operations (run_all (ai_step sv) events w)) i = Some (fp, Settled r)"
  using outcome.run_keeps [of i fp r w sv events] assms by (simp add: operation_is_def)

end
