(* ===== verification/AiSamples.thy ===== *)
theory AiSamples
  imports AiProps
begin

text \<open>
  A sample use case of the AI gateway: an invocation, the proposal it comes to and its confirmation by a
  person. The properties of the gateway apply to it.
\<close>

definition ai_sample_id :: "string \<Rightarrow> string" where
  "ai_sample_id c = ''00000000-0000-4000-8000-00000000000'' @ c"

definition ai_sample_lib :: ai_lib where
  "ai_sample_lib = \<lparr>ab_sha256 = (\<lambda>s. s), ab_numText = (\<lambda>_. ''1''), ab_ajv = (\<lambda>_. Inr (\<lambda>v. v \<noteq> JNull))\<rparr>"

definition ai_sample_schema :: js_value where
  "ai_sample_schema = JObject [(''$schema'', JString ''https://json-schema.org/draft/2020-12/schema'')]"

definition ai_sample_case :: js_value where
  "ai_sample_case = JObject [(''budgetPolicyVersion'', JString ''v1''), (''dataPolicyVersion'', JString ''v1''),
     (''enabled'', JBool True), (''inputSchema'', ai_sample_schema), (''inputSchemaVersion'', JString ''v1''),
     (''maximumCostMicros'', JNumber (Fin 100)), (''maximumInputBytes'', JNumber (Fin 1000)), (''maximumOutputBytes'', JNumber (Fin 1000)),
     (''maximumTokens'', JNumber (Fin 50)), (''modelPolicyVersion'', JString ''v1''), (''outputSchema'', ai_sample_schema),
     (''outputSchemaVersion'', JString ''v1''), (''ownerReference'', JString ''crm''), (''promptPolicyVersion'', JString ''v1''),
     (''proposalTtlMs'', JNumber (Fin 60000)), (''requiresHumanConfirmation'', JBool True), (''useCaseId'', JString ''crm.summary''),
     (''version'', JNumber (Fin 1))]"

definition ai_sample_actor :: js_value where
  "ai_sample_actor = JObject [(''actorId'', JString ''alice''), (''actorType'', JString ''authenticated_subject'')]"

definition ai_sample_trace :: string where
  "ai_sample_trace = ''1234567890abcdef1234567890abcdef''"

definition ai_sample_invocation :: js_value where
  "ai_sample_invocation = JObject [(''actor'', ai_sample_actor), (''dataClassification'', JString ''synthetic''),
     (''input'', JString ''x''), (''operationId'', JString (ai_sample_id ''1'')), (''resourceReference'', JString ''lead:1''),
     (''traceId'', JString ai_sample_trace), (''useCaseId'', JString ''crm.summary'')]"

definition ai_sample_ports :: "string \<Rightarrow> ai_ports" where
  "ai_sample_ports c = \<lparr>ap_callId = ai_sample_id ''c'',
     ap_authorize = Inr (JObject [(''allowed'', JBool True), (''decisionId'', JString (ai_sample_id ''d''))]),
     ap_reserve = Inr (JObject [(''allowed'', JBool True), (''reservationId'', JString ''r'')]),
     ap_adapter = Inr (JObject [(''adapterVersion'', JString ''v1''), (''structuredOutput'', JString ''y''),
       (''usage'', JObject [(''costMicros'', JNumber (Fin 7)), (''inputTokens'', JNumber (Fin 20)), (''outputTokens'', JNumber (Fin 30))])]),
     ap_now = Some 1000, ap_newId = ai_sample_id c, ap_recordFails = (\<lambda>_. False)\<rparr>"

definition ai_sample_confirmation :: js_value where
  "ai_sample_confirmation = JObject [(''actor'', ai_sample_actor), (''decision'', JString ''accepted''),
     (''operationId'', JString (ai_sample_id ''2'')), (''proposalId'', JString (ai_sample_id ''a'')),
     (''resourceReference'', JString ''lead:1''), (''traceId'', JString ai_sample_trace), (''useCaseId'', JString ''crm.summary'')]"

definition ai_sample_events :: "ai_event list" where
  "ai_sample_events = [Invoke ai_sample_invocation, Invoke ai_sample_invocation,
     Invocation_ends (ai_sample_id ''1'') (ai_sample_ports ''a''), Confirm ai_sample_confirmation (Some 2000),
     Confirmation_ends (ai_sample_id ''2'') (ai_sample_ports ''b'')]"

definition ai_sample_service :: "ai_failure + ai_service" where
  "ai_sample_service = createAiGatewayService ai_sample_lib [ai_sample_case]"

definition ai_sample_world :: ai_world where
  "ai_sample_world = run_all (ai_step (projr ai_sample_service)) ai_sample_events empty_gateway"

lemma ai_sample_created: "createAiGatewayService ai_sample_lib [ai_sample_case] = Inr (projr ai_sample_service)"
  unfolding ai_sample_service_def [symmetric] by (rule projr_ok) code_simp

lemma ai_sample_charged: "aw_reserved ai_sample_world = [ai_sample_id ''1'']" "aw_invoked ai_sample_world = [ai_sample_id ''1'']"
  by code_simp+

lemma ai_sample_is_settled:
  "(case jm_get (aw_operations ai_sample_world) (ai_sample_id ''1'') of Some (_, Settled (Inr _)) \<Rightarrow> True | _ \<Rightarrow> False)"
  "(case jm_get (aw_confirmations ai_sample_world) (ai_sample_id ''2'') of Some (_, _, _, Settled (Inr _)) \<Rightarrow> True | _ \<Rightarrow> False)"
  by code_simp+

section \<open>The properties hold of the sample\<close>

lemma settled_form: "(case p of Settled (Inr _) \<Rightarrow> True | _ \<Rightarrow> False) = (\<exists>x. p = Settled (Inr x))"
  by (auto split: promise.split sum.split)

lemma operation_charged_once_witness:
  "distinct (aw_reserved ai_sample_world) \<and> distinct (aw_invoked ai_sample_world) \<and> aw_invoked ai_sample_world \<noteq> []"
  using operation_charged_once [OF ai_sample_created, of ai_sample_events, folded ai_sample_world_def] ai_sample_charged by simp


lemma confirmation_by_person_witness:
  "\<exists>(k :: ai_confirmation). ai_actorType (ac_actor (ak_command k)) = Ai_subject
    \<and> (\<exists>call \<in> set (aw_records ai_sample_world).
         proposed (ac_proposalId (ak_command k)) (ac_useCaseId (ak_command k)) (ac_resourceReference (ak_command k)) call)"
proof -
  obtain fp c t k where "jm_get (aw_confirmations ai_sample_world) (ai_sample_id ''2'') = Some (fp, c, t, Settled (Inr k))"
    using ai_sample_is_settled(2) by (auto simp: settled_form split: option.splits)
  from confirmation_by_person [OF ai_sample_created this [unfolded ai_sample_world_def]]
  show ?thesis unfolding ai_sample_world_def by blast
qed

lemma operation_outcome_final_witness:
  "\<exists>fp r. jm_get (aw_operations (run_all (ai_step (projr ai_sample_service)) ai_sample_events ai_sample_world)) (ai_sample_id ''1'')
     = Some (fp, Settled r)"
proof -
  obtain fp x where "jm_get (aw_operations ai_sample_world) (ai_sample_id ''1'') = Some (fp, Settled (Inr x))"
    using ai_sample_is_settled(1) by (auto simp: settled_form split: option.splits)
  from operation_outcome_final [OF this] show ?thesis by blast
qed

end
