(* ===== verification/FileData.thy ===== *)
theory FileData
  imports JsLib
begin

text \<open>
  The data of the file center and its validation (\<open>packages/crm-modules/file-center/src/\<close>: \<open>types.ts\<close>,
  \<open>errors.ts\<close>, \<open>validation.ts\<close>): files with their content versions, upload sessions, links of versions to
  resources. SHA-256 and the text of a number are parameters; objects are plain data, without accessors.
\<close>

section \<open>Data\<close>

datatype fc_code =
    File_denied | File_invalid_input | File_not_found | File_not_ready | File_operation_conflict | File_policy_rejected
  | File_scan_unavailable | File_storage_unavailable

text \<open>What the code throws: an error of its own, or the range error of a date that has no text.\<close>

datatype fc_failure = Fc_error (fc_code_of: fc_code) (fc_retryable: bool) | Fc_range_error

abbreviation fc_down :: fc_failure where
  "fc_down \<equiv> Fc_error File_storage_unavailable True"

abbreviation fc_refuse :: "fc_code \<Rightarrow> fc_failure + 'a" where
  "fc_refuse c \<equiv> Inl (Fc_error c False)"

datatype fc_actor_type = Fc_subject | Fc_system

record fc_actor =
  fa_actorId :: string
  fa_actorType :: fc_actor_type
  fa_assignmentId :: "string option"

record file_reference =
  fr_contentVersionId :: string
  fr_displayName :: string
  fr_fileId :: string
  fr_mediaType :: "string option"
  fr_sizeBytes :: "int option"

record file_metadata =
  fm_classification :: "string option"
  fm_createdAt :: string
  fm_displayName :: string
  fm_fileId :: string
  fm_ownerModule :: string
  fm_uploadedBy :: fc_actor

datatype content_status =
    Awaiting_upload | Pending_scan | Available | Quarantine_pending | Quarantined | Object_missing | Cleanup_pending
  | Content_deleted

record content_version =
  cv_actualSizeBytes :: "int option"
  cv_checksumSha256 :: "string option"
  cv_completedAt :: "string option"
  cv_contentVersionId :: string
  cv_createdAt :: string
  cv_declaredMediaType :: string
  cv_declaredSizeBytes :: int
  cv_detectedMediaType :: "string option"
  cv_fileId :: string
  cv_scannedAt :: "string option"
  cv_status :: content_status
  cv_versionNumber :: nat

datatype session_status = Session_created | Session_pending_scan | Session_expired | Session_cleanup_pending | Session_cleaned

record upload_session =
  us_contentVersionId :: string
  us_createdAt :: string
  us_expiresAt :: string
  us_fileId :: string
  us_sessionId :: string
  us_status :: session_status

record fc_resource =
  fs_resourceId :: string
  fs_resourceType :: string

record resource_link =
  rl_contentVersionId :: string
  rl_fileId :: string
  rl_linkedAt :: string
  rl_linkId :: string
  rl_ownerModule :: string
  rl_relationType :: string
  rl_resource :: fc_resource
  rl_unlinkedAt :: "string option"

record upload_grant =
  ug_expiresAt :: string
  ug_headers :: "(string \<times> string) list"
  ug_uploadUrl :: string

record download_grant =
  dg_downloadUrl :: string
  dg_expiresAt :: string
  dg_fileReference :: file_reference

datatype fc_event_type =
    Content_available | Content_quarantined | Resource_linked | Resource_unlinked | Upload_completed

record fc_event =
  fe_eventId :: string
  fe_eventType :: fc_event_type
  fe_occurredAt :: string
  fe_resourceId :: string

datatype scan_outcome = Scan_clean | Scan_malicious | Scan_unscannable

record fc_lib =
  fl_sha256 :: "string \<Rightarrow> string"
  fl_numText :: "jsnum \<Rightarrow> string"
  fl_dates :: "string \<Rightarrow> int option"

section \<open>Validation\<close>

type_synonym fc_members = "(string \<times> js_value) list"

definition fc_need :: "'a option \<Rightarrow> fc_failure + 'a" where
  "fc_need v = (case v of None \<Rightarrow> fc_refuse File_invalid_input | Some x \<Rightarrow> Inr x)"

definition fc_plainObject :: "js_value \<Rightarrow> fc_failure + fc_members" where
  "fc_plainObject v = (case v of JObject fs \<Rightarrow> Inr fs | _ \<Rightarrow> fc_refuse File_invalid_input)"

definition fc_exact :: "js_value \<Rightarrow> string list \<Rightarrow> string list \<Rightarrow> fc_failure + fc_members" where
  "fc_exact v required optional = bindE (fc_plainObject v) (\<lambda>fs.
     if exactly required optional fs then Inr fs else fc_refuse File_invalid_input)"

definition fc_uuid :: "js_value \<Rightarrow> fc_failure + string" where
  "fc_uuid v = bindE (fc_need (text_where uuid_any v)) (\<lambda>s. Inr (map char_lower s))"

definition fc_trace :: "js_value \<Rightarrow> fc_failure + string" where
  "fc_trace v = bindE (fc_need (text_where trace_ok v)) (\<lambda>s. Inr (map char_lower s))"

definition fc_id :: "js_value \<Rightarrow> fc_failure + string" where
  "fc_id v = fc_need (text_where (shape lower (lower @ digits @ ''_.:-'') 1 127) v)"

definition fc_ref :: "js_value \<Rightarrow> fc_failure + string" where
  "fc_ref v = fc_need (text_where reference_ok v)"

definition media_part :: "string \<Rightarrow> bool" where
  "media_part s \<longleftrightarrow> s \<noteq> [] \<and> all_in (alnum @ ''!#$&^_.+-'') s"

definition media_type_ok :: "string \<Rightarrow> bool" where
  "media_type_ok s \<longleftrightarrow> length s \<le> 255 \<and> (case split_on CHR ''/'' s of [a, b] \<Rightarrow> media_part a \<and> media_part b | _ \<Rightarrow> False)"

definition fc_mediaType :: "js_value \<Rightarrow> fc_failure + string" where
  "fc_mediaType v = bindE (fc_need (text_where media_type_ok v)) (\<lambda>s. Inr (map char_lower s))"

definition fc_sha256 :: "js_value \<Rightarrow> fc_failure + string" where
  "fc_sha256 v = fc_need (text_where (\<lambda>s. length s = 64 \<and> all_in hex_lower s) v)"

definition fc_date :: "fc_lib \<Rightarrow> js_value \<Rightarrow> fc_failure + string" where
  "fc_date lib v = fc_need (text_where (any_canonical (fl_dates lib)) v)"

definition fc_positive :: "js_value \<Rightarrow> int \<Rightarrow> fc_failure + int" where
  "fc_positive v maximum = fc_need (int_between 1 maximum v)"

definition hasOnlyDisplayCharacters :: "string \<Rightarrow> bool" where
  "hasOnlyDisplayCharacters s \<longleftrightarrow> (\<forall>c \<in> set s. 31 < (of_char c :: nat) \<and> (of_char c :: nat) \<noteq> 127)"

definition fc_bounded :: "js_value \<Rightarrow> nat \<Rightarrow> fc_failure + string" where
  "fc_bounded v maximum =
     fc_need (text_where (\<lambda>s. s \<noteq> [] \<and> length s \<le> maximum \<and> hasOnlyDisplayCharacters s) v)"

text \<open>A member that may be missing.\<close>

definition fc_optional :: "(js_value \<Rightarrow> fc_failure + 'a) \<Rightarrow> js_value \<Rightarrow> fc_failure + 'a option" where
  "fc_optional f v = (case v of JUndefined \<Rightarrow> Inr None | _ \<Rightarrow> bindE (f v) (\<lambda>x. Inr (Some x)))"

definition fc_actor_of :: "js_value \<Rightarrow> fc_failure + fc_actor" where
  "fc_actor_of v =
     bindE (fc_exact v [''actorId'', ''actorType''] [''assignmentId'']) (\<lambda>fs.
     bindE (if js_field fs ''actorType'' = JString ''authenticated_subject'' then Inr Fc_subject
         else if js_field fs ''actorType'' = JString ''system'' then Inr Fc_system
         else fc_refuse File_invalid_input) (\<lambda>t.
     bindE (fc_ref (js_field fs ''actorId'')) (\<lambda>i.
     bindE (fc_optional fc_uuid (js_field fs ''assignmentId'')) (\<lambda>a.
     Inr \<lparr>fa_actorId = i, fa_actorType = t, fa_assignmentId = a\<rparr>))))"

definition fc_resource_of :: "js_value \<Rightarrow> fc_failure + fc_resource" where
  "fc_resource_of v =
     bindE (fc_exact v [''resourceId'', ''resourceType''] []) (\<lambda>fs.
     bindE (fc_ref (js_field fs ''resourceId'')) (\<lambda>i.
     bindE (fc_id (js_field fs ''resourceType'')) (\<lambda>t.
     Inr \<lparr>fs_resourceId = i, fs_resourceType = t\<rparr>)))"

definition fc_reference_of :: "js_value \<Rightarrow> fc_failure + file_reference" where
  "fc_reference_of v =
     bindE (fc_exact v [''contentVersionId'', ''displayName'', ''fileId'', ''version''] [''mediaType'', ''sizeBytes'']) (\<lambda>fs.
     bindE (if js_field fs ''version'' = JNumber (Fin 1) then Inr () else fc_refuse File_invalid_input) (\<lambda>_.
     bindE (fc_uuid (js_field fs ''contentVersionId'')) (\<lambda>i.
     bindE (fc_bounded (js_field fs ''displayName'') 255) (\<lambda>name.
     bindE (fc_uuid (js_field fs ''fileId'')) (\<lambda>f.
     bindE (fc_optional fc_mediaType (js_field fs ''mediaType'')) (\<lambda>m.
     bindE (fc_optional (\<lambda>x. fc_positive x max_safe) (js_field fs ''sizeBytes'')) (\<lambda>size.
     Inr \<lparr>fr_contentVersionId = i, fr_displayName = name, fr_fileId = f, fr_mediaType = m, fr_sizeBytes = size\<rparr>)))))))"

fun fc_canonical :: "(jsnum \<Rightarrow> string) \<Rightarrow> js_value \<Rightarrow> fc_failure + string" where
  "fc_canonical num (JArray vs) = bindE (mapE (fc_canonical num) vs) (\<lambda>ts. Inr (''['' @ join '','' ts @ '']''))"
| "fc_canonical num (JObject fs) =
     bindE (mapE (\<lambda>f. bindE (fc_canonical num (snd f)) (\<lambda>t. Inr (fst f, json_quote (fst f) @ '':'' @ t))) fs) (\<lambda>ts.
     Inr (''{'' @ join '','' (map snd (sort_by (\<lambda>a b. str_lt (fst a) (fst b)) ts)) @ ''}''))"
| "fc_canonical num (JString s) = Inr (json_quote s)"
| "fc_canonical num (JNumber n) = (if isFinite n then Inr (num n) else fc_refuse File_invalid_input)"
| "fc_canonical num (JBool b) = Inr (if b then ''true'' else ''false'')"
| "fc_canonical num JNull = Inr ''null''"
| "fc_canonical num JUndefined = fc_refuse File_invalid_input"

definition fc_fingerprint :: "fc_lib \<Rightarrow> fc_members \<Rightarrow> fc_failure + string" where
  "fc_fingerprint lib fs = bindE (fc_canonical (fl_numText lib) (JObject fs)) (\<lambda>t. Inr (fl_sha256 lib t))"

definition safeDisposition :: "string \<Rightarrow> string" where
  "safeDisposition displayName =
     (let cut = take 120 (map (\<lambda>c. if c \<in> set (alnum @ ''._-'') then c else CHR ''_'') displayName);
          fallback = (if cut = [] then ''download'' else cut) in
      ''attachment; filename='' @ [CHR 0x22] @ map (\<lambda>c. if c = CHR 0x22 then CHR ''_'' else c) fallback @ [CHR 0x22])"

section \<open>Values as objects, for fingerprints\<close>

definition fc_opt_member :: "string \<Rightarrow> string option \<Rightarrow> fc_members" where
  "fc_opt_member k v = (case v of None \<Rightarrow> [] | Some s \<Rightarrow> [(k, JString s)])"

definition fc_actor_js :: "fc_actor \<Rightarrow> js_value" where
  "fc_actor_js a = JObject ([(''actorId'', JString (fa_actorId a)),
     (''actorType'', JString (case fa_actorType a of Fc_subject \<Rightarrow> ''authenticated_subject'' | Fc_system \<Rightarrow> ''system''))]
     @ fc_opt_member ''assignmentId'' (fa_assignmentId a))"

definition fc_resource_js :: "fc_resource \<Rightarrow> js_value" where
  "fc_resource_js r = JObject [(''resourceId'', JString (fs_resourceId r)), (''resourceType'', JString (fs_resourceType r))]"

definition fc_int_js :: "int \<Rightarrow> js_value" where
  "fc_int_js i = JNumber (Fin (of_int i))"

end
