(* ===== verification/FileStore.thy ===== *)
theory FileStore
  imports FileData
begin

text \<open>
  The in-memory store of the file center (\<open>file-center/src/memory-store.ts\<close>, \<open>store.ts\<close>): files, content
  versions with their object handles, upload sessions, links, events and the receipts of operations.
\<close>

section \<open>State\<close>

text \<open>A receipt keeps the members that its operation returned.\<close>

record fc_result =
  rr_version :: "content_version option"
  rr_file :: "file_metadata option"
  rr_handle :: "string option"
  rr_session :: "upload_session option"
  rr_link :: "resource_link option"

definition fc_nothing :: fc_result where
  "fc_nothing = \<lparr>rr_version = None, rr_file = None, rr_handle = None, rr_session = None, rr_link = None\<rparr>"

record fc_store =
  fx_files :: "(string, file_metadata) jsmap"
  fx_versions :: "(string, content_version) jsmap"
  fx_handles :: "(string, string) jsmap"
  fx_sessions :: "(string, upload_session) jsmap"
  fx_links :: "(string, resource_link) jsmap"
  fx_events :: "(string, fc_event) jsmap"
  fx_receipts :: "(string, string \<times> fc_result) jsmap"

definition empty_files :: fc_store where
  "empty_files = \<lparr>fx_files = [], fx_versions = [], fx_handles = [], fx_sessions = [], fx_links = [], fx_events = [],
     fx_receipts = []\<rparr>"

abbreviation fc_conflict :: fc_failure where
  "fc_conflict \<equiv> Fc_error File_operation_conflict False"

definition receipt_of :: "string \<Rightarrow> string \<Rightarrow> fc_store \<Rightarrow> fc_failure + fc_result option" where
  "receipt_of operationId fp s = (case jm_get (fx_receipts s) operationId of
     None \<Rightarrow> Inr None
   | Some (f, r) \<Rightarrow> if f \<noteq> fp then Inl fc_conflict else Inr (Some r))"

definition fc_save :: "string \<Rightarrow> string \<Rightarrow> fc_result \<Rightarrow> fc_store \<Rightarrow> fc_store" where
  "fc_save operationId fp r s = s\<lparr>fx_receipts := jm_set (fx_receipts s) operationId (fp, r)\<rparr>"

definition fc_emit :: "fc_event option \<Rightarrow> fc_store \<Rightarrow> fc_store" where
  "fc_emit e s = (case e of None \<Rightarrow> s | Some e \<Rightarrow> s\<lparr>fx_events := jm_set (fx_events s) (fe_eventId e) e\<rparr>)"

section \<open>Lookups\<close>

text \<open>A version whose file or handle is missing makes the lookup throw.\<close>

definition findContentVersion ::
  "string \<Rightarrow> fc_store \<Rightarrow> fc_failure + (content_version \<times> file_metadata \<times> string) option" where
  "findContentVersion i s = (case jm_get (fx_versions s) i of
     None \<Rightarrow> Inr None
   | Some v \<Rightarrow> (case (jm_get (fx_files s) (cv_fileId v), jm_get (fx_handles s) i) of
       (Some f, Some h) \<Rightarrow> if h = [] then Inl fc_conflict else Inr (Some (v, f, h))
     | _ \<Rightarrow> Inl fc_conflict))"

definition findFile :: "string \<Rightarrow> fc_store \<Rightarrow> file_metadata option" where
  "findFile i s = jm_get (fx_files s) i"

definition findSession ::
  "string \<Rightarrow> fc_store \<Rightarrow> fc_failure + (upload_session \<times> content_version \<times> file_metadata \<times> string) option" where
  "findSession i s = (case jm_get (fx_sessions s) i of
     None \<Rightarrow> Inr None
   | Some u \<Rightarrow> bindE (findContentVersion (us_contentVersionId u) s) (\<lambda>found. case found of
       None \<Rightarrow> Inl fc_conflict | Some j \<Rightarrow> Inr (Some (u, j))))"

definition findLink :: "string \<Rightarrow> fc_store \<Rightarrow> resource_link option" where
  "findLink i s = jm_get (fx_links s) i"

definition findActiveLink :: "string \<Rightarrow> string \<Rightarrow> fc_resource \<Rightarrow> fc_store \<Rightarrow> resource_link option" where
  "findActiveLink fileId versionId target s = find (\<lambda>l. rl_fileId l = fileId \<and> rl_contentVersionId l = versionId
     \<and> rl_resource l = target \<and> rl_unlinkedAt l = None) (jm_values (fx_links s))"

section \<open>Changes\<close>

type_synonym fc_work = "fc_store \<Rightarrow> fc_failure + fc_result \<times> fc_store"

definition fc_when :: "bool \<Rightarrow> fc_failure \<Rightarrow> fc_failure + 'a \<Rightarrow> fc_failure + 'a" where
  "fc_when b e r = (if b then r else Inl e)"

text \<open>The version, its handle and its session enter the store.\<close>

definition put_version :: "content_version \<Rightarrow> string \<Rightarrow> upload_session \<Rightarrow> fc_store \<Rightarrow> fc_store" where
  "put_version v h u s = s\<lparr>fx_versions := jm_set (fx_versions s) (cv_contentVersionId v) v,
     fx_handles := jm_set (fx_handles s) (cv_contentVersionId v) h,
     fx_sessions := jm_set (fx_sessions s) (us_sessionId u) u\<rparr>"

definition version_free :: "content_version \<Rightarrow> string \<Rightarrow> upload_session \<Rightarrow> fc_store \<Rightarrow> bool" where
  "version_free v h u s \<longleftrightarrow> \<not> jm_has (fx_versions s) (cv_contentVersionId v) \<and> \<not> jm_has (fx_sessions s) (us_sessionId u)
     \<and> h \<notin> set (jm_values (fx_handles s))"

definition upload_result :: "content_version \<Rightarrow> file_metadata \<Rightarrow> string \<Rightarrow> upload_session \<Rightarrow> fc_result" where
  "upload_result v f h u = \<lparr>rr_version = Some v, rr_file = Some f, rr_handle = Some h, rr_session = Some u, rr_link = None\<rparr>"

definition create_upload :: "content_version \<Rightarrow> file_metadata \<Rightarrow> string \<Rightarrow> upload_session \<Rightarrow> fc_work" where
  "create_upload v f h u s =
     fc_when (\<not> jm_has (fx_files s) (fm_fileId f) \<and> version_free v h u s) fc_conflict
       (Inr (upload_result v f h u, put_version v h u (s\<lparr>fx_files := jm_set (fx_files s) (fm_fileId f) f\<rparr>)))"

definition next_number :: "string \<Rightarrow> fc_store \<Rightarrow> nat" where
  "next_number fileId s =
     foldl max 0 (map cv_versionNumber (filter (\<lambda>v. cv_fileId v = fileId) (jm_values (fx_versions s)))) + 1"

definition create_version :: "content_version \<Rightarrow> string \<Rightarrow> upload_session \<Rightarrow> fc_work" where
  "create_version v h u s = (case jm_get (fx_files s) (cv_fileId v) of
     None \<Rightarrow> fc_refuse File_not_found
   | Some f \<Rightarrow> let v' = v\<lparr>cv_versionNumber := next_number (fm_fileId f) s\<rparr> in
       fc_when (version_free v' h u s) fc_conflict (Inr (upload_result v' f h u, put_version v' h u s)))"

text \<open>What an inspection of the uploaded object found.\<close>

record upload_facts =
  uf_checksumSha256 :: "string option"
  uf_completedAt :: string
  uf_detectedMediaType :: "string option"
  uf_sizeBytes :: int

definition keep_or :: "'a option \<Rightarrow> 'a option \<Rightarrow> 'a option" where
  "keep_or new old = (case new of None \<Rightarrow> old | Some x \<Rightarrow> Some x)"

definition completed_version :: "upload_facts \<Rightarrow> content_version \<Rightarrow> content_version" where
  "completed_version x v = v\<lparr>cv_actualSizeBytes := Some (uf_sizeBytes x),
     cv_checksumSha256 := keep_or (uf_checksumSha256 x) (cv_checksumSha256 v), cv_completedAt := Some (uf_completedAt x),
     cv_detectedMediaType := keep_or (uf_detectedMediaType x) (cv_detectedMediaType v), cv_status := Pending_scan\<rparr>"

definition complete_upload :: "string \<Rightarrow> upload_facts \<Rightarrow> fc_event \<Rightarrow> fc_work" where
  "complete_upload sessionId x e s =
     bindE (findSession sessionId s) (\<lambda>found. case found of
       None \<Rightarrow> fc_refuse File_not_found
     | Some (u, v, _, _) \<Rightarrow>
         fc_when (us_status u = Session_created \<and> cv_status v = Awaiting_upload \<and> str_lt (uf_completedAt x) (us_expiresAt u))
           fc_conflict
           (let v' = completed_version x v in
            Inr (fc_nothing\<lparr>rr_version := Some v'\<rparr>,
              fc_emit (Some e) (s\<lparr>fx_versions := jm_set (fx_versions s) (cv_contentVersionId v') v',
                fx_sessions := jm_set (fx_sessions s) sessionId (u\<lparr>us_status := Session_pending_scan\<rparr>)\<rparr>))))"

definition record_scan :: "string \<Rightarrow> fc_event option \<Rightarrow> scan_outcome \<Rightarrow> string \<Rightarrow> fc_work" where
  "record_scan i e outcome scannedAt s =
     bindE (findContentVersion i s) (\<lambda>found. case found of
       None \<Rightarrow> fc_refuse File_not_found
     | Some (v, _, h) \<Rightarrow>
         fc_when (cv_status v = Pending_scan) fc_conflict
           (let v' = v\<lparr>cv_scannedAt := Some scannedAt,
                  cv_status := (if outcome = Scan_clean then Available else Quarantine_pending)\<rparr> in
            Inr (fc_nothing\<lparr>rr_version := Some v', rr_handle := Some h\<rparr>,
              fc_emit e (s\<lparr>fx_versions := jm_set (fx_versions s) i v'\<rparr>))))"

definition complete_quarantine :: "string \<Rightarrow> fc_event \<Rightarrow> fc_work" where
  "complete_quarantine i e s = (case jm_get (fx_versions s) i of
     None \<Rightarrow> fc_refuse File_not_found
   | Some v \<Rightarrow>
       if cv_status v = Quarantined then Inr (fc_nothing\<lparr>rr_version := Some v\<rparr>, s)
       else fc_when (cv_status v = Quarantine_pending) fc_conflict
         (let v' = v\<lparr>cv_status := Quarantined\<rparr> in
          Inr (fc_nothing\<lparr>rr_version := Some v'\<rparr>, fc_emit (Some e) (s\<lparr>fx_versions := jm_set (fx_versions s) i v'\<rparr>))))"

definition link_resource :: "resource_link \<Rightarrow> fc_event \<Rightarrow> fc_work" where
  "link_resource l e s = (case jm_get (fx_versions s) (rl_contentVersionId l) of
     None \<Rightarrow> fc_refuse File_not_found
   | Some v \<Rightarrow>
       fc_when (cv_fileId v = rl_fileId l) (Fc_error File_not_found False)
       (fc_when (cv_status v = Available) (Fc_error File_not_ready False)
       (fc_when (\<not> jm_has (fx_links s) (rl_linkId l)) fc_conflict
         (Inr (fc_nothing\<lparr>rr_link := Some l\<rparr>,
           fc_emit (Some e) (s\<lparr>fx_links := jm_set (fx_links s) (rl_linkId l) l\<rparr>))))))"

definition unlink_resource :: "string \<Rightarrow> string \<Rightarrow> fc_event \<Rightarrow> fc_work" where
  "unlink_resource i unlinkedAt e s = (case jm_get (fx_links s) i of
     None \<Rightarrow> fc_refuse File_not_found
   | Some l \<Rightarrow>
       fc_when (rl_unlinkedAt l = None) fc_conflict
         (let l' = l\<lparr>rl_unlinkedAt := Some unlinkedAt\<rparr> in
          Inr (fc_nothing\<lparr>rr_link := Some l'\<rparr>, fc_emit (Some e) (s\<lparr>fx_links := jm_set (fx_links s) i l'\<rparr>))))"

definition cleanup_session :: "string \<Rightarrow> fc_work" where
  "cleanup_session i s =
     bindE (findSession i s) (\<lambda>found. case found of
       None \<Rightarrow> fc_refuse File_not_found
     | Some (u, v, _, h) \<Rightarrow>
         fc_when (us_status u \<in> {Session_created, Session_expired, Session_cleanup_pending}) fc_conflict
           (let u' = u\<lparr>us_status := Session_cleanup_pending\<rparr> in
            Inr (fc_nothing\<lparr>rr_handle := Some h, rr_session := Some u'\<rparr>,
              s\<lparr>fx_sessions := jm_set (fx_sessions s) i u',
                fx_versions := jm_set (fx_versions s) (cv_contentVersionId v) (v\<lparr>cv_status := Cleanup_pending\<rparr>)\<rparr>)))"

definition complete_cleanup :: "string \<Rightarrow> fc_work" where
  "complete_cleanup i s = (case jm_get (fx_sessions s) i of
     None \<Rightarrow> fc_refuse File_not_found
   | Some u \<Rightarrow>
       if us_status u = Session_cleaned then Inr (fc_nothing\<lparr>rr_session := Some u\<rparr>, s)
       else fc_when (us_status u = Session_cleanup_pending) fc_conflict
         (case jm_get (fx_versions s) (us_contentVersionId u) of
            None \<Rightarrow> Inl fc_conflict
          | Some v \<Rightarrow> fc_when (cv_status v = Cleanup_pending) fc_conflict
              (let u' = u\<lparr>us_status := Session_cleaned\<rparr> in
               Inr (fc_nothing\<lparr>rr_session := Some u'\<rparr>,
                 s\<lparr>fx_versions := jm_set (fx_versions s) (cv_contentVersionId v) (v\<lparr>cv_status := Content_deleted\<rparr>),
                   fx_sessions := jm_set (fx_sessions s) i u'\<rparr>))))"

definition mark_reconciled :: "string \<Rightarrow> bool \<Rightarrow> fc_work" where
  "mark_reconciled i objectExists s = (case jm_get (fx_versions s) i of
     None \<Rightarrow> fc_refuse File_not_found
   | Some v \<Rightarrow>
       let v' = (if \<not> objectExists \<and> cv_status v \<in> {Pending_scan, Available} then v\<lparr>cv_status := Object_missing\<rparr> else v) in
       Inr (fc_nothing\<lparr>rr_version := Some v'\<rparr>, s\<lparr>fx_versions := jm_set (fx_versions s) i v'\<rparr>))"

section \<open>The operations\<close>

datatype fc_change =
    Create_upload content_version file_metadata string upload_session
  | Create_version content_version string upload_session
  | Complete_upload string upload_facts fc_event
  | Record_scan string "fc_event option" scan_outcome string
  | Link_resource resource_link fc_event
  | Unlink_resource string string fc_event
  | Cleanup_session string
  | Mark_reconciled string bool

fun fc_apply :: "fc_change \<Rightarrow> fc_work" where
  "fc_apply (Create_upload v f h u) = create_upload v f h u"
| "fc_apply (Create_version v h u) = create_version v h u"
| "fc_apply (Complete_upload i x e) = complete_upload i x e"
| "fc_apply (Record_scan i e outcome t) = record_scan i e outcome t"
| "fc_apply (Link_resource l e) = link_resource l e"
| "fc_apply (Unlink_resource i t e) = unlink_resource i t e"
| "fc_apply (Cleanup_session i) = cleanup_session i"
| "fc_apply (Mark_reconciled i b) = mark_reconciled i b"

text \<open>The operations with a receipt, and the two that finish what another began.\<close>

datatype fc_op =
    With_receipt (fo_operationId: string) (fo_fingerprint: string) fc_change
  | Complete_quarantine string fc_event
  | Complete_cleanup string

type_synonym 'a fc_act = "(fc_store, fc_failure, 'a) act"

definition fc_work_run :: "fc_work \<Rightarrow> fc_result fc_act" where
  "fc_work_run work s = (case work s of Inl e \<Rightarrow> (Inl e, s) | Inr (r, s') \<Rightarrow> (Inr r, s'))"

fun fc_run :: "fc_op \<Rightarrow> (fc_result \<times> bool) fc_act" where
  "fc_run (With_receipt operationId fp c) =
     bindA (\<lambda>s. liftA (receipt_of operationId fp s) s) (\<lambda>prior. case prior of
       Some r \<Rightarrow> retA (r, True)
     | None \<Rightarrow> bindA (fc_work_run (fc_apply c)) (\<lambda>r.
         bindA (modifyA (fc_save operationId fp r)) (\<lambda>_. retA (r, False))))"
| "fc_run (Complete_quarantine i e) = bindA (fc_work_run (complete_quarantine i e)) (\<lambda>r. retA (r, False))"
| "fc_run (Complete_cleanup i) = bindA (fc_work_run (complete_cleanup i)) (\<lambda>r. retA (r, False))"

end
