(* ===== verification/FileCenter.thy ===== *)
theory FileCenter
  imports FileStore
begin

text \<open>
  The service of the file center (\<open>file-center/src/service.ts\<close>) over the in-memory store. What the authorizer,
  the audit, the object storage and the scanner answer is a parameter of each operation; audit entries and
  calls of the storage and the scanner are logs beside the store. Where an operation waits, others may run operations of
  the store.
\<close>

section \<open>Ports\<close>

datatype fc_action = To_cleanup | To_download | To_link | To_reconcile | To_reference | To_scan | To_upload

record fc_request =
  fq_action :: fc_action
  fq_actor :: fc_actor
  fq_ownerModule :: "string option"
  fq_resourceReference :: string

datatype fc_phase = Fc_attempted | Fc_denied | Fc_failed | Fc_succeeded

record fc_context =
  fk_actor :: fc_actor
  fk_operationId :: string
  fk_reason :: string
  fk_traceId :: string

record fc_audit =
  ft_action :: fc_action
  ft_context :: fc_context
  ft_decisionId :: string
  ft_resourceReference :: string
  ft_phase :: fc_phase

datatype storage_call =
    Upload_granted string string
  | Download_granted string string
  | Object_scanned string scan_outcome
  | Object_quarantined string
  | Object_deleted string

text \<open>A storage rejects with an error of the file center or another one (\<open>None\<close>).\<close>

type_synonym 'a storage_answer = "fc_failure option + 'a"

text \<open>
  \<open>fv_clock n\<close> and \<open>fv_newId n\<close> are what the clock and the generator give at the place \<open>n\<close> where the operation
  asks them, \<open>fv_others n\<close> the operations of others at its pause \<open>n\<close>. \<open>fv_read\<close> gives bytes or something else.
\<close>

record fc_env =
  fv_lib :: fc_lib
  fv_authorize :: "fc_request \<Rightarrow> string + js_value"
  fv_auditFails :: "fc_audit \<Rightarrow> bool"
  fv_clock :: "nat \<Rightarrow> int option"
  fv_newId :: "nat \<Rightarrow> string"
  fv_uploadGrant :: "string \<Rightarrow> int \<Rightarrow> string \<Rightarrow> string \<Rightarrow> js_value storage_answer"
  fv_downloadGrant :: "string \<Rightarrow> string \<Rightarrow> string \<Rightarrow> js_value storage_answer"
  fv_inspect :: "string \<Rightarrow> js_value storage_answer"
  fv_read :: "string \<Rightarrow> string option storage_answer"
  fv_quarantine :: "string \<Rightarrow> unit storage_answer"
  fv_delete :: "string \<Rightarrow> unit storage_answer"
  fv_scan :: "string \<Rightarrow> string + js_value"
  fv_others :: "nat \<Rightarrow> fc_op list"
  fv_downloadGrantTtlMs :: int
  fv_maximumScanBytes :: int
  fv_maximumUploadBytes :: int
  fv_uploadSessionTtlMs :: int

record fc_world =
  fw_store :: fc_store
  fw_audit :: "fc_audit list"
  fw_storage :: "storage_call list"

type_synonym 'a fc_do = "(fc_world, fc_failure, 'a) act"

definition fc_now :: "fc_env \<Rightarrow> nat \<Rightarrow> int fc_do" where
  "fc_now env n = requireA (fv_clock env n) fc_down"

definition fc_newId :: "fc_env \<Rightarrow> nat \<Rightarrow> string fc_do" where
  "fc_newId env n = bindA (ensureA (uuid_any (fv_newId env n)) fc_down) (\<lambda>_. retA (map char_lower (fv_newId env n)))"

text \<open>The text of a time some milliseconds later; a time out of the range of dates has none.\<close>

definition fc_later :: "int \<Rightarrow> int \<Rightarrow> string fc_do" where
  "fc_later t ms = bindA (ensureA (\<bar>t + ms\<bar> \<le> 8640000000000000) Fc_range_error) (\<lambda>_. retA (any_iso (t + ms)))"

definition fc_portObject :: "js_value \<Rightarrow> string list \<Rightarrow> string list \<Rightarrow> fc_code \<Rightarrow> fc_members fc_do" where
  "fc_portObject v required optional code = liftA (case fc_exact v required optional of
     Inl _ \<Rightarrow> Inl (Fc_error code True) | Inr fs \<Rightarrow> Inr fs)"

definition storage_result :: "'a storage_answer \<Rightarrow> 'a fc_do" where
  "storage_result r = liftA (case r of Inl None \<Rightarrow> Inl fc_down | Inl (Some e) \<Rightarrow> Inl e | Inr x \<Rightarrow> Inr x)"

definition note_storage :: "storage_call \<Rightarrow> unit fc_do" where
  "note_storage c = modifyA (\<lambda>w. w\<lparr>fw_storage := fw_storage w @ [c]\<rparr>)"

definition header_entry :: "string \<times> js_value \<Rightarrow> (string \<times> string) option" where
  "header_entry e = (case e of
     (k, JString s) \<Rightarrow> if 1 \<le> length k \<and> length k \<le> 128 \<and> length s \<le> 1024 then Some (k, s) else None
   | _ \<Rightarrow> None)"

definition fc_headers :: "js_value \<Rightarrow> (string \<times> string) list fc_do" where
  "fc_headers v = liftA (case v of
     JUndefined \<Rightarrow> Inr []
   | JObject fs \<Rightarrow> if 20 < length fs then Inl fc_down
       else mapE (\<lambda>e. case header_entry e of None \<Rightarrow> Inl fc_down | Some h \<Rightarrow> Inr h) fs
   | _ \<Rightarrow> Inl fc_down)"

definition fc_decision :: "fc_env \<Rightarrow> fc_request \<Rightarrow> (bool \<times> string) fc_do" where
  "fc_decision env request =
     bindA (liftA (case fv_authorize env request of Inl _ \<Rightarrow> Inl fc_down | Inr v \<Rightarrow> Inr v)) (\<lambda>v.
     bindA (fc_portObject v [''allowed'', ''decisionId''] [] File_storage_unavailable) (\<lambda>fs.
     liftA (case (js_field fs ''allowed'', text_where uuid_any (js_field fs ''decisionId'')) of
       (JBool b, Some i) \<Rightarrow> Inr (b, map char_lower i) | _ \<Rightarrow> Inl fc_down)))"

definition fc_metadata :: "fc_members \<Rightarrow> fc_context fc_do" where
  "fc_metadata raw = liftA (
     bindE (fc_actor_of (js_field raw ''actor'')) (\<lambda>a.
     bindE (fc_uuid (js_field raw ''operationId'')) (\<lambda>operationId.
     bindE (fc_bounded (js_field raw ''reason'') 500) (\<lambda>reason.
     bindE (fc_trace (js_field raw ''traceId'')) (\<lambda>traceId.
     Inr \<lparr>fk_actor = a, fk_operationId = operationId, fk_reason = reason, fk_traceId = traceId\<rparr>)))))"

definition fc_record :: "fc_env \<Rightarrow> fc_audit \<Rightarrow> unit fc_do" where
  "fc_record env a w = (if fv_auditFails env a then (Inl fc_down, w) else (Inr (), w\<lparr>fw_audit := fw_audit w @ [a]\<rparr>))"

definition fc_entry :: "fc_action \<Rightarrow> fc_context \<Rightarrow> string \<Rightarrow> string \<Rightarrow> fc_phase \<Rightarrow> fc_audit" where
  "fc_entry action ctx decisionId resource phase = \<lparr>ft_action = action, ft_context = ctx, ft_decisionId = decisionId,
     ft_resourceReference = resource, ft_phase = phase\<rparr>"

definition fc_authorize :: "fc_env \<Rightarrow> fc_action \<Rightarrow> fc_context \<Rightarrow> string option \<Rightarrow> string \<Rightarrow> string fc_do" where
  "fc_authorize env action ctx owner resource =
     bindA (fc_decision env \<lparr>fq_action = action, fq_actor = fk_actor ctx, fq_ownerModule = owner,
         fq_resourceReference = resource\<rparr>) (\<lambda>(allowed, decisionId).
     bindA (fc_record env (fc_entry action ctx decisionId resource (if allowed then Fc_attempted else Fc_denied))) (\<lambda>_.
     bindA (ensureA allowed (Fc_error File_denied False)) (\<lambda>_. retA decisionId)))"

definition fc_succeeded :: "fc_env \<Rightarrow> fc_action \<Rightarrow> fc_context \<Rightarrow> string \<Rightarrow> string \<Rightarrow> unit fc_do" where
  "fc_succeeded env action ctx decisionId resource = fc_record env (fc_entry action ctx decisionId resource Fc_succeeded)"

text \<open>The failure is recorded if the audit takes it, and stays the failure; another error becomes one of the center's.\<close>

definition fc_failed :: "fc_env \<Rightarrow> fc_action \<Rightarrow> fc_context \<Rightarrow> string \<Rightarrow> string \<Rightarrow> fc_failure \<Rightarrow> 'a fc_do" where
  "fc_failed env action ctx decisionId resource e w =
     (Inl e, snd (fc_record env (fc_entry action ctx decisionId resource Fc_failed) w))"

definition fc_stable :: "fc_failure \<Rightarrow> fc_failure" where
  "fc_stable e = (case e of Fc_error c r \<Rightarrow> e | Fc_range_error \<Rightarrow> fc_down)"

definition fc_settled :: "fc_env \<Rightarrow> fc_action \<Rightarrow> fc_context \<Rightarrow> string \<Rightarrow> string \<Rightarrow> 'a fc_do \<Rightarrow> 'a fc_do" where
  "fc_settled env action ctx decisionId resource m =
     catchA m (\<lambda>e. fc_failed env action ctx decisionId resource (fc_stable e))"

definition fc_event_of :: "fc_env \<Rightarrow> nat \<Rightarrow> nat \<Rightarrow> fc_event_type \<Rightarrow> string \<Rightarrow> fc_event fc_do" where
  "fc_event_of env i n t resourceId =
     bindA (fc_newId env i) (\<lambda>eventId.
     bindA (fc_now env n) (\<lambda>now.
     retA \<lparr>fe_eventId = eventId, fe_eventType = t, fe_occurredAt = any_iso now, fe_resourceId = resourceId\<rparr>))"

definition fc_others :: "fc_env \<Rightarrow> nat \<Rightarrow> unit fc_do" where
  "fc_others env n = modifyA (\<lambda>w. w\<lparr>fw_store := run_all fc_run (fv_others env n) (fw_store w)\<rparr>)"

definition fc_call :: "fc_op \<Rightarrow> (fc_result \<times> bool) fc_do" where
  "fc_call op w = (case fc_run op (fw_store w) of (r, s) \<Rightarrow> (r, w\<lparr>fw_store := s\<rparr>))"

definition fc_lookup :: "(fc_store \<Rightarrow> fc_failure + 'a option) \<Rightarrow> 'a fc_do" where
  "fc_lookup f = bindA (\<lambda>w. liftA (f (fw_store w)) w) (\<lambda>found. requireA found (Fc_error File_not_found False))"

definition fc_hash :: "fc_env \<Rightarrow> fc_members \<Rightarrow> string fc_do" where
  "fc_hash env fs = liftA (fc_fingerprint (fv_lib env) fs)"

definition receipt_for :: "fc_context \<Rightarrow> string \<Rightarrow> fc_result option fc_do" where
  "receipt_for ctx fp = (\<lambda>w. liftA (receipt_of (fk_operationId ctx) fp (fw_store w)) w)"

definition target_text :: "fc_resource \<Rightarrow> string" where
  "target_text r = fs_resourceType r @ '':'' @ fs_resourceId r"

definition url_ok :: "string \<Rightarrow> bool" where
  "url_ok s \<longleftrightarrow> (let r = (if take 8 s = ''https://'' then Some (drop 8 s) else if take 7 s = ''http://'' then Some (drop 7 s) else None)
     in case r of None \<Rightarrow> False | Some t \<Rightarrow> 1 \<le> length t \<and> int (length t) \<le> 2048 \<and> (\<forall>c \<in> set t. c \<notin> set white))"

definition handle_of :: "string \<Rightarrow> string \<Rightarrow> string" where
  "handle_of fileId versionId = ''objects/'' @ fileId @ ''/'' @ versionId"

section \<open>Uploads\<close>

record upload_reply =
  up_reference :: file_reference
  up_replayed :: bool
  up_session :: upload_session
  up_grant :: upload_grant

text \<open>The session a created or replayed upload still has, when it can be uploaded to.\<close>

definition open_session :: "fc_env \<Rightarrow> upload_session \<Rightarrow> upload_session fc_do" where
  "open_session env u =
     bindA (\<lambda>w. liftA (findSession (us_sessionId u) (fw_store w)) w) (\<lambda>found.
     bindA (fc_now env 1) (\<lambda>issuedAt.
     case found of
       Some (current, _) \<Rightarrow>
         if us_status current = Session_created \<and> str_lt (any_iso issuedAt) (us_expiresAt current) then retA current
         else throwA fc_conflict
     | None \<Rightarrow> throwA fc_conflict))"

definition upload_url :: "fc_env \<Rightarrow> fc_result \<Rightarrow> upload_session \<Rightarrow> (string \<times> js_value) fc_do" where
  "upload_url env saved current =
     bindA (requireA (rr_version saved) fc_down) (\<lambda>v.
     bindA (requireA (rr_handle saved) fc_down) (\<lambda>h.
     bindA (storage_result (fv_uploadGrant env (cv_declaredMediaType v) (cv_declaredSizeBytes v) (us_expiresAt current) h)) (\<lambda>g.
     bindA (note_storage (Upload_granted h (us_expiresAt current))) (\<lambda>_.
     bindA (fc_portObject g [''url''] [''headers''] File_storage_unavailable) (\<lambda>fs.
     case text_where url_ok (js_field fs ''url'') of
       None \<Rightarrow> throwA fc_down | Some url \<Rightarrow> retA (url, js_field fs ''headers''))))))"

definition reference_for :: "content_version \<Rightarrow> file_metadata \<Rightarrow> file_reference" where
  "reference_for v f = \<lparr>fr_contentVersionId = cv_contentVersionId v, fr_displayName = fm_displayName f, fr_fileId = fm_fileId f,
     fr_mediaType = None, fr_sizeBytes = None\<rparr>"

definition new_version :: "string \<Rightarrow> string \<Rightarrow> string \<Rightarrow> string \<Rightarrow> int \<Rightarrow> nat \<Rightarrow> content_version" where
  "new_version versionId fileId createdAt mediaType declared number =
     \<lparr>cv_actualSizeBytes = None, cv_checksumSha256 = None, cv_completedAt = None, cv_contentVersionId = versionId,
      cv_createdAt = createdAt, cv_declaredMediaType = mediaType, cv_declaredSizeBytes = declared, cv_detectedMediaType = None,
      cv_fileId = fileId, cv_scannedAt = None, cv_status = Awaiting_upload, cv_versionNumber = number\<rparr>"

definition new_session :: "string \<Rightarrow> string \<Rightarrow> string \<Rightarrow> string \<Rightarrow> string \<Rightarrow> upload_session" where
  "new_session sessionId versionId fileId createdAt expiresAt =
     \<lparr>us_contentVersionId = versionId, us_createdAt = createdAt, us_expiresAt = expiresAt, us_fileId = fileId,
      us_sessionId = sessionId, us_status = Session_created\<rparr>"

definition createUploadSession :: "fc_env \<Rightarrow> js_value \<Rightarrow> upload_reply fc_do" where
  "createUploadSession env input =
     bindA (liftA (fc_exact input [''actor'', ''declaredMediaType'', ''declaredSizeBytes'', ''displayName'', ''operationId'',
       ''ownerModule'', ''reason'', ''traceId''] [''classificationReference''])) (\<lambda>raw.
     bindA (fc_metadata raw) (\<lambda>ctx.
     bindA (liftA (fc_id (js_field raw ''ownerModule''))) (\<lambda>ownerModule.
     bindA (fc_authorize env To_upload ctx (Some ownerModule) ownerModule) (\<lambda>auth.
     bindA (liftA (fc_positive (js_field raw ''declaredSizeBytes'') (fv_maximumUploadBytes env))) (\<lambda>size.
     bindA (liftA (fc_mediaType (js_field raw ''declaredMediaType''))) (\<lambda>mediaType.
     bindA (liftA (fc_bounded (js_field raw ''displayName'') 255)) (\<lambda>displayName.
     bindA (fc_now env 0) (\<lambda>now.
     bindA (fc_newId env 0) (\<lambda>fileId.
     bindA (fc_newId env 1) (\<lambda>versionId.
     bindA (fc_newId env 2) (\<lambda>sessionId.
     bindA (liftA (fc_optional fc_id (js_field raw ''classificationReference''))) (\<lambda>classification.
     bindA (fc_later now (fv_uploadSessionTtlMs env)) (\<lambda>expiresAt.
     let createdAt = any_iso now;
         file = \<lparr>fm_classification = classification, fm_createdAt = createdAt, fm_displayName = displayName,
           fm_fileId = fileId, fm_ownerModule = ownerModule, fm_uploadedBy = fk_actor ctx\<rparr>;
         semantic = [(''actor'', fc_actor_js (fk_actor ctx))] @ fc_opt_member ''classificationReference'' classification
           @ [(''declaredMediaType'', JString mediaType), (''declaredSizeBytes'', fc_int_js size),
              (''displayName'', JString displayName), (''ownerModule'', JString ownerModule)] in
     fc_settled env To_upload ctx auth fileId (
       bindA (fc_hash env semantic) (\<lambda>fp.
       bindA (fc_others env 0) (\<lambda>_.
       bindA (fc_call (With_receipt (fk_operationId ctx) fp (Create_upload
         (new_version versionId fileId createdAt mediaType size 1) file (handle_of fileId versionId)
         (new_session sessionId versionId fileId createdAt expiresAt)))) (\<lambda>(saved, replayed).
       bindA (fc_others env 1) (\<lambda>_.
       bindA (requireA (rr_session saved) fc_down) (\<lambda>u.
       bindA (open_session env u) (\<lambda>current.
       bindA (upload_url env saved current) (\<lambda>(url, rawHeaders).
       bindA (fc_headers rawHeaders) (\<lambda>hs.
       bindA (requireA (rr_version saved) fc_down) (\<lambda>v.
       bindA (requireA (rr_file saved) fc_down) (\<lambda>f.
       bindA (fc_succeeded env To_upload ctx auth (fm_fileId f)) (\<lambda>_.
       retA \<lparr>up_reference = reference_for v f, up_replayed = replayed, up_session = current,
         up_grant = \<lparr>ug_expiresAt = us_expiresAt current, ug_headers = hs, ug_uploadUrl = url\<rparr>\<rparr>)))))))))))))))))))))))))"

definition createContentVersionUpload :: "fc_env \<Rightarrow> js_value \<Rightarrow> upload_reply fc_do" where
  "createContentVersionUpload env input =
     bindA (liftA (fc_exact input [''actor'', ''declaredMediaType'', ''declaredSizeBytes'', ''fileId'', ''operationId'',
       ''reason'', ''traceId''] [])) (\<lambda>raw.
     bindA (fc_metadata raw) (\<lambda>ctx.
     bindA (liftA (fc_uuid (js_field raw ''fileId''))) (\<lambda>fileId.
     bindA (fc_authorize env To_upload ctx None fileId) (\<lambda>_.
     bindA (fc_lookup (\<lambda>s. Inr (findFile fileId s))) (\<lambda>existing.
     bindA (fc_authorize env To_upload ctx (Some (fm_ownerModule existing)) fileId) (\<lambda>auth.
     bindA (liftA (fc_positive (js_field raw ''declaredSizeBytes'') (fv_maximumUploadBytes env))) (\<lambda>size.
     bindA (liftA (fc_mediaType (js_field raw ''declaredMediaType''))) (\<lambda>mediaType.
     bindA (fc_now env 0) (\<lambda>now.
     bindA (fc_newId env 0) (\<lambda>versionId.
     bindA (fc_newId env 1) (\<lambda>sessionId.
     bindA (fc_later now (fv_uploadSessionTtlMs env)) (\<lambda>expiresAt.
     let createdAt = any_iso now in
     fc_settled env To_upload ctx auth fileId (
       bindA (fc_hash env [(''actor'', fc_actor_js (fk_actor ctx)), (''declaredMediaType'', JString mediaType),
         (''declaredSizeBytes'', fc_int_js size), (''fileId'', JString fileId)]) (\<lambda>fp.
       bindA (fc_others env 0) (\<lambda>_.
       bindA (fc_call (With_receipt (fk_operationId ctx) fp (Create_version
         (new_version versionId fileId createdAt mediaType size 0) (handle_of fileId versionId)
         (new_session sessionId versionId fileId createdAt expiresAt)))) (\<lambda>(saved, replayed).
       bindA (fc_others env 1) (\<lambda>_.
       bindA (requireA (rr_session saved) fc_down) (\<lambda>u.
       bindA (open_session env u) (\<lambda>current.
       bindA (upload_url env saved current) (\<lambda>(url, rawHeaders).
       bindA (fc_succeeded env To_upload ctx auth fileId) (\<lambda>_.
       bindA (requireA (rr_version saved) fc_down) (\<lambda>v.
       bindA (requireA (rr_file saved) fc_down) (\<lambda>f.
       bindA (fc_headers rawHeaders) (\<lambda>hs.
       retA \<lparr>up_reference = (reference_for v f)\<lparr>fr_fileId := fileId\<rparr>, up_replayed = replayed, up_session = current,
         up_grant = \<lparr>ug_expiresAt = us_expiresAt current, ug_headers = hs, ug_uploadUrl = url\<rparr>\<rparr>))))))))))))))))))))))))"

section \<open>Content\<close>

text \<open>Two authorizations, and between them the lookup of what is protected.\<close>

definition with_version ::
  "fc_env \<Rightarrow> fc_action \<Rightarrow> fc_context \<Rightarrow> string \<Rightarrow> ((content_version \<times> file_metadata \<times> string) \<Rightarrow> string \<Rightarrow> 'a fc_do) \<Rightarrow> 'a fc_do" where
  "with_version env action ctx versionId f =
     bindA (fc_authorize env action ctx None versionId) (\<lambda>_.
     bindA (fc_lookup (findContentVersion versionId)) (\<lambda>joined.
     bindA (fc_authorize env action ctx (Some (fm_ownerModule (fst (snd joined)))) (fm_fileId (fst (snd joined)))) (\<lambda>auth.
     f joined auth)))"

definition with_session ::
  "fc_env \<Rightarrow> fc_action \<Rightarrow> fc_context \<Rightarrow> string
    \<Rightarrow> ((upload_session \<times> content_version \<times> file_metadata \<times> string) \<Rightarrow> string \<Rightarrow> 'a fc_do) \<Rightarrow> 'a fc_do" where
  "with_session env action ctx sessionId f =
     bindA (fc_authorize env action ctx None sessionId) (\<lambda>_.
     bindA (fc_lookup (findSession sessionId)) (\<lambda>joined.
     let file = fst (snd (snd joined)) in
     bindA (fc_authorize env action ctx (Some (fm_ownerModule file)) (fm_fileId file)) (\<lambda>auth.
     f joined auth)))"

definition action_js :: "string \<Rightarrow> fc_context \<Rightarrow> string \<Rightarrow> string \<Rightarrow> fc_members" where
  "action_js name ctx k i = [(''action'', JString name), (''actor'', fc_actor_js (fk_actor ctx)), (k, JString i)]"

definition inspected :: "fc_env \<Rightarrow> string \<Rightarrow> (bool \<times> fc_members) fc_do" where
  "inspected env h =
     bindA (storage_result (fv_inspect env h)) (\<lambda>answer.
     bindA (fc_portObject answer [''exists''] [''checksumSha256'', ''detectedMediaType'', ''sizeBytes''] File_storage_unavailable) (\<lambda>fs.
     case js_field fs ''exists'' of JBool b \<Rightarrow> retA (b, fs) | _ \<Rightarrow> throwA fc_down))"

definition or_down :: "fc_failure + 'a \<Rightarrow> 'a fc_do" where
  "or_down r = liftA (case r of Inl _ \<Rightarrow> Inl fc_down | Inr x \<Rightarrow> Inr x)"

definition completeUpload :: "fc_env \<Rightarrow> js_value \<Rightarrow> (content_version option \<times> bool) fc_do" where
  "completeUpload env input =
     bindA (liftA (fc_exact input [''actor'', ''operationId'', ''reason'', ''sessionId'', ''traceId''] [])) (\<lambda>raw.
     bindA (fc_metadata raw) (\<lambda>ctx.
     bindA (liftA (fc_uuid (js_field raw ''sessionId''))) (\<lambda>sessionId.
     with_session env To_upload ctx sessionId (\<lambda>(u, v, file, h) auth.
     fc_settled env To_upload ctx auth (fm_fileId file) (
       bindA (fc_hash env (action_js ''complete_upload'' ctx ''sessionId'' sessionId)) (\<lambda>fp.
       bindA (fc_others env 0) (\<lambda>_.
       bindA (receipt_for ctx fp) (\<lambda>prior.
       case prior of
         Some r \<Rightarrow> bindA (fc_succeeded env To_upload ctx auth (fm_fileId file)) (\<lambda>_. retA (rr_version r, True))
       | None \<Rightarrow>
           bindA (fc_now env 0) (\<lambda>started.
           bindA (ensureA (str_lt (any_iso started) (us_expiresAt u)) fc_conflict) (\<lambda>_.
           bindA (inspected env h) (\<lambda>(exists, fs).
           bindA (ensureA (exists \<and> js_field fs ''sizeBytes'' \<noteq> JUndefined) (Fc_error File_not_ready False)) (\<lambda>_.
           bindA (liftA (fc_positive (js_field fs ''sizeBytes'') (fv_maximumUploadBytes env))) (\<lambda>sizeBytes.
           bindA (ensureA (sizeBytes = cv_declaredSizeBytes v) (Fc_error File_policy_rejected False)) (\<lambda>_.
           bindA (or_down (fc_optional fc_sha256 (js_field fs ''checksumSha256''))) (\<lambda>checksum.
           bindA (or_down (fc_optional fc_mediaType (js_field fs ''detectedMediaType''))) (\<lambda>detected.
           bindA (fc_now env 1) (\<lambda>now.
           bindA (fc_event_of env 0 2 Upload_completed (fm_fileId file)) (\<lambda>event.
           bindA (fc_others env 1) (\<lambda>_.
           bindA (fc_call (With_receipt (fk_operationId ctx) fp (Complete_upload sessionId
             \<lparr>uf_checksumSha256 = checksum, uf_completedAt = any_iso now, uf_detectedMediaType = detected,
              uf_sizeBytes = sizeBytes\<rparr> event))) (\<lambda>(r, replayed).
           bindA (fc_succeeded env To_upload ctx auth (fm_fileId file)) (\<lambda>_. retA (rr_version r, replayed))))))))))))))))))))))"

definition scan_outcome_of :: "js_value \<Rightarrow> scan_outcome option" where
  "scan_outcome_of v = (if v = JString ''clean'' then Some Scan_clean else if v = JString ''malicious'' then Some Scan_malicious
     else if v = JString ''unscannable'' then Some Scan_unscannable else None)"

text \<open>The object is moved away before its version becomes quarantined.\<close>

definition quarantine_now :: "fc_env \<Rightarrow> nat \<Rightarrow> string \<Rightarrow> string \<Rightarrow> string \<Rightarrow> content_version option fc_do" where
  "quarantine_now env n versionId h fileId =
     bindA (storage_result (fv_quarantine env h)) (\<lambda>_.
     bindA (note_storage (Object_quarantined h)) (\<lambda>_.
     bindA (fc_event_of env n n Content_quarantined fileId) (\<lambda>event.
     bindA (fc_others env 2) (\<lambda>_.
     bindA (fc_call (Complete_quarantine versionId event)) (\<lambda>(r, _). retA (rr_version r))))))"

definition scan_verdict :: "fc_env \<Rightarrow> string \<Rightarrow> scan_outcome fc_do" where
  "scan_verdict env h =
     bindA (storage_result (fv_read env h)) (\<lambda>answer.
     bindA (requireA answer fc_down) (\<lambda>bytes.
     bindA (ensureA (int (length bytes) \<le> fv_maximumScanBytes env) (Fc_error File_policy_rejected False)) (\<lambda>_.
     bindA (liftA (case fv_scan env bytes of Inl _ \<Rightarrow> Inl (Fc_error File_scan_unavailable True) | Inr v \<Rightarrow> Inr v)) (\<lambda>scanned.
     bindA (fc_portObject scanned [''outcome'', ''scannerVersion''] [] File_scan_unavailable) (\<lambda>fs.
     bindA (requireA (scan_outcome_of (js_field fs ''outcome'')) (Fc_error File_scan_unavailable True)) (\<lambda>outcome.
     bindA (liftA (case fc_bounded (js_field fs ''scannerVersion'') 128 of
         Inl _ \<Rightarrow> Inl (Fc_error File_scan_unavailable True) | Inr s \<Rightarrow> Inr s)) (\<lambda>_.
     bindA (note_storage (Object_scanned h outcome)) (\<lambda>_. retA outcome))))))))"

definition scan_finish ::
  "fc_env \<Rightarrow> fc_context \<Rightarrow> string \<Rightarrow> string \<Rightarrow> content_version option \<Rightarrow> bool \<Rightarrow> (content_version option \<times> bool) fc_do" where
  "scan_finish env ctx auth fileId v replayed =
     bindA (fc_succeeded env To_scan ctx auth fileId) (\<lambda>_. retA (v, replayed))"

definition record_verdict ::
  "fc_env \<Rightarrow> fc_context \<Rightarrow> string \<Rightarrow> string \<Rightarrow> string \<Rightarrow> string \<Rightarrow> scan_outcome \<Rightarrow> (content_version option \<times> bool) fc_do" where
  "record_verdict env ctx auth fileId versionId fp outcome =
     bindA (if outcome = Scan_clean
         then bindA (fc_event_of env 0 0 Content_available fileId) (\<lambda>e. retA (Some e))
         else retA None) (\<lambda>event.
     bindA (fc_now env 1) (\<lambda>scannedAt.
     bindA (fc_others env 1) (\<lambda>_.
     bindA (fc_call (With_receipt (fk_operationId ctx) fp (Record_scan versionId event outcome (any_iso scannedAt))))
       (\<lambda>(r, replayed).
     bindA (requireA (rr_version r) fc_down) (\<lambda>recorded.
     if cv_status recorded = Quarantine_pending
     then bindA (requireA (rr_handle r) fc_down) (\<lambda>h.
       bindA (quarantine_now env 2 versionId h fileId) (\<lambda>v. scan_finish env ctx auth fileId v replayed))
     else scan_finish env ctx auth fileId (Some recorded) replayed)))))"

definition scan_fresh ::
  "fc_env \<Rightarrow> fc_context \<Rightarrow> string \<Rightarrow> string \<Rightarrow> string \<Rightarrow> string \<Rightarrow> content_version \<Rightarrow> string
    \<Rightarrow> (content_version option \<times> bool) fc_do" where
  "scan_fresh env ctx auth fileId versionId fp v h =
     (if cv_status v = Quarantine_pending
      then bindA (quarantine_now env 0 versionId h fileId) (\<lambda>v'. scan_finish env ctx auth fileId v' True)
      else
        bindA (ensureA (cv_status v = Pending_scan) fc_conflict) (\<lambda>_.
        bindA (ensureA ((case cv_actualSizeBytes v of None \<Rightarrow> 0 | Some n \<Rightarrow> n) \<le> fv_maximumScanBytes env)
          (Fc_error File_policy_rejected False)) (\<lambda>_.
        bindA (scan_verdict env h) (record_verdict env ctx auth fileId versionId fp))))"

definition scan_again ::
  "fc_env \<Rightarrow> fc_context \<Rightarrow> string \<Rightarrow> string \<Rightarrow> string \<Rightarrow> fc_result \<Rightarrow> (content_version option \<times> bool) fc_do" where
  "scan_again env ctx auth fileId versionId r =
     bindA (requireA (rr_version r) fc_down) (\<lambda>scanned.
     if cv_status scanned = Quarantine_pending
     then bindA (requireA (rr_handle r) fc_down) (\<lambda>h.
       bindA (quarantine_now env 0 versionId h fileId) (\<lambda>v. scan_finish env ctx auth fileId v True))
     else scan_finish env ctx auth fileId (Some scanned) True)"

definition scanContentVersion :: "fc_env \<Rightarrow> js_value \<Rightarrow> (content_version option \<times> bool) fc_do" where
  "scanContentVersion env input =
     bindA (liftA (fc_exact input [''actor'', ''contentVersionId'', ''operationId'', ''reason'', ''traceId''] [])) (\<lambda>raw.
     bindA (fc_metadata raw) (\<lambda>ctx.
     bindA (liftA (fc_uuid (js_field raw ''contentVersionId''))) (\<lambda>versionId.
     with_version env To_scan ctx versionId (\<lambda>(v, file, h) auth.
     fc_settled env To_scan ctx auth (fm_fileId file) (
       bindA (fc_hash env (action_js ''scan'' ctx ''contentVersionId'' versionId)) (\<lambda>fp.
       bindA (fc_others env 0) (\<lambda>_.
       bindA (receipt_for ctx fp) (\<lambda>prior.
       case prior of
         Some r \<Rightarrow> scan_again env ctx auth (fm_fileId file) versionId r
       | None \<Rightarrow> scan_fresh env ctx auth (fm_fileId file) versionId fp v h))))))))"

definition reconcileContentVersion :: "fc_env \<Rightarrow> js_value \<Rightarrow> (content_version option \<times> bool) fc_do" where
  "reconcileContentVersion env input =
     bindA (liftA (fc_exact input [''actor'', ''contentVersionId'', ''operationId'', ''reason'', ''traceId''] [])) (\<lambda>raw.
     bindA (fc_metadata raw) (\<lambda>ctx.
     bindA (liftA (fc_uuid (js_field raw ''contentVersionId''))) (\<lambda>versionId.
     with_version env To_reconcile ctx versionId (\<lambda>(v, file, h) auth.
     fc_settled env To_reconcile ctx auth versionId (
       bindA (fc_hash env (action_js ''reconcile'' ctx ''contentVersionId'' versionId)) (\<lambda>fp.
       bindA (fc_others env 0) (\<lambda>_.
       bindA (receipt_for ctx fp) (\<lambda>prior.
       case prior of
         Some r \<Rightarrow> bindA (fc_succeeded env To_reconcile ctx auth versionId) (\<lambda>_. retA (rr_version r, True))
       | None \<Rightarrow>
           bindA (inspected env h) (\<lambda>(exists, _).
           bindA (fc_others env 1) (\<lambda>_.
           bindA (fc_call (With_receipt (fk_operationId ctx) fp (Mark_reconciled versionId exists))) (\<lambda>(r, replayed).
           bindA (fc_succeeded env To_reconcile ctx auth versionId) (\<lambda>_. retA (rr_version r, replayed)))))))))))))"

definition cleanupUploadSession :: "fc_env \<Rightarrow> js_value \<Rightarrow> bool fc_do" where
  "cleanupUploadSession env input =
     bindA (liftA (fc_exact input [''actor'', ''operationId'', ''reason'', ''sessionId'', ''traceId''] [])) (\<lambda>raw.
     bindA (fc_metadata raw) (\<lambda>ctx.
     bindA (liftA (fc_uuid (js_field raw ''sessionId''))) (\<lambda>sessionId.
     with_session env To_cleanup ctx sessionId (\<lambda>(u, v, file, h) auth.
     fc_settled env To_cleanup ctx auth sessionId (
       if us_status u = Session_cleaned then retA True
       else
         bindA (if us_status u = Session_created
             then bindA (fc_now env 0) (\<lambda>now. ensureA (\<not> str_lt (any_iso now) (us_expiresAt u)) fc_conflict)
             else retA ()) (\<lambda>_.
         bindA (fc_hash env [(''sessionId'', JString sessionId)]) (\<lambda>fp.
         bindA (fc_others env 0) (\<lambda>_.
         bindA (fc_call (With_receipt (fk_operationId ctx) fp (Cleanup_session sessionId))) (\<lambda>(pending, replayed).
         bindA (requireA (rr_handle pending) fc_down) (\<lambda>h'.
         bindA (storage_result (fv_delete env h')) (\<lambda>_.
         bindA (note_storage (Object_deleted h')) (\<lambda>_.
         bindA (fc_others env 1) (\<lambda>_.
         bindA (fc_call (Complete_cleanup sessionId)) (\<lambda>_.
         bindA (fc_succeeded env To_cleanup ctx auth sessionId) (\<lambda>_. retA replayed)))))))))))))))"

section \<open>Links, references and downloads\<close>

definition fc_question :: "js_value \<Rightarrow> (fc_context \<times> fc_resource \<times> file_reference) fc_do" where
  "fc_question input =
     bindA (liftA (fc_exact input [''actor'', ''fileReference'', ''operationId'', ''reason'', ''resource'', ''traceId''] [])) (\<lambda>raw.
     bindA (fc_metadata raw) (\<lambda>ctx.
     bindA (liftA (fc_resource_of (js_field raw ''resource''))) (\<lambda>target.
     bindA (liftA (fc_reference_of (js_field raw ''fileReference''))) (\<lambda>wanted. retA (ctx, target, wanted)))))"

text \<open>Without an active link of the version to the resource the question is denied, and the denial recorded.\<close>

definition need_link ::
  "fc_env \<Rightarrow> fc_action \<Rightarrow> fc_context \<Rightarrow> string \<Rightarrow> fc_resource \<Rightarrow> file_reference \<Rightarrow> resource_link fc_do" where
  "need_link env action ctx coarse target wanted =
     bindA (getsA (\<lambda>w. findActiveLink (fr_fileId wanted) (fr_contentVersionId wanted) target (fw_store w))) (\<lambda>found.
     case found of
       Some l \<Rightarrow> retA l
     | None \<Rightarrow> bindA (fc_record env (fc_entry action ctx coarse (target_text target) Fc_denied)) (\<lambda>_.
         throwA (Fc_error File_denied False)))"

definition need_version :: "file_reference \<Rightarrow> (content_version \<times> file_metadata \<times> string) fc_do" where
  "need_version wanted =
     bindA (fc_lookup (findContentVersion (fr_contentVersionId wanted))) (\<lambda>joined.
     bindA (ensureA (fm_fileId (fst (snd joined)) = fr_fileId wanted) (Fc_error File_not_found False)) (\<lambda>_. retA joined))"

definition trusted_reference :: "file_reference \<Rightarrow> content_version \<Rightarrow> file_metadata \<Rightarrow> file_reference" where
  "trusted_reference wanted v file =
     \<lparr>fr_contentVersionId = fr_contentVersionId wanted, fr_displayName = fm_displayName file, fr_fileId = fr_fileId wanted,
      fr_mediaType = cv_detectedMediaType v, fr_sizeBytes = cv_actualSizeBytes v\<rparr>"

definition resolveFileReference :: "fc_env \<Rightarrow> js_value \<Rightarrow> file_reference fc_do" where
  "resolveFileReference env input =
     bindA (fc_question input) (\<lambda>(ctx, target, wanted).
     bindA (fc_authorize env To_reference ctx None (target_text target)) (\<lambda>coarse.
     bindA (need_link env To_reference ctx coarse target wanted) (\<lambda>l.
     bindA (fc_authorize env To_reference ctx (Some (rl_ownerModule l)) (target_text target)) (\<lambda>auth.
     bindA (fc_others env 0) (\<lambda>_.
     bindA (need_version wanted) (\<lambda>(v, file, _).
     fc_settled env To_reference ctx auth (target_text target) (
       bindA (ensureA (cv_status v = Available) (Fc_error File_not_ready False)) (\<lambda>_.
       bindA (fc_succeeded env To_reference ctx auth (target_text target)) (\<lambda>_.
       retA (trusted_reference wanted v file))))))))))"

definition authorizeDownload :: "fc_env \<Rightarrow> js_value \<Rightarrow> download_grant fc_do" where
  "authorizeDownload env input =
     bindA (fc_question input) (\<lambda>(ctx, target, wanted).
     bindA (fc_authorize env To_download ctx None (target_text target)) (\<lambda>coarse.
     bindA (need_version wanted) (\<lambda>(v, file, h).
     bindA (fc_others env 0) (\<lambda>_.
     bindA (need_link env To_download ctx coarse target wanted) (\<lambda>l.
     bindA (fc_authorize env To_download ctx (Some (rl_ownerModule l)) (target_text target)) (\<lambda>auth.
     fc_settled env To_download ctx auth (fr_fileId wanted) (
       bindA (ensureA (cv_status v = Available) (Fc_error File_not_ready False)) (\<lambda>_.
       bindA (fc_now env 0) (\<lambda>now.
       bindA (fc_later now (fv_downloadGrantTtlMs env)) (\<lambda>expiresAt.
       bindA (storage_result (fv_downloadGrant env (safeDisposition (fm_displayName file)) expiresAt h)) (\<lambda>g.
       bindA (note_storage (Download_granted h expiresAt)) (\<lambda>_.
       bindA (fc_portObject g [''url''] [] File_storage_unavailable) (\<lambda>fs.
       bindA (requireA (text_where url_ok (js_field fs ''url'')) fc_down) (\<lambda>url.
       bindA (fc_succeeded env To_download ctx auth (fr_fileId wanted)) (\<lambda>_.
       retA \<lparr>dg_downloadUrl = url, dg_expiresAt = expiresAt,
         dg_fileReference = trusted_reference wanted v file\<rparr>)))))))))))))))"

definition linkResource :: "fc_env \<Rightarrow> js_value \<Rightarrow> (resource_link option \<times> bool) fc_do" where
  "linkResource env input =
     bindA (liftA (fc_exact input [''actor'', ''fileReference'', ''linkId'', ''operationId'', ''ownerModule'', ''reason'',
       ''relationType'', ''resource'', ''traceId''] [])) (\<lambda>raw.
     bindA (fc_metadata raw) (\<lambda>ctx.
     bindA (liftA (fc_resource_of (js_field raw ''resource''))) (\<lambda>target.
     bindA (liftA (fc_id (js_field raw ''ownerModule''))) (\<lambda>ownerModule.
     bindA (fc_authorize env To_link ctx (Some ownerModule) (target_text target)) (\<lambda>_.
     bindA (liftA (fc_reference_of (js_field raw ''fileReference''))) (\<lambda>wanted.
     bindA (need_version wanted) (\<lambda>(v, file, _).
     bindA (fc_authorize env To_link ctx (Some (fm_ownerModule file)) (fr_fileId wanted)) (\<lambda>auth.
     bindA (fc_now env 0) (\<lambda>now.
     bindA (liftA (fc_uuid (js_field raw ''linkId''))) (\<lambda>linkId.
     bindA (liftA (fc_id (js_field raw ''relationType''))) (\<lambda>relationType.
     let l = \<lparr>rl_contentVersionId = fr_contentVersionId wanted, rl_fileId = fr_fileId wanted, rl_linkedAt = any_iso now,
           rl_linkId = linkId, rl_ownerModule = ownerModule, rl_relationType = relationType, rl_resource = target,
           rl_unlinkedAt = None\<rparr> in
     catchA (
       bindA (fc_event_of env 0 1 Resource_linked (fr_fileId wanted)) (\<lambda>event.
       bindA (fc_hash env [(''contentVersionId'', JString (rl_contentVersionId l)), (''fileId'', JString (rl_fileId l)),
         (''linkId'', JString linkId), (''ownerModule'', JString ownerModule), (''relationType'', JString relationType),
         (''resource'', fc_resource_js target)]) (\<lambda>fp.
       bindA (fc_others env 0) (\<lambda>_.
       bindA (fc_call (With_receipt (fk_operationId ctx) fp (Link_resource l event))) (\<lambda>(r, replayed).
       bindA (fc_succeeded env To_link ctx auth linkId) (\<lambda>_. retA (rr_link r, replayed)))))))
       (fc_failed env To_link ctx auth linkId))))))))))))"

definition unlinkResource :: "fc_env \<Rightarrow> js_value \<Rightarrow> (resource_link option \<times> bool) fc_do" where
  "unlinkResource env input =
     bindA (liftA (fc_exact input [''actor'', ''linkId'', ''operationId'', ''reason'', ''traceId''] [])) (\<lambda>raw.
     bindA (fc_metadata raw) (\<lambda>ctx.
     bindA (liftA (fc_uuid (js_field raw ''linkId''))) (\<lambda>linkId.
     bindA (fc_authorize env To_link ctx None linkId) (\<lambda>_.
     bindA (fc_lookup (\<lambda>s. Inr (findLink linkId s))) (\<lambda>existing.
     bindA (fc_authorize env To_link ctx (Some (rl_ownerModule existing)) (target_text (rl_resource existing))) (\<lambda>auth.
     catchA (
       bindA (fc_event_of env 0 0 Resource_unlinked (rl_fileId existing)) (\<lambda>event.
       bindA (fc_hash env [(''linkId'', JString linkId)]) (\<lambda>fp.
       bindA (fc_now env 1) (\<lambda>now.
       bindA (fc_others env 0) (\<lambda>_.
       bindA (fc_call (With_receipt (fk_operationId ctx) fp (Unlink_resource linkId (any_iso now) event))) (\<lambda>(r, replayed).
       bindA (fc_succeeded env To_link ctx auth linkId) (\<lambda>_. retA (rr_link r, replayed))))))))
       (fc_failed env To_link ctx auth linkId)))))))"

text \<open>One operation of the service, for runs of many.\<close>

datatype fc_request_kind =
    Ask_create | Ask_version | Ask_complete | Ask_scan | Ask_reconcile | Ask_cleanup | Ask_resolve | Ask_download | Ask_link
  | Ask_unlink

fun fc_serve :: "fc_env \<times> fc_request_kind \<times> js_value \<Rightarrow> unit fc_do" where
  "fc_serve (env, Ask_create, v) = voidA (createUploadSession env v)"
| "fc_serve (env, Ask_version, v) = voidA (createContentVersionUpload env v)"
| "fc_serve (env, Ask_complete, v) = voidA (completeUpload env v)"
| "fc_serve (env, Ask_scan, v) = voidA (scanContentVersion env v)"
| "fc_serve (env, Ask_reconcile, v) = voidA (reconcileContentVersion env v)"
| "fc_serve (env, Ask_cleanup, v) = voidA (cleanupUploadSession env v)"
| "fc_serve (env, Ask_resolve, v) = voidA (resolveFileReference env v)"
| "fc_serve (env, Ask_download, v) = voidA (authorizeDownload env v)"
| "fc_serve (env, Ask_link, v) = voidA (linkResource env v)"
| "fc_serve (env, Ask_unlink, v) = voidA (unlinkResource env v)"

end
