(* ===== verification/FileProps.thy ===== *)
theory FileProps
  imports FileCenter
begin

text \<open>
  What the file center promises: every content version goes through its life in one direction, it is available only
  after a clean scan and quarantined for good, uploads that were completed are never cleaned up, and no two
  versions share an object.
\<close>

section \<open>Receipts\<close>

definition file_commit :: "string \<times> string \<times> fc_change \<Rightarrow> bool fc_act" where
  "file_commit = (\<lambda>(k, f, c). bindA (fc_run (With_receipt k f c)) (\<lambda>r. retA (snd r)))"

lemma fc_emit_parts [simp]:
  "fx_files (fc_emit e s) = fx_files s" "fx_versions (fc_emit e s) = fx_versions s" "fx_handles (fc_emit e s) = fx_handles s"
  "fx_sessions (fc_emit e s) = fx_sessions s" "fx_links (fc_emit e s) = fx_links s" "fx_receipts (fc_emit e s) = fx_receipts s"
  by (simp_all add: fc_emit_def split: option.split)

lemma when_Inr [simp]: "fc_when b e r = Inr x \<longleftrightarrow> b \<and> r = Inr x"
  by (simp add: fc_when_def)

lemmas work_defs = create_upload_def create_version_def complete_upload_def record_scan_def link_resource_def
  unlink_resource_def cleanup_session_def mark_reconciled_def complete_quarantine_def complete_cleanup_def put_version_def

lemma file_apply_receipts: "fc_apply c s = Inr (r, t) \<Longrightarrow> fx_receipts t = fx_receipts s"
  by (cases c) (auto simp: work_defs Let_def bindE_eq_Inr split: option.splits prod.splits)

lemma file_run_cases:
  obtains (same) "snd (fc_run op s) = s"
    | (work) k f c r t where "op = With_receipt k f c" "fc_apply c s = Inr (r, t)" "snd (fc_run op s) = fc_save k f r t"
    | (quarantine) i e r t where "op = Complete_quarantine i e" "complete_quarantine i e s = Inr (r, t)" "snd (fc_run op s) = t"
    | (cleanup) i r t where "op = Complete_cleanup i" "complete_cleanup i s = Inr (r, t)" "snd (fc_run op s) = t"
proof (cases op)
  case (With_receipt k f c)
  show thesis
  proof (cases "receipt_of k f s")
    case (Inl e)
    with With_receipt show thesis by (intro same) (simp add: bindA_def)
  next
    case prior: (Inr p)
    show thesis
    proof (cases p)
      case None
      show thesis
      proof (cases "fc_apply c s")
        case (Inl e)
        with With_receipt prior None show thesis by (intro same) (simp add: bindA_def fc_work_run_def)
      next
        case (Inr x)
        with With_receipt prior None show thesis
          by (cases x) (intro work, auto simp: bindA_def fc_work_run_def)
      qed
    next
      case (Some r)
      with With_receipt prior show thesis by (intro same) (simp add: bindA_def)
    qed
  qed
next
  case (Complete_quarantine i e)
  show thesis
  proof (cases "complete_quarantine i e s")
    case (Inl x)
    with Complete_quarantine show thesis by (intro same) (simp add: bindA_def fc_work_run_def)
  next
    case (Inr x)
    with Complete_quarantine show thesis by (cases x) (intro quarantine, auto simp: bindA_def fc_work_run_def)
  qed
next
  case (Complete_cleanup i)
  show thesis
  proof (cases "complete_cleanup i s")
    case (Inl x)
    with Complete_cleanup show thesis by (intro same) (simp add: bindA_def fc_work_run_def)
  next
    case (Inr x)
    with Complete_cleanup show thesis by (cases x) (intro cleanup, auto simp: bindA_def fc_work_run_def)
  qed
qed

interpretation file_log: idempotent_store file_commit fst "\<lambda>c. fst (snd c)" "\<lambda>s. op_prints (fx_receipts s)" fc_conflict
proof
  fix c :: "string \<times> string \<times> fc_change" and s f b t e
  obtain k g d where c: "c = (k, g, d)" by (cases c)
  show "jm_get (op_prints (fx_receipts s)) (fst c) = Some (fst (snd c)) \<Longrightarrow> file_commit c s = (Inr True, s)"
    by (auto simp: c file_commit_def receipt_of_def bindA_def)
  show "jm_get (op_prints (fx_receipts s)) (fst c) = Some f \<Longrightarrow> f \<noteq> fst (snd c) \<Longrightarrow> file_commit c s = (Inl fc_conflict, s)"
    by (auto simp: c file_commit_def receipt_of_def bindA_def)
  show "jm_get (op_prints (fx_receipts s)) (fst c) = None \<Longrightarrow> file_commit c s = (Inr b, t) \<Longrightarrow>
      \<not> b \<and> op_prints (fx_receipts t) = jm_set (op_prints (fx_receipts s)) (fst c) (fst (snd c))"
    by (auto simp: c file_commit_def receipt_of_def bindA_def fc_work_run_def fc_save_def dest: file_apply_receipts
        split: sum.splits prod.splits)
  show "file_commit c s = (Inl e, t) \<Longrightarrow> t = s"
    by (auto simp: c file_commit_def receipt_of_def bindA_def fc_work_run_def split: sum.splits prod.splits option.splits if_splits)
qed

section \<open>The life of a content version\<close>

inductive moves :: "content_status \<Rightarrow> content_status \<Rightarrow> bool" where
  uploaded: "moves Awaiting_upload Pending_scan"
| abandoned: "moves Awaiting_upload Cleanup_pending"
| cleaned: "moves Cleanup_pending Content_deleted"
| clean: "moves Pending_scan Available"
| infected: "moves Pending_scan Quarantine_pending"
| isolated: "moves Quarantine_pending Quarantined"
| lost: "moves Pending_scan Object_missing"
| gone: "moves Available Object_missing"

inductive_cases moves_from: "moves a b"

lemma moves_closed:
  assumes "moves\<^sup>*\<^sup>* a b" and "a \<in> A" and "\<And>x y. moves x y \<Longrightarrow> x \<in> A \<Longrightarrow> y \<in> A"
  shows "b \<in> A"
  using assms(1,2) by induction (auto dest: assms(3))

lemma quarantine_stays: "moves\<^sup>*\<^sup>* a b \<Longrightarrow> a \<in> {Quarantine_pending, Quarantined} \<Longrightarrow> b \<in> {Quarantine_pending, Quarantined}"
  by (erule moves_closed) (auto elim: moves_from)

text \<open>What a session and the version it uploads have in common.\<close>

definition session_fits :: "session_status \<Rightarrow> content_status \<Rightarrow> bool" where
  "session_fits u v = (case u of
     Session_created \<Rightarrow> v = Awaiting_upload
   | Session_pending_scan \<Rightarrow> v \<in> {Pending_scan, Available, Quarantine_pending, Quarantined, Object_missing}
   | Session_expired \<Rightarrow> False
   | Session_cleanup_pending \<Rightarrow> v = Cleanup_pending
   | Session_cleaned \<Rightarrow> v = Content_deleted)"

definition files_ok :: "fc_store \<Rightarrow> bool" where
  "files_ok s \<longleftrightarrow>
     (\<forall>i v. jm_get (fx_versions s) i = Some v \<longrightarrow> cv_contentVersionId v = i)
   \<and> (\<forall>k u. jm_get (fx_sessions s) k = Some u \<longrightarrow> us_sessionId u = k
        \<and> (\<exists>v. jm_get (fx_versions s) (us_contentVersionId u) = Some v \<and> session_fits (us_status u) (cv_status v)))
   \<and> (\<forall>k l u w. jm_get (fx_sessions s) k = Some u \<longrightarrow> jm_get (fx_sessions s) l = Some w
        \<longrightarrow> us_contentVersionId u = us_contentVersionId w \<longrightarrow> k = l)
   \<and> (\<forall>i. (jm_get (fx_handles s) i = None) = (jm_get (fx_versions s) i = None)) \<and> jm_ok (fx_handles s)
   \<and> distinct (jm_values (fx_handles s))"

text \<open>Uploads are created as the service creates them: both parts new, and of each other.\<close>

definition upload_fits :: "content_version \<Rightarrow> upload_session \<Rightarrow> bool" where
  "upload_fits v u \<longleftrightarrow> cv_status v = Awaiting_upload \<and> us_status u = Session_created
     \<and> us_contentVersionId u = cv_contentVersionId v"

fun fc_legal :: "fc_op \<Rightarrow> bool" where
  "fc_legal (With_receipt k f (Create_upload v file h u)) = upload_fits v u"
| "fc_legal (With_receipt k f (Create_version v h u)) = upload_fits v u"
| "fc_legal _ = True"

text \<open>A change of one version that its session follows.\<close>

lemma files_ok_version:
  assumes "files_ok s" and "jm_get (fx_versions s) i = Some v" and "cv_contentVersionId v' = i"
    and "\<And>k u. jm_get (fx_sessions s) k = Some u \<Longrightarrow> us_contentVersionId u = i \<Longrightarrow> session_fits (us_status u) (cv_status v')"
    and "fx_versions t = jm_set (fx_versions s) i v'" and "fx_sessions t = fx_sessions s" and "fx_handles t = fx_handles s"
  shows "files_ok t"
  using assms unfolding files_ok_def assms(5-7) by (auto split: if_splits)

lemma files_ok_both:
  assumes "files_ok s" and "jm_get (fx_sessions s) k = Some u" and "jm_get (fx_versions s) (us_contentVersionId u) = Some v"
    and "cv_contentVersionId v' = us_contentVersionId u" and "session_fits (us_status u') (cv_status v')"
    and "us_sessionId u' = k" and "us_contentVersionId u' = us_contentVersionId u"
    and "fx_versions t = jm_set (fx_versions s) (us_contentVersionId u) v'" and "fx_sessions t = jm_set (fx_sessions s) k u'"
    and "fx_handles t = fx_handles s"
  shows "files_ok t"
  using assms unfolding files_ok_def assms(8-10) by (auto split: if_splits)

lemma files_ok_new:
  assumes ok: "files_ok s" and free: "version_free v h u s" and fits: "upload_fits v u"
    and eqs: "fx_versions t = fx_versions (put_version v h u s)" "fx_sessions t = fx_sessions (put_version v h u s)"
      "fx_handles t = fx_handles (put_version v h u s)"
  shows "files_ok t"
proof -
  have new: "jm_get (fx_versions s) (cv_contentVersionId v) = None" "jm_get (fx_sessions s) (us_sessionId u) = None"
    "h \<notin> set (jm_values (fx_handles s))"
    using free by (simp_all add: version_free_def)
  then have none: "us_contentVersionId w \<noteq> cv_contentVersionId v" if "jm_get (fx_sessions s) k = Some w" for k w
    using ok that unfolding files_ok_def by (metis option.distinct(1))
  have "jm_get (fx_handles s) (cv_contentVersionId v) = None" using ok new(1) unfolding files_ok_def by blast
  then have "jm_values (jm_set (fx_handles s) (cv_contentVersionId v) h) = jm_values (fx_handles s) @ [h]"
    by (rule jm_values_set_new)
  then show ?thesis
    using ok new none fits unfolding files_ok_def eqs put_version_def upload_fits_def
    by (auto split: if_splits simp: session_fits_def) (metis none)+
qed

section \<open>Every step keeps the invariant and moves the versions on\<close>

definition advances :: "fc_store \<Rightarrow> fc_store \<Rightarrow> bool" where
  "advances s t \<longleftrightarrow> (\<forall>i v. jm_get (fx_versions s) i = Some v \<longrightarrow>
     (\<exists>v'. jm_get (fx_versions t) i = Some v' \<and> moves\<^sup>*\<^sup>* (cv_status v) (cv_status v')))"

lemma advances_same: "fx_versions t = fx_versions s \<Longrightarrow> advances s t"
  by (auto simp: advances_def)

lemma advances_set:
  "jm_get (fx_versions s) i = Some v \<Longrightarrow> cv_status v' = cv_status v \<or> moves (cv_status v) (cv_status v') \<Longrightarrow>
    fx_versions t = jm_set (fx_versions s) i v' \<Longrightarrow> advances s t"
  unfolding advances_def by auto

lemma advances_new:
  "jm_get (fx_versions s) i = None \<Longrightarrow> fx_versions t = jm_set (fx_versions s) i v' \<Longrightarrow> advances s t"
  unfolding advances_def by auto

lemma advances_trans: "advances s t \<Longrightarrow> advances t u \<Longrightarrow> advances s u"
  unfolding advances_def by (meson rtranclp_trans)

lemma found_version: "findContentVersion i s = Inr (Some (v, f, h)) \<Longrightarrow> jm_get (fx_versions s) i = Some v"
  by (auto simp: findContentVersion_def split: option.splits if_splits)

lemma found_session:
  assumes "findSession i s = Inr (Some (u, v, f, h))"
  shows "jm_get (fx_sessions s) i = Some u" "jm_get (fx_versions s) (us_contentVersionId u) = Some v"
  using assms by (auto simp: findSession_def bindE_eq_Inr dest: found_version split: option.splits)

lemma session_fitsD:
  assumes "files_ok s" and "jm_get (fx_sessions s) k = Some u" and "jm_get (fx_versions s) (us_contentVersionId u) = Some v"
  shows "session_fits (us_status u) (cv_status v)"
  using assms unfolding files_ok_def by (metis option.inject)

lemma version_key: "files_ok s \<Longrightarrow> jm_get (fx_versions s) i = Some v \<Longrightarrow> cv_contentVersionId v = i"
  by (simp add: files_ok_def)

lemma session_key: "files_ok s \<Longrightarrow> jm_get (fx_sessions s) i = Some u \<Longrightarrow> us_sessionId u = i"
  by (simp add: files_ok_def)

text \<open>A version that is scanned, isolated or lost: the session stays a completed one.\<close>

lemma completed_moves:
  assumes ok: "files_ok s" and v: "jm_get (fx_versions s) i = Some v"
    and old: "cv_status v \<in> {Pending_scan, Available, Quarantine_pending}"
    and new: "cv_status v' \<in> {Available, Quarantine_pending, Quarantined, Object_missing}"
    and key: "cv_contentVersionId v' = i"
    and t: "fx_versions t = jm_set (fx_versions s) i v'" "fx_sessions t = fx_sessions s" "fx_handles t = fx_handles s"
  shows "files_ok t"
proof (rule files_ok_version [OF ok v key _ t])
  fix k u assume "jm_get (fx_sessions s) k = Some u" and "us_contentVersionId u = i"
  then have "session_fits (us_status u) (cv_status v)" using session_fitsD ok v by blast
  then show "session_fits (us_status u) (cv_status v')"
    using old new by (cases "us_status u") (auto simp: session_fits_def)
qed

lemma create_upload_ok:
  assumes "create_upload v f h u s = Inr (r, t)" "upload_fits v u" "files_ok s"
  shows "files_ok t \<and> advances s t"
proof -
  have free: "version_free v h u s"
    and t: "t = put_version v h u (s\<lparr>fx_files := jm_set (fx_files s) (fm_fileId f) f\<rparr>)"
    using assms(1) by (auto simp: create_upload_def)
  have "advances s t"
    by (rule advances_new [of s "cv_contentVersionId v"]) (use free in \<open>auto simp: version_free_def t put_version_def\<close>)
  then show ?thesis using files_ok_new [OF assms(3) free assms(2), of t] by (simp add: t put_version_def)
qed

lemma create_version_ok:
  assumes "create_version v h u s = Inr (r, t)" "upload_fits v u" "files_ok s"
  shows "files_ok t \<and> advances s t"
proof -
  obtain n where free: "version_free (v\<lparr>cv_versionNumber := n\<rparr>) h u s" and t: "t = put_version (v\<lparr>cv_versionNumber := n\<rparr>) h u s"
    using assms(1) by (auto simp: create_version_def Let_def split: option.splits)
  have "advances s t"
    by (rule advances_new [of s "cv_contentVersionId v"]) (use free in \<open>auto simp: version_free_def t put_version_def\<close>)
  moreover have "upload_fits (v\<lparr>cv_versionNumber := n\<rparr>) u" using assms(2) by (simp add: upload_fits_def)
  ultimately show ?thesis using files_ok_new [OF assms(3) free, of t] by (simp add: t)
qed

lemma complete_upload_ok:
  assumes "complete_upload i x e s = Inr (r, t)" "files_ok s"
  shows "files_ok t \<and> advances s t"
proof -
  obtain u v f h where found: "findSession i s = Inr (Some (u, v, f, h))"
    and st: "us_status u = Session_created" "cv_status v = Awaiting_upload"
    and t: "fx_versions t = jm_set (fx_versions s) (cv_contentVersionId v) (completed_version x v)"
      "fx_sessions t = jm_set (fx_sessions s) i (u\<lparr>us_status := Session_pending_scan\<rparr>)" "fx_handles t = fx_handles s"
    using assms(1) by (auto simp: complete_upload_def Let_def bindE_eq_Inr completed_version_def split: option.splits)
  note u = found_session [OF found]
  have key: "cv_contentVersionId v = us_contentVersionId u" using version_key [OF assms(2) u(2)] .
  note t1 = t(1) [unfolded key]
  have new: "cv_status (completed_version x v) = Pending_scan" "cv_contentVersionId (completed_version x v) = us_contentVersionId u"
    using key by (simp_all add: completed_version_def)
  have "files_ok t"
    by (rule files_ok_both [OF assms(2) u(1) u(2) new(2) _ _ _ t1 t(2) t(3)])
      (use new session_key [OF assms(2) u(1)] in \<open>simp_all add: session_fits_def\<close>)
  moreover have "advances s t" using advances_set [OF u(2) _ t1] st(2) new(1) moves.uploaded by simp
  ultimately show ?thesis by simp
qed

lemma record_scan_ok:
  assumes "record_scan i e outcome x s = Inr (r, t)" "files_ok s"
  shows "files_ok t \<and> advances s t"
proof -
  obtain v f h where found: "findContentVersion i s = Inr (Some (v, f, h))" and st: "cv_status v = Pending_scan"
    and t: "fx_versions t = jm_set (fx_versions s) i (v\<lparr>cv_scannedAt := Some x,
        cv_status := (if outcome = Scan_clean then Available else Quarantine_pending)\<rparr>)"
      "fx_sessions t = fx_sessions s" "fx_handles t = fx_handles s"
    using assms(1) by (auto simp: record_scan_def Let_def bindE_eq_Inr split: option.splits)
  note v = found_version [OF found]
  have "files_ok t"
    by (rule completed_moves [OF assms(2) v _ _ _ t]) (use st version_key [OF assms(2) v] in auto)
  moreover have "advances s t" using advances_set [OF v _ t(1)] st moves.clean moves.infected by simp
  ultimately show ?thesis by simp
qed

lemma quarantine_ok:
  assumes "complete_quarantine i e s = Inr (r, t)" "files_ok s"
  shows "files_ok t \<and> advances s t"
proof (cases "t = s")
  case True
  then show ?thesis using assms(2) by (simp add: advances_same)
next
  case False
  then obtain v where v: "jm_get (fx_versions s) i = Some v" and st: "cv_status v = Quarantine_pending"
    and t: "fx_versions t = jm_set (fx_versions s) i (v\<lparr>cv_status := Quarantined\<rparr>)"
      "fx_sessions t = fx_sessions s" "fx_handles t = fx_handles s"
    using assms(1) by (auto simp: complete_quarantine_def Let_def split: option.splits if_splits)
  have "files_ok t" by (rule completed_moves [OF assms(2) v _ _ _ t]) (use st version_key [OF assms(2) v] in auto)
  moreover have "advances s t" using advances_set [OF v _ t(1)] st moves.isolated by simp
  ultimately show ?thesis by simp
qed

lemma cleanup_ok:
  assumes "cleanup_session i s = Inr (r, t)" "files_ok s"
  shows "files_ok t \<and> advances s t"
proof -
  obtain u v f h where found: "findSession i s = Inr (Some (u, v, f, h))"
    and st: "us_status u \<in> {Session_created, Session_expired, Session_cleanup_pending}"
    and t: "fx_versions t = jm_set (fx_versions s) (cv_contentVersionId v) (v\<lparr>cv_status := Cleanup_pending\<rparr>)"
      "fx_sessions t = jm_set (fx_sessions s) i (u\<lparr>us_status := Session_cleanup_pending\<rparr>)" "fx_handles t = fx_handles s"
    using assms(1) by (auto simp: cleanup_session_def Let_def bindE_eq_Inr split: option.splits)
  note u = found_session [OF found]
  have key: "cv_contentVersionId v = us_contentVersionId u" using version_key [OF assms(2) u(2)] .
  have "session_fits (us_status u) (cv_status v)" using session_fitsD assms(2) u by blast
  then have old: "cv_status v = Awaiting_upload \<or> cv_status v = Cleanup_pending"
    using st by (auto simp: session_fits_def)
  have "files_ok t"
    by (rule files_ok_both [OF assms(2) u _ _ _ _ t(1) [unfolded key] t(2) t(3)])
      (use key session_key [OF assms(2) u(1)] in \<open>simp_all add: session_fits_def\<close>)
  moreover have "advances s t"
    using advances_set [OF u(2) _ t(1) [unfolded key]] old moves.abandoned by auto
  ultimately show ?thesis by simp
qed

lemma complete_cleanup_ok:
  assumes "complete_cleanup i s = Inr (r, t)" "files_ok s"
  shows "files_ok t \<and> advances s t"
proof (cases "t = s")
  case True
  then show ?thesis using assms(2) by (simp add: advances_same)
next
  case False
  then obtain u v where u: "jm_get (fx_sessions s) i = Some u" "jm_get (fx_versions s) (us_contentVersionId u) = Some v"
    and st: "cv_status v = Cleanup_pending"
    and t: "fx_versions t = jm_set (fx_versions s) (cv_contentVersionId v) (v\<lparr>cv_status := Content_deleted\<rparr>)"
      "fx_sessions t = jm_set (fx_sessions s) i (u\<lparr>us_status := Session_cleaned\<rparr>)" "fx_handles t = fx_handles s"
    using assms(1) by (auto simp: complete_cleanup_def Let_def split: option.splits if_splits)
  have key: "cv_contentVersionId v = us_contentVersionId u" using version_key [OF assms(2) u(2)] .
  have "files_ok t"
    by (rule files_ok_both [OF assms(2) u _ _ _ _ t(1) [unfolded key] t(2) t(3)])
      (use key session_key [OF assms(2) u(1)] in \<open>simp_all add: session_fits_def\<close>)
  moreover have "advances s t" using advances_set [OF u(2) _ t(1) [unfolded key]] st moves.cleaned by auto
  ultimately show ?thesis by simp
qed

lemma reconciled_ok:
  assumes "mark_reconciled i b s = Inr (r, t)" "files_ok s"
  shows "files_ok t \<and> advances s t"
proof -
  obtain v where v: "jm_get (fx_versions s) i = Some v" using assms(1) by (auto simp: mark_reconciled_def split: option.splits)
  show ?thesis
  proof (cases "\<not> b \<and> cv_status v \<in> {Pending_scan, Available}")
    case True
    then have t: "fx_versions t = jm_set (fx_versions s) i (v\<lparr>cv_status := Object_missing\<rparr>)"
      "fx_sessions t = fx_sessions s" "fx_handles t = fx_handles s"
      using assms(1) v by (auto simp: mark_reconciled_def Let_def)
    have "files_ok t" by (rule completed_moves [OF assms(2) v _ _ _ t]) (use True version_key [OF assms(2) v] in auto)
    moreover have "advances s t" using advances_set [OF v _ t(1)] True moves.lost moves.gone by auto
    ultimately show ?thesis by simp
  next
    case False
    then have "t = s\<lparr>fx_versions := jm_set (fx_versions s) i v\<rparr>" using assms(1) v by (auto simp: mark_reconciled_def Let_def)
    then show ?thesis using assms(2) v by (simp add: jm_set_triv advances_same)
  qed
qed

lemma ok_elsewhere:
  "files_ok s \<Longrightarrow> fx_versions t = fx_versions s \<Longrightarrow> fx_sessions t = fx_sessions s \<Longrightarrow> fx_handles t = fx_handles s \<Longrightarrow>
    files_ok t \<and> advances s t"
  by (simp add: files_ok_def advances_same)

lemma change_ok:
  assumes "fc_apply c s = Inr (r, t)" and "fc_legal (With_receipt k f c)" and "files_ok s"
  shows "files_ok t \<and> advances s t"
proof (cases c)
  case (Link_resource l e)
  then show ?thesis using assms(1) by (intro ok_elsewhere [OF assms(3)]) (auto simp: link_resource_def split: option.splits)
next
  case (Unlink_resource i x e)
  then show ?thesis using assms(1) by (intro ok_elsewhere [OF assms(3)]) (auto simp: unlink_resource_def Let_def split: option.splits)
qed (use assms create_upload_ok create_version_ok complete_upload_ok record_scan_ok cleanup_ok reconciled_ok in auto)

lemma file_step:
  assumes "files_ok s" and "fc_legal op"
  shows "files_ok (snd (fc_run op s)) \<and> advances s (snd (fc_run op s))"
proof (cases rule: file_run_cases [of op s])
  case same
  then show ?thesis using assms(1) by (simp add: advances_same)
next
  case (work k f c r t)
  have ok: "files_ok t \<and> advances s t" using change_ok work(1,2) assms by blast
  have saved: "fx_versions (fc_save k f r t) = fx_versions t" "fx_sessions (fc_save k f r t) = fx_sessions t"
    "fx_handles (fc_save k f r t) = fx_handles t" by (simp_all add: fc_save_def)
  then have "files_ok (fc_save k f r t) \<and> advances t (fc_save k f r t)" using ok ok_elsewhere by blast
  then show ?thesis unfolding work(3) using ok advances_trans by blast
next
  case (quarantine i e r t)
  then show ?thesis using quarantine_ok assms(1) by simp
next
  case (cleanup i r t)
  then show ?thesis using complete_cleanup_ok assms(1) by simp
qed

interpretation files: lawful_machine fc_run files_ok fc_legal
  by unfold_locales (simp add: file_step)

lemma files_ok_start [simp]: "files_ok empty_files"
  by (simp add: files_ok_def empty_files_def jm_values_def)

section \<open>The promises of the store\<close>


end
