(* ===== verification/FileSafety.thy ===== *)
theory FileSafety
  imports FileProps
begin

text \<open>
  What the requests to the file center promise together: content becomes available only after the scanner found
  the bytes of its object clean, and a download is granted only for available content that is linked to
  the resource, under two recorded decisions.
\<close>

section \<open>Scans of the store\<close>

definition scanned_clean :: "string \<Rightarrow> fc_op \<Rightarrow> bool" where
  "scanned_clean i op \<longleftrightarrow> (\<exists>k f e t. op = With_receipt k f (Record_scan i e Scan_clean t))"

definition available :: "fc_store \<Rightarrow> string \<Rightarrow> bool" where
  "available s i \<longleftrightarrow> (\<exists>v. jm_get (fx_versions s) i = Some v \<and> cv_status v = Available)"

lemma becomes_available:
  assumes ok: "files_ok s" and legal: "fc_legal op" and now: "available (snd (fc_run op s)) i"
  shows "available s i \<or> scanned_clean i op"
proof (cases rule: file_run_cases [of op s])
  case same
  then show ?thesis using now by simp
next
  case (work k f c r t)
  have t: "available t i" using now by (simp add: work(3) available_def fc_save_def)
  show ?thesis
  proof (cases c)
    case (Create_upload v fm h u)
    then show ?thesis using work(1,2) t legal
      by (auto simp: create_upload_def put_version_def available_def upload_fits_def split: if_splits)
  next
    case (Create_version v h u)
    then show ?thesis using work(1,2) t legal
      by (auto simp: create_version_def put_version_def available_def upload_fits_def Let_def split: option.splits if_splits)
  next
    case (Complete_upload j x e)
    then show ?thesis using work(2) t
      by (auto simp: complete_upload_def completed_version_def available_def Let_def bindE_eq_Inr split: option.splits if_splits)
  next
    case (Record_scan j e outcome x)
    then show ?thesis using work(1,2) t
      by (auto simp: record_scan_def available_def scanned_clean_def Let_def bindE_eq_Inr split: option.splits if_splits)
  next
    case (Link_resource l e)
    then show ?thesis using work(2) t by (auto simp: link_resource_def available_def split: option.splits)
  next
    case (Unlink_resource j x e)
    then show ?thesis using work(2) t by (auto simp: unlink_resource_def available_def Let_def split: option.splits)
  next
    case (Cleanup_session j)
    then show ?thesis using work(2) t
      by (auto simp: cleanup_session_def available_def Let_def bindE_eq_Inr split: option.splits if_splits)
  next
    case (Mark_reconciled j b)
    then show ?thesis using work(2) t
      by (auto simp: mark_reconciled_def available_def Let_def split: option.splits if_splits)
  qed
next
  case (quarantine j e r t)
  have "available t i" using now by (simp only: quarantine(3))
  then show ?thesis
    using quarantine(2) by (auto simp: complete_quarantine_def available_def Let_def split: option.splits if_splits)
next
  case (cleanup j r t)
  have "available t i" using now by (simp only: cleanup(3))
  then show ?thesis using cleanup(2) by (auto simp: complete_cleanup_def available_def Let_def split: option.splits if_splits)
qed

lemma handle_stays:
  assumes ok: "files_ok s" and h: "jm_get (fx_handles s) i = Some h"
  shows "jm_get (fx_handles (snd (fc_run op s))) i = Some h"
proof (cases rule: file_run_cases [of op s])
  case same
  then show ?thesis using h by simp
next
  case (work k f c r t)
  have old: "jm_get (fx_versions s) i \<noteq> None" using ok h unfolding files_ok_def by (metis option.distinct(1))
  have "jm_get (fx_handles t) i = Some h"
    using work(2) h old
    by (cases c) (auto simp: work_defs version_free_def Let_def bindE_eq_Inr split: option.splits)
  then show ?thesis by (simp add: work(3) fc_save_def)
next
  case (quarantine j e r t)
  have "jm_get (fx_handles t) i = Some h"
    using quarantine(2) h by (auto simp: complete_quarantine_def Let_def split: option.splits if_splits)
  then show ?thesis by (simp only: quarantine(3))
next
  case (cleanup j r t)
  have "jm_get (fx_handles t) i = Some h"
    using cleanup(2) h by (auto simp: complete_cleanup_def Let_def split: option.splits if_splits)
  then show ?thesis by (simp only: cleanup(3))
qed

section \<open>The center's invariant\<close>

definition center_ok :: "fc_world \<Rightarrow> bool" where
  "center_ok w \<longleftrightarrow> files_ok (fw_store w) \<and> (\<forall>i. available (fw_store w) i \<longrightarrow>
     (\<exists>h. jm_get (fx_handles (fw_store w)) i = Some h \<and> Object_scanned h Scan_clean \<in> set (fw_storage w)))"

text \<open>The object of a version, which stays its object, and maybe a clean scan of it.\<close>

definition center_with :: "string \<Rightarrow> string \<Rightarrow> bool \<Rightarrow> fc_world \<Rightarrow> bool" where
  "center_with i h clean w \<longleftrightarrow> center_ok w \<and> jm_get (fx_handles (fw_store w)) i = Some h
     \<and> (clean \<longrightarrow> Object_scanned h Scan_clean \<in> set (fw_storage w))"

lemma center_op:
  assumes "center_ok w" and "fc_legal op"
    and "\<And>i. scanned_clean i op \<Longrightarrow>
      \<exists>h. jm_get (fx_handles (fw_store w)) i = Some h \<and> Object_scanned h Scan_clean \<in> set (fw_storage w)"
  shows "center_ok (w\<lparr>fw_store := snd (fc_run op (fw_store w))\<rparr>)"
proof -
  let ?s = "fw_store w"
  have ok: "files_ok ?s" using assms(1) by (simp add: center_ok_def)
  have "\<exists>h. jm_get (fx_handles (snd (fc_run op ?s))) i = Some h \<and> Object_scanned h Scan_clean \<in> set (fw_storage w)"
    if "available (snd (fc_run op ?s)) i" for i
  proof -
    have "\<exists>h. jm_get (fx_handles ?s) i = Some h \<and> Object_scanned h Scan_clean \<in> set (fw_storage w)"
      using becomes_available [OF ok assms(2) that] assms(1,3) by (auto simp: center_ok_def)
    then show ?thesis using handle_stays [OF ok] by blast
  qed
  then show ?thesis using file_step [OF ok assms(2)] by (simp add: center_ok_def)
qed

text \<open>Others follow the rules of the store and leave the scanning to the center.\<close>

definition fair_op :: "fc_op \<Rightarrow> bool" where
  "fair_op op \<longleftrightarrow> fc_legal op \<and> (\<forall>i. \<not> scanned_clean i op)"

definition fair_env :: "fc_env \<Rightarrow> bool" where
  "fair_env env \<longleftrightarrow> (\<forall>n. list_all fair_op (fv_others env n))"

lemma center_others:
  assumes "center_ok w" and "list_all fair_op ops"
  shows "center_ok (w\<lparr>fw_store := run_all fc_run ops (fw_store w)\<rparr>)"
  using assms
proof (induction ops arbitrary: w)
  case (Cons op ops)
  let ?w = "w\<lparr>fw_store := snd (fc_run op (fw_store w))\<rparr>"
  have "center_ok ?w" by (rule center_op) (use Cons.prems in \<open>auto simp: fair_op_def\<close>)
  then have "center_ok (?w\<lparr>fw_store := run_all fc_run ops (fw_store ?w)\<rparr>)" using Cons.prems(2) by (intro Cons.IH) simp_all
  then show ?case by simp
qed simp

lemma handle_others:
  assumes "files_ok s" and "list_all fair_op ops" and "jm_get (fx_handles s) i = Some h"
  shows "jm_get (fx_handles (run_all fc_run ops s)) i = Some h"
  using assms by (induction ops arbitrary: s) (auto simp: fair_op_def file_step handle_stays)

section \<open>Every request keeps it\<close>

lemma snd_call [simp]: "snd (fc_call op w) = w\<lparr>fw_store := snd (fc_run op (fw_store w))\<rparr>"
  by (cases "fc_run op (fw_store w)") (simp add: fc_call_def)

named_theorems center "requests keep the center's invariant"

lemma keeps_record: "(\<And>w a. P w \<Longrightarrow> P (w\<lparr>fw_audit := a\<rparr>)) \<Longrightarrow> keepsA P (fc_record env e)"
  by (auto simp: keepsA_def fc_record_def)

definition steady :: "fc_env \<Rightarrow> (fc_world \<Rightarrow> bool) \<Rightarrow> bool" where
  "steady env P \<longleftrightarrow> (\<forall>w a. P w \<longrightarrow> P (w\<lparr>fw_audit := a\<rparr>)) \<and> (\<forall>w c. P w \<longrightarrow> P (w\<lparr>fw_storage := fw_storage w @ [c]\<rparr>))
     \<and> (\<forall>n. keepsA P (fc_others env n)) \<and> (\<forall>op. fair_op op \<longrightarrow> keepsA P (fc_call op))"

lemma steady_center:
  assumes "fair_env env"
  shows "steady env center_ok"
proof -
  have "keepsA center_ok (fc_call op)" if "fair_op op" for op
  proof (rule keepsA_I)
    fix w assume "center_ok w"
    then have "center_ok (w\<lparr>fw_store := snd (fc_run op (fw_store w))\<rparr>)"
      by (rule center_op) (use that in \<open>auto simp: fair_op_def\<close>)
    then show "center_ok (snd (fc_call op w))" by simp
  qed
  moreover have "keepsA center_ok (fc_others env n)" for n
    using assms by (auto simp: keepsA_def fc_others_def fair_env_def intro: center_others)
  ultimately show ?thesis by (auto simp: steady_def center_ok_def)
qed

lemma steady_with:
  assumes "fair_env env"
  shows "steady env (center_with i h clean)"
proof -
  have "keepsA (center_with i h clean) (fc_call op)" if "fair_op op" for op
  proof (rule keepsA_I)
    fix w assume w: "center_with i h clean w"
    then have "center_ok (snd (fc_call op w))"
      using steady_center [OF assms] that by (auto simp: steady_def center_with_def keepsA_def)
    moreover have "jm_get (fx_handles (fw_store (snd (fc_call op w)))) i = Some h"
      using w handle_stays [of "fw_store w" i h op] by (simp add: center_with_def center_ok_def)
    ultimately show "center_with i h clean (snd (fc_call op w))" using w by (simp add: center_with_def)
  qed
  moreover have "keepsA (center_with i h clean) (fc_others env n)" for n
    using assms center_others handle_others
    by (auto simp: keepsA_def fc_others_def fair_env_def center_with_def center_ok_def)
  ultimately show ?thesis by (auto simp: steady_def center_with_def center_ok_def)
qed

lemma steady_parts:
  assumes "steady env P"
  shows "keepsA P (fc_record env a)" "keepsA P (note_storage c)" "keepsA P (fc_others env n)"
    and "fair_op op \<Longrightarrow> keepsA P (fc_call op)"
  using assms by (auto simp: steady_def keepsA_def fc_record_def note_storage_def)

lemma keepsA_reads: "reads m \<Longrightarrow> keepsA P m"
  by (simp add: reads_def keepsA_def)

lemma case_reads: "(\<And>x. reads (f x)) \<Longrightarrow> reads (case v of None \<Rightarrow> throwA e | Some x \<Rightarrow> f x)"
  by (cases v) simp_all

lemma reads_read [simp]: "reads (\<lambda>w. liftA (f w) w)"
  by (simp add: reads_def)

lemma reads_ports [simp]:
  "reads (fc_now env n)" "reads (fc_newId env n)" "reads (fc_later t ms)" "reads (fc_portObject v xs ys code)"
  "reads (storage_result a)" "reads (fc_headers v)" "reads (fc_metadata raw)" "reads (fc_lookup f)" "reads (fc_hash env fs)"
  "reads (receipt_for ctx fp)" "reads (or_down r)"
  by (auto simp: fc_now_def fc_newId_def fc_later_def fc_portObject_def storage_result_def fc_headers_def fc_metadata_def
      fc_lookup_def fc_hash_def receipt_for_def or_down_def intro: reads_bind)

lemma reads_more [simp]:
  "reads (fc_decision env q)" "reads (fc_event_of env i n t r)" "reads (need_version wanted)" "reads (fc_question v)"
  by (auto simp: fc_decision_def fc_event_of_def need_version_def fc_question_def intro!: reads_bind)

lemma reads_inspected [simp]: "reads (inspected env h)"
  unfolding inspected_def by (intro reads_bind) (auto split: js_value.split bool.split)

lemma reads_open [simp]: "reads (open_session env u)"
  unfolding open_session_def by (intro reads_bind) (auto split: option.split)

lemma fc_authorize_keeps: "steady env P \<Longrightarrow> keepsA P (fc_authorize env action ctx owner resource)"
  unfolding fc_authorize_def by (intro keeps keepsA_reads steady_parts) simp_all

lemma succeeded_keeps: "steady env P \<Longrightarrow> keepsA P (fc_succeeded env action ctx d resource)"
  unfolding fc_succeeded_def by (rule steady_parts)

lemma failed_keeps: "steady env P \<Longrightarrow> keepsA P (fc_failed env action ctx d resource e)"
  using steady_parts(1) [of env P] by (simp add: keepsA_def fc_failed_def)

lemma settled_keeps: "steady env P \<Longrightarrow> keepsA P m \<Longrightarrow> keepsA P (fc_settled env action ctx d resource m)"
  unfolding fc_settled_def by (intro keeps failed_keeps)

lemmas center_rules = keeps steady_parts(1-3) fc_authorize_keeps succeeded_keeps failed_keeps settled_keeps

lemma upload_url_keeps: "steady env P \<Longrightarrow> keepsA P (upload_url env saved current)"
  unfolding upload_url_def by (intro center_rules keepsA_reads) simp_all

lemma need_link_keeps: "steady env P \<Longrightarrow> keepsA P (need_link env action ctx coarse target wanted)"
  unfolding need_link_def by (intro center_rules)

lemma fair_simps [simp]:
  "fair_op (With_receipt k f (Create_upload v m h u)) \<longleftrightarrow> upload_fits v u"
  "fair_op (With_receipt k f (Create_version v h u)) \<longleftrightarrow> upload_fits v u"
  "fair_op (With_receipt k f (Complete_upload i x e))" "fair_op (With_receipt k f (Link_resource l e))"
  "fair_op (With_receipt k f (Unlink_resource i t e))" "fair_op (With_receipt k f (Cleanup_session i))"
  "fair_op (With_receipt k f (Mark_reconciled i b))" "fair_op (Complete_quarantine i e)" "fair_op (Complete_cleanup i)"
  by (simp_all add: fair_op_def scanned_clean_def)

lemma new_fits [simp]: "upload_fits (new_version i fi c m z n) (new_session k i fi c x)"
  by (simp add: upload_fits_def new_version_def new_session_def)

lemma create_keeps: "steady env P \<Longrightarrow> keepsA P (createUploadSession env v)"
  unfolding createUploadSession_def
  by (intro center_rules upload_url_keeps keepsA_reads steady_parts(4)) simp_all

lemma version_upload_keeps: "steady env P \<Longrightarrow> keepsA P (createContentVersionUpload env v)"
  unfolding createContentVersionUpload_def
  by (intro center_rules upload_url_keeps keepsA_reads steady_parts(4)) simp_all

lemma link_keeps: "steady env P \<Longrightarrow> keepsA P (linkResource env v)"
  unfolding linkResource_def by (intro center_rules keepsA_reads steady_parts(4)) simp_all

lemma unlink_keeps: "steady env P \<Longrightarrow> keepsA P (unlinkResource env v)"
  unfolding unlinkResource_def by (intro center_rules keepsA_reads steady_parts(4)) simp_all

lemma resolve_keeps: "steady env P \<Longrightarrow> keepsA P (resolveFileReference env v)"
  unfolding resolveFileReference_def by (intro center_rules need_link_keeps keepsA_reads) simp_all

lemma download_keeps: "steady env P \<Longrightarrow> keepsA P (authorizeDownload env v)"
  unfolding authorizeDownload_def by (intro center_rules need_link_keeps keepsA_reads) simp_all

lemma session_keeps:
  assumes "steady env P" and "\<And>joined auth. keepsA P (f joined auth)"
  shows "keepsA P (with_session env action ctx i f)"
  unfolding with_session_def using assms(1) by (intro center_rules assms(2)) (simp_all add: keepsA_reads)

lemma complete_keeps: "steady env P \<Longrightarrow> keepsA P (completeUpload env v)"
  unfolding completeUpload_def
  by (intro center_rules session_keeps keepsA_reads steady_parts(4)) simp_all

lemma cleanup_keeps: "steady env P \<Longrightarrow> keepsA P (cleanupUploadSession env v)"
  unfolding cleanupUploadSession_def
  by (intro center_rules session_keeps keepsA_reads steady_parts(4)) simp_all

lemma version_keeps:
  assumes "steady env P" and "\<And>joined auth. keepsA P (f joined auth)"
  shows "keepsA P (with_version env action ctx i f)"
  unfolding with_version_def using assms(1) by (intro center_rules assms(2)) (simp_all add: keepsA_reads)

lemma reconcile_keeps: "steady env P \<Longrightarrow> keepsA P (reconcileContentVersion env v)"
  unfolding reconcileContentVersion_def
  by (intro center_rules version_keeps keepsA_reads steady_parts(4)) simp_all

section \<open>Scans\<close>

lemma found_handle: "findContentVersion i s = Inr (Some (v, f, h)) \<Longrightarrow> jm_get (fx_handles s) i = Some h"
  by (auto simp: findContentVersion_def split: option.splits if_splits)

lemma center_with_ok: "center_with i h clean w \<Longrightarrow> center_ok w"
  by (simp add: center_with_def)

lemma version_object_keeps:
  assumes "fair_env env" and "\<And>v m h auth. keepsA (center_with i h False) (f (v, m, h) auth)"
  shows "keepsA center_ok (with_version env action ctx i f)"
proof -
  note [intro] = steady_center [OF assms(1)] steady_with [OF assms(1)]
  let ?rest = "\<lambda>joined. bindA (fc_authorize env action ctx (Some (fm_ownerModule (fst (snd joined))))
    (fm_fileId (fst (snd joined)))) (f joined)"
  have "keepsA center_ok (bindA (fc_lookup (findContentVersion i)) ?rest)"
  proof (rule keepsA_bind_learn [where Q = "\<lambda>joined. center_with i (snd (snd joined)) False"])
    show "center_with i (snd (snd joined)) False t"
      if "center_ok s" "fc_lookup (findContentVersion i) s = (Inr joined, t)" for s joined t
      using that by (cases joined) (auto simp: fc_lookup_def bindA_eq_Inr center_with_def dest: found_handle)
    show "center_ok t" if "center_ok s" "fc_lookup (findContentVersion i) s = (Inl e, t)" for s e t
      using that by (auto simp: fc_lookup_def bindA_eq_Inl)
    show "center_ok (snd (?rest joined t))" if "center_with i (snd (snd joined)) False t" for joined t
    proof -
      have "keepsA (center_with i (snd (snd joined)) False) (?rest joined)"
        using assms(2) by (cases joined) (auto intro!: keepsA_bind fc_authorize_keeps)
      then show ?thesis using that center_with_ok unfolding keepsA_def by blast
    qed
  qed
  then show ?thesis
    unfolding with_version_def by (intro keepsA_bind [OF fc_authorize_keeps [OF steady_center [OF assms(1)]]])
qed

lemma verdict_noted: "scan_verdict env h s = (Inr outcome, t) \<Longrightarrow> t = s\<lparr>fw_storage := fw_storage s @ [Object_scanned h outcome]\<rparr>"
  unfolding scan_verdict_def by (auto simp: bindA_eq_Inr storage_result_def fc_portObject_def note_storage_def)

lemma verdict_fails: "scan_verdict env h s = (Inl e, t) \<Longrightarrow> t = s"
  unfolding scan_verdict_def
  by (auto simp: bindA_eq_Inl bindA_eq_Inr storage_result_def fc_portObject_def note_storage_def)

lemma scan_record_keeps:
  "keepsA (center_with i h (outcome = Scan_clean)) (fc_call (With_receipt k fp (Record_scan i e outcome t)))"
proof (rule keepsA_I)
  fix w assume w: "center_with i h (outcome = Scan_clean) w"
  let ?op = "With_receipt k fp (Record_scan i e outcome t)"
  have "center_ok (w\<lparr>fw_store := snd (fc_run ?op (fw_store w))\<rparr>)"
    by (rule center_op) (use w in \<open>auto simp: center_with_def scanned_clean_def simp del: fc_run.simps\<close>)
  then show "center_with i h (outcome = Scan_clean) (snd (fc_call ?op w))"
    using w handle_stays [of "fw_store w" i h ?op] by (simp add: center_with_def center_ok_def del: fc_run.simps)
qed

lemma quarantine_keeps: "steady env P \<Longrightarrow> keepsA P (quarantine_now env n i h fi)"
  unfolding quarantine_now_def by (intro center_rules keepsA_reads steady_parts(4)) simp_all

lemma scan_rest_keeps:
  assumes "fair_env env" and "\<And>outcome. keepsA (center_with i h (outcome = Scan_clean)) (f outcome)"
  shows "keepsA (center_with i h False) (bindA (scan_verdict env h) f)"
proof (rule keepsA_bind_learn [where Q = "\<lambda>outcome. center_with i h (outcome = Scan_clean)"])
  show "center_with i h (outcome = Scan_clean) t"
    if "center_with i h False s" "scan_verdict env h s = (Inr outcome, t)" for s outcome t
    using that(1) unfolding verdict_noted [OF that(2)] by (auto simp: center_with_def center_ok_def)
  show "center_with i h False t" if "center_with i h False s" "scan_verdict env h s = (Inl e, t)" for s e t
    using that(1) verdict_fails [OF that(2)] by simp
  show "center_with i h False (snd (f outcome t))" if "center_with i h (outcome = Scan_clean) t" for outcome t
    using keepsA_D [OF assms(2) that] by (simp add: center_with_def)
qed

lemma scan_finish_keeps: "steady env P \<Longrightarrow> keepsA P (scan_finish env ctx auth fi v' replayed)"
  unfolding scan_finish_def by (intro center_rules)

lemma again_keeps: "steady env P \<Longrightarrow> keepsA P (scan_again env ctx auth fi i r)"
  unfolding scan_again_def by (intro center_rules quarantine_keeps scan_finish_keeps)

lemma verdict_keeps:
  assumes "fair_env env"
  shows "keepsA (center_with i h (outcome = Scan_clean)) (record_verdict env ctx auth fi i fp outcome)"
  unfolding record_verdict_def using steady_with [OF assms]
  by (intro center_rules quarantine_keeps scan_finish_keeps scan_record_keeps) (simp_all add: keepsA_reads)

lemma fresh_keeps:
  assumes "fair_env env"
  shows "keepsA (center_with i h False) (scan_fresh env ctx auth fi i fp v h)"
  unfolding scan_fresh_def using steady_with [OF assms]
  by (intro keepsA_if keepsA_bind [OF quarantine_keeps] keepsA_bind [OF keepsA_ensure] scan_finish_keeps
      scan_rest_keeps [OF assms verdict_keeps [OF assms]])

lemma scan_keeps:
  assumes "fair_env env"
  shows "keepsA center_ok (scanContentVersion env v)"
proof -
  have "keepsA (center_with i h False) (fc_settled env To_scan ctx auth (fm_fileId m) (
      bindA (fc_hash env (action_js ''scan'' ctx ''contentVersionId'' i)) (\<lambda>fp.
      bindA (fc_others env 0) (\<lambda>_.
      bindA (receipt_for ctx fp) (\<lambda>prior.
      case prior of
        Some r \<Rightarrow> scan_again env ctx auth (fm_fileId m) i r
      | None \<Rightarrow> scan_fresh env ctx auth (fm_fileId m) i fp v h)))))" for i h ctx auth m v
    using steady_with [OF assms] fresh_keeps [OF assms]
    by (intro center_rules again_keeps) (simp_all add: keepsA_reads)
  then show ?thesis
    unfolding scanContentVersion_def
    by (intro keepsA_bind version_object_keeps assms) (simp_all add: keepsA_reads)
qed

section \<open>The promises of the center\<close>

lemma request_keeps: "fair_env env \<Longrightarrow> keepsA center_ok (fc_serve (env, kind, v))"
  using steady_center [of env]
  by (cases kind) (auto intro!: keepsA_voidA create_keeps version_upload_keeps complete_keeps scan_keeps reconcile_keeps
      cleanup_keeps resolve_keeps download_keeps link_keeps unlink_keeps)

interpretation center: lawful_machine fc_serve center_ok "\<lambda>request. fair_env (fst request)"
  by unfold_locales (auto simp: request_keeps keepsA_D split_paired_all)

definition new_center :: fc_world where
  "new_center = \<lparr>fw_store = empty_files, fw_audit = [], fw_storage = []\<rparr>"

lemma center_ok_start: "center_ok new_center"
  by (simp add: center_ok_def new_center_def available_def empty_files_def files_ok_start [unfolded empty_files_def])


section \<open>Downloads\<close>

lemma settled_Inr: "fc_settled env action ctx d resource m w = (Inr x, w') \<longleftrightarrow> m w = (Inr x, w')"
  by (auto simp: fc_settled_def catchA_def fc_failed_def split: sum.splits prod.splits)

lemma reads_Inr: "reads m \<Longrightarrow> m w = (Inr x, w') \<longleftrightarrow> w' = w \<and> m w = (Inr x, w)"
  unfolding reads_def by (metis snd_conv)

text \<open>The authorizer allowed that request, with that decision.\<close>

definition allows :: "fc_env \<Rightarrow> fc_request \<Rightarrow> string \<Rightarrow> bool" where
  "allows env q d \<longleftrightarrow> (\<exists>v fs. fv_authorize env q = Inr v \<and> fc_exact v [''allowed'', ''decisionId''] [] = Inr fs
     \<and> js_field fs ''allowed'' = JBool True \<and> map_option (map char_lower) (text_where uuid_any (js_field fs ''decisionId'')) = Some d)"

lemma decision_allows: "fc_decision env q w = (Inr (True, d), w') \<Longrightarrow> allows env q d \<and> w' = w"
  by (auto simp: fc_decision_def bindA_eq_Inr fc_portObject_def allows_def split: sum.splits js_value.splits bool.splits option.splits)

lemma authorized:
  "fc_authorize env action ctx owner resource w = (Inr d, w') \<Longrightarrow>
    allows env \<lparr>fq_action = action, fq_actor = fk_actor ctx, fq_ownerModule = owner, fq_resourceReference = resource\<rparr> d
    \<and> w' = w\<lparr>fw_audit := fw_audit w @ [fc_entry action ctx d resource Fc_attempted]\<rparr>"
  unfolding fc_authorize_def
  by (auto simp: bindA_eq_Inr fc_record_def dest!: decision_allows split: prod.splits if_splits)

definition download_request :: "fc_context \<Rightarrow> string option \<Rightarrow> fc_resource \<Rightarrow> fc_request" where
  "download_request ctx owner target = \<lparr>fq_action = To_download, fq_actor = fk_actor ctx, fq_ownerModule = owner,
     fq_resourceReference = target_text target\<rparr>"


end
