(* ===== verification/FileSamples.thy ===== *)
theory FileSamples
  imports FileSafety
begin

text \<open>
  A sample file: its upload, the scan, a link and a download. The properties of the file center apply to it, and
  the grant of the upload is still valid when the download is granted.
\<close>

definition fc_sample_id :: "string \<Rightarrow> string" where
  "fc_sample_id c = ''00000000-0000-4000-8000-00000000000'' @ c"

definition fc_sample_actor :: js_value where
  "fc_sample_actor = JObject [(''actorId'', JString ''alice''), (''actorType'', JString ''system'')]"

definition fc_sample_call :: "string \<Rightarrow> fc_members \<Rightarrow> js_value" where
  "fc_sample_call operation extra = JObject ([(''actor'', fc_sample_actor), (''operationId'', JString (fc_sample_id operation)),
     (''reason'', JString ''sample''), (''traceId'', JString ''1234567890abcdef1234567890abcdef'')] @ extra)"

text \<open>Identifiers with the digit \<open>c\<close>, and a clock that says \<open>t\<close>.\<close>

definition fc_sample_env :: "string \<Rightarrow> int \<Rightarrow> fc_env" where
  "fc_sample_env c t = \<lparr>fv_lib = \<lparr>fl_sha256 = (\<lambda>s. s), fl_numText = (\<lambda>_. ''1''), fl_dates = (\<lambda>_. None)\<rparr>,
     fv_authorize = (\<lambda>_. Inr (JObject [(''allowed'', JBool True), (''decisionId'', JString (fc_sample_id ''d''))])),
     fv_auditFails = (\<lambda>_. False), fv_clock = (\<lambda>_. Some t),
     fv_newId = (\<lambda>n. ''0000000'' @ show_int (int n) @ ''-0000-4000-8000-00000000000'' @ c),
     fv_uploadGrant = (\<lambda>_ _ _ _. Inr (JObject [(''url'', JString ''https://up'')])),
     fv_downloadGrant = (\<lambda>_ _ _. Inr (JObject [(''url'', JString ''https://down'')])),
     fv_inspect = (\<lambda>_. Inr (JObject [(''exists'', JBool True), (''sizeBytes'', JNumber (Fin 3))])),
     fv_read = (\<lambda>_. Inr (Some ''abc'')), fv_quarantine = (\<lambda>_. Inr ()), fv_delete = (\<lambda>_. Inr ()),
     fv_scan = (\<lambda>_. Inr (JObject [(''outcome'', JString ''clean''), (''scannerVersion'', JString ''1'')])),
     fv_others = (\<lambda>_. []), fv_downloadGrantTtlMs = 60000, fv_maximumScanBytes = 10, fv_maximumUploadBytes = 10,
     fv_uploadSessionTtlMs = 3600000\<rparr>"

definition fc_sample_version :: string where "fc_sample_version = ''00000001-0000-4000-8000-00000000000a''"
definition fc_sample_file :: string where "fc_sample_file = ''00000000-0000-4000-8000-00000000000a''"

definition fc_sample_reference :: js_value where
  "fc_sample_reference = JObject [(''contentVersionId'', JString fc_sample_version), (''displayName'', JString ''a.txt''),
     (''fileId'', JString fc_sample_file), (''version'', JNumber (Fin 1))]"

definition fc_sample_resource :: js_value where
  "fc_sample_resource = JObject [(''resourceId'', JString ''lead:1''), (''resourceType'', JString ''crm.lead'')]"

definition fc_sample_requests :: "(fc_env \<times> fc_request_kind \<times> js_value) list" where
  "fc_sample_requests =
     [(fc_sample_env ''a'' 0, Ask_create, fc_sample_call ''1'' [(''declaredMediaType'', JString ''text/plain''),
        (''declaredSizeBytes'', JNumber (Fin 3)), (''displayName'', JString ''a.txt''), (''ownerModule'', JString ''crm'')]),
      (fc_sample_env ''b'' 1000, Ask_complete,
        fc_sample_call ''2'' [(''sessionId'', JString ''00000002-0000-4000-8000-00000000000a'')]),
      (fc_sample_env ''c'' 2000, Ask_scan, fc_sample_call ''3'' [(''contentVersionId'', JString fc_sample_version)]),
      (fc_sample_env ''d'' 3000, Ask_link, fc_sample_call ''4'' [(''fileReference'', fc_sample_reference),
        (''linkId'', JString (fc_sample_id ''9'')), (''ownerModule'', JString ''crm''), (''relationType'', JString ''attachment''),
        (''resource'', fc_sample_resource)])]"

definition fc_sample_world :: fc_world where
  "fc_sample_world = run_all fc_serve fc_sample_requests new_center"

definition fc_sample_question :: js_value where
  "fc_sample_question = fc_sample_call ''5'' [(''fileReference'', fc_sample_reference), (''resource'', fc_sample_resource)]"

definition fc_sample_download :: "(fc_failure + download_grant) \<times> fc_world" where
  "fc_sample_download = authorizeDownload (fc_sample_env ''e'' 4000) fc_sample_question fc_sample_world"

lemma fc_sample_outcome:
  "(case fc_sample_download of (r, w) \<Rightarrow>
      (isOk r, map_option cv_status (jm_get (fx_versions (fw_store w)) fc_sample_version), fw_storage w))
    = (True, Some Available, [Upload_granted (handle_of fc_sample_file fc_sample_version) ''1970-01-01T01:00:00.000Z'',
        Object_scanned (handle_of fc_sample_file fc_sample_version) Scan_clean,
        Download_granted (handle_of fc_sample_file fc_sample_version) ''1970-01-01T00:01:04.000Z''])"
  by code_simp

lemma outcome_parts:
  "(case p of (r, w) \<Rightarrow> (f r, g w, h w)) = (x, y, z) \<Longrightarrow> f (fst p) = x \<and> g (snd p) = y \<and> h (snd p) = z"
  by (cases p) simp

lemmas fc_sample_run = outcome_parts [OF fc_sample_outcome]

definition fc_sample_all :: "(fc_env \<times> fc_request_kind \<times> js_value) list" where
  "fc_sample_all = fc_sample_requests @ [(fc_sample_env ''e'' 4000, Ask_download, fc_sample_question)]"

lemma fc_sample_end: "run_all fc_serve fc_sample_all new_center = snd fc_sample_download"
  by (simp add: fc_sample_all_def run_all_append fc_sample_world_def fc_sample_download_def)

lemma fc_sample_fair: "list_all (\<lambda>request. fair_env (fst request)) fc_sample_all"
  by (simp add: fc_sample_all_def fc_sample_requests_def fair_env_def fc_sample_env_def)



section \<open>The life of a version\<close>

definition fc_sample_upload :: fc_op where
  "fc_sample_upload = With_receipt ''1'' ''f'' (Create_upload (new_version ''v'' ''f'' ''t'' ''text/plain'' 3 1)
     \<lparr>fm_classification = None, fm_createdAt = ''t'', fm_displayName = ''a'', fm_fileId = ''f'', fm_ownerModule = ''crm'',
      fm_uploadedBy = \<lparr>fa_actorId = ''alice'', fa_actorType = Fc_system, fa_assignmentId = None\<rparr>\<rparr>
     ''h'' (new_session ''s'' ''v'' ''f'' ''t'' ''u''))"

definition fc_sample_abandoned :: "fc_op list" where
  "fc_sample_abandoned = [With_receipt ''2'' ''g'' (Cleanup_session ''s''), Complete_cleanup ''s'']"


section \<open>A grant that outlives the scan\<close>


end
