(* ===== verification/AuditTrail.thy ===== *)
theory AuditTrail
  imports JsLib
begin

text \<open>
  The audit (\<open>packages/crm-modules/audit/src/\<close>: \<open>types.ts\<close>, \<open>errors.ts\<close>, \<open>validation.ts\<close>, \<open>store.ts\<close>,
  \<open>memory-store.ts\<close>, \<open>service.ts\<close>): records of security facts with the changes that the field policies of an
  action allow, the append-only store, and sensitive reads. SHA-256, the text of numbers, the locale order
  and other date formats are parameters.
\<close>

section \<open>Data\<close>

datatype av_code =
    Audit_access_denied | Audit_authorization_unavailable | Audit_invalid_input | Audit_operation_conflict
  | Audit_record_not_found | Audit_store_unavailable

datatype av_failure = Av_error (av_code_of: av_code) (av_retryable: bool)

abbreviation av_invalid :: "av_failure + 'a" where
  "av_invalid \<equiv> Inl (Av_error Audit_invalid_input False)"

datatype av_result = Av_attempted | Av_denied | Av_failed | Av_succeeded

datatype av_actor_type = Av_subject | Av_system

record av_actor =
  va_actorId :: string
  va_actorType :: av_actor_type
  va_assignmentId :: "string option"
  va_workforcePersonId :: "string option"

record av_resource =
  ve_resourceId :: string
  ve_resourceType :: string

text \<open>The values of a field that is not sensitive are scalars; of a sensitive one only that it changed.\<close>

datatype av_change =
    Plain_change (vc_field: string) (vc_after: "js_value option") (vc_before: "js_value option")
  | Sensitive_change (vc_field: string)

record av_record =
  vd_action :: string
  vd_actor :: av_actor
  vd_auditId :: string
  vd_changes :: "av_change list option"
  vd_occurredAt :: string
  vd_reasonCode :: string
  vd_reasonDetail :: "string option"
  vd_resource :: av_resource
  vd_result :: av_result
  vd_decisionId :: "string option"
  vd_operationId :: string
  vd_traceId :: string

record av_access =
  vs_actor :: av_actor
  vs_operationId :: string
  vs_reason :: string
  vs_recordId :: string
  vs_traceId :: string

record av_lib =
  vb_sha256 :: "string \<Rightarrow> string"
  vb_numText :: "jsnum \<Rightarrow> string"
  vb_dates :: "string \<Rightarrow> int option"
  vb_localeBefore :: "string \<Rightarrow> string \<Rightarrow> bool"

section \<open>Validation\<close>

type_synonym av_members = "(string \<times> js_value) list"

definition av_code_ok :: "string \<Rightarrow> bool" where
  "av_code_ok = shape lower (lower @ digits @ ''_.:-'') 0 127"

definition forbidden_field :: "string \<Rightarrow> bool" where
  "forbidden_field s = occurs (\<lambda>t. list_ex (\<lambda>w. begins_any_case w t)
     [''authorization'', ''cookie'', ''credential'', ''password'', ''payload'', ''prompt'', ''request'', ''response'',
      ''secret'', ''session'', ''token'']) s"

definition av_need :: "'a option \<Rightarrow> av_failure + 'a" where
  "av_need v = (case v of None \<Rightarrow> av_invalid | Some x \<Rightarrow> Inr x)"

definition av_object :: "js_value \<Rightarrow> av_failure + av_members" where
  "av_object v = (case v of JObject fs \<Rightarrow> Inr fs | _ \<Rightarrow> av_invalid)"

definition av_exact :: "js_value \<Rightarrow> string list \<Rightarrow> string list \<Rightarrow> av_failure + av_members" where
  "av_exact v required optional = bindE (av_object v) (\<lambda>fs. if exactly required optional fs then Inr fs else av_invalid)"

definition av_array :: "js_value \<Rightarrow> nat \<Rightarrow> av_failure + js_value list" where
  "av_array v maximum = (case v of JArray vs \<Rightarrow> if length vs \<le> maximum then Inr vs else av_invalid | _ \<Rightarrow> av_invalid)"

definition av_string :: "js_value \<Rightarrow> (string \<Rightarrow> bool) \<Rightarrow> av_failure + string" where
  "av_string v ok = av_need (text_where ok v)"

definition av_lower :: "js_value \<Rightarrow> (string \<Rightarrow> bool) \<Rightarrow> av_failure + string" where
  "av_lower v ok = bindE (av_string v ok) (\<lambda>s. Inr (map char_lower s))"

definition av_boolean :: "js_value \<Rightarrow> av_failure + bool" where
  "av_boolean v = (case v of JBool b \<Rightarrow> Inr b | _ \<Rightarrow> av_invalid)"

text \<open>\<open>True\<close> for a sensitive field.\<close>

definition av_classification :: "js_value \<Rightarrow> av_failure + bool" where
  "av_classification v = (if v = JString ''non_sensitive'' then Inr False
     else if v = JString ''sensitive'' then Inr True else av_invalid)"

definition av_optional :: "js_value \<Rightarrow> (js_value \<Rightarrow> av_failure + 'a) \<Rightarrow> av_failure + 'a option" where
  "av_optional v f = (case v of JUndefined \<Rightarrow> Inr None | _ \<Rightarrow> bindE (f v) (\<lambda>x. Inr (Some x)))"

definition av_actor_of :: "js_value \<Rightarrow> av_failure + av_actor" where
  "av_actor_of v =
     bindE (av_exact v [''actorId'', ''actorType''] [''assignmentId'', ''workforcePersonId'']) (\<lambda>fs.
     bindE (if js_field fs ''actorType'' = JString ''authenticated_subject'' then Inr Av_subject
         else if js_field fs ''actorType'' = JString ''system'' then Inr Av_system else av_invalid) (\<lambda>t.
     bindE (av_string (js_field fs ''actorId'') reference_ok) (\<lambda>i.
     bindE (av_optional (js_field fs ''assignmentId'') (\<lambda>x. av_lower x uuid_any)) (\<lambda>a.
     bindE (av_optional (js_field fs ''workforcePersonId'') (\<lambda>x. av_lower x uuid_any)) (\<lambda>p.
     Inr \<lparr>va_actorId = i, va_actorType = t, va_assignmentId = a, va_workforcePersonId = p\<rparr>)))))"

text \<open>The policies of the actions: which fields their changes may name, and which are sensitive.\<close>

type_synonym av_policies = "(string \<times> (string \<times> bool) list) list"

fun policy_fields :: "string list \<Rightarrow> js_value list \<Rightarrow> av_failure + (string \<times> bool) list" where
  "policy_fields names [] = Inr []"
| "policy_fields names (v # vs) =
     bindE (av_exact v [''classification'', ''field''] []) (\<lambda>fs.
     bindE (av_classification (js_field fs ''classification'')) (\<lambda>sensitive.
     bindE (av_string (js_field fs ''field'') av_code_ok) (\<lambda>name.
     if forbidden_field name \<or> name \<in> set names then av_invalid
     else bindE (policy_fields (name # names) vs) (\<lambda>rest. Inr ((name, sensitive) # rest)))))"

definition validateOptions :: "js_value \<Rightarrow> av_failure + av_policies" where
  "validateOptions fieldPolicies =
     bindE (av_object fieldPolicies) (\<lambda>registry.
     mapE (\<lambda>(action, fields).
       if av_code_ok action
       then bindE (av_array fields 100) (\<lambda>vs. bindE (policy_fields [] vs) (\<lambda>ps. Inr (action, ps)))
       else av_invalid) registry)"

definition scalar :: "js_value \<Rightarrow> bool" where
  "scalar v = (case v of JNull \<Rightarrow> True | JBool b \<Rightarrow> True | JString s \<Rightarrow> True | JNumber n \<Rightarrow> isFinite n | _ \<Rightarrow> False)"

definition short_scalar :: "js_value \<Rightarrow> bool" where
  "short_scalar v \<longleftrightarrow> scalar v \<and> (case v of JString s \<Rightarrow> length s \<le> 500 | _ \<Rightarrow> True)"

definition absent_or_short :: "js_value option \<Rightarrow> bool" where
  "absent_or_short v = (case v of None \<Rightarrow> True | Some x \<Rightarrow> short_scalar x)"

definition member_of :: "av_members \<Rightarrow> string \<Rightarrow> js_value option" where
  "member_of fs k = map_of fs k"

definition av_change_of :: "string list \<Rightarrow> (string \<times> bool) list \<Rightarrow> js_value \<Rightarrow> av_failure + av_change" where
  "av_change_of names policy v =
     bindE (bindE (av_object v) (\<lambda>fs. av_classification (js_field fs ''classification''))) (\<lambda>sensitive.
     bindE (if sensitive then av_exact v [''changed'', ''classification'', ''field''] []
         else av_exact v [''classification'', ''field''] [''after'', ''before'']) (\<lambda>fs.
     bindE (av_string (js_field fs ''field'') av_code_ok) (\<lambda>name.
     if name \<in> set names \<or> map_of policy name \<noteq> Some sensitive then av_invalid
     else if sensitive
     then (if js_field fs ''changed'' = JBool True then Inr (Sensitive_change name) else av_invalid)
     else if member_of fs ''before'' = None \<and> member_of fs ''after'' = None then av_invalid
     else if absent_or_short (member_of fs ''before'') \<and> absent_or_short (member_of fs ''after'')
     then Inr (Plain_change name (member_of fs ''after'') (member_of fs ''before''))
     else av_invalid)))"

fun av_changes :: "string list \<Rightarrow> (string \<times> bool) list \<Rightarrow> js_value list \<Rightarrow> av_failure + av_change list" where
  "av_changes names policy [] = Inr []"
| "av_changes names policy (v # vs) =
     bindE (av_change_of names policy v) (\<lambda>c.
     bindE (av_changes (vc_field c # names) policy vs) (\<lambda>cs. Inr (c # cs)))"

text \<open>
  An action without policies has none; \<open>constructor\<close> finds the function that every object inherits, which has
  no \<open>map\<close>.
\<close>

definition policy_of :: "av_policies \<Rightarrow> string \<Rightarrow> av_failure + (string \<times> bool) list" where
  "policy_of policies action = (case map_of policies action of
     Some ps \<Rightarrow> Inr ps | None \<Rightarrow> if action = ''constructor'' then av_invalid else Inr [])"

definition validateChanges :: "string \<Rightarrow> js_value \<Rightarrow> av_policies \<Rightarrow> av_failure + av_change list option" where
  "validateChanges action v policies = av_optional v (\<lambda>v.
     bindE (av_array v 100) (\<lambda>vs. bindE (policy_of policies action) (\<lambda>policy. av_changes [] policy vs)))"

definition result_of :: "js_value \<Rightarrow> av_failure + av_result" where
  "result_of v = (if v = JString ''attempted'' then Inr Av_attempted else if v = JString ''denied'' then Inr Av_denied
     else if v = JString ''failed'' then Inr Av_failed else if v = JString ''succeeded'' then Inr Av_succeeded
     else av_invalid)"

definition av_detail :: "js_value \<Rightarrow> av_failure + string" where
  "av_detail v = av_string v (\<lambda>s. 1 \<le> length s \<and> length s \<le> 500)"

definition validateRecord ::
  "av_lib \<Rightarrow> js_value \<Rightarrow> js_value \<Rightarrow> js_value \<Rightarrow> av_policies \<Rightarrow> av_failure + av_record" where
  "validateRecord lib v auditIdValue occurredAtValue policies =
     bindE (av_exact v [''action'', ''actor'', ''reason'', ''resource'', ''result'', ''trace''] [''auditId'', ''changes'', ''occurredAt''])
       (\<lambda>fs.
     bindE (av_string (js_field fs ''action'') av_code_ok) (\<lambda>action.
     bindE (av_actor_of (js_field fs ''actor'')) (\<lambda>a.
     bindE (av_exact (js_field fs ''reason'') [''code''] [''detail'']) (\<lambda>reason.
     bindE (av_optional (js_field reason ''detail'') av_detail) (\<lambda>detail.
     bindE (av_exact (js_field fs ''resource'') [''resourceId'', ''resourceType''] []) (\<lambda>resource.
     bindE (av_exact (js_field fs ''trace'') [''operationId'', ''traceId''] [''authorizationDecisionId'']) (\<lambda>trace.
     bindE (result_of (js_field fs ''result'')) (\<lambda>result.
     bindE (av_lower auditIdValue uuid_any) (\<lambda>auditId.
     bindE (av_string occurredAtValue (any_canonical (vb_dates lib))) (\<lambda>occurredAt.
     bindE (validateChanges action (js_field fs ''changes'') policies) (\<lambda>changes.
     bindE (av_string (js_field reason ''code'') av_code_ok) (\<lambda>code.
     bindE (av_string (js_field resource ''resourceId'') reference_ok) (\<lambda>resourceId.
     bindE (av_string (js_field resource ''resourceType'') av_code_ok) (\<lambda>resourceType.
     bindE (av_optional (js_field trace ''authorizationDecisionId'') (\<lambda>x. av_lower x uuid_any)) (\<lambda>decisionId.
     bindE (av_lower (js_field trace ''operationId'') uuid_any) (\<lambda>operationId.
     bindE (av_lower (js_field trace ''traceId'') trace_ok) (\<lambda>traceId.
     Inr \<lparr>vd_action = action, vd_actor = a, vd_auditId = auditId, vd_changes = changes, vd_occurredAt = occurredAt,
       vd_reasonCode = code, vd_reasonDetail = detail,
       vd_resource = \<lparr>ve_resourceId = resourceId, ve_resourceType = resourceType\<rparr>, vd_result = result,
       vd_decisionId = decisionId, vd_operationId = operationId, vd_traceId = traceId\<rparr>)))))))))))))))))"

definition validateSensitiveAccess :: "js_value \<Rightarrow> av_failure + av_access" where
  "validateSensitiveAccess v =
     bindE (av_exact v [''actor'', ''operationId'', ''reason'', ''recordId'', ''traceId''] []) (\<lambda>fs.
     bindE (av_detail (js_field fs ''reason'')) (\<lambda>reason.
     bindE (av_actor_of (js_field fs ''actor'')) (\<lambda>a.
     bindE (av_lower (js_field fs ''operationId'') uuid_any) (\<lambda>operationId.
     bindE (av_lower (js_field fs ''recordId'') uuid_any) (\<lambda>recordId.
     bindE (av_lower (js_field fs ''traceId'') trace_ok) (\<lambda>traceId.
     Inr \<lparr>vs_actor = a, vs_operationId = operationId, vs_reason = reason, vs_recordId = recordId, vs_traceId = traceId\<rparr>))))))"

definition validateAuthorizationDecision :: "js_value \<Rightarrow> av_failure + bool \<times> string" where
  "validateAuthorizationDecision v =
     bindE (av_exact v [''allowed'', ''decisionId''] []) (\<lambda>fs.
     bindE (av_boolean (js_field fs ''allowed'')) (\<lambda>allowed.
     bindE (av_lower (js_field fs ''decisionId'') uuid_any) (\<lambda>decisionId. Inr (allowed, decisionId))))"

section \<open>Fingerprints\<close>

text \<open>\<open>canonical\<close>: members that are undefined are left out, the others in the order of their names.\<close>

fun av_canonical :: "(jsnum \<Rightarrow> string) \<Rightarrow> js_value \<Rightarrow> string" where
  "av_canonical num (JArray vs) = ''['' @ join '','' (map (av_canonical num) vs) @ '']''"
| "av_canonical num (JObject fs) = ''{'' @ join '','' (map snd (sort_by (\<lambda>a b. str_lt (fst a) (fst b))
     (map (\<lambda>f. (fst f, json_quote (fst f) @ '':'' @ av_canonical num (snd f))) (filter (\<lambda>f. snd f \<noteq> JUndefined) fs)))) @ ''}''"
| "av_canonical num (JString s) = json_quote s"
| "av_canonical num (JNumber n) = (if isFinite n then num n else ''null'')"
| "av_canonical num (JBool b) = (if b then ''true'' else ''false'')"
| "av_canonical num JNull = ''null''"
| "av_canonical num JUndefined = ''undefined''"

definition av_opt_member :: "string \<Rightarrow> js_value option \<Rightarrow> av_members" where
  "av_opt_member k v = (case v of None \<Rightarrow> [] | Some x \<Rightarrow> [(k, x)])"

definition av_actor_js :: "av_actor \<Rightarrow> js_value" where
  "av_actor_js a = JObject ([(''actorId'', JString (va_actorId a)),
     (''actorType'', JString (case va_actorType a of Av_subject \<Rightarrow> ''authenticated_subject'' | Av_system \<Rightarrow> ''system''))]
     @ av_opt_member ''assignmentId'' (map_option JString (va_assignmentId a))
     @ av_opt_member ''workforcePersonId'' (map_option JString (va_workforcePersonId a)))"

definition av_change_js :: "av_change \<Rightarrow> js_value" where
  "av_change_js c = (case c of
     Plain_change name after before \<Rightarrow> JObject (av_opt_member ''after'' after @ av_opt_member ''before'' before
       @ [(''classification'', JString ''non_sensitive''), (''field'', JString name)])
   | Sensitive_change name \<Rightarrow> JObject [(''changed'', JBool True), (''classification'', JString ''sensitive''),
       (''field'', JString name)])"

definition av_result_name :: "av_result \<Rightarrow> string" where
  "av_result_name r = (case r of Av_attempted \<Rightarrow> ''attempted'' | Av_denied \<Rightarrow> ''denied'' | Av_failed \<Rightarrow> ''failed''
     | Av_succeeded \<Rightarrow> ''succeeded'')"

definition av_semantic :: "av_lib \<Rightarrow> av_record \<Rightarrow> js_value" where
  "av_semantic lib r = JObject ([(''action'', JString (vd_action r)), (''actor'', av_actor_js (vd_actor r))]
     @ av_opt_member ''changes'' (map_option (\<lambda>cs. JArray (map av_change_js
         (sort_by (\<lambda>a b. vb_localeBefore lib (vc_field a) (vc_field b)) cs))) (vd_changes r))
     @ [(''reason'', JObject ([(''code'', JString (vd_reasonCode r))]
          @ av_opt_member ''detail'' (map_option JString (vd_reasonDetail r)))),
        (''resource'', JObject [(''resourceId'', JString (ve_resourceId (vd_resource r))),
          (''resourceType'', JString (ve_resourceType (vd_resource r)))]),
        (''result'', JString (av_result_name (vd_result r))),
        (''trace'', JObject [(''operationId'', JString (vd_operationId r))]), (''version'', JNumber (Fin 1))])"

definition av_fingerprint :: "av_lib \<Rightarrow> av_record \<Rightarrow> string" where
  "av_fingerprint lib r = vb_sha256 lib (av_canonical (vb_numText lib) (av_semantic lib r))"

section \<open>The store\<close>

record av_store =
  vt_records :: "(string, av_record) jsmap"
  vt_operations :: "(string, string \<times> string) jsmap"

definition empty_audit :: av_store where
  "empty_audit = \<lparr>vt_records = [], vt_operations = []\<rparr>"

type_synonym 'a av_act = "(av_store, av_failure, 'a) act"

definition av_append :: "string \<Rightarrow> av_record \<Rightarrow> (string \<times> bool) av_act" where
  "av_append fp r =
     bindA (getsA (\<lambda>s. jm_get (vt_operations s) (vd_operationId r))) (\<lambda>prior.
     case prior of
       Some (auditId, f) \<Rightarrow> if f \<noteq> fp then throwA (Av_error Audit_operation_conflict False) else retA (auditId, True)
     | None \<Rightarrow>
         bindA (\<lambda>s. ensureA (\<not> jm_has (vt_records s) (vd_auditId r)) (Av_error Audit_operation_conflict False) s) (\<lambda>_.
         bindA (modifyA (\<lambda>s. s\<lparr>vt_records := jm_set (vt_records s) (vd_auditId r) r,
           vt_operations := jm_set (vt_operations s) (vd_operationId r) (vd_auditId r, fp)\<rparr>)) (\<lambda>_.
         retA (vd_auditId r, False))))"

definition findById :: "string \<Rightarrow> av_store \<Rightarrow> av_record option" where
  "findById i s = jm_get (vt_records s) i"

section \<open>The service\<close>

text \<open>
  What the ports answer during one call: the store may be unavailable for a record or a lookup, the authorizer
  rejects with \<open>Inl\<close>. \<open>vv_clock\<close> is \<open>None\<close> for a date that is not valid. Between the lookup of a
  sensitive read and its record others may record.
\<close>

record av_env =
  vv_lib :: av_lib
  vv_policies :: av_policies
  vv_clock :: "int option"
  vv_newId :: string
  vv_appendFails :: "av_record \<Rightarrow> bool"
  vv_findFails :: bool
  vv_authorize :: "av_actor \<Rightarrow> string \<Rightarrow> string + js_value"
  vv_others :: "js_value list"

definition given :: "js_value \<Rightarrow> string \<Rightarrow> js_value option" where
  "given v k = (case v of
     JObject fs \<Rightarrow> (case js_field fs k of JUndefined \<Rightarrow> None | JNull \<Rightarrow> None | x \<Rightarrow> Some x) | _ \<Rightarrow> None)"

definition validated :: "av_env \<Rightarrow> js_value \<Rightarrow> av_failure + av_record" where
  "validated env v =
     bindE (case given v ''occurredAt'' of Some x \<Rightarrow> Inr x
       | None \<Rightarrow> (case vv_clock env of None \<Rightarrow> av_invalid | Some t \<Rightarrow> Inr (JString (any_iso t)))) (\<lambda>occurredAt.
     validateRecord (vv_lib env) v (case given v ''auditId'' of Some x \<Rightarrow> x | None \<Rightarrow> JString (vv_newId env)) occurredAt
       (vv_policies env))"

definition av_record_call :: "av_env \<Rightarrow> js_value \<Rightarrow> (string \<times> bool) av_act" where
  "av_record_call env v =
     bindA (liftA (validated env v)) (\<lambda>r.
     bindA (ensureA (\<not> vv_appendFails env r) (Av_error Audit_store_unavailable True)) (\<lambda>_.
     av_append (av_fingerprint (vv_lib env) r) r))"

definition access_js :: "av_access \<Rightarrow> string \<Rightarrow> string \<Rightarrow> js_value" where
  "access_js c decisionId result = JObject [(''action'', JString ''audit.read_sensitive''), (''actor'', av_actor_js (vs_actor c)),
     (''reason'', JObject [(''code'', JString ''sensitive_access''), (''detail'', JString (vs_reason c))]),
     (''resource'', JObject [(''resourceId'', JString (vs_recordId c)), (''resourceType'', JString ''audit_record'')]),
     (''trace'', JObject [(''authorizationDecisionId'', JString decisionId), (''operationId'', JString (vs_operationId c)),
       (''traceId'', JString (vs_traceId c))]),
     (''result'', JString result)]"

definition av_others :: "av_env \<Rightarrow> unit av_act" where
  "av_others env = modifyA (run_all (av_record_call env) (vv_others env))"

definition readSensitive :: "av_env \<Rightarrow> js_value \<Rightarrow> av_record av_act" where
  "readSensitive env v =
     bindA (liftA (validateSensitiveAccess v)) (\<lambda>c.
     bindA (liftA (case vv_authorize env (vs_actor c) (vs_recordId c) of
         Inl _ \<Rightarrow> Inl (Av_error Audit_authorization_unavailable True)
       | Inr answer \<Rightarrow> (case validateAuthorizationDecision answer of
           Inl _ \<Rightarrow> Inl (Av_error Audit_authorization_unavailable True) | Inr d \<Rightarrow> Inr d))) (\<lambda>(allowed, decisionId).
     if \<not> allowed
     then bindA (av_record_call env (access_js c decisionId ''denied'')) (\<lambda>_. throwA (Av_error Audit_access_denied False))
     else if vv_findFails env
     then bindA (av_record_call env (access_js c decisionId ''failed'')) (\<lambda>_. throwA (Av_error Audit_store_unavailable True))
     else
       bindA (getsA (findById (vs_recordId c))) (\<lambda>found.
       bindA (av_others env) (\<lambda>_.
       case found of
         None \<Rightarrow> bindA (av_record_call env (access_js c decisionId ''failed'')) (\<lambda>_.
           throwA (Av_error Audit_record_not_found False))
       | Some r \<Rightarrow> bindA (av_record_call env (access_js c decisionId ''succeeded'')) (\<lambda>_. retA r)))))"

text \<open>One call of the service.\<close>

datatype av_call = Record_fact av_env js_value | Read_sensitive av_env js_value

fun av_serve :: "av_call \<Rightarrow> unit av_act" where
  "av_serve (Record_fact env v) = voidA (av_record_call env v)"
| "av_serve (Read_sensitive env v) = voidA (readSensitive env v)"

fun av_env_of :: "av_call \<Rightarrow> av_env" where
  "av_env_of (Record_fact env v) = env"
| "av_env_of (Read_sensitive env v) = env"

end
