(* ===== verification/AuditProps.thy ===== *)
theory AuditProps
  imports AuditTrail
begin

text \<open>
  What the audit promises: records are only appended, a repeated operation is a replay or a conflict, changes have
  values only where the policy of their action allows them, and a sensitive record is read only when that read is
  in the trail.
\<close>

section \<open>The store's log\<close>

definition append_fact :: "av_lib \<Rightarrow> av_record \<Rightarrow> bool av_act" where
  "append_fact lib r = bindA (av_append (av_fingerprint lib r) r) (\<lambda>a. retA (snd a))"

lemma append_new:
  "jm_get (vt_operations s) (vd_operationId r) = None \<Longrightarrow> jm_get (vt_records s) (vd_auditId r) = None \<Longrightarrow>
    av_append fp r s = (Inr (vd_auditId r, False), s\<lparr>vt_records := jm_set (vt_records s) (vd_auditId r) r,
      vt_operations := jm_set (vt_operations s) (vd_operationId r) (vd_auditId r, fp)\<rparr>)"
  by (simp add: av_append_def bindA_def ensureA_def)

lemma append_cases:
  obtains (same) "snd (av_append fp r s) = s"
    | (new) "jm_get (vt_operations s) (vd_operationId r) = None" "jm_get (vt_records s) (vd_auditId r) = None"
      "av_append fp r s = (Inr (vd_auditId r, False), s\<lparr>vt_records := jm_set (vt_records s) (vd_auditId r) r,
        vt_operations := jm_set (vt_operations s) (vd_operationId r) (vd_auditId r, fp)\<rparr>)"
proof (cases "jm_get (vt_operations s) (vd_operationId r)")
  case None
  show thesis
  proof (cases "jm_get (vt_records s) (vd_auditId r)")
    case True: None
    show thesis by (rule new) (use None True append_new in simp_all)
  next
    case (Some q)
    with None show thesis by (intro same) (simp add: av_append_def bindA_def ensureA_def)
  qed
next
  case (Some x)
  then show thesis by (intro same) (cases x, simp add: av_append_def)
qed

lemma append_prior:
  "jm_get (vt_operations s) (vd_operationId r) = Some (a, f) \<Longrightarrow>
    av_append fp r s = (if f \<noteq> fp then (Inl (Av_error Audit_operation_conflict False), s) else (Inr (a, True), s))"
  by (simp add: av_append_def)

definition log_prints :: "av_store \<Rightarrow> (string, string) jsmap" where
  "log_prints s = map (\<lambda>(k, a, f). (k, f)) (vt_operations s)"

lemma log_prints_get [simp]: "jm_get (log_prints s) k = map_option snd (jm_get (vt_operations s) k)"
proof -
  have "map_of (map (\<lambda>(k, a, f). (k, f)) m) k = map_option snd (map_of m k)" for m :: "(string, string \<times> string) jsmap"
    by (induction m) auto
  then show ?thesis by (simp add: log_prints_def jm_get_def)
qed

lemma log_prints_set:
  "log_prints (s\<lparr>vt_records := x, vt_operations := jm_set (vt_operations s) k (a, f)\<rparr>) = jm_set (log_prints s) k f"
proof -
  have "map (\<lambda>(k, a, f). (k, f)) (AList.update k (a, f) m) = AList.update k f (map (\<lambda>(k, a, f). (k, f)) m)"
    for m :: "(string, string \<times> string) jsmap"
    by (induction m) auto
  then show ?thesis by (simp add: log_prints_def jm_set_def)
qed

interpretation audit_log: idempotent_store "append_fact lib" vd_operationId "av_fingerprint lib" log_prints
  "Av_error Audit_operation_conflict False" for lib
proof
  fix c s f b t e
  show "jm_get (log_prints s) (vd_operationId c) = Some (av_fingerprint lib c) \<Longrightarrow> append_fact lib c s = (Inr True, s)"
    by (auto simp: append_fact_def bindA_def append_prior)
  show "jm_get (log_prints s) (vd_operationId c) = Some f \<Longrightarrow> f \<noteq> av_fingerprint lib c \<Longrightarrow>
      append_fact lib c s = (Inl (Av_error Audit_operation_conflict False), s)"
    by (auto simp: append_fact_def bindA_def append_prior)
  show "jm_get (log_prints s) (vd_operationId c) = None \<Longrightarrow> append_fact lib c s = (Inr b, t) \<Longrightarrow>
      \<not> b \<and> log_prints t = jm_set (log_prints s) (vd_operationId c) (av_fingerprint lib c)"
    by (auto simp: append_fact_def av_append_def bindA_def ensureA_def log_prints_set split: if_splits)
  show "append_fact lib c s = (Inl e, t) \<Longrightarrow> t = s"
    by (auto simp: append_fact_def av_append_def bindA_def ensureA_def split: if_splits option.splits prod.splits)
qed

section \<open>The invariant\<close>

text \<open>The change names a field that the action's policy has, with its classification, and only short scalars.\<close>

definition change_ok :: "av_policies \<Rightarrow> string \<Rightarrow> av_change \<Rightarrow> bool" where
  "change_ok policies action c \<longleftrightarrow> (\<exists>ps. map_of policies action = Some ps \<and> (case c of
     Plain_change f after before \<Rightarrow> map_of ps f = Some False \<and> absent_or_short after \<and> absent_or_short before
   | Sensitive_change f \<Rightarrow> map_of ps f = Some True))"

definition changes_ok :: "av_policies \<Rightarrow> av_record \<Rightarrow> bool" where
  "changes_ok policies r \<longleftrightarrow> (\<forall>cs. vd_changes r = Some cs \<longrightarrow> list_all (change_ok policies (vd_action r)) cs)"

definition audit_ok :: "av_lib \<Rightarrow> av_policies \<Rightarrow> av_store \<Rightarrow> bool" where
  "audit_ok lib policies s \<longleftrightarrow>
     (\<forall>k a f. jm_get (vt_operations s) k = Some (a, f) \<longrightarrow>
        (\<exists>r. jm_get (vt_records s) a = Some r \<and> f = av_fingerprint lib r \<and> vd_operationId r = k))
   \<and> (\<forall>i r. jm_get (vt_records s) i = Some r \<longrightarrow> vd_auditId r = i \<and> changes_ok policies r)"

definition trail_grows :: "av_store \<Rightarrow> av_store \<Rightarrow> bool" where
  "trail_grows s t \<longleftrightarrow> (\<forall>i r. jm_get (vt_records s) i = Some r \<longrightarrow> jm_get (vt_records t) i = Some r)
     \<and> (\<forall>k x. jm_get (vt_operations s) k = Some x \<longrightarrow> jm_get (vt_operations t) k = Some x)"

lemma grows_refl [simp]: "trail_grows s s"
  by (simp add: trail_grows_def)

lemma grows_trans: "trail_grows s t \<Longrightarrow> trail_grows t u \<Longrightarrow> trail_grows s u"
  by (simp add: trail_grows_def)

lemma append_step:
  assumes "audit_ok lib policies s" and "changes_ok policies r"
  shows "audit_ok lib policies (snd (av_append (av_fingerprint lib r) r s)) \<and> trail_grows s (snd (av_append (av_fingerprint lib r) r s))"
proof (cases rule: append_cases [of "av_fingerprint lib r" r s])
  case same
  then show ?thesis using assms(1) by simp
next
  case new
  have "audit_ok lib policies (snd (av_append (av_fingerprint lib r) r s))"
    using assms new(1,2) unfolding new(3) audit_ok_def by (auto split: if_splits) fastforce
  moreover have "trail_grows s (snd (av_append (av_fingerprint lib r) r s))"
    using new(1,2) unfolding new(3) trail_grows_def by auto
  ultimately show ?thesis by simp
qed

lemma change_checked:
  assumes "av_change_of names ps v = Inr c" and "map_of policies action = Some ps"
  shows "change_ok policies action c"
  using assms unfolding av_change_of_def change_ok_def
  by (auto simp: bindE_eq_Inr split: if_splits)

lemma changes_checked:
  "av_changes names ps vs = Inr cs \<Longrightarrow> map_of policies action = Some ps \<Longrightarrow> list_all (change_ok policies action) cs"
proof (induction names ps vs arbitrary: cs rule: av_changes.induct)
  case (2 names ps v vs)
  then show ?case using change_checked by (auto simp: bindE_eq_Inr)
qed simp

lemma no_policy: "av_changes names [] vs = Inr cs \<Longrightarrow> cs = []"
  by (cases vs) (auto simp: bindE_eq_Inr av_change_of_def split: if_splits)

lemma validated_changes: "validateChanges action v policies = Inr (Some cs) \<Longrightarrow> list_all (change_ok policies action) cs"
  unfolding validateChanges_def av_optional_def policy_of_def
  by (auto simp: bindE_eq_Inr dest: changes_checked no_policy split: js_value.splits option.splits if_splits)

lemma validated_ok:
  assumes "validated env v = Inr r"
  shows "changes_ok (vv_policies env) r"
proof -
  obtain action changes where "validateChanges action changes (vv_policies env) = Inr (vd_changes r)" "vd_action r = action"
    using assms unfolding validated_def validateRecord_def by (auto simp: bindE_eq_Inr)
  then show ?thesis using validated_changes by (auto simp: changes_ok_def)
qed

definition stays_ok :: "av_lib \<Rightarrow> av_policies \<Rightarrow> 'a av_act \<Rightarrow> bool" where
  "stays_ok lib policies m \<longleftrightarrow> (\<forall>s. audit_ok lib policies s \<longrightarrow> audit_ok lib policies (snd (m s)) \<and> trail_grows s (snd (m s)))"

lemma stays_bind: "stays_ok lib policies m \<Longrightarrow> (\<And>x. stays_ok lib policies (f x)) \<Longrightarrow> stays_ok lib policies (bindA m f)"
  unfolding stays_ok_def bindA_def
  by (auto split: prod.splits sum.splits) (metis grows_trans snd_conv)+

lemma stays_reads: "reads m \<Longrightarrow> stays_ok lib policies m"
  by (simp add: stays_ok_def reads_def)

lemma stays_basic:
  "stays_ok lib policies (retA x)" "stays_ok lib policies (throwA e)" "stays_ok lib policies (liftA r)"
  "stays_ok lib policies (getsA g)"
  by (simp_all add: stays_reads)

lemma stays_cases:
  "stays_ok lib policies m \<Longrightarrow> stays_ok lib policies n \<Longrightarrow> stays_ok lib policies (if b then m else n)"
  "(\<And>x y. stays_ok lib policies (f x y)) \<Longrightarrow> stays_ok lib policies (case p of (x, y) \<Rightarrow> f x y)"
  "stays_ok lib policies m \<Longrightarrow> (\<And>x. stays_ok lib policies (g x)) \<Longrightarrow>
    stays_ok lib policies (case v of None \<Rightarrow> m | Some x \<Rightarrow> g x)"
  by (simp_all split: prod.split option.split)

lemma record_stays: "stays_ok (vv_lib env) (vv_policies env) (av_record_call env v)"
proof (cases "validated env v")
  case (Inl e)
  then show ?thesis by (simp add: av_record_call_def stays_ok_def bindA_def)
next
  case (Inr r)
  then show ?thesis
    using append_step [OF _ validated_ok [OF Inr]] by (auto simp: av_record_call_def stays_ok_def bindA_def ensureA_def)
qed

lemma others_stay: "stays_ok (vv_lib env) (vv_policies env) (av_others env)"
proof -
  have "audit_ok (vv_lib env) (vv_policies env) s \<Longrightarrow>
      audit_ok (vv_lib env) (vv_policies env) (run_all (av_record_call env) vs s)
      \<and> trail_grows s (run_all (av_record_call env) vs s)" for vs s
  proof (induction vs arbitrary: s)
    case (Cons v vs)
    then show ?case using record_stays [of env v] grows_trans unfolding stays_ok_def run_all.simps by blast
  qed simp
  then show ?thesis by (simp add: stays_ok_def av_others_def)
qed

lemma read_stays: "stays_ok (vv_lib env) (vv_policies env) (readSensitive env v)"
  unfolding readSensitive_def by (intro stays_bind stays_basic stays_cases record_stays others_stay)

lemma serve_stays: "stays_ok (vv_lib (av_env_of c)) (vv_policies (av_env_of c)) (av_serve c)"
  using record_stays read_stays by (cases c) (auto simp: stays_ok_def)

interpretation audit: lawful_machine av_serve "audit_ok lib policies"
  "\<lambda>c. vv_lib (av_env_of c) = lib \<and> vv_policies (av_env_of c) = policies" for lib policies
  using serve_stays by unfold_locales (auto simp: stays_ok_def)

lemma audit_ok_start [simp]: "audit_ok lib policies empty_audit"
  by (simp add: audit_ok_def empty_audit_def)

section \<open>The promises\<close>

text \<open>
  A record in the trail, and what its operation came to, stay as they are, whatever is recorded or read after:
  nothing is overwritten or removed.
\<close>

theorem audit_append_only:
  assumes "list_all (\<lambda>c. vv_lib (av_env_of c) = lib \<and> vv_policies (av_env_of c) = policies) (calls @ later)"
    and "jm_get (vt_records (run_all av_serve calls empty_audit)) i = Some r"
  shows "jm_get (vt_records (run_all av_serve (calls @ later) empty_audit)) i = Some r"
proof -
  let ?s = "run_all av_serve calls empty_audit"
  have "audit_ok lib policies ?s" using audit.lawful_run [of lib policies empty_audit calls] assms(1) by simp
  then have "trail_grows ?s (run_all av_serve later ?s)"
    using audit.lawful_related [of lib policies trail_grows ?s later] assms(1) serve_stays grows_trans
    by (fastforce simp: stays_ok_def)
  then show ?thesis using assms(2) by (simp add: trail_grows_def run_all_append)
qed

definition policies_safe :: "av_policies \<Rightarrow> bool" where
  "policies_safe policies \<longleftrightarrow> (\<forall>(action, ps) \<in> set policies. \<forall>(f, b) \<in> set ps. \<not> forbidden_field f)"

lemma fields_safe: "policy_fields names vs = Inr ps \<Longrightarrow> \<forall>(f, b) \<in> set ps. \<not> forbidden_field f"
  by (induction names vs arbitrary: ps rule: policy_fields.induct) (fastforce simp: bindE_eq_Inr split: if_splits)+

lemma options_safe: "validateOptions v = Inr policies \<Longrightarrow> policies_safe policies"
proof -
  have "mapE f xs = Inr ys \<Longrightarrow> y \<in> set ys \<Longrightarrow> \<exists>x \<in> set xs. f x = Inr y"
    for f :: "string \<times> js_value \<Rightarrow> av_failure + string \<times> (string \<times> bool) list" and xs ys y
    by (induction xs arbitrary: ys) (auto simp: bindE_eq_Inr)
  moreover assume "validateOptions v = Inr policies"
  ultimately show ?thesis
    unfolding validateOptions_def policies_safe_def
    by (fastforce simp: bindE_eq_Inr dest: fields_safe split: if_splits)
qed

text \<open>
  C19: Every change in the trail names a field that the validated policies give its action, with its
  classification: a sensitive field without a value, another with short scalars; never a field whose name
  speaks of passwords, tokens, requests or the like.
\<close>

theorem audit_values_allowed:
  assumes "validateOptions options = Inr policies"
    and "list_all (\<lambda>c. vv_lib (av_env_of c) = lib \<and> vv_policies (av_env_of c) = policies) calls"
    and "jm_get (vt_records (run_all av_serve calls empty_audit)) i = Some r" and "vd_changes r = Some cs" and "c \<in> set cs"
  shows "change_ok policies (vd_action r) c \<and> \<not> forbidden_field (vc_field c)"
proof -
  have "audit_ok lib policies (run_all av_serve calls empty_audit)"
    using audit.lawful_run [of lib policies empty_audit calls] assms(2) by simp
  then have ok: "change_ok policies (vd_action r) c"
    using assms(3-5) by (auto simp: audit_ok_def changes_ok_def list_all_iff)
  moreover have "\<not> forbidden_field (vc_field c)"
    using ok options_safe [OF assms(1)] unfolding change_ok_def policies_safe_def
    by (cases c) (fastforce dest: map_of_SomeD)+
  ultimately show ?thesis by simp
qed

lemma lower_twice [simp]: "char_lower (char_lower c) = char_lower c"
proof -
  have "\<forall>c \<in> set upper. char_lower c \<notin> set upper" by code_simp
  then show ?thesis by (metis char_lower_def)
qed

lemma classes_lower:
  "list_all (\<lambda>cs. \<forall>c \<in> set cs. char_lower c \<in> set cs) classes \<Longrightarrow> matches_classes classes s \<Longrightarrow>
    matches_classes classes (map char_lower s)"
  by (induction classes s rule: matches_classes.induct) auto

lemma uuid_lowered: "uuid_any s \<Longrightarrow> uuid_any (map char_lower s)"
proof -
  have "list_all (\<lambda>cs. \<forall>c \<in> set cs. char_lower c \<in> set cs) (uuid_classes hex_any ''12345678'' ''89abAB'')" by code_simp
  then show "uuid_any s \<Longrightarrow> uuid_any (map char_lower s)" unfolding uuid_any_def by (rule classes_lower)
qed

lemma access_lower: "validateSensitiveAccess v = Inr c \<Longrightarrow> map char_lower (vs_operationId c) = vs_operationId c"
  unfolding validateSensitiveAccess_def by (auto simp: bindE_eq_Inr av_lower_def)

lemma access_recorded:
  assumes "validated env (access_js c d result) = Inr r"
  shows "vd_action r = ''audit.read_sensitive''" "vd_operationId r = map char_lower (vs_operationId c)"
    "vd_resource r = \<lparr>ve_resourceId = vs_recordId c, ve_resourceType = ''audit_record''\<rparr>"
    "vd_reasonDetail r = Some (vs_reason c)" "result_of (JString result) = Inr (vd_result r)"
    "vd_decisionId r = Some (map char_lower d)" "av_actor_of (av_actor_js (vs_actor c)) = Inr (vd_actor r)"
  using assms unfolding validated_def validateRecord_def access_js_def
  by (auto simp: bindE_eq_Inr js_field_def av_exact_def av_object_def av_optional_def av_string_def av_lower_def av_need_def
      av_detail_def text_where_def split: if_splits option.splits)

lemma optional_uuid:
  "av_optional v (\<lambda>x. av_lower x uuid_any) = Inr a \<Longrightarrow>
    av_optional (case a of None \<Rightarrow> JUndefined | Some s \<Rightarrow> JString s) (\<lambda>x. av_lower x uuid_any) = Inr a"
  by (auto simp: av_optional_def av_lower_def av_string_def av_need_def text_where_def bindE_eq_Inr uuid_lowered
      split: js_value.splits option.splits if_splits)

lemma actor_again: "av_actor_of v = Inr a \<Longrightarrow> av_actor_of (av_actor_js a) = Inr a"
proof -
  assume "av_actor_of v = Inr a"
  then obtain i t x p vx vp where a: "a = \<lparr>va_actorId = i, va_actorType = t, va_assignmentId = x, va_workforcePersonId = p\<rparr>"
    and i: "reference_ok i" and x: "av_optional vx (\<lambda>x. av_lower x uuid_any) = Inr x"
    and p: "av_optional vp (\<lambda>x. av_lower x uuid_any) = Inr p"
    unfolding av_actor_of_def
    by (auto simp: bindE_eq_Inr av_string_def av_need_def text_where_def split: option.splits js_value.splits if_splits)
  show ?thesis
    using i optional_uuid [OF x] optional_uuid [OF p] unfolding a
    by (cases t; cases x; cases p)
      (simp_all add: av_actor_of_def av_actor_js_def av_opt_member_def av_exact_def av_object_def exactly_def js_field_def
        av_string_def av_need_def text_where_def)
qed

lemma appended:
  assumes "av_append fp q s = (Inr (a, b), t)"
  shows "jm_get (vt_operations t) (vd_operationId q) = Some (a, fp)"
proof (cases "jm_get (vt_operations s) (vd_operationId q)")
  case None
  then show ?thesis using assms
    by (auto simp: av_append_def bindA_def ensureA_def split: if_splits)
next
  case (Some x)
  then show ?thesis using assms append_prior [of s q "fst x" "snd x" fp] by (auto split: if_splits)
qed

text \<open>A sensitive read that returned: what it asked, what it found, and what it recorded.\<close>

definition decided :: "av_env \<Rightarrow> av_access \<Rightarrow> av_failure + bool \<times> string" where
  "decided env c = (case vv_authorize env (vs_actor c) (vs_recordId c) of
     Inl _ \<Rightarrow> Inl (Av_error Audit_authorization_unavailable True)
   | Inr answer \<Rightarrow> (case validateAuthorizationDecision answer of
       Inl _ \<Rightarrow> Inl (Av_error Audit_authorization_unavailable True) | Inr d \<Rightarrow> Inr d))"

lemma decided_allowed:
  "decided env c = Inr (b, d) \<Longrightarrow>
    \<exists>answer. vv_authorize env (vs_actor c) (vs_recordId c) = Inr answer \<and> validateAuthorizationDecision answer = Inr (b, d)"
  by (simp add: decided_def split: sum.splits)

lemma read_returned:
  assumes "readSensitive env v s = (Inr r, t)"
  obtains c answer d a b u where "validateSensitiveAccess v = Inr c"
    and "vv_authorize env (vs_actor c) (vs_recordId c) = Inr answer" and "validateAuthorizationDecision answer = Inr (True, d)"
    and "jm_get (vt_records s) (vs_recordId c) = Some r"
    and "av_record_call env (access_js c d ''succeeded'') u = (Inr (a, b), t)"
proof -
  from assms obtain c where c: "validateSensitiveAccess v = Inr c"
    by (cases "validateSensitiveAccess v") (auto simp: readSensitive_def bindA_def)
  from assms c obtain allowed d where d: "decided env c = Inr (allowed, d)"
    unfolding readSensitive_def decided_def [symmetric]
    by (cases "decided env c") (auto simp: bindA_def)
  note call = assms [unfolded readSensitive_def decided_def [symmetric] c, unfolded bindA_def, simplified d, simplified]
  have allowed: allowed
    using call d by (cases allowed) (auto simp: bindA_def split: sum.splits prod.splits)
  have up: "\<not> vv_findFails env"
    using call allowed d by (cases "vv_findFails env") (auto simp: bindA_def split: sum.splits prod.splits)
  show thesis
  proof (cases "findById (vs_recordId c) s")
    case None
    then show thesis using call allowed up d by (auto simp: bindA_def av_others_def split: sum.splits prod.splits)
  next
    case (Some x)
    with call allowed up d have "bindA (av_record_call env (access_js c d ''succeeded'')) (\<lambda>_. retA x)
        (run_all (av_record_call env) (vv_others env) s) = (Inr r, t)"
      by (simp add: bindA_def av_others_def)
    then have "x = r" "\<exists>y. av_record_call env (access_js c d ''succeeded'') (run_all (av_record_call env) (vv_others env) s) = (Inr y, t)"
      by (auto simp: bindA_eq_Inr)
    then show thesis
      using that [OF c] decided_allowed [OF d] allowed Some by (auto simp: findById_def)
  qed
qed

text \<open>
  C18: A sensitive record is returned only when the authorizer allowed that actor to read it and the trail holds the
  read: a record of that operation, with the fingerprint of a successful read of that very record by that actor
  for that reason.
\<close>

theorem sensitive_read_recorded:
  assumes "list_all (\<lambda>c. vv_lib (av_env_of c) = vv_lib env \<and> vv_policies (av_env_of c) = vv_policies env) calls"
    and "readSensitive env v (run_all av_serve calls empty_audit) = (Inr r, t)"
  shows "\<exists>c answer d q a k. validateSensitiveAccess v = Inr c \<and> vd_auditId r = vs_recordId c
    \<and> vv_authorize env (vs_actor c) (vs_recordId c) = Inr answer \<and> validateAuthorizationDecision answer = Inr (True, d)
    \<and> vd_action q = ''audit.read_sensitive'' \<and> vd_actor q = vs_actor c \<and> vd_result q = Av_succeeded
    \<and> vd_resource q = \<lparr>ve_resourceId = vs_recordId c, ve_resourceType = ''audit_record''\<rparr> \<and> vd_reasonDetail q = Some (vs_reason c)
    \<and> jm_get (vt_records t) a = Some k \<and> vd_operationId k = vs_operationId c
    \<and> av_fingerprint (vv_lib env) k = av_fingerprint (vv_lib env) q"
proof -
  let ?s = "run_all av_serve calls empty_audit"
  have ok: "audit_ok (vv_lib env) (vv_policies env) ?s"
    using audit.lawful_run [OF audit_ok_start assms(1)] .
  from assms(2) obtain c answer d a b u where c: "validateSensitiveAccess v = Inr c"
    and auth: "vv_authorize env (vs_actor c) (vs_recordId c) = Inr answer" "validateAuthorizationDecision answer = Inr (True, d)"
    and found: "jm_get (vt_records ?s) (vs_recordId c) = Some r"
    and rec: "av_record_call env (access_js c d ''succeeded'') u = (Inr (a, b), t)"
    by (rule read_returned)
  from rec obtain q where q: "validated env (access_js c d ''succeeded'') = Inr q"
    and app: "av_append (av_fingerprint (vv_lib env) q) q u = (Inr (a, b), t)"
    by (auto simp: av_record_call_def bindA_eq_Inr)
  obtain w where "av_actor_of w = Inr (vs_actor c)"
    using c unfolding validateSensitiveAccess_def by (auto simp: bindE_eq_Inr)
  from actor_again [OF this] access_recorded(7) [OF q] have actor: "vd_actor q = vs_actor c" by simp
  have op: "vd_operationId q = vs_operationId c" using access_recorded(2) [OF q] access_lower [OF c] by simp
  have t: "audit_ok (vv_lib env) (vv_policies env) t"
    using read_stays [of env v] ok assms(2) unfolding stays_ok_def by (metis snd_conv)
  have "jm_get (vt_operations t) (vs_operationId c) = Some (a, av_fingerprint (vv_lib env) q)"
    using appended [OF app] by (simp add: op)
  with t obtain k where k: "jm_get (vt_records t) a = Some k" "av_fingerprint (vv_lib env) k = av_fingerprint (vv_lib env) q"
      "vd_operationId k = vs_operationId c" unfolding audit_ok_def by metis
  have "vd_auditId r = vs_recordId c" using ok found by (simp add: audit_ok_def)
  then show ?thesis
    using c auth actor k access_recorded [OF q]
    by (intro exI [of _ c] exI [of _ answer] exI [of _ d] exI [of _ q] exI [of _ a] exI [of _ k]) (simp add: result_of_def)
qed

end
