(* ===== verification/AuditSamples.thy ===== *)
theory AuditSamples
  imports AuditProps
begin

text \<open>A sample trail: a recorded change, and a sensitive read of its record. The audit's properties apply to it.\<close>

definition av_sample_id :: "string \<Rightarrow> string" where
  "av_sample_id c = ''00000000-0000-4000-8000-00000000000'' @ c"

definition av_sample_options :: js_value where
  "av_sample_options = JObject [(''lead.update'', JArray
     [JObject [(''classification'', JString ''non_sensitive''), (''field'', JString ''stage'')],
      JObject [(''classification'', JString ''sensitive''), (''field'', JString ''phone'')]])]"

definition av_sample_policies :: av_policies where
  "av_sample_policies = [(''lead.update'', [(''stage'', False), (''phone'', True)])]"

lemma av_sample_validated: "validateOptions av_sample_options = Inr av_sample_policies"
  by code_simp

definition av_sample_lib :: av_lib where
  "av_sample_lib = \<lparr>vb_sha256 = (\<lambda>s. s), vb_numText = (\<lambda>_. ''1''), vb_dates = (\<lambda>_. None), vb_localeBefore = str_lt\<rparr>"

definition av_sample_env :: "string \<Rightarrow> av_env" where
  "av_sample_env c = \<lparr>vv_lib = av_sample_lib, vv_policies = av_sample_policies, vv_clock = Some 0, vv_newId = av_sample_id c,
     vv_appendFails = (\<lambda>_. False), vv_findFails = False,
     vv_authorize = (\<lambda>_ _. Inr (JObject [(''allowed'', JBool True), (''decisionId'', JString (av_sample_id ''d''))])),
     vv_others = []\<rparr>"

definition av_sample_actor :: js_value where
  "av_sample_actor = JObject [(''actorId'', JString ''alice''), (''actorType'', JString ''system'')]"

definition av_sample_trace :: string where
  "av_sample_trace = ''1234567890abcdef1234567890abcdef''"

definition av_sample_fact :: av_call where
  "av_sample_fact = Record_fact (av_sample_env ''a'') (JObject [(''action'', JString ''lead.update''), (''actor'', av_sample_actor),
     (''changes'', JArray [JObject [(''after'', JString ''won''), (''classification'', JString ''non_sensitive''), (''field'', JString ''stage'')],
        JObject [(''changed'', JBool True), (''classification'', JString ''sensitive''), (''field'', JString ''phone'')]]),
     (''reason'', JObject [(''code'', JString ''request'')]),
     (''resource'', JObject [(''resourceId'', JString ''1''), (''resourceType'', JString ''lead'')]),
     (''result'', JString ''succeeded''),
     (''trace'', JObject [(''operationId'', JString (av_sample_id ''1'')), (''traceId'', JString av_sample_trace)])])"

definition av_sample_question :: js_value where
  "av_sample_question = JObject [(''actor'', av_sample_actor), (''operationId'', JString (av_sample_id ''2'')),
     (''reason'', JString ''complaint''), (''recordId'', JString (av_sample_id ''a'')), (''traceId'', JString av_sample_trace)]"

definition av_sample_read :: "(av_failure + av_record) \<times> av_store" where
  "av_sample_read = readSensitive (av_sample_env ''b'') av_sample_question (run_all av_serve [av_sample_fact] empty_audit)"

definition av_sample_changes :: "av_change list" where
  "av_sample_changes = [Plain_change ''stage'' (Some (JString ''won'')) None, Sensitive_change ''phone'']"

lemma av_sample_outcome:
  "(case av_sample_read of (r, t) \<Rightarrow> (isOk r, map_option vd_changes (jm_get (vt_records t) (av_sample_id ''a'')),
      map_option vd_action (jm_get (vt_records t) (av_sample_id ''b''))))
    = (True, Some (Some av_sample_changes), Some ''audit.read_sensitive'')"
  by code_simp

lemma av_outcome_parts:
  "(case p of (r, t) \<Rightarrow> (f r, g t, h t)) = (x, y, z) \<Longrightarrow> f (fst p) = x \<and> g (snd p) = y \<and> h (snd p) = z"
  by (cases p) simp

lemmas av_sample_run = av_outcome_parts [OF av_sample_outcome]

definition av_sample_reading :: av_call where
  "av_sample_reading = Read_sensitive (av_sample_env ''b'') av_sample_question"

lemma av_sample_end: "run_all av_serve [av_sample_fact, av_sample_reading] empty_audit = snd av_sample_read"
  by (simp add: av_sample_read_def av_sample_reading_def voidA_def bindA_def split: prod.split sum.split)

lemma av_sample_fair:
  "list_all (\<lambda>c. vv_lib (av_env_of c) = av_sample_lib \<and> vv_policies (av_env_of c) = av_sample_policies)
    [av_sample_fact, av_sample_reading]"
  by (simp add: av_sample_fact_def av_sample_reading_def av_sample_env_def)

lemma audit_values_allowed_witness:
  "\<exists>r. jm_get (vt_records (snd av_sample_read)) (av_sample_id ''a'') = Some r
    \<and> change_ok av_sample_policies (vd_action r) (Sensitive_change ''phone'') \<and> \<not> forbidden_field ''phone''"
proof -
  obtain r where r: "jm_get (vt_records (snd av_sample_read)) (av_sample_id ''a'') = Some r"
    and cs: "vd_changes r = Some av_sample_changes"
    using av_sample_run by auto
  have "Sensitive_change ''phone'' \<in> set av_sample_changes" by (simp add: av_sample_changes_def)
  from audit_values_allowed [OF av_sample_validated av_sample_fair _ cs this] r show ?thesis
    unfolding av_sample_end by auto
qed

lemma sensitive_read_recorded_witness:
  "\<exists>c answer d (q :: av_record) a (k :: av_record). validateSensitiveAccess av_sample_question = Inr c
    \<and> vv_authorize (av_sample_env ''b'') (vs_actor c) (vs_recordId c) = Inr answer
    \<and> validateAuthorizationDecision answer = Inr (True, d) \<and> vd_reasonDetail q = Some (vs_reason c)
    \<and> jm_get (vt_records (snd av_sample_read)) a = Some k
    \<and> av_fingerprint av_sample_lib k = av_fingerprint av_sample_lib q"
proof -
  have call: "readSensitive (av_sample_env ''b'') av_sample_question (run_all av_serve [av_sample_fact] empty_audit)
      = (Inr (projr (fst av_sample_read)), snd av_sample_read)"
    using projr_ok av_sample_run unfolding av_sample_read_def by (metis prod.collapse)
  have lib: "vv_lib (av_sample_env ''b'') = av_sample_lib" by (simp add: av_sample_env_def)
  have fair: "list_all (\<lambda>c. vv_lib (av_env_of c) = vv_lib (av_sample_env ''b'')
      \<and> vv_policies (av_env_of c) = vv_policies (av_sample_env ''b'')) [av_sample_fact]"
    by (simp add: av_sample_fact_def av_sample_env_def)
  from sensitive_read_recorded [OF fair call] show ?thesis unfolding lib by blast
qed

lemma audit_append_only_witness:
  "jm_get (vt_records (snd av_sample_read)) (av_sample_id ''a'')
    = jm_get (vt_records (run_all av_serve [av_sample_fact] empty_audit)) (av_sample_id ''a'')"
proof -
  have "map_option vd_auditId (jm_get (vt_records (run_all av_serve [av_sample_fact] empty_audit)) (av_sample_id ''a'')) = Some (av_sample_id ''a'')"
    by code_simp
  then obtain r where r: "jm_get (vt_records (run_all av_serve [av_sample_fact] empty_audit)) (av_sample_id ''a'') = Some r"
    by auto
  from audit_append_only [of av_sample_lib av_sample_policies "[av_sample_fact]" "[av_sample_reading]", OF _ r] av_sample_fair
  show ?thesis unfolding append_Cons append_Nil av_sample_end r by simp
qed

end
