(* ===== verification/Spec2Isabelle.thy ===== *)
theory Spec2Isabelle
  imports Circuit Limiters Deadline Webhook Executor OrgHierarchy DirectoryInv Rabbit NotifyPages NotifyProps
    AuthProps SessionProps AccountSamples TaskSamples ConfigSamples AiSamples
    FileSamples AuditSamples
begin

text \<open>
  A verification library for the core of the AI-CRM repository (TypeScript, \<open>src/\<close>): its
  integration runtime, organization model, eventing core, notifications, access control, sign-in,
  task center, business configuration, AI gateway, file center and audit, modelled from the source and
  proved correct.

  \<^bold>\<open>Parts and where they are modelled.\<close> All paths are under \<open>src/packages/crm-modules/\<close>.

  \<^item> \<open>Prelude\<close>: a sum monad for code that throws, a state monad with exceptions for methods that
    mutate their object, JavaScript's insertion-ordered \<open>Map\<close>, runs of command lists, and the
    shared interfaces: \<open>guarded_machine\<close> and \<open>lawful_machine\<close> (every operation keeps the component's invariant),
    \<open>refinement\<close> (what a machine shows follows its specification) and
    \<open>idempotent_store\<close> (a store with an operation log: replay, conflict, fresh commit).
  \<^item> \<open>JsLib\<close>: what the code uses of JavaScript: numbers with \<open>NaN\<close> and the infinities, string
    shapes of the regular expressions, dates, JSON text, values of unknown type, stable sorting.
  \<^item> \<open>Retry\<close> (\<open>integration-runtime/src/errors.ts\<close>, \<open>retry.ts\<close>): policy validation and back-off.
  \<^item> \<open>Circuit\<close> (\<open>circuit-breaker.ts\<close>): the breaker's operations and the step relation of
    concurrent executions.
  \<^item> \<open>Limiters\<close> (\<open>limits.ts\<close>): the concurrency limiter with its queue, the fixed window limiter.
  \<^item> \<open>Deadline\<close> (\<open>deadline.ts\<close>): \<open>runWithDeadline\<close> and the deadline budget, over the list of
    events (timer, abort, settlement) the promise race sees.
  \<^item> \<open>Webhook\<close> (\<open>webhook.ts\<close>, \<open>testing.ts\<close>): webhook acceptance and replay protection.
  \<^item> \<open>Executor\<close> (\<open>executor.ts\<close>): the composition of the above; the run of an execution over a script
    of what each attempt meets.
  \<^item> \<open>Organization\<close>, \<open>OrgService\<close>, \<open>OrgHierarchy\<close> (\<open>organization/src/\<close>: \<open>types.ts\<close>,
    \<open>validation.ts\<close>, \<open>store.ts\<close>, \<open>memory-store.ts\<close>, \<open>service.ts\<close>): effective-dated facts, the store,
    the service, and the invariant of the organization's hierarchy.
  \<^item> \<open>Directory\<close>, \<open>DirectoryInv\<close> (\<open>directory-*.ts\<close>): the department directory.
  \<^item> \<open>EventValidation\<close>, \<open>EventStore\<close>, \<open>EventPublisher\<close>, \<open>EventCore\<close>, \<open>Rabbit\<close>
    (\<open>eventing-outbox/src/\<close>): envelopes, the outbox and inbox store, the publisher, the core, and
    broker deliveries.
  \<^item> \<open>NotifyTemplate\<close>, \<open>NotifyStore\<close>, \<open>Notifications\<close>, \<open>NotifyPages\<close>, \<open>NotifyProps\<close>
    (\<open>notifications/src/\<close>: \<open>validation.ts\<close>, \<open>template.ts\<close>, \<open>memory-store.ts\<close>, \<open>service.ts\<close>): templates
    and their releases, intents, the notification centre's commands and the pages a client reads.
  \<^item> \<open>Authorization\<close>, \<open>AuthProps\<close> (\<open>authorization/src/\<close>: \<open>types.ts\<close>, \<open>errors.ts\<close>, \<open>fixed-roles.ts\<close>): the
    permission bundles, the table of grants, the decision recorder and the service.
  \<^item> \<open>Workforce\<close>, \<open>WorkforceProps\<close>, \<open>WorkforceNames\<close>, \<open>PasswordLogin\<close> (\<open>workforce-access/src/\<close>: \<open>types.ts\<close>,
    \<open>validation.ts\<close>, \<open>memory-store.ts\<close>, \<open>service.ts\<close>, \<open>password-credentials.ts\<close>): accounts, their login
    identifiers, and the passwords.
  \<^item> \<open>Sessions\<close>, \<open>SessionProps\<close>, \<open>AccountAccess\<close> (\<open>src/apps/api/src/auth/\<close>: \<open>errors.ts\<close>,
    \<open>local-session-store.ts\<close>, \<open>account-access-service.ts\<close>): the sessions in Redis with the scripts that
    change them, and the operations behind the login endpoints.
  \<^item> \<open>TaskStore\<close>, \<open>TaskCenter\<close>, \<open>TaskProps\<close> (\<open>task-center/src/\<close>: \<open>types.ts\<close>, \<open>errors.ts\<close>,
    \<open>validation.ts\<close>, \<open>memory-store.ts\<close>, \<open>service.ts\<close>): the projections of the sources' tasks, the
    claims of commands, and the operations of the center.
  \<^item> \<open>ConfigData\<close>, \<open>ConfigStore\<close>, \<open>ConfigService\<close>, \<open>ConfigProps\<close>, \<open>ConfigSafety\<close>
    (\<open>business-configuration/src/\<close>: \<open>types.ts\<close>, \<open>errors.ts\<close>, \<open>validation.ts\<close>, \<open>store.ts\<close>,
    \<open>memory-store.ts\<close>, \<open>service.ts\<close>): dictionaries and their releases, parameters, their values and
    activations, and the resolution of a parameter in its scopes.
  \<^item> \<open>AiData\<close>, \<open>AiGateway\<close>, \<open>AiProps\<close> (\<open>ai-gateway/src/\<close>: \<open>types.ts\<close>, \<open>errors.ts\<close>,
    \<open>validation.ts\<close>, \<open>service.ts\<close>): use cases, the invocations and confirmations in progress or
    settled, proposals and call records.
  \<^item> \<open>FileData\<close>, \<open>FileStore\<close>, \<open>FileCenter\<close>, \<open>FileProps\<close>, \<open>FileSafety\<close> (\<open>file-center/src/\<close>: \<open>types.ts\<close>,
    \<open>errors.ts\<close>, \<open>validation.ts\<close>, \<open>memory-store.ts\<close>, \<open>service.ts\<close>): files, their content versions and
    upload sessions, scans and quarantine, links and downloads.
  \<^item> \<open>AuditTrail\<close>, \<open>AuditProps\<close> (\<open>audit/src/\<close>: \<open>types.ts\<close>, \<open>errors.ts\<close>, \<open>validation.ts\<close>,
    \<open>memory-store.ts\<close>, \<open>service.ts\<close>): records with the changes a field policy allows, the append-only
    store, and sensitive reads.

  \<^bold>\<open>How they interact.\<close> The executor runs an operation inside the concurrency limiter, inside the
  circuit breaker, inside a deadline taken from the budget, and repeats it as the retry policy says.
  The services check, authorize and commit to a store; a store keeps an operation log so that a
  repeated command is a replay. The eventing core writes messages to the outbox; the publisher
  claims rows and hands them to the broker's transport; the delivery handler validates a message and
  calls the core's \<open>consume\<close>, which runs a handler inside an inbox transaction.
  The notification centre authorizes and audits each command, renders the active release of a
  template for each recipient and accepts the intent into its store, idempotently by producer and key.
  A login admits the attempt in the session store, finds the account through the credential port,
  resolves the person's context in the organization, reads the grants and creates the session.
  The task center applies the sources' events to its store, and routes a completion to the source under
  a lease on its idempotency key. Business configuration authorizes and audits each change, and resolves a
  parameter from its store, with a cache beside it. The AI gateway registers an operation before it
  waits, so that a second invocation joins the first one. The file center authorizes twice, before and after
  it looks at what is protected, and moves a version on as storage and scanner answer. The audit records a
  sensitive read before it returns the record that was found.

  \<^bold>\<open>What the lemmas show.\<close> Bounds of the back-off; the breaker's and the limiters' invariants over
  every interleaving; that deadlines settle; that accepted webhooks are fresh, verified and never
  replayed; that an execution returns, starts the operation as often as its policy allows and leaks
  no slot; that interval comparisons agree with sets of instants; that stores replay, refuse
  conflicting commands and never lose history; that hierarchies stay acyclic; that messages are
  well formed, claimed by one publisher, settled as the broker answered, handled effectively once,
  and that deliveries are settled exactly once. That notifications
  are permanent and accepted once, that every change of the centre was authorized and audited, that
  the pages of a mailbox list each of its rows once, and that escaped text carries no markup. That a
  decision allows exactly what a grant permits, an active grant is unique and a revocation final; that
  login identifiers lead to one account, and passwords are replaced once per revision; that an
  account has one live session per surface and attempts are bounded. That the task center's
  projections refine the latest event of each task and so converge, a command accepted once is not sent
  again, and a list shows only tasks the actor may see. That a scope has one value of a parameter at a time,
  releases stay, published values have their declared type, and the cache never changes an answer. That the AI
  gateway charges and sends an operation at most once, proposes within the limits of its use case, and lets
  only persons confirm. That a content version goes one way through its life, is available only after a clean
  scan, and is downloaded only under a link and two decisions. That the audit trail only grows, holds values only
  where the policy allows them, and has each sensitive read.

  \<^bold>\<open>Abstractions.\<close> Strings are lists of 8-bit code units; numbers are exact rationals with \<open>NaN\<close> and
  the infinities instead of 64-bit floats. What is not under \<open>src/\<close> or is an environment's answer is a
  parameter: SHA-256, authorizers, signature verifiers, the broker, handlers, clocks and random
  sources, locale functions, the text of a number in JSON, engine-specific date formats.
  Synchronous stretches of code are atomic; where the code waits, other work is interleaved: as a
  step relation (breaker, limiters), as event lists (deadlines), as scripts (executor) or as a
  list of other store operations (publisher, consumption). Loops are structural or have a measure;
  the only fuel is in the department tree's builder, where the number of departments is enough.

  \<^bold>\<open>Not modelled.\<close> The PostgreSQL stores and migrations (their meaning is the database's), HTTP routing
  and process composition, the web user interface, logging and tracing adapters, durations in
  observations, and third-party engines (AJV, Mustache, BPMN, object storage). The other modules are listed in the plan.
\<close>

end
